(* ===== verification/Prelude.thy ===== *)
theory Prelude
  imports Main "HOL-Library.Multiset"
begin

text \<open>
  Shared ground of the development: the Go primitives the program uses (byte strings and the
  functions of package strings, 64-bit signed arithmetic, instants and durations, error values)
  and the list operations behind the program's slices, with the lemmas every component needs.

  A Go string is a list of bytes, here a HOL string. White space is Go's Unicode white space in
  its UTF-8 encoding; case mapping acts on the ASCII letters and leaves every other byte alone.
  An instant (time.Time) is the integer number of nanoseconds since Go's zero time, so IsZero is
  equality with 0; a duration is an int64 number of nanoseconds, with the wrap-around of int64
  multiplication written out.
\<close>

named_theorems go_simps \<open>unfolding rules of the Go primitives\<close>
named_theorems frame_simps \<open>what an operation leaves unchanged\<close>

section \<open>Strings\<close>

definition utf8_spaces :: "string list" where
  "utf8_spaces =
     [[CHR 0x09], [CHR 0x0A], [CHR 0x0B], [CHR 0x0C], [CHR 0x0D], [CHR 0x20],
      [CHR 0xC2, CHR 0x85], [CHR 0xC2, CHR 0xA0], [CHR 0xE1, CHR 0x9A, CHR 0x80],
      [CHR 0xE2, CHR 0x80, CHR 0x80], [CHR 0xE2, CHR 0x80, CHR 0x81],
      [CHR 0xE2, CHR 0x80, CHR 0x82], [CHR 0xE2, CHR 0x80, CHR 0x83],
      [CHR 0xE2, CHR 0x80, CHR 0x84], [CHR 0xE2, CHR 0x80, CHR 0x85],
      [CHR 0xE2, CHR 0x80, CHR 0x86], [CHR 0xE2, CHR 0x80, CHR 0x87],
      [CHR 0xE2, CHR 0x80, CHR 0x88], [CHR 0xE2, CHR 0x80, CHR 0x89],
      [CHR 0xE2, CHR 0x80, CHR 0x8A], [CHR 0xE2, CHR 0x80, CHR 0xA8],
      [CHR 0xE2, CHR 0x80, CHR 0xA9], [CHR 0xE2, CHR 0x80, CHR 0xAF],
      [CHR 0xE2, CHR 0x81, CHR 0x9F], [CHR 0xE3, CHR 0x80, CHR 0x80]]"

fun strip_prefix :: "string \<Rightarrow> string \<Rightarrow> string option" where
  "strip_prefix [] s = Some s"
| "strip_prefix (p # ps) [] = None"
| "strip_prefix (p # ps) (c # cs) = (if p = c then strip_prefix ps cs else None)"

fun strip_any :: "string list \<Rightarrow> string \<Rightarrow> string option" where
  "strip_any [] s = None"
| "strip_any (w # ws) s =
     (case strip_prefix w s of Some r \<Rightarrow> Some r | None \<Rightarrow> strip_any ws s)"

fun trim_front :: "string list \<Rightarrow> string \<Rightarrow> string" where
  "trim_front ws s =
     (case strip_any ws s of
        None \<Rightarrow> s
      | Some r \<Rightarrow> if length r < length s then trim_front ws r else s)"

declare trim_front.simps [simp del]

definition TrimSpace :: "string \<Rightarrow> string" where
  "TrimSpace s =
     rev (trim_front (map rev utf8_spaces) (rev (trim_front utf8_spaces s)))"

definition HasPrefix :: "string \<Rightarrow> string \<Rightarrow> bool" where
  "HasPrefix s p = (strip_prefix p s \<noteq> None)"

definition TrimPrefix :: "string \<Rightarrow> string \<Rightarrow> string" where
  "TrimPrefix s p = (case strip_prefix p s of None \<Rightarrow> s | Some r \<Rightarrow> r)"

definition ascii_lower :: "char \<Rightarrow> char" where
  "ascii_lower c =
     (let n = (of_char c :: nat) in if 65 \<le> n \<and> n \<le> 90 then char_of (n + 32) else c)"

definition ToLower :: "string \<Rightarrow> string" where
  "ToLower s = map ascii_lower s"

definition EqualFold :: "string \<Rightarrow> string \<Rightarrow> bool" where
  "EqualFold a b = (ToLower a = ToLower b)"

fun string_less :: "string \<Rightarrow> string \<Rightarrow> bool" where
  "string_less [] [] = False"
| "string_less [] (_ # _) = True"
| "string_less (_ # _) [] = False"
| "string_less (a # as) (b # bs) =
     (if (of_char a :: nat) < of_char b then True
      else if (of_char b :: nat) < of_char a then False else string_less as bs)"

fun nat_digits :: "nat \<Rightarrow> string" where
  "nat_digits n =
     (if n < 10 then [char_of (48 + n)] else nat_digits (n div 10) @ [char_of (48 + n mod 10)])"

declare nat_digits.simps [simp del]

definition Itoa :: "int \<Rightarrow> string" where
  "Itoa i = (if i < 0 then ''-'' @ nat_digits (nat (- i)) else nat_digits (nat i))"

fun JoinStrings :: "string list \<Rightarrow> string \<Rightarrow> string" where
  "JoinStrings [] sep = ''''"
| "JoinStrings [x] sep = x"
| "JoinStrings (x # y # ys) sep = x @ sep @ JoinStrings (y # ys) sep"

text \<open>The next step of a computation that may fail.\<close>

fun bind_sum :: "'e + 'a \<Rightarrow> ('a \<Rightarrow> 'e + 'b) \<Rightarrow> 'e + 'b" where
  "bind_sum (Inl e) f = Inl e"
| "bind_sum (Inr a) f = f a"

text \<open>strings.Trim(s, "/") and strings.Split(s, "/").\<close>

definition TrimSlash :: "string \<Rightarrow> string" where
  "TrimSlash s = rev (dropWhile (\<lambda>c. c = CHR 0x2F) (rev (dropWhile (\<lambda>c. c = CHR 0x2F) s)))"

fun SplitSlash :: "string \<Rightarrow> string list" where
  "SplitSlash [] = [[]]"
| "SplitSlash (c # cs) =
     (if c = CHR 0x2F then [] # SplitSlash cs
      else case SplitSlash cs of [] \<Rightarrow> [[c]] | p # ps \<Rightarrow> (c # p) # ps)"

definition defaultString :: "string \<Rightarrow> string \<Rightarrow> string" where
  "defaultString v fallback = (if TrimSpace v = [] then fallback else v)"

definition hex_digit :: "nat \<Rightarrow> char" where
  "hex_digit n = (if n < 10 then char_of (48 + n) else char_of (87 + n))"

definition quote_char :: "char \<Rightarrow> string" where
  "quote_char c =
     (let n = (of_char c :: nat) in
      if n = 34 then [CHR 0x5C, CHR 0x22]
      else if n = 92 then [CHR 0x5C, CHR 0x5C]
      else if n = 7 then [CHR 0x5C, CHR ''a'']
      else if n = 8 then [CHR 0x5C, CHR ''b'']
      else if n = 12 then [CHR 0x5C, CHR ''f'']
      else if n = 10 then [CHR 0x5C, CHR ''n'']
      else if n = 13 then [CHR 0x5C, CHR ''r'']
      else if n = 9 then [CHR 0x5C, CHR ''t'']
      else if n = 11 then [CHR 0x5C, CHR ''v'']
      else if n < 32 \<or> n = 127
        then [CHR 0x5C, CHR ''x'', hex_digit (n div 16), hex_digit (n mod 16)]
      else [c])"

text \<open>The verb %q of package fmt, on ASCII and on well-formed printable UTF-8.\<close>

definition Quote :: "string \<Rightarrow> string" where
  "Quote s = [CHR 0x22] @ concat (map quote_char s) @ [CHR 0x22]"

section \<open>Integers and instants\<close>

text \<open>The value an int64 holds after an operation whose exact result is the argument.\<close>

definition int64 :: "int \<Rightarrow> int" where
  "int64 x = signed_take_bit 63 x"

type_synonym time = int
type_synonym duration = int

definition IsZero :: "time \<Rightarrow> bool" where
  "IsZero t = (t = 0)"

definition Hour :: duration where "Hour = 3600000000000"
definition Second :: duration where "Second = 1000000000"

text \<open>The Go expression time.Duration(d) * 24 * time.Hour: two int64 products.\<close>

definition days_duration :: "int \<Rightarrow> duration" where
  "days_duration d = int64 (int64 (d * 24) * Hour)"

section \<open>Error values\<close>

text \<open>
  The errors the panel tells apart: plain errors (errors.New, fmt.Errorf) and the three
  deployment error types its handlers recognise with errors.As. The message is err.Error().
\<close>

datatype go_error =
    Plain (err_msg: string)
  | RoutingDeploymentError (err_msg: string)
  | OutboundDeploymentError (err_msg: string)
  | InboundDeploymentError (err_msg: string)

section \<open>Slices\<close>

fun upd_first :: "('a \<Rightarrow> bool) \<Rightarrow> ('a \<Rightarrow> 'a) \<Rightarrow> 'a list \<Rightarrow> 'a list" where
  "upd_first P f [] = []"
| "upd_first P f (x # xs) = (if P x then f x # xs else x # upd_first P f xs)"

fun index_of :: "('a \<Rightarrow> bool) \<Rightarrow> 'a list \<Rightarrow> int" where
  "index_of P [] = - 1"
| "index_of P (x # xs) = (if P x then 0 else (let i = index_of P xs in if i < 0 then - 1 else i + 1))"

text \<open>The Go idiom that opens a gap: append a zero element, copy(xs[i+1:], xs[i:]), store at i.\<close>

definition slice_insert :: "'a \<Rightarrow> nat \<Rightarrow> 'a \<Rightarrow> 'a list \<Rightarrow> 'a list" where
  "slice_insert zero i x xs =
     (let ys = xs @ [zero];
          n = min (length ys - (i + 1)) (length ys - i);
          zs = take (i + 1) ys @ take n (drop i ys) @ drop (i + 1 + n) ys
      in zs[i := x])"

section \<open>Guards\<close>

text \<open>A chain of guards that each return an error passes exactly when no guard fires.\<close>

lemma guard_None [go_simps]: "(if P then Some e else r) = None \<longleftrightarrow> \<not> P \<and> r = None"
  by simp

lemma guard_Inr [go_simps]: "(if P then Inl e else r) = Inr x \<longleftrightarrow> \<not> P \<and> r = Inr x"
  by simp

section \<open>Lemmas on the string functions\<close>

lemma strip_prefix_Some [simp]: "strip_prefix p s = Some r \<longleftrightarrow> s = p @ r"
  by (induction p s rule: strip_prefix.induct) auto

lemma strip_prefix_None: "strip_prefix p s = None \<longleftrightarrow> (\<forall>r. s \<noteq> p @ r)"
  by (induction p s rule: strip_prefix.induct) auto

lemma HasPrefix_append: "HasPrefix s p \<longleftrightarrow> (\<exists>r. s = p @ r)"
  by (auto simp: HasPrefix_def)

lemma strip_any_Some: "strip_any ws s = Some r \<Longrightarrow> \<exists>w \<in> set ws. s = w @ r"
  by (induction ws s rule: strip_any.induct) (auto split: option.splits)

lemma strip_any_None: "strip_any ws s = None \<longleftrightarrow> (\<forall>w \<in> set ws. \<forall>r. s \<noteq> w @ r)"
  by (induction ws s rule: strip_any.induct) (simp_all add: strip_prefix_None split: option.splits)

text \<open>A string is bare when no word of the list is a prefix of it: nothing is left to trim.\<close>

definition bare :: "string list \<Rightarrow> string \<Rightarrow> bool" where
  "bare ws s = (strip_any ws s = None)"

lemma bare_prefix: "bare ws (a @ b) \<Longrightarrow> bare ws a"
  by (auto simp: bare_def strip_any_None)

lemma trim_front_bare: "bare ws s \<Longrightarrow> trim_front ws s = s"
  by (simp add: bare_def trim_front.simps)

lemma bare_trim_front:
  assumes "[] \<notin> set ws"
  shows "bare ws (trim_front ws s)"
  using assms
proof (induction ws s rule: trim_front.induct)
  case (1 ws s)
  show ?case
  proof (cases "strip_any ws s")
    case None
    then show ?thesis by (simp add: bare_def trim_front.simps)
  next
    case (Some r)
    have "length r < length s"
      using strip_any_Some [OF Some] "1.prems" by auto
    with Some 1 show ?thesis by (simp add: trim_front.simps [of ws s])
  qed
qed

lemma trim_front_suffix: "\<exists>p. s = p @ trim_front ws s"
proof (induction ws s rule: trim_front.induct)
  case (1 ws s)
  show ?case
  proof (cases "strip_any ws s")
    case None
    then show ?thesis by (simp add: trim_front.simps)
  next
    case (Some r)
    obtain w where w: "s = w @ r" using strip_any_Some [OF Some] by blast
    show ?thesis
    proof (cases "length r < length s")
      case True
      then obtain p where "r = p @ trim_front ws r" using 1 Some by blast
      moreover have "trim_front ws s = trim_front ws r"
        using Some True by (simp add: trim_front.simps [of ws s])
      ultimately have "s = (w @ p) @ trim_front ws s" using w by simp
      then show ?thesis by blast
    next
      case False
      with Some show ?thesis by (simp add: trim_front.simps [of ws s])
    qed
  qed
qed

lemma utf8_spaces_nonempty [simp]: "[] \<notin> set utf8_spaces"
  by (simp add: utf8_spaces_def)

lemma rev_utf8_spaces_nonempty [simp]: "[] \<notin> rev ` set utf8_spaces"
  using utf8_spaces_nonempty by force

lemma TrimSpace_idem [simp]: "TrimSpace (TrimSpace s) = TrimSpace s"
proof -
  let ?a = "trim_front utf8_spaces s"
  let ?b = "trim_front (map rev utf8_spaces) (rev ?a)"
  have "bare utf8_spaces ?a" by (rule bare_trim_front) simp
  moreover obtain p where p: "rev ?a = p @ ?b" using trim_front_suffix by blast
  then have "rev (rev ?a) = rev (p @ ?b)" by (rule arg_cong)
  then have "?a = rev ?b @ rev p" by simp
  ultimately have "bare utf8_spaces (rev ?b)" by (metis bare_prefix)
  moreover have "bare (map rev utf8_spaces) ?b" by (rule bare_trim_front) simp
  ultimately show ?thesis by (simp add: TrimSpace_def trim_front_bare)
qed

lemma TrimSpace_Nil [simp]: "TrimSpace [] = []"
  by (simp add: TrimSpace_def trim_front.simps utf8_spaces_def)

lemma ascii_lower_idem [simp]: "ascii_lower (ascii_lower c) = ascii_lower c"
proof -
  have "(of_char c :: nat) < 256" by simp
  then show ?thesis by (auto simp: ascii_lower_def Let_def)
qed

lemma ToLower_idem [simp]: "ToLower (ToLower s) = ToLower s"
  by (simp add: ToLower_def)

lemma EqualFold_refl [simp]: "EqualFold s s"
  by (simp add: EqualFold_def)

lemma EqualFold_sym: "EqualFold a b \<longleftrightarrow> EqualFold b a"
  by (auto simp: EqualFold_def)

lemma string_less_irrefl [simp]: "\<not> string_less s s"
  by (induction s) auto

lemma string_less_total: "a \<noteq> b \<Longrightarrow> string_less a b \<or> string_less b a"
proof (induction a b rule: string_less.induct)
  case (4 a as b bs)
  then show ?case by (cases "(of_char a :: nat) = of_char b") (auto simp: not_less)
qed auto

lemma string_less_trans: "string_less a b \<Longrightarrow> string_less b c \<Longrightarrow> string_less a c"
proof (induction a b arbitrary: c rule: string_less.induct)
  case (4 a as b bs)
  then show ?case by (cases c) (auto split: if_splits)
next
  case (2 b bs)
  then show ?case by (cases c) auto
qed auto

lemma string_less_asym: "string_less a b \<Longrightarrow> \<not> string_less b a"
  using string_less_trans string_less_irrefl by blast

text \<open>Lower-casing does not touch the bytes of white space, so it commutes with trimming.\<close>

definition caseless :: "char \<Rightarrow> bool" where
  "caseless c =
     (let n = (of_char c :: nat) in \<not> (65 \<le> n \<and> n \<le> 90) \<and> \<not> (97 \<le> n \<and> n \<le> 122))"

lemma ascii_lower_caseless: "caseless c \<Longrightarrow> c = ascii_lower d \<longleftrightarrow> c = d"
  by (auto simp: caseless_def ascii_lower_def Let_def)

lemma caseless_spaces: "list_all (list_all caseless) utf8_spaces"
  by code_simp

lemma strip_prefix_lower:
  "list_all caseless w \<Longrightarrow> strip_prefix w (ToLower s) = map_option ToLower (strip_prefix w s)"
  unfolding ToLower_def
  by (induction w s rule: strip_prefix.induct) (simp_all add: ascii_lower_caseless)

lemma strip_any_lower:
  "list_all (list_all caseless) ws \<Longrightarrow>
   strip_any ws (ToLower s) = map_option ToLower (strip_any ws s)"
  by (induction ws s rule: strip_any.induct) (simp_all add: strip_prefix_lower del: strip_prefix_Some split: option.split)

lemma length_ToLower [simp]: "length (ToLower s) = length s"
  by (simp add: ToLower_def)

lemma rev_ToLower: "rev (ToLower s) = ToLower (rev s)"
  by (simp add: ToLower_def rev_map)

lemma trim_front_lower:
  assumes "list_all (list_all caseless) ws"
  shows "trim_front ws (ToLower s) = ToLower (trim_front ws s)"
  using assms
proof (induction ws s rule: trim_front.induct)
  case (1 ws s)
  then show ?case
    by (subst (1 2) trim_front.simps) (auto simp: strip_any_lower split: option.splits)
qed

lemma TrimSpace_ToLower [simp]: "TrimSpace (ToLower s) = ToLower (TrimSpace s)"
proof -
  have "list_all (list_all caseless) (map rev utf8_spaces)"
    using caseless_spaces by (simp add: list.pred_map comp_def list_all_rev)
  then show ?thesis
    using caseless_spaces by (simp add: TrimSpace_def trim_front_lower rev_ToLower)
qed

text \<open>A string none of whose characters begins or ends a white space is trimmed already.\<close>

lemma trim_front_hd:
  "\<forall>w \<in> set ws. w \<noteq> [] \<and> \<not> P (hd w) \<Longrightarrow> list_all P s \<Longrightarrow> trim_front ws s = s"
  by (rule trim_front_bare) (cases s; auto simp: bare_def strip_any_None neq_Nil_conv)

lemma TrimSpace_id:
  assumes "list_all (\<lambda>w. w \<noteq> [] \<and> \<not> P (hd w) \<and> \<not> P (last w)) utf8_spaces" "list_all P s"
  shows "TrimSpace s = s"
proof -
  have "trim_front utf8_spaces s = s"
    using assms by (intro trim_front_hd [where P = P]) (auto simp: list_all_iff)
  moreover have "trim_front (map rev utf8_spaces) (rev s) = rev s"
    using assms by (intro trim_front_hd [where P = P]) (auto simp: list_all_iff hd_rev)
  ultimately show ?thesis by (simp add: TrimSpace_def)
qed

section \<open>Lemmas on 64-bit values\<close>

lemma int64_id: "- (2 ^ 63) \<le> x \<Longrightarrow> x < 2 ^ 63 \<Longrightarrow> int64 x = x"
  by (simp add: int64_def signed_take_bit_int_eq_self)

lemma int64_bounds: "- (2 ^ 63) \<le> int64 x" "int64 x < 2 ^ 63"
  by (simp_all only: int64_def signed_take_bit_int_greater_eq_minus_exp signed_take_bit_int_less_exp)

lemma int64_0 [simp]: "int64 0 = 0"
  by (simp add: int64_def)

lemma int64_int64 [simp]: "int64 (int64 x) = int64 x"
  by (simp add: int64_def)

lemma int64_add_right [simp]: "int64 (a + int64 b) = int64 (a + b)"
  by (metis int64_def signed_take_bit_add signed_take_bit_signed_take_bit min.idem)

lemma int64_add_left [simp]: "int64 (int64 a + b) = int64 (a + b)"
  by (metis int64_add_right add.commute)

text \<open>Up to 106751 days the product fits in an int64; beyond, it wraps.\<close>

lemma days_duration_exact:
  assumes "0 \<le> d" "d \<le> 106751"
  shows "days_duration d = d * 86400000000000"
proof -
  have "int64 (d * 24) = d * 24" using assms by (intro int64_id) auto
  moreover have "int64 (d * 24 * Hour) = d * 24 * Hour"
    using assms by (intro int64_id) (auto simp: Hour_def)
  ultimately show ?thesis by (simp add: days_duration_def Hour_def)
qed

lemma days_duration_pos: "1 \<le> d \<Longrightarrow> d \<le> 106751 \<Longrightarrow> 0 < days_duration d"
  by (simp add: days_duration_exact)

lemma days_duration_wraps: "days_duration 106752 < 0"
  by (simp add: days_duration_def int64_def Hour_def signed_take_bit_def take_bit_eq_mod)

section \<open>Lemmas on slices\<close>

lemma find_None_iff': "List.find P xs = None \<longleftrightarrow> (\<forall>x \<in> set xs. \<not> P x)"
  by (auto simp: find_None_iff)

lemma find_Some_in: "List.find P xs = Some x \<Longrightarrow> x \<in> set xs \<and> P x"
  by (induction xs) (auto split: if_splits)

lemma length_upd_first [simp]: "length (upd_first P f xs) = length xs"
  by (induction xs) auto

lemma upd_first_id: "(\<And>x. x \<in> set xs \<Longrightarrow> P x \<Longrightarrow> f x = x) \<Longrightarrow> upd_first P f xs = xs"
  by (induction xs) auto

lemma upd_first_absent: "\<forall>x \<in> set xs. \<not> P x \<Longrightarrow> upd_first P f xs = xs"
  by (induction xs) auto

lemma map_upd_first: "(\<And>x. P x \<Longrightarrow> g (f x) = g x) \<Longrightarrow> map g (upd_first P f xs) = map g xs"
  by (induction xs) auto

lemma find_upd_first:
  assumes "\<And>x. P x \<Longrightarrow> P (f x)"
  shows "List.find P (upd_first P f xs) = map_option f (List.find P xs)"
  using assms by (induction xs) auto

lemma set_upd_first:
  "set (upd_first P f xs) \<subseteq> set xs \<union> f ` {x \<in> set xs. P x}"
  by (induction xs) auto

lemma upd_first_restore:
  assumes "List.find P xs = Some x" "\<And>y. P y \<Longrightarrow> P (f y)"
  shows "upd_first P (\<lambda>_. x) (upd_first P f xs) = xs"
  using assms by (induction xs) (auto split: if_splits)

lemma index_of_find:
  assumes "List.find P xs = Some x"
  shows "\<exists>i. index_of P xs = int i \<and> i < length xs \<and> xs ! i = x \<and> (\<forall>j < i. \<not> P (xs ! j))"
  using assms
proof (induction xs)
  case (Cons y ys)
  show ?case
  proof (cases "P y")
    case True
    with Cons.prems show ?thesis by (intro exI [of _ 0]) simp
  next
    case False
    with Cons obtain i where "index_of P ys = int i" "i < length ys" "ys ! i = x"
      "\<forall>j < i. \<not> P (ys ! j)" by auto
    with False show ?thesis
      by (intro exI [of _ "Suc i"]) (auto simp: nth_Cons split: nat.splits)
  qed
qed simp

lemma slice_insert_eq:
  assumes "i \<le> length xs"
  shows "slice_insert zero i x xs = take i xs @ x # drop i xs"
proof -
  let ?ys = "xs @ [zero]"
  let ?n = "min (length ?ys - (i + 1)) (length ?ys - i)"
  have n: "?n = length xs - i" by simp
  have "take (i + 1) ?ys @ take ?n (drop i ?ys) @ drop (i + 1 + ?n) ?ys
      = take i xs @ (?ys ! i) # drop i xs"
    unfolding n using assms
    by (cases "i = length xs") (simp_all add: take_Suc_conv_app_nth nth_append)
  then show ?thesis
    using assms by (simp add: slice_insert_def Let_def list_update_append)
qed

section \<open>Sorting\<close>

text \<open>
  The comparison functions the program hands to package sort are strict weak orders. SliceStable
  and Strings are modelled by the insertion sort that package sort itself uses on short slices,
  which is stable; for a strict weak order the result of a stable sort is unique, so this is what
  SliceStable returns at any length. sort.Slice promises no order of equal elements: it is an
  argument of the definitions that use it, under the contract slice_sort.
\<close>

definition strict_weak :: "('a \<Rightarrow> 'a \<Rightarrow> bool) \<Rightarrow> bool" where
  "strict_weak lt \<longleftrightarrow>
     (\<forall>a b. lt a b \<longrightarrow> \<not> lt b a) \<and> (\<forall>a b c. lt a c \<longrightarrow> lt a b \<or> lt b c)"

fun ins_back :: "('a \<Rightarrow> 'a \<Rightarrow> bool) \<Rightarrow> 'a \<Rightarrow> 'a list \<Rightarrow> 'a list" where
  "ins_back lt x [] = [x]"
| "ins_back lt x (y # ys) = (if lt x y then y # ins_back lt x ys else x # y # ys)"

definition insertion_sort :: "('a \<Rightarrow> 'a \<Rightarrow> bool) \<Rightarrow> 'a list \<Rightarrow> 'a list" where
  "insertion_sort lt xs = rev (fold (ins_back lt) xs [])"

definition in_order :: "('a \<Rightarrow> 'a \<Rightarrow> bool) \<Rightarrow> 'a list \<Rightarrow> bool" where
  "in_order lt xs = sorted_wrt (\<lambda>a b. \<not> lt b a) xs"

lemma strict_weak_asym: "strict_weak lt \<Longrightarrow> lt a b \<Longrightarrow> \<not> lt b a"
  by (simp add: strict_weak_def)

lemma strict_weak_not_trans:
  "strict_weak lt \<Longrightarrow> \<not> lt b a \<Longrightarrow> \<not> lt c b \<Longrightarrow> \<not> lt c a"
  unfolding strict_weak_def by blast

lemma strict_weak_string_less: "strict_weak (\<lambda>a b. string_less (f a) (f b))"
  unfolding strict_weak_def using string_less_asym string_less_total string_less_trans by metis

lemma strict_weak_int: "strict_weak (\<lambda>a b. (f a :: int) < f b)"
  by (auto simp: strict_weak_def)

lemma mset_ins_back [simp]: "mset (ins_back lt x ys) = add_mset x (mset ys)"
  by (induction ys) auto

lemma set_ins_back [simp]: "set (ins_back lt x ys) = insert x (set ys)"
  by (induction ys) auto

lemma sorted_ins_back:
  assumes "strict_weak lt" "sorted_wrt (\<lambda>a b. \<not> lt a b) ys"
  shows "sorted_wrt (\<lambda>a b. \<not> lt a b) (ins_back lt x ys)"
  using assms(2)
proof (induction ys)
  case (Cons y ys)
  then show ?case
    using assms(1) by (auto dest: strict_weak_asym strict_weak_not_trans)
qed simp

lemma mset_fold_ins_back: "mset (fold (ins_back lt) xs acc) = mset xs + mset acc"
  by (induction xs arbitrary: acc) auto

lemma sorted_fold_ins_back:
  "strict_weak lt \<Longrightarrow> sorted_wrt (\<lambda>a b. \<not> lt a b) acc \<Longrightarrow>
   sorted_wrt (\<lambda>a b. \<not> lt a b) (fold (ins_back lt) xs acc)"
  by (induction xs arbitrary: acc) (auto simp: sorted_ins_back)

lemma mset_insertion_sort [simp]: "mset (insertion_sort lt xs) = mset xs"
  by (simp add: insertion_sort_def mset_fold_ins_back)

lemma set_insertion_sort [simp]: "set (insertion_sort lt xs) = set xs"
  by (metis mset_insertion_sort set_mset_mset)

lemma length_insertion_sort [simp]: "length (insertion_sort lt xs) = length xs"
  by (metis mset_insertion_sort size_mset)

lemma distinct_insertion_sort [simp]: "distinct (insertion_sort lt xs) = distinct xs"
  by (rule mset_eq_imp_distinct_iff) simp

lemma in_order_insertion_sort: "strict_weak lt \<Longrightarrow> in_order lt (insertion_sort lt xs)"
  by (simp add: in_order_def insertion_sort_def sorted_wrt_rev sorted_fold_ins_back)

lemma ins_back_last:
  "(\<And>y. y \<in> set ys \<Longrightarrow> \<not> lt x y) \<Longrightarrow> ins_back lt x ys = x # ys"
  by (cases ys) auto

lemma fold_ins_back_sorted:
  "in_order lt (rev acc @ xs) \<Longrightarrow> fold (ins_back lt) xs acc = rev xs @ acc"
proof (induction xs arbitrary: acc)
  case (Cons x xs)
  have "ins_back lt x acc = x # acc"
    using Cons.prems by (intro ins_back_last) (auto simp: in_order_def sorted_wrt_append)
  with Cons show ?case by simp
qed simp

lemma insertion_sort_sorted: "in_order lt xs \<Longrightarrow> insertion_sort lt xs = xs"
  using fold_ins_back_sorted [of lt "[]" xs] by (simp add: insertion_sort_def)

locale slice_sort =
  fixes srt :: "('a \<Rightarrow> 'a \<Rightarrow> bool) \<Rightarrow> 'a list \<Rightarrow> 'a list"
  assumes srt_mset: "mset (srt lt xs) = mset xs"
    and srt_in_order: "strict_weak lt \<Longrightarrow> in_order lt (srt lt xs)"
begin

lemma srt_set: "set (srt lt xs) = set xs"
  by (metis srt_mset set_mset_mset)

lemma srt_length: "length (srt lt xs) = length xs"
  by (metis srt_mset size_mset)

lemma srt_distinct: "distinct (srt lt xs) = distinct xs"
  by (rule mset_eq_imp_distinct_iff) (rule srt_mset)

text \<open>The elements cut off behind a prefix of the sorted slice are not before any kept one.\<close>

lemma srt_take:
  assumes "strict_weak lt" "x \<in> set (take n (srt lt xs))" "y \<in> set (drop n (srt lt xs))"
  shows "\<not> lt y x"
proof -
  have "in_order lt (take n (srt lt xs) @ drop n (srt lt xs))"
    using srt_in_order [OF assms(1), of xs] by simp
  with assms(2,3) show ?thesis
    by (simp only: in_order_def sorted_wrt_append) blast
qed

end

interpretation insertion: slice_sort insertion_sort
  by unfold_locales (simp_all add: in_order_insertion_sort)

lemma in_map_filter: "y \<in> set (List.map_filter f xs) \<longleftrightarrow> (\<exists>x \<in> set xs. f x = Some y)"
  by (induction xs) (auto simp: map_filter_simps split: option.splits)

end
