(* ===== verification/Models.thy ===== *)
theory Models
  imports Prelude "HOL-Library.Word"
begin

text \<open>
  The panel's data model, src/internal/panel/models.go: one record per struct, one field per
  field, in the source's order. A field is named by a prefix for its struct and the Go field
  name (User.Status is u_Status). Strings are byte strings, int and int64 fields are integers in
  the range of int64, time.Time is an instant (0 is the zero time), *time.Time an optional
  instant, and the float64 and uint64 metrics, which the panel only stores and shows, are their
  64-bit patterns. Settings is a map.
\<close>

type_synonym float64 = "64 word"
type_synonym uint64 = "64 word"

definition NodeStatusUnknown :: string where "NodeStatusUnknown = ''unknown''"
definition NodeStatusOnline :: string where "NodeStatusOnline = ''online''"
definition NodeStatusDegraded :: string where "NodeStatusDegraded = ''degraded''"
definition NodeStatusOffline :: string where "NodeStatusOffline = ''offline''"
definition NodeStatusMaintenance :: string where "NodeStatusMaintenance = ''maintenance''"
definition NodeStatusDisabled :: string where "NodeStatusDisabled = ''disabled''"

lemmas node_status_defs =
  NodeStatusUnknown_def NodeStatusOnline_def NodeStatusDegraded_def NodeStatusOffline_def
  NodeStatusMaintenance_def NodeStatusDisabled_def

record Admin =
  a_ID :: string
  a_Username :: string
  a_PasswordHash :: string
  a_Role :: string
  a_TOTPSecret :: string
  a_Enabled :: bool
  a_CreatedAt :: time

record Plan =
  p_ID :: string
  p_Name :: string
  p_DataLimitBytes :: int
  p_DurationDays :: int
  p_DeviceLimit :: int
  p_ResetIntervalDays :: int
  p_Enabled :: bool
  p_CreatedAt :: time
  p_UpdatedAt :: time

record User =
  u_ID :: string
  u_Username :: string
  u_DisplayName :: string
  u_Email :: string
  u_Status :: string
  u_StatusReason :: string
  u_PlanID :: string
  u_ExpiresAt :: time
  u_DataLimitBytes :: int
  u_TrafficUsedBytes :: int
  u_XrayTrafficBytes :: int
  u_WireGuardTrafficBytes :: int
  u_DeviceLimit :: int
  u_ResetIntervalDays :: int
  u_LastTrafficResetAt :: time
  u_NextTrafficResetAt :: time
  u_Online :: bool
  u_OnlineIPs :: int
  u_LastOnlineAt :: time
  u_SubscriptionToken :: string
  u_CreatedAt :: time
  u_UpdatedAt :: time

record NodeMetrics =
  nm_Hostname :: string
  nm_Kernel :: string
  nm_CoreVersion :: string
  nm_UptimeSeconds :: float64
  nm_Load1 :: float64
  nm_Load5 :: float64
  nm_Load15 :: float64
  nm_MemoryTotal :: uint64
  nm_MemoryAvailable :: uint64
  nm_DiskTotal :: uint64
  nm_DiskFree :: uint64
  nm_NetworkRX :: uint64
  nm_NetworkTX :: uint64

record Node =
  n_ID :: string
  n_Name :: string
  n_Role :: string
  n_PublicIP :: string
  n_AgentURL :: string
  n_AgentTokenEnc :: string
  n_InternetInterface :: string
  n_Enabled :: bool
  n_Maintenance :: bool
  n_Status :: string
  n_FailureCount :: int
  n_LastError :: string
  n_Tags :: "string list"
  n_LastSeen :: time
  n_Metrics :: NodeMetrics
  n_CreatedAt :: time
  n_UpdatedAt :: time

record Tunnel =
  t_ID :: string
  t_Name :: string
  t_SourceNodeID :: string
  t_DestinationNodeID :: string
  t_Transport :: string
  t_Profile :: string
  t_Ports :: "int list"
  t_MTU :: int
  t_CIDR :: string
  t_Interface :: string
  t_Status :: string
  t_VNI :: int
  t_CreatedAt :: time
  t_UpdatedAt :: time

record Inbound =
  in_ID :: string
  in_Name :: string
  in_Protocol :: string
  in_NodeID :: string
  in_Listen :: string
  in_Port :: int
  in_Transport :: string
  in_TLSMode :: string
  in_Enabled :: bool
  in_Status :: string
  in_Remark :: string
  in_Path :: string
  in_Host :: string
  in_ServiceName :: string
  in_ServerName :: string
  in_CertFile :: string
  in_KeyFile :: string
  in_RealityDest :: string
  in_RealityServerNames :: "string list"
  in_RealityPrivateKeyEnc :: string
  in_RealityPublicKey :: string
  in_RealityShortIDs :: "string list"
  in_RealityFingerprint :: string
  in_ShadowsocksMethod :: string
  in_ShadowsocksServerPasswordEnc :: string
  in_CreatedAt :: time
  in_UpdatedAt :: time

record InboundClient =
  ic_ID :: string
  ic_InboundID :: string
  ic_UserID :: string
  ic_Email :: string
  ic_CredentialEnc :: string
  ic_Enabled :: bool
  ic_CreatedAt :: time

record Outbound =
  out_ID :: string
  out_Name :: string
  out_NodeID :: string
  out_Tag :: string
  out_Protocol :: string
  out_Address :: string
  out_Port :: int
  out_Username :: string
  out_PasswordEnc :: string
  out_Transport :: string
  out_TLSMode :: string
  out_Path :: string
  out_Host :: string
  out_ServiceName :: string
  out_ServerName :: string
  out_AllowInsecure :: bool
  out_Fingerprint :: string
  out_Flow :: string
  out_ShadowsocksMethod :: string
  out_RealityPublicKey :: string
  out_RealityShortID :: string
  out_WireGuardInterface :: string
  out_WireGuardAddress :: string
  out_WireGuardPeerPublicKey :: string
  out_WireGuardAllowedIPs :: "string list"
  out_WireGuardKeepalive :: int
  out_WireGuardMTU :: int
  out_TorSOCKSPort :: int
  out_OpenVPNInterface :: string
  out_OpenVPNRoutingTable :: int
  out_OpenVPNMark :: int
  out_CustomXrayProtocol :: string
  out_HealthStatus :: string
  out_HealthLatencyMS :: int
  out_HealthLastCheckedAt :: "time option"
  out_HealthLastSuccessAt :: "time option"
  out_HealthLastError :: string
  out_HealthFailureCount :: int
  out_HealthTarget :: string
  out_Enabled :: bool
  out_Remark :: string
  out_CreatedAt :: time
  out_UpdatedAt :: time

record OutboundGroupMember =
  ogm_OutboundID :: string
  ogm_Priority :: int
  ogm_Weight :: int

record OutboundGroup =
  og_ID :: string
  og_Name :: string
  og_NodeID :: string
  og_Strategy :: string
  og_Members :: "OutboundGroupMember list"
  og_FallbackOutboundID :: string
  og_Expected :: int
  og_Enabled :: bool
  og_CreatedAt :: time
  og_UpdatedAt :: time

record RoutingRule =
  rr_ID :: string
  rr_Name :: string
  rr_NodeID :: string
  rr_Priority :: int
  rr_Enabled :: bool
  rr_InboundIDs :: "string list"
  rr_UserIDs :: "string list"
  rr_Domains :: "string list"
  rr_IPs :: "string list"
  rr_Ports :: string
  rr_Network :: string
  rr_Protocols :: "string list"
  rr_OutboundID :: string
  rr_OutboundGroupID :: string
  rr_CreatedAt :: time
  rr_UpdatedAt :: time

record PortForward =
  pf_ID :: string
  pf_NodeID :: string
  pf_Protocol :: string
  pf_ListenPort :: int
  pf_DestIP :: string
  pf_DestPort :: int
  pf_Enabled :: bool
  pf_CreatedAt :: time

record VPNPeer =
  vp_ID :: string
  vp_UserID :: string
  vp_NodeID :: string
  vp_DeviceName :: string
  vp_Interface :: string
  vp_Address :: string
  vp_PublicKey :: string
  vp_PrivateKeyEnc :: string
  vp_ConfigEnc :: string
  vp_ServerPublicKey :: string
  vp_Endpoint :: string
  vp_Enabled :: bool
  vp_RXBytes :: int
  vp_TXBytes :: int
  vp_RXBaseBytes :: int
  vp_TXBaseBytes :: int
  vp_CreatedAt :: time

record AuditEntry =
  ae_ID :: string
  ae_AdminID :: string
  ae_AdminName :: string
  ae_Action :: string
  ae_Object :: string
  ae_RemoteIP :: string
  ae_CreatedAt :: time

record State =
  st_Schema :: int
  st_Admins :: "Admin list"
  st_Plans :: "Plan list"
  st_Users :: "User list"
  st_Nodes :: "Node list"
  st_Tunnels :: "Tunnel list"
  st_Inbounds :: "Inbound list"
  st_InboundClients :: "InboundClient list"
  st_Outbounds :: "Outbound list"
  st_OutboundGroups :: "OutboundGroup list"
  st_RoutingRules :: "RoutingRule list"
  st_Forwards :: "PortForward list"
  st_VPNPeers :: "VPNPeer list"
  st_Audit :: "AuditEntry list"
  st_Settings :: "string \<rightharpoonup> string"

end
