(* ===== verification/Store.thy ===== *)
theory Store
  imports Models
begin

text \<open>
  The panel's state store, src/internal/panel/store.go: the on-disk form of the state and its
  conversions, Read and Update with their all-or-nothing contract, the temp-file-and-rename
  protocol of saveStateLocked, the lookups by ID behind which every handler works, and the
  effective limits of a user.

  A Store value is the in-memory state together with the world outside the process (disk, node
  agents, entropy), of any type. A pointer returned by a find function and written through is a
  pair of a lookup and an update of the first row with that ID. The disk form carries the secret
  fields that the API form hides with the tag json:"-"; json_view is what a Marshal and Unmarshal
  round trip keeps of it. The read-write mutex makes Read and Update atomic, so each is one step.
\<close>

section \<open>The on-disk form\<close>

record diskAdmin =
  da_Admin :: Admin
  da_PasswordHash :: string
  da_TOTPSecret :: string

record diskNode =
  dn_Node :: Node
  dn_AgentTokenEnc :: string

record diskInbound =
  di_Inbound :: Inbound
  di_RealityPrivateKeyEnc :: string
  di_ShadowsocksServerPasswordEnc :: string

record diskInboundClient =
  dic_InboundClient :: InboundClient
  dic_CredentialEnc :: string

record diskOutbound =
  do_Outbound :: Outbound
  do_PasswordEnc :: string

record diskVPNPeer =
  dvp_VPNPeer :: VPNPeer
  dvp_PrivateKeyEnc :: string
  dvp_ConfigEnc :: string

record diskState =
  ds_Schema :: int
  ds_Admins :: "diskAdmin list"
  ds_Plans :: "Plan list"
  ds_Users :: "User list"
  ds_Nodes :: "diskNode list"
  ds_Tunnels :: "Tunnel list"
  ds_Inbounds :: "diskInbound list"
  ds_InboundClients :: "diskInboundClient list"
  ds_Outbounds :: "diskOutbound list"
  ds_OutboundGroups :: "OutboundGroup list"
  ds_RoutingRules :: "RoutingRule list"
  ds_Forwards :: "PortForward list"
  ds_VPNPeers :: "diskVPNPeer list"
  ds_Audit :: "AuditEntry list"
  ds_Settings :: "string \<rightharpoonup> string"

definition stateToDisk :: "State \<Rightarrow> diskState" where
  "stateToDisk st =
     \<lparr>ds_Schema = st_Schema st,
      ds_Admins = map (\<lambda>x. \<lparr>da_Admin = x, da_PasswordHash = a_PasswordHash x,
                            da_TOTPSecret = a_TOTPSecret x\<rparr>) (st_Admins st),
      ds_Plans = st_Plans st,
      ds_Users = st_Users st,
      ds_Nodes = map (\<lambda>x. \<lparr>dn_Node = x, dn_AgentTokenEnc = n_AgentTokenEnc x\<rparr>) (st_Nodes st),
      ds_Tunnels = st_Tunnels st,
      ds_Inbounds = map (\<lambda>x. \<lparr>di_Inbound = x,
                              di_RealityPrivateKeyEnc = in_RealityPrivateKeyEnc x,
                              di_ShadowsocksServerPasswordEnc = in_ShadowsocksServerPasswordEnc x\<rparr>)
                        (st_Inbounds st),
      ds_InboundClients = map (\<lambda>x. \<lparr>dic_InboundClient = x, dic_CredentialEnc = ic_CredentialEnc x\<rparr>)
                              (st_InboundClients st),
      ds_Outbounds = map (\<lambda>x. \<lparr>do_Outbound = x, do_PasswordEnc = out_PasswordEnc x\<rparr>)
                         (st_Outbounds st),
      ds_OutboundGroups = st_OutboundGroups st,
      ds_RoutingRules = st_RoutingRules st,
      ds_Forwards = st_Forwards st,
      ds_VPNPeers = map (\<lambda>x. \<lparr>dvp_VPNPeer = x, dvp_PrivateKeyEnc = vp_PrivateKeyEnc x,
                              dvp_ConfigEnc = vp_ConfigEnc x\<rparr>) (st_VPNPeers st),
      ds_Audit = st_Audit st,
      ds_Settings = st_Settings st\<rparr>"

definition diskToState :: "diskState \<Rightarrow> State" where
  "diskToState d =
     \<lparr>st_Schema = ds_Schema d,
      st_Admins = map (\<lambda>x. (da_Admin x)\<lparr>a_PasswordHash := da_PasswordHash x,
                                         a_TOTPSecret := da_TOTPSecret x\<rparr>) (ds_Admins d),
      st_Plans = ds_Plans d,
      st_Users = ds_Users d,
      st_Nodes = map (\<lambda>x. (dn_Node x)\<lparr>n_AgentTokenEnc := dn_AgentTokenEnc x\<rparr>) (ds_Nodes d),
      st_Tunnels = ds_Tunnels d,
      st_Inbounds = map (\<lambda>x. (di_Inbound x)
                            \<lparr>in_RealityPrivateKeyEnc := di_RealityPrivateKeyEnc x,
                             in_ShadowsocksServerPasswordEnc := di_ShadowsocksServerPasswordEnc x\<rparr>)
                        (ds_Inbounds d),
      st_InboundClients = map (\<lambda>x. (dic_InboundClient x)\<lparr>ic_CredentialEnc := dic_CredentialEnc x\<rparr>)
                              (ds_InboundClients d),
      st_Outbounds = map (\<lambda>x. (do_Outbound x)\<lparr>out_PasswordEnc := do_PasswordEnc x\<rparr>)
                         (ds_Outbounds d),
      st_OutboundGroups = ds_OutboundGroups d,
      st_RoutingRules = ds_RoutingRules d,
      st_Forwards = ds_Forwards d,
      st_VPNPeers = map (\<lambda>x. (dvp_VPNPeer x)\<lparr>vp_PrivateKeyEnc := dvp_PrivateKeyEnc x,
                                              vp_ConfigEnc := dvp_ConfigEnc x\<rparr>) (ds_VPNPeers d),
      st_Audit = ds_Audit d,
      st_Settings = ds_Settings d\<rparr>"

text \<open>
  The fields tagged json:"-" of the embedded records are neither written nor read by package
  json: after a round trip they are empty.
\<close>

definition json_view :: "diskState \<Rightarrow> diskState" where
  "json_view d =
     d\<lparr>ds_Admins := map (\<lambda>x. x\<lparr>da_Admin := (da_Admin x)\<lparr>a_PasswordHash := '''', a_TOTPSecret := ''''\<rparr>\<rparr>)
                        (ds_Admins d),
       ds_Nodes := map (\<lambda>x. x\<lparr>dn_Node := (dn_Node x)\<lparr>n_AgentTokenEnc := ''''\<rparr>\<rparr>) (ds_Nodes d),
       ds_Inbounds := map (\<lambda>x. x\<lparr>di_Inbound := (di_Inbound x)
                            \<lparr>in_RealityPrivateKeyEnc := '''', in_ShadowsocksServerPasswordEnc := ''''\<rparr>\<rparr>)
                          (ds_Inbounds d),
       ds_InboundClients := map (\<lambda>x. x\<lparr>dic_InboundClient := (dic_InboundClient x)
                                         \<lparr>ic_CredentialEnc := ''''\<rparr>\<rparr>) (ds_InboundClients d),
       ds_Outbounds := map (\<lambda>x. x\<lparr>do_Outbound := (do_Outbound x)\<lparr>out_PasswordEnc := ''''\<rparr>\<rparr>)
                           (ds_Outbounds d),
       ds_VPNPeers := map (\<lambda>x. x\<lparr>dvp_VPNPeer := (dvp_VPNPeer x)
                                   \<lparr>vp_PrivateKeyEnc := '''', vp_ConfigEnc := ''''\<rparr>\<rparr>) (ds_VPNPeers d)\<rparr>"

lemma diskToState_stateToDisk: "diskToState (json_view (stateToDisk st)) = st"
  by (simp add: diskToState_def json_view_def stateToDisk_def comp_def)

section \<open>Opening the store\<close>

text \<open>What os.ReadFile and json.Unmarshal make of the state file.\<close>

datatype state_file =
    NoFile
  | Unreadable go_error
  | BadJSON go_error
  | JsonDoc diskState

definition emptyState :: State where
  "emptyState =
     \<lparr>st_Schema = 2, st_Admins = [], st_Plans = [], st_Users = [], st_Nodes = [], st_Tunnels = [],
      st_Inbounds = [], st_InboundClients = [], st_Outbounds = [], st_OutboundGroups = [],
      st_RoutingRules = [], st_Forwards = [], st_VPNPeers = [], st_Audit = [],
      st_Settings = [''site_name'' \<mapsto> ''GameBridge'']\<rparr>"

fun OpenStore :: "state_file \<Rightarrow> go_error + State" where
  "OpenStore NoFile = Inr emptyState"
| "OpenStore (Unreadable e) = Inl e"
| "OpenStore (BadJSON e) = Inl e"
| "OpenStore (JsonDoc d) =
     (let st = diskToState d
      in Inr (if st_Schema st < 2 then st\<lparr>st_Schema := 2\<rparr> else st))"

section \<open>Read and Update\<close>

definition cloneState :: "State \<Rightarrow> State" where
  "cloneState st =
     st\<lparr>st_Admins := [] @ st_Admins st,
        st_Plans := [] @ st_Plans st,
        st_Users := [] @ st_Users st,
        st_Nodes := map (\<lambda>n. n\<lparr>n_Tags := [] @ n_Tags n\<rparr>) (st_Nodes st),
        st_Tunnels := map (\<lambda>t. t\<lparr>t_Ports := [] @ t_Ports t\<rparr>) (st_Tunnels st),
        st_Inbounds := map (\<lambda>x. x\<lparr>in_RealityServerNames := [] @ in_RealityServerNames x,
                                   in_RealityShortIDs := [] @ in_RealityShortIDs x\<rparr>) (st_Inbounds st),
        st_InboundClients := [] @ st_InboundClients st,
        st_Outbounds := map (\<lambda>x. x\<lparr>out_WireGuardAllowedIPs := [] @ out_WireGuardAllowedIPs x\<rparr>)
                            (st_Outbounds st),
        st_OutboundGroups := map (\<lambda>g. g\<lparr>og_Members := [] @ og_Members g\<rparr>) (st_OutboundGroups st),
        st_RoutingRules := map (\<lambda>r. r\<lparr>rr_InboundIDs := [] @ rr_InboundIDs r,
                                       rr_UserIDs := [] @ rr_UserIDs r,
                                       rr_Domains := [] @ rr_Domains r,
                                       rr_IPs := [] @ rr_IPs r,
                                       rr_Protocols := [] @ rr_Protocols r\<rparr>) (st_RoutingRules st),
        st_Forwards := [] @ st_Forwards st,
        st_VPNPeers := [] @ st_VPNPeers st,
        st_Audit := [] @ st_Audit st,
        st_Settings := st_Settings st\<rparr>"

text \<open>Lists are values here, so a deep copy is the state itself.\<close>

lemma cloneState_id [simp]: "cloneState st = st"
  by (simp add: cloneState_def)

record 'w Store =
  store_st :: State
  store_world :: 'w

type_synonym 'w saver = "State \<Rightarrow> 'w \<Rightarrow> go_error option \<times> 'w"

definition Read :: "(State \<Rightarrow> 'a) \<Rightarrow> 'w Store \<Rightarrow> 'a" where
  "Read fn s = fn (cloneState (store_st s))"

text \<open>
  The callback returns an error or the value its closure captured with the new state. Update
  keeps the old state unless both the callback and the save succeed.
\<close>

definition Update ::
  "'w saver \<Rightarrow> (State \<Rightarrow> go_error + 'a \<times> State) \<Rightarrow> 'w Store \<Rightarrow> (go_error + 'a) \<times> 'w Store" where
  "Update save fn s =
     (case fn (cloneState (store_st s)) of
        Inl e \<Rightarrow> (Inl e, s)
      | Inr (a, next) \<Rightarrow>
          (case save next (store_world s) of
             (Some e, w) \<Rightarrow> (Inl e, s\<lparr>store_world := w\<rparr>)
           | (None, w) \<Rightarrow> (Inr a, s\<lparr>store_st := next, store_world := w\<rparr>)))"

text \<open>The call _ = s.store.Update(...) with a callback that cannot fail.\<close>

definition UpdateST :: "'w saver \<Rightarrow> (State \<Rightarrow> State) \<Rightarrow> 'w Store \<Rightarrow> 'w Store" where
  "UpdateST save f s = snd (Update save (\<lambda>st. Inr ((), f st)) s)"

lemma Update_Inl:
  "Update save fn s = (Inl e, s') \<Longrightarrow> store_st s' = store_st s"
  by (auto simp: Update_def split: sum.splits prod.splits option.splits)

lemma Update_Inr:
  "Update save fn s = (Inr a, s') \<Longrightarrow> fn (store_st s) = Inr (a, store_st s')"
  by (auto simp: Update_def split: sum.splits prod.splits option.splits)

lemma Update_cases:
  obtains (err) e where "Update save fn s = (Inl e, snd (Update save fn s))"
      "store_st (snd (Update save fn s)) = store_st s"
  | (ok) a where "Update save fn s = (Inr a, snd (Update save fn s))"
      "fn (store_st s) = Inr (a, store_st (snd (Update save fn s)))"
  by (cases "Update save fn s"; cases "fst (Update save fn s)")
     (auto dest: Update_Inl Update_Inr)

lemma UpdateST_st:
  "store_st (UpdateST save f s) = store_st s \<or> store_st (UpdateST save f s) = f (store_st s)"
  by (auto simp: UpdateST_def Update_def split: prod.splits option.splits)

lemma UpdateST_frame [frame_simps]:
  "(\<And>st. v (f st) = v st) \<Longrightarrow> v (store_st (UpdateST save f s)) = v (store_st s)"
  using UpdateST_st [of save f s] by auto

end
