(* ===== verification/Persist.thy ===== *)
theory Persist
  imports Store
begin

text \<open>
  How the store reaches the disk: saveStateLocked of src/internal/panel/store.go, with every
  failure of the system calls it makes, and the crash behaviour of its temp-file-and-rename
  protocol. The disk maps a path to what OpenStore would find there. The contract durable_save is
  what the rest of the panel may rely on; saveStateLocked is shown to meet it, so after every
  Update a restart reads exactly the state in memory.
\<close>

section \<open>The save and its failures\<close>

datatype save_fault =
    NoFault
  | MkdirFails go_error
  | MarshalFails go_error
  | WriteFails go_error
  | RenameFails go_error

type_synonym files = "string \<Rightarrow> state_file"

record disk =
  d_files :: files
  d_faults :: "save_fault list"

definition tmpPath :: "string \<Rightarrow> string" where
  "tmpPath path = path @ ''.tmp''"

definition stateDoc :: "State \<Rightarrow> state_file" where
  "stateDoc st = JsonDoc (json_view (stateToDisk st))"

definition tornFile :: state_file where
  "tornFile = BadJSON (Plain ''unexpected end of JSON input'')"

text \<open>
  The environment decides, call by call, which system call fails (no entry: none does). A failed
  write leaves a torn temporary file, a failed rename a complete one; neither touches the path.
\<close>

definition saveStateLocked :: "string \<Rightarrow> disk saver" where
  "saveStateLocked path st d =
     (let fault = (case d_faults d of [] \<Rightarrow> NoFault | f # _ \<Rightarrow> f);
          d1 = d\<lparr>d_faults := tl (d_faults d)\<rparr>;
          tmp = tmpPath path
      in case fault of
           MkdirFails e \<Rightarrow> (Some e, d1)
         | MarshalFails e \<Rightarrow> (Some e, d1)
         | WriteFails e \<Rightarrow> (Some e, d1\<lparr>d_files := (d_files d1)(tmp := tornFile)\<rparr>)
         | RenameFails e \<Rightarrow> (Some e, d1\<lparr>d_files := (d_files d1)(tmp := stateDoc st)\<rparr>)
         | NoFault \<Rightarrow>
             (None, d1\<lparr>d_files := (d_files d1)(tmp := NoFile, path := stateDoc st)\<rparr>))"

definition onDisk :: "string \<Rightarrow> disk \<Rightarrow> State option" where
  "onDisk path d = (case OpenStore (d_files d path) of Inl _ \<Rightarrow> None | Inr st \<Rightarrow> Some st)"

lemma tmpPath_neq [simp]: "tmpPath path \<noteq> path" "path \<noteq> tmpPath path"
  by (simp_all add: tmpPath_def)

lemma OpenStore_stateDoc [simp]:
  "2 \<le> st_Schema st \<Longrightarrow> OpenStore (stateDoc st) = Inr st"
  by (simp add: stateDoc_def diskToState_stateToDisk)

section \<open>The contract of a saver\<close>

locale durable_save =
  fixes save :: "'w saver" and durable :: "'w \<Rightarrow> State option"
  assumes save_ok: "2 \<le> st_Schema st \<Longrightarrow> save st w = (None, w') \<Longrightarrow> durable w' = Some st"
    and save_err: "save st w = (Some e, w') \<Longrightarrow> durable w' = durable w"
begin

text \<open>A store is synced when a restart would read exactly the state in memory.\<close>

definition synced :: "'w Store \<Rightarrow> bool" where
  "synced s \<longleftrightarrow> durable (store_world s) = Some (store_st s) \<and> 2 \<le> st_Schema (store_st s)"

lemma Update_synced:
  assumes "synced s" "\<And>st a st'. fn st = Inr (a, st') \<Longrightarrow> st_Schema st' = st_Schema st"
  shows "synced (snd (Update save fn s))"
proof (cases "fn (store_st s)")
  case (Inl e)
  with assms(1) show ?thesis by (simp add: Update_def)
next
  case (Inr p)
  obtain a st' where p: "p = (a, st')" by (cases p)
  obtain r w' where save: "save st' (store_world s) = (r, w')" by fastforce
  have "2 \<le> st_Schema st'"
    using assms(1) assms(2) [of "store_st s" a st'] Inr p by (simp add: synced_def)
  with assms(1) Inr p save show ?thesis
    by (cases r) (auto simp: synced_def Update_def dest: save_ok save_err)
qed

lemma UpdateST_synced:
  "synced s \<Longrightarrow> (\<And>st. st_Schema (f st) = st_Schema st) \<Longrightarrow> synced (UpdateST save f s)"
  unfolding UpdateST_def by (rule Update_synced) auto

end

interpretation file_save: durable_save "saveStateLocked path" "onDisk path" for path
proof
  fix st w w'
  assume "2 \<le> st_Schema st" "saveStateLocked path st w = (None, w')"
  then show "onDisk path w' = Some st"
    by (auto simp: saveStateLocked_def onDisk_def Let_def split: save_fault.splits)
next
  fix st w e w'
  assume "saveStateLocked path st w = (Some e, w')"
  then show "onDisk path w' = onDisk path w"
    by (auto simp: saveStateLocked_def onDisk_def Let_def split: save_fault.splits)
qed

section \<open>Crashes in the middle of a save\<close>

text \<open>
  The save as a step relation: the temporary file is created empty, grows by partial writes, is
  complete, and replaces the state file in one rename. A crash stops the run at any point.
\<close>

datatype save_pc = SaveStart | Writing | Written | Renamed

inductive save_step ::
  "string \<Rightarrow> State \<Rightarrow> save_pc \<times> files \<Rightarrow> save_pc \<times> files \<Rightarrow> bool" for path st where
  open_tmp: "save_step path st (SaveStart, fs) (Writing, fs(tmpPath path := tornFile))"
| partial: "save_step path st (Writing, fs) (Writing, fs(tmpPath path := tornFile))"
| complete: "save_step path st (Writing, fs) (Written, fs(tmpPath path := stateDoc st))"
| rename: "save_step path st (Written, fs)
             (Renamed, fs(path := fs (tmpPath path), tmpPath path := NoFile))"

inductive_cases save_stepE: "save_step path st (pc, fs) (pc', fs')"

definition save_inv :: "string \<Rightarrow> State \<Rightarrow> files \<Rightarrow> save_pc \<times> files \<Rightarrow> bool" where
  "save_inv path st fs0 c =
     (case c of (pc, fs) \<Rightarrow>
        (pc = Written \<longrightarrow> fs (tmpPath path) = stateDoc st) \<and>
        fs path = (if pc = Renamed then stateDoc st else fs0 path))"

lemma save_step_inv: "save_step path st c c' \<Longrightarrow> save_inv path st fs0 c \<Longrightarrow> save_inv path st fs0 c'"
  by (induction rule: save_step.induct) (auto simp: save_inv_def)

lemma save_steps_inv:
  assumes "(save_step path st)\<^sup>*\<^sup>* (SaveStart, fs0) c"
  shows "save_inv path st fs0 c"
  using assms
proof (induction rule: rtranclp_induct)
  case base
  show ?case by (simp add: save_inv_def)
next
  case (step c c')
  then show ?case by (blast intro: save_step_inv)
qed

section \<open>Properties\<close>

text \<open>
  C5: a crash at any point of a save leaves a state file that opens as the complete old state or,
  once the rename has happened, as the complete new one; never a torn mixture.
\<close>

theorem save_crash_atomic:
  assumes "(save_step path st)\<^sup>*\<^sup>* (SaveStart, fs) (pc, fs')" "2 \<le> st_Schema st"
  shows "OpenStore (fs' path) = (if pc = Renamed then Inr st else OpenStore (fs path))"
  using save_steps_inv [OF assms(1)] assms(2) by (simp add: save_inv_def)

theorem save_crash_atomic_witness:
  "OpenStore (((\<lambda>_. NoFile)(tmpPath ''s'' := tornFile)) ''s'') = OpenStore NoFile"
proof -
  have "(save_step ''s'' emptyState)\<^sup>*\<^sup>*
          (SaveStart, \<lambda>_. NoFile) (Writing, (\<lambda>_. NoFile)(tmpPath ''s'' := tornFile))"
    by (rule r_into_rtranclp) (rule open_tmp)
  then show ?thesis
    by (rule save_crash_atomic [THEN trans]) (simp_all add: emptyState_def)
qed

text \<open>
  C32: whatever fails in a save, an Update leaves memory and disk in agreement: after it, as before
  it, a restart of the panel reads exactly the state in memory (the callback only has to leave
  the schema number alone).
\<close>

theorem update_survives_restart:
  assumes "OpenStore (d_files (store_world s) path) = Inr (store_st s)"
    and "2 \<le> st_Schema (store_st s)"
    and "\<And>st a st'. fn st = Inr (a, st') \<Longrightarrow> st_Schema st' = st_Schema st"
    and "Update (saveStateLocked path) fn s = (r, s')"
  shows "OpenStore (d_files (store_world s') path) = Inr (store_st s')"
proof -
  have "file_save.synced path s"
    using assms(1,2) by (simp add: file_save.synced_def onDisk_def)
  then have "file_save.synced path (snd (Update (saveStateLocked path) fn s))"
    by (rule file_save.Update_synced) (rule assms(3))
  then have "file_save.synced path s'" by (simp add: assms(4))
  then show ?thesis by (auto simp: file_save.synced_def onDisk_def split: sum.splits)
qed

theorem update_survives_restart_witness:
  "let s = \<lparr>store_st = emptyState,
            store_world = \<lparr>d_files = (\<lambda>_. NoFile),
                           d_faults = [WriteFails (Plain ''no space left on device'')]\<rparr>\<rparr>;
       s' = snd (Update (saveStateLocked ''s'') (\<lambda>st. Inr ((), st\<lparr>st_Users := []\<rparr>)) s)
   in OpenStore (d_files (store_world s') ''s'') = Inr (store_st s')"
  unfolding Let_def
  by (rule update_survives_restart [OF _ _ _ prod.collapse [symmetric]])
     (auto simp: emptyState_def)

end
