(* ===== verification/Tables.thy ===== *)
theory Tables
  imports Store
begin

text \<open>
  The tables of the state: the lookups, deletions and effective limits of
  src/internal/panel/store.go and outbound_groups.go, and the reference checks of
  reference_safety.go. Every table is a slice of rows with an ID; the locale table states what the
  panel relies on when it looks a row up, writes through the pointer, deletes it and puts it back,
  and is interpreted on each table of the state.
\<close>

section \<open>Lookup, update and deletion by ID\<close>

definition find_row :: "('r \<Rightarrow> string) \<Rightarrow> 'r list \<Rightarrow> string \<Rightarrow> 'r option" where
  "find_row key xs rid = List.find (\<lambda>x. key x = rid) xs"

definition upd_row :: "('r \<Rightarrow> string) \<Rightarrow> string \<Rightarrow> ('r \<Rightarrow> 'r) \<Rightarrow> 'r list \<Rightarrow> 'r list" where
  "upd_row key rid f xs = upd_first (\<lambda>x. key x = rid) f xs"

definition deleteByID :: "'r list \<Rightarrow> string \<Rightarrow> ('r \<Rightarrow> string) \<Rightarrow> 'r list" where
  "deleteByID a rid get = filter (\<lambda>x. get x \<noteq> rid) a"

text \<open>The rollback of a deletion: nothing if a row with the ID is back, else reinsert at the index.\<close>

definition reinsert_row :: "('r \<Rightarrow> string) \<Rightarrow> 'r \<Rightarrow> string \<Rightarrow> int \<Rightarrow> 'r \<Rightarrow> 'r list \<Rightarrow> 'r list" where
  "reinsert_row key zero rid index before xs =
     (if find_row key xs rid \<noteq> None then xs
      else if index < 0 \<or> int (length xs) < index then xs @ [before]
      else slice_insert zero (nat index) before xs)"

lemma find_row_None: "find_row key xs rid = None \<longleftrightarrow> rid \<notin> key ` set xs"
  by (auto simp: find_row_def find_None_iff')

lemma find_row_Some: "find_row key xs rid = Some x \<Longrightarrow> x \<in> set xs \<and> key x = rid"
  by (auto simp: find_row_def dest: find_Some_in)

lemma find_row_upd:
  assumes "\<And>x. key x = rid \<Longrightarrow> key (f x) = rid"
  shows "find_row key (upd_row key rid f xs) rid = map_option f (find_row key xs rid)"
  unfolding find_row_def upd_row_def using assms by (rule find_upd_first)

lemma find_row_upd_other:
  assumes "\<And>x. key x = rid \<Longrightarrow> key (f x) = rid" "rid' \<noteq> rid"
  shows "find_row key (upd_row key rid f xs) rid' = find_row key xs rid'"
  using assms by (induction xs) (auto simp: find_row_def upd_row_def)

lemma keys_upd_row: "(\<And>x. key x = rid \<Longrightarrow> key (f x) = rid) \<Longrightarrow>
   map key (upd_row key rid f xs) = map key xs"
  unfolding upd_row_def by (rule map_upd_first) metis

lemma upd_row_restore:
  assumes "find_row key xs rid = Some x" "\<And>y. key y = rid \<Longrightarrow> key (f y) = rid"
  shows "upd_row key rid (\<lambda>_. x) (upd_row key rid f xs) = xs"
  using assms unfolding find_row_def upd_row_def by (rule upd_first_restore)

lemma delete_absent [simp]: "rid \<notin> key ` set xs \<Longrightarrow> deleteByID xs rid key = xs"
  by (auto simp: deleteByID_def intro!: filter_True)

lemma delete_append_new: "rid \<notin> key ` set xs \<Longrightarrow> key x = rid \<Longrightarrow> deleteByID (xs @ [x]) rid key = xs"
  using delete_absent [of rid key xs] by (simp add: deleteByID_def)

lemma find_delete [simp]: "find_row key (deleteByID xs rid key) rid = None"
  by (auto simp: find_row_None deleteByID_def)

lemma find_delete_other:
  "rid' \<noteq> rid \<Longrightarrow> find_row key (deleteByID xs rid key) rid' = find_row key xs rid'"
  by (induction xs) (auto simp: find_row_def deleteByID_def)

lemma distinct_delete: "distinct (map key xs) \<Longrightarrow> distinct (map key (deleteByID xs rid key))"
  by (simp add: deleteByID_def distinct_map_filter)

text \<open>With distinct IDs, reinserting the deleted row at its index restores the slice.\<close>

lemma reinsert_delete:
  assumes found: "find_row key xs rid = Some x" and dist: "distinct (map key xs)"
  shows "reinsert_row key zero rid (index_of (\<lambda>y. key y = rid) xs) x (deleteByID xs rid key) = xs"
proof -
  obtain i where i: "index_of (\<lambda>y. key y = rid) xs = int i" "i < length xs" "xs ! i = x"
    using index_of_find [OF found [unfolded find_row_def]] by blast
  have key: "key x = rid" using find_row_Some [OF found] by simp
  have xs: "xs = take i xs @ x # drop (Suc i) xs" using i(2,3) by (metis id_take_nth_drop)
  with dist have "distinct (map key (take i xs @ x # drop (Suc i) xs))" by simp
  then have "rid \<notin> key ` set (take i xs)" "rid \<notin> key ` set (drop (Suc i) xs)"
    using key by auto
  then have "deleteByID (take i xs) rid key = take i xs"
    "deleteByID (drop (Suc i) xs) rid key = drop (Suc i) xs" by simp_all
  then have del: "deleteByID xs rid key = take i xs @ drop (Suc i) xs"
    by (subst xs) (simp add: deleteByID_def key)
  have le: "i \<le> length (deleteByID xs rid key)" using i(2) by (simp add: del)
  have "slice_insert zero i x (deleteByID xs rid key) = xs"
    unfolding slice_insert_eq [OF le] unfolding del using i(2) by (simp add: xs [symmetric])
  then show ?thesis using le by (simp add: reinsert_row_def i(1))
qed

section \<open>The contract of a table\<close>

locale table =
  fixes rows :: "State \<Rightarrow> 'r list"
    and map_rows :: "('r list \<Rightarrow> 'r list) \<Rightarrow> State \<Rightarrow> State"
    and key :: "'r \<Rightarrow> string"
  assumes rows_map [simp]: "rows (map_rows f st) = f (rows st)"
    and map_map [simp]: "map_rows f (map_rows g st) = map_rows (f \<circ> g) st"
    and map_same: "f (rows st) = rows st \<Longrightarrow> map_rows f st = st"
begin

lemma create_then_rollback:
  assumes "rid \<notin> key ` set (rows st)" "key x = rid"
  shows "map_rows (\<lambda>xs. deleteByID xs rid key) (map_rows (\<lambda>xs. xs @ [x]) st) = st"
  using assms by (simp add: map_same delete_append_new)

lemma update_then_rollback:
  assumes "find_row key (rows st) rid = Some x" "\<And>y. key y = rid \<Longrightarrow> key (f y) = rid"
  shows "map_rows (upd_row key rid (\<lambda>_. x)) (map_rows (upd_row key rid f) st) = st"
  using assms by (simp add: map_same upd_row_restore)

lemma delete_then_rollback:
  assumes "find_row key (rows st) rid = Some x" "distinct (map key (rows st))"
    "index = index_of (\<lambda>y. key y = rid) (rows st)"
  shows "map_rows (reinsert_row key zero rid index x) (map_rows (\<lambda>xs. deleteByID xs rid key) st) = st"
  using assms by (simp add: map_same reinsert_delete)

end

interpretation admins: table st_Admins st_Admins_update a_ID
  by unfold_locales (simp_all add: comp_def)
interpretation plans: table st_Plans st_Plans_update p_ID
  by unfold_locales (simp_all add: comp_def)
interpretation users: table st_Users st_Users_update u_ID
  by unfold_locales (simp_all add: comp_def)
interpretation nodes: table st_Nodes st_Nodes_update n_ID
  by unfold_locales (simp_all add: comp_def)
interpretation tunnels: table st_Tunnels st_Tunnels_update t_ID
  by unfold_locales (simp_all add: comp_def)
interpretation inbounds: table st_Inbounds st_Inbounds_update in_ID
  by unfold_locales (simp_all add: comp_def)
interpretation outbounds: table st_Outbounds st_Outbounds_update out_ID
  by unfold_locales (simp_all add: comp_def)
interpretation groups: table st_OutboundGroups st_OutboundGroups_update og_ID
  by unfold_locales (simp_all add: comp_def)
interpretation rules: table st_RoutingRules st_RoutingRules_update rr_ID
  by unfold_locales (simp_all add: comp_def)
interpretation forwards: table st_Forwards st_Forwards_update pf_ID
  by unfold_locales (simp_all add: comp_def)
interpretation peers: table st_VPNPeers st_VPNPeers_update vp_ID
  by unfold_locales (simp_all add: comp_def)

section \<open>The find functions\<close>

definition findUser :: "State \<Rightarrow> string \<Rightarrow> User option" where
  "findUser st rid = find_row u_ID (st_Users st) rid"
definition findPlan :: "State \<Rightarrow> string \<Rightarrow> Plan option" where
  "findPlan st rid = find_row p_ID (st_Plans st) rid"
definition findNode :: "State \<Rightarrow> string \<Rightarrow> Node option" where
  "findNode st rid = find_row n_ID (st_Nodes st) rid"
definition findInbound :: "State \<Rightarrow> string \<Rightarrow> Inbound option" where
  "findInbound st rid = find_row in_ID (st_Inbounds st) rid"
definition findOutbound :: "State \<Rightarrow> string \<Rightarrow> Outbound option" where
  "findOutbound st rid = find_row out_ID (st_Outbounds st) rid"
definition findRoutingRule :: "State \<Rightarrow> string \<Rightarrow> RoutingRule option" where
  "findRoutingRule st rid = find_row rr_ID (st_RoutingRules st) rid"
definition findTunnel :: "State \<Rightarrow> string \<Rightarrow> Tunnel option" where
  "findTunnel st rid = find_row t_ID (st_Tunnels st) rid"
definition findPeer :: "State \<Rightarrow> string \<Rightarrow> VPNPeer option" where
  "findPeer st rid = find_row vp_ID (st_VPNPeers st) rid"
definition findOutboundGroup :: "State \<Rightarrow> string \<Rightarrow> OutboundGroup option" where
  "findOutboundGroup st rid = find_row og_ID (st_OutboundGroups st) rid"

lemmas find_defs = findUser_def findPlan_def findNode_def findInbound_def findOutbound_def
  findRoutingRule_def findTunnel_def findPeer_def findOutboundGroup_def

text \<open>Writing through the pointer a find function returned.\<close>

definition updUser :: "string \<Rightarrow> (User \<Rightarrow> User) \<Rightarrow> State \<Rightarrow> State" where
  "updUser rid f st = st\<lparr>st_Users := upd_row u_ID rid f (st_Users st)\<rparr>"
definition updNode :: "string \<Rightarrow> (Node \<Rightarrow> Node) \<Rightarrow> State \<Rightarrow> State" where
  "updNode rid f st = st\<lparr>st_Nodes := upd_row n_ID rid f (st_Nodes st)\<rparr>"
definition updPlan :: "string \<Rightarrow> (Plan \<Rightarrow> Plan) \<Rightarrow> State \<Rightarrow> State" where
  "updPlan rid f st = st\<lparr>st_Plans := upd_row p_ID rid f (st_Plans st)\<rparr>"
definition updInbound :: "string \<Rightarrow> (Inbound \<Rightarrow> Inbound) \<Rightarrow> State \<Rightarrow> State" where
  "updInbound rid f st = st\<lparr>st_Inbounds := upd_row in_ID rid f (st_Inbounds st)\<rparr>"
definition updOutbound :: "string \<Rightarrow> (Outbound \<Rightarrow> Outbound) \<Rightarrow> State \<Rightarrow> State" where
  "updOutbound rid f st = st\<lparr>st_Outbounds := upd_row out_ID rid f (st_Outbounds st)\<rparr>"
definition updOutboundGroup :: "string \<Rightarrow> (OutboundGroup \<Rightarrow> OutboundGroup) \<Rightarrow> State \<Rightarrow> State" where
  "updOutboundGroup rid f st = st\<lparr>st_OutboundGroups := upd_row og_ID rid f (st_OutboundGroups st)\<rparr>"
definition updRoutingRule :: "string \<Rightarrow> (RoutingRule \<Rightarrow> RoutingRule) \<Rightarrow> State \<Rightarrow> State" where
  "updRoutingRule rid f st = st\<lparr>st_RoutingRules := upd_row rr_ID rid f (st_RoutingRules st)\<rparr>"
definition updPeer :: "string \<Rightarrow> (VPNPeer \<Rightarrow> VPNPeer) \<Rightarrow> State \<Rightarrow> State" where
  "updPeer rid f st = st\<lparr>st_VPNPeers := upd_row vp_ID rid f (st_VPNPeers st)\<rparr>"
definition updTunnel :: "string \<Rightarrow> (Tunnel \<Rightarrow> Tunnel) \<Rightarrow> State \<Rightarrow> State" where
  "updTunnel rid f st = st\<lparr>st_Tunnels := upd_row t_ID rid f (st_Tunnels st)\<rparr>"

lemmas upd_defs = updUser_def updNode_def updPlan_def updInbound_def updOutbound_def
  updOutboundGroup_def updRoutingRule_def updPeer_def updTunnel_def

section \<open>Deletions of dependent rows\<close>

definition deleteUserVPNPeers :: "VPNPeer list \<Rightarrow> string \<Rightarrow> VPNPeer list" where
  "deleteUserVPNPeers peers userID = filter (\<lambda>p. vp_UserID p \<noteq> userID) peers"

definition deleteUserInboundClients :: "InboundClient list \<Rightarrow> string \<Rightarrow> InboundClient list" where
  "deleteUserInboundClients clients userID = filter (\<lambda>c. ic_UserID c \<noteq> userID) clients"

definition deleteString :: "string list \<Rightarrow> string \<Rightarrow> string list" where
  "deleteString values target = filter (\<lambda>v. v \<noteq> target) values"

definition deleteOutboundGroupByID :: "OutboundGroup list \<Rightarrow> string \<Rightarrow> OutboundGroup list" where
  "deleteOutboundGroupByID groups rid = filter (\<lambda>g. og_ID g \<noteq> rid) groups"

lemma deleteOutboundGroupByID_eq: "deleteOutboundGroupByID gs rid = deleteByID gs rid og_ID"
  by (simp add: deleteOutboundGroupByID_def deleteByID_def)

definition normalizeUsername :: "string \<Rightarrow> string" where
  "normalizeUsername v = ToLower (TrimSpace v)"

section \<open>Reference safety\<close>

definition stringSliceContains :: "string list \<Rightarrow> string \<Rightarrow> bool" where
  "stringSliceContains values needle = list_ex (\<lambda>v. v = needle) values"

definition validateNodeDeleteReferences :: "State \<Rightarrow> string \<Rightarrow> go_error option" where
  "validateNodeDeleteReferences st nodeID =
     (if list_ex (\<lambda>t. t_SourceNodeID t = nodeID \<or> t_DestinationNodeID t = nodeID) (st_Tunnels st)
        then Some (Plain ''node has attached tunnels'')
      else if list_ex (\<lambda>x. in_NodeID x = nodeID) (st_Inbounds st)
        then Some (Plain ''node has attached inbounds'')
      else if list_ex (\<lambda>x. out_NodeID x = nodeID) (st_Outbounds st)
        then Some (Plain ''node has attached outbounds'')
      else if list_ex (\<lambda>g. og_NodeID g = nodeID) (st_OutboundGroups st)
        then Some (Plain ''node has attached outbound groups'')
      else if list_ex (\<lambda>r. rr_NodeID r = nodeID) (st_RoutingRules st)
        then Some (Plain ''node has attached routing rules'')
      else if list_ex (\<lambda>f. pf_NodeID f = nodeID) (st_Forwards st)
        then Some (Plain ''node has attached port forwards'')
      else if list_ex (\<lambda>p. vp_NodeID p = nodeID) (st_VPNPeers st)
        then Some (Plain ''node has attached VPN peers'')
      else None)"

fun validateInboundRefs ::
  "RoutingRule list \<Rightarrow> string \<Rightarrow> string \<Rightarrow> bool \<Rightarrow> bool \<Rightarrow> go_error option" where
  "validateInboundRefs [] inboundID newNodeID enabled deleting = None"
| "validateInboundRefs (rule # rest) inboundID newNodeID enabled deleting =
     (if \<not> stringSliceContains (rr_InboundIDs rule) inboundID
        then validateInboundRefs rest inboundID newNodeID enabled deleting
      else if deleting
        then Some (Plain (''inbound is referenced by routing rule '' @ Quote (rr_Name rule)))
      else if rr_NodeID rule \<noteq> newNodeID
        then Some (Plain (''inbound is referenced by routing rule '' @ Quote (rr_Name rule)
                          @ '' on node '' @ rr_NodeID rule))
      else if \<not> enabled \<and> rr_Enabled rule
        then Some (Plain (''inbound is used by enabled routing rule '' @ Quote (rr_Name rule)))
      else validateInboundRefs rest inboundID newNodeID enabled deleting)"

definition validateInboundReferenceChange ::
  "State \<Rightarrow> string \<Rightarrow> string \<Rightarrow> bool \<Rightarrow> bool \<Rightarrow> go_error option" where
  "validateInboundReferenceChange st inboundID newNodeID enabled deleting =
     validateInboundRefs (st_RoutingRules st) inboundID newNodeID enabled deleting"

lemma stringSliceContains_iff [simp]: "stringSliceContains xs x \<longleftrightarrow> x \<in> set xs"
  by (auto simp: stringSliceContains_def list_ex_iff)

lemma validateInboundRefs_None:
  "validateInboundRefs rules rid n en del = None \<longleftrightarrow>
     (\<forall>r \<in> set rules. rid \<in> set (rr_InboundIDs r) \<longrightarrow>
        \<not> del \<and> rr_NodeID r = n \<and> (en \<or> \<not> rr_Enabled r))"
  by (induction rules) auto

lemma validateInboundReferenceChange_None:
  "validateInboundReferenceChange st rid n en del = None \<longleftrightarrow>
     (\<forall>r \<in> set (st_RoutingRules st). rid \<in> set (rr_InboundIDs r) \<longrightarrow>
        \<not> del \<and> rr_NodeID r = n \<and> (en \<or> \<not> rr_Enabled r))"
  by (simp add: validateInboundReferenceChange_def validateInboundRefs_None)

text \<open>Every row of the state that names a node by its ID.\<close>

definition node_refs :: "State \<Rightarrow> string set" where
  "node_refs st =
     t_SourceNodeID ` set (st_Tunnels st) \<union> t_DestinationNodeID ` set (st_Tunnels st) \<union>
     in_NodeID ` set (st_Inbounds st) \<union> out_NodeID ` set (st_Outbounds st) \<union>
     og_NodeID ` set (st_OutboundGroups st) \<union> rr_NodeID ` set (st_RoutingRules st) \<union>
     pf_NodeID ` set (st_Forwards st) \<union> vp_NodeID ` set (st_VPNPeers st)"

lemma validateNodeDeleteReferences_None:
  "validateNodeDeleteReferences st rid = None \<longleftrightarrow> rid \<notin> node_refs st"
  unfolding validateNodeDeleteReferences_def node_refs_def list_ex_iff
  by (simp only: guard_None simp_thms Un_iff image_iff) blast

section \<open>Effective limits\<close>

definition effectiveUserLimit :: "State \<Rightarrow> User \<Rightarrow> int" where
  "effectiveUserLimit st u =
     (if u_DataLimitBytes u > 0 then u_DataLimitBytes u
      else case findPlan st (u_PlanID u) of Some p \<Rightarrow> p_DataLimitBytes p | None \<Rightarrow> 0)"

definition effectiveDeviceLimit :: "State \<Rightarrow> User \<Rightarrow> int" where
  "effectiveDeviceLimit st u =
     (if u_DeviceLimit u > 0 then u_DeviceLimit u
      else case findPlan st (u_PlanID u) of
             Some p \<Rightarrow> if p_DeviceLimit p > 0 then p_DeviceLimit p else 1
           | None \<Rightarrow> 1)"

definition effectiveResetIntervalDays :: "State \<Rightarrow> User \<Rightarrow> int" where
  "effectiveResetIntervalDays st u =
     (if u_ResetIntervalDays u > 0 then u_ResetIntervalDays u
      else case findPlan st (u_PlanID u) of
             Some p \<Rightarrow> if p_ResetIntervalDays p > 0 then p_ResetIntervalDays p else 0
           | None \<Rightarrow> 0)"

definition maybeSetPlanExpiry :: "State \<Rightarrow> time \<Rightarrow> time \<Rightarrow> User \<Rightarrow> User" where
  "maybeSetPlanExpiry st now now' u =
     (let u1 = (if IsZero (u_ExpiresAt u)
                then case findPlan st (u_PlanID u) of
                       Some p \<Rightarrow> if p_DurationDays p > 0
                                then u\<lparr>u_ExpiresAt := now + days_duration (p_DurationDays p)\<rparr> else u
                     | None \<Rightarrow> u
                else u)
      in if IsZero (u_NextTrafficResetAt u1)
         then let days = effectiveResetIntervalDays st u1
              in if days > 0 then u1\<lparr>u_NextTrafficResetAt := now' + days_duration days\<rparr> else u1
         else u1)"

lemma effectiveDeviceLimit_pos: "1 \<le> effectiveDeviceLimit st u"
  by (auto simp: effectiveDeviceLimit_def split: option.splits)

lemma effectiveResetIntervalDays_nonneg: "0 \<le> effectiveResetIntervalDays st u"
  by (auto simp: effectiveResetIntervalDays_def split: option.splits)

section \<open>The audit log\<close>

definition sortAudit ::
  "((AuditEntry \<Rightarrow> AuditEntry \<Rightarrow> bool) \<Rightarrow> AuditEntry list \<Rightarrow> AuditEntry list) \<Rightarrow> State \<Rightarrow> State" where
  "sortAudit srt st =
     (let xs = srt (\<lambda>a b. ae_CreatedAt a > ae_CreatedAt b) (st_Audit st)
      in st\<lparr>st_Audit := (if length xs > 2000 then take 2000 xs else xs)\<rparr>)"

end
