(* ===== verification/Http.thy ===== *)
theory Http
  imports Tables
begin

text \<open>
  What every handler of the panel shares, from src/internal/panel/server.go: the request as the
  authentication middleware passes it on, roles, the JSON answers, and the audit log. A request
  holds the method, the authenticated administrator and what decodeJSON makes of the body (an
  error or the decoded input); an answer is jsonError or jsonWrite with its status.
\<close>

record authInfo =
  ai_AdminID :: string
  ai_Username :: string
  ai_Role :: string

record 'b request =
  rq_Method :: string
  rq_Auth :: authInfo
  rq_RemoteIP :: string
  rq_Body :: "go_error + 'b"

datatype 'p response = JsonError (resp_status: nat) string | JsonWrite (resp_status: nat) 'p

text \<open>The same request, with what another decoder makes of its body.\<close>

definition with_body :: "'a request \<Rightarrow> go_error + 'b \<Rightarrow> 'b request" where
  "with_body r b =
     \<lparr>rq_Method = rq_Method r, rq_Auth = rq_Auth r, rq_RemoteIP = rq_RemoteIP r, rq_Body = b\<rparr>"

lemma with_body_sel [simp]:
  "rq_Method (with_body r b) = rq_Method r" "rq_Auth (with_body r b) = rq_Auth r"
  "rq_Body (with_body r b) = b"
  by (simp_all add: with_body_def)

definition rank :: "string \<Rightarrow> nat" where
  "rank role =
     (if role = ''owner'' then 4 else if role = ''admin'' then 3
      else if role = ''operator'' then 2 else if role = ''viewer'' then 1 else 0)"

definition requireRole :: "'b request \<Rightarrow> string \<Rightarrow> go_error option" where
  "requireRole r role =
     (if rank (ai_Role (rq_Auth r)) < rank role then Some (Plain ''insufficient permissions'')
      else None)"

definition audit_entry ::
  "string \<Rightarrow> time \<Rightarrow> 'b request \<Rightarrow> string \<Rightarrow> string \<Rightarrow> AuditEntry" where
  "audit_entry eid now r action object =
     \<lparr>ae_ID = eid, ae_AdminID = ai_AdminID (rq_Auth r), ae_AdminName = ai_Username (rq_Auth r),
      ae_Action = action, ae_Object = object, ae_RemoteIP = rq_RemoteIP r, ae_CreatedAt = now\<rparr>"

type_synonym audit_sort =
  "(AuditEntry \<Rightarrow> AuditEntry \<Rightarrow> bool) \<Rightarrow> AuditEntry list \<Rightarrow> AuditEntry list"

text \<open>One audit call: the entry's random ID and instant are arguments.\<close>

definition audit ::
  "audit_sort \<Rightarrow> 'w saver \<Rightarrow> string \<Rightarrow> time \<Rightarrow> 'b request \<Rightarrow> string \<Rightarrow> string \<Rightarrow> 'w Store \<Rightarrow> 'w Store" where
  "audit srt save eid now r action object s =
     UpdateST save
       (\<lambda>st. sortAudit srt (st\<lparr>st_Audit := st_Audit st @ [audit_entry eid now r action object]\<rparr>)) s"

lemma requireRole_None: "requireRole r role = None \<longleftrightarrow> rank role \<le> rank (ai_Role (rq_Auth r))"
  by (simp add: requireRole_def)

lemma sortAudit_frame [frame_simps]:
  "st_Users (sortAudit srt st) = st_Users st"
  "st_Plans (sortAudit srt st) = st_Plans st"
  "st_Nodes (sortAudit srt st) = st_Nodes st"
  "st_RoutingRules (sortAudit srt st) = st_RoutingRules st"
  "st_Outbounds (sortAudit srt st) = st_Outbounds st"
  "st_OutboundGroups (sortAudit srt st) = st_OutboundGroups st"
  "st_Inbounds (sortAudit srt st) = st_Inbounds st"
  "st_InboundClients (sortAudit srt st) = st_InboundClients st"
  "st_VPNPeers (sortAudit srt st) = st_VPNPeers st"
  "st_Admins (sortAudit srt st) = st_Admins st"
  "st_Schema (sortAudit srt st) = st_Schema st"
  by (simp_all add: sortAudit_def Let_def)

text \<open>The audit log is the only table an audit call writes.\<close>

lemma audit_frame [frame_simps]:
  "st_Users (store_st (audit srt save eid now r a obj s)) = st_Users (store_st s)"
  "st_Plans (store_st (audit srt save eid now r a obj s)) = st_Plans (store_st s)"
  "st_Nodes (store_st (audit srt save eid now r a obj s)) = st_Nodes (store_st s)"
  "st_RoutingRules (store_st (audit srt save eid now r a obj s)) = st_RoutingRules (store_st s)"
  "st_Outbounds (store_st (audit srt save eid now r a obj s)) = st_Outbounds (store_st s)"
  "st_OutboundGroups (store_st (audit srt save eid now r a obj s)) = st_OutboundGroups (store_st s)"
  "st_Inbounds (store_st (audit srt save eid now r a obj s)) = st_Inbounds (store_st s)"
  "st_InboundClients (store_st (audit srt save eid now r a obj s)) = st_InboundClients (store_st s)"
  "st_VPNPeers (store_st (audit srt save eid now r a obj s)) = st_VPNPeers (store_st s)"
  "st_Admins (store_st (audit srt save eid now r a obj s)) = st_Admins (store_st s)"
  "st_Schema (store_st (audit srt save eid now r a obj s)) = st_Schema (store_st s)"
  unfolding audit_def by (simp_all add: frame_simps)

lemma strict_weak_newest: "strict_weak (\<lambda>a b. ae_CreatedAt b < ae_CreatedAt a)"
  by (auto simp: strict_weak_def)

section \<open>Properties\<close>

text \<open>
  After any audit call the log holds at most 2000 entries, newest first, and each entry it
  dropped is no newer than each entry it kept, whatever order sort.Slice gives to entries of the
  same instant.
\<close>

lemma audit_log_bounded:
  assumes "slice_sort srt" "log = st_Audit (sortAudit srt st)"
  shows "length log = min 2000 (length (st_Audit st)) \<and>
         in_order (\<lambda>a b. ae_CreatedAt b < ae_CreatedAt a) log \<and>
         mset log \<subseteq># mset (st_Audit st) \<and>
         (\<forall>x \<in># mset (st_Audit st) - mset log. \<forall>y \<in> set log. ae_CreatedAt x \<le> ae_CreatedAt y)"
proof -
  let ?xs = "srt (\<lambda>a b. ae_CreatedAt b < ae_CreatedAt a) (st_Audit st)"
  note sort = slice_sort.srt_mset [OF assms(1)] slice_sort.srt_length [OF assms(1)]
    slice_sort.srt_in_order [OF assms(1) strict_weak_newest]
    slice_sort.srt_take [OF assms(1) strict_weak_newest]
  have log: "log = take 2000 ?xs" by (simp add: assms(2) sortAudit_def Let_def)
  have ord: "in_order (\<lambda>a b. ae_CreatedAt b < ae_CreatedAt a) log"
    using sort(3) unfolding log in_order_def by (rule sorted_wrt_take)
  have split: "mset (st_Audit st) = mset (take 2000 ?xs) + mset (drop 2000 ?xs)"
    by (metis append_take_drop_id mset_append sort(1))
  then have rest: "mset (st_Audit st) - mset log = mset (drop 2000 ?xs)"
    by (simp add: log)
  have "\<forall>x \<in> set (drop 2000 ?xs). \<forall>y \<in> set log. ae_CreatedAt x \<le> ae_CreatedAt y"
    using sort(4) by (auto simp: log not_less)
  with split rest ord show ?thesis by (auto simp: log sort(2) min_def)
qed

definition audit_sample :: "int \<Rightarrow> AuditEntry" where
  "audit_sample t =
     \<lparr>ae_ID = ''e'', ae_AdminID = ''1'', ae_AdminName = ''root'', ae_Action = ''create'',
      ae_Object = ''node:a'', ae_RemoteIP = ''10.0.0.9'', ae_CreatedAt = t\<rparr>"

lemma audit_log_bounded_witness:
  "length (st_Audit (sortAudit insertion_sort
     (emptyState\<lparr>st_Audit := [audit_sample 5, audit_sample 9]\<rparr>))) = 2"
  using audit_log_bounded [OF insertion.slice_sort_axioms refl,
      of "emptyState\<lparr>st_Audit := [audit_sample 5, audit_sample 9]\<rparr>"]
  by simp

end
