(* ===== verification/IPAddr.thy ===== *)
theory IPAddr
  imports Prelude "HOL-Library.Word"
begin

unbundle bit_operations_syntax

text \<open>
  What the panel uses of Go's packages net and net/netip: an IP is a list of 4 or 16 bytes, a network
  a base and a mask of the same length. The parsers follow netip.ParseAddr and net.ParseCIDR, the
  printer netip.Addr.String. incIP is the panel's own (src/internal/panel/operations.go).
\<close>

type_synonym byte = "8 word"
type_synonym IP = "byte list"

record IPNet =
  net_IP :: IP
  net_Mask :: IP

section \<open>Parsing\<close>

fun split_at :: "char \<Rightarrow> string \<Rightarrow> string list" where
  "split_at d [] = [[]]"
| "split_at d (c # cs) =
     (if c = d then [] # split_at d cs
      else case split_at d cs of [] \<Rightarrow> [[c]] | p # ps \<Rightarrow> (c # p) # ps)"

definition is_digit :: "char \<Rightarrow> bool" where
  "is_digit c \<longleftrightarrow> (let n = (of_char c :: nat) in 48 \<le> n \<and> n \<le> 57)"

definition digits_value :: "string \<Rightarrow> int" where
  "digits_value s = fold (\<lambda>c v. 10 * v + (of_char c - 48)) s 0"

text \<open>An octet: one to three digits, no leading zero, at most 255.\<close>

definition parse_octet :: "string \<Rightarrow> byte option" where
  "parse_octet s =
     (if s = [] \<or> \<not> list_all is_digit s then None
      else if 1 < length s \<and> hd s = CHR ''0'' then None
      else if 3 < length s \<or> 255 < digits_value s then None
      else Some (of_int (digits_value s)))"

fun all_some :: "'a option list \<Rightarrow> 'a list option" where
  "all_some [] = Some []"
| "all_some (None # xs) = None"
| "all_some (Some x # xs) = map_option (Cons x) (all_some xs)"

definition parseIPv4 :: "string \<Rightarrow> IP option" where
  "parseIPv4 s =
     (let fs = split_at (CHR ''.'') s
      in if length fs = 4 then all_some (map parse_octet fs) else None)"

definition hex_value :: "char \<Rightarrow> int option" where
  "hex_value c =
     (let n = (of_char c :: int) in
      if 48 \<le> n \<and> n \<le> 57 then Some (n - 48)
      else if 97 \<le> n \<and> n \<le> 102 then Some (n - 87)
      else if 65 \<le> n \<and> n \<le> 70 then Some (n - 55)
      else None)"

definition is_hex :: "char \<Rightarrow> bool" where
  "is_hex c \<longleftrightarrow> hex_value c \<noteq> None"

definition hex_word :: "string \<Rightarrow> int" where
  "hex_word s = fold (\<lambda>c v. 16 * v + (case hex_value c of None \<Rightarrow> 0 | Some d \<Rightarrow> d)) s 0"

definition v6_chunk :: "int \<Rightarrow> IP" where
  "v6_chunk n = [of_int (n div 256), of_int (n mod 256)]"

text \<open>The loop of parseIPv6: the bytes so far and the position of the ellipsis among them.\<close>

function parse_v6 :: "string \<Rightarrow> IP \<Rightarrow> nat option \<Rightarrow> (IP \<times> nat option) option" where
  "parse_v6 s ip ell =
     (if 16 \<le> length ip then (if s = [] then Some (ip, ell) else None)
      else
        (let h = takeWhile is_hex s; s1 = dropWhile is_hex s in
         if h = [] \<or> 4 < length h then None
         else if s1 \<noteq> [] \<and> hd s1 = CHR ''.'' then
           (if ell = None \<and> length ip \<noteq> 12 then None
            else if 16 < length ip + 4 then None
            else map_option (\<lambda>v4. (ip @ v4, ell)) (parseIPv4 s))
         else
           (let ip1 = ip @ v6_chunk (hex_word h) in
            case s1 of
              [] \<Rightarrow> Some (ip1, ell)
            | c # s2 \<Rightarrow>
                if c \<noteq> CHR '':'' \<or> s2 = [] then None
                else if hd s2 = CHR '':'' then
                  (if ell \<noteq> None then None
                   else if tl s2 = [] then Some (ip1, Some (length ip1))
                   else parse_v6 (tl s2) ip1 (Some (length ip1)))
                else parse_v6 s2 ip1 ell)))"
  by pat_completeness auto

termination
  by (relation "measure (\<lambda>(s, ip, ell). 16 - length ip)") (auto simp: v6_chunk_def)

declare parse_v6.simps [simp del]

definition expand_v6 :: "IP \<times> nat option \<Rightarrow> IP option" where
  "expand_v6 r =
     (case r of (ip, ell) \<Rightarrow>
       (case ell of
          None \<Rightarrow> if length ip < 16 then None else Some ip
        | Some e \<Rightarrow>
            if length ip < 16 then Some (take e ip @ replicate (16 - length ip) 0 @ drop e ip) else None))"

definition parseIPv6 :: "string \<Rightarrow> IP option" where
  "parseIPv6 s =
     (if take 2 s = ''::'' then
        (if drop 2 s = [] then Some (replicate 16 0)
         else Option.bind (parse_v6 (drop 2 s) [] (Some 0)) expand_v6)
      else Option.bind (parse_v6 s [] None) expand_v6)"

definition v4InV6Prefix :: IP where
  "v4InV6Prefix = replicate 10 0 @ [255, 255]"

text \<open>
  netip.ParseAddr without zones, which both net.ParseIP and net.ParseCIDR refuse: the bytes of the
  address in its own family. The first of the three separators decides.
\<close>

definition ParseAddr :: "string \<Rightarrow> IP option" where
  "ParseAddr s =
     (case List.find (\<lambda>c. c \<in> set ''.:%'') s of
        None \<Rightarrow> None
      | Some c \<Rightarrow>
          if c = CHR ''.'' then parseIPv4 s
          else if c = CHR '':'' then (if CHR ''%'' \<in> set s then None else parseIPv6 s)
          else None)"

definition As16 :: "IP \<Rightarrow> IP" where
  "As16 ip = (if length ip = 4 then v4InV6Prefix @ ip else ip)"

definition ParseIP :: "string \<Rightarrow> IP option" where
  "ParseIP s = map_option As16 (ParseAddr s)"

text \<open>CIDRMask(n, 8 * len).\<close>

fun CIDRMask :: "nat \<Rightarrow> nat \<Rightarrow> IP" where
  "CIDRMask n 0 = []"
| "CIDRMask n (Suc len) =
     (if 8 \<le> n then 255 # CIDRMask (n - 8) len else NOT (drop_bit n 255) # CIDRMask 0 len)"

definition mask_ip :: "IP \<Rightarrow> IP \<Rightarrow> IP" where
  "mask_ip ip m = map2 (AND) ip m"

definition ParseCIDR :: "string \<Rightarrow> (IP \<times> IPNet) option" where
  "ParseCIDR s =
     (let addr = takeWhile (\<lambda>c. c \<noteq> CHR 0x2F) s; rest = dropWhile (\<lambda>c. c \<noteq> CHR 0x2F) s in
      case rest of
        [] \<Rightarrow> None
      | _ # m \<Rightarrow>
          (case ParseAddr addr of
             None \<Rightarrow> None
           | Some ip \<Rightarrow>
               if m = [] \<or> \<not> list_all is_digit m \<or> 8 * int (length ip) < digits_value m then None
               else let mask = CIDRMask (nat (digits_value m)) (length ip)
                    in Some (As16 ip, \<lparr>net_IP = mask_ip ip mask, net_Mask = mask\<rparr>)))"

text \<open>The two parsers where only their error matters.\<close>

definition IP_ok :: "string \<Rightarrow> bool" where
  "IP_ok s \<longleftrightarrow> ParseIP s \<noteq> None"

definition CIDR_ok :: "string \<Rightarrow> bool" where
  "CIDR_ok s \<longleftrightarrow> ParseCIDR s \<noteq> None"

section \<open>Addresses\<close>

definition To4 :: "IP \<Rightarrow> IP option" where
  "To4 ip =
     (if length ip = 4 then Some ip
      else if length ip = 16 \<and> take 12 ip = v4InV6Prefix then Some (drop 12 ip)
      else None)"

text \<open>The shortest form: four bytes when there is one.\<close>

definition short_ip :: "IP \<Rightarrow> IP" where
  "short_ip ip = (case To4 ip of Some v \<Rightarrow> v | None \<Rightarrow> ip)"

definition ip_Equal :: "IP \<Rightarrow> IP \<Rightarrow> bool" where
  "ip_Equal a b \<longleftrightarrow>
     (if length a = length b then a = b
      else if length a = 4 \<and> length b = 16 then take 12 b = v4InV6Prefix \<and> a = drop 12 b
      else if length a = 16 \<and> length b = 4 then take 12 a = v4InV6Prefix \<and> drop 12 a = b
      else False)"

text \<open>networkNumberAndMask: the mask of a mapped network is cut to the four bytes of its number.\<close>

definition net_Contains :: "IPNet \<Rightarrow> IP \<Rightarrow> bool" where
  "net_Contains n ip \<longleftrightarrow>
     (let nn = short_ip (net_IP n);
          m = (if length nn = 4 \<and> length (net_Mask n) = 16 then drop 12 (net_Mask n) else net_Mask n);
          x = short_ip ip
      in length x = length nn \<and> mask_ip nn m = mask_ip x m)"

definition hex16 :: "int \<Rightarrow> string" where
  "hex16 n =
     (let ds = [n div 4096 mod 16, n div 256 mod 16, n div 16 mod 16, n mod 16];
          s = dropWhile (\<lambda>d. d = 0) ds
      in if s = [] then ''0'' else map (hex_digit \<circ> nat) s)"

fun v6_groups :: "IP \<Rightarrow> int list" where
  "v6_groups (a # b # ip) = (256 * uint a + uint b) # v6_groups ip"
| "v6_groups ip = []"

text \<open>The first longest run of at least two zero groups, as its start and end.\<close>

fun zeros :: "int list \<Rightarrow> nat" where
  "zeros [] = 0"
| "zeros (g # gs) = (if g = 0 then Suc (zeros gs) else 0)"

fun zero_run :: "int list \<Rightarrow> nat \<Rightarrow> nat \<times> nat \<Rightarrow> nat \<times> nat" where
  "zero_run [] i best = best"
| "zero_run (g # gs) i best =
     zero_run gs (Suc i)
       (if 2 \<le> zeros (g # gs) \<and> snd best - fst best < zeros (g # gs) then (i, i + zeros (g # gs)) else best)"

definition print_v6 :: "int list \<Rightarrow> string" where
  "print_v6 gs =
     (case zero_run gs 0 (0, 0) of (a, b) \<Rightarrow>
        if a = b then JoinStrings (map hex16 gs) '':''
        else JoinStrings (map hex16 (take a gs)) '':'' @ ''::'' @ JoinStrings (map hex16 (drop b gs)) '':'')"

definition ip_String :: "IP \<Rightarrow> string" where
  "ip_String ip =
     (case To4 ip of
        Some v \<Rightarrow> JoinStrings (map (\<lambda>b. Itoa (uint b)) v) ''.''
      | None \<Rightarrow>
          if ip = [] then ''<nil>''
          else if length ip = 16 then print_v6 (v6_groups ip)
          else ''?'' @ concat (map (\<lambda>b. [hex_digit (unat b div 16), hex_digit (unat b mod 16)]) ip))"

definition mask_Size :: "IP \<Rightarrow> nat" where
  "mask_Size m = length (takeWhile id (concat (map (\<lambda>b. map (\<lambda>i. bit b (7 - i)) [0..<8]) m)))"

definition JoinHostPort :: "string \<Rightarrow> string \<Rightarrow> string" where
  "JoinHostPort host port =
     (if CHR '':'' \<in> set host then ''['' @ host @ '']:'' @ port else host @ '':'' @ port)"

fun inc_bytes :: "IP \<Rightarrow> IP" where
  "inc_bytes [] = []"
| "inc_bytes (b # bs) = (let c = b + 1 in if c \<noteq> 0 then c # bs else c # inc_bytes bs)"

text \<open>The loop of incIP runs from the last byte to the first.\<close>

definition incIP :: "IP \<Rightarrow> IP" where
  "incIP ip = rev (inc_bytes (rev ip))"

section \<open>The value of an address\<close>

fun le_val :: "IP \<Rightarrow> nat" where
  "le_val [] = 0"
| "le_val (b # bs) = unat b + 256 * le_val bs"

lemma unat_byte: "unat (b :: byte) < 256"
  using unsigned_less [of b, where 'a = nat] by simp

lemma le_val_bound: "le_val bs < 256 ^ length bs"
proof (induction bs)
  case (Cons b bs)
  have "unat b < 256" by (rule unat_byte)
  with Cons show ?case by simp
qed simp

lemma length_inc_bytes [simp]: "length (inc_bytes bs) = length bs"
  by (induction bs) (simp_all add: Let_def)

lemma le_val_inc: "le_val (inc_bytes bs) = (le_val bs + 1) mod 256 ^ length bs"
proof (induction bs)
  case (Cons b bs)
  have b: "unat b < 256" by (rule unat_byte)
  have v: "le_val bs < 256 ^ length bs" by (rule le_val_bound)
  have u: "unat (b + 1) = (unat b + 1) mod 256" by (simp add: unat_word_ariths)
  show ?case
  proof (cases "b + 1 = 0")
    case False
    then have "unat (b + 1) \<noteq> 0" by (simp add: unat_eq_0)
    with u b have "unat (b + 1) = unat b + 1" by (cases "unat b = 255") auto
    moreover from this have "unat b + 1 < 256" using unat_byte [of "b + 1"] by simp
    ultimately show ?thesis using v False by (simp add: Let_def)
  next
    case True
    then have "unat b = 255" using u b by (cases "unat b = 255") (auto simp: mod_if)
    then have "unat b + 256 * le_val bs + 1 = 256 * (le_val bs + 1)" by simp
    then have "(unat b + 256 * le_val bs + 1) mod (256 * 256 ^ length bs) =
        256 * ((le_val bs + 1) mod 256 ^ length bs)"
      by (simp only: mult_mod_right)
    with True Cons show ?thesis by (simp add: Let_def)
  qed
qed simp

lemma base256: "x + 256 * u = y + 256 * v \<Longrightarrow> x < 256 \<Longrightarrow> y < 256 \<Longrightarrow> x = y \<and> u = v" for x y u v :: nat
proof -
  assume e: "x + 256 * u = y + 256 * v" and b: "x < 256" "y < 256"
  from b have "x = (x + 256 * u) mod 256" by simp
  also have "\<dots> = y" using b by (simp add: e)
  finally show "x = y \<and> u = v" using e by simp
qed

lemma le_val_inj: "length as = length bs \<Longrightarrow> le_val as = le_val bs \<Longrightarrow> as = bs"
proof (induction as bs rule: list_induct2)
  case (Cons a as b bs)
  from Cons.prems have "unat a = unat b \<and> le_val as = le_val bs"
    by (intro base256) (simp_all add: unat_byte)
  with Cons.IH show ?case by (simp add: word_eq_iff_unsigned [where 'a = nat])
qed simp

definition ip_val :: "IP \<Rightarrow> nat" where
  "ip_val ip = le_val (rev ip)"

lemma length_incIP [simp]: "length (incIP ip) = length ip"
  by (simp add: incIP_def)

lemma ip_val_bound: "ip_val ip < 256 ^ length ip"
  using le_val_bound [of "rev ip"] by (simp add: ip_val_def)

lemma ip_val_inc: "ip_val (incIP ip) = (ip_val ip + 1) mod 256 ^ length ip"
  by (simp add: ip_val_def incIP_def le_val_inc)

text \<open>incIP is the successor of the address, so a run of it that is not too long never repeats.\<close>

lemma ip_val_incs: "ip_val ((incIP ^^ k) ip) = (ip_val ip + k) mod 256 ^ length ip"
  and length_incs [simp]: "length ((incIP ^^ k) ip) = length ip"
proof (induction k)
  case 0
  show "ip_val ((incIP ^^ 0) ip) = (ip_val ip + 0) mod 256 ^ length ip"
    using ip_val_bound [of ip] by simp
  show "length ((incIP ^^ 0) ip) = length ip" by simp
next
  case (Suc k)
  show "length ((incIP ^^ Suc k) ip) = length ip" using Suc by simp
  show "ip_val ((incIP ^^ Suc k) ip) = (ip_val ip + Suc k) mod 256 ^ length ip"
    using Suc by (simp add: ip_val_inc mod_Suc_eq)
qed

lemma incs_moves:
  assumes "0 < k" "k < 256 ^ length ip"
  shows "(incIP ^^ k) ip \<noteq> ip"
proof
  let ?m = "256 ^ length ip :: nat"
  assume "(incIP ^^ k) ip = ip"
  then have "(ip_val ip + k) mod ?m = ip_val ip mod ?m"
    using ip_val_incs [of k ip] ip_val_bound [of ip] by simp
  then have "?m dvd k" using mod_eq_dvd_iff_nat [of "ip_val ip" "ip_val ip + k" ?m] by simp
  then have "k mod ?m = 0" by simp
  with assms show False by simp
qed

section \<open>Lengths\<close>

lemma all_some_length: "all_some xs = Some ys \<Longrightarrow> length ys = length xs"
  by (induction xs arbitrary: ys rule: all_some.induct) auto

lemma parseIPv4_length: "parseIPv4 s = Some ip \<Longrightarrow> length ip = 4"
  by (auto simp: parseIPv4_def Let_def dest: all_some_length split: if_splits)

lemma length_v6_chunk [simp]: "length (v6_chunk n) = 2"
  by (simp add: v6_chunk_def)

lemma parse_v6_length:
  "parse_v6 s ip ell = Some (ip', ell') \<Longrightarrow> even (length ip) \<Longrightarrow> length ip \<le> 16 \<Longrightarrow> length ip' \<le> 16"
proof (induction s ip ell rule: parse_v6.induct)
  case (1 s ip ell)
  show ?case
  proof (cases "16 \<le> length ip")
    case True
    with 1 show ?thesis by (simp add: parse_v6.simps [of s ip ell] split: if_splits)
  next
    case False
    with "1.prems"(2) have room: "length ip + 2 \<le> 16" by presburger
    let ?h = "takeWhile is_hex s" and ?s1 = "dropWhile is_hex s"
    let ?ip1 = "ip @ v6_chunk (hex_word ?h)"
    have ip1: "even (length ?ip1)" "length ?ip1 \<le> 16" using room "1.prems"(2) by simp_all
    note step = "1.prems"(1) [unfolded parse_v6.simps [of s ip ell] Let_def]
    consider (v4) v4 where "parseIPv4 s = Some v4" "length ip + 4 \<le> 16" "ip' = ip @ v4"
      | (last_group) "ip' = ?ip1"
      | (gap) c s2 where "?s1 = c # s2" "parse_v6 (tl s2) ?ip1 (Some (length ?ip1)) = Some (ip', ell')"
          "\<not> (?h = [] \<or> 4 < length ?h)" "\<not> (?s1 \<noteq> [] \<and> hd ?s1 = CHR ''.'')" "\<not> (c \<noteq> CHR '':'' \<or> s2 = [])"
          "hd s2 = CHR '':''" "\<not> ell \<noteq> None" "tl s2 \<noteq> []"
      | (next_group) c s2 where "?s1 = c # s2" "parse_v6 s2 ?ip1 ell = Some (ip', ell')"
          "\<not> (?h = [] \<or> 4 < length ?h)" "\<not> (?s1 \<noteq> [] \<and> hd ?s1 = CHR ''.'')" "\<not> (c \<noteq> CHR '':'' \<or> s2 = [])"
          "hd s2 \<noteq> CHR '':''"
      using step False by (auto split: if_splits list.splits)
    then show ?thesis
    proof cases
      case v4
      then show ?thesis using parseIPv4_length by fastforce
    next
      case last_group
      then show ?thesis using ip1 by simp
    next
      case gap
      from "1.IH"(1) [OF False refl refl gap(3,4) refl gap(1,5,6,7,8,2) ip1] show ?thesis .
    next
      case next_group
      from "1.IH"(2) [OF False refl refl next_group(3,4) refl next_group(1,5,6,2) ip1] show ?thesis .
    qed
  qed
qed

lemma expand_v6_length: "expand_v6 (ip, ell) = Some ip' \<Longrightarrow> length ip \<le> 16 \<Longrightarrow> length ip' = 16"
  by (auto simp: expand_v6_def min_def split: option.splits if_splits)

lemma parseIPv6_length: "parseIPv6 s = Some ip \<Longrightarrow> length ip = 16"
  by (auto simp: parseIPv6_def Option.bind_eq_Some_conv dest!: parse_v6_length
      intro: expand_v6_length split: if_splits)

lemma ParseAddr_length: "ParseAddr s = Some ip \<Longrightarrow> length ip = 4 \<or> length ip = 16"
  by (auto simp: ParseAddr_def dest: parseIPv4_length parseIPv6_length split: option.splits if_splits)

lemma As16_length [simp]: "length ip = 4 \<or> length ip = 16 \<Longrightarrow> length (As16 ip) = 16"
  by (auto simp: As16_def v4InV6Prefix_def)

lemma ParseCIDR_length: "ParseCIDR s = Some (ip, n) \<Longrightarrow> length ip = 16"
  by (auto simp: ParseCIDR_def Let_def dest: ParseAddr_length split: list.splits option.splits if_splits)

lemma To4_length: "To4 ip = Some v \<Longrightarrow> length v = 4"
  by (auto simp: To4_def split: if_splits)

text \<open>Two addresses are equal when their shortest forms are.\<close>

lemma short_ip_split:
  "length a = 4 \<Longrightarrow> short_ip a = a"
  "length a = 16 \<Longrightarrow> short_ip a = (if take 12 a = v4InV6Prefix then drop 12 a else a)"
  by (simp_all add: short_ip_def To4_def)

lemma ip_Equal_short:
  assumes "length a = 4 \<or> length a = 16" "length b = 4 \<or> length b = 16"
  shows "ip_Equal a b \<longleftrightarrow> short_ip a = short_ip b"
proof -
  have split: "a = b \<longleftrightarrow> take 12 a = take 12 b \<and> drop 12 a = drop 12 b"
    by (metis append_take_drop_id)
  consider "length a = 4" "length b = 4" | "length a = 4" "length b = 16"
    | "length a = 16" "length b = 4" | "length a = 16" "length b = 16" using assms by blast
  then show ?thesis
  proof cases
    case 1
    then show ?thesis by (simp add: ip_Equal_def short_ip_split)
  next
    case 2
    then have "a \<noteq> b" by auto
    with 2 show ?thesis by (simp add: ip_Equal_def short_ip_split)
  next
    case 3
    then have "a \<noteq> b" by auto
    with 3 show ?thesis by (simp add: ip_Equal_def short_ip_split)
  next
    case 4
    have "drop 12 a \<noteq> b" "a \<noteq> drop 12 b" using 4 by (auto dest: arg_cong [where f = length])
    with 4 split show ?thesis by (auto simp: ip_Equal_def short_ip_split)
  qed
qed

lemma parse_examples:
  "ParseCIDR ''10.20.0.0/30'' =
     Some (v4InV6Prefix @ [10, 20, 0, 0], \<lparr>net_IP = [10, 20, 0, 0], net_Mask = [255, 255, 255, 252]\<rparr>)"
  "ParseCIDR ''10.20.0.0/33'' = None" "ParseCIDR ''10.020.0.0/8'' = None" "ParseCIDR ''10.20.0/8'' = None"
  "ParseIP ''2001:DB8:0:0:1::1'' = Some [32, 1, 13, 184, 0, 0, 0, 0, 0, 1, 0, 0, 0, 0, 0, 1]"
  "ParseIP ''1::2::3'' = None" "ParseIP ''::ffff:1.2.3.4'' = Some (v4InV6Prefix @ [1, 2, 3, 4])"
  by code_simp+

lemma print_examples:
  "ip_String [32, 1, 13, 184, 0, 0, 0, 0, 0, 1, 0, 0, 0, 0, 0, 1] = ''2001:db8::1:0:0:1''"
  "ip_String (replicate 16 0) = ''::''" "ip_String (v4InV6Prefix @ [1, 2, 3, 4]) = ''1.2.3.4''"
  "ip_String [254, 128, 0, 0, 0, 0, 0, 0, 0, 0, 0, 0, 0, 0, 0, 0] = ''fe80::''"
  by code_simp+

end
