(* ===== verification/Env.thy ===== *)
theory Env
  imports Http IPAddr
begin

text \<open>
  What the panel's server gets from outside src/internal/panel: the record env of functions that
  stand for the store's file system, AES-GCM (Crypt.Seal and Crypt.Open), the random source, the
  clock, the HTTP client and the JSON codec of the standard library, each threading the
  outside world 'w where it has an effect. Also the JSON values (map[string]any) the panel builds,
  and the two generators and the agent call that every component uses (randomHex, uuidV4,
  randomCredential in security.go and xray.go; agentJSON in operations.go).

  A JSON object is an association list from distinct keys, because a Go map has no order;
  JQuot a b is the float64 quotient of two integers.
\<close>

section \<open>JSON values\<close>

datatype json =
    JNull
  | JBool bool
  | JInt int
  | JQuot int int
  | JStr string
  | JArr "json list"
  | JObj "(string \<times> json) list"

fun put_entry :: "string \<Rightarrow> json \<Rightarrow> (string \<times> json) list \<Rightarrow> (string \<times> json) list" where
  "put_entry k v [] = [(k, v)]"
| "put_entry k v ((k', v') # m) = (if k' = k then (k, v) # m else (k', v') # put_entry k v m)"

text \<open>m[k] = v, m[k] and delete(m, k) on a map[string]any.\<close>

fun jput :: "string \<Rightarrow> json \<Rightarrow> json \<Rightarrow> json" where
  "jput k v (JObj m) = JObj (put_entry k v m)"
| "jput k v j = j"

fun jget :: "string \<Rightarrow> json \<Rightarrow> json option" where
  "jget k (JObj m) = map_of m k"
| "jget k j = None"

fun jdel :: "string \<Rightarrow> json \<Rightarrow> json" where
  "jdel k (JObj m) = JObj (filter (\<lambda>e. fst e \<noteq> k) m)"
| "jdel k j = j"

definition jstrs :: "string list \<Rightarrow> json" where
  "jstrs xs = JArr (map JStr xs)"

text \<open>The type assertion v, _ := m[k].(string).\<close>

definition jget_str :: "string \<Rightarrow> json \<Rightarrow> string" where
  "jget_str k j = (case jget k j of Some (JStr s) \<Rightarrow> s | _ \<Rightarrow> [])"

lemma map_of_put_entry: "map_of (put_entry k v m) = (map_of m)(k \<mapsto> v)"
  by (induction k v m rule: put_entry.induct) auto

lemma jget_jput [simp]:
  "jget k (jput k' v (JObj m)) = (if k = k' then Some v else jget k (JObj m))"
  by (simp add: map_of_put_entry)

lemma jget_jput_gen:
  "jget k (jput k' v j) = (if k = k' \<and> (\<exists>m. j = JObj m) then Some v else jget k j)"
  by (cases j) (auto simp: map_of_put_entry)

section \<open>The server's environment\<close>

record http_request =
  hr_Method :: string
  hr_URL :: string
  hr_Token :: string
  hr_Body :: "json option"

text \<open>
  The JSON decoder applied to a text: its first value (or the error), and what a second call to
  Decode reports: the end of the input, another value, or an error.
\<close>

datatype json_rest = AtEOF | MoreValue | BadRest string

record realityKeyResponse =
  rk_PrivateKey :: string
  rk_PublicKey :: string

record 'w env =
  ev_save :: "State \<Rightarrow> 'w \<Rightarrow> go_error option \<times> 'w"
  ev_sort :: audit_sort
  ev_Seal :: "string \<Rightarrow> 'w \<Rightarrow> (go_error + string) \<times> 'w"
  ev_Open :: "string \<Rightarrow> go_error + string"
  ev_rand :: "nat \<Rightarrow> 'w \<Rightarrow> string \<times> 'w"
  ev_Now :: "'w \<Rightarrow> time \<times> 'w"
  ev_http :: "http_request \<Rightarrow> 'w \<Rightarrow> (go_error + nat \<times> string) \<times> 'w"
  ev_DecodeKeys :: "string \<Rightarrow> go_error + realityKeyResponse"
  ev_Marshal :: "json \<Rightarrow> string"
  ev_Decode :: "string \<Rightarrow> string + json \<times> json_rest"

text \<open>An effect of the environment leaves the state alone and changes the world only.\<close>

definition effect :: "('w \<Rightarrow> 'a \<times> 'w) \<Rightarrow> 'w Store \<Rightarrow> 'a \<times> 'w Store" where
  "effect f s = (case f (store_world s) of (a, w) \<Rightarrow> (a, s\<lparr>store_world := w\<rparr>))"

lemma effect_st [frame_simps]: "store_st (snd (effect f s)) = store_st s"
  by (simp add: effect_def split: prod.splits)

lemma effect_stD: "effect f s = (a, s') \<Longrightarrow> store_st s' = store_st s"
  by (metis effect_st snd_conv)

text \<open>The error of an Update whose callback yields nothing else.\<close>

definition UpdateE ::
  "'w saver \<Rightarrow> (State \<Rightarrow> go_error + State) \<Rightarrow> 'w Store \<Rightarrow> go_error option \<times> 'w Store" where
  "UpdateE save fn s =
     (case Update save (\<lambda>st. case fn st of Inl e \<Rightarrow> Inl e | Inr st' \<Rightarrow> Inr ((), st')) s of
        (Inl e, s') \<Rightarrow> (Some e, s') | (Inr _, s') \<Rightarrow> (None, s'))"

lemma UpdateE_None:
  "UpdateE save fn s = (None, s') \<Longrightarrow> fn (store_st s) = Inr (store_st s')"
  by (auto simp: UpdateE_def dest: Update_Inr split: prod.splits sum.splits)

lemma UpdateE_Some:
  "UpdateE save fn s = (Some e, s') \<Longrightarrow> store_st s' = store_st s"
  by (auto simp: UpdateE_def dest: Update_Inl split: prod.splits sum.splits)

lemma UpdateE_frame:
  assumes "\<And>st st'. fn st = Inr st' \<Longrightarrow> v st' = v st"
  shows "v (store_st (snd (UpdateE save fn s))) = v (store_st s)"
proof (cases "UpdateE save fn s")
  case (Pair r s')
  show ?thesis
  proof (cases r)
    case None
    then show ?thesis using assms UpdateE_None Pair by (metis snd_conv)
  next
    case (Some e)
    then show ?thesis using UpdateE_Some Pair by (metis snd_conv)
  qed
qed

section \<open>Random identifiers\<close>

definition hex_encode :: "string \<Rightarrow> string" where
  "hex_encode b =
     concat (map (\<lambda>c. let n = (of_char c :: nat) in [hex_digit (n div 16), hex_digit (n mod 16)]) b)"

definition randomHex :: "'w env \<Rightarrow> nat \<Rightarrow> 'w Store \<Rightarrow> string \<times> 'w Store" where
  "randomHex env n s = (case effect (ev_rand env n) s of (b, s') \<Rightarrow> (hex_encode b, s'))"

text \<open>The bytes of uuidV4 after its two masks, and their text.\<close>

definition mask_byte :: "nat \<Rightarrow> nat \<Rightarrow> char \<Rightarrow> char" where
  "mask_byte m hi c = char_of (of_char c mod m + hi)"

definition uuid_text :: "string \<Rightarrow> string" where
  "uuid_text b0 =
     (let b1 = b0[6 := mask_byte 16 64 (b0 ! 6)];
          b = b1[8 := mask_byte 64 128 (b1 ! 8)];
          h = hex_encode b
      in take 8 h @ ''-'' @ take 4 (drop 8 h) @ ''-'' @ take 4 (drop 12 h) @ ''-'' @
         take 4 (drop 16 h) @ ''-'' @ take 12 (drop 20 h))"

definition uuidV4 :: "'w env \<Rightarrow> 'w Store \<Rightarrow> string \<times> 'w Store" where
  "uuidV4 env s = (case effect (ev_rand env 16) s of (b, s') \<Rightarrow> (uuid_text b, s'))"

definition base64_url_alphabet :: string where
  "base64_url_alphabet = ''ABCDEFGHIJKLMNOPQRSTUVWXYZabcdefghijklmnopqrstuvwxyz0123456789-_''"

definition b64 :: "nat \<Rightarrow> char" where
  "b64 n = base64_url_alphabet ! (n mod 64)"

text \<open>base64.RawURLEncoding: three bytes to four characters, without padding.\<close>

fun RawURLEncode :: "string \<Rightarrow> string" where
  "RawURLEncode [] = []"
| "RawURLEncode [a] = (let x = (of_char a :: nat) in [b64 (x div 4), b64 (x * 16)])"
| "RawURLEncode [a, b] =
     (let x = (of_char a :: nat); y = (of_char b :: nat)
      in [b64 (x div 4), b64 (x * 16 + y div 16), b64 (y * 4)])"
| "RawURLEncode (a # b # c # cs) =
     (let x = (of_char a :: nat); y = (of_char b :: nat); z = (of_char c :: nat)
      in [b64 (x div 4), b64 (x * 16 + y div 16), b64 (y * 4 + z div 64), b64 z] @ RawURLEncode cs)"

definition randomCredential :: "'w env \<Rightarrow> nat \<Rightarrow> 'w Store \<Rightarrow> string \<times> 'w Store" where
  "randomCredential env n s = (case effect (ev_rand env n) s of (b, s') \<Rightarrow> (RawURLEncode b, s'))"

definition credentialForProtocol :: "'w env \<Rightarrow> string \<Rightarrow> 'w Store \<Rightarrow> string \<times> 'w Store" where
  "credentialForProtocol env protocol s =
     (if protocol = ''vless'' \<or> protocol = ''vmess'' then uuidV4 env s
      else randomCredential env 24 s)"

section \<open>The agent call\<close>

definition TrimRightSlash :: "string \<Rightarrow> string" where
  "TrimRightSlash s = rev (dropWhile (\<lambda>c. c = CHR 0x2F) (rev s))"

text \<open>io.ReadAll of an io.LimitReader.\<close>

fun LimitRead :: "int \<Rightarrow> string \<Rightarrow> string" where
  "LimitRead n [] = []"
| "LimitRead n (c # cs) = (if n \<le> 0 then [] else c # LimitRead (n - 1) cs)"

lemma LimitRead_take: "LimitRead n s = take (nat n) s"
  by (induction n s rule: LimitRead.induct) (auto simp: nat_diff_distrib' take_Cons')

text \<open>
  agentJSON with the decoder of its out argument; None stands for a nil out. An empty reply leaves
  out as it was, its zero value zero.
\<close>

definition agentJSON ::
  "'w env \<Rightarrow> Node \<Rightarrow> string \<Rightarrow> string \<Rightarrow> json option \<Rightarrow> (string \<Rightarrow> go_error + 'a) option \<Rightarrow> 'a \<Rightarrow>
   'w Store \<Rightarrow> (go_error + 'a) \<times> 'w Store" where
  "agentJSON env n method path body out zero s =
     (case ev_Open env (n_AgentTokenEnc n) of
        Inl e \<Rightarrow> (Inl e, s)
      | Inr tok \<Rightarrow>
          (case effect (ev_http env \<lparr>hr_Method = method,
                                     hr_URL = TrimRightSlash (n_AgentURL n) @ path,
                                     hr_Token = tok, hr_Body = body\<rparr>) s of
             (Inl e, s1) \<Rightarrow> (Inl e, s1)
           | (Inr (code, body'), s1) \<Rightarrow>
               let raw = LimitRead (2 * 1024 * 1024) body' in
               if code div 100 \<noteq> 2
               then (Inl (Plain (''agent HTTP '' @ Itoa (int code) @ '': '' @ TrimSpace raw)), s1)
               else (case out of
                       None \<Rightarrow> (Inr zero, s1)
                     | Some decode \<Rightarrow> (if raw = [] then Inr zero else decode raw, s1))))"

text \<open>A call whose reply is not read.\<close>

definition agentDo ::
  "'w env \<Rightarrow> Node \<Rightarrow> string \<Rightarrow> string \<Rightarrow> json option \<Rightarrow> 'w Store \<Rightarrow> go_error option \<times> 'w Store" where
  "agentDo env n method path body s =
     (case agentJSON env n method path body None () s of
        (Inl e, s1) \<Rightarrow> (Some e, s1) | (Inr _, s1) \<Rightarrow> (None, s1))"

lemma agentJSON_st [frame_simps]:
  "store_st (snd (agentJSON env n method path body out zero s)) = store_st s"
  by (auto simp: agentJSON_def Let_def dest: effect_stD split: sum.splits prod.splits option.splits)

lemma agentDo_st [frame_simps]: "store_st (snd (agentDo env n method path body s)) = store_st s"
proof -
  have "store_st (snd (agentJSON env n method path body None () s)) = store_st s"
    by (rule agentJSON_st)
  then show ?thesis unfolding agentDo_def by (auto split: sum.splits prod.splits)
qed

lemma randomHex_st [frame_simps]: "store_st (snd (randomHex env n s)) = store_st s"
  by (auto simp: randomHex_def dest: effect_stD split: prod.splits)

lemma randomCredential_st [frame_simps]: "store_st (snd (randomCredential env n s)) = store_st s"
  by (auto simp: randomCredential_def dest: effect_stD split: prod.splits)

section \<open>The audit call of a handler\<close>

definition audit_now ::
  "'w env \<Rightarrow> 'b request \<Rightarrow> string \<Rightarrow> string \<Rightarrow> 'w Store \<Rightarrow> 'w Store" where
  "audit_now env r action object s =
     (case randomHex env 8 s of
        (eid, s1) \<Rightarrow>
          (case effect (ev_Now env) s1 of
             (now, s2) \<Rightarrow> audit (ev_sort env) (ev_save env) eid now r action object s2))"

section \<open>A concrete environment, for the examples\<close>

definition sample_env :: "nat env" where
  "sample_env =
     \<lparr>ev_save = (\<lambda>st w. (None, w)), ev_sort = insertion_sort,
      ev_Seal = (\<lambda>p w. (Inr (''sealed:'' @ p), w)), ev_Open = (\<lambda>c. Inr (drop 7 c)),
      ev_rand = (\<lambda>n w. (replicate n (CHR ''r''), Suc w)), ev_Now = (\<lambda>w. (1, w)),
      ev_http = (\<lambda>r w. (Inr (200, []), w)),
      ev_DecodeKeys = (\<lambda>b. Inl (Plain ''bad keys'')), ev_Marshal = (\<lambda>j. []),
      ev_Decode = (\<lambda>s. Inl ''EOF'')\<rparr>"

section \<open>The shape of a UUID\<close>

definition hex_alphabet :: string where
  "hex_alphabet = ''0123456789abcdef''"

definition uuid_shape :: "string \<Rightarrow> bool" where
  "uuid_shape u \<longleftrightarrow>
     length u = 36 \<and> u ! 14 = CHR ''4'' \<and> u ! 19 \<in> set ''89ab'' \<and>
     list_all (\<lambda>i. if i \<in> {8, 13, 18, 23} then u ! i = CHR ''-'' else u ! i \<in> set hex_alphabet) [0..<36]"

lemma hex_digits:
  "list_all (\<lambda>n. hex_digit n \<in> set hex_alphabet) [0..<16]"
  "list_all (\<lambda>n. hex_digit n \<in> set ''89ab'') [8..<12]"
  "hex_digit 4 = CHR ''4''" "CHR ''4'' \<in> set hex_alphabet"
  by code_simp+

lemma hex_digit_alphabet [simp]: "n < 16 \<Longrightarrow> hex_digit n \<in> set hex_alphabet"
  using hex_digits(1) by (simp add: list_all_iff)

lemma byte_nibbles [simp]: "(of_char c :: nat) div 16 < 16" "(of_char c :: nat) mod 16 < 16"
  by (rule less_mult_imp_div_less) simp_all

lemma version_nibble: "(of_char (mask_byte 16 64 c) :: nat) div 16 = 4"
  by (simp add: mask_byte_def)

lemma variant_nibble: "(of_char (mask_byte 64 128 c) :: nat) div 16 \<in> set [8..<12]"
proof -
  have "(of_char c mod 64 + 128 :: nat) < 192" "128 \<le> (of_char c mod 64 + 128 :: nat)"
    by simp_all
  then show ?thesis by (simp add: mask_byte_def) linarith
qed

lemma uuid_text_shape:
  assumes "length b = 16"
  shows "uuid_shape (uuid_text b)"
proof -
  obtain b0 b1 b2 b3 b4 b5 b6 b7 b8 b9 b10 b11 b12 b13 b14 b15 where
    b: "b = [b0, b1, b2, b3, b4, b5, b6, b7, b8, b9, b10, b11, b12, b13, b14, b15]"
    using assms by (auto simp: numeral_eq_Suc length_Suc_conv)
  let ?v = "mask_byte 16 64 b6" and ?w = "mask_byte 64 128 b8"
  have 1: "hex_digit ((of_char ?v :: nat) div 16) = CHR ''4''" by (simp add: version_nibble hex_digits(3))
  have 2: "hex_digit ((of_char ?w :: nat) div 16) \<in> set ''89ab''"
    using hex_digits(2) variant_nibble [of b8] unfolding list_all_iff by blast
  define d where "d c = hex_digit ((of_char c :: nat) div 16)" for c
  define e where "e c = hex_digit ((of_char c :: nat) mod 16)" for c
  have hex: "d c \<in> set hex_alphabet" "e c \<in> set hex_alphabet" for c by (simp_all add: d_def e_def)
  have "uuid_text b =
      [d b0, e b0, d b1, e b1, d b2, e b2, d b3, e b3, CHR ''-'', d b4, e b4, d b5, e b5, CHR ''-'',
       d ?v, e ?v, d b7, e b7, CHR ''-'', d ?w, e ?w, d b9, e b9, CHR ''-'',
       d b10, e b10, d b11, e b11, d b12, e b12, d b13, e b13, d b14, e b14, d b15, e b15]"
    by (simp add: b uuid_text_def hex_encode_def Let_def d_def e_def)
  with 1 2 show ?thesis
    by (simp add: uuid_shape_def hex upt_conv_Cons hex_digits(4) d_def [symmetric])
qed

section \<open>Properties\<close>

text \<open>
  C40: whatever the random source returns, a credential made by uuidV4 is a UUID of version 4: 36
  characters, dashes at 8, 13, 18 and 23, the version digit 4 and a variant digit 8, 9, a or b, and
  lower-case hexadecimal digits everywhere else, the form Xray accepts as the ID of a client.
\<close>

theorem uuid_wellformed:
  assumes "\<And>w. length (fst (ev_rand env 16 w)) = 16"
  shows "uuid_shape (fst (uuidV4 env s))"
  using uuid_text_shape [OF assms] by (simp add: uuidV4_def effect_def case_prod_beta)

theorem uuid_wellformed_witness: "uuid_shape (fst (uuidV4 sample_env \<lparr>store_st = emptyState, store_world = 0\<rparr>))"
  by (rule uuid_wellformed) (simp add: sample_env_def)

end
