(* ===== verification/Subscriptions.thy ===== *)
theory Subscriptions
  imports Http
begin

text \<open>
  The life of a subscription, src/internal/panel/subscriptions.go: the status a user should have,
  what the user is entitled to, the periodic reconciliation and the administrator's actions on a
  user. The loop that moves the next traffic reset past the present is a partial function: None
  means that it does not return.
\<close>

section \<open>Status and entitlements\<close>

definition UserStatusActive :: string where "UserStatusActive = ''active''"
definition UserStatusDisabled :: string where "UserStatusDisabled = ''disabled''"
definition UserStatusExpired :: string where "UserStatusExpired = ''expired''"
definition UserStatusQuotaExceeded :: string where "UserStatusQuotaExceeded = ''quota_exceeded''"

lemmas user_status_defs = UserStatusActive_def UserStatusDisabled_def UserStatusExpired_def
  UserStatusQuotaExceeded_def

definition normalizeUserStatus :: "string \<Rightarrow> string" where
  "normalizeUserStatus status =
     (let v = ToLower (TrimSpace status) in
      if v = '''' \<or> v = UserStatusActive then UserStatusActive
      else if v = UserStatusDisabled then UserStatusDisabled
      else if v = UserStatusExpired then UserStatusExpired
      else if v = UserStatusQuotaExceeded then UserStatusQuotaExceeded
      else UserStatusActive)"

definition userLifecycleStatus :: "State \<Rightarrow> User \<Rightarrow> time \<Rightarrow> string \<times> string" where
  "userLifecycleStatus st u now =
     (if normalizeUserStatus (u_Status u) = UserStatusDisabled
        then (UserStatusDisabled, ''manually disabled'')
      else if \<not> IsZero (u_ExpiresAt u) \<and> \<not> now < u_ExpiresAt u
        then (UserStatusExpired, ''subscription expired'')
      else let limit = effectiveUserLimit st u in
        if limit > 0 \<and> u_TrafficUsedBytes u \<ge> limit
          then (UserStatusQuotaExceeded, ''traffic quota exceeded'')
        else (UserStatusActive, ''''))"

record UserEntitlements =
  ue_DataLimitBytes :: int
  ue_TrafficUsedBytes :: int
  ue_TrafficLeftBytes :: int
  ue_UnlimitedTraffic :: bool
  ue_DeviceLimit :: int
  ue_ResetIntervalDays :: int
  ue_ExpiresAt :: time
  ue_NextResetAt :: time
  ue_Status :: string
  ue_StatusReason :: string

definition userEntitlements :: "State \<Rightarrow> User \<Rightarrow> time \<Rightarrow> UserEntitlements" where
  "userEntitlements st u now =
     (let (status, reason) = userLifecycleStatus st u now;
          limit = effectiveUserLimit st u;
          unlimited = (limit \<le> 0);
          left = (if unlimited then - 1
                  else let l = int64 (limit - u_TrafficUsedBytes u) in if l < 0 then 0 else l)
      in \<lparr>ue_DataLimitBytes = limit,
          ue_TrafficUsedBytes = u_TrafficUsedBytes u,
          ue_TrafficLeftBytes = left,
          ue_UnlimitedTraffic = unlimited,
          ue_DeviceLimit = effectiveDeviceLimit st u,
          ue_ResetIntervalDays = effectiveResetIntervalDays st u,
          ue_ExpiresAt = u_ExpiresAt u,
          ue_NextResetAt = u_NextTrafficResetAt u,
          ue_Status = status,
          ue_StatusReason = reason\<rparr>)"

section \<open>The next traffic reset\<close>

text \<open>for !t.After(now) { t = t.Add(step) }\<close>

partial_function (option) reset_loop :: "duration \<Rightarrow> time \<Rightarrow> time \<Rightarrow> time option" where
  "reset_loop step now t = (if now < t then Some t else reset_loop step now (t + step))"

definition advanceResetAt :: "time \<Rightarrow> int \<Rightarrow> time \<Rightarrow> time option" where
  "advanceResetAt t days now =
     (if days \<le> 0 then Some 0
      else if IsZero t then Some (now + days_duration days)
      else reset_loop (days_duration days) now t)"

section \<open>Reconciliation\<close>

text \<open>The nodes of the inbounds a user is bound to, in binding order, with repetitions.\<close>

definition boundNodeIDs :: "State \<Rightarrow> string \<Rightarrow> string list" where
  "boundNodeIDs st userID =
     List.map_filter
       (\<lambda>b. if ic_UserID b = userID then map_option in_NodeID (findInbound st (ic_InboundID b))
            else None)
       (st_InboundClients st)"

definition resetDue :: "State \<Rightarrow> time \<Rightarrow> User \<Rightarrow> bool" where
  "resetDue st now u \<longleftrightarrow>
     effectiveResetIntervalDays st u > 0 \<and> \<not> IsZero (u_NextTrafficResetAt u) \<and>
     \<not> now < u_NextTrafficResetAt u"

text \<open>One iteration of the loop over the users: the new user and whether it changed.\<close>

definition reconcileUser :: "State \<Rightarrow> time \<Rightarrow> User \<Rightarrow> (User \<times> bool) option" where
  "reconcileUser st now u =
     Option.bind
       (if resetDue st now u
        then map_option
               (\<lambda>t. (u\<lparr>u_TrafficUsedBytes := 0, u_XrayTrafficBytes := 0, u_WireGuardTrafficBytes := 0,
                       u_LastTrafficResetAt := now, u_NextTrafficResetAt := t\<rparr>, True))
               (advanceResetAt (u_NextTrafficResetAt u) (effectiveResetIntervalDays st u) now)
        else Some (u, False))
       (\<lambda>(u1, changed1).
          let (status, reason) = userLifecycleStatus st u1 now;
              differs = (u_Status u1 \<noteq> status \<or> u_StatusReason u1 \<noteq> reason);
              u2 = (if differs then u1\<lparr>u_Status := status, u_StatusReason := reason\<rparr> else u1);
              changed = (changed1 \<or> differs)
          in Some (if changed then u2\<lparr>u_UpdatedAt := now\<rparr> else u2, changed))"

fun reconcileUsers :: "State \<Rightarrow> time \<Rightarrow> User list \<Rightarrow> (User list \<times> string list) option" where
  "reconcileUsers st now [] = Some ([], [])"
| "reconcileUsers st now (u # us) =
     Option.bind (reconcileUser st now u)
       (\<lambda>(u', changed).
          Option.bind (reconcileUsers st now us)
            (\<lambda>(us', nodes).
               Some (u' # us', (if changed then boundNodeIDs st (u_ID u) else []) @ nodes)))"

definition reconcileSubscriptions :: "State \<Rightarrow> time \<Rightarrow> (string list \<times> State) option" where
  "reconcileSubscriptions st now =
     map_option
       (\<lambda>(us, nodes). (insertion_sort string_less (remdups nodes), st\<lparr>st_Users := us\<rparr>))
       (reconcileUsers st now (st_Users st))"

section \<open>Actions on a user\<close>

text \<open>What decodeJSON makes of the body for the two actions that read one.\<close>

record action_input =
  ain_renew :: "go_error + int"
  ain_apply :: "go_error + (string \<times> bool)"

definition resetUserTraffic :: "time \<Rightarrow> User \<Rightarrow> User" where
  "resetUserTraffic now u =
     u\<lparr>u_TrafficUsedBytes := 0, u_XrayTrafficBytes := 0, u_WireGuardTrafficBytes := 0,
       u_LastTrafficResetAt := now\<rparr>"

definition renewUser :: "State \<Rightarrow> time \<Rightarrow> int \<Rightarrow> User \<Rightarrow> go_error + User" where
  "renewUser st now inDays u =
     (let days = (if inDays \<le> 0
                  then case findPlan st (u_PlanID u) of Some p \<Rightarrow> p_DurationDays p | None \<Rightarrow> inDays
                  else inDays)
      in if days \<le> 0 then Inl (Plain ''renewal days must be greater than zero'')
         else let base = (if u_ExpiresAt u > now then u_ExpiresAt u else now);
                  u1 = u\<lparr>u_ExpiresAt := base + days_duration days\<rparr>
              in Inr (if u_Status u1 \<noteq> UserStatusDisabled
                      then u1\<lparr>u_Status := UserStatusActive, u_StatusReason := ''''\<rparr> else u1))"

definition applyPlan :: "State \<Rightarrow> time \<Rightarrow> string \<Rightarrow> bool \<Rightarrow> User \<Rightarrow> go_error + User" where
  "applyPlan st now planID reset u =
     (case findPlan st planID of
        None \<Rightarrow> Inl (Plain ''plan not found'')
      | Some p \<Rightarrow>
          if \<not> p_Enabled p then Inl (Plain ''plan is disabled'')
          else
            let u1 = u\<lparr>u_PlanID := p_ID p, u_DataLimitBytes := 0, u_DeviceLimit := 0,
                       u_ResetIntervalDays := 0\<rparr>;
                u2 = (if p_DurationDays p > 0
                      then u1\<lparr>u_ExpiresAt := now + days_duration (p_DurationDays p)\<rparr> else u1);
                u3 = (if p_ResetIntervalDays p > 0
                      then u2\<lparr>u_NextTrafficResetAt := now + days_duration (p_ResetIntervalDays p)\<rparr>
                      else u2\<lparr>u_NextTrafficResetAt := 0\<rparr>);
                u4 = (if reset then resetUserTraffic now u3 else u3)
            in Inr (if u_Status u4 \<noteq> UserStatusDisabled
                    then u4\<lparr>u_Status := UserStatusActive, u_StatusReason := ''''\<rparr> else u4))"

definition userAction ::
  "State \<Rightarrow> time \<Rightarrow> string \<Rightarrow> action_input \<Rightarrow> string \<Rightarrow> User \<Rightarrow> go_error + User" where
  "userAction st now action inp token u =
     (if action = ''enable'' then
        Inr (u\<lparr>u_Status := UserStatusActive, u_StatusReason := ''''\<rparr>)
      else if action = ''disable'' then
        Inr (u\<lparr>u_Status := UserStatusDisabled, u_StatusReason := ''manually disabled''\<rparr>)
      else if action = ''reset-traffic'' then
        (let u1 = resetUserTraffic now u;
             days = effectiveResetIntervalDays st u1;
             u2 = (if days > 0 then u1\<lparr>u_NextTrafficResetAt := now + days_duration days\<rparr>
                   else u1\<lparr>u_NextTrafficResetAt := 0\<rparr>);
             (status, reason) = userLifecycleStatus st u2 now
         in Inr (u2\<lparr>u_Status := status, u_StatusReason := reason\<rparr>))
      else if action = ''renew'' then
        (case ain_renew inp of Inl e \<Rightarrow> Inl e | Inr days \<Rightarrow> renewUser st now days u)
      else if action = ''regenerate-token'' then
        Inr (u\<lparr>u_SubscriptionToken := token\<rparr>)
      else if action = ''apply-plan'' then
        (case ain_apply inp of
           Inl e \<Rightarrow> Inl e | Inr (planID, reset) \<Rightarrow> applyPlan st now planID reset u)
      else Inl (Plain ''invalid user action''))"

text \<open>The callback of the action's store update: it captures the nodes to deploy.\<close>

definition userActionUpdate ::
  "time \<Rightarrow> string \<Rightarrow> string \<Rightarrow> action_input \<Rightarrow> string \<Rightarrow> State \<Rightarrow> go_error + string list \<times> State" where
  "userActionUpdate now uid action inp token st =
     (case findUser st uid of
        None \<Rightarrow> Inl (Plain ''user not found'')
      | Some u \<Rightarrow>
          (case userAction st now action inp token u of
             Inl e \<Rightarrow> Inl e
           | Inr u' \<Rightarrow>
               Inr (boundNodeIDs st (u_ID u'),
                    updUser uid (\<lambda>_. u'\<lparr>u_UpdatedAt := now\<rparr>) st)))"

type_synonym 'w deployer = "string \<Rightarrow> 'w Store \<Rightarrow> go_error option \<times> 'w Store"

text \<open>for _, id := range nodeIDs { _ = deploy(id) }\<close>

fun deploy_all :: "'w deployer \<Rightarrow> string list \<Rightarrow> 'w Store \<Rightarrow> 'w Store" where
  "deploy_all deploy [] s = s"
| "deploy_all deploy (n # ns) s = deploy_all deploy ns (snd (deploy n s))"

definition loadUserEntitlements ::
  "time \<Rightarrow> string \<Rightarrow> 'w Store \<Rightarrow> go_error + User \<times> UserEntitlements" where
  "loadUserEntitlements now uid s =
     Read (\<lambda>st. case findUser st uid of
                  None \<Rightarrow> Inl (Plain ''user not found'')
                | Some u \<Rightarrow> Inr (u, userEntitlements st u now)) s"

text \<open>The lifecycle tick: a failed or endless update deploys nothing.\<close>

definition reconcileSubscriptionsAndDeploy ::
  "'w saver \<Rightarrow> 'w deployer \<Rightarrow> time \<Rightarrow> 'w Store \<Rightarrow> 'w Store option" where
  "reconcileSubscriptionsAndDeploy save deploy now s =
     (case reconcileSubscriptions (cloneState (store_st s)) now of
        None \<Rightarrow> None
      | Some (nodeIDs, st) \<Rightarrow>
          (case Update save (\<lambda>_. Inr (nodeIDs, st)) s of
             (Inl e, s1) \<Rightarrow> Some s1
           | (Inr ids, s1) \<Rightarrow> Some (deploy_all deploy ids s1)))"

section \<open>Lemmas: status\<close>

lemma normalize_known [simp]:
  "normalizeUserStatus ''active'' = ''active''"
  "normalizeUserStatus ''disabled'' = ''disabled''"
  "normalizeUserStatus ''expired'' = ''expired''"
  "normalizeUserStatus ''quota_exceeded'' = ''quota_exceeded''"
  by code_simp+

lemma normalizeUserStatus_range:
  "normalizeUserStatus v \<in> {''active'', ''disabled'', ''expired'', ''quota_exceeded''}"
  by (simp add: normalizeUserStatus_def Let_def user_status_defs)

lemma lifecycle_range:
  "fst (userLifecycleStatus st u now) \<in> {''active'', ''disabled'', ''expired'', ''quota_exceeded''}"
  by (simp add: userLifecycleStatus_def Let_def user_status_defs)

lemma lifecycle_normalized:
  "normalizeUserStatus (fst (userLifecycleStatus st u now)) = fst (userLifecycleStatus st u now)"
  by (simp add: userLifecycleStatus_def Let_def user_status_defs)

lemma lifecycle_disabled_iff:
  "fst (userLifecycleStatus st u now) = ''disabled'' \<longleftrightarrow> normalizeUserStatus (u_Status u) = ''disabled''"
  by (simp add: userLifecycleStatus_def Let_def user_status_defs)

text \<open>The status depends on the plans of the state only, and on these fields of the user.\<close>

lemma effectiveUserLimit_cong:
  "st_Plans st' = st_Plans st \<Longrightarrow> u_DataLimitBytes u' = u_DataLimitBytes u \<Longrightarrow>
   u_PlanID u' = u_PlanID u \<Longrightarrow> effectiveUserLimit st' u' = effectiveUserLimit st u"
  by (simp add: effectiveUserLimit_def findPlan_def)

lemma effectiveResetIntervalDays_cong:
  "st_Plans st' = st_Plans st \<Longrightarrow> u_ResetIntervalDays u' = u_ResetIntervalDays u \<Longrightarrow>
   u_PlanID u' = u_PlanID u \<Longrightarrow> effectiveResetIntervalDays st' u' = effectiveResetIntervalDays st u"
  by (simp add: effectiveResetIntervalDays_def findPlan_def)

lemma lifecycle_cong:
  assumes "st_Plans st' = st_Plans st" "u_DataLimitBytes u' = u_DataLimitBytes u"
    "u_PlanID u' = u_PlanID u" "u_ExpiresAt u' = u_ExpiresAt u"
    "u_TrafficUsedBytes u' = u_TrafficUsedBytes u"
    "normalizeUserStatus (u_Status u') = ''disabled'' \<longleftrightarrow> normalizeUserStatus (u_Status u) = ''disabled''"
  shows "userLifecycleStatus st' u' now = userLifecycleStatus st u now"
  using assms effectiveUserLimit_cong [OF assms(1-3)]
  by (simp add: userLifecycleStatus_def UserStatusDisabled_def)

text \<open>Giving a user its lifecycle status changes nothing any more: the status is stable.\<close>

lemma lifecycle_stable:
  assumes "userLifecycleStatus st u now = (status, reason)" "st_Plans st' = st_Plans st"
    "u_DataLimitBytes u' = u_DataLimitBytes u" "u_PlanID u' = u_PlanID u"
    "u_ExpiresAt u' = u_ExpiresAt u" "u_TrafficUsedBytes u' = u_TrafficUsedBytes u"
    "u_Status u' = status"
  shows "userLifecycleStatus st' u' now = (status, reason)"
proof -
  have "status = fst (userLifecycleStatus st u now)" by (simp add: assms(1))
  then have "normalizeUserStatus status = ''disabled'' \<longleftrightarrow> normalizeUserStatus (u_Status u) = ''disabled''"
    using lifecycle_normalized lifecycle_disabled_iff by metis
  with assms show ?thesis using lifecycle_cong [of st' st u' u now] by simp
qed

section \<open>Lemmas: the reset loop\<close>

lemma reset_loop_positive:
  assumes "0 < step"
  shows "\<exists>r. reset_loop step now t = Some r \<and> now < r \<and> (\<exists>k. r = t + int k * step) \<and>
             (t \<le> now \<longrightarrow> r \<le> now + step) \<and> (now < t \<longrightarrow> r = t)"
proof (induction "nat (now + 1 - t)" arbitrary: t rule: less_induct)
  case less
  show ?case
  proof (cases "now < t")
    case True
    then show ?thesis by (intro exI [of _ t]) (auto simp: reset_loop.simps intro: exI [of _ 0])
  next
    case False
    with assms have "nat (now + 1 - (t + step)) < nat (now + 1 - t)" by simp
    from less [OF this] obtain r k where r: "reset_loop step now (t + step) = Some r" "now < r"
      "r = t + step + int k * step" "t + step \<le> now \<longrightarrow> r \<le> now + step"
      "now < t + step \<longrightarrow> r = t + step" by blast
    have "r = t + int (Suc k) * step" using r(3) by (simp add: algebra_simps)
    moreover have "r \<le> now + step" using r(4,5) False by (cases "now < t + step") auto
    moreover have "reset_loop step now t = Some r" using r(1) False by (simp add: reset_loop.simps)
    ultimately show ?thesis using r(2) False by blast
  qed
qed

lemma reset_loop_nonpositive:
  assumes "step \<le> 0" "t \<le> now"
  shows "reset_loop step now t = None"
proof (rule ccontr)
  assume "reset_loop step now t \<noteq> None"
  then obtain r where "reset_loop step now t = Some r" by blast
  then have "step \<le> 0 \<longrightarrow> t \<le> now \<longrightarrow> False"
  proof (rule reset_loop.raw_induct
      [where P = "\<lambda>step now t r. step \<le> 0 \<longrightarrow> t \<le> now \<longrightarrow> False", rotated])
    fix f :: "int \<Rightarrow> int \<Rightarrow> int \<Rightarrow> int option" and step now t r
    assume IH: "\<And>step now t r. f step now t = Some r \<Longrightarrow> step \<le> 0 \<longrightarrow> t \<le> now \<longrightarrow> False"
      and eq: "(if now < t then Some t else f step now (t + step)) = Some r"
    show "step \<le> 0 \<longrightarrow> t \<le> now \<longrightarrow> False"
      using IH [of step now "t + step" r] eq by (auto split: if_splits)
  qed
  with assms show False by blast
qed

text \<open>Whenever the loop returns, for whatever step, it returns an instant in the future.\<close>

lemma reset_loop_result:
  assumes "reset_loop step now t = Some r"
  shows "now < r"
proof (rule reset_loop.raw_induct [where P = "\<lambda>step now t r. now < r", OF _ assms])
  fix f :: "int \<Rightarrow> int \<Rightarrow> int \<Rightarrow> int option" and step now t r
  assume IH: "\<And>step now t r. f step now t = Some r \<Longrightarrow> now < r"
    and eq: "(if now < t then Some t else f step now (t + step)) = Some r"
  show "now < r" using IH [of step now "t + step" r] eq by (auto split: if_splits)
qed

lemma advanceResetAt_after:
  assumes "1 \<le> days" "days \<le> 106751"
  shows "\<exists>r. advanceResetAt t days now = Some r \<and> now < r"
  using reset_loop_positive [OF days_duration_pos [OF assms]] days_duration_pos [OF assms] assms
  by (auto simp: advanceResetAt_def)

section \<open>Lemmas: reconciliation\<close>

text \<open>What one iteration does to a user, when the reset loop returns.\<close>

lemma reconcileUser_Some:
  assumes "reconcileUser st now u = Some (u', changed)"
  shows "userLifecycleStatus st u' now = (u_Status u', u_StatusReason u')"
    and "\<not> resetDue st now u'"
    and "u_ID u' = u_ID u" "u_Username u' = u_Username u" "u_PlanID u' = u_PlanID u"
      "u_ExpiresAt u' = u_ExpiresAt u" "u_DataLimitBytes u' = u_DataLimitBytes u"
      "u_ResetIntervalDays u' = u_ResetIntervalDays u"
      "u_SubscriptionToken u' = u_SubscriptionToken u"
    and "\<not> changed \<Longrightarrow> u' = u"
proof -
  obtain u1 changed1 where first:
    "(if resetDue st now u
      then map_option
             (\<lambda>t. (u\<lparr>u_TrafficUsedBytes := 0, u_XrayTrafficBytes := 0, u_WireGuardTrafficBytes := 0,
                     u_LastTrafficResetAt := now, u_NextTrafficResetAt := t\<rparr>, True))
             (advanceResetAt (u_NextTrafficResetAt u) (effectiveResetIntervalDays st u) now)
      else Some (u, False)) = Some (u1, changed1)"
    using assms unfolding reconcileUser_def bind_eq_Some_conv by auto
  obtain status reason where life: "userLifecycleStatus st u1 now = (status, reason)" by fastforce
  have u': "u' = (let u2 = (if u_Status u1 \<noteq> status \<or> u_StatusReason u1 \<noteq> reason
                             then u1\<lparr>u_Status := status, u_StatusReason := reason\<rparr> else u1)
                  in if changed then u2\<lparr>u_UpdatedAt := now\<rparr> else u2)"
    and ch: "changed = (changed1 \<or> u_Status u1 \<noteq> status \<or> u_StatusReason u1 \<noteq> reason)"
    using assms first life unfolding reconcileUser_def by (auto simp: Let_def)
  have fields: "u_Status u' = status" "u_StatusReason u' = reason"
    "u_NextTrafficResetAt u' = u_NextTrafficResetAt u1" "u_PlanID u' = u_PlanID u1"
    "u_ResetIntervalDays u' = u_ResetIntervalDays u1" "u_DataLimitBytes u' = u_DataLimitBytes u1"
    "u_ExpiresAt u' = u_ExpiresAt u1" "u_TrafficUsedBytes u' = u_TrafficUsedBytes u1"
    "u_ID u' = u_ID u1" "u_Username u' = u_Username u1"
    "u_SubscriptionToken u' = u_SubscriptionToken u1"
    by (simp_all add: u' Let_def)
  have u1: "u_ID u1 = u_ID u" "u_Username u1 = u_Username u" "u_PlanID u1 = u_PlanID u"
      "u_ExpiresAt u1 = u_ExpiresAt u" "u_DataLimitBytes u1 = u_DataLimitBytes u"
      "u_ResetIntervalDays u1 = u_ResetIntervalDays u"
      "u_SubscriptionToken u1 = u_SubscriptionToken u" "\<not> changed1 \<Longrightarrow> u1 = u"
    using first by (auto split: if_splits)
  show "userLifecycleStatus st u' now = (u_Status u', u_StatusReason u')"
    using lifecycle_stable [OF life refl, of u'] fields by simp
  have days: "effectiveResetIntervalDays st u' = effectiveResetIntervalDays st u"
    by (rule effectiveResetIntervalDays_cong) (simp_all add: fields u1)
  show "\<not> resetDue st now u'"
  proof (cases "resetDue st now u")
    case True
    then obtain t where "advanceResetAt (u_NextTrafficResetAt u) (effectiveResetIntervalDays st u) now = Some t"
      and "u_NextTrafficResetAt u1 = t" using first by auto
    with True have "now < u_NextTrafficResetAt u1"
      by (auto simp: advanceResetAt_def resetDue_def dest: reset_loop_result split: if_splits)
    then show ?thesis by (simp add: resetDue_def fields)
  next
    case False
    then have "u1 = u" using first by simp
    with False show ?thesis by (simp add: resetDue_def fields days)
  qed
  show "u_ID u' = u_ID u" "u_Username u' = u_Username u" "u_PlanID u' = u_PlanID u"
      "u_ExpiresAt u' = u_ExpiresAt u" "u_DataLimitBytes u' = u_DataLimitBytes u"
      "u_ResetIntervalDays u' = u_ResetIntervalDays u"
      "u_SubscriptionToken u' = u_SubscriptionToken u"
    using fields u1 by simp_all
  show "\<not> changed \<Longrightarrow> u' = u"
    using u1 by (simp add: u' ch Let_def)
qed

lemma reconcileUser_stable:
  assumes "userLifecycleStatus st u now = (u_Status u, u_StatusReason u)" "\<not> resetDue st now u"
  shows "reconcileUser st now u = Some (u, False)"
  using assms by (simp add: reconcileUser_def)

lemma reconcileUsers_stable:
  assumes "\<forall>u \<in> set us. userLifecycleStatus st u now = (u_Status u, u_StatusReason u) \<and> \<not> resetDue st now u"
  shows "reconcileUsers st now us = Some (us, [])"
  using assms by (induction us) (auto simp: reconcileUser_stable)

lemma reconcileUsers_Some:
  assumes "reconcileUsers st now us = Some (us', nodes)"
  shows "list_all2 (\<lambda>u u'. \<exists>ch. reconcileUser st now u = Some (u', ch)) us us'"
    and "set nodes = (\<Union>u \<in> {u \<in> set us. \<exists>u'. reconcileUser st now u = Some (u', True)}.
                        set (boundNodeIDs st (u_ID u)))"
  using assms
proof (induction us arbitrary: us' nodes)
  case (Cons u us)
  {
    case 1
    with Cons show ?case by (auto simp: bind_eq_Some_conv)
  next
    case 2
    then obtain u' ch vs ns where *: "reconcileUser st now u = Some (u', ch)"
      "reconcileUsers st now us = Some (vs, ns)"
      "nodes = (if ch then boundNodeIDs st (u_ID u) else []) @ ns"
      by (auto simp: bind_eq_Some_conv)
    from Cons.IH(2) [OF *(2)] * show ?case by (cases ch) auto
  }
qed simp_all

lemma reconcileUsers_total:
  assumes "\<forall>u \<in> set us. effectiveResetIntervalDays st u \<le> 106751"
  shows "\<exists>us' nodes. reconcileUsers st now us = Some (us', nodes)"
  using assms
proof (induction us)
  case (Cons u us)
  have "\<exists>r. advanceResetAt (u_NextTrafficResetAt u) (effectiveResetIntervalDays st u) now = Some r"
    if "resetDue st now u"
    using that Cons.prems
      advanceResetAt_after [of "effectiveResetIntervalDays st u" "u_NextTrafficResetAt u" now]
    by (auto simp: resetDue_def)
  then have "\<exists>p. reconcileUser st now u = Some p"
    unfolding reconcileUser_def
    by (cases "resetDue st now u") (auto simp: Let_def case_prod_beta)
  with Cons show ?case by auto
qed simp

text \<open>The model's plan and binding tables are not touched, so the reads of a later run agree.\<close>

lemma reconcile_frame:
  assumes "reconcileSubscriptions st now = Some (ids, st')"
  shows "st' = st\<lparr>st_Users := st_Users st'\<rparr>"
  using assms by (auto simp: reconcileSubscriptions_def)

lemma lifecycle_users [simp]:
  "userLifecycleStatus (st\<lparr>st_Users := us\<rparr>) u now = userLifecycleStatus st u now"
  by (rule lifecycle_cong) simp_all

lemma resetDue_users [simp]: "resetDue (st\<lparr>st_Users := us\<rparr>) now u = resetDue st now u"
  by (simp add: resetDue_def effectiveResetIntervalDays_cong [of "st\<lparr>st_Users := us\<rparr>" st u u])

section \<open>Properties\<close>

definition sample_user :: User where
  "sample_user =
     \<lparr>u_ID = ''u1'', u_Username = ''ali'', u_DisplayName = [], u_Email = [],
      u_Status = ''active'', u_StatusReason = [], u_PlanID = [], u_ExpiresAt = 0,
      u_DataLimitBytes = 1000, u_TrafficUsedBytes = 1500, u_XrayTrafficBytes = 1500,
      u_WireGuardTrafficBytes = 0, u_DeviceLimit = 0, u_ResetIntervalDays = 30,
      u_LastTrafficResetAt = 0, u_NextTrafficResetAt = 86400000000000,
      u_Online = False, u_OnlineIPs = 0, u_LastOnlineAt = 0,
      u_SubscriptionToken = ''tok'', u_CreatedAt = 1, u_UpdatedAt = 1\<rparr>"

definition sample_state :: State where
  "sample_state = emptyState\<lparr>st_Users := [sample_user]\<rparr>"

text \<open>
  The lifecycle rule in one line: a user is active exactly when not manually disabled, not past
  the expiry instant and, where a limit applies (the user's own or the plan's), below it; a manual
  disable wins over expiry, and expiry over the quota.
\<close>

lemma lifecycle_rule:
  "fst (userLifecycleStatus st u now) =
     (if normalizeUserStatus (u_Status u) = ''disabled'' then ''disabled''
      else if u_ExpiresAt u \<noteq> 0 \<and> u_ExpiresAt u \<le> now then ''expired''
      else if 0 < effectiveUserLimit st u \<and> effectiveUserLimit st u \<le> u_TrafficUsedBytes u
        then ''quota_exceeded''
      else ''active'')"
  by (simp add: userLifecycleStatus_def Let_def user_status_defs IsZero_def not_less)

text \<open>
  What a user is shown as left is never negative, is -1 exactly for unlimited traffic, and is 0
  for a limited user exactly when the lifecycle rule's quota test holds (amounts being in range).
\<close>

lemma entitlements_left:
  assumes "0 \<le> u_TrafficUsedBytes u" "u_TrafficUsedBytes u < 2 ^ 63" "effectiveUserLimit st u < 2 ^ 63"
    and "e = userEntitlements st u now"
  shows "- 1 \<le> ue_TrafficLeftBytes e \<and>
         (ue_UnlimitedTraffic e \<longleftrightarrow> ue_TrafficLeftBytes e = - 1) \<and>
         (\<not> ue_UnlimitedTraffic e \<longrightarrow>
            (ue_TrafficLeftBytes e = 0 \<longleftrightarrow> effectiveUserLimit st u \<le> u_TrafficUsedBytes u) \<and>
            ue_TrafficLeftBytes e = max 0 (effectiveUserLimit st u - u_TrafficUsedBytes u))"
proof (cases "effectiveUserLimit st u \<le> 0")
  case True
  then show ?thesis by (simp add: assms(4) userEntitlements_def Let_def split: prod.splits)
next
  case False
  then have "int64 (effectiveUserLimit st u - u_TrafficUsedBytes u)
      = effectiveUserLimit st u - u_TrafficUsedBytes u"
    using assms(1-3) by (intro int64_id) auto
  with False show ?thesis
    by (auto simp: assms(4) userEntitlements_def Let_def split: prod.splits)
qed

lemma entitlements_left_witness:
  "ue_TrafficLeftBytes (userEntitlements sample_state sample_user 5) = 0"
  using entitlements_left [of sample_user sample_state "userEntitlements sample_state sample_user 5" 5]
  by (simp add: sample_user_def sample_state_def effectiveUserLimit_def userEntitlements_def Let_def
      split: prod.splits)

text \<open>
  For an interval of 1 to 106751 days the next reset is always computed: the loop ends, in the
  future, within one interval of now when the old date had passed, and a whole number of intervals
  after it.
\<close>

lemma advance_reset_total:
  assumes "1 \<le> days" "days \<le> 106751" "t \<noteq> 0"
  shows "\<exists>r. advanceResetAt t days now = Some r \<and> now < r \<and>
             (t \<le> now \<longrightarrow> r \<le> now + days * 86400000000000) \<and> (now < t \<longrightarrow> r = t) \<and>
             (\<exists>k. r = t + int k * (days * 86400000000000))"
  using reset_loop_positive [OF days_duration_pos [OF assms(1,2)], of now t] assms
  by (auto simp: advanceResetAt_def IsZero_def days_duration_exact)

lemma advance_reset_total_witness:
  "\<exists>r. advanceResetAt 5 30 (10 ^ 18) = Some r \<and> 10 ^ 18 < r"
  using advance_reset_total [of 30 5 "10 ^ 18"] by auto

text \<open>
  An interval whose length in nanoseconds does not fit in an int64 and wraps to a value that is
  not positive (106752 days is the first) never returns once the reset date has passed: the loop
  runs forever, with the store's lock held.
\<close>

lemma advance_reset_diverges:
  assumes "0 < days" "days_duration days \<le> 0" "t \<noteq> 0" "t \<le> now"
  shows "advanceResetAt t days now = None"
  using assms by (simp add: advanceResetAt_def IsZero_def reset_loop_nonpositive)

lemma advance_reset_diverges_witness: "advanceResetAt 5 106752 (10 ^ 18) = None"
  using days_duration_wraps by (intro advance_reset_diverges) simp_all

text \<open>
  C31: after a reconciliation every user carries exactly the status and reason of the lifecycle
  rule and no user is due for a reset, so a second run at the same instant changes nothing and
  deploys nothing; only the table of users is written.
\<close>

theorem reconcile_fixpoint:
  assumes "reconcileSubscriptions st now = Some (ids, st')"
  shows "(\<forall>u \<in> set (st_Users st').
            userLifecycleStatus st' u now = (u_Status u, u_StatusReason u) \<and> \<not> resetDue st' now u) \<and>
         reconcileSubscriptions st' now = Some ([], st') \<and>
         st' = st\<lparr>st_Users := st_Users st'\<rparr>"
proof -
  obtain nodes where users: "reconcileUsers st now (st_Users st) = Some (st_Users st', nodes)"
    and st': "st' = st\<lparr>st_Users := st_Users st'\<rparr>"
    using assms by (auto simp: reconcileSubscriptions_def)
  have "\<forall>u \<in> set (st_Users st').
      userLifecycleStatus st u now = (u_Status u, u_StatusReason u) \<and> \<not> resetDue st now u"
    using reconcileUsers_Some(1) [OF users]
    by (auto simp: list_all2_conv_all_nth in_set_conv_nth)
       (metis reconcileUser_Some(1), metis reconcileUser_Some(2))
  then have settled: "\<forall>u \<in> set (st_Users st').
      userLifecycleStatus st' u now = (u_Status u, u_StatusReason u) \<and> \<not> resetDue st' now u"
    by (subst (1 2) st') simp
  have "reconcileSubscriptions st' now = Some ([], st')"
    using settled by (simp add: reconcileSubscriptions_def reconcileUsers_stable insertion_sort_def)
  with settled st' show ?thesis by blast
qed

theorem reconcile_fixpoint_witness:
  "\<exists>ids st'. reconcileSubscriptions sample_state (10 ^ 18) = Some (ids, st') \<and>
             reconcileSubscriptions st' (10 ^ 18) = Some ([], st')"
proof -
  have "\<exists>us nodes. reconcileUsers sample_state (10 ^ 18) (st_Users sample_state) = Some (us, nodes)"
    by (rule reconcileUsers_total)
       (simp add: sample_state_def sample_user_def effectiveResetIntervalDays_def)
  then obtain ids st' where "reconcileSubscriptions sample_state (10 ^ 18) = Some (ids, st')"
    by (auto simp: reconcileSubscriptions_def)
  with reconcile_fixpoint [OF this] show ?thesis by blast
qed

text \<open>
  The reconciliation returns, in strictly increasing order, exactly the nodes that carry an
  inbound of some user whose record it changed.
\<close>

lemma reconcile_nodes_exact:
  assumes "reconcileSubscriptions st now = Some (ids, st')"
  shows "set ids = (\<Union>u \<in> {u \<in> set (st_Users st). \<exists>u'. reconcileUser st now u = Some (u', True)}.
                      set (boundNodeIDs st (u_ID u))) \<and>
         distinct ids \<and> in_order string_less ids"
proof -
  obtain us nodes where users: "reconcileUsers st now (st_Users st) = Some (us, nodes)"
    and ids: "ids = insertion_sort string_less (remdups nodes)"
    using assms by (auto simp: reconcileSubscriptions_def)
  have "in_order string_less ids"
    unfolding ids by (rule in_order_insertion_sort) (rule strict_weak_string_less)
  with reconcileUsers_Some(2) [OF users] show ?thesis by (simp add: ids)
qed

lemma reconcile_nodes_exact_witness:
  "\<exists>ids st'. reconcileSubscriptions sample_state 5 = Some (ids, st') \<and> set ids = {}"
proof -
  have "\<exists>us nodes. reconcileUsers sample_state 5 (st_Users sample_state) = Some (us, nodes)"
    by (rule reconcileUsers_total)
       (simp add: sample_state_def sample_user_def effectiveResetIntervalDays_def)
  then obtain ids st' where *: "reconcileSubscriptions sample_state 5 = Some (ids, st')"
    by (auto simp: reconcileSubscriptions_def)
  have "set ids = {}"
    using reconcile_nodes_exact [OF *]
    by (simp add: boundNodeIDs_def sample_state_def emptyState_def map_filter_simps)
  with * show ?thesis by blast
qed

end
