(* ===== verification/Tx.thy ===== *)
theory Tx
  imports Env Subscriptions
begin

text \<open>
  The shape every transactional operation of the panel has: write the state, deploy the nodes
  concerned, and when a deployment fails undo the write, deploy once more, and report what became
  of the undo and of the recovery. The operations themselves (routing_transaction.go,
  outbound_control.go, outbound_groups.go, inbound_lifecycle.go, inbound_hardening.go) are in the
  theories of their components; this theory has the parts they repeat word for word, and, in the
  locale deploy_frame, what holds of all of them when the deployment leaves a table alone.
\<close>

type_synonym 'w tx = "go_error option \<times> 'w Store"

definition deployOrder :: "string \<Rightarrow> string \<Rightarrow> string list" where
  "deployOrder oldNodeID newNodeID =
     (if oldNodeID = [] then (if newNodeID = [] then [] else [newNodeID])
      else if newNodeID = [] \<or> oldNodeID = newNodeID then [oldNodeID]
      else [oldNodeID, newNodeID])"

text \<open>redeployRoutingNodes, redeployOutboundNodes and redeployInboundNodes.\<close>

fun redeploy_loop ::
  "'w deployer \<Rightarrow> string list \<Rightarrow> string list \<Rightarrow> string list \<Rightarrow> 'w Store \<Rightarrow> string list \<times> 'w Store" where
  "redeploy_loop deploy [] seen errs s = (errs, s)"
| "redeploy_loop deploy (n # ns) seen errs s =
     (if n = [] \<or> n \<in> set seen then redeploy_loop deploy ns seen errs s
      else case deploy n s of
             (None, s1) \<Rightarrow> redeploy_loop deploy ns (n # seen) errs s1
           | (Some e, s1) \<Rightarrow>
               redeploy_loop deploy ns (n # seen) (errs @ [n @ '': '' @ err_msg e]) s1)"

definition redeployNodes :: "string list \<Rightarrow> 'w deployer \<Rightarrow> 'w Store \<Rightarrow> 'w tx" where
  "redeployNodes nodes deploy s =
     (case redeploy_loop deploy nodes [] [] s of
        (errs, s1) \<Rightarrow> (if errs \<noteq> [] then Some (Plain (JoinStrings errs ''; '')) else None, s1))"

text \<open>The switch over rollbackErr and recoveryErr.\<close>

fun deployment_failure ::
  "string \<Rightarrow> go_error \<Rightarrow> go_error option \<Rightarrow> go_error option \<Rightarrow> string" where
  "deployment_failure n e (Some rb) (Some rec) =
     ''deploy node '' @ n @ '': '' @ err_msg e @ ''; state rollback failed: '' @ err_msg rb @
     ''; runtime recovery failed: '' @ err_msg rec"
| "deployment_failure n e (Some rb) None =
     ''deploy node '' @ n @ '': '' @ err_msg e @ ''; state rollback failed: '' @ err_msg rb"
| "deployment_failure n e None (Some rec) =
     ''deploy node '' @ n @ '': '' @ err_msg e @ ''; state rolled back; runtime recovery failed: '' @
     err_msg rec"
| "deployment_failure n e None None =
     ''deploy node '' @ n @ '': '' @ err_msg e @ ''; state and runtime rolled back''"

text \<open>
  The loop over the nodes to deploy: the first failure undoes the state, runs the recovery and
  returns the deployment error.
\<close>

fun deploy_or_rollback ::
  "(string \<Rightarrow> go_error) \<Rightarrow> 'w saver \<Rightarrow> 'w deployer \<Rightarrow> ('w Store \<Rightarrow> 'w tx) \<Rightarrow>
   (State \<Rightarrow> go_error + State) \<Rightarrow> string list \<Rightarrow> 'w Store \<Rightarrow> 'w tx" where
  "deploy_or_rollback wrap save deploy recover undo [] s = (None, s)"
| "deploy_or_rollback wrap save deploy recover undo (n # ns) s =
     (case deploy n s of
        (None, s1) \<Rightarrow> deploy_or_rollback wrap save deploy recover undo ns s1
      | (Some e, s1) \<Rightarrow>
          (case UpdateE save undo s1 of
             (rollbackErr, s2) \<Rightarrow>
               (case recover s2 of
                  (recoveryErr, s3) \<Rightarrow>
                    (Some (wrap (deployment_failure n e rollbackErr recoveryErr)), s3))))"

lemma deployOrder_set: "set (deployOrder a b) = {a, b} - {[]}"
  by (auto simp: deployOrder_def)

lemma deployOrder_distinct: "distinct (deployOrder a b)"
  by (simp add: deployOrder_def)

section \<open>The two ways a transaction ends\<close>

text \<open>
  Refused: the callback of the first Update returned the error, or the save that follows it did;
  the state is untouched. Run: the state st1 was written; then every node took its deployment, or
  the deployment error came back with the view of the state before (undone) or, when the undo could
  not be saved, with that of st1.
\<close>

definition tx_refused ::
  "'w saver \<Rightarrow> (State \<Rightarrow> go_error + 'a \<times> State) \<Rightarrow> 'w Store \<Rightarrow> go_error option \<Rightarrow> State \<Rightarrow> bool" where
  "tx_refused save upd s r st' \<longleftrightarrow>
     st' = store_st s \<and>
     (\<exists>e. r = Some e \<and>
        (upd (store_st s) = Inl e \<or>
         (\<exists>a st1 w. upd (store_st s) = Inr (a, st1) \<and> save st1 (store_world s) = (Some e, w))))"

definition tx_run ::
  "(State \<Rightarrow> 'v) \<Rightarrow> (string \<Rightarrow> go_error) \<Rightarrow> string list \<Rightarrow> State \<Rightarrow> State \<Rightarrow> go_error option \<Rightarrow> State \<Rightarrow> bool" where
  "tx_run view wrap nodes st0 st1 r st' \<longleftrightarrow>
     (r = None \<and> view st' = view st1) \<or>
     (\<exists>n e rb rec. n \<in> set nodes \<and> r = Some (wrap (deployment_failure n e rb rec)) \<and>
        view st' = (if rb = None then view st0 else view st1))"

lemma Update_refused:
  "Update save upd s = (Inl e, s1) \<Longrightarrow> tx_refused save upd s (Some e) (store_st s1)"
  by (auto simp: Update_def tx_refused_def split: sum.splits prod.splits option.splits)

text \<open>A callback that captures nothing.\<close>

definition capture_none :: "(State \<Rightarrow> go_error + State) \<Rightarrow> State \<Rightarrow> go_error + unit \<times> State" where
  "capture_none upd st = (case upd st of Inl e \<Rightarrow> Inl e | Inr st' \<Rightarrow> Inr ((), st'))"

lemma capture_none_Inr [simp]: "capture_none upd st = Inr (u, st') \<longleftrightarrow> upd st = Inr st'"
  by (simp add: capture_none_def split: sum.split)

lemma capture_none_Inl [simp]: "capture_none upd st = Inl e \<longleftrightarrow> upd st = Inl e"
  by (simp add: capture_none_def split: sum.split)

lemma UpdateE_eq:
  "UpdateE save upd s =
   (case Update save (capture_none upd) s of (Inl e, s') \<Rightarrow> (Some e, s') | (Inr _, s') \<Rightarrow> (None, s'))"
  by (simp add: UpdateE_def capture_none_def [abs_def])

section \<open>Deployments that leave a table alone\<close>

locale deploy_frame =
  fixes deploy :: "'w deployer"
    and view :: "State \<Rightarrow> 'v"
  assumes deploy_view: "view (store_st (snd (deploy n s))) = view (store_st s)"
begin

lemma deploy_viewD: "deploy n s = (r, s') \<Longrightarrow> view (store_st s') = view (store_st s)"
  by (metis deploy_view snd_conv)

lemma deploy_all_view: "view (store_st (deploy_all deploy ns s)) = view (store_st s)"
  by (induction ns arbitrary: s) (simp_all add: deploy_view)

lemma redeploy_view:
  "view (store_st (snd (redeployNodes ns deploy s))) = view (store_st s)"
proof -
  have loop: "view (store_st (snd (redeploy_loop deploy ns seen errs s))) = view (store_st s)"
    for seen errs
  proof (induction ns arbitrary: seen errs s)
    case (Cons n ns)
    obtain r s1 where d: "deploy n s = (r, s1)" by fastforce
    show ?case
      using Cons.IH deploy_viewD [OF d] by (simp add: d split: option.splits)
  qed simp
  obtain errs s1 where e: "redeploy_loop deploy ns [] [] s = (errs, s1)" by fastforce
  with loop [of "[]" "[]"] have "view (store_st s1) = view (store_st s)" by simp
  then show ?thesis by (simp add: redeployNodes_def e)
qed

text \<open>
  The outcome of the loop, as far as the view sees it: all nodes deployed and the view as it was
  written, or the deployment error, with the view the undo made of it, or, when the undo could not
  be saved, as it was written; the message tells the two apart.
\<close>

lemma deploy_or_rollback_view:
  assumes "deploy_or_rollback wrap save deploy recover undo ns s = (r, s')"
    and recover: "\<And>s. view (store_st (snd (recover s))) = view (store_st s)"
    and undo: "\<And>st st'. view st = v1 \<Longrightarrow> undo st = Inr st' \<Longrightarrow> view st' = v0"
    and v1: "view (store_st s) = v1"
  shows "(r = None \<longrightarrow> view (store_st s') = v1) \<and>
         (r \<noteq> None \<longrightarrow> (\<exists>n e rb rec. n \<in> set ns \<and> r = Some (wrap (deployment_failure n e rb rec)) \<and>
            view (store_st s') = (if rb = None then v0 else v1)))"
  using assms(1) v1
proof (induction ns arbitrary: s)
  case Nil
  from Nil have "r = None" "s' = s" by simp_all
  with Nil(2) show ?case by blast
next
  case (Cons n ns)
  obtain d s1 where d: "deploy n s = (d, s1)" by fastforce
  have s1: "view (store_st s1) = v1" using deploy_viewD [OF d] Cons.prems(2) by (rule trans)
  show ?case
  proof (cases d)
    case None
    have "deploy_or_rollback wrap save deploy recover undo ns s1 = (r, s')"
      using Cons.prems(1) by (simp add: d None)
    from Cons.IH [OF this s1] show ?thesis by (metis list.set_intros(2))
  next
    case (Some e)
    obtain rb s2 where rb: "UpdateE save undo s1 = (rb, s2)" by fastforce
    obtain rec s3 where rec: "recover s2 = (rec, s3)" by fastforce
    have r: "r = Some (wrap (deployment_failure n e rb rec))" "s' = s3"
      using Cons.prems(1) by (simp_all add: d Some rb rec)
    have s3: "view (store_st s3) = view (store_st s2)" using recover [of s2] unfolding rec snd_conv .
    have "view (store_st s2) = (if rb = None then v0 else v1)"
    proof (cases rb)
      case None
      have "undo (store_st s1) = Inr (store_st s2)" using rb None by (simp add: UpdateE_None)
      with undo [OF s1] None show ?thesis by simp
    next
      case (Some e')
      have "store_st s2 = store_st s1" using rb Some by (simp add: UpdateE_Some)
      with s1 Some show ?thesis by simp
    qed
    with r s3 show ?thesis by (metis list.set_intros(1) option.distinct(1))
  qed
qed

text \<open>A whole transaction: refused, or run.\<close>

lemma transaction:
  assumes tx: "(case Update save upd s of
      (Inl e, s1) \<Rightarrow> (Some e, s1)
    | (Inr v, s1) \<Rightarrow> deploy_or_rollback wrap save deploy (recover v) (undo v) (nodes v) s1) = (r, s')"
    and recover: "\<And>v s. view (store_st (snd (recover v s))) = view (store_st s)"
    and undo: "\<And>v st1 st st'. upd (store_st s) = Inr (v, st1) \<Longrightarrow> view st = view st1 \<Longrightarrow>
                 undo v st = Inr st' \<Longrightarrow> view st' = view (store_st s)"
  shows "tx_refused save upd s r (store_st s') \<or>
         (\<exists>v st1. upd (store_st s) = Inr (v, st1) \<and>
                  tx_run view wrap (nodes v) (store_st s) st1 r (store_st s'))"
proof (cases "Update save upd s")
  case (Pair u s1)
  show ?thesis
  proof (cases u)
    case (Inl e)
    with tx Pair have "r = Some e" "s' = s1" by simp_all
    with Update_refused [of save upd s e s1] Pair Inl show ?thesis by blast
  next
    case (Inr v)
    have run: "deploy_or_rollback wrap save deploy (recover v) (undo v) (nodes v) s1 = (r, s')"
      using tx Pair Inr by simp
    have upd: "upd (store_st s) = Inr (v, store_st s1)" using Pair Inr by (simp add: Update_Inr)
    have undo': "view st' = view (store_st s)"
      if "view st = view (store_st s1)" "undo v st = Inr st'" for st st'
      using undo [OF upd that] .
    have "(r = None \<longrightarrow> view (store_st s') = view (store_st s1)) \<and>
          (r \<noteq> None \<longrightarrow> (\<exists>n e rb rec. n \<in> set (nodes v) \<and> r = Some (wrap (deployment_failure n e rb rec)) \<and>
             view (store_st s') = (if rb = None then view (store_st s) else view (store_st s1))))"
      by (rule deploy_or_rollback_view [OF run recover _ refl]) (rule undo')
    then have "tx_run view wrap (nodes v) (store_st s) (store_st s1) r (store_st s')"
      unfolding tx_run_def by blast
    with upd show ?thesis by blast
  qed
qed

text \<open>The same for a callback that captures nothing.\<close>

lemma transactionE:
  assumes tx: "(case UpdateE save upd s of
      (Some e, s1) \<Rightarrow> (Some e, s1)
    | (None, s1) \<Rightarrow> deploy_or_rollback wrap save deploy recover undo nodes s1) = (r, s')"
    and recover: "\<And>s. view (store_st (snd (recover s))) = view (store_st s)"
    and undo: "\<And>st1 st st'. upd (store_st s) = Inr st1 \<Longrightarrow> view st = view st1 \<Longrightarrow>
                 undo st = Inr st' \<Longrightarrow> view st' = view (store_st s)"
  shows "tx_refused save (capture_none upd) s r (store_st s') \<or>
         (\<exists>st1. upd (store_st s) = Inr st1 \<and> tx_run view wrap nodes (store_st s) st1 r (store_st s'))"
proof -
  have tx': "(case Update save (capture_none upd) s of
      (Inl e, s1) \<Rightarrow> (Some e, s1)
    | (Inr v, s1) \<Rightarrow> deploy_or_rollback wrap save deploy recover undo nodes s1) = (r, s')"
    using tx unfolding UpdateE_eq by (auto split: prod.splits sum.splits)
  have "tx_refused save (capture_none upd) s r (store_st s') \<or>
      (\<exists>v st1. capture_none upd (store_st s) = Inr (v, st1) \<and>
               tx_run view wrap nodes (store_st s) st1 r (store_st s'))"
    by (rule transaction [OF tx' recover]) (rule undo, simp_all)
  then show ?thesis by simp
qed

end

declare deploy_or_rollback.simps [simp del]

section \<open>Transactions on the rows of one table\<close>

text \<open>
  The operations create, replace or delete one row; the undo of each is a write to the same table.
  All the locale needs is that what the view makes of such a write depends on the view only.
\<close>

locale table_tx = deploy_frame deploy view + table rows map_rows key
  for deploy :: "'w deployer" and view :: "State \<Rightarrow> 'v"
    and rows :: "State \<Rightarrow> 'r list" and map_rows :: "('r list \<Rightarrow> 'r list) \<Rightarrow> State \<Rightarrow> State"
    and key :: "'r \<Rightarrow> string" +
  assumes view_delete: "view st = view st1 \<Longrightarrow>
      view (map_rows (\<lambda>xs. deleteByID xs rid key) st) = view (map_rows (\<lambda>xs. deleteByID xs rid key) st1)"
    and view_write: "view st = view st1 \<Longrightarrow>
      view (map_rows (upd_row key rid (\<lambda>_. x)) st) = view (map_rows (upd_row key rid (\<lambda>_. x)) st1)"
    and view_reinsert: "view st = view st1 \<Longrightarrow>
      view (map_rows (reinsert_row key zero rid i x) st) = view (map_rows (reinsert_row key zero rid i x) st1)"
begin

lemma create_tx:
  assumes tx: "(case UpdateE save upd s of
      (Some e, s1) \<Rightarrow> (Some e, s1)
    | (None, s1) \<Rightarrow> deploy_or_rollback wrap save deploy recover undo nodes s1) = (r, s')"
    and recover: "\<And>s. view (store_st (snd (recover s))) = view (store_st s)"
    and new: "key x \<notin> key ` set (rows (store_st s))"
    and upd: "\<And>st1. upd (store_st s) = Inr st1 \<Longrightarrow> st1 = map_rows (\<lambda>xs. xs @ [x]) (store_st s)"
    and undo: "\<And>st st'. undo st = Inr st' \<Longrightarrow> st' = map_rows (\<lambda>xs. deleteByID xs (key x) key) st"
  shows "tx_refused save (capture_none upd) s r (store_st s') \<or>
         (\<exists>st1. upd (store_st s) = Inr st1 \<and> tx_run view wrap nodes (store_st s) st1 r (store_st s'))"
proof (rule transactionE [OF tx recover])
  fix st1 st st'
  assume u: "upd (store_st s) = Inr st1" "view st = view st1" "undo st = Inr st'"
  have "view st' = view (map_rows (\<lambda>xs. deleteByID xs (key x) key) st)" by (simp add: undo [OF u(3)])
  also have "\<dots> = view (map_rows (\<lambda>xs. deleteByID xs (key x) key) st1)" by (rule view_delete [OF u(2)])
  also have "map_rows (\<lambda>xs. deleteByID xs (key x) key) st1 = store_st s" 
    unfolding upd [OF u(1)] by (rule create_then_rollback [OF new refl])
  finally show "view st' = view (store_st s)" .
qed

lemma update_tx:
  assumes tx: "(case Update save upd s of
      (Inl e, s1) \<Rightarrow> (Some e, s1)
    | (Inr v, s1) \<Rightarrow> deploy_or_rollback wrap save deploy (recover v) (undo v) (nodes v) s1) = (r, s')"
    and recover: "\<And>v s. view (store_st (snd (recover v s))) = view (store_st s)"
    and upd: "\<And>v st1. upd (store_st s) = Inr (v, st1) \<Longrightarrow>
        find_row key (rows (store_st s)) rid = Some (old v) \<and>
        st1 = map_rows (upd_row key rid (change v)) (store_st s)"
    and keeps: "\<And>v y. key y = rid \<Longrightarrow> key (change v y) = rid"
    and undo: "\<And>v st st'. undo v st = Inr st' \<Longrightarrow> st' = map_rows (upd_row key rid (\<lambda>_. old v)) st"
  shows "tx_refused save upd s r (store_st s') \<or>
         (\<exists>v st1. upd (store_st s) = Inr (v, st1) \<and>
                  tx_run view wrap (nodes v) (store_st s) st1 r (store_st s'))"
proof (rule transaction [OF tx recover])
  fix v st1 st st'
  assume u: "upd (store_st s) = Inr (v, st1)" "view st = view st1" "undo v st = Inr st'"
  from upd [OF u(1)] have f: "find_row key (rows (store_st s)) rid = Some (old v)"
    "st1 = map_rows (upd_row key rid (change v)) (store_st s)" by blast+
  have "view st' = view (map_rows (upd_row key rid (\<lambda>_. old v)) st)" by (simp add: undo [OF u(3)])
  also have "\<dots> = view (map_rows (upd_row key rid (\<lambda>_. old v)) st1)" by (rule view_write [OF u(2)])
  also have "map_rows (upd_row key rid (\<lambda>_. old v)) st1 = store_st s" 
    unfolding f(2) by (rule update_then_rollback [OF f(1) keeps])
  finally show "view st' = view (store_st s)" .
qed

lemma delete_tx:
  assumes tx: "(case Update save upd s of
      (Inl e, s1) \<Rightarrow> (Some e, s1)
    | (Inr v, s1) \<Rightarrow> deploy_or_rollback wrap save deploy (recover v) (undo v) (nodes v) s1) = (r, s')"
    and recover: "\<And>v s. view (store_st (snd (recover v s))) = view (store_st s)"
    and ids: "distinct (map key (rows (store_st s)))"
    and upd: "\<And>v st1. upd (store_st s) = Inr (v, st1) \<Longrightarrow>
        find_row key (rows (store_st s)) rid = Some (old v) \<and>
        index v = index_of (\<lambda>y. key y = rid) (rows (store_st s)) \<and>
        st1 = map_rows (\<lambda>xs. deleteByID xs rid key) (store_st s)"
    and undo: "\<And>v st st'. undo v st = Inr st' \<Longrightarrow>
        st' = map_rows (reinsert_row key zero rid (index v) (old v)) st"
  shows "tx_refused save upd s r (store_st s') \<or>
         (\<exists>v st1. upd (store_st s) = Inr (v, st1) \<and>
                  tx_run view wrap (nodes v) (store_st s) st1 r (store_st s'))"
proof (rule transaction [OF tx recover])
  fix v st1 st st'
  assume u: "upd (store_st s) = Inr (v, st1)" "view st = view st1" "undo v st = Inr st'"
  from upd [OF u(1)] have f: "find_row key (rows (store_st s)) rid = Some (old v)"
    "index v = index_of (\<lambda>y. key y = rid) (rows (store_st s))"
    "st1 = map_rows (\<lambda>xs. deleteByID xs rid key) (store_st s)" by blast+
  have "view st' = view (map_rows (reinsert_row key zero rid (index v) (old v)) st)" by (simp add: undo [OF u(3)])
  also have "\<dots> = view (map_rows (reinsert_row key zero rid (index v) (old v)) st1)" by (rule view_reinsert [OF u(2)])
  also have "map_rows (reinsert_row key zero rid (index v) (old v)) st1 = store_st s" 
    unfolding f(3) by (rule delete_then_rollback [OF f(1) ids f(2)])
  finally show "view st' = view (store_st s)" .
qed

end

end
