(* ===== verification/OutboundInput.thy ===== *)
theory OutboundInput
  imports Tx
begin

text \<open>
  Outbounds, src/internal/panel/routing.go and outbound_custom.go: the input record of the API,
  its normalisation protocol by protocol, the checks on a custom Xray outbound, and the part of
  the Xray configuration that outbounds make up (stream settings and outbound items). The
  transactional operations and handlers on outbounds are in OutboundTx.
\<close>

section \<open>Names and defaults\<close>

definition safe_char :: "char \<Rightarrow> bool" where
  "safe_char c =
     (let n = (of_char c :: nat)
      in (65 \<le> n \<and> n \<le> 90) \<or> (97 \<le> n \<and> n \<le> 122) \<or> (48 \<le> n \<and> n \<le> 57) \<or>
         n = 95 \<or> n = 46 \<or> n = 45)"

definition xrayTagPattern :: "string \<Rightarrow> bool" where
  "xrayTagPattern s \<longleftrightarrow> 1 \<le> length s \<and> length s \<le> 40 \<and> list_all safe_char s"

definition wireGuardInterfacePattern :: "string \<Rightarrow> bool" where
  "wireGuardInterfacePattern s \<longleftrightarrow> 1 \<le> length s \<and> length s \<le> 15 \<and> list_all safe_char s"

definition customXrayProtocolPattern :: "string \<Rightarrow> bool" where
  "customXrayProtocolPattern s \<longleftrightarrow>
     1 \<le> length s \<and> length s \<le> 64 \<and>
     list_all (\<lambda>c. safe_char c \<and> \<not> (65 \<le> (of_char c :: nat) \<and> (of_char c :: nat) \<le> 90)) s"

definition defaultWireGuardInterface :: "string \<Rightarrow> string" where
  "defaultWireGuardInterface tag =
     (let name = ''gbw-'' @ tag in if length name > 15 then take 15 name else name)"

definition defaultOpenVPNInterface :: "string \<Rightarrow> string" where
  "defaultOpenVPNInterface tag =
     (let name = ''gbv-'' @ tag in if length name > 15 then take 15 name else name)"

fun routing_hash :: "int \<Rightarrow> string \<Rightarrow> int" where
  "routing_hash h [] = h"
| "routing_hash h (b # bs) = routing_hash ((push_bit 5 h + h + of_char b) mod 50000) bs"

definition defaultOpenVPNRoutingID :: "string \<Rightarrow> int" where
  "defaultOpenVPNRoutingID tag = 10000 + routing_hash 5381 tag"

section \<open>The input\<close>

record outboundInput =
  oi_Name :: string
  oi_NodeID :: string
  oi_Tag :: string
  oi_Protocol :: string
  oi_Address :: string
  oi_Port :: int
  oi_Username :: string
  oi_Password :: string
  oi_Secret :: string
  oi_Transport :: string
  oi_TLSMode :: string
  oi_Path :: string
  oi_Host :: string
  oi_ServiceName :: string
  oi_ServerName :: string
  oi_AllowInsecure :: bool
  oi_Fingerprint :: string
  oi_Flow :: string
  oi_ShadowsocksMethod :: string
  oi_RealityPublicKey :: string
  oi_RealityShortID :: string
  oi_WireGuardInterface :: string
  oi_WireGuardAddress :: string
  oi_WireGuardPeerPublicKey :: string
  oi_WireGuardAllowedIPs :: "string list"
  oi_WireGuardKeepalive :: int
  oi_WireGuardMTU :: int
  oi_TorSOCKSPort :: int
  oi_OpenVPNInterface :: string
  oi_OpenVPNRoutingTable :: int
  oi_OpenVPNMark :: int
  oi_CustomXrayProtocol :: string
  oi_Enabled :: bool
  oi_Remark :: string

definition outboundInputSecret :: "outboundInput \<Rightarrow> string" where
  "outboundInputSecret x =
     (if TrimSpace (oi_Secret x) \<noteq> [] then TrimSpace (oi_Secret x) else TrimSpace (oi_Password x))"

definition outboundProtocolNeedsSecret :: "string \<Rightarrow> bool" where
  "outboundProtocolNeedsSecret protocol \<longleftrightarrow>
     protocol \<in> {''vless'', ''vmess'', ''trojan'', ''shadowsocks'', ''wireguard'', ''openvpn'', ''custom''}"

definition valid_port :: "int \<Rightarrow> bool" where
  "valid_port p \<longleftrightarrow> \<not> (p < 1 \<or> p > 65535)"

section \<open>Custom Xray outbounds\<close>

definition customXrayAllowedTopLevel :: "string list" where
  "customXrayAllowedTopLevel =
     [''protocol'', ''settings'', ''streamSettings'', ''mux'', ''sendThrough'', ''targetStrategy'']"

definition customXrayTargetStrategies :: "string list" where
  "customXrayTargetStrategies =
     [''AsIs'', ''UseIP'', ''UseIPv6v4'', ''UseIPv6'', ''UseIPv4v6'', ''UseIPv4'', ''ForceIP'',
      ''ForceIPv6v4'', ''ForceIPv6'', ''ForceIPv4v6'', ''ForceIPv4'']"

text \<open>What encoding/json calls a value that does not fit a map.\<close>

fun json_kind :: "json \<Rightarrow> string" where
  "json_kind JNull = ''null''"
| "json_kind (JBool b) = ''bool''"
| "json_kind (JInt i) = ''number''"
| "json_kind (JQuot a b) = ''number''"
| "json_kind (JStr s) = ''string''"
| "json_kind (JArr xs) = ''array''"
| "json_kind (JObj m) = ''object''"

text \<open>The one object of the text, or the error; the order of the keys is that of the decoder.\<close>

definition custom_object :: "'w env \<Rightarrow> string \<Rightarrow> go_error + (string \<times> json) list" where
  "custom_object env raw =
     (if raw = [] then Inl (Plain ''custom xray config is required'')
      else if length raw > 65536 then Inl (Plain ''custom xray config exceeds 65536 bytes'')
      else case ev_Decode env raw of
             Inl e \<Rightarrow> Inl (Plain (''invalid custom xray JSON: '' @ e))
           | Inr (JNull, rest) \<Rightarrow> Inl (Plain ''custom xray config must be a JSON object'')
           | Inr (JObj m, AtEOF) \<Rightarrow> Inr m
           | Inr (JObj m, MoreValue) \<Rightarrow>
               Inl (Plain ''custom xray config must contain exactly one JSON object'')
           | Inr (JObj m, BadRest e) \<Rightarrow> Inl (Plain (''invalid trailing custom xray JSON: '' @ e))
           | Inr (j, rest) \<Rightarrow>
               Inl (Plain (''invalid custom xray JSON: json: cannot unmarshal '' @ json_kind j @
                           '' into Go value of type map[string]interface {}'')))"

definition is_object :: "json \<Rightarrow> bool" where
  "is_object j = (case j of JObj m \<Rightarrow> True | _ \<Rightarrow> False)"

text \<open>The tests on the keys, the protocol, and the three object fields; the protocol comes back.\<close>

definition custom_fields :: "(string \<times> json) list \<Rightarrow> go_error + string" where
  "custom_fields m =
     (if map_of m ''tag'' \<noteq> None
        then Inl (Plain ''custom xray config must not set tag; GameBridge manages outbound tags'')
      else if map_of m ''proxySettings'' \<noteq> None
        then Inl (Plain ''custom xray proxySettings is not allowed in v1; GameBridge must track outbound dependencies'')
      else case List.find (\<lambda>k. k \<notin> set customXrayAllowedTopLevel) (map fst m) of
        Some k \<Rightarrow> Inl (Plain (''unsupported custom xray top-level field '' @ Quote k))
      | None \<Rightarrow>
          (case map_of m ''protocol'' of
             None \<Rightarrow> Inl (Plain ''custom xray protocol is required'')
           | Some (JStr p) \<Rightarrow>
               (let protocol = TrimSpace p in
                if \<not> customXrayProtocolPattern protocol
                then Inl (Plain ''custom xray protocol must be lowercase and contain only safe protocol characters'')
                else case List.find (\<lambda>f. case map_of m f of Some v \<Rightarrow> v \<noteq> JNull \<and> \<not> is_object v | None \<Rightarrow> False)
                            [''settings'', ''streamSettings'', ''mux''] of
                  Some f \<Rightarrow> Inl (Plain (''custom xray '' @ f @ '' must be a JSON object''))
                | None \<Rightarrow> Inr protocol)
           | Some _ \<Rightarrow> Inl (Plain ''custom xray protocol must be a string'')))"

definition custom_sendThrough :: "json \<Rightarrow> go_error + json" where
  "custom_sendThrough obj =
     (case jget ''sendThrough'' obj of
        None \<Rightarrow> Inr obj
      | Some (JStr v) \<Rightarrow>
          (let value = TrimSpace v in
           if value = [] then Inr (jdel ''sendThrough'' obj)
           else if \<not> IP_ok value
             then if \<not> CIDR_ok value
                  then Inl (Plain ''custom xray sendThrough must be an IP address or CIDR'')
                  else Inr (jput ''sendThrough'' (JStr value) obj)
           else Inr obj)
      | Some _ \<Rightarrow> Inl (Plain ''custom xray sendThrough must be a string''))"

definition custom_strategy :: "json \<Rightarrow> go_error option" where
  "custom_strategy obj =
     (case jget ''targetStrategy'' obj of
        None \<Rightarrow> None
      | Some (JStr v) \<Rightarrow>
          if v \<in> set customXrayTargetStrategies then None
          else Some (Plain ''custom xray targetStrategy is invalid'')
      | Some _ \<Rightarrow> Some (Plain ''custom xray targetStrategy is invalid''))"

text \<open>No dialerProxy in the socket options: an empty one is deleted, another one is an error.\<close>

definition custom_sockopt :: "json \<Rightarrow> go_error + json" where
  "custom_sockopt obj =
     (case jget ''streamSettings'' obj of
        None \<Rightarrow> Inr obj
      | Some stream \<Rightarrow>
          (if stream = JNull then Inr obj
           else case jget ''sockopt'' stream of
             None \<Rightarrow> Inr obj
           | Some sockopt \<Rightarrow>
               (if sockopt = JNull then Inr obj
                else if \<not> is_object sockopt
                  then Inl (Plain ''custom xray streamSettings.sockopt must be a JSON object'')
                else case jget ''dialerProxy'' sockopt of
                  None \<Rightarrow> Inr obj
                | Some JNull \<Rightarrow> Inr obj
                | Some (JStr value) \<Rightarrow>
                    if TrimSpace value \<noteq> []
                    then Inl (Plain ''custom xray sockopt.dialerProxy is not allowed in v1; GameBridge must track outbound dependencies'')
                    else Inr (jput ''streamSettings'' (jput ''sockopt'' (jdel ''dialerProxy'' sockopt) stream) obj)
                | Some _ \<Rightarrow> Inl (Plain ''custom xray sockopt.dialerProxy must be a string''))))"

definition decodeCustomXrayConfig :: "'w env \<Rightarrow> string \<Rightarrow> go_error + json \<times> string \<times> string" where
  "decodeCustomXrayConfig env raw0 =
     (case custom_object env (TrimSpace raw0) of
        Inl e \<Rightarrow> Inl e
      | Inr m \<Rightarrow>
          (case custom_fields m of
             Inl e \<Rightarrow> Inl e
           | Inr protocol \<Rightarrow>
               (case custom_sendThrough (jput ''protocol'' (JStr protocol) (JObj m)) of
                  Inl e \<Rightarrow> Inl e
                | Inr obj1 \<Rightarrow>
                    (case custom_strategy obj1 of
                       Some e \<Rightarrow> Inl e
                     | None \<Rightarrow>
                         (case custom_sockopt obj1 of
                            Inl e \<Rightarrow> Inl e
                          | Inr obj2 \<Rightarrow> Inr (obj2, protocol, ev_Marshal env obj2))))))"

definition customXrayOutboundItem :: "'w env \<Rightarrow> string \<Rightarrow> string \<Rightarrow> go_error + json \<times> string" where
  "customXrayOutboundItem env tag0 raw =
     (let tag = TrimSpace tag0 in
      if \<not> xrayTagPattern tag \<or> tag = ''direct'' \<or> tag = ''blocked'' \<or> tag = ''api''
      then Inl (Plain ''invalid GameBridge tag for custom xray outbound'')
      else case decodeCustomXrayConfig env raw of
             Inl e \<Rightarrow> Inl e
           | Inr (obj, protocol, canonical) \<Rightarrow> Inr (jput ''tag'' (JStr tag) obj, protocol))"

section \<open>Normalisation of the input\<close>

definition trimOutboundInput :: "outboundInput \<Rightarrow> outboundInput" where
  "trimOutboundInput x =
     (let y =
        x\<lparr>oi_Name := TrimSpace (oi_Name x), oi_NodeID := TrimSpace (oi_NodeID x),
            oi_Tag := TrimSpace (oi_Tag x), oi_Protocol := ToLower (TrimSpace (oi_Protocol x)),
            oi_Address := TrimSpace (oi_Address x), oi_Username := TrimSpace (oi_Username x),
            oi_Password := TrimSpace (oi_Password x), oi_Secret := TrimSpace (oi_Secret x),
            oi_Transport := ToLower (TrimSpace (oi_Transport x)),
            oi_TLSMode := ToLower (TrimSpace (oi_TLSMode x)), oi_Path := TrimSpace (oi_Path x),
            oi_Host := TrimSpace (oi_Host x), oi_ServiceName := TrimSpace (oi_ServiceName x),
            oi_ServerName := TrimSpace (oi_ServerName x),
            oi_Fingerprint := TrimSpace (oi_Fingerprint x), oi_Flow := TrimSpace (oi_Flow x),
            oi_ShadowsocksMethod := ToLower (TrimSpace (oi_ShadowsocksMethod x)),
            oi_RealityPublicKey := TrimSpace (oi_RealityPublicKey x),
            oi_RealityShortID := TrimSpace (oi_RealityShortID x),
            oi_WireGuardInterface := TrimSpace (oi_WireGuardInterface x),
            oi_WireGuardAddress := TrimSpace (oi_WireGuardAddress x),
            oi_WireGuardPeerPublicKey := TrimSpace (oi_WireGuardPeerPublicKey x),
            oi_OpenVPNInterface := TrimSpace (oi_OpenVPNInterface x),
            oi_CustomXrayProtocol := TrimSpace (oi_CustomXrayProtocol x),
            oi_Remark := TrimSpace (oi_Remark x)\<rparr>
      in y\<lparr>oi_CustomXrayProtocol := (if oi_Protocol y \<noteq> ''custom'' then [] else oi_CustomXrayProtocol y),
           oi_WireGuardAllowedIPs := map TrimSpace (oi_WireGuardAllowedIPs y)\<rparr>)"

definition normalizePlain :: "outboundInput \<Rightarrow> outboundInput" where
  "normalizePlain x =
     x\<lparr>oi_Address := [], oi_Port := 0, oi_Username := [], oi_Password := [],
         oi_Secret := [], oi_Transport := [], oi_TLSMode := [], oi_Path := [], oi_Host := [],
         oi_ServiceName := [], oi_ServerName := [], oi_AllowInsecure := False,
         oi_Fingerprint := [], oi_Flow := [], oi_ShadowsocksMethod := [],
         oi_RealityPublicKey := [], oi_RealityShortID := []\<rparr>"

definition normalizeProxy :: "outboundInput \<Rightarrow> go_error + outboundInput" where
  "normalizeProxy x =
     (if oi_Address x = [] \<or> oi_Port x < 1 \<or> oi_Port x > 65535
      then Inl (Plain ''proxy outbound requires address and valid port'')
      else Inr (
        x\<lparr>oi_Transport := [], oi_TLSMode := [], oi_Path := [], oi_Host := [],
            oi_ServiceName := [], oi_ServerName := [], oi_AllowInsecure := False,
            oi_Fingerprint := [], oi_Flow := [], oi_ShadowsocksMethod := [],
            oi_RealityPublicKey := [], oi_RealityShortID := []\<rparr>))"

text \<open>The three stretches of the vless, vmess and trojan case: modes, names, flow.\<close>

definition xrayProxyModes :: "outboundInput \<Rightarrow> go_error + outboundInput" where
  "xrayProxyModes x =
     (let x1 = (if oi_Transport x = [] then x\<lparr>oi_Transport := ''raw''\<rparr> else x) in
      if oi_Transport x1 \<notin> {''raw'', ''ws'', ''grpc''}
        then Inl (Plain ''transport must be raw, ws or grpc'')
      else
      let x2 = (if oi_TLSMode x1 = [] then x1\<lparr>oi_TLSMode := ''none''\<rparr> else x1) in
      if oi_TLSMode x2 \<notin> {''none'', ''tls'', ''reality''}
        then Inl (Plain ''tls_mode must be none, tls or reality'')
      else if oi_Transport x2 = ''ws'' \<and> oi_TLSMode x2 = ''reality''
        then Inl (Plain ''REALITY does not support websocket transport'')
      else Inr x2)"

definition xrayProxyNames :: "outboundInput \<Rightarrow> go_error + outboundInput" where
  "xrayProxyNames x =
     (let x1 = (if oi_Transport x = ''ws'' \<and> oi_Path x = [] then x\<lparr>oi_Path := ''/''\<rparr> else x);
          x2 = (if oi_Transport x1 = ''grpc'' \<and> oi_ServiceName x1 = []
                then x1\<lparr>oi_ServiceName := ''gamebridge''\<rparr> else x1);
          secure = (oi_TLSMode x2 = ''tls'' \<or> oi_TLSMode x2 = ''reality'');
          x3 = (if secure \<and> oi_ServerName x2 = [] then x2\<lparr>oi_ServerName := oi_Address x2\<rparr> else x2);
          x4 = (if secure \<and> oi_Fingerprint x3 = [] then x3\<lparr>oi_Fingerprint := ''chrome''\<rparr> else x3) in
      if oi_TLSMode x4 = ''reality'' \<and> oi_RealityPublicKey x4 = []
        then Inl (Plain ''reality_public_key is required for REALITY'')
      else Inr x4)"

definition xrayProxyFlow :: "outboundInput \<Rightarrow> go_error + outboundInput" where
  "xrayProxyFlow x =
     (if oi_Protocol x \<noteq> ''vless'' then Inr (x\<lparr>oi_Flow := [], oi_ShadowsocksMethod := []\<rparr>)
      else if oi_Flow x \<noteq> [] \<and> oi_Flow x \<noteq> ''xtls-rprx-vision''
        then Inl (Plain ''unsupported VLESS flow'')
      else if oi_Flow x \<noteq> [] \<and> (oi_Transport x \<noteq> ''raw'' \<or>
              (oi_TLSMode x \<noteq> ''tls'' \<and> oi_TLSMode x \<noteq> ''reality''))
        then Inl (Plain ''VLESS Vision flow requires raw transport with TLS or REALITY'')
      else Inr (x\<lparr>oi_ShadowsocksMethod := []\<rparr>))"

definition normalizeXrayProxy :: "outboundInput \<Rightarrow> go_error + outboundInput" where
  "normalizeXrayProxy x =
     (if oi_Address x = [] \<or> oi_Port x < 1 \<or> oi_Port x > 65535
        then Inl (Plain ''xray proxy outbound requires address and valid port'')
      else case xrayProxyModes x of
             Inl e \<Rightarrow> Inl e
           | Inr x1 \<Rightarrow> (case xrayProxyNames x1 of Inl e \<Rightarrow> Inl e | Inr x2 \<Rightarrow> xrayProxyFlow x2))"

definition normalizeWireGuard :: "outboundInput \<Rightarrow> go_error + outboundInput" where
  "normalizeWireGuard x0 =
     (if oi_Address x0 = [] \<or> oi_Port x0 < 1 \<or> oi_Port x0 > 65535
        then Inl (Plain ''wireguard outbound requires endpoint address and valid port'')
      else
      let x1 = (if oi_WireGuardInterface x0 = []
                then x0\<lparr>oi_WireGuardInterface := defaultWireGuardInterface (oi_Tag x0)\<rparr> else x0) in
      if \<not> wireGuardInterfacePattern (oi_WireGuardInterface x1)
        then Inl (Plain ''wireguard_interface must be 1-15 safe interface characters'')
      else if \<not> CIDR_ok (oi_WireGuardAddress x1)
        then Inl (Plain ''wireguard_address must be a valid CIDR'')
      else if oi_WireGuardPeerPublicKey x1 = []
        then Inl (Plain ''wireguard_peer_public_key is required'')
      else
      let x2 = (if oi_WireGuardAllowedIPs x1 = []
                then x1\<lparr>oi_WireGuardAllowedIPs := [''0.0.0.0/0'', ''::/0'']\<rparr> else x1) in
      case List.find (\<lambda>cidr. \<not> CIDR_ok cidr) (oi_WireGuardAllowedIPs x2) of
        Some cidr \<Rightarrow> Inl (Plain (''invalid wireguard_allowed_ips entry '' @ Quote cidr))
      | None \<Rightarrow>
      let x3 = (if oi_WireGuardKeepalive x2 = 0 then x2\<lparr>oi_WireGuardKeepalive := 25\<rparr> else x2) in
      if oi_WireGuardKeepalive x3 < 0 \<or> oi_WireGuardKeepalive x3 > 65535
        then Inl (Plain ''wireguard_keepalive must be between 0 and 65535'')
      else
      let x = (if oi_WireGuardMTU x3 = 0 then x3\<lparr>oi_WireGuardMTU := 1420\<rparr> else x3) in
      if oi_WireGuardMTU x < 576 \<or> oi_WireGuardMTU x > 9000
        then Inl (Plain ''wireguard_mtu must be between 576 and 9000'')
      else Inr (
        x\<lparr>oi_Username := [], oi_Transport := [], oi_TLSMode := [], oi_Path := [],
            oi_Host := [], oi_ServiceName := [], oi_ServerName := [],
            oi_AllowInsecure := False, oi_Fingerprint := [], oi_Flow := [],
            oi_ShadowsocksMethod := [], oi_RealityPublicKey := [], oi_RealityShortID := [],
            oi_TorSOCKSPort := 0\<rparr>))"

definition normalizeTor :: "outboundInput \<Rightarrow> go_error + outboundInput" where
  "normalizeTor x0 =
     (let x = (if oi_TorSOCKSPort x0 = 0 then x0\<lparr>oi_TorSOCKSPort := 19050\<rparr> else x0) in
      if oi_TorSOCKSPort x < 1024 \<or> oi_TorSOCKSPort x > 65535
      then Inl (Plain ''tor_socks_port must be between 1024 and 65535'')
      else Inr (
        x\<lparr>oi_Address := [], oi_Port := 0, oi_Username := [], oi_Password := [],
            oi_Secret := [], oi_Transport := [], oi_TLSMode := [], oi_Path := [],
            oi_Host := [], oi_ServiceName := [], oi_ServerName := [],
            oi_AllowInsecure := False, oi_Fingerprint := [], oi_Flow := [],
            oi_ShadowsocksMethod := [], oi_RealityPublicKey := [], oi_RealityShortID := [],
            oi_WireGuardInterface := [], oi_WireGuardAddress := [],
            oi_WireGuardPeerPublicKey := [], oi_WireGuardAllowedIPs := [],
            oi_WireGuardKeepalive := 0, oi_WireGuardMTU := 0, oi_OpenVPNInterface := [],
            oi_OpenVPNRoutingTable := 0, oi_OpenVPNMark := 0\<rparr>))"

definition normalizeOpenVPN :: "outboundInput \<Rightarrow> go_error + outboundInput" where
  "normalizeOpenVPN x0 =
     (let x1 = (if oi_OpenVPNInterface x0 = []
                then x0\<lparr>oi_OpenVPNInterface := defaultOpenVPNInterface (oi_Tag x0)\<rparr> else x0) in
      if \<not> wireGuardInterfacePattern (oi_OpenVPNInterface x1)
        then Inl (Plain ''openvpn_interface must be 1-15 safe interface characters'')
      else
      let x2 = (if oi_OpenVPNRoutingTable x1 = 0
                then x1\<lparr>oi_OpenVPNRoutingTable := defaultOpenVPNRoutingID (oi_Tag x1)\<rparr> else x1);
          x = (if oi_OpenVPNMark x2 = 0 then x2\<lparr>oi_OpenVPNMark := oi_OpenVPNRoutingTable x2\<rparr> else x2) in
      if oi_OpenVPNRoutingTable x < 1000 \<or> oi_OpenVPNRoutingTable x > 65000
        then Inl (Plain ''openvpn_routing_table must be between 1000 and 65000'')
      else if oi_OpenVPNMark x < 1000 \<or> oi_OpenVPNMark x > 65000
        then Inl (Plain ''openvpn_mark must be between 1000 and 65000'')
      else Inr (
        x\<lparr>oi_Address := [], oi_Port := 0, oi_Transport := [], oi_TLSMode := [],
            oi_Path := [], oi_Host := [], oi_ServiceName := [], oi_ServerName := [],
            oi_AllowInsecure := False, oi_Fingerprint := [], oi_Flow := [],
            oi_ShadowsocksMethod := [], oi_RealityPublicKey := [], oi_RealityShortID := [],
            oi_WireGuardInterface := [], oi_WireGuardAddress := [],
            oi_WireGuardPeerPublicKey := [], oi_WireGuardAllowedIPs := [],
            oi_WireGuardKeepalive := 0, oi_WireGuardMTU := 0, oi_TorSOCKSPort := 0\<rparr>))"

definition normalizeCustom :: "'w env \<Rightarrow> outboundInput \<Rightarrow> go_error + outboundInput" where
  "normalizeCustom env x0 =
     (if oi_Password x0 \<noteq> []
        then Inl (Plain ''custom xray config must be supplied in secret, not password'')
      else
      let x1 = x0\<lparr>oi_Username := []\<rparr> in
      case (if oi_Secret x1 \<noteq> []
            then case decodeCustomXrayConfig env (oi_Secret x1) of
                   Inl e \<Rightarrow> Inl e
                 | Inr (obj, protocol, canonical) \<Rightarrow>
                     Inr (x1\<lparr>oi_Secret := canonical, oi_CustomXrayProtocol := protocol\<rparr>)
            else Inr (x1\<lparr>oi_CustomXrayProtocol := []\<rparr>)) of
        Inl e \<Rightarrow> Inl e
      | Inr x \<Rightarrow> Inr (
        x\<lparr>oi_Address := [], oi_Port := 0, oi_Transport := [], oi_TLSMode := [],
            oi_Path := [], oi_Host := [], oi_ServiceName := [], oi_ServerName := [],
            oi_AllowInsecure := False, oi_Fingerprint := [], oi_Flow := [],
            oi_ShadowsocksMethod := [], oi_RealityPublicKey := [], oi_RealityShortID := [],
            oi_WireGuardInterface := [], oi_WireGuardAddress := [],
            oi_WireGuardPeerPublicKey := [], oi_WireGuardAllowedIPs := [],
            oi_WireGuardKeepalive := 0, oi_WireGuardMTU := 0, oi_TorSOCKSPort := 0,
            oi_OpenVPNInterface := [], oi_OpenVPNRoutingTable := 0, oi_OpenVPNMark := 0\<rparr>))"

definition normalizeShadowsocks :: "outboundInput \<Rightarrow> go_error + outboundInput" where
  "normalizeShadowsocks x0 =
     (if oi_Address x0 = [] \<or> oi_Port x0 < 1 \<or> oi_Port x0 > 65535
        then Inl (Plain ''shadowsocks outbound requires address and valid port'')
      else
      let x1 = (if oi_ShadowsocksMethod x0 = [] then x0\<lparr>oi_ShadowsocksMethod := ''aes-128-gcm''\<rparr> else x0);
          x = (if oi_Transport x1 = [] then x1\<lparr>oi_Transport := ''raw''\<rparr> else x1) in
      if oi_Transport x \<noteq> ''raw''
        then Inl (Plain ''shadowsocks outbound currently supports raw transport only'')
      else Inr (
        x\<lparr>oi_TLSMode := ''none'', oi_Path := [], oi_Host := [], oi_ServiceName := [],
            oi_ServerName := [], oi_AllowInsecure := False, oi_Fingerprint := [],
            oi_Flow := [], oi_RealityPublicKey := [], oi_RealityShortID := []\<rparr>))"

text \<open>The switch over the protocol.\<close>

definition protocol_step :: "'w env \<Rightarrow> outboundInput \<Rightarrow> go_error + outboundInput" where
  "protocol_step env x =
     (if oi_Protocol x \<in> {''freedom'', ''blackhole''} then Inr (normalizePlain x)
      else if oi_Protocol x \<in> {''socks'', ''http''} then normalizeProxy x
      else if oi_Protocol x \<in> {''vless'', ''vmess'', ''trojan''} then normalizeXrayProxy x
      else if oi_Protocol x = ''wireguard'' then normalizeWireGuard x
      else if oi_Protocol x = ''tor'' then normalizeTor x
      else if oi_Protocol x = ''openvpn'' then normalizeOpenVPN x
      else if oi_Protocol x = ''custom'' then normalizeCustom env x
      else if oi_Protocol x = ''shadowsocks'' then normalizeShadowsocks x
      else Inl (Plain ''protocol must be freedom, blackhole, socks, http, vless, vmess, trojan, shadowsocks, wireguard, tor, openvpn or custom''))"

definition normalizeOutboundInput :: "'w env \<Rightarrow> outboundInput \<Rightarrow> go_error + outboundInput" where
  "normalizeOutboundInput env x0 =
     (let x = trimOutboundInput x0 in
      if oi_Name x = [] \<or> oi_NodeID x = [] then Inl (Plain ''name and node_id are required'')
      else if \<not> xrayTagPattern (oi_Tag x) \<or> oi_Tag x = ''direct'' \<or> oi_Tag x = ''blocked'' \<or> oi_Tag x = ''api''
        then Inl (Plain ''invalid or reserved outbound tag'')
      else protocol_step env x)"

section \<open>Lemmas: trimming\<close>

lemma safe_not_space:
  "list_all (\<lambda>w. w \<noteq> [] \<and> \<not> safe_char (hd w) \<and> \<not> safe_char (last w)) utf8_spaces"
  by code_simp

lemma TrimSpace_safe: "list_all safe_char s \<Longrightarrow> TrimSpace s = s"
  by (rule TrimSpace_id [OF safe_not_space])

lemma TrimSpace_constants [simp]:
  "TrimSpace ''raw'' = ''raw''" "TrimSpace ''none'' = ''none''" "TrimSpace ''/'' = ''/''"
  "TrimSpace ''gamebridge'' = ''gamebridge''" "TrimSpace ''chrome'' = ''chrome''"
  "TrimSpace ''aes-128-gcm'' = ''aes-128-gcm''" "TrimSpace ''0.0.0.0/0'' = ''0.0.0.0/0''"
  "TrimSpace ''::/0'' = ''::/0''"
  by code_simp+

lemma ToLower_constants [simp]:
  "ToLower [] = []" "ToLower ''raw'' = ''raw''" "ToLower ''none'' = ''none''" "ToLower ''aes-128-gcm'' = ''aes-128-gcm''"
  by code_simp+

lemma interface_pattern_trimmed: "wireGuardInterfacePattern s \<Longrightarrow> TrimSpace s = s"
  by (simp add: wireGuardInterfacePattern_def TrimSpace_safe)

definition trimmed :: "outboundInput \<Rightarrow> bool" where
  "trimmed x \<longleftrightarrow> trimOutboundInput x = x"

lemma trimmed_iff:
  "trimmed x \<longleftrightarrow>
     TrimSpace (oi_Name x) = oi_Name x \<and> TrimSpace (oi_NodeID x) = oi_NodeID x \<and>
     TrimSpace (oi_Tag x) = oi_Tag x \<and>
     ToLower (TrimSpace (oi_Protocol x)) = oi_Protocol x \<and>
     TrimSpace (oi_Address x) = oi_Address x \<and>
     TrimSpace (oi_Username x) = oi_Username x \<and>
     TrimSpace (oi_Password x) = oi_Password x \<and>
     TrimSpace (oi_Secret x) = oi_Secret x \<and>
     ToLower (TrimSpace (oi_Transport x)) = oi_Transport x \<and>
     ToLower (TrimSpace (oi_TLSMode x)) = oi_TLSMode x \<and>
     TrimSpace (oi_Path x) = oi_Path x \<and> TrimSpace (oi_Host x) = oi_Host x \<and>
     TrimSpace (oi_ServiceName x) = oi_ServiceName x \<and>
     TrimSpace (oi_ServerName x) = oi_ServerName x \<and>
     TrimSpace (oi_Fingerprint x) = oi_Fingerprint x \<and>
     TrimSpace (oi_Flow x) = oi_Flow x \<and>
     ToLower (TrimSpace (oi_ShadowsocksMethod x)) = oi_ShadowsocksMethod x \<and>
     TrimSpace (oi_RealityPublicKey x) = oi_RealityPublicKey x \<and>
     TrimSpace (oi_RealityShortID x) = oi_RealityShortID x \<and>
     TrimSpace (oi_WireGuardInterface x) = oi_WireGuardInterface x \<and>
     TrimSpace (oi_WireGuardAddress x) = oi_WireGuardAddress x \<and>
     TrimSpace (oi_WireGuardPeerPublicKey x) = oi_WireGuardPeerPublicKey x \<and>
     TrimSpace (oi_OpenVPNInterface x) = oi_OpenVPNInterface x \<and>
     TrimSpace (oi_CustomXrayProtocol x) = oi_CustomXrayProtocol x \<and>
     TrimSpace (oi_Remark x) = oi_Remark x \<and>
     (oi_Protocol x \<noteq> ''custom'' \<longrightarrow> oi_CustomXrayProtocol x = []) \<and>
     map TrimSpace (oi_WireGuardAllowedIPs x) = oi_WireGuardAllowedIPs x"
  by (cases x) (auto simp: trimmed_def trimOutboundInput_def)

lemma trimmed_trim: "trimmed (trimOutboundInput x)"
  by (simp add: trimmed_iff trimOutboundInput_def Let_def)

text \<open>Trimming survives the update of a field with a trimmed value.\<close>

lemma trimmed_upd [simp]:
  "trimmed x \<Longrightarrow> TrimSpace v = v \<Longrightarrow> trimmed (x\<lparr>oi_Name := v\<rparr>)"
  "trimmed x \<Longrightarrow> TrimSpace v = v \<Longrightarrow> trimmed (x\<lparr>oi_NodeID := v\<rparr>)"
  "trimmed x \<Longrightarrow> TrimSpace v = v \<Longrightarrow> trimmed (x\<lparr>oi_Tag := v\<rparr>)"
  "trimmed x \<Longrightarrow> TrimSpace v = v \<Longrightarrow> trimmed (x\<lparr>oi_Address := v\<rparr>)"
  "trimmed x \<Longrightarrow> trimmed (x\<lparr>oi_Port := wPort\<rparr>)"
  "trimmed x \<Longrightarrow> TrimSpace v = v \<Longrightarrow> trimmed (x\<lparr>oi_Username := v\<rparr>)"
  "trimmed x \<Longrightarrow> TrimSpace v = v \<Longrightarrow> trimmed (x\<lparr>oi_Password := v\<rparr>)"
  "trimmed x \<Longrightarrow> TrimSpace v = v \<Longrightarrow> trimmed (x\<lparr>oi_Secret := v\<rparr>)"
  "trimmed x \<Longrightarrow> ToLower (TrimSpace v) = v \<Longrightarrow> trimmed (x\<lparr>oi_Transport := v\<rparr>)"
  "trimmed x \<Longrightarrow> ToLower (TrimSpace v) = v \<Longrightarrow> trimmed (x\<lparr>oi_TLSMode := v\<rparr>)"
  "trimmed x \<Longrightarrow> TrimSpace v = v \<Longrightarrow> trimmed (x\<lparr>oi_Path := v\<rparr>)"
  "trimmed x \<Longrightarrow> TrimSpace v = v \<Longrightarrow> trimmed (x\<lparr>oi_Host := v\<rparr>)"
  "trimmed x \<Longrightarrow> TrimSpace v = v \<Longrightarrow> trimmed (x\<lparr>oi_ServiceName := v\<rparr>)"
  "trimmed x \<Longrightarrow> TrimSpace v = v \<Longrightarrow> trimmed (x\<lparr>oi_ServerName := v\<rparr>)"
  "trimmed x \<Longrightarrow> trimmed (x\<lparr>oi_AllowInsecure := wAllowInsecure\<rparr>)"
  "trimmed x \<Longrightarrow> TrimSpace v = v \<Longrightarrow> trimmed (x\<lparr>oi_Fingerprint := v\<rparr>)"
  "trimmed x \<Longrightarrow> TrimSpace v = v \<Longrightarrow> trimmed (x\<lparr>oi_Flow := v\<rparr>)"
  "trimmed x \<Longrightarrow> ToLower (TrimSpace v) = v \<Longrightarrow> trimmed (x\<lparr>oi_ShadowsocksMethod := v\<rparr>)"
  "trimmed x \<Longrightarrow> TrimSpace v = v \<Longrightarrow> trimmed (x\<lparr>oi_RealityPublicKey := v\<rparr>)"
  "trimmed x \<Longrightarrow> TrimSpace v = v \<Longrightarrow> trimmed (x\<lparr>oi_RealityShortID := v\<rparr>)"
  "trimmed x \<Longrightarrow> TrimSpace v = v \<Longrightarrow> trimmed (x\<lparr>oi_WireGuardInterface := v\<rparr>)"
  "trimmed x \<Longrightarrow> TrimSpace v = v \<Longrightarrow> trimmed (x\<lparr>oi_WireGuardAddress := v\<rparr>)"
  "trimmed x \<Longrightarrow> TrimSpace v = v \<Longrightarrow> trimmed (x\<lparr>oi_WireGuardPeerPublicKey := v\<rparr>)"
  "trimmed x \<Longrightarrow> map TrimSpace vs = vs \<Longrightarrow> trimmed (x\<lparr>oi_WireGuardAllowedIPs := vs\<rparr>)"
  "trimmed x \<Longrightarrow> trimmed (x\<lparr>oi_WireGuardKeepalive := wWireGuardKeepalive\<rparr>)"
  "trimmed x \<Longrightarrow> trimmed (x\<lparr>oi_WireGuardMTU := wWireGuardMTU\<rparr>)"
  "trimmed x \<Longrightarrow> trimmed (x\<lparr>oi_TorSOCKSPort := wTorSOCKSPort\<rparr>)"
  "trimmed x \<Longrightarrow> TrimSpace v = v \<Longrightarrow> trimmed (x\<lparr>oi_OpenVPNInterface := v\<rparr>)"
  "trimmed x \<Longrightarrow> trimmed (x\<lparr>oi_OpenVPNRoutingTable := wOpenVPNRoutingTable\<rparr>)"
  "trimmed x \<Longrightarrow> trimmed (x\<lparr>oi_OpenVPNMark := wOpenVPNMark\<rparr>)"
  "trimmed x \<Longrightarrow> trimmed (x\<lparr>oi_Enabled := wEnabled\<rparr>)"
  "trimmed x \<Longrightarrow> TrimSpace v = v \<Longrightarrow> trimmed (x\<lparr>oi_Remark := v\<rparr>)"
  by (simp_all add: trimmed_iff)

lemma trimmed_Address [simp]: "trimmed x \<Longrightarrow> TrimSpace (oi_Address x) = oi_Address x"
  by (simp add: trimmed_iff)

section \<open>Lemmas: a normalised input is a fixed point\<close>

text \<open>Each protocol's step keeps the input trimmed, keeps its protocol, name, node and tag, and does
  nothing the second time.\<close>

definition settled :: "(outboundInput \<Rightarrow> go_error + outboundInput) \<Rightarrow> outboundInput \<Rightarrow> outboundInput \<Rightarrow> bool" where
  "settled f x y \<longleftrightarrow>
     trimmed y \<and> oi_Protocol y = oi_Protocol x \<and> oi_Name y = oi_Name x \<and>
     oi_NodeID y = oi_NodeID x \<and> oi_Tag y = oi_Tag x \<and> f y = Inr y"

lemma normalizePlain_settled:
  "trimmed x \<Longrightarrow> settled (\<lambda>x. Inr (normalizePlain x)) x (normalizePlain x)"
  by (simp add: settled_def normalizePlain_def)

lemma normalizeProxy_settled:
  "trimmed x \<Longrightarrow> normalizeProxy x = Inr y \<Longrightarrow> settled normalizeProxy x y"
  by (auto simp: settled_def normalizeProxy_def split: if_splits)

lemma normalizeTor_settled:
  "trimmed x \<Longrightarrow> normalizeTor x = Inr y \<Longrightarrow> settled normalizeTor x y"
  by (auto simp: settled_def normalizeTor_def Let_def split: if_splits)

text \<open>A default that is filled in is an update of one field, so no case distinction is needed.\<close>

lemma fill_default:
  "(if c then x\<lparr>oi_Transport := v0\<rparr> else x) = x\<lparr>oi_Transport := (if c then v0 else oi_Transport x)\<rparr>"
  "(if c then x\<lparr>oi_TLSMode := v1\<rparr> else x) = x\<lparr>oi_TLSMode := (if c then v1 else oi_TLSMode x)\<rparr>"
  "(if c then x\<lparr>oi_Path := v2\<rparr> else x) = x\<lparr>oi_Path := (if c then v2 else oi_Path x)\<rparr>"
  "(if c then x\<lparr>oi_ServiceName := v3\<rparr> else x) = x\<lparr>oi_ServiceName := (if c then v3 else oi_ServiceName x)\<rparr>"
  "(if c then x\<lparr>oi_ServerName := v4\<rparr> else x) = x\<lparr>oi_ServerName := (if c then v4 else oi_ServerName x)\<rparr>"
  "(if c then x\<lparr>oi_Fingerprint := v5\<rparr> else x) = x\<lparr>oi_Fingerprint := (if c then v5 else oi_Fingerprint x)\<rparr>"
  "(if c then x\<lparr>oi_ShadowsocksMethod := v6\<rparr> else x) = x\<lparr>oi_ShadowsocksMethod := (if c then v6 else oi_ShadowsocksMethod x)\<rparr>"
  "(if c then x\<lparr>oi_WireGuardInterface := v7\<rparr> else x) = x\<lparr>oi_WireGuardInterface := (if c then v7 else oi_WireGuardInterface x)\<rparr>"
  "(if c then x\<lparr>oi_WireGuardAllowedIPs := v8\<rparr> else x) = x\<lparr>oi_WireGuardAllowedIPs := (if c then v8 else oi_WireGuardAllowedIPs x)\<rparr>"
  "(if c then x\<lparr>oi_WireGuardKeepalive := v9\<rparr> else x) = x\<lparr>oi_WireGuardKeepalive := (if c then v9 else oi_WireGuardKeepalive x)\<rparr>"
  "(if c then x\<lparr>oi_WireGuardMTU := v10\<rparr> else x) = x\<lparr>oi_WireGuardMTU := (if c then v10 else oi_WireGuardMTU x)\<rparr>"
  "(if c then x\<lparr>oi_OpenVPNInterface := v11\<rparr> else x) = x\<lparr>oi_OpenVPNInterface := (if c then v11 else oi_OpenVPNInterface x)\<rparr>"
  "(if c then x\<lparr>oi_OpenVPNRoutingTable := v12\<rparr> else x) = x\<lparr>oi_OpenVPNRoutingTable := (if c then v12 else oi_OpenVPNRoutingTable x)\<rparr>"
  "(if c then x\<lparr>oi_OpenVPNMark := v13\<rparr> else x) = x\<lparr>oi_OpenVPNMark := (if c then v13 else oi_OpenVPNMark x)\<rparr>"
  by simp_all

lemma normalizeShadowsocks_settled:
  assumes "trimmed x" "normalizeShadowsocks x = Inr y"
  shows "settled normalizeShadowsocks x y"
proof -
  note r = assms(2) [unfolded normalizeShadowsocks_def Let_def fill_default guard_Inr sum.inject]
  show ?thesis
    using r assms(1)
    by (elim conjE, hypsubst) (simp add: settled_def normalizeShadowsocks_def Let_def trimmed_iff)
qed

lemma routing_hash_range: "0 \<le> h \<Longrightarrow> h < 50000 \<Longrightarrow> 0 \<le> routing_hash h s \<and> routing_hash h s < 50000"
  by (induction h s rule: routing_hash.induct) simp_all

lemma defaultOpenVPNRoutingID_range:
  "10000 \<le> defaultOpenVPNRoutingID tag \<and> defaultOpenVPNRoutingID tag < 60000"
  using routing_hash_range [of 5381 tag] by (simp add: defaultOpenVPNRoutingID_def)

lemma interface_pattern_nonempty: "wireGuardInterfacePattern s \<Longrightarrow> s \<noteq> []"
  by (auto simp: wireGuardInterfacePattern_def)

lemma normalizeOpenVPN_settled:
  assumes "trimmed x" "normalizeOpenVPN x = Inr y"
  shows "settled normalizeOpenVPN x y"
proof -
  note r = assms(2) [unfolded normalizeOpenVPN_def Let_def fill_default guard_Inr sum.inject]
  show ?thesis
    using r assms(1)
    by (elim conjE, hypsubst)
       (simp add: settled_def normalizeOpenVPN_def Let_def trimmed_iff fill_default
         interface_pattern_trimmed interface_pattern_nonempty split del: if_split)
qed

lemma find_guard:
  "(case List.find P xs of Some c \<Rightarrow> Inl (e c) | None \<Rightarrow> r) = Inr y \<longleftrightarrow>
   List.find P xs = None \<and> r = Inr y"
  by (simp split: option.split)

lemma normalizeWireGuard_settled:
  assumes "trimmed x" "normalizeWireGuard x = Inr y"
  shows "settled (normalizeWireGuard) x y"
proof -
  let ?ips = "if oi_WireGuardAllowedIPs x = [] then [''0.0.0.0/0'', ''::/0''] else oi_WireGuardAllowedIPs x"
  have ips: "map TrimSpace ?ips = ?ips" "?ips \<noteq> []" using assms(1) by (simp_all add: trimmed_iff)
  have nz: "(if v = 0 then (25::int) else v) \<noteq> 0" "(if v = 0 then (1420::int) else v) \<noteq> 0" for v
    by simp_all
  note r = assms(2) [unfolded normalizeWireGuard_def Let_def fill_default guard_Inr find_guard sum.inject]
  show ?thesis
    using r assms(1) ips
    by (elim conjE, hypsubst)
       (simp add: nz settled_def normalizeWireGuard_def Let_def trimmed_iff fill_default
         interface_pattern_trimmed interface_pattern_nonempty cong: if_cong split del: if_split)
qed

text \<open>What each stretch leaves behind, and that it then does nothing more.\<close>

definition modes_ok :: "outboundInput \<Rightarrow> bool" where
  "modes_ok x \<longleftrightarrow>
     oi_Transport x \<in> {''raw'', ''ws'', ''grpc''} \<and> oi_TLSMode x \<in> {''none'', ''tls'', ''reality''} \<and>
     \<not> (oi_Transport x = ''ws'' \<and> oi_TLSMode x = ''reality'')"

definition names_ok :: "outboundInput \<Rightarrow> bool" where
  "names_ok x \<longleftrightarrow>
     \<not> (oi_Transport x = ''ws'' \<and> oi_Path x = []) \<and>
     \<not> (oi_Transport x = ''grpc'' \<and> oi_ServiceName x = []) \<and>
     \<not> ((oi_TLSMode x = ''tls'' \<or> oi_TLSMode x = ''reality'') \<and> oi_ServerName x = []) \<and>
     \<not> ((oi_TLSMode x = ''tls'' \<or> oi_TLSMode x = ''reality'') \<and> oi_Fingerprint x = []) \<and>
     \<not> (oi_TLSMode x = ''reality'' \<and> oi_RealityPublicKey x = [])"

definition flow_ok :: "outboundInput \<Rightarrow> bool" where
  "flow_ok x \<longleftrightarrow>
     oi_ShadowsocksMethod x = [] \<and> (oi_Protocol x \<noteq> ''vless'' \<longrightarrow> oi_Flow x = []) \<and>
     \<not> (oi_Flow x \<noteq> [] \<and> oi_Flow x \<noteq> ''xtls-rprx-vision'') \<and>
     \<not> (oi_Flow x \<noteq> [] \<and> (oi_Transport x \<noteq> ''raw'' \<or>
           (oi_TLSMode x \<noteq> ''tls'' \<and> oi_TLSMode x \<noteq> ''reality'')))"

text \<open>The fields the three stretches do not write.\<close>

definition same_core :: "outboundInput \<Rightarrow> outboundInput \<Rightarrow> bool" where
  "same_core x y \<longleftrightarrow>
     oi_Protocol y = oi_Protocol x \<and> oi_Name y = oi_Name x \<and> oi_NodeID y = oi_NodeID x \<and>
     oi_Tag y = oi_Tag x \<and> oi_Address y = oi_Address x \<and> oi_Port y = oi_Port x"

lemma xrayProxyModes_Inr:
  assumes "trimmed x" "xrayProxyModes x = Inr y"
  shows "trimmed y \<and> modes_ok y \<and> same_core x y"
proof -
  note r = assms(2) [unfolded xrayProxyModes_def Let_def fill_default guard_Inr sum.inject]
  have "TrimSpace (if v = [] then a else v) = (if v = [] then a else v)"
    "ToLower (if v = [] then a else v) = (if v = [] then a else v)"
    if "TrimSpace a = a" "ToLower a = a" "ToLower (TrimSpace v) = v" for v a
    using that by (metis TrimSpace_ToLower TrimSpace_idem, metis ToLower_idem)
  note trim = this [of "''raw''" "oi_Transport x"] this [of "''none''" "oi_TLSMode x"]
  show ?thesis
    using r assms(1) trim
    by (elim conjE, hypsubst)
       (simp add: trimmed_iff modes_ok_def same_core_def cong: if_cong split del: if_split)
qed

lemma xrayProxyNames_Inr:
  assumes "trimmed x" "oi_Address x \<noteq> []" "xrayProxyNames x = Inr y" "modes_ok x"
  shows "trimmed y \<and> modes_ok y \<and> names_ok y \<and> same_core x y"
proof -
  note r = assms(3) [unfolded xrayProxyNames_def Let_def fill_default guard_Inr sum.inject]
  have trim: "TrimSpace (oi_Path x) = oi_Path x" "TrimSpace (oi_ServiceName x) = oi_ServiceName x"
    "TrimSpace (oi_ServerName x) = oi_ServerName x" "TrimSpace (oi_Fingerprint x) = oi_Fingerprint x"
    using assms(1) by (simp_all add: trimmed_iff)
  have "TrimSpace (if c then a else v) = (if c then a else v)"
    if "TrimSpace a = a" "TrimSpace v = v" for c a v using that by simp
  then have "trimmed y"
    using r assms(1) trim by (elim conjE, hypsubst) (simp cong: if_cong split del: if_split)
  moreover have "modes_ok y" using r assms(4) by (elim conjE, hypsubst) (simp add: modes_ok_def)
  moreover have "same_core x y" using r by (elim conjE, hypsubst) (simp add: same_core_def)
  moreover have "names_ok y"
    using r assms(2) by (elim conjE, hypsubst) (simp add: names_ok_def)
  ultimately show ?thesis by simp
qed

lemma flow_guard:
  "(if p then Inr a else if c then Inl e else if d then Inl e' else Inr b) = Inr (y :: outboundInput) \<longleftrightarrow>
   (\<not> p \<longrightarrow> \<not> c \<and> \<not> d) \<and> (if p then a else b) = y"
  by auto

lemma flow_update:
  "(if c then x\<lparr>oi_Flow := f, oi_ShadowsocksMethod := m\<rparr> else x\<lparr>oi_ShadowsocksMethod := m\<rparr>) =
   x\<lparr>oi_Flow := (if c then f else oi_Flow x), oi_ShadowsocksMethod := m\<rparr>"
  by simp

lemma xrayProxyFlow_Inr:
  assumes "trimmed x" "xrayProxyFlow x = Inr y" "modes_ok x" "names_ok x"
  shows "trimmed y \<and> modes_ok y \<and> names_ok y \<and> flow_ok y \<and> same_core x y"
proof -
  note r = assms(2) [unfolded xrayProxyFlow_def flow_guard flow_update]
  have trim: "TrimSpace (oi_Flow x) = oi_Flow x" using assms(1) by (simp add: trimmed_iff)
  have "trimmed y" using r assms(1) trim by (elim conjE, hypsubst) simp
  moreover have "modes_ok y" using r assms(3) by (elim conjE, hypsubst) (simp add: modes_ok_def)
  moreover have "names_ok y" using r assms(4) by (elim conjE, hypsubst) (simp add: names_ok_def)
  moreover have "flow_ok y"
    using r by (elim conjE, hypsubst) (cases "oi_Protocol x = ''vless''"; simp add: flow_ok_def)
  moreover have "same_core x y" using r by (elim conjE, hypsubst) (simp add: same_core_def)
  ultimately show ?thesis by simp
qed

lemma modes_fixed: "modes_ok x \<Longrightarrow> xrayProxyModes x = Inr x"
  by (auto simp: modes_ok_def xrayProxyModes_def)

lemma names_fixed: "names_ok x \<Longrightarrow> xrayProxyNames x = Inr x"
  unfolding names_ok_def xrayProxyNames_def Let_def
  by (elim conjE) (simp only: if_False)

lemma flow_fixed: "flow_ok x \<Longrightarrow> xrayProxyFlow x = Inr x"
  unfolding flow_ok_def xrayProxyFlow_def
  by (elim conjE) (simp only: if_False, simp)

lemma normalizeXrayProxy_settled:
  assumes "trimmed x" "normalizeXrayProxy x = Inr y"
  shows "settled normalizeXrayProxy x y"
proof -
  from assms(2) obtain x1 x2 where *: "\<not> (oi_Address x = [] \<or> oi_Port x < 1 \<or> oi_Port x > 65535)"
    "xrayProxyModes x = Inr x1" "xrayProxyNames x1 = Inr x2" "xrayProxyFlow x2 = Inr y"
    by (auto simp: normalizeXrayProxy_def split: if_splits sum.splits)
  note 1 = xrayProxyModes_Inr [OF assms(1) *(2)]
  then have "oi_Address x1 \<noteq> []" using *(1) by (simp add: same_core_def)
  note 2 = xrayProxyNames_Inr [OF _ this *(3)]
  have 3: "trimmed y" "modes_ok y" "names_ok y" "flow_ok y" "same_core x y"
    using 1 2 xrayProxyFlow_Inr [OF _ *(4)] by (simp_all add: same_core_def)
  then show ?thesis
    using *(1)
    by (simp add: settled_def same_core_def normalizeXrayProxy_def modes_fixed names_fixed flow_fixed)
qed

lemma normalize_ports:
  "normalizeProxy y = Inr z \<Longrightarrow> oi_Address y \<noteq> [] \<and> valid_port (oi_Port y)"
  "normalizeXrayProxy y = Inr z \<Longrightarrow> oi_Address y \<noteq> [] \<and> valid_port (oi_Port y)"
  "normalizeWireGuard y = Inr z \<Longrightarrow> oi_Address y \<noteq> [] \<and> valid_port (oi_Port y)"
  "normalizeShadowsocks y = Inr z \<Longrightarrow> oi_Address y \<noteq> [] \<and> valid_port (oi_Port y)"
  by (simp_all add: normalizeProxy_def normalizeXrayProxy_def normalizeWireGuard_def
      normalizeShadowsocks_def guard_Inr valid_port_def)

lemma normalizeTor_port:
  assumes "normalizeTor x = Inr y"
  shows "1024 \<le> oi_TorSOCKSPort y \<and> oi_TorSOCKSPort y \<le> 65535"
  using assms unfolding normalizeTor_def Let_def guard_Inr sum.inject
  by (elim conjE, hypsubst) simp

lemma normalizeOpenVPN_ids:
  assumes "normalizeOpenVPN x = Inr y"
  shows "1000 \<le> oi_OpenVPNRoutingTable y \<and> oi_OpenVPNRoutingTable y \<le> 65000 \<and>
         1000 \<le> oi_OpenVPNMark y \<and> oi_OpenVPNMark y \<le> 65000"
  using assms unfolding normalizeOpenVPN_def Let_def fill_default guard_Inr sum.inject
  by (elim conjE, hypsubst) (simp cong: if_cong split del: if_split)

lemma normalizeCustom_Protocol:
  assumes "normalizeCustom env x = Inr y"
  shows "oi_Protocol y = oi_Protocol x"
proof (cases "oi_Secret x = []")
  case True
  with assms show ?thesis unfolding normalizeCustom_def Let_def guard_Inr by auto
next
  case False
  with assms show ?thesis
    unfolding normalizeCustom_def Let_def guard_Inr
    by (cases "decodeCustomXrayConfig env (oi_Secret x)") auto
qed

definition good_tag :: "string \<Rightarrow> bool" where
  "good_tag t \<longleftrightarrow> xrayTagPattern t \<and> t \<noteq> ''direct'' \<and> t \<noteq> ''blocked'' \<and> t \<noteq> ''api''"

lemma normalizeOutboundInput_Inr:
  "normalizeOutboundInput env x0 = Inr y \<longleftrightarrow>
   (let x = trimOutboundInput x0 in
    oi_Name x \<noteq> [] \<and> oi_NodeID x \<noteq> [] \<and> good_tag (oi_Tag x) \<and> protocol_step env x = Inr y)"
  unfolding normalizeOutboundInput_def good_tag_def Let_def guard_Inr
  by blast

lemma protocol_step_settled:
  assumes "trimmed x" "protocol_step env x = Inr y" "oi_Protocol x \<noteq> ''custom''"
  shows "settled (protocol_step env) x y"
proof -
  consider "oi_Protocol x \<in> {''freedom'', ''blackhole''}" | "oi_Protocol x \<in> {''socks'', ''http''}"
    | "oi_Protocol x \<in> {''vless'', ''vmess'', ''trojan''}" | "oi_Protocol x = ''wireguard''"
    | "oi_Protocol x = ''tor''" | "oi_Protocol x = ''openvpn''" | "oi_Protocol x = ''shadowsocks''"
    using assms(2,3) by (auto simp: protocol_step_def split: if_splits)
  then show ?thesis
  proof cases
    case 1
    with assms(2) have "y = normalizePlain x" by (auto simp: protocol_step_def)
    with 1 normalizePlain_settled [OF assms(1)] show ?thesis
      by (auto simp: settled_def protocol_step_def)
  next
    case 2
    with assms(2) have "normalizeProxy x = Inr y" by (auto simp: protocol_step_def)
    from 2 normalizeProxy_settled [OF assms(1) this] show ?thesis
      by (auto simp: settled_def protocol_step_def)
  next
    case 3
    with assms(2) have "normalizeXrayProxy x = Inr y" by (auto simp: protocol_step_def)
    from 3 normalizeXrayProxy_settled [OF assms(1) this] show ?thesis
      by (auto simp: settled_def protocol_step_def)
  next
    case 4
    with assms(2) have "normalizeWireGuard x = Inr y" by (simp add: protocol_step_def)
    from 4 normalizeWireGuard_settled [OF assms(1) this] show ?thesis
      by (simp add: settled_def protocol_step_def)
  next
    case 5
    with assms(2) have "normalizeTor x = Inr y" by (simp add: protocol_step_def)
    from 5 normalizeTor_settled [OF assms(1) this] show ?thesis
      by (simp add: settled_def protocol_step_def)
  next
    case 6
    with assms(2) have "normalizeOpenVPN x = Inr y" by (simp add: protocol_step_def)
    from 6 normalizeOpenVPN_settled [OF assms(1) this] show ?thesis
      by (simp add: settled_def protocol_step_def)
  next
    case 7
    with assms(2) have "normalizeShadowsocks x = Inr y" by (simp add: protocol_step_def)
    from 7 normalizeShadowsocks_settled [OF assms(1) this] show ?thesis
      by (simp add: settled_def protocol_step_def)
  qed
qed

section \<open>Properties\<close>

text \<open>
  A normalised outbound input has a name, a node and a safe tag that is not reserved, and is a
  fixed point: normalising it again, as an edit of the stored outbound does, changes nothing. A
  custom outbound is left out, as its secret is rewritten by the JSON encoder.
\<close>

lemma normalize_outbound_fixpoint:
  assumes "normalizeOutboundInput env x = Inr y" "oi_Protocol y \<noteq> ''custom''"
  shows "normalizeOutboundInput env y = Inr y \<and> oi_Name y \<noteq> [] \<and> oi_NodeID y \<noteq> [] \<and>
         good_tag (oi_Tag y)"
proof -
  let ?x = "trimOutboundInput x"
  have *: "oi_Name ?x \<noteq> []" "oi_NodeID ?x \<noteq> []" "good_tag (oi_Tag ?x)" "protocol_step env ?x = Inr y"
    using assms(1) by (simp_all add: normalizeOutboundInput_Inr Let_def)
  have "oi_Protocol ?x \<noteq> ''custom''"
  proof
    assume c: "oi_Protocol ?x = ''custom''"
    with *(4) have "normalizeCustom env ?x = Inr y" by (simp add: protocol_step_def)
    with c normalizeCustom_Protocol have "oi_Protocol y = ''custom''" by metis
    with assms(2) show False by simp
  qed
  from protocol_step_settled [OF trimmed_trim *(4) this] *(1-3)
  show ?thesis
    by (simp add: settled_def trimmed_def normalizeOutboundInput_Inr Let_def)
qed

definition sample_input :: outboundInput where
  "sample_input =
     \<lparr>oi_Name = '' Tor exit'', oi_NodeID = ''n1'', oi_Tag = ''tor-1'', oi_Protocol = ''TOR'',
      oi_Address = ''x'', oi_Port = 9, oi_Username = [], oi_Password = [], oi_Secret = [],
      oi_Transport = [], oi_TLSMode = [], oi_Path = [], oi_Host = [], oi_ServiceName = [],
      oi_ServerName = [], oi_AllowInsecure = True, oi_Fingerprint = [], oi_Flow = [],
      oi_ShadowsocksMethod = [], oi_RealityPublicKey = [], oi_RealityShortID = [],
      oi_WireGuardInterface = [], oi_WireGuardAddress = [], oi_WireGuardPeerPublicKey = [],
      oi_WireGuardAllowedIPs = [], oi_WireGuardKeepalive = 0, oi_WireGuardMTU = 0,
      oi_TorSOCKSPort = 0, oi_OpenVPNInterface = [], oi_OpenVPNRoutingTable = 0,
      oi_OpenVPNMark = 0, oi_CustomXrayProtocol = [], oi_Enabled = True, oi_Remark = []\<rparr>"

definition sample_output :: outboundInput where
  "sample_output = sample_input\<lparr>oi_Name := ''Tor exit'', oi_Protocol := ''tor'', oi_Address := [],
     oi_Port := 0, oi_AllowInsecure := False, oi_TorSOCKSPort := 19050\<rparr>"

lemma sample_normalize: "normalizeOutboundInput sample_env sample_input = Inr sample_output"
  by code_simp

lemma normalize_outbound_fixpoint_witness:
  "normalizeOutboundInput sample_env sample_output = Inr sample_output"
  using normalize_outbound_fixpoint [OF sample_normalize] by (simp add: sample_output_def)

text \<open>
  The numeric fields of a normalised input are in the ranges the operating system and Xray
  accept: a port of 1 to 65535 with an address for every protocol that connects to one, a Tor port
  of 1024 to 65535, and for OpenVPN a routing table and a mark of 1000 to 65000, the defaults
  derived from the tag included.
\<close>

lemma normalize_outbound_ranges:
  assumes "normalizeOutboundInput env x = Inr y"
  shows "(oi_Protocol y \<in> {''socks'', ''http'', ''vless'', ''vmess'', ''trojan'', ''wireguard'', ''shadowsocks''} \<longrightarrow>
            oi_Address y \<noteq> [] \<and> 1 \<le> oi_Port y \<and> oi_Port y \<le> 65535) \<and>
         (oi_Protocol y = ''tor'' \<longrightarrow> 1024 \<le> oi_TorSOCKSPort y \<and> oi_TorSOCKSPort y \<le> 65535) \<and>
         (oi_Protocol y = ''openvpn'' \<longrightarrow>
            1000 \<le> oi_OpenVPNRoutingTable y \<and> oi_OpenVPNRoutingTable y \<le> 65000 \<and>
            1000 \<le> oi_OpenVPNMark y \<and> oi_OpenVPNMark y \<le> 65000)"
proof (cases "oi_Protocol y = ''custom''")
  case True
  then show ?thesis by simp
next
  case False
  let ?x = "trimOutboundInput x"
  have *: "protocol_step env ?x = Inr y"
    using assms by (simp add: normalizeOutboundInput_Inr Let_def)
  have "oi_Protocol ?x \<noteq> ''custom''"
    using * False normalizeCustom_Protocol by (fastforce simp: protocol_step_def)
  from protocol_step_settled [OF trimmed_trim * this]
  have s: "oi_Protocol y = oi_Protocol ?x" "protocol_step env y = Inr y"
    by (simp_all add: settled_def)
  have "oi_Address y \<noteq> [] \<and> valid_port (oi_Port y)"
    if "oi_Protocol y \<in> {''socks'', ''http'', ''vless'', ''vmess'', ''trojan'', ''wireguard'', ''shadowsocks''}"
    using that s(2) normalize_ports by (fastforce simp: protocol_step_def)
  moreover have "1024 \<le> oi_TorSOCKSPort y \<and> oi_TorSOCKSPort y \<le> 65535" if "oi_Protocol y = ''tor''"
    using that s(2) by (intro normalizeTor_port) (simp add: protocol_step_def)
  moreover have "1000 \<le> oi_OpenVPNRoutingTable y \<and> oi_OpenVPNRoutingTable y \<le> 65000 \<and>
      1000 \<le> oi_OpenVPNMark y \<and> oi_OpenVPNMark y \<le> 65000" if "oi_Protocol y = ''openvpn''"
    using that s(2) by (intro normalizeOpenVPN_ids) (simp add: protocol_step_def)
  ultimately show ?thesis unfolding valid_port_def not_less de_Morgan_disj by blast
qed

lemma normalize_outbound_ranges_witness:
  "\<exists>y. normalizeOutboundInput sample_env (sample_input\<lparr>oi_Protocol := ''openvpn''\<rparr>) = Inr y \<and>
       oi_OpenVPNMark y \<le> 65000"
proof -
  have "(case normalizeOutboundInput sample_env (sample_input\<lparr>oi_Protocol := ''openvpn''\<rparr>) of
      Inl e \<Rightarrow> False | Inr y \<Rightarrow> oi_Protocol y = ''openvpn'')" by code_simp
  then obtain y where "normalizeOutboundInput sample_env (sample_input\<lparr>oi_Protocol := ''openvpn''\<rparr>) = Inr y"
    "oi_Protocol y = ''openvpn''" by (auto split: sum.splits)
  with normalize_outbound_ranges [OF this(1)] show ?thesis by blast
qed

end
