(* ===== verification/Outbounds.thy ===== *)
theory Outbounds
  imports OutboundInput
begin

text \<open>
  The outbounds of a node in the Xray configuration, src/internal/panel/routing.go: the stream
  settings of an outbound and its item, one function per protocol; and, from outbound_control.go,
  the checks an outbound has to pass to be stored on a node.
\<close>

section \<open>Where an outbound may be stored\<close>

fun clashing_outbound :: "string \<Rightarrow> string \<Rightarrow> string \<Rightarrow> string \<Rightarrow> Outbound list \<Rightarrow> go_error option" where
  "clashing_outbound outboundID name nodeID tag [] = None"
| "clashing_outbound outboundID name nodeID tag (x # xs) =
     (if out_ID x = outboundID then clashing_outbound outboundID name nodeID tag xs
      else if out_NodeID x = nodeID \<and> EqualFold (TrimSpace (out_Tag x)) tag
        then Some (Plain ''outbound tag already exists on node'')
      else if out_NodeID x = nodeID \<and> EqualFold (TrimSpace (out_Name x)) name
        then Some (Plain ''outbound name already exists on node'')
      else clashing_outbound outboundID name nodeID tag xs)"

definition validateOutboundTargetSpec ::
  "State \<Rightarrow> string \<Rightarrow> string \<Rightarrow> string \<Rightarrow> string \<Rightarrow> go_error option" where
  "validateOutboundTargetSpec st outboundID name0 nodeID tag0 =
     (case findNode st nodeID of
        None \<Rightarrow> Some (Plain ''node not found'')
      | Some node \<Rightarrow>
          if \<not> n_Enabled node then Some (Plain ''node is disabled'')
          else if n_Maintenance node then Some (Plain ''node is in maintenance'')
          else
            let name = TrimSpace name0; tag = TrimSpace tag0; lowerTag = ToLower tag in
            case List.find (HasPrefix lowerTag) [''gbm-'', ''gb-bal-''] of
              Some prefix \<Rightarrow>
                Some (Plain (''outbound tag prefix '' @ Quote prefix @
                             '' is reserved for GameBridge internal routing''))
            | None \<Rightarrow> clashing_outbound outboundID name nodeID tag (st_Outbounds st))"

section \<open>Stream settings\<close>

definition outbound_tls :: "Outbound \<Rightarrow> json \<Rightarrow> json" where
  "outbound_tls x stream =
     (if out_TLSMode x = ''tls'' then
        (let tls = JObj [(''serverName'', JStr (defaultString (out_ServerName x) (out_Address x))),
                         (''allowInsecure'', JBool (out_AllowInsecure x))];
             tls1 = (if out_Fingerprint x \<noteq> []
                     then jput ''fingerprint'' (JStr (out_Fingerprint x)) tls else tls)
         in jput ''tlsSettings'' tls1 (jput ''security'' (JStr ''tls'') stream))
      else if out_TLSMode x = ''reality'' then
        (let reality = JObj [(''serverName'', JStr (defaultString (out_ServerName x) (out_Address x))),
                             (''fingerprint'', JStr (defaultString (out_Fingerprint x) ''chrome'')),
                             (''password'', JStr (out_RealityPublicKey x))];
             reality1 = (if out_RealityShortID x \<noteq> []
                         then jput ''shortId'' (JStr (out_RealityShortID x)) reality else reality)
         in jput ''realitySettings'' reality1 (jput ''security'' (JStr ''reality'') stream))
      else jput ''security'' (JStr ''none'') stream)"

definition buildXrayOutboundStream :: "Outbound \<Rightarrow> json option" where
  "buildXrayOutboundStream x =
     (if out_Transport x = [] then None
      else
        let method = (if out_Transport x = ''ws'' then ''websocket'' else out_Transport x);
            stream = JObj [(''method'', JStr method)];
            stream1 =
              (if out_Transport x = ''ws'' then
                 (let ws = JObj [(''path'', JStr (defaultString (out_Path x) ''/''))];
                      ws1 = (if out_Host x \<noteq> [] then jput ''host'' (JStr (out_Host x)) ws else ws)
                  in jput ''wsSettings'' ws1 stream)
               else if out_Transport x = ''grpc'' then
                 jput ''grpcSettings''
                   (JObj [(''serviceName'', JStr (defaultString (out_ServiceName x) ''gamebridge''))])
                   stream
               else stream)
        in Some (outbound_tls x stream1))"

section \<open>Items\<close>

definition xray_item :: "string \<Rightarrow> string \<Rightarrow> json \<Rightarrow> json" where
  "xray_item tag protocol settings =
     JObj [(''tag'', JStr tag), (''protocol'', JStr protocol), (''settings'', settings)]"

definition with_stream :: "Outbound \<Rightarrow> json \<Rightarrow> json" where
  "with_stream x item =
     (case buildXrayOutboundStream x of
        Some stream \<Rightarrow> jput ''streamSettings'' stream item | None \<Rightarrow> item)"

definition needs :: "string \<Rightarrow> Outbound \<Rightarrow> string \<Rightarrow> json \<Rightarrow> go_error + json" where
  "needs secret x what item =
     (if secret = [] then Inl (Plain (''outbound '' @ out_Tag x @ '' requires '' @ what))
      else Inr item)"

definition proxy_item :: "Outbound \<Rightarrow> string \<Rightarrow> json" where
  "proxy_item x secret =
     (let settings = JObj [(''address'', JStr (out_Address x)), (''port'', JInt (out_Port x))];
          settings1 = (if out_Username x \<noteq> [] then
                         (let s = jput ''user'' (JStr (out_Username x)) settings
                          in if secret \<noteq> [] then jput ''pass'' (JStr secret) s else s)
                       else settings)
      in xray_item (out_Tag x) (out_Protocol x) settings1)"

definition vless_item :: "Outbound \<Rightarrow> string \<Rightarrow> json" where
  "vless_item x secret =
     (let settings = JObj [(''address'', JStr (out_Address x)), (''port'', JInt (out_Port x)),
                           (''id'', JStr secret), (''encryption'', JStr ''none'')];
          settings1 = (if out_Flow x \<noteq> [] then jput ''flow'' (JStr (out_Flow x)) settings else settings)
      in with_stream x (xray_item (out_Tag x) (out_Protocol x) settings1))"

definition vmess_item :: "Outbound \<Rightarrow> string \<Rightarrow> json" where
  "vmess_item x secret =
     with_stream x (xray_item (out_Tag x) (out_Protocol x)
       (JObj [(''address'', JStr (out_Address x)), (''port'', JInt (out_Port x)),
              (''id'', JStr secret), (''security'', JStr ''auto'')]))"

definition trojan_item :: "Outbound \<Rightarrow> string \<Rightarrow> json" where
  "trojan_item x secret =
     with_stream x (xray_item (out_Tag x) (out_Protocol x)
       (JObj [(''address'', JStr (out_Address x)), (''port'', JInt (out_Port x)),
              (''password'', JStr secret)]))"

definition shadowsocks_item :: "Outbound \<Rightarrow> string \<Rightarrow> json" where
  "shadowsocks_item x secret =
     with_stream x (xray_item (out_Tag x) (out_Protocol x)
       (JObj [(''address'', JStr (out_Address x)), (''port'', JInt (out_Port x)),
              (''method'', JStr (defaultString (out_ShadowsocksMethod x) ''aes-128-gcm'')),
              (''password'', JStr secret)]))"

definition freedom_item :: "Outbound \<Rightarrow> (string \<times> json) list \<Rightarrow> json" where
  "freedom_item x sockopt =
     jput ''streamSettings'' (JObj [(''sockopt'', JObj sockopt)])
       (xray_item (out_Tag x) ''freedom'' (JObj [(''domainStrategy'', JStr ''AsIs'')]))"

definition tor_item :: "Outbound \<Rightarrow> go_error + json" where
  "tor_item x =
     (if out_TorSOCKSPort x < 1024 \<or> out_TorSOCKSPort x > 65535
      then Inl (Plain (''outbound '' @ out_Tag x @ '' has invalid Tor SOCKS port''))
      else Inr (xray_item (out_Tag x) ''socks''
                  (JObj [(''address'', JStr ''127.0.0.1''), (''port'', JInt (out_TorSOCKSPort x))])))"

definition openvpn_item :: "Outbound \<Rightarrow> string \<Rightarrow> go_error + json" where
  "openvpn_item x secret =
     (if secret = []
        then Inl (Plain (''outbound '' @ out_Tag x @ '' requires an openvpn profile''))
      else if out_OpenVPNInterface x = [] \<or> out_OpenVPNMark x < 1000
        then Inl (Plain (''outbound '' @ out_Tag x @ '' has invalid openvpn routing settings''))
      else Inr (freedom_item x [(''interface'', JStr (out_OpenVPNInterface x)),
                                (''mark'', JInt (out_OpenVPNMark x))]))"

definition custom_item :: "'w env \<Rightarrow> Outbound \<Rightarrow> string \<Rightarrow> go_error + json" where
  "custom_item env x secret =
     (if secret = []
        then Inl (Plain (''outbound '' @ out_Tag x @ '' requires a custom xray config''))
      else case customXrayOutboundItem env (out_Tag x) secret of
             Inl e \<Rightarrow> Inl (Plain (''outbound '' @ out_Tag x @ '' custom xray config: '' @ err_msg e))
           | Inr (item, protocol) \<Rightarrow>
               if out_CustomXrayProtocol x \<noteq> [] \<and> out_CustomXrayProtocol x \<noteq> protocol
               then Inl (Plain (''outbound '' @ out_Tag x @ '' custom protocol metadata mismatch''))
               else Inr item)"

text \<open>One iteration of the loop of buildXrayOutbounds: the credential, then the protocol switch.\<close>

definition outbound_item :: "'w env \<Rightarrow> Outbound \<Rightarrow> go_error + json" where
  "outbound_item env x =
     (case (if out_PasswordEnc x \<noteq> [] then ev_Open env (out_PasswordEnc x) else Inr []) of
        Inl e \<Rightarrow> Inl (Plain (''decrypt outbound '' @ out_Tag x @ '' credential: '' @ err_msg e))
      | Inr secret \<Rightarrow>
          if out_Protocol x = ''freedom'' \<or> out_Protocol x = ''blackhole''
            then Inr (xray_item (out_Tag x) (out_Protocol x) (JObj []))
          else if out_Protocol x = ''socks'' \<or> out_Protocol x = ''http''
            then Inr (proxy_item x secret)
          else if out_Protocol x = ''vless''
            then needs secret x ''a VLESS credential'' (vless_item x secret)
          else if out_Protocol x = ''vmess''
            then needs secret x ''a VMess credential'' (vmess_item x secret)
          else if out_Protocol x = ''trojan''
            then needs secret x ''a Trojan password'' (trojan_item x secret)
          else if out_Protocol x = ''wireguard''
            then needs secret x ''a WireGuard private key''
                   (freedom_item x [(''interface'', JStr (out_WireGuardInterface x))])
          else if out_Protocol x = ''tor'' then tor_item x
          else if out_Protocol x = ''openvpn'' then openvpn_item x secret
          else if out_Protocol x = ''custom'' then custom_item env x secret
          else if out_Protocol x = ''shadowsocks''
            then needs secret x ''a Shadowsocks password'' (shadowsocks_item x secret)
          else Inl (Plain (''unsupported outbound protocol '' @ Quote (out_Protocol x))))"

fun outbound_items :: "'w env \<Rightarrow> string \<Rightarrow> Outbound list \<Rightarrow> go_error + json list" where
  "outbound_items env nodeID [] = Inr []"
| "outbound_items env nodeID (x # xs) =
     (if out_NodeID x \<noteq> nodeID \<or> \<not> out_Enabled x then outbound_items env nodeID xs
      else case outbound_item env x of
             Inl e \<Rightarrow> Inl e
           | Inr item \<Rightarrow>
               (case outbound_items env nodeID xs of Inl e \<Rightarrow> Inl e | Inr items \<Rightarrow> Inr (item # items)))"

definition built_in_items :: "json list" where
  "built_in_items =
     [xray_item ''direct'' ''freedom'' (JObj []), xray_item ''blocked'' ''blackhole'' (JObj [])]"

section \<open>Lemmas\<close>

text \<open>Every item carries the tag of its outbound, trimmed for a custom one.\<close>

definition item_tag :: "json \<Rightarrow> string" where
  "item_tag j = jget_str ''tag'' j"

lemma item_tag_xray_item [simp]: "item_tag (xray_item t p s) = t"
  by (simp add: item_tag_def jget_str_def xray_item_def)

lemma item_tag_jput [simp]: "k \<noteq> ''tag'' \<Longrightarrow> item_tag (jput k v j) = item_tag j"
  by (simp add: item_tag_def jget_str_def jget_jput_gen)

lemma item_tag_with_stream [simp]: "item_tag (with_stream x j) = item_tag j"
  by (simp add: with_stream_def split: option.split)

lemma custom_sendThrough_obj:
  "custom_sendThrough (JObj m) = Inr j \<Longrightarrow> \<exists>m'. j = JObj m'"
  by (auto simp: custom_sendThrough_def Let_def split: option.splits json.splits if_splits)

lemma custom_sockopt_obj: "custom_sockopt (JObj m) = Inr j \<Longrightarrow> \<exists>m'. j = JObj m'"
  by (auto simp: custom_sockopt_def Let_def split: option.splits json.splits if_splits)

lemma decodeCustom_obj:
  assumes "decodeCustomXrayConfig env raw = Inr (j, p, c)"
  shows "\<exists>m. j = JObj m"
proof -
  obtain m obj1 where "custom_sendThrough (jput ''protocol'' (JStr p) (JObj m)) = Inr obj1"
    "custom_sockopt obj1 = Inr j"
    using assms by (auto simp: decodeCustomXrayConfig_def split: sum.splits option.splits)
  then show ?thesis using custom_sendThrough_obj custom_sockopt_obj by (metis jput.simps(1))
qed

lemma custom_item_tag:
  "custom_item env x secret = Inr j \<Longrightarrow> item_tag j = TrimSpace (out_Tag x)"
  by (auto simp: custom_item_def customXrayOutboundItem_def Let_def item_tag_def jget_str_def map_of_put_entry
      jget_jput_gen split: if_splits sum.splits dest!: decodeCustom_obj)

lemma needs_Inr [simp]: "needs s x w i = Inr j \<longleftrightarrow> s \<noteq> [] \<and> j = i"
  by (auto simp: needs_def)

lemma outbound_item_tag:
  assumes "outbound_item env x = Inr j" "TrimSpace (out_Tag x) = out_Tag x"
  shows "item_tag j = out_Tag x"
  using assms
  by (auto simp: outbound_item_def proxy_item_def vless_item_def vmess_item_def trojan_item_def
      shadowsocks_item_def freedom_item_def tor_item_def openvpn_item_def Let_def
      dest: custom_item_tag split: if_splits sum.splits)

lemma outbound_items_tags:
  assumes "outbound_items env nodeID xs = Inr items"
    "\<forall>x \<in> set xs. TrimSpace (out_Tag x) = out_Tag x"
  shows "map item_tag items = map out_Tag (filter (\<lambda>x. out_NodeID x = nodeID \<and> out_Enabled x) xs)"
  using assms
  by (induction xs arbitrary: items) (auto simp: outbound_item_tag split: if_splits sum.splits)

lemma clashing_outbound_None:
  "clashing_outbound rid name n tag xs = None \<longleftrightarrow>
     (\<forall>x \<in> set xs. out_ID x \<noteq> rid \<longrightarrow> out_NodeID x = n \<longrightarrow>
        \<not> EqualFold (TrimSpace (out_Tag x)) tag \<and> \<not> EqualFold (TrimSpace (out_Name x)) name)"
  by (induction xs) auto

end
