(* ===== verification/OutboundGroups.thy ===== *)
theory OutboundGroups
  imports Outbounds
begin

text \<open>
  Outbound groups, src/internal/panel/outbound_groups.go: normalisation and checks of a group,
  the references from groups and routing rules, the Xray balancers with their member aliases, and
  the list of a node's Xray outbounds (buildXrayOutbounds of routing.go), which ends with those
  aliases. The transactional operations are in GroupTx.
\<close>

section \<open>Normalisation\<close>

definition outboundGroupStrategyRandom :: string where "outboundGroupStrategyRandom = ''random''"
definition outboundGroupStrategyRoundRobin :: string where "outboundGroupStrategyRoundRobin = ''round_robin''"
definition outboundGroupStrategyLeastPing :: string where "outboundGroupStrategyLeastPing = ''least_ping''"
definition outboundGroupStrategyLeastLoad :: string where "outboundGroupStrategyLeastLoad = ''least_load''"

lemmas strategy_defs = outboundGroupStrategyRandom_def outboundGroupStrategyRoundRobin_def
  outboundGroupStrategyLeastPing_def outboundGroupStrategyLeastLoad_def

fun normalizeMembers ::
  "string list \<Rightarrow> OutboundGroupMember list \<Rightarrow> go_error + OutboundGroupMember list" where
  "normalizeMembers seen [] = Inr []"
| "normalizeMembers seen (m # ms) =
     (let m1 = m\<lparr>ogm_OutboundID := TrimSpace (ogm_OutboundID m)\<rparr> in
      if ogm_OutboundID m1 = []
        then Inl (Plain ''outbound group member outbound_id is required'')
      else if ogm_OutboundID m1 \<in> set seen
        then Inl (Plain ''outbound group has duplicate members'')
      else if ogm_Priority m1 < 0 \<or> ogm_Priority m1 > 1000
        then Inl (Plain ''outbound group member priority must be between 0 and 1000'')
      else
        let m2 = (if ogm_Weight m1 = 0 then m1\<lparr>ogm_Weight := 1\<rparr> else m1) in
        if ogm_Weight m2 < 1 \<or> ogm_Weight m2 > 100
          then Inl (Plain ''outbound group member weight must be between 1 and 100'')
        else case normalizeMembers (ogm_OutboundID m1 # seen) ms of
               Inl e \<Rightarrow> Inl e | Inr ms' \<Rightarrow> Inr (m2 # ms'))"

definition member_less :: "OutboundGroupMember \<Rightarrow> OutboundGroupMember \<Rightarrow> bool" where
  "member_less a b =
     (if ogm_Priority a = ogm_Priority b then string_less (ogm_OutboundID a) (ogm_OutboundID b)
      else ogm_Priority a < ogm_Priority b)"

definition normalizeOutboundGroupInput :: "OutboundGroup \<Rightarrow> go_error + OutboundGroup" where
  "normalizeOutboundGroupInput g0 =
     (let g = g0\<lparr>og_Name := TrimSpace (og_Name g0), og_NodeID := TrimSpace (og_NodeID g0),
                 og_Strategy := ToLower (TrimSpace (og_Strategy g0)),
                 og_FallbackOutboundID := TrimSpace (og_FallbackOutboundID g0)\<rparr> in
      if og_Name g = [] \<or> og_NodeID g = [] then Inl (Plain ''name and node_id are required'')
      else
      let g1 = (if og_Strategy g = [] then g\<lparr>og_Strategy := outboundGroupStrategyLeastPing\<rparr> else g) in
      if og_Strategy g1 \<notin> {outboundGroupStrategyRandom, outboundGroupStrategyRoundRobin,
           outboundGroupStrategyLeastPing, outboundGroupStrategyLeastLoad}
        then Inl (Plain ''strategy must be random, round_robin, least_ping or least_load'')
      else if length (og_Members g1) = 0
        then Inl (Plain ''outbound group requires at least one member'')
      else if length (og_Members g1) > 32
        then Inl (Plain ''outbound group supports at most 32 members'')
      else
      let g2 = (if og_FallbackOutboundID g1 = [] then g1\<lparr>og_FallbackOutboundID := ''blocked''\<rparr> else g1);
          g3 = (if og_Expected g2 = 0 then g2\<lparr>og_Expected := 1\<rparr> else g2) in
      if og_Expected g3 < 1 \<or> og_Expected g3 > int (length (og_Members g3))
        then Inl (Plain ''expected must be between 1 and member count'')
      else case normalizeMembers [] (og_Members g3) of
             Inl e \<Rightarrow> Inl e
           | Inr ms \<Rightarrow> Inr (g3\<lparr>og_Members := insertion_sort member_less ms\<rparr>))"

section \<open>Checks\<close>

fun validateMembers :: "State \<Rightarrow> OutboundGroup \<Rightarrow> OutboundGroupMember list \<Rightarrow> go_error option" where
  "validateMembers st g [] = None"
| "validateMembers st g (m # ms) =
     (case findOutbound st (ogm_OutboundID m) of
        None \<Rightarrow> Some (Plain (''outbound group member '' @ ogm_OutboundID m @ '' not found''))
      | Some out \<Rightarrow>
          if out_NodeID out \<noteq> og_NodeID g
            then Some (Plain (''outbound group member '' @ ogm_OutboundID m @ '' belongs to another node''))
          else if \<not> out_Enabled out
            then Some (Plain (''outbound group member '' @ ogm_OutboundID m @ '' is disabled''))
          else if out_Protocol out = ''blackhole''
            then Some (Plain (''blackhole outbound '' @ ogm_OutboundID m @ '' cannot be a load-balancer member''))
          else validateMembers st g ms)"

definition validateFallback :: "State \<Rightarrow> OutboundGroup \<Rightarrow> go_error option" where
  "validateFallback st g =
     (if og_FallbackOutboundID g = ''blocked'' \<or> og_FallbackOutboundID g = ''direct'' then None
      else if og_FallbackOutboundID g \<in> ogm_OutboundID ` set (og_Members g)
        then Some (Plain ''fallback outbound must not also be a group member'')
      else case findOutbound st (og_FallbackOutboundID g) of
             None \<Rightarrow> Some (Plain ''fallback outbound not found'')
           | Some out \<Rightarrow>
               if out_NodeID out \<noteq> og_NodeID g
                 then Some (Plain ''fallback outbound belongs to another node'')
               else if \<not> out_Enabled out then Some (Plain ''fallback outbound is disabled'')
               else None)"

definition validateOutboundGroupSpec :: "State \<Rightarrow> OutboundGroup \<Rightarrow> go_error option" where
  "validateOutboundGroupSpec st g =
     (case findNode st (og_NodeID g) of
        None \<Rightarrow> Some (Plain ''node not found'')
      | Some node \<Rightarrow>
          if \<not> n_Enabled node then Some (Plain ''node is disabled'')
          else if n_Maintenance node then Some (Plain ''node is in maintenance'')
          else if list_ex (\<lambda>x. og_ID x \<noteq> og_ID g \<and> og_NodeID x = og_NodeID g \<and>
                              EqualFold (TrimSpace (og_Name x)) (TrimSpace (og_Name g)))
                    (st_OutboundGroups st)
            then Some (Plain ''outbound group name already exists on node'')
          else case validateMembers st g (og_Members g) of
                 Some e \<Rightarrow> Some e
               | None \<Rightarrow> validateFallback st g)"

definition group_references :: "OutboundGroup \<Rightarrow> string \<Rightarrow> bool" where
  "group_references g outboundID \<longleftrightarrow>
     og_FallbackOutboundID g = outboundID \<or> list_ex (\<lambda>m. ogm_OutboundID m = outboundID) (og_Members g)"

fun groupRefs :: "OutboundGroup list \<Rightarrow> string \<Rightarrow> string \<Rightarrow> bool \<Rightarrow> go_error option" where
  "groupRefs [] outboundID newNodeID enabled = None"
| "groupRefs (g # gs) outboundID newNodeID enabled =
     (if \<not> group_references g outboundID then groupRefs gs outboundID newNodeID enabled
      else if \<not> enabled
        then Some (Plain (''outbound is referenced by outbound group '' @ Quote (og_Name g)))
      else if og_NodeID g \<noteq> newNodeID
        then Some (Plain (''outbound is referenced by outbound group '' @ Quote (og_Name g) @
                          '' on node '' @ og_NodeID g))
      else groupRefs gs outboundID newNodeID enabled)"

definition validateOutboundGroupReferencesForChange ::
  "State \<Rightarrow> string \<Rightarrow> string \<Rightarrow> bool \<Rightarrow> go_error option" where
  "validateOutboundGroupReferencesForChange st outboundID newNodeID enabled =
     groupRefs (st_OutboundGroups st) outboundID newNodeID enabled"

definition outboundGroupReferencedByRouting :: "State \<Rightarrow> string \<Rightarrow> bool \<Rightarrow> bool" where
  "outboundGroupReferencedByRouting st groupID enabledOnly \<longleftrightarrow>
     list_ex (\<lambda>r. rr_OutboundGroupID r = groupID \<and> (\<not> enabledOnly \<or> rr_Enabled r)) (st_RoutingRules st)"

section \<open>Balancers\<close>

definition outboundGroupBalancerTag :: "string \<Rightarrow> string" where
  "outboundGroupBalancerTag groupID = ''gb-bal-'' @ groupID"

definition outboundGroupMemberPrefix :: "string \<Rightarrow> string" where
  "outboundGroupMemberPrefix groupID = ''gbm-'' @ groupID @ ''-''"

definition outboundGroupAliasTag :: "string \<Rightarrow> string \<Rightarrow> string" where
  "outboundGroupAliasTag groupID outboundID = outboundGroupMemberPrefix groupID @ outboundID"

text \<open>The item filed under a tag: the last one of the list, as a map is filled.\<close>

definition byTag :: "json list \<Rightarrow> string \<Rightarrow> json option" where
  "byTag base tag =
     (if tag = [] then None else List.find (\<lambda>j. is_object j \<and> item_tag j = tag) (rev base))"

text \<open>
  A clone by way of the JSON text is the value itself, and cannot fail on a value that is made of
  JSON (numbers come back as float64, which is exact for the ports and marks of an item).
\<close>

definition cloneXrayOutboundMap :: "json \<Rightarrow> json" where
  "cloneXrayOutboundMap j = j"

fun group_aliases ::
  "State \<Rightarrow> string \<Rightarrow> json list \<Rightarrow> OutboundGroup \<Rightarrow> OutboundGroupMember list \<Rightarrow> json list" where
  "group_aliases st nodeID base g [] = []"
| "group_aliases st nodeID base g (m # ms) =
     (case findOutbound st (ogm_OutboundID m) of
        None \<Rightarrow> group_aliases st nodeID base g ms
      | Some out \<Rightarrow>
          if \<not> out_Enabled out \<or> out_NodeID out \<noteq> nodeID then group_aliases st nodeID base g ms
          else case byTag base (out_Tag out) of
                 None \<Rightarrow> group_aliases st nodeID base g ms
               | Some item \<Rightarrow>
                   jput ''tag'' (JStr (outboundGroupAliasTag (og_ID g) (out_ID out)))
                     (cloneXrayOutboundMap item)
                   # group_aliases st nodeID base g ms)"

definition active_groups :: "State \<Rightarrow> string \<Rightarrow> OutboundGroup list" where
  "active_groups st nodeID = filter (\<lambda>g. og_NodeID g = nodeID \<and> og_Enabled g) (st_OutboundGroups st)"

definition buildXrayBalancerAliases :: "State \<Rightarrow> string \<Rightarrow> json list \<Rightarrow> json list" where
  "buildXrayBalancerAliases st nodeID base =
     concat (map (\<lambda>g. group_aliases st nodeID base g (og_Members g)) (active_groups st nodeID))"

definition xrayOutboundGroupFallbackTag :: "State \<Rightarrow> OutboundGroup \<Rightarrow> string" where
  "xrayOutboundGroupFallbackTag st g =
     (if og_FallbackOutboundID g = [] \<or> og_FallbackOutboundID g = ''blocked'' then ''blocked''
      else if og_FallbackOutboundID g = ''direct'' then ''direct''
      else case findOutbound st (og_FallbackOutboundID g) of
             Some out \<Rightarrow> if out_Enabled out \<and> out_NodeID out = og_NodeID g then out_Tag out else ''blocked''
           | None \<Rightarrow> ''blocked'')"

definition group_cost :: "OutboundGroup \<Rightarrow> OutboundGroupMember \<Rightarrow> json" where
  "group_cost g m =
     (let weight = (if ogm_Weight m \<le> 0 then 1 else ogm_Weight m)
      in JObj [(''regexp'', JBool False),
               (''match'', JStr (outboundGroupAliasTag (og_ID g) (ogm_OutboundID m))),
               (''value'', JQuot (int64 ((ogm_Priority m + 1) * 100)) weight)])"

definition xrayOutboundGroupStrategy :: "OutboundGroup \<Rightarrow> json" where
  "xrayOutboundGroupStrategy g =
     (let strategyType =
            (if og_Strategy g = outboundGroupStrategyRandom then ''random''
             else if og_Strategy g = outboundGroupStrategyRoundRobin then ''roundRobin''
             else if og_Strategy g = outboundGroupStrategyLeastLoad then ''leastLoad''
             else ''leastPing'');
          strategy = JObj [(''type'', JStr strategyType), (''settings'', JObj [])]
      in if og_Strategy g \<noteq> outboundGroupStrategyLeastLoad then strategy
         else let expected = (if og_Expected g \<le> 0 then 1 else og_Expected g)
              in jput ''settings'' (JObj [(''expected'', JInt expected),
                                          (''costs'', JArr (map (group_cost g) (og_Members g)))])
                   strategy)"

definition balancer_item :: "State \<Rightarrow> OutboundGroup \<Rightarrow> json" where
  "balancer_item st g =
     JObj [(''tag'', JStr (outboundGroupBalancerTag (og_ID g))),
           (''selector'', jstrs [outboundGroupMemberPrefix (og_ID g)]),
           (''fallbackTag'', JStr (xrayOutboundGroupFallbackTag st g)),
           (''strategy'', xrayOutboundGroupStrategy g)]"

definition buildXrayBalancers :: "State \<Rightarrow> string \<Rightarrow> json list" where
  "buildXrayBalancers st nodeID =
     map (balancer_item st)
       (filter (\<lambda>g. validateOutboundGroupSpec st g = None) (active_groups st nodeID))"

definition buildXrayOutbounds :: "'w env \<Rightarrow> State \<Rightarrow> string \<Rightarrow> go_error + json list" where
  "buildXrayOutbounds env st nodeID =
     (case outbound_items env nodeID (st_Outbounds st) of
        Inl e \<Rightarrow> Inl e
      | Inr items \<Rightarrow>
          let out = built_in_items @ items
          in Inr (out @ buildXrayBalancerAliases st nodeID out))"

section \<open>The summary of a group\<close>

definition normalizeOutboundHealthStatus :: "string \<Rightarrow> string" where
  "normalizeOutboundHealthStatus status =
     (if status \<in> {''healthy'', ''unhealthy'', ''disabled'', ''not_applicable''} then status
      else ''unknown'')"

definition member_entry :: "State \<Rightarrow> OutboundGroupMember \<Rightarrow> json" where
  "member_entry st m =
     (let entry = JObj [(''outbound_id'', JStr (ogm_OutboundID m)), (''priority'', JInt (ogm_Priority m)),
                        (''weight'', JInt (ogm_Weight m))]
      in case findOutbound st (ogm_OutboundID m) of
           None \<Rightarrow> entry
         | Some out \<Rightarrow>
             jput ''latency_ms'' (JInt (out_HealthLatencyMS out))
               (jput ''health_status'' (JStr (normalizeOutboundHealthStatus (out_HealthStatus out)))
                 (jput ''protocol'' (JStr (out_Protocol out))
                   (jput ''name'' (JStr (out_Name out)) (jput ''tag'' (JStr (out_Tag out)) entry)))))"

record group_summary =
  gs_group :: OutboundGroup
  gs_balancer_tag :: string
  gs_fallback_tag :: string
  gs_members :: "json list"

definition outboundGroupSummary :: "State \<Rightarrow> OutboundGroup \<Rightarrow> group_summary" where
  "outboundGroupSummary st g =
     \<lparr>gs_group = g, gs_balancer_tag = outboundGroupBalancerTag (og_ID g),
      gs_fallback_tag = xrayOutboundGroupFallbackTag st g,
      gs_members = map (member_entry st) (og_Members g)\<rparr>"

section \<open>Lemmas: normalisation\<close>

lemma strict_weak_member_less: "strict_weak member_less"
proof -
  have less: "member_less a b \<longleftrightarrow> ogm_Priority a < ogm_Priority b \<or>
      (ogm_Priority a = ogm_Priority b \<and> string_less (ogm_OutboundID a) (ogm_OutboundID b))" for a b
    by (auto simp: member_less_def)
  have "string_less x z \<Longrightarrow> string_less x y \<or> string_less y z" for x y z
    using strict_weak_string_less [of "\<lambda>s. s"] unfolding strict_weak_def by blast
  then have "member_less a c \<Longrightarrow> member_less a b \<or> member_less b c" for a b c
    unfolding less by (metis less_linear order.strict_trans)
  moreover have "member_less a b \<Longrightarrow> \<not> member_less b a" for a b
    unfolding less by (metis less_asym less_irrefl string_less_asym)
  ultimately show ?thesis unfolding strict_weak_def by blast
qed

definition member_ok :: "OutboundGroupMember \<Rightarrow> bool" where
  "member_ok m \<longleftrightarrow>
     ogm_OutboundID m \<noteq> [] \<and> TrimSpace (ogm_OutboundID m) = ogm_OutboundID m \<and>
     0 \<le> ogm_Priority m \<and> ogm_Priority m \<le> 1000 \<and> 1 \<le> ogm_Weight m \<and> ogm_Weight m \<le> 100"

lemma normalizeMembers_Inr:
  assumes "normalizeMembers seen ms = Inr ms'"
  shows "length ms' = length ms \<and> (\<forall>m \<in> set ms'. member_ok m) \<and>
         distinct (map ogm_OutboundID ms') \<and> ogm_OutboundID ` set ms' \<inter> set seen = {}"
  using assms
proof (induction seen ms arbitrary: ms' rule: normalizeMembers.induct)
  case (2 seen m ms)
  define m1 where "m1 = m\<lparr>ogm_OutboundID := TrimSpace (ogm_OutboundID m)\<rparr>"
  define m2 where "m2 = (if ogm_Weight m1 = 0 then m1\<lparr>ogm_Weight := 1\<rparr> else m1)"
  obtain rest where *: "\<not> ogm_OutboundID m1 = []" "\<not> ogm_OutboundID m1 \<in> set seen"
    "\<not> (ogm_Priority m1 < 0 \<or> ogm_Priority m1 > 1000)"
    "\<not> (ogm_Weight m2 < 1 \<or> ogm_Weight m2 > 100)"
    "normalizeMembers (ogm_OutboundID m1 # seen) ms = Inr rest" "ms' = m2 # rest"
    using "2.prems" by (auto simp: Let_def m1_def m2_def split: if_splits sum.splits)
  have id: "ogm_OutboundID m2 = ogm_OutboundID m1" "ogm_Priority m2 = ogm_Priority m1"
    by (simp_all add: m2_def)
  have "TrimSpace (ogm_OutboundID m1) = ogm_OutboundID m1" by (simp add: m1_def)
  then have "member_ok m2" using *(1,3,4) by (simp add: member_ok_def id not_less)
  moreover have "length rest = length ms \<and> (\<forall>m \<in> set rest. member_ok m) \<and>
      distinct (map ogm_OutboundID rest) \<and>
      ogm_OutboundID ` set rest \<inter> set (ogm_OutboundID m1 # seen) = {}"
    using "2.IH" [OF m1_def *(1,2,3) m2_def *(4,5)] .
  ultimately show ?case using *(2,6) id by auto
qed simp

lemma normalizeMembers_fixed:
  assumes "\<forall>m \<in> set ms. member_ok m" "distinct (map ogm_OutboundID ms)"
    "ogm_OutboundID ` set ms \<inter> set seen = {}"
  shows "normalizeMembers seen ms = Inr ms"
  using assms
proof (induction ms arbitrary: seen)
  case (Cons m ms)
  have m: "m\<lparr>ogm_OutboundID := ogm_OutboundID m\<rparr> = m" by simp
  have "normalizeMembers (ogm_OutboundID m # seen) ms = Inr ms"
    using Cons.prems by (intro Cons.IH) auto
  with Cons.prems show ?case by (auto simp: member_ok_def Let_def)
qed simp

section \<open>Lemmas: the Xray outbounds of a node\<close>

lemma is_object_jput [simp]: "is_object (jput k v j) = is_object j"
  by (cases j) (auto simp: is_object_def)

lemma is_object_xray_item [simp]: "is_object (xray_item t p s)"
  by (simp add: is_object_def xray_item_def)

lemma is_object_with_stream [simp]: "is_object (with_stream x j) = is_object j"
  by (simp add: with_stream_def split: option.split)

lemma custom_item_obj: "custom_item env x secret = Inr j \<Longrightarrow> is_object j"
  by (auto simp: custom_item_def customXrayOutboundItem_def Let_def is_object_def
      split: if_splits sum.splits dest!: decodeCustom_obj)

lemma outbound_item_obj: "outbound_item env x = Inr j \<Longrightarrow> is_object j"
  by (auto simp: outbound_item_def proxy_item_def vless_item_def vmess_item_def trojan_item_def
      shadowsocks_item_def freedom_item_def tor_item_def openvpn_item_def Let_def
      dest: custom_item_obj split: if_splits sum.splits)

lemma outbound_items_obj: "outbound_items env nodeID xs = Inr items \<Longrightarrow> \<forall>j \<in> set items. is_object j"
  by (induction xs arbitrary: items)
     (auto dest: outbound_item_obj split: if_splits sum.splits)

lemma group_aliases_member:
  assumes "m \<in> set ms" "findOutbound st (ogm_OutboundID m) = Some out" "out_Enabled out"
    "out_NodeID out = nodeID" "byTag base (out_Tag out) = Some item"
  shows "jput ''tag'' (JStr (outboundGroupAliasTag (og_ID g) (ogm_OutboundID m))) item
           \<in> set (group_aliases st nodeID base g ms)"
proof -
  have "out_ID out = ogm_OutboundID m"
    using assms(2) by (auto simp: findOutbound_def dest: find_row_Some)
  with assms show ?thesis
    by (induction ms) (auto simp: cloneXrayOutboundMap_def split: option.splits)
qed

lemma byTag_present:
  assumes "j \<in> set base" "is_object j" "item_tag j = t" "t \<noteq> []"
  shows "\<exists>item. byTag base t = Some item \<and> is_object item"
proof -
  have "List.find (\<lambda>j. is_object j \<and> item_tag j = t) (rev base) \<noteq> None"
    using assms by (auto simp: find_None_iff')
  then show ?thesis using assms(4) by (auto simp: byTag_def dest: find_Some_in)
qed

definition good_tags :: "State \<Rightarrow> bool" where
  "good_tags st \<longleftrightarrow> (\<forall>x \<in> set (st_Outbounds st). TrimSpace (out_Tag x) = out_Tag x \<and> out_Tag x \<noteq> [])"

lemma outbound_items_tagset:
  assumes "outbound_items env nodeID (st_Outbounds st) = Inr items" "good_tags st"
  shows "item_tag ` set items =
         out_Tag ` {x \<in> set (st_Outbounds st). out_NodeID x = nodeID \<and> out_Enabled x}"
proof -
  have "map item_tag items =
      map out_Tag (filter (\<lambda>x. out_NodeID x = nodeID \<and> out_Enabled x) (st_Outbounds st))"
    using outbound_items_tags [OF assms(1)] assms(2) by (simp add: good_tags_def)
  then show ?thesis by (metis list.set_map set_filter)
qed

lemma outbound_tag_present:
  assumes "buildXrayOutbounds env st nodeID = Inr outs" "good_tags st"
    "out \<in> set (st_Outbounds st)" "out_NodeID out = nodeID" "out_Enabled out"
  shows "out_Tag out \<in> item_tag ` set outs"
proof -
  obtain items where i: "outbound_items env nodeID (st_Outbounds st) = Inr items"
    and "outs = built_in_items @ items @ buildXrayBalancerAliases st nodeID (built_in_items @ items)"
    using assms(1) by (auto simp: buildXrayOutbounds_def Let_def split: sum.splits)
  then have outs: "set items \<subseteq> set outs" by auto
  have "out_Tag out \<in> item_tag ` set items"
    unfolding outbound_items_tagset [OF i assms(2)] using assms(3-5) by (intro imageI) simp
  with outs show ?thesis by blast
qed

lemma built_in_tags:
  "buildXrayOutbounds env st nodeID = Inr outs \<Longrightarrow> {''direct'', ''blocked''} \<subseteq> item_tag ` set outs"
  by (auto simp: buildXrayOutbounds_def Let_def built_in_items_def split: sum.splits)

lemma validateMembers_None:
  "validateMembers st g ms = None \<longleftrightarrow>
   (\<forall>m \<in> set ms. \<exists>out. findOutbound st (ogm_OutboundID m) = Some out \<and>
      out_NodeID out = og_NodeID g \<and> out_Enabled out \<and> out_Protocol out \<noteq> ''blackhole'')"
  by (induction ms) (auto split: option.split)

lemma validGroup_members:
  assumes "validateOutboundGroupSpec st g = None" "m \<in> set (og_Members g)"
  obtains out where "findOutbound st (ogm_OutboundID m) = Some out"
    "out_NodeID out = og_NodeID g" "out_Enabled out" "out_Protocol out \<noteq> ''blackhole''"
proof -
  have "validateMembers st g (og_Members g) = None"
    using assms(1) by (simp add: validateOutboundGroupSpec_def split: option.splits if_splits)
  with assms(2) that show ?thesis unfolding validateMembers_None by blast
qed

lemma findOutbound_in: "findOutbound st rid = Some out \<Longrightarrow> out \<in> set (st_Outbounds st) \<and> out_ID out = rid"
  by (auto simp: findOutbound_def dest: find_row_Some)

lemma groupRefs_None:
  "groupRefs gs rid n en = None \<longleftrightarrow>
   (\<forall>g \<in> set gs. group_references g rid \<longrightarrow> en \<and> og_NodeID g = n)"
  by (induction gs) auto

section \<open>Properties\<close>

lemma fill_group:
  "(if c then g\<lparr>og_Strategy := v\<rparr> else g) = g\<lparr>og_Strategy := (if c then v else og_Strategy g)\<rparr>"
  "(if c then g\<lparr>og_FallbackOutboundID := v\<rparr> else g) =
     g\<lparr>og_FallbackOutboundID := (if c then v else og_FallbackOutboundID g)\<rparr>"
  "(if c then g\<lparr>og_Expected := n\<rparr> else g) = g\<lparr>og_Expected := (if c then n else og_Expected g)\<rparr>"
  by simp_all

lemma members_guard:
  "(case X of Inl e \<Rightarrow> Inl e | Inr ms \<Rightarrow> Inr (f ms)) = Inr y \<longleftrightarrow> (\<exists>ms. X = Inr ms \<and> y = f ms)"
  by (cases X) auto

text \<open>
  A normalised group has a known strategy, 1 to 32 distinct members with bounded priorities
  and weights in order of priority and then ID, a fallback, and an expectation its members can
  meet; and it is a fixed point of the normalisation.
\<close>

lemma normalize_group_fixpoint:
  assumes "normalizeOutboundGroupInput g0 = Inr g"
  shows "og_Name g \<noteq> [] \<and> og_NodeID g \<noteq> [] \<and>
         og_Strategy g \<in> {''random'', ''round_robin'', ''least_ping'', ''least_load''} \<and>
         1 \<le> length (og_Members g) \<and> length (og_Members g) \<le> 32 \<and>
         1 \<le> og_Expected g \<and> og_Expected g \<le> int (length (og_Members g)) \<and>
         og_FallbackOutboundID g \<noteq> [] \<and> (\<forall>m \<in> set (og_Members g). member_ok m) \<and>
         distinct (map ogm_OutboundID (og_Members g)) \<and> in_order member_less (og_Members g) \<and>
         normalizeOutboundGroupInput g = Inr g"
proof -
  let ?g3 = "g0\<lparr>og_Name := TrimSpace (og_Name g0), og_NodeID := TrimSpace (og_NodeID g0),
      og_Strategy := (let v = ToLower (TrimSpace (og_Strategy g0)) in if v = [] then ''least_ping'' else v),
      og_FallbackOutboundID := (let v = TrimSpace (og_FallbackOutboundID g0) in if v = [] then ''blocked'' else v),
      og_Expected := (if og_Expected g0 = 0 then 1 else og_Expected g0)\<rparr>"
  note r = assms [unfolded normalizeOutboundGroupInput_def Let_def fill_group guard_Inr members_guard strategy_defs]
  obtain ms where m: "normalizeMembers [] (og_Members ?g3) = Inr ms"
    and g: "g = ?g3\<lparr>og_Members := insertion_sort member_less ms\<rparr>"
    using r by (elim conjE exE) (simp add: Let_def cong: if_cong split del: if_split)
  define g3 where "g3 = ?g3"
  have strat: "ToLower (TrimSpace ''least_ping'') = ''least_ping''" "TrimSpace ''blocked'' = ''blocked''"
    by code_simp+
  have ifs: "ToLower (TrimSpace (if v = [] then ''least_ping'' else ToLower (TrimSpace u))) =
        (if v = [] then ''least_ping'' else ToLower (TrimSpace u))"
      "TrimSpace (if v = [] then ''blocked'' else TrimSpace u) = (if v = [] then ''blocked'' else TrimSpace u)"
      "(if u = [] then ''blocked'' else u) \<noteq> []" for u v :: string
    using strat by simp_all
  have g3: "og_Name g3 \<noteq> []" "og_NodeID g3 \<noteq> []" "TrimSpace (og_Name g3) = og_Name g3"
      "TrimSpace (og_NodeID g3) = og_NodeID g3" "ToLower (TrimSpace (og_Strategy g3)) = og_Strategy g3"
      "TrimSpace (og_FallbackOutboundID g3) = og_FallbackOutboundID g3"
      "og_Strategy g3 \<in> {''random'', ''round_robin'', ''least_ping'', ''least_load''}"
      "length (og_Members g3) \<noteq> 0" "length (og_Members g3) \<le> 32" "og_FallbackOutboundID g3 \<noteq> []"
      "1 \<le> og_Expected g3" "og_Expected g3 \<le> int (length (og_Members g3))"
    unfolding g3_def using r ifs by (simp_all add: Let_def cong: if_cong split del: if_split)
  note m = m [folded g3_def] and g = g [folded g3_def]
  note n = normalizeMembers_Inr [OF m]
  have set: "set (og_Members g) = set ms" "length (og_Members g) = length ms" by (simp_all add: g)
  have dist: "distinct (map ogm_OutboundID (og_Members g))"
  proof -
    have "mset (map ogm_OutboundID (og_Members g)) = mset (map ogm_OutboundID ms)" by (simp add: g)
    then show ?thesis using n by (metis mset_eq_imp_distinct_iff)
  qed
  have ord: "in_order member_less (og_Members g)"
    by (simp add: g in_order_insertion_sort strict_weak_member_less)
  have mem: "normalizeMembers [] (og_Members g) = Inr (og_Members g)"
    using n dist by (intro normalizeMembers_fixed) (simp_all add: set)
  have fields: "og_Name g = og_Name g3" "og_NodeID g = og_NodeID g3" "og_Strategy g = og_Strategy g3"
    "og_FallbackOutboundID g = og_FallbackOutboundID g3" "og_Expected g = og_Expected g3"
    by (simp_all add: g)
  have "normalizeOutboundGroupInput g = Inr (g\<lparr>og_Members := insertion_sort member_less (og_Members g)\<rparr>)"
    using g3 n set mem by (auto simp: normalizeOutboundGroupInput_def Let_def fields strategy_defs)
  then show ?thesis
    using g3 n dist ord by (auto simp: fields set insertion_sort_sorted)
qed

definition sample_metrics :: NodeMetrics where
  "sample_metrics =
     \<lparr>nm_Hostname = [], nm_Kernel = [], nm_CoreVersion = [], nm_UptimeSeconds = 0, nm_Load1 = 0,
      nm_Load5 = 0, nm_Load15 = 0, nm_MemoryTotal = 0, nm_MemoryAvailable = 0, nm_DiskTotal = 0,
      nm_DiskFree = 0, nm_NetworkRX = 0, nm_NetworkTX = 0\<rparr>"

definition sample_node :: Node where
  "sample_node =
     \<lparr>n_ID = ''n1'', n_Name = ''node'', n_Role = ''foreign'', n_PublicIP = ''1.2.3.4'',
      n_AgentURL = ''https://1.2.3.4:8443'', n_AgentTokenEnc = ''sealed:tok'',
      n_InternetInterface = ''eth0'', n_Enabled = True, n_Maintenance = False,
      n_Status = ''online'', n_FailureCount = 0, n_LastError = [], n_Tags = [], n_LastSeen = 0,
      n_Metrics = sample_metrics, n_CreatedAt = 1, n_UpdatedAt = 1\<rparr>"

definition sample_outbound :: Outbound where
  "sample_outbound =
     \<lparr>out_ID = ''o1'', out_Name = ''exit'', out_NodeID = ''n1'', out_Tag = ''exit-1'',
      out_Protocol = ''freedom'', out_Address = [], out_Port = 0, out_Username = [],
      out_PasswordEnc = [], out_Transport = [], out_TLSMode = [], out_Path = [], out_Host = [],
      out_ServiceName = [], out_ServerName = [], out_AllowInsecure = False, out_Fingerprint = [],
      out_Flow = [], out_ShadowsocksMethod = [], out_RealityPublicKey = [],
      out_RealityShortID = [], out_WireGuardInterface = [], out_WireGuardAddress = [],
      out_WireGuardPeerPublicKey = [], out_WireGuardAllowedIPs = [], out_WireGuardKeepalive = 0,
      out_WireGuardMTU = 0, out_TorSOCKSPort = 0, out_OpenVPNInterface = [],
      out_OpenVPNRoutingTable = 0, out_OpenVPNMark = 0, out_CustomXrayProtocol = [],
      out_HealthStatus = ''unknown'', out_HealthLatencyMS = 0, out_HealthLastCheckedAt = None,
      out_HealthLastSuccessAt = None, out_HealthLastError = [], out_HealthFailureCount = 0,
      out_HealthTarget = [], out_Enabled = True, out_Remark = [], out_CreatedAt = 1,
      out_UpdatedAt = 1\<rparr>"

definition sample_group :: OutboundGroup where
  "sample_group =
     \<lparr>og_ID = ''g1'', og_Name = ''pool'', og_NodeID = ''n1'', og_Strategy = ''least_ping'',
      og_Members = [\<lparr>ogm_OutboundID = ''o1'', ogm_Priority = 0, ogm_Weight = 1\<rparr>],
      og_FallbackOutboundID = ''blocked'', og_Expected = 1, og_Enabled = True,
      og_CreatedAt = 1, og_UpdatedAt = 1\<rparr>"

definition sample_net :: State where
  "sample_net = emptyState\<lparr>st_Nodes := [sample_node], st_Outbounds := [sample_outbound],
     st_OutboundGroups := [sample_group]\<rparr>"

lemma sample_group_normalized:
  "normalizeOutboundGroupInput (sample_group\<lparr>og_Strategy := [], og_Expected := 0\<rparr>) = Inr sample_group"
  by code_simp

lemma normalize_group_fixpoint_witness:
  "normalizeOutboundGroupInput sample_group = Inr sample_group"
  using normalize_group_fixpoint [OF sample_group_normalized] by blast

text \<open>
  A balancer of the configuration never has an empty pool or a dangling fallback: whenever the
  node's Xray outbounds can be built and a group of the node passes the checks, the alias of every
  member, and the fallback, are among the tags of those outbounds.
\<close>

lemma balancer_members_present:
  assumes "buildXrayOutbounds env st nodeID = Inr outs" "good_tags st"
    "g \<in> set (active_groups st nodeID)" "validateOutboundGroupSpec st g = None"
  shows "(\<forall>m \<in> set (og_Members g).
            outboundGroupAliasTag (og_ID g) (ogm_OutboundID m) \<in> item_tag ` set outs) \<and>
         xrayOutboundGroupFallbackTag st g \<in> item_tag ` set outs"
proof -
  have g: "g \<in> set (st_OutboundGroups st)" "og_NodeID g = nodeID" "og_Enabled g"
    using assms(3) by (simp_all add: active_groups_def)
  obtain items where i: "outbound_items env nodeID (st_Outbounds st) = Inr items"
    and outs: "outs = (built_in_items @ items) @ buildXrayBalancerAliases st nodeID (built_in_items @ items)"
    using assms(1) by (auto simp: buildXrayOutbounds_def Let_def split: sum.splits)
  let ?base = "built_in_items @ items"
  have "outboundGroupAliasTag (og_ID g) (ogm_OutboundID m) \<in> item_tag ` set outs"
    if m: "m \<in> set (og_Members g)" for m
  proof -
    obtain out where out: "findOutbound st (ogm_OutboundID m) = Some out"
      "out_NodeID out = og_NodeID g" "out_Enabled out"
      using validGroup_members [OF assms(4) m] by metis
    have in_st: "out \<in> set (st_Outbounds st)" using out(1) by (simp add: findOutbound_in)
    have "out_Tag out \<in> item_tag ` set items"
      unfolding outbound_items_tagset [OF i assms(2)] using in_st out(2,3) g(2) by (intro imageI) simp
    then obtain j where j: "j \<in> set items" "item_tag j = out_Tag out" by (metis imageE)
    have "out_Tag out \<noteq> []" using assms(2) in_st by (simp add: good_tags_def)
    then obtain item where item: "byTag ?base (out_Tag out) = Some item" "is_object item"
      using byTag_present [of j ?base] j outbound_items_obj [OF i] by auto
    let ?aliased = "jput ''tag'' (JStr (outboundGroupAliasTag (og_ID g) (ogm_OutboundID m))) item"
    have "?aliased \<in> set (group_aliases st nodeID ?base g (og_Members g))"
      using group_aliases_member [OF m out(1,3) _ item(1)] out(2) g(2) by simp
    then have "?aliased \<in> set outs"
      using assms(3) by (auto simp: outs buildXrayBalancerAliases_def)
    moreover have "item_tag ?aliased = outboundGroupAliasTag (og_ID g) (ogm_OutboundID m)"
      using item(2) by (auto simp: item_tag_def jget_str_def jget_jput_gen is_object_def split: json.splits)
    ultimately show ?thesis by force
  qed
  moreover have "xrayOutboundGroupFallbackTag st g \<in> item_tag ` set outs"
    using built_in_tags [OF assms(1)] outbound_tag_present [OF assms(1,2)] g(2) findOutbound_in
    by (auto simp: xrayOutboundGroupFallbackTag_def split: option.split)
  ultimately show ?thesis by blast
qed

lemma balancer_members_present_witness:
  "\<exists>outs. buildXrayOutbounds sample_env sample_net ''n1'' = Inr outs \<and>
     ''gbm-g1-o1'' \<in> item_tag ` set outs"
proof -
  have "\<not> isl (buildXrayOutbounds sample_env sample_net ''n1'')" by code_simp
  then obtain outs where o: "buildXrayOutbounds sample_env sample_net ''n1'' = Inr outs"
    by (cases "buildXrayOutbounds sample_env sample_net ''n1''") auto
  have tag: "outboundGroupAliasTag (og_ID sample_group) ''o1'' = ''gbm-g1-o1''" by code_simp
  have "TrimSpace (out_Tag sample_outbound) = out_Tag sample_outbound" by code_simp
  then have "good_tags sample_net"
    by (simp add: good_tags_def sample_net_def) (simp add: sample_outbound_def)
  moreover have "validateOutboundGroupSpec sample_net sample_group = None" by code_simp
  moreover have "sample_group \<in> set (active_groups sample_net ''n1'')"
    by (simp add: active_groups_def sample_net_def sample_group_def)
  ultimately have "\<forall>m \<in> set (og_Members sample_group).
      outboundGroupAliasTag (og_ID sample_group) (ogm_OutboundID m) \<in> item_tag ` set outs"
    using balancer_members_present [OF o] by blast
  then have "outboundGroupAliasTag (og_ID sample_group) ''o1'' \<in> item_tag ` set outs"
    by (simp add: sample_group_def)
  with o tag show ?thesis by auto
qed

end
