(* ===== verification/Routing.thy ===== *)
theory Routing
  imports OutboundGroups
begin

text \<open>
  Routing rules, src/internal/panel/routing.go: normalisation, the checks on what a rule refers
  to, and the routing section of the Xray configuration. The transactional operations and the
  handlers are in RoutingTx.
\<close>

definition normalizeRoutingRule :: "RoutingRule \<Rightarrow> go_error + RoutingRule" where
  "normalizeRoutingRule r0 =
     (let r = r0\<lparr>rr_Name := TrimSpace (rr_Name r0), rr_NodeID := TrimSpace (rr_NodeID r0),
                 rr_Ports := TrimSpace (rr_Ports r0),
                 rr_Network := ToLower (TrimSpace (rr_Network r0)),
                 rr_OutboundID := TrimSpace (rr_OutboundID r0),
                 rr_OutboundGroupID := TrimSpace (rr_OutboundGroupID r0)\<rparr> in
      if rr_Name r = [] \<or> rr_NodeID r = [] then Inl (Plain ''name and node_id are required'')
      else if (rr_OutboundID r = []) = (rr_OutboundGroupID r = [])
        then Inl (Plain ''exactly one of outbound_id or outbound_group_id is required'')
      else if rr_Network r \<noteq> [] \<and> rr_Network r \<noteq> ''tcp'' \<and> rr_Network r \<noteq> ''udp'' \<and>
              rr_Network r \<noteq> ''tcp,udp''
        then Inl (Plain ''network must be tcp, udp or tcp,udp'')
      else Inr (r\<lparr>rr_Domains := map TrimSpace (rr_Domains r), rr_IPs := map TrimSpace (rr_IPs r),
                  rr_Protocols := map (\<lambda>p. ToLower (TrimSpace p)) (rr_Protocols r)\<rparr>))"

definition validateRoutingReferences :: "State \<Rightarrow> RoutingRule \<Rightarrow> go_error option" where
  "validateRoutingReferences st r =
     (if findNode st (rr_NodeID r) = None then Some (Plain ''node not found'')
      else if rr_OutboundGroupID r \<noteq> [] \<and>
              (case findOutboundGroup st (rr_OutboundGroupID r) of
                 None \<Rightarrow> True
               | Some g \<Rightarrow> og_NodeID g \<noteq> rr_NodeID r \<or> \<not> og_Enabled g)
        then Some (Plain ''outbound group not found or not enabled on selected node'')
      else if rr_OutboundGroupID r = [] \<and> rr_OutboundID r \<noteq> ''direct'' \<and> rr_OutboundID r \<noteq> ''blocked'' \<and>
              (case findOutbound st (rr_OutboundID r) of
                 None \<Rightarrow> True
               | Some out \<Rightarrow> out_NodeID out \<noteq> rr_NodeID r \<or> \<not> out_Enabled out)
        then Some (Plain ''outbound not found or not enabled on selected node'')
      else if list_ex (\<lambda>rid. case findInbound st rid of
                              None \<Rightarrow> True | Some x \<Rightarrow> in_NodeID x \<noteq> rr_NodeID r) (rr_InboundIDs r)
        then Some (Plain ''routing inbound does not belong to selected node'')
      else if list_ex (\<lambda>rid. findUser st rid = None) (rr_UserIDs r)
        then Some (Plain ''routing user not found'')
      else None)"

section \<open>The routing section\<close>

text \<open>The target of a rule: the key and the tag, or None when the rule is skipped.\<close>

definition rule_target :: "State \<Rightarrow> string \<Rightarrow> RoutingRule \<Rightarrow> (string \<times> string) option" where
  "rule_target st nodeID r =
     (if rr_OutboundGroupID r \<noteq> [] then
        (case findOutboundGroup st (rr_OutboundGroupID r) of
           None \<Rightarrow> None
         | Some g \<Rightarrow> if \<not> og_Enabled g \<or> og_NodeID g \<noteq> nodeID then None
                     else Some (''balancerTag'', outboundGroupBalancerTag (og_ID g)))
      else if rr_OutboundID r \<noteq> ''direct'' \<and> rr_OutboundID r \<noteq> ''blocked'' then
        (case findOutbound st (rr_OutboundID r) of
           None \<Rightarrow> None
         | Some x \<Rightarrow> if out_Enabled x then Some (''outboundTag'', out_Tag x) else None)
      else Some (''outboundTag'', rr_OutboundID r))"

definition rule_users :: "State \<Rightarrow> RoutingRule \<Rightarrow> string list" where
  "rule_users st r = List.map_filter (\<lambda>rid. map_option (\<lambda>u. ''gb:'' @ u_Username u) (findUser st rid)) (rr_UserIDs r)"

definition put_if :: "bool \<Rightarrow> string \<Rightarrow> json \<Rightarrow> json \<Rightarrow> json" where
  "put_if c k v j = (if c then jput k v j else j)"

text \<open>The conditions of a rule, added to the object one after the other.\<close>

definition rule_conditions :: "State \<Rightarrow> RoutingRule \<Rightarrow> json \<Rightarrow> json" where
  "rule_conditions st r j0 =
     (let j1 = put_if (length (rr_InboundIDs r) > 0) ''inboundTag''
                 (jstrs (map (\<lambda>rid. ''gb-in-'' @ rid) (rr_InboundIDs r))) j0;
          users = rule_users st r;
          j2 = put_if (length (rr_UserIDs r) > 0 \<and> length users > 0) ''user'' (jstrs users) j1;
          j3 = put_if (length (rr_Domains r) > 0) ''domain'' (jstrs (rr_Domains r)) j2;
          j4 = put_if (length (rr_IPs r) > 0) ''ip'' (jstrs (rr_IPs r)) j3;
          j5 = put_if (rr_Ports r \<noteq> []) ''port'' (JStr (rr_Ports r)) j4;
          j6 = put_if (rr_Network r \<noteq> []) ''network'' (JStr (rr_Network r)) j5
      in put_if (length (rr_Protocols r) > 0) ''protocol'' (jstrs (rr_Protocols r)) j6)"

definition routing_item :: "State \<Rightarrow> string \<Rightarrow> RoutingRule \<Rightarrow> json option" where
  "routing_item st nodeID r =
     (if rr_NodeID r \<noteq> nodeID \<or> \<not> rr_Enabled r then None
      else map_option
             (\<lambda>(key, tag). rule_conditions st r
                (jput key (JStr tag)
                   (JObj [(''type'', JStr ''field''), (''ruleTag'', JStr (''gb-route-'' @ rr_ID r))])))
             (rule_target st nodeID r))"

definition routing_items :: "State \<Rightarrow> string \<Rightarrow> json list" where
  "routing_items st nodeID =
     List.map_filter (routing_item st nodeID)
       (insertion_sort (\<lambda>a b. rr_Priority a < rr_Priority b) (st_RoutingRules st))"

definition buildXrayRouting :: "State \<Rightarrow> string \<Rightarrow> json" where
  "buildXrayRouting st nodeID =
     JObj [(''domainStrategy'', JStr ''AsIs''), (''rules'', JArr (routing_items st nodeID)),
           (''balancers'', JArr (buildXrayBalancers st nodeID))]"

section \<open>Lemmas\<close>

lemma validateRoutingReferences_None:
  "validateRoutingReferences st r = None \<longleftrightarrow>
     findNode st (rr_NodeID r) \<noteq> None \<and>
     \<not> (rr_OutboundGroupID r \<noteq> [] \<and>
          \<not> (\<exists>g. findOutboundGroup st (rr_OutboundGroupID r) = Some g \<and> og_NodeID g = rr_NodeID r \<and> og_Enabled g)) \<and>
     \<not> (rr_OutboundGroupID r = [] \<and> rr_OutboundID r \<noteq> ''direct'' \<and> rr_OutboundID r \<noteq> ''blocked'' \<and>
          \<not> (\<exists>x. findOutbound st (rr_OutboundID r) = Some x \<and> out_NodeID x = rr_NodeID r \<and> out_Enabled x)) \<and>
     \<not> (\<exists>rid \<in> set (rr_InboundIDs r). \<not> (\<exists>x. findInbound st rid = Some x \<and> in_NodeID x = rr_NodeID r)) \<and>
     \<not> (\<exists>rid \<in> set (rr_UserIDs r). findUser st rid = None)"
proof -
  have 1: "(case findOutboundGroup st (rr_OutboundGroupID r) of None \<Rightarrow> True
         | Some g \<Rightarrow> og_NodeID g \<noteq> rr_NodeID r \<or> \<not> og_Enabled g) \<longleftrightarrow>
        \<not> (\<exists>g. findOutboundGroup st (rr_OutboundGroupID r) = Some g \<and> og_NodeID g = rr_NodeID r \<and> og_Enabled g)"
    by (auto split: option.split)
  have 2: "(case findOutbound st (rr_OutboundID r) of None \<Rightarrow> True
         | Some x \<Rightarrow> out_NodeID x \<noteq> rr_NodeID r \<or> \<not> out_Enabled x) \<longleftrightarrow>
        \<not> (\<exists>x. findOutbound st (rr_OutboundID r) = Some x \<and> out_NodeID x = rr_NodeID r \<and> out_Enabled x)"
    by (auto split: option.split)
  have 3: "(case findInbound st rid of None \<Rightarrow> True | Some x \<Rightarrow> in_NodeID x \<noteq> rr_NodeID r) \<longleftrightarrow>
        \<not> (\<exists>x. findInbound st rid = Some x \<and> in_NodeID x = rr_NodeID r)" for rid
    by (auto split: option.split)
  show ?thesis
    by (simp only: validateRoutingReferences_def guard_None list_ex_iff 1 2 3 simp_thms)
qed

text \<open>Conditions leave the target alone.\<close>

lemma jget_put_if: "k \<noteq> k' \<Longrightarrow> jget k (put_if c k' v j) = jget k j"
  by (simp add: put_if_def jget_jput_gen)

lemma rule_conditions_target:
  assumes "k \<in> {''type'', ''ruleTag'', ''outboundTag'', ''balancerTag''}"
  shows "jget k (rule_conditions st r j) = jget k j"
  using assms by (auto simp: rule_conditions_def Let_def jget_put_if)

lemma routing_items_in:
  "j \<in> set (routing_items st nodeID) \<longleftrightarrow>
   (\<exists>r \<in> set (st_RoutingRules st). routing_item st nodeID r = Some j)"
  by (auto simp: routing_items_def List.map_filter_def) force

text \<open>The tags a rule of the configuration may name.\<close>

lemma routing_item_tags:
  assumes "routing_item st nodeID r = Some j"
  shows "\<exists>key tag. rule_target st nodeID r = Some (key, tag) \<and>
           jget key j = Some (JStr tag) \<and> key \<in> {''outboundTag'', ''balancerTag''} \<and>
           (\<forall>k \<in> {''outboundTag'', ''balancerTag''} - {key}. jget k j = None) \<and>
           rr_NodeID r = nodeID \<and> rr_Enabled r"
proof -
  obtain key tag where t: "rule_target st nodeID r = Some (key, tag)"
    and j: "j = rule_conditions st r (jput key (JStr tag)
              (JObj [(''type'', JStr ''field''), (''ruleTag'', JStr (''gb-route-'' @ rr_ID r))]))"
    and r: "rr_NodeID r = nodeID" "rr_Enabled r"
    using assms by (auto simp: routing_item_def split: if_splits)
  have key: "key = ''outboundTag'' \<or> key = ''balancerTag''"
    using t by (auto simp: rule_target_def split: if_splits option.splits)
  have "jget key j = Some (JStr tag)"
    using key by (elim disjE; hypsubst) (simp_all add: j rule_conditions_target insert_Diff_if)
  moreover have "\<forall>k \<in> {''outboundTag'', ''balancerTag''} - {key}. jget k j = None"
    using key by (elim disjE; hypsubst) (simp_all add: j rule_conditions_target insert_Diff_if)
  moreover have "key \<in> {''outboundTag'', ''balancerTag''}" using key by simp
  ultimately show ?thesis
    using t r by (intro exI [of _ key] exI [of _ tag] conjI) assumption+
qed

section \<open>Properties\<close>

text \<open>
  A normalised rule names exactly one target, an outbound or a group, and a network Xray
  knows, and normalising it again changes nothing.
\<close>

lemma normalize_rule_fixpoint:
  assumes "normalizeRoutingRule r0 = Inr r"
  shows "rr_Name r \<noteq> [] \<and> rr_NodeID r \<noteq> [] \<and> (rr_OutboundID r = [] \<longleftrightarrow> rr_OutboundGroupID r \<noteq> []) \<and>
         rr_Network r \<in> {[], ''tcp'', ''udp'', ''tcp,udp''} \<and> normalizeRoutingRule r = Inr r"
proof -
  note r = assms [unfolded normalizeRoutingRule_def Let_def guard_Inr sum.inject]
  have const: "ToLower (TrimSpace []) = []" "ToLower (TrimSpace ''tcp'') = ''tcp''"
    "ToLower (TrimSpace ''udp'') = ''udp''" "ToLower (TrimSpace ''tcp,udp'') = ''tcp,udp''"
    by code_simp+
  show ?thesis
    using r by (elim conjE, hypsubst) (simp add: normalizeRoutingRule_def Let_def comp_def)
qed

definition sample_rule :: RoutingRule where
  "sample_rule =
     \<lparr>rr_ID = ''r1'', rr_Name = ''all'', rr_NodeID = ''n1'', rr_Priority = 10, rr_Enabled = True,
      rr_InboundIDs = [], rr_UserIDs = [], rr_Domains = [], rr_IPs = [], rr_Ports = [],
      rr_Network = ''tcp'', rr_Protocols = [], rr_OutboundID = [], rr_OutboundGroupID = ''g1'',
      rr_CreatedAt = 1, rr_UpdatedAt = 1\<rparr>"

lemma sample_rule_normalized:
  "normalizeRoutingRule (sample_rule\<lparr>rr_Network := '' TCP ''\<rparr>) = Inr sample_rule"
  by code_simp

lemma normalize_rule_fixpoint_witness: "normalizeRoutingRule sample_rule = Inr sample_rule"
  using normalize_rule_fixpoint [OF sample_rule_normalized] by blast

definition sample_routed :: State where
  "sample_routed = sample_net\<lparr>st_RoutingRules := [sample_rule]\<rparr>"

text \<open>
  C22: the configuration has no dangling target: when the node's rules and groups pass their checks
  and its outbounds can be built, every emitted rule names the tag of one of the emitted outbounds
  or of one of the emitted balancers.
\<close>

theorem routing_targets_resolve:
  assumes "buildXrayOutbounds env st nodeID = Inr outs" "good_tags st"
    "\<forall>r \<in> set (st_RoutingRules st). rr_NodeID r = nodeID \<and> rr_Enabled r \<longrightarrow> validateRoutingReferences st r = None"
    "\<forall>g \<in> set (active_groups st nodeID). validateOutboundGroupSpec st g = None"
    "j \<in> set (routing_items st nodeID)"
  shows "(\<exists>t \<in> item_tag ` set outs. jget ''outboundTag'' j = Some (JStr t)) \<or>
         (\<exists>t \<in> item_tag ` set (buildXrayBalancers st nodeID). jget ''balancerTag'' j = Some (JStr t))"
proof -
  obtain r where r: "r \<in> set (st_RoutingRules st)" "routing_item st nodeID r = Some j"
    using assms(5) by (auto simp: routing_items_in)
  obtain key tag where t: "rule_target st nodeID r = Some (key, tag)" "jget key j = Some (JStr tag)"
    "rr_NodeID r = nodeID" "rr_Enabled r"
    using routing_item_tags [OF r(2)] by metis
  note valid = assms(3) [rule_format, OF r(1) conjI [OF t(3,4)], unfolded validateRoutingReferences_None]
  show ?thesis
  proof (cases "rr_OutboundGroupID r = []")
    case False
    then obtain g where g: "findOutboundGroup st (rr_OutboundGroupID r) = Some g"
      "og_NodeID g = rr_NodeID r" "og_Enabled g" using valid by metis
    have key: "key = ''balancerTag''" "tag = outboundGroupBalancerTag (og_ID g)"
      using t(1,3) g False by (simp_all add: rule_target_def)
    have "g \<in> set (active_groups st nodeID)"
      using g t(3) by (auto simp: active_groups_def findOutboundGroup_def dest: find_row_Some)
    then have "balancer_item st g \<in> set (buildXrayBalancers st nodeID)"
      using assms(4) by (simp add: buildXrayBalancers_def)
    moreover have "item_tag (balancer_item st g) = tag"
      by (simp add: key item_tag_def jget_str_def balancer_item_def)
    ultimately show ?thesis using t(2) key by (metis imageI)
  next
    case True
    show ?thesis
    proof (cases "rr_OutboundID r = ''direct'' \<or> rr_OutboundID r = ''blocked''")
      case True
      then have "key = ''outboundTag''" "tag = rr_OutboundID r"
        using t(1) \<open>rr_OutboundGroupID r = []\<close> by (auto simp: rule_target_def)
      with True t(2) built_in_tags [OF assms(1)] show ?thesis by (metis insert_subset)
    next
      case False
      then obtain x where x: "findOutbound st (rr_OutboundID r) = Some x"
        "out_NodeID x = rr_NodeID r" "out_Enabled x"
        using valid True by metis
      have "key = ''outboundTag''" "tag = out_Tag x"
        using t(1) True False x by (simp_all add: rule_target_def)
      moreover have "out_Tag x \<in> item_tag ` set outs"
        using outbound_tag_present [OF assms(1,2)] findOutbound_in [OF x(1)] x t(3) by blast
      ultimately show ?thesis using t(2) by metis
    qed
  qed
qed

lemma sample_good_tags: "good_tags sample_routed"
proof -
  have "TrimSpace (out_Tag sample_outbound) = out_Tag sample_outbound \<and> out_Tag sample_outbound \<noteq> []"
    by code_simp
  then show ?thesis by (simp add: good_tags_def sample_routed_def sample_net_def)
qed

theorem routing_targets_resolve_witness:
  "\<exists>outs. buildXrayOutbounds sample_env sample_routed ''n1'' = Inr outs \<and>
     list_all (\<lambda>j.
        (\<exists>t \<in> item_tag ` set outs. jget ''outboundTag'' j = Some (JStr t)) \<or>
        (\<exists>t \<in> item_tag ` set (buildXrayBalancers sample_routed ''n1'').
            jget ''balancerTag'' j = Some (JStr t))) (routing_items sample_routed ''n1'')"
proof -
  have "\<not> isl (buildXrayOutbounds sample_env sample_routed ''n1'')" by code_simp
  then obtain outs where o: "buildXrayOutbounds sample_env sample_routed ''n1'' = Inr outs"
    by (cases "buildXrayOutbounds sample_env sample_routed ''n1''") auto
  have "\<forall>r \<in> set (st_RoutingRules sample_routed). rr_NodeID r = ''n1'' \<and> rr_Enabled r \<longrightarrow>
      validateRoutingReferences sample_routed r = None" by code_simp
  moreover have "\<forall>g \<in> set (active_groups sample_routed ''n1'').
      validateOutboundGroupSpec sample_routed g = None" by code_simp
  ultimately show ?thesis
    using o routing_targets_resolve [OF o sample_good_tags] unfolding list_all_iff by blast
qed

text \<open>
  The checks on groups include the node's maintenance flag, the checks on rules do not: with
  the node in maintenance the configuration has no balancer at all, while an enabled rule that
  targets an enabled group of the node is still emitted, with the tag of the missing balancer.
\<close>

lemma maintenance_dangling_balancer:
  assumes "findNode st nodeID = Some node" "n_Maintenance node"
    "r \<in> set (st_RoutingRules st)" "rr_NodeID r = nodeID" "rr_Enabled r"
    "findOutboundGroup st (rr_OutboundGroupID r) = Some g" "og_Enabled g" "og_NodeID g = nodeID"
    "rr_OutboundGroupID r \<noteq> []"
  shows "buildXrayBalancers st nodeID = [] \<and>
         (\<exists>j \<in> set (routing_items st nodeID).
            jget ''balancerTag'' j = Some (JStr (outboundGroupBalancerTag (og_ID g))))"
proof -
  have "validateOutboundGroupSpec st h \<noteq> None" if "h \<in> set (active_groups st nodeID)" for h
    using that assms(1,2) by (simp add: active_groups_def validateOutboundGroupSpec_def)
  then have "buildXrayBalancers st nodeID = []"
    by (simp add: buildXrayBalancers_def filter_empty_conv)
  moreover have "rule_target st nodeID r = Some (''balancerTag'', outboundGroupBalancerTag (og_ID g))"
    using assms by (simp add: rule_target_def)
  then obtain j where "routing_item st nodeID r = Some j"
    using assms(4,5) by (simp add: routing_item_def)
  then have "j \<in> set (routing_items st nodeID)"
    "jget ''balancerTag'' j = Some (JStr (outboundGroupBalancerTag (og_ID g)))"
    using routing_item_tags [of st nodeID r j] assms(3)
      \<open>rule_target st nodeID r = _\<close> by (auto simp: routing_items_in)
  ultimately show ?thesis by blast
qed

lemma maintenance_dangling_balancer_witness:
  "buildXrayBalancers (sample_routed\<lparr>st_Nodes := [sample_node\<lparr>n_Maintenance := True\<rparr>]\<rparr>) ''n1'' = []"
proof -
  let ?st = "sample_routed\<lparr>st_Nodes := [sample_node\<lparr>n_Maintenance := True\<rparr>]\<rparr>"
  have "findNode ?st ''n1'' = Some (sample_node\<lparr>n_Maintenance := True\<rparr>)"
    by (simp add: findNode_def find_row_def sample_node_def)
  moreover have "findOutboundGroup ?st (rr_OutboundGroupID sample_rule) = Some sample_group"
    by (simp add: findOutboundGroup_def find_row_def sample_routed_def sample_net_def sample_group_def
        sample_rule_def)
  ultimately show ?thesis
    using maintenance_dangling_balancer [of ?st "''n1''" "sample_node\<lparr>n_Maintenance := True\<rparr>" sample_rule sample_group]
    by (simp add: sample_routed_def) (simp add: sample_rule_def sample_group_def)
qed

end
