(* ===== verification/Health.thy ===== *)
theory Health
  imports Routing
begin

text \<open>
  Outbound health, src/internal/panel/outbound_health.go: the local SOCKS ports that probe each
  outbound of a node, their part of the Xray configuration, what a probe's result does to an
  outbound, and the two background operations (the batch of probes and the deployment of the
  health runtime). The goroutines of a batch run their probes in an order given by an argument.
\<close>

definition outboundHealthPortMin :: int where "outboundHealthPortMin = 30000"
definition outboundHealthPortMax :: int where "outboundHealthPortMax = 39999"

lemmas port_defs = outboundHealthPortMin_def outboundHealthPortMax_def

record outboundHealthProbe =
  hp_OutboundID :: string
  hp_InboundTag :: string
  hp_OutboundTag :: string
  hp_Port :: int

record outboundProbeResponse =
  pr_Healthy :: bool
  pr_LatencyMS :: int
  pr_CheckedAt :: time
  pr_Target :: string
  pr_Error :: string

section \<open>Probe ports\<close>

definition usedPorts :: "State \<Rightarrow> string \<Rightarrow> int list" where
  "usedPorts st nodeID =
     map in_Port (filter (\<lambda>x. in_NodeID x = nodeID \<and> in_Enabled x) (st_Inbounds st))"

text \<open>The candidates; IDs are distinct, so every sort puts them in the same order.\<close>

definition probe_candidates :: "State \<Rightarrow> string \<Rightarrow> Outbound list" where
  "probe_candidates st nodeID =
     insertion_sort (\<lambda>a b. string_less (out_ID a) (out_ID b))
       (filter (\<lambda>x. \<not> (out_NodeID x \<noteq> nodeID \<or> \<not> out_Enabled x \<or> out_Protocol x = ''blackhole''))
          (st_Outbounds st))"

function next_free :: "int list \<Rightarrow> int \<Rightarrow> int" where
  "next_free used n =
     (if n \<le> outboundHealthPortMax \<and> n \<in> set used then next_free used (n + 1) else n)"
  by auto
termination
  by (relation "measure (\<lambda>(used, n). nat (outboundHealthPortMax + 1 - n))") auto

declare next_free.simps [simp del]

fun assign_ports :: "int list \<Rightarrow> int \<Rightarrow> Outbound list \<Rightarrow> go_error + outboundHealthProbe list" where
  "assign_ports used n [] = Inr []"
| "assign_ports used n (x # xs) =
     (let p = next_free used n in
      if p > outboundHealthPortMax
      then Inl (Plain ''no free local port remains for outbound health probes'')
      else case assign_ports (p # used) (p + 1) xs of
             Inl e \<Rightarrow> Inl e
           | Inr probes \<Rightarrow>
               Inr (\<lparr>hp_OutboundID = out_ID x, hp_InboundTag = ''gb-health-'' @ out_ID x,
                     hp_OutboundTag = out_Tag x, hp_Port = p\<rparr> # probes))"

definition buildOutboundHealthProbes :: "State \<Rightarrow> string \<Rightarrow> go_error + outboundHealthProbe list" where
  "buildOutboundHealthProbes st nodeID =
     assign_ports (usedPorts st nodeID) outboundHealthPortMin (probe_candidates st nodeID)"

definition probe_inbound :: "outboundHealthProbe \<Rightarrow> json" where
  "probe_inbound p =
     JObj [(''tag'', JStr (hp_InboundTag p)), (''listen'', JStr ''127.0.0.1''),
           (''port'', JInt (hp_Port p)), (''protocol'', JStr ''socks''),
           (''settings'', JObj [(''auth'', JStr ''noauth''), (''udp'', JBool False)])]"

definition probe_rule :: "outboundHealthProbe \<Rightarrow> json" where
  "probe_rule p =
     JObj [(''type'', JStr ''field''), (''inboundTag'', jstrs [hp_InboundTag p]),
           (''outboundTag'', JStr (hp_OutboundTag p)),
           (''ruleTag'', JStr (''gb-health-route-'' @ hp_OutboundID p))]"

definition buildOutboundHealthXray :: "State \<Rightarrow> string \<Rightarrow> go_error + json list \<times> json list" where
  "buildOutboundHealthXray st nodeID =
     (case buildOutboundHealthProbes st nodeID of
        Inl e \<Rightarrow> Inl e
      | Inr probes \<Rightarrow> Inr (map probe_inbound probes, map probe_rule probes))"

definition outboundHealthProbeFor :: "State \<Rightarrow> string \<Rightarrow> string \<Rightarrow> go_error + outboundHealthProbe" where
  "outboundHealthProbeFor st nodeID outboundID =
     (case buildOutboundHealthProbes st nodeID of
        Inl e \<Rightarrow> Inl e
      | Inr probes \<Rightarrow>
          (case List.find (\<lambda>p. hp_OutboundID p = outboundID) probes of
             Some p \<Rightarrow> Inr p
           | None \<Rightarrow> Inl (Plain ''outbound is not health-probeable'')))"

section \<open>Results\<close>

definition boundedOutboundHealthError :: "string \<Rightarrow> string" where
  "boundedOutboundHealthError msg = (if length msg > 512 then take 512 msg else msg)"

definition applyOutboundHealthResult :: "time \<Rightarrow> outboundProbeResponse \<Rightarrow> Outbound \<Rightarrow> Outbound" where
  "applyOutboundHealthResult now r x =
     (let checkedAt = (if IsZero (pr_CheckedAt r) then now else pr_CheckedAt r);
          x1 = x\<lparr>out_HealthLastCheckedAt := Some checkedAt, out_HealthTarget := pr_Target r\<rparr>
      in if pr_Healthy r
         then x1\<lparr>out_HealthStatus := ''healthy'', out_HealthLatencyMS := pr_LatencyMS r,
                 out_HealthLastError := [], out_HealthFailureCount := 0,
                 out_HealthLastSuccessAt := Some checkedAt\<rparr>
         else x1\<lparr>out_HealthStatus := ''unhealthy'', out_HealthLatencyMS := 0,
                 out_HealthLastError := boundedOutboundHealthError (pr_Error r),
                 out_HealthFailureCount := int64 (out_HealthFailureCount x1 + 1)\<rparr>)"

definition jtime :: "time option \<Rightarrow> json" where
  "jtime t = (case t of None \<Rightarrow> JNull | Some i \<Rightarrow> JInt i)"

definition outboundHealthView :: "Outbound \<Rightarrow> json" where
  "outboundHealthView x =
     JObj [(''outbound_id'', JStr (out_ID x)), (''node_id'', JStr (out_NodeID x)),
           (''tag'', JStr (out_Tag x)), (''protocol'', JStr (out_Protocol x)),
           (''enabled'', JBool (out_Enabled x)),
           (''status'', JStr (normalizeOutboundHealthStatus (out_HealthStatus x))),
           (''latency_ms'', JInt (out_HealthLatencyMS x)),
           (''last_checked_at'', jtime (out_HealthLastCheckedAt x)),
           (''last_success_at'', jtime (out_HealthLastSuccessAt x)),
           (''last_error'', JStr (out_HealthLastError x)),
           (''failure_count'', JInt (out_HealthFailureCount x)),
           (''target'', JStr (out_HealthTarget x))]"

section \<open>One probe\<close>

text \<open>The part of probeOutboundHealth that reads the snapshot: the node and the port to ask.\<close>

definition probe_snapshot :: "State \<Rightarrow> string \<Rightarrow> go_error + Node \<times> int" where
  "probe_snapshot st rid =
     (case findOutbound st rid of
        None \<Rightarrow> Inl (Plain ''outbound not found'')
      | Some out \<Rightarrow>
          if \<not> out_Enabled out then Inl (Plain ''outbound is disabled'')
          else if out_Protocol out = ''blackhole''
            then Inl (Plain ''blackhole outbound is not health-probeable'')
          else case findNode st (out_NodeID out) of
                 None \<Rightarrow> Inl (Plain ''node not found'')
               | Some node \<Rightarrow>
                   if \<not> n_Enabled node then Inl (Plain ''node is disabled'')
                   else if n_Maintenance node then Inl (Plain ''node is in maintenance'')
                   else case outboundHealthProbeFor st (out_NodeID out) (out_ID out) of
                          Inl e \<Rightarrow> Inl e
                        | Inr probe \<Rightarrow> Inr (node, hp_Port probe))"

text \<open>The decoder of the agent's reply is an argument; an empty reply is the zero value.\<close>

definition zero_probe :: outboundProbeResponse where
  "zero_probe = \<lparr>pr_Healthy = False, pr_LatencyMS = 0, pr_CheckedAt = 0, pr_Target = [], pr_Error = []\<rparr>"

definition probe_result ::
  "'w env \<Rightarrow> (string \<Rightarrow> go_error + outboundProbeResponse) \<Rightarrow> Node \<Rightarrow> int \<Rightarrow> 'w Store \<Rightarrow>
   outboundProbeResponse \<times> 'w Store" where
  "probe_result env decode node port s =
     (case agentJSON env node ''POST'' ''/v1/xray/outbound-probe''
             (Some (JObj [(''socks_port'', JInt port)])) (Some decode) zero_probe s of
        (Inr r, s1) \<Rightarrow> (r, s1)
      | (Inl e, s1) \<Rightarrow>
          (case effect (ev_Now env) s1 of
             (now, s2) \<Rightarrow>
               (\<lparr>pr_Healthy = False, pr_LatencyMS = 0, pr_CheckedAt = now, pr_Target = [],
                 pr_Error = ''agent probe: '' @ err_msg e\<rparr>, s2)))"

definition store_health ::
  "time \<Rightarrow> string \<Rightarrow> outboundProbeResponse \<Rightarrow> State \<Rightarrow> go_error + Outbound \<times> State" where
  "store_health now rid r st =
     (case findOutbound st rid of
        None \<Rightarrow> Inl (Plain ''outbound disappeared while storing health result'')
      | Some x \<Rightarrow> Inr (applyOutboundHealthResult now r x,
                      updOutbound rid (applyOutboundHealthResult now r) st))"

definition probeOutboundHealth ::
  "'w env \<Rightarrow> (string \<Rightarrow> go_error + outboundProbeResponse) \<Rightarrow> string \<Rightarrow> 'w Store \<Rightarrow>
   (go_error + Outbound) \<times> 'w Store" where
  "probeOutboundHealth env decode rid s =
     (case probe_snapshot (cloneState (store_st s)) rid of
        Inl e \<Rightarrow> (Inl e, s)
      | Inr (node, port) \<Rightarrow>
          (case probe_result env decode node port s of
             (r, s1) \<Rightarrow>
               (case effect (ev_Now env) s1 of
                  (now, s2) \<Rightarrow> Update (ev_save env) (store_health now rid r) s2)))"

section \<open>The background operations\<close>

definition probeable :: "State \<Rightarrow> Outbound \<Rightarrow> bool" where
  "probeable st x \<longleftrightarrow>
     \<not> (\<not> out_Enabled x \<or> out_Protocol x = ''blackhole'') \<and>
     (case findNode st (out_NodeID x) of
        None \<Rightarrow> False | Some n \<Rightarrow> n_Enabled n \<and> \<not> n_Maintenance n)"

definition probe_ids :: "State \<Rightarrow> string list" where
  "probe_ids st = insertion_sort string_less (map out_ID (filter (probeable st) (st_Outbounds st)))"

definition probeAllOutboundHealth ::
  "'w env \<Rightarrow> (string \<Rightarrow> go_error + outboundProbeResponse) \<Rightarrow> (string list \<Rightarrow> string list) \<Rightarrow>
   'w Store \<Rightarrow> 'w Store" where
  "probeAllOutboundHealth env decode schedule s =
     fold (\<lambda>rid s. snd (probeOutboundHealth env decode rid s))
       (schedule (probe_ids (cloneState (store_st s)))) s"

definition health_nodes :: "State \<Rightarrow> string list" where
  "health_nodes st =
     insertion_sort string_less (remdups (map out_NodeID (filter (probeable st) (st_Outbounds st))))"

definition mark_unhealthy :: "string \<Rightarrow> go_error \<Rightarrow> time \<Rightarrow> Outbound \<Rightarrow> Outbound" where
  "mark_unhealthy nodeID e now x =
     (if out_NodeID x = nodeID \<and> out_Enabled x \<and> out_Protocol x \<noteq> ''blackhole''
      then x\<lparr>out_HealthStatus := ''unhealthy'',
             out_HealthLastError := boundedOutboundHealthError (''health runtime deploy: '' @ err_msg e),
             out_HealthFailureCount := int64 (out_HealthFailureCount x + 1),
             out_HealthLastCheckedAt := Some now\<rparr>
      else x)"

definition ensure_node ::
  "'w env \<Rightarrow> 'w deployer \<Rightarrow> string \<Rightarrow> 'w Store \<Rightarrow> 'w Store" where
  "ensure_node env deploy nodeID s =
     (case deploy nodeID s of
        (None, s1) \<Rightarrow> s1
      | (Some e, s1) \<Rightarrow>
          (case effect (ev_Now env) s1 of
             (now, s2) \<Rightarrow>
               UpdateST (ev_save env)
                 (\<lambda>st. st\<lparr>st_Outbounds := map (mark_unhealthy nodeID e now) (st_Outbounds st)\<rparr>) s2))"

definition ensureOutboundHealthRuntime :: "'w env \<Rightarrow> 'w deployer \<Rightarrow> 'w Store \<Rightarrow> 'w Store" where
  "ensureOutboundHealthRuntime env deploy s =
     fold (ensure_node env deploy) (health_nodes (cloneState (store_st s))) s"

section \<open>Lemmas\<close>

lemma next_free_result:
  assumes "q = next_free used n"
  shows "n \<le> q \<and> (q \<le> outboundHealthPortMax \<longrightarrow> q \<notin> set used) \<and> (\<forall>p. n \<le> p \<and> p < q \<longrightarrow> p \<in> set used) \<and>
         (n \<le> outboundHealthPortMax + 1 \<longrightarrow> q \<le> outboundHealthPortMax + 1)"
  using assms
proof (induction used n arbitrary: q rule: next_free.induct)
  case (1 used n)
  show ?case
  proof (cases "n \<le> outboundHealthPortMax \<and> n \<in> set used")
    case True
    then have "q = next_free used (n + 1)" using "1.prems" by (simp add: next_free.simps [of used n])
    from "1.IH" [OF True this] True show ?thesis by (smt (verit))
  next
    case False
    then have "q = n" using "1.prems" by (metis next_free.simps)
    with False show ?thesis by auto
  qed
qed

lemma assign_ports_Inr:
  assumes "assign_ports used n xs = Inr ps"
  shows "map hp_OutboundID ps = map out_ID xs \<and> map hp_OutboundTag ps = map out_Tag xs \<and>
         (\<forall>p \<in> set ps. n \<le> hp_Port p \<and> hp_Port p \<le> outboundHealthPortMax \<and> hp_Port p \<notin> set used \<and>
            hp_InboundTag p = ''gb-health-'' @ hp_OutboundID p) \<and>
         sorted_wrt (<) (map hp_Port ps)"
  using assms
proof (induction xs arbitrary: used n ps)
  case (Cons x xs)
  let ?p = "next_free used n"
  obtain rest where *: "?p \<le> outboundHealthPortMax" "assign_ports (?p # used) (?p + 1) xs = Inr rest"
    "ps = \<lparr>hp_OutboundID = out_ID x, hp_InboundTag = ''gb-health-'' @ out_ID x,
           hp_OutboundTag = out_Tag x, hp_Port = ?p\<rparr> # rest"
    using Cons.prems by (auto simp: Let_def split: if_splits sum.splits)
  note IH = Cons.IH [OF *(2)]
  have "n \<le> ?p" "?p \<notin> set used" using next_free_result [OF refl, where used = used and n = n] *(1) by auto
  moreover have "\<forall>q \<in> set (map hp_Port rest). ?p < q" using IH by auto
  ultimately show ?case using IH *(1) by (auto simp: *(3))
qed simp

text \<open>The ports that are left from n on; the assignment fails only when there are too few.\<close>

definition free_from :: "int list \<Rightarrow> int \<Rightarrow> int set" where
  "free_from used n = {n..outboundHealthPortMax} - set used"

lemma finite_free_from [simp]: "finite (free_from used n)"
  by (simp add: free_from_def)

lemma assign_ports_ok:
  "(\<exists>ps. assign_ports used n xs = Inr ps) \<longleftrightarrow> length xs \<le> card (free_from used n)"
proof (induction xs arbitrary: used n)
  case (Cons x xs)
  let ?p = "next_free used n"
  note p = next_free_result [OF refl, where used = used and n = n]
  show ?case
  proof (cases "?p \<le> outboundHealthPortMax")
    case False
    then have "free_from used n = {}" using p by (auto simp: free_from_def)
    with False show ?thesis by (simp add: Let_def)
  next
    case True
    then have "free_from used n = insert ?p (free_from (?p # used) (?p + 1))"
      using p by (auto simp: free_from_def)
    moreover have "?p \<notin> free_from (?p # used) (?p + 1)" by (simp add: free_from_def)
    ultimately have card: "card (free_from used n) = Suc (card (free_from (?p # used) (?p + 1)))"
      by simp
    have "(\<exists>ps. assign_ports used n (x # xs) = Inr ps) \<longleftrightarrow>
        (\<exists>ps. assign_ports (?p # used) (?p + 1) xs = Inr ps)"
      using True by (auto simp: Let_def split: sum.splits)
    then show ?thesis by (simp only: Cons.IH card) simp
  qed
qed simp

lemma health_view_fields:
  "out_ID (applyOutboundHealthResult now r x) = out_ID x"
  by (simp add: applyOutboundHealthResult_def Let_def)

section \<open>Properties\<close>

text \<open>
  When probe ports can be assigned, there is one probe per probeable outbound of the node, in
  the order of their IDs, and the ports are pairwise distinct, in the reserved range, and not the
  port of an enabled inbound of the node.
\<close>

lemma health_ports_sound:
  assumes "buildOutboundHealthProbes st nodeID = Inr ps"
  shows "map hp_OutboundID ps = map out_ID (probe_candidates st nodeID) \<and>
         set (probe_candidates st nodeID) =
           {x \<in> set (st_Outbounds st). out_NodeID x = nodeID \<and> out_Enabled x \<and> out_Protocol x \<noteq> ''blackhole''} \<and>
         distinct (map hp_Port ps) \<and>
         (\<forall>p \<in> set ps. 30000 \<le> hp_Port p \<and> hp_Port p \<le> 39999 \<and>
            (\<forall>x \<in> set (st_Inbounds st). in_NodeID x = nodeID \<and> in_Enabled x \<longrightarrow> in_Port x \<noteq> hp_Port p))"
proof -
  note a = assign_ports_Inr [OF assms [unfolded buildOutboundHealthProbes_def]]
  then have "distinct (map hp_Port ps)" by (simp add: strict_sorted_iff)
  moreover have "hp_Port p \<noteq> in_Port x"
    if "p \<in> set ps" "x \<in> set (st_Inbounds st)" "in_NodeID x = nodeID" "in_Enabled x" for p x
    using a that by (fastforce simp: usedPorts_def)
  ultimately show ?thesis using a by (fastforce simp: probe_candidates_def port_defs)
qed

lemma health_ports_sound_witness:
  "\<exists>ps. buildOutboundHealthProbes sample_routed ''n1'' = Inr ps \<and> map hp_OutboundID ps = [''o1'']"
proof -
  have "\<not> isl (buildOutboundHealthProbes sample_routed ''n1'')" by code_simp
  then obtain ps where p: "buildOutboundHealthProbes sample_routed ''n1'' = Inr ps"
    by (cases "buildOutboundHealthProbes sample_routed ''n1''") auto
  have "map out_ID (probe_candidates sample_routed ''n1'') = [''o1'']" by code_simp
  with p health_ports_sound [OF p] show ?thesis by auto
qed

text \<open>
  C37: the assignment fails exactly when the node has more probeable outbounds than free ports in
  the reserved range: the search skips every taken port and gives up no earlier.
\<close>

theorem health_ports_complete:
  "(\<exists>ps. buildOutboundHealthProbes st nodeID = Inr ps) \<longleftrightarrow>
     length (probe_candidates st nodeID) \<le> card ({30000..39999} - set (usedPorts st nodeID))"
  using assign_ports_ok by (simp add: buildOutboundHealthProbes_def free_from_def port_defs)

text \<open>
  The search looks at the ports of inbounds only: a Tor outbound on port 30000, which the API
  accepts, that is first in the order of IDs is given its own SOCKS port as probe port, so two
  listeners of the node claim it.
\<close>

lemma health_port_collides_with_tor:
  assumes "buildOutboundHealthProbes st nodeID = Inr ps" "probe_candidates st nodeID = x # xs"
    "out_Protocol x = ''tor''" "out_TorSOCKSPort x = 30000" "30000 \<notin> set (usedPorts st nodeID)"
  shows "hp_OutboundID (hd ps) = out_ID x \<and> hp_Port (hd ps) = out_TorSOCKSPort x"
proof -
  have "next_free (usedPorts st nodeID) 30000 = 30000"
    using assms(5) by (simp add: next_free.simps)
  with assms(1,2,4) show ?thesis
    by (auto simp: buildOutboundHealthProbes_def port_defs split: sum.splits)
qed

lemma health_port_collides_with_tor_witness:
  "\<exists>ps. buildOutboundHealthProbes
     (sample_net\<lparr>st_Outbounds := [sample_outbound\<lparr>out_Protocol := ''tor'', out_TorSOCKSPort := 30000\<rparr>]\<rparr>)
     ''n1'' = Inr ps \<and> hp_Port (hd ps) = 30000"
proof -
  let ?x = "sample_outbound\<lparr>out_Protocol := ''tor'', out_TorSOCKSPort := 30000\<rparr>"
  let ?st = "sample_net\<lparr>st_Outbounds := [?x]\<rparr>"
  have "\<not> isl (buildOutboundHealthProbes ?st ''n1'')" by code_simp
  then obtain ps where p: "buildOutboundHealthProbes ?st ''n1'' = Inr ps"
    by (cases "buildOutboundHealthProbes ?st ''n1''") auto
  have c: "probe_candidates ?st ''n1'' = [?x]"
    by (simp add: probe_candidates_def insertion_sort_def sample_net_def sample_outbound_def)
  have u: "30000 \<notin> set (usedPorts ?st ''n1'')"
    by (simp add: usedPorts_def sample_net_def emptyState_def)
  from health_port_collides_with_tor [OF p c _ _ u] p show ?thesis by auto
qed

end
