(* ===== verification/Xray.thy ===== *)
theory Xray
  imports Health
begin

text \<open>
  The Xray runtime of a node, src/internal/panel/xray.go and outbound_native.go: the keys and
  passwords generated before a deployment, the whole configuration (buildXrayConfig), the
  deployment of a node (deployXrayNode, and deployOutboundNode with the native WireGuard, Tor and
  OpenVPN outbounds before it), and the inbound status it leaves. Two interpretations of
  deploy_frame say what a deployment does not touch: everything but the inbounds, and of the
  inbounds everything but their status and generated secrets.
\<close>

section \<open>Generated secrets\<close>

definition reality_targets :: "State \<Rightarrow> string \<Rightarrow> string list" where
  "reality_targets st nodeID =
     map in_ID (filter (\<lambda>x. in_NodeID x = nodeID \<and> in_Enabled x \<and> in_TLSMode x = ''reality'' \<and>
                            in_RealityPrivateKeyEnc x = []) (st_Inbounds st))"

definition store_reality ::
  "string \<Rightarrow> string \<Rightarrow> string \<Rightarrow> State \<Rightarrow> go_error + State" where
  "store_reality rid enc pub st =
     (case findInbound st rid of
        None \<Rightarrow> Inl (Plain ''inbound disappeared while generating REALITY keys'')
      | Some x \<Rightarrow> Inr (updInbound rid (\<lambda>x. x\<lparr>in_RealityPrivateKeyEnc := enc, in_RealityPublicKey := pub\<rparr>) st))"

fun reality_loop :: "'w env \<Rightarrow> Node \<Rightarrow> string list \<Rightarrow> 'w Store \<Rightarrow> 'w tx" where
  "reality_loop env node [] s = (None, s)"
| "reality_loop env node (rid # rids) s =
     (case agentJSON env node ''POST'' ''/v1/xray/x25519'' None (Some (ev_DecodeKeys env))
             \<lparr>rk_PrivateKey = [], rk_PublicKey = []\<rparr> s of
        (Inl e, s1) \<Rightarrow> (Some (Plain (''generate REALITY key: '' @ err_msg e)), s1)
      | (Inr keys, s1) \<Rightarrow>
          if rk_PrivateKey keys = [] \<or> rk_PublicKey keys = []
          then (Some (Plain ''agent returned incomplete REALITY keypair''), s1)
          else case effect (ev_Seal env (rk_PrivateKey keys)) s1 of
                 (Inl e, s2) \<Rightarrow> (Some e, s2)
               | (Inr enc, s2) \<Rightarrow>
                   (case UpdateE (ev_save env) (store_reality rid enc (rk_PublicKey keys)) s2 of
                      (Some e, s3) \<Rightarrow> (Some e, s3)
                    | (None, s3) \<Rightarrow> reality_loop env node rids s3))"

definition ensureRealityKeys :: "'w env \<Rightarrow> string \<Rightarrow> 'w Store \<Rightarrow> 'w tx" where
  "ensureRealityKeys env nodeID s =
     (let st = cloneState (store_st s) in
      case findNode st nodeID of
        None \<Rightarrow> (Some (Plain ''node not found''), s)
      | Some node \<Rightarrow> reality_loop env node (reality_targets st nodeID) s)"

definition shadowsocks_targets :: "State \<Rightarrow> string \<Rightarrow> string list" where
  "shadowsocks_targets st nodeID =
     map in_ID (filter (\<lambda>x. in_NodeID x = nodeID \<and> in_Enabled x \<and> in_Protocol x = ''shadowsocks'' \<and>
                            in_ShadowsocksServerPasswordEnc x = []) (st_Inbounds st))"

definition store_shadowsocks :: "string \<Rightarrow> string \<Rightarrow> State \<Rightarrow> go_error + State" where
  "store_shadowsocks rid enc st =
     (case findInbound st rid of
        None \<Rightarrow> Inl (Plain ''inbound disappeared while generating Shadowsocks server password'')
      | Some x \<Rightarrow>
          Inr (updInbound rid
                 (\<lambda>x. if in_ShadowsocksServerPasswordEnc x = []
                      then x\<lparr>in_ShadowsocksServerPasswordEnc := enc\<rparr> else x) st))"

fun shadowsocks_loop :: "'w env \<Rightarrow> string list \<Rightarrow> 'w Store \<Rightarrow> 'w tx" where
  "shadowsocks_loop env [] s = (None, s)"
| "shadowsocks_loop env (rid # rids) s =
     (case randomCredential env 32 s of
        (cred, s1) \<Rightarrow>
          (case effect (ev_Seal env cred) s1 of
             (Inl e, s2) \<Rightarrow> (Some e, s2)
           | (Inr enc, s2) \<Rightarrow>
               (case UpdateE (ev_save env) (store_shadowsocks rid enc) s2 of
                  (Some e, s3) \<Rightarrow> (Some e, s3)
                | (None, s3) \<Rightarrow> shadowsocks_loop env rids s3)))"

definition ensureShadowsocksServerPasswords :: "'w env \<Rightarrow> string \<Rightarrow> 'w Store \<Rightarrow> 'w tx" where
  "ensureShadowsocksServerPasswords env nodeID s =
     (let st = cloneState (store_st s) in
      if findNode st nodeID = None then (Some (Plain ''node not found''), s)
      else shadowsocks_loop env (shadowsocks_targets st nodeID) s)"

section \<open>The configuration\<close>

definition client_item :: "Inbound \<Rightarrow> string \<Rightarrow> string \<Rightarrow> json list" where
  "client_item x cred email =
     (if in_Protocol x = ''vless'' then
        (let item = JObj [(''id'', JStr cred), (''email'', JStr email)]
         in [if in_TLSMode x = ''reality'' \<and> in_Transport x = ''tcp''
             then jput ''flow'' (JStr ''xtls-rprx-vision'') item else item])
      else if in_Protocol x = ''vmess'' then [JObj [(''id'', JStr cred), (''email'', JStr email)]]
      else if in_Protocol x = ''trojan'' then [JObj [(''password'', JStr cred), (''email'', JStr email)]]
      else if in_Protocol x = ''shadowsocks'' then
        [JObj [(''password'', JStr cred),
               (''method'', JStr (defaultString (in_ShadowsocksMethod x) ''aes-128-gcm'')),
               (''email'', JStr email)]]
      else [])"

text \<open>Only enabled bindings of active users are served.\<close>

fun inbound_clients ::
  "'w env \<Rightarrow> State \<Rightarrow> Inbound \<Rightarrow> InboundClient list \<Rightarrow> go_error + json list" where
  "inbound_clients env st x [] = Inr []"
| "inbound_clients env st x (b # bs) =
     (if ic_InboundID b \<noteq> in_ID x \<or> \<not> ic_Enabled b then inbound_clients env st x bs
      else case findUser st (ic_UserID b) of
             None \<Rightarrow> inbound_clients env st x bs
           | Some u \<Rightarrow>
               if u_Status u \<noteq> ''active'' then inbound_clients env st x bs
               else case ev_Open env (ic_CredentialEnc b) of
                      Inl e \<Rightarrow> Inl (Plain (''decrypt inbound credential: '' @ err_msg e))
                    | Inr cred \<Rightarrow>
                        let email = (if ic_Email b = [] then ''gb:'' @ u_ID u else ic_Email b) in
                        case inbound_clients env st x bs of
                          Inl e \<Rightarrow> Inl e
                        | Inr items \<Rightarrow> Inr (client_item x cred email @ items))"

text \<open>The settings; None for a protocol the configuration skips.\<close>

definition inbound_settings :: "'w env \<Rightarrow> Inbound \<Rightarrow> json list \<Rightarrow> go_error + json option" where
  "inbound_settings env x clients =
     (if in_Protocol x = ''vless'' then
        Inr (Some (JObj [(''users'', JArr clients), (''decryption'', JStr ''none'')]))
      else if in_Protocol x = ''vmess'' \<or> in_Protocol x = ''trojan'' then
        Inr (Some (JObj [(''users'', JArr clients)]))
      else if in_Protocol x = ''shadowsocks'' then
        (case ev_Open env (in_ShadowsocksServerPasswordEnc x) of
           Inl e \<Rightarrow> Inl (Plain (''decrypt Shadowsocks server password: '' @ err_msg e))
         | Inr p \<Rightarrow>
             Inr (Some (JObj [(''method'', JStr (defaultString (in_ShadowsocksMethod x) ''aes-128-gcm'')),
                              (''password'', JStr p), (''users'', JArr clients),
                              (''network'', JStr ''tcp,udp'')])))
      else Inr None)"

definition inbound_transport :: "Inbound \<Rightarrow> json" where
  "inbound_transport x =
     (if in_Transport x = ''ws'' then
        (let ws = JObj [(''path'', JStr (defaultString (in_Path x) ''/''))];
             ws1 = (if in_Host x \<noteq> [] then jput ''host'' (JStr (in_Host x)) ws else ws)
         in JObj [(''method'', JStr ''websocket''), (''wsSettings'', ws1)])
      else if in_Transport x = ''grpc'' then
        JObj [(''method'', JStr ''grpc''),
              (''grpcSettings'',
               JObj [(''serviceName'', JStr (defaultString (in_ServiceName x) ''gamebridge''))])]
      else JObj [(''method'', JStr ''raw'')])"

definition inbound_security :: "'w env \<Rightarrow> Inbound \<Rightarrow> json \<Rightarrow> go_error + json" where
  "inbound_security env x stream =
     (if in_TLSMode x = ''tls'' then
        Inr (jput ''tlsSettings''
               (JObj [(''certificates'',
                       JArr [JObj [(''certificateFile'', JStr (in_CertFile x)),
                                   (''keyFile'', JStr (in_KeyFile x))]])])
               (jput ''security'' (JStr ''tls'') stream))
      else if in_TLSMode x = ''reality'' then
        (case ev_Open env (in_RealityPrivateKeyEnc x) of
           Inl e \<Rightarrow> Inl (Plain (''decrypt REALITY private key: '' @ err_msg e))
         | Inr priv \<Rightarrow>
             Inr (jput ''realitySettings''
                    (JObj [(''show'', JBool False), (''target'', JStr (in_RealityDest x)),
                           (''xver'', JInt 0), (''serverNames'', jstrs (in_RealityServerNames x)),
                           (''privateKey'', JStr priv), (''shortIds'', jstrs (in_RealityShortIDs x))])
                    (jput ''security'' (JStr ''reality'') stream)))
      else Inr (jput ''security'' (JStr ''none'') stream))"

definition inbound_item :: "'w env \<Rightarrow> State \<Rightarrow> Inbound \<Rightarrow> go_error + json option" where
  "inbound_item env st x =
     (case inbound_clients env st x (st_InboundClients st) of
        Inl e \<Rightarrow> Inl e
      | Inr clients \<Rightarrow>
          (case inbound_settings env x clients of
             Inl e \<Rightarrow> Inl e
           | Inr None \<Rightarrow> Inr None
           | Inr (Some settings) \<Rightarrow>
               (case inbound_security env x (inbound_transport x) of
                  Inl e \<Rightarrow> Inl e
                | Inr stream \<Rightarrow>
                    Inr (Some (JObj
                      [(''tag'', JStr (''gb-in-'' @ in_ID x)),
                       (''listen'', JStr (defaultString (in_Listen x) ''0.0.0.0'')),
                       (''port'', JInt (in_Port x)), (''protocol'', JStr (in_Protocol x)),
                       (''settings'', settings), (''streamSettings'', stream),
                       (''sniffing'', JObj [(''enabled'', JBool True),
                                            (''destOverride'', jstrs [''http'', ''tls'', ''quic''])])])))))"

fun inbound_items :: "'w env \<Rightarrow> State \<Rightarrow> string \<Rightarrow> Inbound list \<Rightarrow> go_error + json list" where
  "inbound_items env st nodeID [] = Inr []"
| "inbound_items env st nodeID (x # xs) =
     (if in_NodeID x \<noteq> nodeID \<or> \<not> in_Enabled x then inbound_items env st nodeID xs
      else case inbound_item env st x of
             Inl e \<Rightarrow> Inl e
           | Inr i \<Rightarrow>
               (case inbound_items env st nodeID xs of
                  Inl e \<Rightarrow> Inl e
                | Inr items \<Rightarrow> Inr ((case i of None \<Rightarrow> [] | Some j \<Rightarrow> [j]) @ items)))"

definition xray_skeleton :: "json list \<Rightarrow> json list \<Rightarrow> json \<Rightarrow> json" where
  "xray_skeleton inbounds outs routing =
     JObj [(''log'', JObj [(''loglevel'', JStr ''warning'')]),
           (''api'', JObj [(''tag'', JStr ''api''), (''listen'', JStr ''127.0.0.1:10085''),
                           (''services'', jstrs [''StatsService''])]),
           (''policy'',
            JObj [(''levels'', JObj [(''0'', JObj [(''statsUserUplink'', JBool True),
                                                   (''statsUserDownlink'', JBool True),
                                                   (''statsUserOnline'', JBool True)])]),
                  (''system'', JObj [(''statsInboundUplink'', JBool True),
                                     (''statsInboundDownlink'', JBool True),
                                     (''statsOutboundUplink'', JBool True),
                                     (''statsOutboundDownlink'', JBool True)])]),
           (''stats'', JObj []), (''inbounds'', JArr inbounds), (''outbounds'', JArr outs),
           (''routing'', routing)]"

definition observatory :: json where
  "observatory =
     JObj [(''subjectSelector'', jstrs [''gbm-'']),
           (''probeUrl'', JStr ''https://connectivitycheck.gstatic.com/generate_204''),
           (''probeInterval'', JStr ''30s''), (''enableConcurrency'', JBool True)]"

text \<open>The routing section with the health rules in front of the node's own.\<close>

definition routing_section :: "State \<Rightarrow> string \<Rightarrow> json list \<Rightarrow> json" where
  "routing_section st nodeID healthRules =
     (if length healthRules > 0
      then jput ''rules'' (JArr (healthRules @ routing_items st nodeID)) (buildXrayRouting st nodeID)
      else buildXrayRouting st nodeID)"

definition buildXrayConfig :: "'w env \<Rightarrow> State \<Rightarrow> string \<Rightarrow> go_error + json \<times> Node" where
  "buildXrayConfig env st nodeID =
     (case findNode st nodeID of
        None \<Rightarrow> Inl (Plain ''node not found'')
      | Some node \<Rightarrow>
          (case inbound_items env st nodeID (st_Inbounds st) of
             Inl e \<Rightarrow> Inl e
           | Inr inbounds \<Rightarrow>
               (case buildXrayOutbounds env st nodeID of
                  Inl e \<Rightarrow> Inl e
                | Inr outs \<Rightarrow>
                    (case buildOutboundHealthXray st nodeID of
                       Inl e \<Rightarrow> Inl e
                     | Inr (healthInbounds, healthRules) \<Rightarrow>
                         let routing = routing_section st nodeID healthRules;
                             cfg = xray_skeleton (inbounds @ healthInbounds) outs routing;
                             cfg1 = (if length (buildXrayBalancers st nodeID) > 0
                                     then jput ''observatory'' observatory cfg else cfg)
                         in Inr (cfg1, node)))))"

section \<open>Deployment\<close>

definition setNodeInboundStatus :: "'w env \<Rightarrow> string \<Rightarrow> string \<Rightarrow> 'w Store \<Rightarrow> 'w Store" where
  "setNodeInboundStatus env nodeID status s =
     UpdateST (ev_save env)
       (\<lambda>st. st\<lparr>st_Inbounds := map (\<lambda>x. if in_NodeID x = nodeID then x\<lparr>in_Status := status\<rparr> else x)
                                 (st_Inbounds st)\<rparr>) s"

definition deployXrayNode :: "'w env \<Rightarrow> 'w deployer" where
  "deployXrayNode env nodeID s =
     (case ensureRealityKeys env nodeID s of
        (Some e, s1) \<Rightarrow> (Some e, setNodeInboundStatus env nodeID ''degraded'' s1)
      | (None, s1) \<Rightarrow>
          (case ensureShadowsocksServerPasswords env nodeID s1 of
             (Some e, s2) \<Rightarrow> (Some e, setNodeInboundStatus env nodeID ''degraded'' s2)
           | (None, s2) \<Rightarrow>
               (case buildXrayConfig env (cloneState (store_st s2)) nodeID of
                  Inl e \<Rightarrow> (Some e, setNodeInboundStatus env nodeID ''degraded'' s2)
                | Inr (cfg, node) \<Rightarrow>
                    (case agentDo env node ''POST'' ''/v1/xray/apply''
                            (Some (JObj [(''config'', cfg)])) s2 of
                       (Some e, s3) \<Rightarrow> (Some e, setNodeInboundStatus env nodeID ''degraded'' s3)
                     | (None, s3) \<Rightarrow> (None, setNodeInboundStatus env nodeID ''online'' s3)))))"

section \<open>Native outbounds\<close>

definition wireguard_spec :: "Outbound \<Rightarrow> string \<Rightarrow> json" where
  "wireguard_spec x key =
     JObj [(''interface'', JStr (out_WireGuardInterface x)), (''address'', JStr (out_WireGuardAddress x)),
           (''private_key'', JStr key), (''peer_public_key'', JStr (out_WireGuardPeerPublicKey x)),
           (''endpoint'', JStr (out_Address x @ '':'' @ Itoa (out_Port x))),
           (''allowed_ips'', jstrs (out_WireGuardAllowedIPs x)),
           (''persistent_keepalive'', JInt (out_WireGuardKeepalive x)),
           (''mtu'', JInt (out_WireGuardMTU x))]"

definition native_outbounds :: "State \<Rightarrow> string \<Rightarrow> string \<Rightarrow> Outbound list" where
  "native_outbounds st nodeID protocol =
     filter (\<lambda>x. \<not> (out_NodeID x \<noteq> nodeID \<or> \<not> out_Enabled x \<or> out_Protocol x \<noteq> protocol)) (st_Outbounds st)"

fun wireguard_specs :: "'w env \<Rightarrow> Outbound list \<Rightarrow> go_error + json list" where
  "wireguard_specs env [] = Inr []"
| "wireguard_specs env (x # xs) =
     (case ev_Open env (out_PasswordEnc x) of
        Inl e \<Rightarrow> Inl (Plain (''decrypt WireGuard outbound '' @ out_Tag x @ '' private key: '' @ err_msg e))
      | Inr key \<Rightarrow>
          (case wireguard_specs env xs of
             Inl e \<Rightarrow> Inl e | Inr specs \<Rightarrow> Inr (wireguard_spec x key # specs)))"

definition desiredWireGuardOutbounds :: "'w env \<Rightarrow> State \<Rightarrow> string \<Rightarrow> go_error + Node \<times> json list" where
  "desiredWireGuardOutbounds env st nodeID =
     (case findNode st nodeID of
        None \<Rightarrow> Inl (Plain ''node not found'')
      | Some node \<Rightarrow>
          map_sum id (\<lambda>specs. (node, specs)) (wireguard_specs env (native_outbounds st nodeID ''wireguard'')))"

text \<open>The three sync functions: the desired specifications, sent to one endpoint of the agent.\<close>

definition sync_native ::
  "'w env \<Rightarrow> string \<Rightarrow> string \<Rightarrow> go_error + Node \<times> json list \<Rightarrow> 'w Store \<Rightarrow> 'w tx" where
  "sync_native env path failure desired s =
     (case desired of
        Inl e \<Rightarrow> (Some e, s)
      | Inr (node, specs) \<Rightarrow>
          (case agentDo env node ''POST'' path (Some (JObj [(''outbounds'', JArr specs)])) s of
             (Some e, s1) \<Rightarrow> (Some (Plain (failure @ '': '' @ err_msg e)), s1)
           | (None, s1) \<Rightarrow> (None, s1)))"

definition syncWireGuardOutbounds :: "'w env \<Rightarrow> string \<Rightarrow> 'w Store \<Rightarrow> 'w tx" where
  "syncWireGuardOutbounds env nodeID s =
     sync_native env ''/v1/wireguard/outbounds/sync'' ''sync native WireGuard outbounds''
       (desiredWireGuardOutbounds env (cloneState (store_st s)) nodeID) s"

definition desiredTorOutbounds :: "State \<Rightarrow> string \<Rightarrow> go_error + Node \<times> json list" where
  "desiredTorOutbounds st nodeID =
     (case findNode st nodeID of
        None \<Rightarrow> Inl (Plain ''node not found'')
      | Some node \<Rightarrow>
          Inr (node, map (\<lambda>x. JObj [(''name'', JStr (out_Tag x)), (''socks_port'', JInt (out_TorSOCKSPort x))])
                       (native_outbounds st nodeID ''tor'')))"

definition syncTorOutbounds :: "'w env \<Rightarrow> string \<Rightarrow> 'w Store \<Rightarrow> 'w tx" where
  "syncTorOutbounds env nodeID s =
     sync_native env ''/v1/tor/outbounds/sync'' ''sync native Tor outbounds''
       (desiredTorOutbounds (cloneState (store_st s)) nodeID) s"

record openVPNCredential =
  ovc_Profile :: string
  ovc_Password :: string

text \<open>json.Marshal of the credential: the password is left out when empty.\<close>

definition encodeOpenVPNCredential :: "'w env \<Rightarrow> string \<Rightarrow> string \<Rightarrow> go_error + string" where
  "encodeOpenVPNCredential env profile0 password =
     (let profile = TrimSpace profile0 in
      if profile = [] then Inl (Plain ''openvpn profile is required'')
      else Inr (ev_Marshal env
                  (JObj ((''profile'', JStr profile) #
                         (if password = [] then [] else [(''password'', JStr password)])))))"

text \<open>json.Unmarshal into the credential: an absent or null field is empty; one value only.\<close>

definition credential_field :: "string \<Rightarrow> json \<Rightarrow> string + string" where
  "credential_field k j =
     (case jget k j of
        None \<Rightarrow> Inr []
      | Some JNull \<Rightarrow> Inr []
      | Some (JStr s) \<Rightarrow> Inr s
      | Some v \<Rightarrow> Inl (''json: cannot unmarshal '' @ json_kind v @ '' into Go struct field openVPNCredential.'' @
                      k @ '' of type string''))"

definition unmarshal_credential :: "'w env \<Rightarrow> string \<Rightarrow> string + openVPNCredential" where
  "unmarshal_credential env raw =
     (case ev_Decode env raw of
        Inl e \<Rightarrow> Inl e
      | Inr (j, AtEOF) \<Rightarrow>
          (if \<not> is_object j \<and> j \<noteq> JNull
           then Inl (''json: cannot unmarshal '' @ json_kind j @ '' into Go value of type panel.openVPNCredential'')
           else case credential_field ''profile'' j of
                  Inl e \<Rightarrow> Inl e
                | Inr p \<Rightarrow>
                    (case credential_field ''password'' j of
                       Inl e \<Rightarrow> Inl e | Inr q \<Rightarrow> Inr \<lparr>ovc_Profile = p, ovc_Password = q\<rparr>))
      | Inr (j, MoreValue) \<Rightarrow> Inl ''invalid character after top-level value''
      | Inr (j, BadRest e) \<Rightarrow> Inl e)"

definition decodeOpenVPNCredential :: "'w env \<Rightarrow> string \<Rightarrow> go_error + openVPNCredential" where
  "decodeOpenVPNCredential env raw =
     (case unmarshal_credential env raw of
        Inl e \<Rightarrow> Inl (Plain (''decode openvpn credential: '' @ e))
      | Inr c \<Rightarrow>
          let c1 = c\<lparr>ovc_Profile := TrimSpace (ovc_Profile c)\<rparr> in
          if ovc_Profile c1 = [] then Inl (Plain ''openvpn credential has an empty profile'')
          else Inr c1)"

fun openvpn_specs ::
  "'w env \<Rightarrow> string list \<Rightarrow> int list \<Rightarrow> int list \<Rightarrow> Outbound list \<Rightarrow> go_error + json list" where
  "openvpn_specs env ifs tables marks [] = Inr []"
| "openvpn_specs env ifs tables marks (x # xs) =
     (if out_OpenVPNInterface x \<in> set ifs
        then Inl (Plain (''duplicate openvpn interface '' @ out_OpenVPNInterface x @ '' on node''))
      else if out_OpenVPNRoutingTable x \<in> set tables
        then Inl (Plain (''duplicate openvpn routing table '' @ Itoa (out_OpenVPNRoutingTable x) @ '' on node''))
      else if out_OpenVPNMark x \<in> set marks
        then Inl (Plain (''duplicate openvpn mark '' @ Itoa (out_OpenVPNMark x) @ '' on node''))
      else case ev_Open env (out_PasswordEnc x) of
             Inl e \<Rightarrow> Inl (Plain (''decrypt openvpn outbound '' @ out_Tag x @ '' profile: '' @ err_msg e))
           | Inr plain \<Rightarrow>
               (case decodeOpenVPNCredential env plain of
                  Inl e \<Rightarrow> Inl (Plain (''openvpn outbound '' @ out_Tag x @ '' credential: '' @ err_msg e))
                | Inr cred \<Rightarrow>
                    (case openvpn_specs env (out_OpenVPNInterface x # ifs) (out_OpenVPNRoutingTable x # tables)
                            (out_OpenVPNMark x # marks) xs of
                       Inl e \<Rightarrow> Inl e
                     | Inr specs \<Rightarrow>
                         Inr (JObj [(''name'', JStr (out_Tag x)), (''interface'', JStr (out_OpenVPNInterface x)),
                                    (''routing_table'', JInt (out_OpenVPNRoutingTable x)),
                                    (''mark'', JInt (out_OpenVPNMark x)), (''profile'', JStr (ovc_Profile cred)),
                                    (''username'', JStr (out_Username x)),
                                    (''password'', JStr (ovc_Password cred))] # specs))))"

definition desiredOpenVPNOutbounds :: "'w env \<Rightarrow> State \<Rightarrow> string \<Rightarrow> go_error + Node \<times> json list" where
  "desiredOpenVPNOutbounds env st nodeID =
     (case findNode st nodeID of
        None \<Rightarrow> Inl (Plain ''node not found'')
      | Some node \<Rightarrow>
          map_sum id (\<lambda>specs. (node, specs))
            (openvpn_specs env [] [] [] (native_outbounds st nodeID ''openvpn'')))"

definition syncOpenVPNOutbounds :: "'w env \<Rightarrow> string \<Rightarrow> 'w Store \<Rightarrow> 'w tx" where
  "syncOpenVPNOutbounds env nodeID s =
     sync_native env ''/v1/openvpn/outbounds/sync'' ''sync native openvpn outbounds''
       (desiredOpenVPNOutbounds env (cloneState (store_st s)) nodeID) s"

definition deployOutboundNode :: "'w env \<Rightarrow> 'w deployer" where
  "deployOutboundNode env nodeID s =
     (case syncWireGuardOutbounds env nodeID s of
        (Some e, s1) \<Rightarrow> (Some e, s1)
      | (None, s1) \<Rightarrow>
          (case syncTorOutbounds env nodeID s1 of
             (Some e, s2) \<Rightarrow> (Some e, s2)
           | (None, s2) \<Rightarrow>
               (case syncOpenVPNOutbounds env nodeID s2 of
                  (Some e, s3) \<Rightarrow> (Some e, s3)
                | (None, s3) \<Rightarrow>
                    (case deployXrayNode env nodeID s3 of
                       (Some e, s4) \<Rightarrow>
                         (Some (Plain (''deploy Xray after native outbound sync: '' @ err_msg e)), s4)
                     | (None, s4) \<Rightarrow> (None, s4)))))"

section \<open>What a deployment leaves alone\<close>

text \<open>The state without the inbounds, and the inbounds without status and generated secrets.\<close>

definition rest_of :: "State \<Rightarrow> State" where
  "rest_of st = st\<lparr>st_Inbounds := []\<rparr>"

definition erase_runtime :: "Inbound \<Rightarrow> Inbound" where
  "erase_runtime x =
     x\<lparr>in_Status := [], in_RealityPrivateKeyEnc := [], in_RealityPublicKey := [],
       in_ShadowsocksServerPasswordEnc := []\<rparr>"

definition xray_view :: "State \<Rightarrow> State \<times> Inbound list" where
  "xray_view st = (rest_of st, map erase_runtime (st_Inbounds st))"

lemma xray_view_inbounds:
  "map erase_runtime (f (st_Inbounds st)) = map erase_runtime (st_Inbounds st) \<Longrightarrow>
   xray_view (st\<lparr>st_Inbounds := f (st_Inbounds st)\<rparr>) = xray_view st"
  by (simp add: xray_view_def rest_of_def)

lemma store_reality_view:
  "store_reality rid enc pub st = Inr st' \<Longrightarrow> xray_view st' = xray_view st"
  by (auto simp: store_reality_def updInbound_def upd_row_def erase_runtime_def
      intro!: xray_view_inbounds map_upd_first split: option.splits)

lemma store_shadowsocks_view:
  "store_shadowsocks rid enc st = Inr st' \<Longrightarrow> xray_view st' = xray_view st"
  by (auto simp: store_shadowsocks_def updInbound_def upd_row_def erase_runtime_def
      intro!: xray_view_inbounds map_upd_first split: option.splits)

lemma agentJSON_view [simp]:
  "agentJSON env n m p b out z s = (r, s') \<Longrightarrow> store_st s' = store_st s"
  by (metis agentJSON_st snd_conv)

lemma agentDo_view [simp]: "agentDo env n m p b s = (r, s') \<Longrightarrow> store_st s' = store_st s"
  by (metis agentDo_st snd_conv)

lemma setNodeInboundStatus_view [simp]:
  "xray_view (store_st (setNodeInboundStatus env nodeID status s)) = xray_view (store_st s)"
  unfolding setNodeInboundStatus_def
  by (rule UpdateST_frame) (auto simp: erase_runtime_def intro!: xray_view_inbounds)

lemma UpdateE_viewD:
  assumes "UpdateE save fn s = (r, s')" "\<And>st st'. fn st = Inr st' \<Longrightarrow> xray_view st' = xray_view st"
  shows "xray_view (store_st s') = xray_view (store_st s)"
  using UpdateE_frame [of fn xray_view save s] assms by simp

lemma reality_loop_view:
  "reality_loop env node rids s = (r, s') \<Longrightarrow> xray_view (store_st s') = xray_view (store_st s)"
proof (induction rids arbitrary: s)
  case (Cons rid rids)
  obtain a s1 where a: "agentJSON env node ''POST'' ''/v1/xray/x25519'' None (Some (ev_DecodeKeys env))
      \<lparr>rk_PrivateKey = [], rk_PublicKey = []\<rparr> s = (a, s1)" by fastforce
  show ?case
  proof (cases a)
    case (Inl e)
    with Cons.prems a show ?thesis by auto
  next
    case (Inr keys)
    obtain b s2 where b: "effect (ev_Seal env (rk_PrivateKey keys)) s1 = (b, s2)" by fastforce
    show ?thesis
    proof (cases "rk_PrivateKey keys = [] \<or> rk_PublicKey keys = [] \<or> isl b")
      case True
      with Cons.prems a Inr b show ?thesis
        by (cases b) (auto simp: effect_stD split: if_splits)
    next
      case False
      then obtain enc where enc: "b = Inr enc" by (cases b) auto
      obtain u s3 where u: "UpdateE (ev_save env) (store_reality rid enc (rk_PublicKey keys)) s2 = (u, s3)"
        by fastforce
      have "xray_view (store_st s3) = xray_view (store_st s2)"
        using UpdateE_viewD [OF u store_reality_view] .
      then have s3: "xray_view (store_st s3) = xray_view (store_st s)"
        using a effect_stD [OF b] by simp
      show ?thesis
      proof (cases u)
        case None
        with Cons.prems a Inr b enc u False have "reality_loop env node rids s3 = (r, s')" by simp
        from Cons.IH [OF this] s3 show ?thesis by simp
      next
        case (Some e)
        with Cons.prems a Inr b enc u False s3 show ?thesis by simp
      qed
    qed
  qed
qed simp

lemma shadowsocks_loop_view:
  "shadowsocks_loop env rids s = (r, s') \<Longrightarrow> xray_view (store_st s') = xray_view (store_st s)"
proof (induction rids arbitrary: s)
  case (Cons rid rids)
  obtain cred s1 where a: "randomCredential env 32 s = (cred, s1)" by fastforce
  then have s1: "store_st s1 = store_st s" by (metis randomCredential_st snd_conv)
  obtain b s2 where b: "effect (ev_Seal env cred) s1 = (b, s2)" by fastforce
  then have s2: "store_st s2 = store_st s" using effect_stD s1 by metis
  show ?case
  proof (cases b)
    case (Inl e)
    with Cons.prems a b s2 show ?thesis by simp
  next
    case (Inr enc)
    obtain u s3 where u: "UpdateE (ev_save env) (store_shadowsocks rid enc) s2 = (u, s3)" by fastforce
    have s3: "xray_view (store_st s3) = xray_view (store_st s)"
      using UpdateE_viewD [OF u store_shadowsocks_view] s2 by simp
    show ?thesis
    proof (cases u)
      case None
      with Cons.prems a Inr b u have "shadowsocks_loop env rids s3 = (r, s')" by simp
      from Cons.IH [OF this] s3 show ?thesis by simp
    next
      case (Some e)
      with Cons.prems a Inr b u s3 show ?thesis by simp
    qed
  qed
qed simp

lemma ensure_view:
  "ensureRealityKeys env nodeID s = (r, s') \<Longrightarrow> xray_view (store_st s') = xray_view (store_st s)"
  "ensureShadowsocksServerPasswords env nodeID s = (r, s') \<Longrightarrow>
   xray_view (store_st s') = xray_view (store_st s)"
  by (auto simp: ensureRealityKeys_def ensureShadowsocksServerPasswords_def Let_def
      dest: reality_loop_view shadowsocks_loop_view split: option.splits if_splits)

lemma deployXrayNode_view:
  "xray_view (store_st (snd (deployXrayNode env nodeID s))) = xray_view (store_st s)"
proof -
  obtain r1 s1 where 1: "ensureRealityKeys env nodeID s = (r1, s1)" by fastforce
  obtain r2 s2 where 2: "ensureShadowsocksServerPasswords env nodeID s1 = (r2, s2)" by fastforce
  note v = ensure_view(1) [OF 1] ensure_view(2) [OF 2]
  show ?thesis
    using v
    by (auto simp: deployXrayNode_def 1 2 split: option.split sum.split prod.split)
qed

lemma sync_native_st [simp]:
  "store_st (snd (sync_native env path failure desired s)) = store_st s"
  by (auto simp: sync_native_def split: sum.split prod.split option.split)

lemma deployOutboundNode_view:
  "xray_view (store_st (snd (deployOutboundNode env nodeID s))) = xray_view (store_st s)"
proof -
  obtain r1 s1 where 1: "syncWireGuardOutbounds env nodeID s = (r1, s1)" by fastforce
  obtain r2 s2 where 2: "syncTorOutbounds env nodeID s1 = (r2, s2)" by fastforce
  obtain r3 s3 where 3: "syncOpenVPNOutbounds env nodeID s2 = (r3, s3)" by fastforce
  obtain r4 s4 where 4: "deployXrayNode env nodeID s3 = (r4, s4)" by fastforce
  have "store_st s1 = store_st s" "store_st s2 = store_st s1" "store_st s3 = store_st s2"
    using 1 2 3 sync_native_st
    unfolding syncWireGuardOutbounds_def syncTorOutbounds_def syncOpenVPNOutbounds_def
    by (metis snd_conv)+
  moreover have "xray_view (store_st s4) = xray_view (store_st s3)"
    using deployXrayNode_view [of env nodeID s3] by (simp add: 4)
  ultimately show ?thesis
    by (simp add: deployOutboundNode_def 1 2 3 4 split: option.split)
qed

interpretation xray: deploy_frame "deployXrayNode env" xray_view for env :: "'w env"
  by unfold_locales (rule deployXrayNode_view)

interpretation native: deploy_frame "deployOutboundNode env" xray_view for env :: "'w env"
  by unfold_locales (rule deployOutboundNode_view)

text \<open>Tables other than the inbounds are part of the view, and so is any update of them.\<close>

lemma view_tables:
  assumes "xray_view st = xray_view st1"
  shows "st_RoutingRules st = st_RoutingRules st1" "st_Outbounds st = st_Outbounds st1"
    "st_OutboundGroups st = st_OutboundGroups st1" "st_InboundClients st = st_InboundClients st1"
    "st_Users st = st_Users st1" "st_Nodes st = st_Nodes st1"
proof -
  have r: "rest_of st = rest_of st1" using assms by (simp add: xray_view_def)
  show "st_RoutingRules st = st_RoutingRules st1" "st_Outbounds st = st_Outbounds st1"
    "st_OutboundGroups st = st_OutboundGroups st1" "st_InboundClients st = st_InboundClients st1"
    "st_Users st = st_Users st1" "st_Nodes st = st_Nodes st1"
    using arg_cong [OF r, of st_RoutingRules] arg_cong [OF r, of st_Outbounds]
      arg_cong [OF r, of st_OutboundGroups] arg_cong [OF r, of st_InboundClients]
      arg_cong [OF r, of st_Users] arg_cong [OF r, of st_Nodes]
    by (simp_all add: rest_of_def)
qed

lemma rest_of_update:
  "rest_of (st_RoutingRules_update f st) = st_RoutingRules_update f (rest_of st)"
  "rest_of (st_Outbounds_update g st) = st_Outbounds_update g (rest_of st)"
  "rest_of (st_OutboundGroups_update h st) = st_OutboundGroups_update h (rest_of st)"
  by (cases st, simp add: rest_of_def)+

lemma view_update:
  assumes "xray_view st = xray_view st1"
  shows "xray_view (st_RoutingRules_update f st) = xray_view (st_RoutingRules_update f st1)"
    "xray_view (st_Outbounds_update g st) = xray_view (st_Outbounds_update g st1)"
    "xray_view (st_OutboundGroups_update h st) = xray_view (st_OutboundGroups_update h st1)"
  using assms by (simp_all add: xray_view_def rest_of_update)

text \<open>The tables whose rows are written and deployed in one operation.\<close>

interpretation rules_tx: table_tx "deployXrayNode env" xray_view st_RoutingRules st_RoutingRules_update rr_ID
  for env :: "'w env"
  by unfold_locales (rule view_update, assumption)+

interpretation outbounds_tx: table_tx "deployOutboundNode env" xray_view st_Outbounds st_Outbounds_update out_ID
  for env :: "'w env"
  by unfold_locales (rule view_update, assumption)+

interpretation groups_tx: table_tx "deployOutboundNode env" xray_view st_OutboundGroups st_OutboundGroups_update og_ID
  for env :: "'w env"
  by unfold_locales (rule view_update, assumption)+

section \<open>Properties\<close>

definition served_binding :: "State \<Rightarrow> Inbound \<Rightarrow> InboundClient \<Rightarrow> bool" where
  "served_binding st x b \<longleftrightarrow>
     ic_InboundID b = in_ID x \<and> ic_Enabled b \<and>
     (case findUser st (ic_UserID b) of None \<Rightarrow> False | Some u \<Rightarrow> u_Status u = ''active'')"

definition credential_key :: "Inbound \<Rightarrow> string" where
  "credential_key x = (if in_Protocol x = ''vless'' \<or> in_Protocol x = ''vmess'' then ''id'' else ''password'')"

lemma client_item_fields:
  assumes "in_Protocol x \<in> {''vless'', ''vmess'', ''trojan'', ''shadowsocks''}"
  shows "\<exists>j. client_item x cred email = [j] \<and> jget_str ''email'' j = email \<and>
             jget_str (credential_key x) j = cred"
  using assms
  by (auto simp: client_item_def credential_key_def jget_str_def Let_def)

text \<open>
  An inbound serves exactly the enabled bindings of active users, in the order of the table,
  each with the credential that was stored for it: a user that is disabled, expired or over its
  quota, or a binding that is switched off, is not in the configuration.
\<close>

lemma inbound_serves_exactly:
  assumes "inbound_clients env st x bs = Inr items"
    "in_Protocol x \<in> {''vless'', ''vmess'', ''trojan'', ''shadowsocks''}"
  shows "list_all2
           (\<lambda>b j. ev_Open env (ic_CredentialEnc b) = Inr (jget_str (credential_key x) j) \<and>
                  (ic_Email b \<noteq> [] \<longrightarrow> jget_str ''email'' j = ic_Email b))
           (filter (served_binding st x) bs) items"
  using assms(1)
proof (induction bs arbitrary: items)
  case (Cons b bs)
  show ?case
  proof (cases "served_binding st x b")
    case False
    then have "inbound_clients env st x bs = Inr items"
      using Cons.prems by (auto simp: served_binding_def split: option.splits if_splits)
    from Cons.IH [OF this] False show ?thesis by simp
  next
    case True
    then obtain u where u: "ic_InboundID b = in_ID x" "ic_Enabled b"
      "findUser st (ic_UserID b) = Some u" "u_Status u = ''active''"
      by (auto simp: served_binding_def split: option.splits)
    define email where "email = (if ic_Email b = [] then ''gb:'' @ u_ID u else ic_Email b)"
    obtain cred rest where c: "ev_Open env (ic_CredentialEnc b) = Inr cred"
      "inbound_clients env st x bs = Inr rest" "items = client_item x cred email @ rest"
      using Cons.prems u by (auto simp: email_def Let_def split: sum.splits)
    obtain j where j: "client_item x cred email = [j]" "jget_str ''email'' j = email"
      "jget_str (credential_key x) j = cred"
      using client_item_fields [OF assms(2)] by metis
    show ?thesis using Cons.IH [OF c(2)] True c j by (simp add: email_def)
  qed
qed simp

definition sample_inbound :: Inbound where
  "sample_inbound =
     \<lparr>in_ID = ''i1'', in_Name = ''main'', in_Protocol = ''trojan'', in_NodeID = ''n1'',
      in_Listen = ''0.0.0.0'', in_Port = 443, in_Transport = ''tcp'', in_TLSMode = ''none'',
      in_Enabled = True, in_Status = ''configured'', in_Remark = [], in_Path = ''/'', in_Host = [],
      in_ServiceName = ''gamebridge'', in_ServerName = [], in_CertFile = [], in_KeyFile = [],
      in_RealityDest = [], in_RealityServerNames = [], in_RealityPrivateKeyEnc = [],
      in_RealityPublicKey = [], in_RealityShortIDs = [], in_RealityFingerprint = ''chrome'',
      in_ShadowsocksMethod = ''aes-128-gcm'', in_ShadowsocksServerPasswordEnc = [],
      in_CreatedAt = 1, in_UpdatedAt = 1\<rparr>"

definition sample_client :: InboundClient where
  "sample_client =
     \<lparr>ic_ID = ''c1'', ic_InboundID = ''i1'', ic_UserID = ''u1'', ic_Email = ''gb:ali'',
      ic_CredentialEnc = ''sealed:pw'', ic_Enabled = True, ic_CreatedAt = 1\<rparr>"

lemma inbound_serves_exactly_witness:
  "inbound_clients sample_env (emptyState\<lparr>st_Users := [sample_user\<lparr>u_Status := ''expired''\<rparr>]\<rparr>)
     sample_inbound [sample_client] = Inr [] \<and>
   \<not> served_binding (emptyState\<lparr>st_Users := [sample_user\<lparr>u_Status := ''expired''\<rparr>]\<rparr>) sample_inbound sample_client"
proof -
  let ?st = "emptyState\<lparr>st_Users := [sample_user\<lparr>u_Status := ''expired''\<rparr>]\<rparr>"
  have *: "inbound_clients sample_env ?st sample_inbound [sample_client] = Inr []" by code_simp
  have "in_Protocol sample_inbound \<in> {''vless'', ''vmess'', ''trojan'', ''shadowsocks''}"
    by (simp add: sample_inbound_def)
  from inbound_serves_exactly [OF * this] have "filter (served_binding ?st sample_inbound) [sample_client] = []"
    by simp
  then have "\<not> served_binding ?st sample_inbound sample_client" by (simp split: if_splits)
  with * show ?thesis by simp
qed

end
