(* ===== verification/RoutingTx.thy ===== *)
theory RoutingTx
  imports Xray
begin

text \<open>
  The transactional operations on routing rules, src/internal/panel/routing_transaction.go, and
  the handlers of /api/routing in routing.go. The operations take the deployment function as the
  code does; the properties are about the one the handlers pass, deployXrayNode.
\<close>

definition cloneRoutingRuleValue :: "RoutingRule \<Rightarrow> RoutingRule" where
  "cloneRoutingRuleValue r =
     r\<lparr>rr_InboundIDs := [] @ rr_InboundIDs r, rr_UserIDs := [] @ rr_UserIDs r,
       rr_Domains := [] @ rr_Domains r, rr_IPs := [] @ rr_IPs r, rr_Protocols := [] @ rr_Protocols r\<rparr>"

lemma cloneRoutingRuleValue_id [simp]: "cloneRoutingRuleValue r = r"
  by (simp add: cloneRoutingRuleValue_def)

definition routingDeployOrder :: "string \<Rightarrow> string \<Rightarrow> string list" where
  "routingDeployOrder = deployOrder"

definition redeployRoutingNodes :: "string list \<Rightarrow> 'w deployer \<Rightarrow> 'w Store \<Rightarrow> 'w tx" where
  "redeployRoutingNodes = redeployNodes"

section \<open>Create\<close>

definition create_rule_update :: "RoutingRule \<Rightarrow> State \<Rightarrow> go_error + State" where
  "create_rule_update rule st =
     (case validateRoutingReferences st rule of
        Some e \<Rightarrow> Inl e
      | None \<Rightarrow> Inr (st\<lparr>st_RoutingRules := st_RoutingRules st @ [cloneRoutingRuleValue rule]\<rparr>))"

definition create_rule_undo :: "RoutingRule \<Rightarrow> State \<Rightarrow> go_error + State" where
  "create_rule_undo rule st =
     Inr (st\<lparr>st_RoutingRules := deleteByID (st_RoutingRules st) (rr_ID rule) rr_ID\<rparr>)"

definition createRoutingRuleTransactional ::
  "'w saver \<Rightarrow> RoutingRule \<Rightarrow> 'w deployer \<Rightarrow> 'w Store \<Rightarrow> 'w tx" where
  "createRoutingRuleTransactional save rule deploy s =
     (case UpdateE save (create_rule_update rule) s of
        (Some e, s1) \<Rightarrow> (Some e, s1)
      | (None, s1) \<Rightarrow>
          deploy_or_rollback RoutingDeploymentError save deploy (deploy (rr_NodeID rule))
            (create_rule_undo rule) [rr_NodeID rule] s1)"

section \<open>Update\<close>

text \<open>The callback captures the row before and the two nodes.\<close>

definition update_rule_update ::
  "time \<Rightarrow> string \<Rightarrow> RoutingRule \<Rightarrow> State \<Rightarrow> go_error + (RoutingRule \<times> string \<times> string) \<times> State" where
  "update_rule_update now rid r0 st =
     (case findRoutingRule st rid of
        None \<Rightarrow> Inl (Plain ''routing rule not found'')
      | Some current \<Rightarrow>
          let r = r0\<lparr>rr_ID := rr_ID current, rr_CreatedAt := rr_CreatedAt current, rr_UpdatedAt := now\<rparr> in
          case validateRoutingReferences st r of
            Some e \<Rightarrow> Inl e
          | None \<Rightarrow> Inr ((cloneRoutingRuleValue current, rr_NodeID current, rr_NodeID r),
                        updRoutingRule rid (\<lambda>_. cloneRoutingRuleValue r) st))"

definition update_rule_undo :: "string \<Rightarrow> RoutingRule \<Rightarrow> State \<Rightarrow> go_error + State" where
  "update_rule_undo rid before st =
     (case findRoutingRule st rid of
        None \<Rightarrow> Inl (Plain ''routing rule disappeared during rollback'')
      | Some _ \<Rightarrow> Inr (updRoutingRule rid (\<lambda>_. cloneRoutingRuleValue before) st))"

definition updateRoutingRuleTransactional ::
  "'w saver \<Rightarrow> time \<Rightarrow> string \<Rightarrow> RoutingRule \<Rightarrow> 'w deployer \<Rightarrow> 'w Store \<Rightarrow> 'w tx" where
  "updateRoutingRuleTransactional save now rid r deploy s =
     (case Update save (update_rule_update now rid r) s of
        (Inl e, s1) \<Rightarrow> (Some e, s1)
      | (Inr (before, oldNodeID, newNodeID), s1) \<Rightarrow>
          let nodes = routingDeployOrder oldNodeID newNodeID in
          deploy_or_rollback RoutingDeploymentError save deploy (redeployRoutingNodes nodes deploy)
            (update_rule_undo rid before) nodes s1)"

section \<open>Delete\<close>

definition delete_rule_update ::
  "string \<Rightarrow> State \<Rightarrow> go_error + (RoutingRule \<times> int \<times> string) \<times> State" where
  "delete_rule_update rid st =
     (case findRoutingRule st rid of
        None \<Rightarrow> Inl (Plain ''routing rule not found'')
      | Some current \<Rightarrow>
          Inr ((cloneRoutingRuleValue current, index_of (\<lambda>r. rr_ID r = rid) (st_RoutingRules st), rr_NodeID current),
               st\<lparr>st_RoutingRules := deleteByID (st_RoutingRules st) rid rr_ID\<rparr>))"

definition zero_rule :: RoutingRule where
  "zero_rule =
     \<lparr>rr_ID = [], rr_Name = [], rr_NodeID = [], rr_Priority = 0, rr_Enabled = False,
      rr_InboundIDs = [], rr_UserIDs = [], rr_Domains = [], rr_IPs = [], rr_Ports = [],
      rr_Network = [], rr_Protocols = [], rr_OutboundID = [], rr_OutboundGroupID = [],
      rr_CreatedAt = 0, rr_UpdatedAt = 0\<rparr>"

definition delete_rule_undo :: "string \<Rightarrow> RoutingRule \<Rightarrow> int \<Rightarrow> State \<Rightarrow> go_error + State" where
  "delete_rule_undo rid before index st =
     Inr (st\<lparr>st_RoutingRules := reinsert_row rr_ID zero_rule rid index before (st_RoutingRules st)\<rparr>)"

definition deleteRoutingRuleTransactional ::
  "'w saver \<Rightarrow> string \<Rightarrow> 'w deployer \<Rightarrow> 'w Store \<Rightarrow> 'w tx" where
  "deleteRoutingRuleTransactional save rid deploy s =
     (case Update save (delete_rule_update rid) s of
        (Inl e, s1) \<Rightarrow> (Some e, s1)
      | (Inr (before, index, nodeID), s1) \<Rightarrow>
          deploy_or_rollback RoutingDeploymentError save deploy (deploy nodeID)
            (delete_rule_undo rid before index) [nodeID] s1)"

section \<open>The handlers\<close>

datatype routing_payload = RuleList "RoutingRule list" | RuleOne RoutingRule | RuleCreated RoutingRule | RuleOK

fun isRoutingDeploymentError :: "go_error \<Rightarrow> bool" where
  "isRoutingDeploymentError (RoutingDeploymentError m) = True"
| "isRoutingDeploymentError e = False"

type_synonym rule_sort = "(RoutingRule \<Rightarrow> RoutingRule \<Rightarrow> bool) \<Rightarrow> RoutingRule list \<Rightarrow> RoutingRule list"

definition handleRoutingRules ::
  "'w env \<Rightarrow> rule_sort \<Rightarrow> RoutingRule request \<Rightarrow> 'w Store \<Rightarrow> routing_payload response \<times> 'w Store" where
  "handleRoutingRules env srt r s =
     (if rq_Method r = ''GET'' then
        (JsonWrite 200 (RuleList (srt (\<lambda>a b. rr_Priority a < rr_Priority b)
                                      (st_RoutingRules (cloneState (store_st s))))), s)
      else if rq_Method r = ''POST'' then
        (if requireRole r ''admin'' \<noteq> None then (JsonError 403 ''forbidden'', s)
         else case rq_Body r of
           Inl e \<Rightarrow> (JsonError 400 (err_msg e), s)
         | Inr body \<Rightarrow>
             (case normalizeRoutingRule body of
                Inl e \<Rightarrow> (JsonError 400 (err_msg e), s)
              | Inr x \<Rightarrow>
                  (case randomHex env 12 s of (rid, s1) \<Rightarrow>
                  (case effect (ev_Now env) s1 of (now, s2) \<Rightarrow>
                     let y = x\<lparr>rr_ID := rid, rr_Enabled := True, rr_CreatedAt := now, rr_UpdatedAt := now\<rparr> in
                     case createRoutingRuleTransactional (ev_save env) y (deployXrayNode env) s2 of
                       (Some e, s3) \<Rightarrow>
                         (JsonError (if isRoutingDeploymentError e then 502 else 400) (err_msg e), s3)
                     | (None, s3) \<Rightarrow>
                         (JsonWrite 201 (RuleCreated y),
                          audit_now env r ''create'' (''routing:'' @ rr_Name y) s3)))))
      else (JsonError 405 ''method not allowed'', s))"

definition handleRoutingRuleItem ::
  "'w env \<Rightarrow> RoutingRule request \<Rightarrow> string \<Rightarrow> 'w Store \<Rightarrow> routing_payload response \<times> 'w Store" where
  "handleRoutingRuleItem env r path s =
     (let rid = TrimSlash (TrimSpace path) in
      if rq_Method r = ''GET'' then
        (case findRoutingRule (cloneState (store_st s)) rid of
           None \<Rightarrow> (JsonError 404 ''routing rule not found'', s)
         | Some x \<Rightarrow> (JsonWrite 200 (RuleOne x), s))
      else if rq_Method r = ''PUT'' then
        (if requireRole r ''admin'' \<noteq> None then (JsonError 403 ''forbidden'', s)
         else case rq_Body r of
           Inl e \<Rightarrow> (JsonError 400 (err_msg e), s)
         | Inr body \<Rightarrow>
             (case normalizeRoutingRule body of
                Inl e \<Rightarrow> (JsonError 400 (err_msg e), s)
              | Inr x \<Rightarrow>
                  (case effect (ev_Now env) s of (now, s1) \<Rightarrow>
                     (case updateRoutingRuleTransactional (ev_save env) now rid x (deployXrayNode env) s1 of
                        (Some e, s2) \<Rightarrow>
                          (JsonError (if isRoutingDeploymentError e then 502
                                      else if err_msg e = ''routing rule not found'' then 404 else 400)
                             (err_msg e), s2)
                      | (None, s2) \<Rightarrow>
                          (JsonWrite 200 RuleOK, audit_now env r ''update'' (''routing:'' @ rid) s2)))))
      else if rq_Method r = ''DELETE'' then
        (if requireRole r ''admin'' \<noteq> None then (JsonError 403 ''forbidden'', s)
         else case deleteRoutingRuleTransactional (ev_save env) rid (deployXrayNode env) s of
           (Some e, s1) \<Rightarrow>
             (JsonError (if isRoutingDeploymentError e then 502
                         else if err_msg e = ''routing rule not found'' then 404 else 409)
                (err_msg e), s1)
         | (None, s1) \<Rightarrow>
             (JsonWrite 200 RuleOK, audit_now env r ''delete'' (''routing:'' @ rid) s1))
      else (JsonError 405 ''method not allowed'', s))"

section \<open>Lemmas\<close>

text \<open>Each write is an update of the one table, so the undo is that table's rollback.\<close>

lemma updRoutingRule_eq: "updRoutingRule rid f st = st_RoutingRules_update (upd_row rr_ID rid f) st"
  by (cases st) (simp add: updRoutingRule_def)

lemma create_rule_update_Inr:
  "create_rule_update rule st = Inr st' \<longleftrightarrow>
   validateRoutingReferences st rule = None \<and> st' = st_RoutingRules_update (\<lambda>xs. xs @ [rule]) st"
  by (auto simp: create_rule_update_def split: option.split)

lemma create_rule_undo_eq:
  "create_rule_undo rule st = Inr (st_RoutingRules_update (\<lambda>xs. deleteByID xs (rr_ID rule) rr_ID) st)"
  by (simp add: create_rule_undo_def)

lemma update_rule_update_Inr:
  assumes "update_rule_update now rid r0 st = Inr (v, st')"
  shows "findRoutingRule st rid = Some (fst v) \<and> fst (snd v) = rr_NodeID (fst v) \<and> snd (snd v) = rr_NodeID r0 \<and>
         (\<exists>r. r = r0\<lparr>rr_ID := rid, rr_CreatedAt := rr_CreatedAt (fst v), rr_UpdatedAt := now\<rparr> \<and>
              rr_ID r = rid \<and> validateRoutingReferences st r = None \<and>
              st' = st_RoutingRules_update (upd_row rr_ID rid (\<lambda>_. r)) st)"
  using assms
  by (auto simp: update_rule_update_def Let_def updRoutingRule_def findRoutingRule_def
      dest: find_row_Some split: option.splits)

lemma update_rule_undo_Inr:
  "update_rule_undo rid before st = Inr st' \<Longrightarrow>
   st' = st_RoutingRules_update (upd_row rr_ID rid (\<lambda>_. before)) st"
  by (auto simp: update_rule_undo_def updRoutingRule_def split: option.splits)

lemma delete_rule_update_Inr:
  assumes "delete_rule_update rid st = Inr (v, st')"
  shows "findRoutingRule st rid = Some (fst v) \<and>
         fst (snd v) = index_of (\<lambda>r. rr_ID r = rid) (st_RoutingRules st) \<and>
         snd (snd v) = rr_NodeID (fst v) \<and> st' = st_RoutingRules_update (\<lambda>xs. deleteByID xs rid rr_ID) st"
  using assms by (auto simp: delete_rule_update_def split: option.splits)

lemma delete_rule_undo_eq:
  "delete_rule_undo rid before index st =
   Inr (st_RoutingRules_update (reinsert_row rr_ID zero_rule rid index before) st)"
  by (simp add: delete_rule_undo_def)

lemma redeployRoutingNodes_view:
  "xray_view (store_st (snd (redeployRoutingNodes ns (deployXrayNode env) s))) = xray_view (store_st s)"
  unfolding redeployRoutingNodes_def by (rule xray.redeploy_view)

section \<open>Properties\<close>

text \<open>
  Creating a rule is all or nothing. Either it is refused, by the reference check or by the
  save, and the state is untouched; or the rule, whose references are valid, was appended, and then
  the node took its deployment, or the deployment error came back and everything but the status and
  the generated secrets of inbounds is as before (as if appended, when the undo could not be saved).
\<close>

lemma create_rule_atomic:
  assumes "createRoutingRuleTransactional save rule (deployXrayNode env) s = (r, s')"
    and new: "rr_ID rule \<notin> rr_ID ` set (st_RoutingRules (store_st s))"
  shows "tx_refused save (capture_none (create_rule_update rule)) s r (store_st s') \<or>
         validateRoutingReferences (store_st s) rule = None \<and>
         tx_run xray_view RoutingDeploymentError [rr_NodeID rule] (store_st s)
           (st_RoutingRules_update (\<lambda>xs. xs @ [rule]) (store_st s)) r (store_st s')"
proof -
  have "tx_refused save (capture_none (create_rule_update rule)) s r (store_st s') \<or>
      (\<exists>st1. create_rule_update rule (store_st s) = Inr st1 \<and>
             tx_run xray_view RoutingDeploymentError [rr_NodeID rule] (store_st s) st1 r (store_st s'))"
    by (rule rules_tx.create_tx [OF assms(1) [unfolded createRoutingRuleTransactional_def]
          xray.deploy_view new]) (simp_all add: create_rule_update_Inr create_rule_undo_eq)
  then show ?thesis by (simp add: create_rule_update_Inr)
qed

definition sample_store :: "State \<Rightarrow> nat Store" where
  "sample_store st = \<lparr>store_st = st, store_world = 0\<rparr>"

lemma sample_create_rule:
  "fst (createRoutingRuleTransactional (ev_save sample_env) sample_rule (deployXrayNode sample_env)
          (sample_store sample_net)) = None"
  by code_simp

text \<open>The node takes the deployment, so the rule is in the table.\<close>

lemma create_rule_atomic_witness:
  "st_RoutingRules (store_st (snd (createRoutingRuleTransactional (ev_save sample_env) sample_rule
     (deployXrayNode sample_env) (sample_store sample_net)))) = [sample_rule]"
proof -
  obtain s' where run: "createRoutingRuleTransactional (ev_save sample_env) sample_rule
      (deployXrayNode sample_env) (sample_store sample_net) = (None, s')"
    using sample_create_rule by (metis prod.collapse)
  have "rr_ID sample_rule \<notin> rr_ID ` set (st_RoutingRules (store_st (sample_store sample_net)))"
    by (simp add: sample_store_def sample_net_def emptyState_def)
  from create_rule_atomic [OF run this] have
    "xray_view (store_st s') = xray_view (st_RoutingRules_update (\<lambda>xs. xs @ [sample_rule]) sample_net)"
    by (simp add: tx_refused_def tx_run_def sample_store_def)
  from view_tables(1) [OF this] show ?thesis
    unfolding run snd_conv by (simp add: sample_net_def emptyState_def)
qed


lemma sample_update_rule:
  "fst (updateRoutingRuleTransactional (ev_save sample_env) 7 ''r1'' (sample_rule\<lparr>rr_Enabled := False\<rparr>)
          (deployXrayNode sample_env) (sample_store sample_routed)) = None"
  by code_simp


text \<open>
  Deleting a rule is all or nothing, and the undo of a failed deployment puts the rule back in
  its place in the table, when the IDs of the table are distinct.
\<close>

lemma delete_rule_atomic:
  assumes "deleteRoutingRuleTransactional save rid (deployXrayNode env) s = (r, s')"
    and ids: "distinct (map rr_ID (st_RoutingRules (store_st s)))"
  shows "tx_refused save (delete_rule_update rid) s r (store_st s') \<or>
         (\<exists>before. findRoutingRule (store_st s) rid = Some before \<and>
            tx_run xray_view RoutingDeploymentError [rr_NodeID before] (store_st s)
              (st_RoutingRules_update (\<lambda>xs. deleteByID xs rid rr_ID) (store_st s)) r (store_st s'))"
proof -
  let ?st = "store_st s"
  have run: "(case Update save (delete_rule_update rid) s of
      (Inl e, s1) \<Rightarrow> (Some e, s1)
    | (Inr v, s1) \<Rightarrow>
        deploy_or_rollback RoutingDeploymentError save (deployXrayNode env)
          (deployXrayNode env (snd (snd v))) (delete_rule_undo rid (fst v) (fst (snd v))) [snd (snd v)] s1)
      = (r, s')"
    using assms(1) unfolding deleteRoutingRuleTransactional_def
    by (auto split: prod.splits sum.splits)
  have "tx_refused save (delete_rule_update rid) s r (store_st s') \<or>
      (\<exists>v st1. delete_rule_update rid ?st = Inr (v, st1) \<and>
               tx_run xray_view RoutingDeploymentError [snd (snd v)] ?st st1 r (store_st s'))"
  proof (rule rules_tx.delete_tx [OF run xray.deploy_view ids, where old = fst and index = "\<lambda>v. fst (snd v)"])
    fix v st1 assume "delete_rule_update rid ?st = Inr (v, st1)"
    from delete_rule_update_Inr [OF this] show "find_row rr_ID (st_RoutingRules ?st) rid = Some (fst v) \<and>
        fst (snd v) = index_of (\<lambda>y. rr_ID y = rid) (st_RoutingRules ?st) \<and>
        st1 = st_RoutingRules_update (\<lambda>xs. deleteByID xs rid rr_ID) ?st"
      unfolding findRoutingRule_def by simp
  qed (simp add: delete_rule_undo_eq)
  then show ?thesis
  proof (elim disjE exE conjE)
    fix v st1
    assume u: "delete_rule_update rid ?st = Inr (v, st1)"
      and t: "tx_run xray_view RoutingDeploymentError [snd (snd v)] ?st st1 r (store_st s')"
    from delete_rule_update_Inr [OF u] t show ?thesis by simp
  qed blast
qed

lemma sample_delete_rule:
  "fst (deleteRoutingRuleTransactional (ev_save sample_env) ''r1'' (deployXrayNode sample_env)
          (sample_store sample_routed)) = None"
  by code_simp

lemma delete_rule_atomic_witness:
  "st_RoutingRules (store_st (snd (deleteRoutingRuleTransactional (ev_save sample_env) ''r1''
     (deployXrayNode sample_env) (sample_store sample_routed)))) = []"
proof -
  obtain s' where run: "deleteRoutingRuleTransactional (ev_save sample_env) ''r1''
      (deployXrayNode sample_env) (sample_store sample_routed) = (None, s')"
    using sample_delete_rule by (metis prod.collapse)
  have "distinct (map rr_ID (st_RoutingRules (store_st (sample_store sample_routed))))"
    by (simp add: sample_store_def sample_routed_def)
  from delete_rule_atomic [OF run this] have
    "xray_view (store_st s') = xray_view (st_RoutingRules_update (\<lambda>xs. deleteByID xs ''r1'' rr_ID) sample_routed)"
    by (auto simp: tx_refused_def tx_run_def sample_store_def)
  from view_tables(1) [OF this] show ?thesis
    unfolding run snd_conv by (simp add: deleteByID_def sample_routed_def sample_rule_def)
qed

end
