(* ===== verification/OutboundTx.thy ===== *)
theory OutboundTx
  imports RoutingTx
begin

text \<open>
  The operations on outbounds, src/internal/panel/outbound_control.go: the four transactions, the
  summary, and the handlers of /api/outbounds with their treatment of credentials. As in
  RoutingTx, the transactions take the deployment as the code does, and the properties are about
  the one the handlers pass, deployOutboundNode.
\<close>

definition cloneOutboundValue :: "Outbound \<Rightarrow> Outbound" where
  "cloneOutboundValue x = x"

definition outboundDeployOrder :: "string \<Rightarrow> string \<Rightarrow> string list" where
  "outboundDeployOrder = deployOrder"

definition redeployOutboundNodes :: "string list \<Rightarrow> 'w deployer \<Rightarrow> 'w Store \<Rightarrow> 'w tx" where
  "redeployOutboundNodes = redeployNodes"

fun isOutboundDeploymentError :: "go_error \<Rightarrow> bool" where
  "isOutboundDeploymentError (OutboundDeploymentError m) = True"
| "isOutboundDeploymentError e = False"

section \<open>Create\<close>

definition create_outbound_update :: "Outbound \<Rightarrow> State \<Rightarrow> go_error + State" where
  "create_outbound_update obj st =
     (case validateOutboundTargetSpec st [] (out_Name obj) (out_NodeID obj) (out_Tag obj) of
        Some e \<Rightarrow> Inl e
      | None \<Rightarrow> Inr (st\<lparr>st_Outbounds := st_Outbounds st @ [obj]\<rparr>))"

definition create_outbound_undo :: "Outbound \<Rightarrow> State \<Rightarrow> go_error + State" where
  "create_outbound_undo obj st =
     Inr (st\<lparr>st_Outbounds := deleteByID (st_Outbounds st) (out_ID obj) out_ID\<rparr>)"

definition createOutboundTransactional ::
  "'w saver \<Rightarrow> Outbound \<Rightarrow> 'w deployer \<Rightarrow> 'w Store \<Rightarrow> 'w tx" where
  "createOutboundTransactional save obj deploy s =
     (case UpdateE save (create_outbound_update obj) s of
        (Some e, s1) \<Rightarrow> (Some e, s1)
      | (None, s1) \<Rightarrow>
          deploy_or_rollback OutboundDeploymentError save deploy (deploy (out_NodeID obj))
            (create_outbound_undo obj) [out_NodeID obj] s1)"

section \<open>Update\<close>

definition apply_outbound_input :: "time \<Rightarrow> string \<Rightarrow> outboundInput \<Rightarrow> Outbound \<Rightarrow> Outbound" where
  "apply_outbound_input now passwordEnc i x =
     x\<lparr>out_Name := oi_Name i, out_NodeID := oi_NodeID i, out_Tag := oi_Tag i,
       out_Protocol := oi_Protocol i, out_Address := oi_Address i, out_Port := oi_Port i,
       out_Username := oi_Username i, out_PasswordEnc := passwordEnc,
       out_Transport := oi_Transport i, out_TLSMode := oi_TLSMode i, out_Path := oi_Path i,
       out_Host := oi_Host i, out_ServiceName := oi_ServiceName i, out_ServerName := oi_ServerName i,
       out_AllowInsecure := oi_AllowInsecure i, out_Fingerprint := oi_Fingerprint i,
       out_Flow := oi_Flow i, out_ShadowsocksMethod := oi_ShadowsocksMethod i,
       out_RealityPublicKey := oi_RealityPublicKey i, out_RealityShortID := oi_RealityShortID i,
       out_WireGuardInterface := oi_WireGuardInterface i, out_WireGuardAddress := oi_WireGuardAddress i,
       out_WireGuardPeerPublicKey := oi_WireGuardPeerPublicKey i,
       out_WireGuardAllowedIPs := oi_WireGuardAllowedIPs i,
       out_WireGuardKeepalive := oi_WireGuardKeepalive i, out_WireGuardMTU := oi_WireGuardMTU i,
       out_TorSOCKSPort := oi_TorSOCKSPort i, out_OpenVPNInterface := oi_OpenVPNInterface i,
       out_OpenVPNRoutingTable := oi_OpenVPNRoutingTable i, out_OpenVPNMark := oi_OpenVPNMark i,
       out_CustomXrayProtocol := oi_CustomXrayProtocol i, out_HealthStatus := ''unknown'',
       out_HealthLatencyMS := 0, out_HealthLastCheckedAt := None, out_HealthLastSuccessAt := None,
       out_HealthLastError := [], out_HealthFailureCount := 0, out_HealthTarget := [],
       out_Enabled := oi_Enabled i, out_Remark := oi_Remark i, out_UpdatedAt := now\<rparr>"

definition update_outbound_update ::
  "time \<Rightarrow> string \<Rightarrow> outboundInput \<Rightarrow> string \<Rightarrow> State \<Rightarrow> go_error + (Outbound \<times> string \<times> string) \<times> State" where
  "update_outbound_update now rid i passwordEnc st =
     (case findOutbound st rid of
        None \<Rightarrow> Inl (Plain ''outbound not found'')
      | Some x \<Rightarrow>
          (case validateOutboundTargetSpec st rid (oi_Name i) (oi_NodeID i) (oi_Tag i) of
             Some e \<Rightarrow> Inl e
           | None \<Rightarrow>
               (case validateOutboundGroupReferencesForChange st rid (oi_NodeID i) (oi_Enabled i) of
                  Some e \<Rightarrow> Inl e
                | None \<Rightarrow>
                    Inr ((cloneOutboundValue x, out_NodeID x, oi_NodeID i),
                         updOutbound rid (apply_outbound_input now passwordEnc i) st))))"

definition update_outbound_undo :: "string \<Rightarrow> Outbound \<Rightarrow> State \<Rightarrow> go_error + State" where
  "update_outbound_undo rid before st =
     (case findOutbound st rid of
        None \<Rightarrow> Inl (Plain ''outbound disappeared during rollback'')
      | Some _ \<Rightarrow> Inr (updOutbound rid (\<lambda>_. before) st))"

definition updateOutboundTransactional ::
  "'w saver \<Rightarrow> time \<Rightarrow> string \<Rightarrow> outboundInput \<Rightarrow> string \<Rightarrow> 'w deployer \<Rightarrow> 'w Store \<Rightarrow> 'w tx" where
  "updateOutboundTransactional save now rid i passwordEnc deploy s =
     (case Update save (update_outbound_update now rid i passwordEnc) s of
        (Inl e, s1) \<Rightarrow> (Some e, s1)
      | (Inr (before, oldNodeID, newNodeID), s1) \<Rightarrow>
          let nodes = outboundDeployOrder oldNodeID newNodeID in
          deploy_or_rollback OutboundDeploymentError save deploy (redeployOutboundNodes nodes deploy)
            (update_outbound_undo rid before) nodes s1)"

section \<open>Enable and disable\<close>

text \<open>The clock is read when the transaction starts and again for the undo.\<close>

definition set_outbound_update ::
  "time \<Rightarrow> string \<Rightarrow> bool \<Rightarrow> State \<Rightarrow> go_error + (bool \<times> string) \<times> State" where
  "set_outbound_update now rid enabled st =
     (case findOutbound st rid of
        None \<Rightarrow> Inl (Plain ''outbound not found'')
      | Some x \<Rightarrow>
          (case (if enabled
                 then validateOutboundTargetSpec st rid (out_Name x) (out_NodeID x) (out_Tag x)
                 else if list_ex (\<lambda>rr. rr_Enabled rr \<and> rr_OutboundID rr = rid) (st_RoutingRules st)
                   then Some (Plain ''outbound is used by an enabled routing rule'')
                 else validateOutboundGroupReferencesForChange st rid (out_NodeID x) False) of
             Some e \<Rightarrow> Inl e
           | None \<Rightarrow>
               Inr ((out_Enabled x, out_NodeID x),
                    updOutbound rid (\<lambda>x. x\<lparr>out_Enabled := enabled, out_UpdatedAt := now\<rparr>) st)))"

definition set_outbound_undo :: "time \<Rightarrow> string \<Rightarrow> bool \<Rightarrow> State \<Rightarrow> go_error + State" where
  "set_outbound_undo now rid before st =
     (case findOutbound st rid of
        None \<Rightarrow> Inl (Plain ''outbound disappeared during rollback'')
      | Some _ \<Rightarrow> Inr (updOutbound rid (\<lambda>x. x\<lparr>out_Enabled := before, out_UpdatedAt := now\<rparr>) st))"

definition setOutboundEnabledTransactional ::
  "'w env \<Rightarrow> string \<Rightarrow> bool \<Rightarrow> 'w deployer \<Rightarrow> 'w Store \<Rightarrow> 'w tx" where
  "setOutboundEnabledTransactional env rid enabled deploy s =
     (case effect (ev_Now env) s of (now, s0) \<Rightarrow>
      (case Update (ev_save env) (set_outbound_update now rid enabled) s0 of
         (Inl e, s1) \<Rightarrow> (Some e, s1)
       | (Inr (before, nodeID), s1) \<Rightarrow>
           (case deploy nodeID s1 of
              (None, s2) \<Rightarrow> (None, s2)
            | (Some e, s2) \<Rightarrow>
                (case effect (ev_Now env) s2 of (now', s3) \<Rightarrow>
                 (case UpdateE (ev_save env) (set_outbound_undo now' rid before) s3 of (rollbackErr, s4) \<Rightarrow>
                  (case deploy nodeID s4 of (recoveryErr, s5) \<Rightarrow>
                     (Some (OutboundDeploymentError (deployment_failure nodeID e rollbackErr recoveryErr)), s5)))))))"

section \<open>Delete\<close>

definition delete_outbound_update ::
  "string \<Rightarrow> State \<Rightarrow> go_error + (Outbound \<times> int \<times> string) \<times> State" where
  "delete_outbound_update rid st =
     (case findOutbound st rid of
        None \<Rightarrow> Inl (Plain ''outbound not found'')
      | Some x \<Rightarrow>
          if list_ex (\<lambda>rr. rr_OutboundID rr = rid) (st_RoutingRules st)
            then Inl (Plain ''outbound is used by a routing rule'')
          else (case validateOutboundGroupReferencesForChange st rid (out_NodeID x) False of
                  Some e \<Rightarrow> Inl e
                | None \<Rightarrow>
                    Inr ((x, index_of (\<lambda>y. out_ID y = rid) (st_Outbounds st), out_NodeID x),
                         st\<lparr>st_Outbounds := deleteByID (st_Outbounds st) rid out_ID\<rparr>)))"

definition zero_outbound :: Outbound where
  "zero_outbound =
     \<lparr>out_ID = [], out_Name = [], out_NodeID = [], out_Tag = [], out_Protocol = [], out_Address = [],
      out_Port = 0, out_Username = [], out_PasswordEnc = [], out_Transport = [], out_TLSMode = [],
      out_Path = [], out_Host = [], out_ServiceName = [], out_ServerName = [],
      out_AllowInsecure = False, out_Fingerprint = [], out_Flow = [], out_ShadowsocksMethod = [],
      out_RealityPublicKey = [], out_RealityShortID = [], out_WireGuardInterface = [],
      out_WireGuardAddress = [], out_WireGuardPeerPublicKey = [], out_WireGuardAllowedIPs = [],
      out_WireGuardKeepalive = 0, out_WireGuardMTU = 0, out_TorSOCKSPort = 0,
      out_OpenVPNInterface = [], out_OpenVPNRoutingTable = 0, out_OpenVPNMark = 0,
      out_CustomXrayProtocol = [], out_HealthStatus = [], out_HealthLatencyMS = 0,
      out_HealthLastCheckedAt = None, out_HealthLastSuccessAt = None, out_HealthLastError = [],
      out_HealthFailureCount = 0, out_HealthTarget = [], out_Enabled = False, out_Remark = [],
      out_CreatedAt = 0, out_UpdatedAt = 0\<rparr>"

definition delete_outbound_undo :: "string \<Rightarrow> Outbound \<Rightarrow> int \<Rightarrow> State \<Rightarrow> go_error + State" where
  "delete_outbound_undo rid before index st =
     Inr (st\<lparr>st_Outbounds := reinsert_row out_ID zero_outbound rid index before (st_Outbounds st)\<rparr>)"

definition deleteOutboundTransactional ::
  "'w saver \<Rightarrow> string \<Rightarrow> 'w deployer \<Rightarrow> 'w Store \<Rightarrow> 'w tx" where
  "deleteOutboundTransactional save rid deploy s =
     (case Update save (delete_outbound_update rid) s of
        (Inl e, s1) \<Rightarrow> (Some e, s1)
      | (Inr (before, index, nodeID), s1) \<Rightarrow>
          deploy_or_rollback OutboundDeploymentError save deploy (deploy nodeID)
            (delete_outbound_undo rid before index) [nodeID] s1)"

section \<open>The summary\<close>

record outbound_summary =
  os_outbound :: Outbound
  os_routing_rules :: nat
  os_enabled_rules :: nat
  os_node_status :: string
  os_node_enabled :: bool
  os_node_maintenance :: bool
  os_health_status :: string
  os_health_ready :: bool
  os_ready :: bool

definition outboundSummary :: "State \<Rightarrow> string \<Rightarrow> go_error + outbound_summary" where
  "outboundSummary st rid =
     (case findOutbound st rid of
        None \<Rightarrow> Inl (Plain ''outbound not found'')
      | Some x \<Rightarrow>
          let node = findNode st (out_NodeID x);
              rules = filter (\<lambda>rr. rr_OutboundID rr = rid) (st_RoutingRules st);
              health = normalizeOutboundHealthStatus (out_HealthStatus x)
          in Inr \<lparr>os_outbound = x, os_routing_rules = length rules,
                  os_enabled_rules = length (filter rr_Enabled rules),
                  os_node_status = (case node of None \<Rightarrow> ''unknown'' | Some n \<Rightarrow> n_Status n),
                  os_node_enabled = (case node of None \<Rightarrow> False | Some n \<Rightarrow> n_Enabled n),
                  os_node_maintenance = (case node of None \<Rightarrow> False | Some n \<Rightarrow> n_Maintenance n),
                  os_health_status = health,
                  os_health_ready = (out_Enabled x \<and> health = ''healthy''),
                  os_ready = (out_Enabled x \<and>
                    (case node of None \<Rightarrow> False | Some n \<Rightarrow> n_Enabled n \<and> \<not> n_Maintenance n))\<rparr>)"

section \<open>Credentials\<close>

text \<open>An answer that is an error: its status and message.\<close>

type_synonym http_error = "nat \<times> string"

definition seal :: "'w env \<Rightarrow> string \<Rightarrow> 'w Store \<Rightarrow> (http_error + string) \<times> 'w Store" where
  "seal env plain s =
     (case effect (ev_Seal env plain) s of
        (Inl e, s1) \<Rightarrow> (Inl (500, err_msg e), s1) | (Inr enc, s1) \<Rightarrow> (Inr enc, s1))"

definition create_secret :: "'w env \<Rightarrow> outboundInput \<Rightarrow> http_error + string" where
  "create_secret env i =
     (if oi_Protocol i = ''openvpn'' \<and> TrimSpace (oi_Secret i) = []
        then Inl (400, ''openvpn secret must contain the .ovpn profile'')
      else case (if oi_Protocol i = ''openvpn''
                 then encodeOpenVPNCredential env (oi_Secret i) (oi_Password i)
                 else Inr (outboundInputSecret i)) of
             Inl e \<Rightarrow> Inl (400, err_msg e)
           | Inr secret \<Rightarrow>
               if oi_Protocol i = ''custom'' \<and> TrimSpace (oi_Secret i) = []
                 then Inl (400, ''custom xray secret must contain the outbound JSON config'')
               else if outboundProtocolNeedsSecret (oi_Protocol i) \<and> secret = []
                 then Inl (400, ''credential is required for selected outbound protocol'')
               else Inr secret)"

definition existing_credential :: "'w env \<Rightarrow> Outbound \<Rightarrow> http_error + openVPNCredential" where
  "existing_credential env old =
     (if out_Protocol old = ''openvpn'' \<and> out_PasswordEnc old \<noteq> []
      then case ev_Open env (out_PasswordEnc old) of
             Inl e \<Rightarrow> Inl (500, err_msg e)
           | Inr plain \<Rightarrow>
               (case decodeOpenVPNCredential env plain of
                  Inl e \<Rightarrow> Inl (500, err_msg e) | Inr c \<Rightarrow> Inr c)
      else Inr \<lparr>ovc_Profile = [], ovc_Password = []\<rparr>)"

definition update_openvpn_secret ::
  "'w env \<Rightarrow> Outbound \<Rightarrow> outboundInput \<Rightarrow> 'w Store \<Rightarrow> (http_error + string) \<times> 'w Store" where
  "update_openvpn_secret env old i s =
     (case existing_credential env old of
        Inl e \<Rightarrow> (Inl e, s)
      | Inr existing \<Rightarrow>
          let given = TrimSpace (oi_Secret i);
              profile = (if given = [] then ovc_Profile existing else given);
              authPassword = (if oi_Password i = [] then ovc_Password existing else oi_Password i)
          in if profile = []
             then (Inl (400, ''openvpn secret must contain the .ovpn profile''), s)
             else (case encodeOpenVPNCredential env profile authPassword of
                    Inl e \<Rightarrow> (Inl (400, err_msg e), s)
                  | Inr packed \<Rightarrow> seal env packed s))"

text \<open>The stored credential after an update, and the input, whose custom protocol may be restored.\<close>

definition update_secret ::
  "'w env \<Rightarrow> Outbound \<Rightarrow> outboundInput \<Rightarrow> 'w Store \<Rightarrow> (http_error + string \<times> outboundInput) \<times> 'w Store" where
  "update_secret env old i s =
     (let secret = outboundInputSecret i;
          keep = (\<lambda>j r. case r of (Inl e, s1) \<Rightarrow> (Inl e, s1) | (Inr enc, s1) \<Rightarrow> (Inr (enc, j), s1))
      in if oi_Protocol i = ''openvpn'' then keep i (update_openvpn_secret env old i s)
         else if oi_Protocol i = ''custom'' then
           (if secret = []
            then if out_Protocol old \<noteq> ''custom'' \<or> out_PasswordEnc old = []
                 then (Inl (400, ''custom xray secret must contain the outbound JSON config''), s)
                 else (Inr (out_PasswordEnc old,
                            i\<lparr>oi_CustomXrayProtocol := out_CustomXrayProtocol old\<rparr>), s)
            else keep i (seal env secret s))
         else if secret \<noteq> [] then keep i (seal env secret s)
         else (Inr (if out_Protocol old \<noteq> oi_Protocol i then [] else out_PasswordEnc old, i), s))"

section \<open>The handlers\<close>

datatype outbound_payload =
    OutboundList "Outbound list" | OutboundOne Outbound | OutboundCreated Outbound
  | OutboundView json | OutboundSummary outbound_summary | OutboundOK

definition new_outbound :: "string \<Rightarrow> time \<Rightarrow> time \<Rightarrow> string \<Rightarrow> outboundInput \<Rightarrow> Outbound" where
  "new_outbound rid created updated passwordEnc i =
     (apply_outbound_input updated passwordEnc i zero_outbound)
       \<lparr>out_ID := rid, out_Enabled := True, out_CreatedAt := created\<rparr>"

definition outbound_error :: "nat \<Rightarrow> go_error \<Rightarrow> outbound_payload response" where
  "outbound_error missing e =
     JsonError (if isOutboundDeploymentError e then 502
                else if err_msg e = ''outbound not found'' then missing else 409) (err_msg e)"

definition handleOutboundsV2 ::
  "'w env \<Rightarrow> outboundInput request \<Rightarrow> 'w Store \<Rightarrow> outbound_payload response \<times> 'w Store" where
  "handleOutboundsV2 env r s =
     (if rq_Method r = ''GET'' then (JsonWrite 200 (OutboundList (st_Outbounds (cloneState (store_st s)))), s)
      else if rq_Method r = ''POST'' then
        (if requireRole r ''admin'' \<noteq> None then (JsonError 403 ''forbidden'', s)
         else (case rq_Body r of
           Inl e \<Rightarrow> (JsonError 400 (err_msg e), s)
         | Inr body \<Rightarrow>
             (case normalizeOutboundInput env body of
                Inl e \<Rightarrow> (JsonError 400 (err_msg e), s)
              | Inr i \<Rightarrow>
                  (case create_secret env i of
                     Inl (code, msg) \<Rightarrow> (JsonError code msg, s)
                   | Inr secret \<Rightarrow>
                       (case (if secret = [] then (Inr [], s) else seal env secret s) of
                          (Inl (code, msg), s1) \<Rightarrow> (JsonError code msg, s1)
                        | (Inr enc, s1) \<Rightarrow>
                            (case randomHex env 12 s1 of (rid, s2) \<Rightarrow>
                            (case effect (ev_Now env) s2 of (created, s3) \<Rightarrow>
                            (case effect (ev_Now env) s3 of (updated, s4) \<Rightarrow>
                               let obj = new_outbound rid created updated enc i in
                               (case createOutboundTransactional (ev_save env) obj (deployOutboundNode env) s4 of
                                 (Some e, s5) \<Rightarrow> (outbound_error 409 e, s5)
                               | (None, s5) \<Rightarrow>
                                   (JsonWrite 201 (OutboundCreated obj),
                                    audit_now env r ''create'' (''outbound:'' @ out_Name obj) s5))))))))))
      else (JsonError 405 ''method not allowed'', s))"

text \<open>The actions below an outbound; the prober is probeOutboundHealth with its decoder.\<close>

definition outbound_action ::
  "'w env \<Rightarrow> (string \<Rightarrow> go_error + outboundProbeResponse) \<Rightarrow> outboundInput request \<Rightarrow> string \<Rightarrow> string \<Rightarrow>
   'w Store \<Rightarrow> outbound_payload response \<times> 'w Store" where
  "outbound_action env decode r rid action s =
     (if action = ''summary'' then
        (if rq_Method r \<noteq> ''GET'' then (JsonError 405 ''method not allowed'', s)
         else case outboundSummary (cloneState (store_st s)) rid of
                Inl e \<Rightarrow> (JsonError 404 (err_msg e), s)
              | Inr out \<Rightarrow> (JsonWrite 200 (OutboundSummary out), s))
      else if action = ''health'' then
        (if rq_Method r \<noteq> ''GET'' then (JsonError 405 ''method not allowed'', s)
         else case findOutbound (cloneState (store_st s)) rid of
                None \<Rightarrow> (JsonError 404 ''outbound not found'', s)
              | Some x \<Rightarrow> (JsonWrite 200 (OutboundView (outboundHealthView x)), s))
      else if action \<in> {''probe'', ''enable'', ''disable'', ''redeploy''} then
        (if rq_Method r \<noteq> ''POST'' then (JsonError 405 ''method not allowed'', s)
         else if requireRole r ''operator'' \<noteq> None then (JsonError 403 ''forbidden'', s)
         else if action = ''probe'' then
           (case probeOutboundHealth env decode rid s of
              (Inl e, s1) \<Rightarrow> (outbound_error 404 (Plain (err_msg e)), s1)
            | (Inr out, s1) \<Rightarrow>
                (JsonWrite 200 (OutboundView (outboundHealthView out)),
                 audit_now env r ''probe'' (''outbound:'' @ rid) s1))
         else if action = ''redeploy'' then
           (case findOutbound (cloneState (store_st s)) rid of
              None \<Rightarrow> (JsonError 404 ''outbound not found'', s)
            | Some x \<Rightarrow>
                (case deployOutboundNode env (out_NodeID x) s of
                   (Some e, s1) \<Rightarrow> (JsonError 502 (err_msg e), s1)
                 | (None, s1) \<Rightarrow>
                     (JsonWrite 200 OutboundOK, audit_now env r ''redeploy'' (''outbound:'' @ rid) s1)))
         else
           (case setOutboundEnabledTransactional env rid (action = ''enable'') (deployOutboundNode env) s of
              (Some e, s1) \<Rightarrow> (outbound_error 404 e, s1)
            | (None, s1) \<Rightarrow>
                (JsonWrite 200 OutboundOK, audit_now env r action (''outbound:'' @ rid) s1)))
      else (JsonError 404 ''outbound action not found'', s))"

definition put_outbound ::
  "'w env \<Rightarrow> outboundInput request \<Rightarrow> string \<Rightarrow> 'w Store \<Rightarrow> outbound_payload response \<times> 'w Store" where
  "put_outbound env r rid s =
     (case rq_Body r of
        Inl e \<Rightarrow> (JsonError 400 (err_msg e), s)
      | Inr body \<Rightarrow>
          (case normalizeOutboundInput env body of
             Inl e \<Rightarrow> (JsonError 400 (err_msg e), s)
           | Inr i \<Rightarrow>
               (case findOutbound (cloneState (store_st s)) rid of
                  None \<Rightarrow> (JsonError 404 ''outbound not found'', s)
                | Some old \<Rightarrow>
                    (case update_secret env old i s of
                       (Inl (code, msg), s1) \<Rightarrow> (JsonError code msg, s1)
                     | (Inr (enc, j), s1) \<Rightarrow>
                         if outboundProtocolNeedsSecret (oi_Protocol j) \<and> enc = []
                         then (JsonError 400 ''credential is required for selected outbound protocol'', s1)
                         else
                           (case effect (ev_Now env) s1 of (now, s2) \<Rightarrow>
                            (case updateOutboundTransactional (ev_save env) now rid j enc
                                    (deployOutboundNode env) s2 of
                               (Some e, s3) \<Rightarrow> (outbound_error 404 e, s3)
                             | (None, s3) \<Rightarrow>
                                 (JsonWrite 200 OutboundOK,
                                  audit_now env r ''update'' (''outbound:'' @ rid) s3)))))))"

definition handleOutboundItemV2 ::
  "'w env \<Rightarrow> (string \<Rightarrow> go_error + outboundProbeResponse) \<Rightarrow> outboundInput request \<Rightarrow> string \<Rightarrow>
   'w Store \<Rightarrow> outbound_payload response \<times> 'w Store" where
  "handleOutboundItemV2 env decode r rest s =
     (case SplitSlash (TrimSlash (TrimSpace rest)) of
        [] \<Rightarrow> (JsonError 404 ''outbound not found'', s)
      | (rid # parts) \<Rightarrow>
          if rid = [] then (JsonError 404 ''outbound not found'', s)
          else (case parts of
            (action # _) \<Rightarrow> outbound_action env decode r rid action s
          | [] \<Rightarrow>
              if rq_Method r = ''GET'' then
                (case findOutbound (cloneState (store_st s)) rid of
                   None \<Rightarrow> (JsonError 404 ''outbound not found'', s)
                 | Some x \<Rightarrow> (JsonWrite 200 (OutboundOne x), s))
              else if rq_Method r = ''PUT'' then
                (if requireRole r ''admin'' \<noteq> None then (JsonError 403 ''forbidden'', s)
                 else put_outbound env r rid s)
              else if rq_Method r = ''DELETE'' then
                (if requireRole r ''admin'' \<noteq> None then (JsonError 403 ''forbidden'', s)
                 else case deleteOutboundTransactional (ev_save env) rid (deployOutboundNode env) s of
                        (Some e, s1) \<Rightarrow> (outbound_error 404 e, s1)
                      | (None, s1) \<Rightarrow>
                          (JsonWrite 200 OutboundOK, audit_now env r ''delete'' (''outbound:'' @ rid) s1))
              else (JsonError 405 ''method not allowed'', s)))"

section \<open>Lemmas\<close>

lemma redeployOutboundNodes_view:
  "xray_view (store_st (snd (redeployOutboundNodes ns (deployOutboundNode env) s))) = xray_view (store_st s)"
  unfolding redeployOutboundNodes_def by (rule native.redeploy_view)

lemma updOutbound_eq: "updOutbound rid f st = st_Outbounds_update (upd_row out_ID rid f) st"
  by (cases st) (simp add: updOutbound_def)

lemma apply_outbound_input_ID [simp]: "out_ID (apply_outbound_input now enc i x) = out_ID x"
  by (simp add: apply_outbound_input_def)

lemma create_outbound_update_Inr:
  "create_outbound_update obj st = Inr st' \<longleftrightarrow>
   validateOutboundTargetSpec st [] (out_Name obj) (out_NodeID obj) (out_Tag obj) = None \<and>
   st' = st_Outbounds_update (\<lambda>xs. xs @ [obj]) st"
  by (auto simp: create_outbound_update_def split: option.split)

lemma update_outbound_update_Inr:
  assumes "update_outbound_update now rid i enc st = Inr (v, st')"
  shows "findOutbound st rid = Some (fst v) \<and> fst (snd v) = out_NodeID (fst v) \<and> snd (snd v) = oi_NodeID i \<and>
         validateOutboundTargetSpec st rid (oi_Name i) (oi_NodeID i) (oi_Tag i) = None \<and>
         validateOutboundGroupReferencesForChange st rid (oi_NodeID i) (oi_Enabled i) = None \<and>
         st' = st_Outbounds_update (upd_row out_ID rid (apply_outbound_input now enc i)) st"
  using assms
  by (auto simp: update_outbound_update_def cloneOutboundValue_def updOutbound_eq split: option.splits)

lemma update_outbound_undo_Inr:
  "update_outbound_undo rid before st = Inr st' \<Longrightarrow>
   st' = st_Outbounds_update (upd_row out_ID rid (\<lambda>_. before)) st"
  by (auto simp: update_outbound_undo_def updOutbound_eq split: option.splits)

lemma delete_outbound_update_Inr:
  assumes "delete_outbound_update rid st = Inr (v, st')"
  shows "findOutbound st rid = Some (fst v) \<and>
         fst (snd v) = index_of (\<lambda>y. out_ID y = rid) (st_Outbounds st) \<and>
         snd (snd v) = out_NodeID (fst v) \<and>
         rid \<notin> rr_OutboundID ` set (st_RoutingRules st) \<and>
         validateOutboundGroupReferencesForChange st rid (out_NodeID (fst v)) False = None \<and>
         st' = st_Outbounds_update (\<lambda>xs. deleteByID xs rid out_ID) st"
  using assms
  by (auto simp: delete_outbound_update_def list_ex_iff split: option.splits if_splits)

lemma delete_outbound_undo_eq:
  "delete_outbound_undo rid before index st =
   Inr (st_Outbounds_update (reinsert_row out_ID zero_outbound rid index before) st)"
  by (simp add: delete_outbound_undo_def)

lemma set_outbound_update_Inr:
  assumes "set_outbound_update now rid enabled st = Inr (v, st')"
  shows "\<exists>x. findOutbound st rid = Some x \<and> v = (out_Enabled x, out_NodeID x) \<and>
         (enabled \<longrightarrow> validateOutboundTargetSpec st rid (out_Name x) (out_NodeID x) (out_Tag x) = None) \<and>
         (\<not> enabled \<longrightarrow>
            (\<forall>rr \<in> set (st_RoutingRules st). rr_Enabled rr \<longrightarrow> rr_OutboundID rr \<noteq> rid) \<and>
            validateOutboundGroupReferencesForChange st rid (out_NodeID x) False = None) \<and>
         st' = st_Outbounds_update
                 (upd_row out_ID rid (\<lambda>x. x\<lparr>out_Enabled := enabled, out_UpdatedAt := now\<rparr>)) st"
  using assms
  by (auto simp: set_outbound_update_def updOutbound_eq list_ex_iff split: option.splits if_splits)

text \<open>No group refers to an outbound that passed the group check of a deletion.\<close>

lemma group_refs_gone:
  "validateOutboundGroupReferencesForChange st rid n False = None \<longleftrightarrow>
   (\<forall>g \<in> set (st_OutboundGroups st). \<not> group_references g rid)"
  by (simp add: validateOutboundGroupReferencesForChange_def groupRefs_None)

lemma update_outbound_tx:
  assumes "updateOutboundTransactional save now rid i enc (deployOutboundNode env) s = (r, s')"
  shows "tx_refused save (update_outbound_update now rid i enc) s r (store_st s') \<or>
         (\<exists>before. findOutbound (store_st s) rid = Some before \<and>
            validateOutboundTargetSpec (store_st s) rid (oi_Name i) (oi_NodeID i) (oi_Tag i) = None \<and>
            validateOutboundGroupReferencesForChange (store_st s) rid (oi_NodeID i) (oi_Enabled i) = None \<and>
            tx_run xray_view OutboundDeploymentError (outboundDeployOrder (out_NodeID before) (oi_NodeID i))
              (store_st s) (updOutbound rid (apply_outbound_input now enc i) (store_st s)) r (store_st s'))"
proof -
  let ?st = "store_st s"
  let ?nodes = "\<lambda>v. outboundDeployOrder (fst (snd v)) (snd (snd v))"
  have run: "(case Update save (update_outbound_update now rid i enc) s of
      (Inl e, s1) \<Rightarrow> (Some e, s1)
    | (Inr v, s1) \<Rightarrow>
        deploy_or_rollback OutboundDeploymentError save (deployOutboundNode env)
          (redeployOutboundNodes (?nodes v) (deployOutboundNode env)) (update_outbound_undo rid (fst v))
          (?nodes v) s1) = (r, s')"
    using assms unfolding updateOutboundTransactional_def Let_def
    by (auto split: prod.splits sum.splits)
  have "tx_refused save (update_outbound_update now rid i enc) s r (store_st s') \<or>
      (\<exists>v st1. update_outbound_update now rid i enc ?st = Inr (v, st1) \<and>
               tx_run xray_view OutboundDeploymentError (?nodes v) ?st st1 r (store_st s'))"
  proof (rule outbounds_tx.update_tx [OF run redeployOutboundNodes_view, where old = fst and
        change = "\<lambda>_. apply_outbound_input now enc i"])
    fix v st1 assume "update_outbound_update now rid i enc ?st = Inr (v, st1)"
    from update_outbound_update_Inr [OF this]
    show "find_row out_ID (st_Outbounds ?st) rid = Some (fst v) \<and>
        st1 = st_Outbounds_update (upd_row out_ID rid (apply_outbound_input now enc i)) ?st"
      unfolding findOutbound_def by blast
  qed (simp_all add: update_outbound_undo_Inr)
  then show ?thesis
  proof (elim disjE exE conjE)
    fix v st1
    assume u: "update_outbound_update now rid i enc ?st = Inr (v, st1)"
      and t: "tx_run xray_view OutboundDeploymentError (?nodes v) ?st st1 r (store_st s')"
    from update_outbound_update_Inr [OF u] t show ?thesis by (auto simp: updOutbound_eq)
  qed blast
qed

section \<open>Properties\<close>


text \<open>A store whose outbound is edited: the input is the sample's, on the sample's node.\<close>

definition sample_edit :: outboundInput where
  "sample_edit = sample_output\<lparr>oi_NodeID := ''n1'', oi_Tag := ''exit-2''\<rparr>"


text \<open>
  C26: deleting an outbound is all or nothing, the undo puts the row back in its place, and when the
  deletion succeeds neither a routing rule nor a group refers to the outbound any more.
\<close>

theorem delete_outbound_safe:
  assumes "deleteOutboundTransactional save rid (deployOutboundNode env) s = (r, s')"
    and ids: "distinct (map out_ID (st_Outbounds (store_st s)))"
  shows "tx_refused save (delete_outbound_update rid) s r (store_st s') \<or>
         (\<exists>before. findOutbound (store_st s) rid = Some before \<and>
            tx_run xray_view OutboundDeploymentError [out_NodeID before] (store_st s)
              (st_Outbounds_update (\<lambda>xs. deleteByID xs rid out_ID) (store_st s)) r (store_st s') \<and>
            rid \<notin> rr_OutboundID ` set (st_RoutingRules (store_st s')) \<and>
            (\<forall>g \<in> set (st_OutboundGroups (store_st s')). \<not> group_references g rid))"
proof -
  let ?st = "store_st s"
  have run: "(case Update save (delete_outbound_update rid) s of
      (Inl e, s1) \<Rightarrow> (Some e, s1)
    | (Inr v, s1) \<Rightarrow>
        deploy_or_rollback OutboundDeploymentError save (deployOutboundNode env)
          (deployOutboundNode env (snd (snd v))) (delete_outbound_undo rid (fst v) (fst (snd v)))
          [snd (snd v)] s1) = (r, s')"
    using assms(1) unfolding deleteOutboundTransactional_def
    by (auto split: prod.splits sum.splits)
  have "tx_refused save (delete_outbound_update rid) s r (store_st s') \<or>
      (\<exists>v st1. delete_outbound_update rid ?st = Inr (v, st1) \<and>
               tx_run xray_view OutboundDeploymentError [snd (snd v)] ?st st1 r (store_st s'))"
  proof (rule outbounds_tx.delete_tx [OF run native.deploy_view ids, where old = fst and index = "\<lambda>v. fst (snd v)"])
    fix v st1 assume "delete_outbound_update rid ?st = Inr (v, st1)"
    from delete_outbound_update_Inr [OF this]
    show "find_row out_ID (st_Outbounds ?st) rid = Some (fst v) \<and>
        fst (snd v) = index_of (\<lambda>y. out_ID y = rid) (st_Outbounds ?st) \<and>
        st1 = st_Outbounds_update (\<lambda>xs. deleteByID xs rid out_ID) ?st"
      unfolding findOutbound_def by simp
  qed (simp add: delete_outbound_undo_eq)
  then show ?thesis
  proof (elim disjE exE conjE)
    fix v st1
    assume u: "delete_outbound_update rid ?st = Inr (v, st1)"
      and t: "tx_run xray_view OutboundDeploymentError [snd (snd v)] ?st st1 r (store_st s')"
    note d = delete_outbound_update_Inr [OF u]
    have "xray_view (store_st s') = xray_view ?st \<or> xray_view (store_st s') = xray_view st1"
      using t unfolding tx_run_def by (metis (full_types))
    moreover have "st_RoutingRules st1 = st_RoutingRules ?st" "st_OutboundGroups st1 = st_OutboundGroups ?st"
      using d by simp_all
    ultimately have "st_RoutingRules (store_st s') = st_RoutingRules ?st"
      "st_OutboundGroups (store_st s') = st_OutboundGroups ?st"
      by (metis view_tables(1), metis view_tables(3))
    with d t show ?thesis unfolding group_refs_gone by simp
  qed blast
qed

definition sample_lone :: State where
  "sample_lone = sample_net\<lparr>st_OutboundGroups := []\<rparr>"

theorem delete_outbound_safe_witness:
  "st_Outbounds (store_st (snd (deleteOutboundTransactional (ev_save sample_env) ''o1''
     (deployOutboundNode sample_env) (sample_store sample_lone)))) = []"
proof -
  have "fst (deleteOutboundTransactional (ev_save sample_env) ''o1'' (deployOutboundNode sample_env)
      (sample_store sample_lone)) = None"
    by code_simp
  then obtain s' where run: "deleteOutboundTransactional (ev_save sample_env) ''o1''
      (deployOutboundNode sample_env) (sample_store sample_lone) = (None, s')"
    by (metis prod.collapse)
  have "distinct (map out_ID (st_Outbounds (store_st (sample_store sample_lone))))"
    by (simp add: sample_store_def sample_lone_def sample_net_def)
  from delete_outbound_safe [OF run this] have
    "xray_view (store_st s') = xray_view (st_Outbounds_update (\<lambda>xs. deleteByID xs ''o1'' out_ID) sample_lone)"
    by (auto simp: tx_refused_def tx_run_def sample_store_def)
  from view_tables(2) [OF this] show ?thesis
    unfolding run snd_conv by (simp add: deleteByID_def sample_lone_def sample_net_def sample_outbound_def)
qed

text \<open>
  An update checks the groups of an outbound but not its routing rules. When an outbound that an
  enabled rule names is moved to another node and the update succeeds, the rule stays, its references
  are no longer valid, and the configuration of its node still sends traffic to the tag of the
  outbound, which that node does not have.
\<close>

lemma move_outbound_strands_rule:
  assumes "updateOutboundTransactional save now rid i enc (deployOutboundNode env) s = (None, s')"
    and rule: "x \<in> set (st_RoutingRules (store_st s))" "rr_Enabled x" "rr_OutboundGroupID x = []"
      "rr_OutboundID x = rid" "rid \<noteq> ''direct''" "rid \<noteq> ''blocked''"
    and moved: "oi_NodeID i \<noteq> rr_NodeID x" "oi_Enabled i"
  shows "x \<in> set (st_RoutingRules (store_st s')) \<and> validateRoutingReferences (store_st s') x \<noteq> None \<and>
         (\<exists>j \<in> set (routing_items (store_st s') (rr_NodeID x)).
            jget ''outboundTag'' j = Some (JStr (oi_Tag i))) \<and>
         map_option out_NodeID (findOutbound (store_st s') rid) = Some (oi_NodeID i)"
proof -
  from update_outbound_tx [OF assms(1)] obtain before where
    b: "findOutbound (store_st s) rid = Some before"
      "xray_view (store_st s') = xray_view (updOutbound rid (apply_outbound_input now enc i) (store_st s))"
    by (auto simp: tx_refused_def tx_run_def)
  note tables = view_tables(1,2) [OF b(2)]
  have rules: "st_RoutingRules (store_st s') = st_RoutingRules (store_st s)"
    using tables(1) by (simp add: updOutbound_def)
  have out: "findOutbound (store_st s') rid = Some (apply_outbound_input now enc i before)"
    using tables(2) b(1) find_row_Some [of out_ID "st_Outbounds (store_st s)" rid before]
    by (simp add: updOutbound_def findOutbound_def find_row_upd)
  then have "validateRoutingReferences (store_st s') x \<noteq> None"
    using rule moved unfolding validateRoutingReferences_None by (simp add: apply_outbound_input_def)
  moreover obtain j where j: "routing_item (store_st s') (rr_NodeID x) x = Some j"
    "jget ''outboundTag'' j = Some (JStr (oi_Tag i))"
    using rule moved out
    by (simp add: routing_item_def rule_target_def apply_outbound_input_def rule_conditions_target
        jget_jput_gen)
  moreover have "j \<in> set (routing_items (store_st s') (rr_NodeID x))"
    using j(1) rule(1) rules unfolding routing_items_in by auto
  ultimately show ?thesis
    using rule(1) rules out by (auto simp: apply_outbound_input_def)
qed

definition sample_pinned :: State where
  "sample_pinned = sample_lone\<lparr>st_Nodes := [sample_node, sample_node\<lparr>n_ID := ''n2''\<rparr>],
     st_RoutingRules := [sample_rule\<lparr>rr_OutboundGroupID := [], rr_OutboundID := ''o1''\<rparr>]\<rparr>"

lemma move_outbound_strands_rule_witness:
  "map_option out_NodeID (findOutbound (store_st (snd (updateOutboundTransactional (ev_save sample_env) 7
     ''o1'' (sample_edit\<lparr>oi_NodeID := ''n2'', oi_Enabled := True\<rparr>) [] (deployOutboundNode sample_env)
     (sample_store sample_pinned)))) ''o1'') = Some ''n2''"
proof -
  let ?i = "sample_edit\<lparr>oi_NodeID := ''n2'', oi_Enabled := True\<rparr>"
  let ?x = "sample_rule\<lparr>rr_OutboundGroupID := [], rr_OutboundID := ''o1''\<rparr>"
  have "fst (updateOutboundTransactional (ev_save sample_env) 7 ''o1'' ?i []
      (deployOutboundNode sample_env) (sample_store sample_pinned)) = None" by code_simp
  then obtain s' where run: "updateOutboundTransactional (ev_save sample_env) 7 ''o1'' ?i []
      (deployOutboundNode sample_env) (sample_store sample_pinned) = (None, s')"
    by (metis prod.collapse)
  have "?x \<in> set (st_RoutingRules (store_st (sample_store sample_pinned)))"
    by (simp add: sample_store_def sample_pinned_def)
  from move_outbound_strands_rule [OF run this] show ?thesis
    unfolding run snd_conv by (simp add: sample_rule_def sample_edit_def)
qed

end
