(* ===== verification/Inbounds.thy ===== *)
theory Inbounds
  imports OutboundTx
begin

text \<open>
  Inbounds without their deployment: the input of the API and its normalisation and the rows made
  from it (src/internal/panel/inbounds.go), the summary and the target check
  (inbound_control.go), the name and target check and the update of a row (inbound_hardening.go).
\<close>

section \<open>The input\<close>

record inboundCreate =
  ci_Name :: string
  ci_Protocol :: string
  ci_NodeID :: string
  ci_Listen :: string
  ci_Port :: int
  ci_Transport :: string
  ci_TLSMode :: string
  ci_Enabled :: bool
  ci_Remark :: string
  ci_Path :: string
  ci_Host :: string
  ci_ServiceName :: string
  ci_ServerName :: string
  ci_CertFile :: string
  ci_KeyFile :: string
  ci_RealityDest :: string
  ci_RealityServerNames :: "string list"
  ci_RealityShortIDs :: "string list"
  ci_RealityFingerprint :: string
  ci_ShadowsocksMethod :: string

definition validInboundProtocol :: "string \<Rightarrow> bool" where
  "validInboundProtocol v \<longleftrightarrow>
     ToLower (TrimSpace v) \<in> {''vless'', ''vmess'', ''trojan'', ''shadowsocks''}"

definition validTransport :: "string \<Rightarrow> bool" where
  "validTransport v \<longleftrightarrow> ToLower (TrimSpace v) \<in> {''tcp'', ''ws'', ''grpc''}"

definition validTLSMode :: "string \<Rightarrow> bool" where
  "validTLSMode v \<longleftrightarrow> ToLower (TrimSpace v) \<in> {''none'', ''tls'', ''reality''}"

definition trimInboundInput :: "inboundCreate \<Rightarrow> inboundCreate" where
  "trimInboundInput i =
     i\<lparr>ci_Name := TrimSpace (ci_Name i), ci_Protocol := ToLower (TrimSpace (ci_Protocol i)),
       ci_Listen := defaultString (TrimSpace (ci_Listen i)) ''0.0.0.0'',
       ci_Transport := defaultString (ToLower (TrimSpace (ci_Transport i))) ''tcp'',
       ci_TLSMode := defaultString (ToLower (TrimSpace (ci_TLSMode i))) ''none'',
       ci_Path := defaultString (TrimSpace (ci_Path i)) ''/'',
       ci_ServiceName := defaultString (TrimSpace (ci_ServiceName i)) ''gamebridge'',
       ci_RealityFingerprint := defaultString (TrimSpace (ci_RealityFingerprint i)) ''chrome'',
       ci_ShadowsocksMethod := defaultString (TrimSpace (ci_ShadowsocksMethod i)) ''aes-128-gcm''\<rparr>"

definition inbound_error :: "inboundCreate \<Rightarrow> go_error option" where
  "inbound_error i =
     (if ci_Name i = [] then Some (Plain ''name is required'')
      else if \<not> validInboundProtocol (ci_Protocol i) then Some (Plain ''unsupported inbound protocol'')
      else if \<not> validTransport (ci_Transport i) then Some (Plain ''transport must be tcp, ws or grpc'')
      else if \<not> validTLSMode (ci_TLSMode i) then Some (Plain ''tls_mode must be none, tls or reality'')
      else if ci_Port i < 1 \<or> ci_Port i > 65535 then Some (Plain ''invalid port'')
      else if ci_TLSMode i = ''tls'' \<and> (ci_CertFile i = [] \<or> ci_KeyFile i = [])
        then Some (Plain ''TLS requires cert_file and key_file on the target node'')
      else if ci_TLSMode i = ''reality'' then
        (if ci_Protocol i \<noteq> ''vless'' \<and> ci_Protocol i \<noteq> ''trojan''
           then Some (Plain ''REALITY is supported for VLESS/Trojan in this phase'')
         else if ci_Transport i \<noteq> ''tcp''
           then Some (Plain ''REALITY is limited to TCP in this phase'')
         else if ci_RealityDest i = [] \<or> length (ci_RealityServerNames i) = 0
           then Some (Plain ''REALITY requires reality_dest and at least one server name'')
         else None)
      else None)"

text \<open>The normalised input, with a random short ID where REALITY was given none.\<close>

definition normalizeInboundInput ::
  "'w env \<Rightarrow> inboundCreate \<Rightarrow> 'w Store \<Rightarrow> (go_error + inboundCreate) \<times> 'w Store" where
  "normalizeInboundInput env i0 s =
     (let i = trimInboundInput i0 in
      case inbound_error i of
        Some e \<Rightarrow> (Inl e, s)
      | None \<Rightarrow>
          if ci_TLSMode i = ''reality'' \<and> length (ci_RealityShortIDs i) = 0
          then (case randomHex env 8 s of (h, s1) \<Rightarrow> (Inr (i\<lparr>ci_RealityShortIDs := [h]\<rparr>), s1))
          else (Inr i, s))"

definition new_inbound :: "string \<Rightarrow> time \<Rightarrow> time \<Rightarrow> inboundCreate \<Rightarrow> Inbound" where
  "new_inbound rid created updated i =
     \<lparr>in_ID = rid, in_Name = ci_Name i, in_Protocol = ci_Protocol i, in_NodeID = ci_NodeID i,
      in_Listen = ci_Listen i, in_Port = ci_Port i, in_Transport = ci_Transport i,
      in_TLSMode = ci_TLSMode i, in_Enabled = True, in_Status = ''configured'',
      in_Remark = ci_Remark i, in_Path = ci_Path i, in_Host = ci_Host i,
      in_ServiceName = ci_ServiceName i, in_ServerName = ci_ServerName i,
      in_CertFile = ci_CertFile i, in_KeyFile = ci_KeyFile i, in_RealityDest = ci_RealityDest i,
      in_RealityServerNames = ci_RealityServerNames i, in_RealityPrivateKeyEnc = [],
      in_RealityPublicKey = [], in_RealityShortIDs = ci_RealityShortIDs i,
      in_RealityFingerprint = ci_RealityFingerprint i,
      in_ShadowsocksMethod = ci_ShadowsocksMethod i, in_ShadowsocksServerPasswordEnc = [],
      in_CreatedAt = created, in_UpdatedAt = updated\<rparr>"

definition inboundFromCreate :: "'w env \<Rightarrow> inboundCreate \<Rightarrow> 'w Store \<Rightarrow> Inbound \<times> 'w Store" where
  "inboundFromCreate env i s =
     (case randomHex env 12 s of (rid, s1) \<Rightarrow>
      (case effect (ev_Now env) s1 of (created, s2) \<Rightarrow>
       (case effect (ev_Now env) s2 of (updated, s3) \<Rightarrow> (new_inbound rid created updated i, s3))))"

section \<open>Summary\<close>

record InboundSummary =
  is_Inbound :: Inbound
  is_AttachedUsers :: nat
  is_EnabledUsers :: nat
  is_ActiveUsers :: nat
  is_NodeStatus :: string
  is_NodeEnabled :: bool
  is_NodeMaintenance :: bool

definition inboundSummary :: "State \<Rightarrow> string \<Rightarrow> time \<Rightarrow> go_error + InboundSummary" where
  "inboundSummary st rid now =
     (case findInbound st rid of
        None \<Rightarrow> Inl (Plain ''inbound not found'')
      | Some x \<Rightarrow>
          let node = findNode st (in_NodeID x);
              attached = filter (\<lambda>b. ic_InboundID b = rid) (st_InboundClients st);
              enabled = filter ic_Enabled attached;
              active = filter (\<lambda>b. case findUser st (ic_UserID b) of
                                     None \<Rightarrow> False
                                   | Some u \<Rightarrow> fst (userLifecycleStatus st u now) = UserStatusActive) enabled
          in Inr \<lparr>is_Inbound = x, is_AttachedUsers = length attached, is_EnabledUsers = length enabled,
                  is_ActiveUsers = length active,
                  is_NodeStatus = (case node of None \<Rightarrow> [] | Some n \<Rightarrow> n_Status n),
                  is_NodeEnabled = (case node of None \<Rightarrow> False | Some n \<Rightarrow> n_Enabled n),
                  is_NodeMaintenance = (case node of None \<Rightarrow> False | Some n \<Rightarrow> n_Maintenance n)\<rparr>)"

section \<open>Targets\<close>

text \<open>The node must take work; shared by the two target checks.\<close>

definition node_takes_work :: "State \<Rightarrow> string \<Rightarrow> go_error option" where
  "node_takes_work st nodeID =
     (case findNode st nodeID of
        None \<Rightarrow> Some (Plain ''node not found'')
      | Some n \<Rightarrow>
          if \<not> n_Enabled n then Some (Plain ''node is disabled'')
          else if n_Maintenance n then Some (Plain ''node is in maintenance'')
          else None)"

definition same_listener :: "string \<Rightarrow> string \<Rightarrow> int \<Rightarrow> Inbound \<Rightarrow> bool" where
  "same_listener nodeID listen port x \<longleftrightarrow>
     in_NodeID x = nodeID \<and> in_Port x = port \<and> in_Listen x = listen"

definition validateInboundTarget ::
  "State \<Rightarrow> string \<Rightarrow> string \<Rightarrow> string \<Rightarrow> int \<Rightarrow> go_error option" where
  "validateInboundTarget st inboundID nodeID listen port =
     (case node_takes_work st nodeID of
        Some e \<Rightarrow> Some e
      | None \<Rightarrow>
          if list_ex (\<lambda>x. in_ID x \<noteq> inboundID \<and> same_listener nodeID listen port x) (st_Inbounds st)
          then Some (Plain ''listen address/port is already used by another inbound'')
          else None)"

fun clashing_inbound ::
  "string \<Rightarrow> string \<Rightarrow> string \<Rightarrow> string \<Rightarrow> int \<Rightarrow> Inbound list \<Rightarrow> go_error option" where
  "clashing_inbound inboundID name nodeID listen port [] = None"
| "clashing_inbound inboundID name nodeID listen port (x # xs) =
     (if in_ID x = inboundID then clashing_inbound inboundID name nodeID listen port xs
      else if EqualFold (TrimSpace (in_Name x)) name then Some (Plain ''inbound name already exists'')
      else if same_listener nodeID listen port x
        then Some (Plain ''listen address/port is already used by another inbound'')
      else clashing_inbound inboundID name nodeID listen port xs)"

definition validateInboundTargetSpec ::
  "State \<Rightarrow> string \<Rightarrow> string \<Rightarrow> string \<Rightarrow> string \<Rightarrow> int \<Rightarrow> go_error option" where
  "validateInboundTargetSpec st inboundID name nodeID listen port =
     (case node_takes_work st nodeID of
        Some e \<Rightarrow> Some e
      | None \<Rightarrow> clashing_inbound inboundID (TrimSpace name) nodeID listen port (st_Inbounds st))"

definition cloneInboundValue :: "Inbound \<Rightarrow> Inbound" where
  "cloneInboundValue x =
     x\<lparr>in_RealityServerNames := [] @ in_RealityServerNames x, in_RealityShortIDs := [] @ in_RealityShortIDs x\<rparr>"

definition applyInboundInput :: "time \<Rightarrow> inboundCreate \<Rightarrow> Inbound \<Rightarrow> Inbound" where
  "applyInboundInput now i x =
     (let y = x\<lparr>in_Name := ci_Name i, in_Protocol := ci_Protocol i, in_NodeID := ci_NodeID i,
                in_Listen := ci_Listen i, in_Port := ci_Port i, in_Transport := ci_Transport i,
                in_TLSMode := ci_TLSMode i, in_Enabled := ci_Enabled i, in_Remark := ci_Remark i,
                in_Path := ci_Path i, in_Host := ci_Host i, in_ServiceName := ci_ServiceName i,
                in_ServerName := ci_ServerName i, in_CertFile := ci_CertFile i,
                in_KeyFile := ci_KeyFile i, in_RealityDest := ci_RealityDest i,
                in_RealityServerNames := [] @ ci_RealityServerNames i,
                in_RealityShortIDs := [] @ ci_RealityShortIDs i,
                in_RealityFingerprint := ci_RealityFingerprint i,
                in_ShadowsocksMethod := ci_ShadowsocksMethod i\<rparr>;
          z = (if in_TLSMode y \<noteq> ''reality''
               then y\<lparr>in_RealityPrivateKeyEnc := [], in_RealityPublicKey := []\<rparr> else y)
      in z\<lparr>in_UpdatedAt := now\<rparr>)"

section \<open>Lemmas\<close>

lemma cloneInboundValue_id [simp]: "cloneInboundValue x = x"
  by (simp add: cloneInboundValue_def)

lemma applyInboundInput_ID [simp]: "in_ID (applyInboundInput now i x) = in_ID x"
  by (simp add: applyInboundInput_def Let_def)

lemma clashing_inbound_None:
  "clashing_inbound rid name n l p xs = None \<longleftrightarrow>
   (\<forall>x \<in> set xs. in_ID x \<noteq> rid \<longrightarrow>
      \<not> EqualFold (TrimSpace (in_Name x)) name \<and> \<not> same_listener n l p x)"
  by (induction xs) auto

lemma TrimSpace_defaults [simp]:
  "TrimSpace ''0.0.0.0'' = ''0.0.0.0''" "TrimSpace ''tcp'' = ''tcp''" "TrimSpace ''none'' = ''none''"
  "TrimSpace ''/'' = ''/''" "TrimSpace ''gamebridge'' = ''gamebridge''" "TrimSpace ''chrome'' = ''chrome''"
  "TrimSpace ''aes-128-gcm'' = ''aes-128-gcm''" "ToLower ''tcp'' = ''tcp''" "ToLower ''none'' = ''none''"
  by code_simp+

lemma defaultString_default [simp]: "d \<noteq> [] \<Longrightarrow> defaultString (defaultString v d) d = defaultString v d"
  by (simp add: defaultString_def)

lemma trim_default [simp]:
  "TrimSpace d = d \<Longrightarrow> TrimSpace (defaultString (TrimSpace v) d) = defaultString (TrimSpace v) d"
  "TrimSpace d = d \<Longrightarrow> ToLower d = d \<Longrightarrow>
   ToLower (TrimSpace (defaultString (ToLower (TrimSpace v)) d)) = defaultString (ToLower (TrimSpace v)) d"
  by (simp_all add: defaultString_def)

lemma trimInboundInput_idem: "trimInboundInput (trimInboundInput i) = trimInboundInput i"
  by (cases i) (simp add: trimInboundInput_def)

lemma trimInbound_ids [simp]:
  "trimInboundInput (i\<lparr>ci_RealityShortIDs := h\<rparr>) = (trimInboundInput i)\<lparr>ci_RealityShortIDs := h\<rparr>"
  by (cases i) (simp add: trimInboundInput_def)

lemma inbound_error_ids [simp]: "inbound_error (i\<lparr>ci_RealityShortIDs := h\<rparr>) = inbound_error i"
  unfolding inbound_error_def by (simp cong: if_cong split del: if_split)

text \<open>What an accepted input satisfies.\<close>

definition inbound_input_ok :: "inboundCreate \<Rightarrow> bool" where
  "inbound_input_ok i \<longleftrightarrow>
     ci_Name i \<noteq> [] \<and> ci_Protocol i \<in> {''vless'', ''vmess'', ''trojan'', ''shadowsocks''} \<and>
     ci_Transport i \<in> {''tcp'', ''ws'', ''grpc''} \<and> ci_TLSMode i \<in> {''none'', ''tls'', ''reality''} \<and>
     1 \<le> ci_Port i \<and> ci_Port i \<le> 65535 \<and> ci_Listen i \<noteq> [] \<and> ci_Path i \<noteq> [] \<and>
     ci_ServiceName i \<noteq> [] \<and> ci_RealityFingerprint i \<noteq> [] \<and> ci_ShadowsocksMethod i \<noteq> [] \<and>
     (if ci_TLSMode i = ''tls'' then ci_CertFile i \<noteq> [] \<and> ci_KeyFile i \<noteq> []
      else if ci_TLSMode i = ''reality'' then
        ci_Protocol i \<in> {''vless'', ''trojan''} \<and> ci_Transport i = ''tcp'' \<and> ci_RealityDest i \<noteq> [] \<and>
        ci_RealityServerNames i \<noteq> [] \<and> ci_RealityShortIDs i \<noteq> []
      else True)"

lemma defaultString_nonempty: "d \<noteq> [] \<Longrightarrow> defaultString v d \<noteq> []"
  by (auto simp: defaultString_def)

lemma inbound_error_ok:
  assumes "inbound_error (trimInboundInput i) = None"
    and "ci_TLSMode (trimInboundInput i) = ''reality'' \<Longrightarrow> h \<noteq> []"
  shows "inbound_input_ok ((trimInboundInput i)\<lparr>ci_RealityShortIDs := h\<rparr>)"
proof -
  let ?j = "trimInboundInput i"
  have low: "ToLower (TrimSpace (ci_Protocol ?j)) = ci_Protocol ?j"
    "ToLower (TrimSpace (ci_Transport ?j)) = ci_Transport ?j"
    "ToLower (TrimSpace (ci_TLSMode ?j)) = ci_TLSMode ?j"
    by (simp_all add: trimInboundInput_def)
  have filled: "ci_Listen ?j \<noteq> []" "ci_Path ?j \<noteq> []" "ci_ServiceName ?j \<noteq> []"
    "ci_RealityFingerprint ?j \<noteq> []" "ci_ShadowsocksMethod ?j \<noteq> []"
    by (simp_all add: trimInboundInput_def defaultString_nonempty)
  note e = assms(1) [unfolded inbound_error_def guard_None validInboundProtocol_def validTransport_def
      validTLSMode_def low]
  show ?thesis
    using e filled assms(2)
    by (auto simp: inbound_input_ok_def split: if_splits)
qed

section \<open>Properties\<close>

text \<open>
  An accepted input is in the range of everything the configuration is built from (protocol,
  transport and TLS mode of the supported sets, a port, the files TLS needs, and for REALITY a
  protocol and transport it works with, a destination, a server name and a short ID), and sending it
  again changes nothing, not even the generated short ID.
\<close>

lemma normalize_inbound_fixpoint:
  assumes "normalizeInboundInput env i s = (Inr j, s')"
  shows "inbound_input_ok j \<and> normalizeInboundInput env j s' = (Inr j, s')"
proof -
  let ?t = "trimInboundInput i"
  have e: "inbound_error ?t = None"
    using assms by (auto simp: normalizeInboundInput_def Let_def split: option.splits)
  obtain h where j: "j = ?t\<lparr>ci_RealityShortIDs := h\<rparr>"
    and h: "ci_TLSMode ?t = ''reality'' \<Longrightarrow> h \<noteq> []"
  proof (cases "ci_TLSMode ?t = ''reality'' \<and> length (ci_RealityShortIDs ?t) = 0")
    case True
    with assms e that show ?thesis
      by (cases "randomHex env 8 s") (auto simp: normalizeInboundInput_def Let_def)
  next
    case False
    with assms e have "j = ?t" by (auto simp: normalizeInboundInput_def Let_def)
    with False that [of "ci_RealityShortIDs ?t"] show ?thesis by auto
  qed
  have "trimInboundInput j = j" by (simp add: j trimInboundInput_idem)
  moreover have "inbound_error j = None" using e by (simp add: j)
  moreover have "\<not> (ci_TLSMode j = ''reality'' \<and> length (ci_RealityShortIDs j) = 0)" using h by (auto simp: j)
  ultimately have "normalizeInboundInput env j s' = (Inr j, s')"
    by (auto simp: normalizeInboundInput_def Let_def)
  with inbound_error_ok [OF e h] show ?thesis by (simp add: j)
qed

definition sample_reality :: inboundCreate where
  "sample_reality =
     \<lparr>ci_Name = '' edge '', ci_Protocol = ''VLESS'', ci_NodeID = ''n1'', ci_Listen = [],
      ci_Port = 443, ci_Transport = [], ci_TLSMode = ''reality'', ci_Enabled = True, ci_Remark = [],
      ci_Path = [], ci_Host = [], ci_ServiceName = [], ci_ServerName = [],
      ci_CertFile = [], ci_KeyFile = [], ci_RealityDest = ''example.com:443'',
      ci_RealityServerNames = [''example.com''], ci_RealityShortIDs = [],
      ci_RealityFingerprint = [], ci_ShadowsocksMethod = []\<rparr>"

lemma normalize_inbound_fixpoint_witness:
  "case normalizeInboundInput sample_env sample_reality (sample_store emptyState) of
     (Inl e, s') \<Rightarrow> False
   | (Inr j, s') \<Rightarrow> inbound_input_ok j \<and> ci_Name j = ''edge'' \<and> ci_RealityShortIDs j \<noteq> []"
proof -
  have "case normalizeInboundInput sample_env sample_reality (sample_store emptyState) of
     (Inl e, s') \<Rightarrow> False | (Inr j, s') \<Rightarrow> ci_Name j = ''edge'' \<and> ci_RealityShortIDs j \<noteq> []" by code_simp
  then obtain j s' where n: "normalizeInboundInput sample_env sample_reality (sample_store emptyState) = (Inr j, s')"
    and j: "ci_Name j = ''edge''" "ci_RealityShortIDs j \<noteq> []"
    by (auto split: prod.splits sum.splits)
  from normalize_inbound_fixpoint [OF n] j show ?thesis by (simp add: n)
qed

end
