(* ===== verification/InboundUsers.thy ===== *)
theory InboundUsers
  imports Inbounds
begin

text \<open>
  Users of an inbound, from src/internal/panel/xray.go: attaching and detaching a user, the detail
  view, the share link of a binding and the answer to a subscription URL.
\<close>

definition findInboundClient :: "State \<Rightarrow> string \<Rightarrow> string \<Rightarrow> InboundClient option" where
  "findInboundClient st inboundID userID =
     List.find (\<lambda>c. ic_InboundID c = inboundID \<and> ic_UserID c = userID) (st_InboundClients st)"

section \<open>Attach and detach\<close>

text \<open>The checks of an attachment, on a snapshot: the protocol and the user's name.\<close>

definition attach_check :: "State \<Rightarrow> string \<Rightarrow> string \<Rightarrow> go_error + string \<times> string" where
  "attach_check st inboundID userID =
     (case findInbound st inboundID of
        None \<Rightarrow> Inl (Plain ''inbound not found'')
      | Some x \<Rightarrow>
          (case findUser st userID of
             None \<Rightarrow> Inl (Plain ''user not found'')
           | Some u \<Rightarrow>
               if u_Status u \<noteq> ''active'' then Inl (Plain ''user is not active'')
               else if findInboundClient st inboundID userID \<noteq> None
                 then Inl (Plain ''user is already attached to inbound'')
               else Inr (in_Protocol x, u_Username u)))"

definition attach_write :: "InboundClient \<Rightarrow> State \<Rightarrow> go_error + State" where
  "attach_write b st = Inr (st\<lparr>st_InboundClients := st_InboundClients st @ [b]\<rparr>)"

text \<open>
  The binding and the error: without a binding nothing was attached, with both the deployment
  failed after the attachment.
\<close>

definition attachUserToInbound ::
  "'w env \<Rightarrow> 'w deployer \<Rightarrow> string \<Rightarrow> string \<Rightarrow> 'w Store \<Rightarrow>
   (InboundClient option \<times> go_error option) \<times> 'w Store" where
  "attachUserToInbound env deploy inboundID userID s =
     (case attach_check (cloneState (store_st s)) inboundID userID of
        Inl e \<Rightarrow> ((None, Some e), s)
      | Inr (protocol, username) \<Rightarrow>
          (case credentialForProtocol env protocol s of (cred, s1) \<Rightarrow>
          (case effect (ev_Seal env cred) s1 of
             (Inl e, s2) \<Rightarrow> ((None, Some e), s2)
           | (Inr enc, s2) \<Rightarrow>
               (case randomHex env 12 s2 of (rid, s3) \<Rightarrow>
               (case effect (ev_Now env) s3 of (now, s4) \<Rightarrow>
                  let b = \<lparr>ic_ID = rid, ic_InboundID = inboundID, ic_UserID = userID,
                           ic_Email = ''gb:'' @ username, ic_CredentialEnc = enc, ic_Enabled = True,
                           ic_CreatedAt = now\<rparr> in
                  (case UpdateE (ev_save env) (attach_write b) s4 of
                     (Some e, s5) \<Rightarrow> ((None, Some e), s5)
                   | (None, s5) \<Rightarrow>
                       (case findInbound (cloneState (store_st s5)) inboundID of
                          None \<Rightarrow> ((Some b, None), s5)
                        | Some x \<Rightarrow>
                            if in_NodeID x = [] then ((Some b, None), s5)
                            else (case deploy (in_NodeID x) s5 of
                                    (Some e, s6) \<Rightarrow>
                                      ((Some b, Some (Plain (''user attached but Xray deploy failed: '' @ err_msg e))), s6)
                                  | (None, s6) \<Rightarrow> ((Some b, None), s6))))))))) "

definition detach_update :: "string \<Rightarrow> string \<Rightarrow> State \<Rightarrow> go_error + string \<times> State" where
  "detach_update inboundID userID st =
     (case findInbound st inboundID of
        None \<Rightarrow> Inl (Plain ''inbound not found'')
      | Some x \<Rightarrow>
          Inr (in_NodeID x,
               st\<lparr>st_InboundClients := filter (\<lambda>c. \<not> (ic_InboundID c = inboundID \<and> ic_UserID c = userID))
                                             (st_InboundClients st)\<rparr>))"

definition detachUserFromInbound ::
  "'w saver \<Rightarrow> 'w deployer \<Rightarrow> string \<Rightarrow> string \<Rightarrow> 'w Store \<Rightarrow> 'w tx" where
  "detachUserFromInbound save deploy inboundID userID s =
     (case Update save (detach_update inboundID userID) s of
        (Inl e, s1) \<Rightarrow> (Some e, s1)
      | (Inr nodeID, s1) \<Rightarrow> deploy nodeID s1)"

section \<open>The detail view\<close>

record client_detail =
  cd_id :: string
  cd_user_id :: string
  cd_username :: string
  cd_email :: string
  cd_enabled :: bool
  cd_created_at :: time

definition client_view :: "State \<Rightarrow> InboundClient \<Rightarrow> client_detail" where
  "client_view st c =
     \<lparr>cd_id = ic_ID c, cd_user_id = ic_UserID c,
      cd_username = (case findUser st (ic_UserID c) of None \<Rightarrow> ic_UserID c | Some u \<Rightarrow> u_Username u),
      cd_email = ic_Email c, cd_enabled = ic_Enabled c, cd_created_at = ic_CreatedAt c\<rparr>"

definition inboundDetail :: "State \<Rightarrow> string \<Rightarrow> go_error + Inbound \<times> client_detail list" where
  "inboundDetail st rid =
     (case findInbound st rid of
        None \<Rightarrow> Inl (Plain ''inbound not found'')
      | Some x \<Rightarrow>
          Inr (x, map (client_view st) (filter (\<lambda>c. ic_InboundID c = rid) (st_InboundClients st))))"

section \<open>URL encoding\<close>

text \<open>url.QueryEscape, url.Values with Set and Encode, and base64.StdEncoding.\<close>

definition upper_hex :: "nat \<Rightarrow> char" where
  "upper_hex n = ''0123456789ABCDEF'' ! (n mod 16)"

definition query_safe :: "char \<Rightarrow> bool" where
  "query_safe c \<longleftrightarrow>
     (let n = (of_char c :: nat) in
      48 \<le> n \<and> n \<le> 57 \<or> 65 \<le> n \<and> n \<le> 90 \<or> 97 \<le> n \<and> n \<le> 122 \<or> c \<in> set ''-_.~'')"

definition escape_char :: "char \<Rightarrow> string" where
  "escape_char c =
     (if query_safe c then [c] else if c = CHR '' '' then ''+''
      else let n = (of_char c :: nat) in [CHR ''%'', upper_hex (n div 16), upper_hex n])"

definition QueryEscape :: "string \<Rightarrow> string" where
  "QueryEscape s = concat (map escape_char s)"

fun values_set :: "string \<Rightarrow> string \<Rightarrow> (string \<times> string) list \<Rightarrow> (string \<times> string) list" where
  "values_set k v [] = [(k, v)]"
| "values_set k v ((k', v') # q) = (if k' = k then (k, v) # q else (k', v') # values_set k v q)"

definition values_encode :: "(string \<times> string) list \<Rightarrow> string" where
  "values_encode q =
     JoinStrings
       (map (\<lambda>(k, v). QueryEscape k @ ''='' @ QueryEscape v)
          (insertion_sort (\<lambda>a b. string_less (fst a) (fst b)) q)) ''&''"

definition base64_std_alphabet :: string where
  "base64_std_alphabet = ''ABCDEFGHIJKLMNOPQRSTUVWXYZabcdefghijklmnopqrstuvwxyz0123456789+/''"

definition s64 :: "nat \<Rightarrow> char" where
  "s64 n = base64_std_alphabet ! (n mod 64)"

fun StdEncode :: "string \<Rightarrow> string" where
  "StdEncode [] = []"
| "StdEncode [a] = (let x = (of_char a :: nat) in [s64 (x div 4), s64 (x * 16), CHR ''='', CHR ''=''])"
| "StdEncode [a, b] =
     (let x = (of_char a :: nat); y = (of_char b :: nat)
      in [s64 (x div 4), s64 (x * 16 + y div 16), s64 (y * 4), CHR ''=''])"
| "StdEncode (a # b # c # cs) =
     (let x = (of_char a :: nat); y = (of_char b :: nat); z = (of_char c :: nat)
      in [s64 (x div 4), s64 (x * 16 + y div 16), s64 (y * 4 + z div 64), s64 z] @ StdEncode cs)"

section \<open>Share links\<close>

definition transport_query :: "Inbound \<Rightarrow> (string \<times> string) list" where
  "transport_query x =
     (let q = [(''type'', in_Transport x)] in
      if in_Transport x = ''ws'' then
        (let q1 = values_set ''path'' (defaultString (in_Path x) ''/'') q
         in if in_Host x \<noteq> [] then values_set ''host'' (in_Host x) q1 else q1)
      else if in_Transport x = ''grpc'' then
        values_set ''mode'' ''gun'' (values_set ''serviceName'' (defaultString (in_ServiceName x) ''gamebridge'') q)
      else q)"

definition security_query :: "Inbound \<Rightarrow> (string \<times> string) list \<Rightarrow> (string \<times> string) list" where
  "security_query x q =
     (if in_TLSMode x = ''tls'' then
        (let q1 = values_set ''security'' ''tls'' q
         in if in_ServerName x \<noteq> [] then values_set ''sni'' (in_ServerName x) q1 else q1)
      else if in_TLSMode x = ''reality'' then
        (let q1 = values_set ''fp'' (defaultString (in_RealityFingerprint x) ''chrome'')
                    (values_set ''pbk'' (in_RealityPublicKey x) (values_set ''security'' ''reality'' q));
             q2 = (case in_RealityServerNames x of [] \<Rightarrow> q1 | n # _ \<Rightarrow> values_set ''sni'' n q1);
             q3 = (case in_RealityShortIDs x of [] \<Rightarrow> q2 | h # _ \<Rightarrow> values_set ''sid'' h q2)
         in if in_Protocol x = ''vless'' \<and> in_Transport x = ''tcp''
            then values_set ''flow'' ''xtls-rprx-vision'' q3 else q3)
      else q)"

definition vmess_object :: "Inbound \<Rightarrow> User \<Rightarrow> string \<Rightarrow> string \<Rightarrow> json" where
  "vmess_object x u host cred =
     JObj [(''v'', JStr ''2''), (''ps'', JStr (''GameBridge-'' @ in_Name x @ ''-'' @ u_Username u)),
           (''add'', JStr host), (''port'', JStr (Itoa (in_Port x))), (''id'', JStr cred),
           (''aid'', JStr ''0''), (''net'', JStr (in_Transport x)), (''type'', JStr ''none''),
           (''host'', JStr (in_Host x)), (''path'', JStr (in_Path x)),
           (''tls'', JStr (if in_TLSMode x = ''tls'' then ''tls'' else [])), (''sni'', JStr (in_ServerName x))]"

definition share_link :: "'w env \<Rightarrow> Inbound \<Rightarrow> Node \<Rightarrow> User \<Rightarrow> string \<Rightarrow> go_error + string" where
  "share_link env x node u cred =
     (let host = (if in_ServerName x \<noteq> [] then in_ServerName x else n_PublicIP node);
          name = QueryEscape (''GameBridge-'' @ in_Name x @ ''-'' @ u_Username u);
          q = security_query x (transport_query x);
          at = ''@'' @ host @ '':'' @ Itoa (in_Port x)
      in if in_Protocol x = ''vless'' then
           Inr (''vless://'' @ cred @ at @ ''?'' @ values_encode (values_set ''encryption'' ''none'' q) @ ''#'' @ name)
         else if in_Protocol x = ''trojan'' then
           Inr (''trojan://'' @ QueryEscape cred @ at @ ''?'' @ values_encode q @ ''#'' @ name)
         else if in_Protocol x = ''vmess'' then
           Inr (''vmess://'' @ StdEncode (ev_Marshal env (vmess_object x u host cred)))
         else if in_Protocol x = ''shadowsocks'' then
           Inr (''ss://'' @ RawURLEncode (defaultString (in_ShadowsocksMethod x) ''aes-128-gcm'' @ '':'' @ cred) @
                at @ ''#'' @ name)
         else Inl (Plain ''share link is not supported for protocol''))"

definition xrayShareLink :: "'w env \<Rightarrow> State \<Rightarrow> string \<Rightarrow> string \<Rightarrow> go_error + string" where
  "xrayShareLink env st inboundID userID =
     (case findInbound st inboundID of
        None \<Rightarrow> Inl (Plain ''inbound not found'')
      | Some x \<Rightarrow>
          (case findNode st (in_NodeID x) of
             None \<Rightarrow> Inl (Plain ''node not found'')
           | Some node \<Rightarrow>
               (case findUser st userID of
                  None \<Rightarrow> Inl (Plain ''user not found'')
                | Some u \<Rightarrow>
                    (case findInboundClient st inboundID userID of
                       None \<Rightarrow> Inl (Plain ''user is not attached to inbound'')
                     | Some b \<Rightarrow>
                         if \<not> ic_Enabled b then Inl (Plain ''user is not attached to inbound'')
                         else (case ev_Open env (ic_CredentialEnc b) of
                                 Inl e \<Rightarrow> Inl e
                               | Inr cred \<Rightarrow> share_link env x node u cred)))))"

section \<open>The subscription URL\<close>

definition subscription_target :: "State \<Rightarrow> string \<Rightarrow> User option" where
  "subscription_target st token =
     List.find (\<lambda>u. u_SubscriptionToken u = token \<and> u_Status u = ''active'') (st_Users st)"

definition ok_values :: "(go_error + 'a) list \<Rightarrow> 'a list" where
  "ok_values rs = List.map_filter (\<lambda>r. case r of Inl _ \<Rightarrow> None | Inr a \<Rightarrow> Some a) rs"

definition subscription_configs :: "'w env \<Rightarrow> State \<Rightarrow> User \<Rightarrow> string list" where
  "subscription_configs env st u =
     ok_values (map (\<lambda>p. ev_Open env (vp_ConfigEnc p))
                  (filter (\<lambda>p. vp_UserID p = u_ID u \<and> vp_Enabled p) (st_VPNPeers st))) @
     ok_values (map (\<lambda>c. xrayShareLink env st (ic_InboundID c) (u_ID u))
                  (filter (\<lambda>c. \<not> (ic_UserID c \<noteq> u_ID u \<or> \<not> ic_Enabled c)) (st_InboundClients st)))"

definition site_name :: "State \<Rightarrow> string" where
  "site_name st =
     (case st_Settings st ''site_name'' of
        None \<Rightarrow> ''GameBridge'' | Some n \<Rightarrow> if n = [] then ''GameBridge'' else n)"

text \<open>None is the 404 page.\<close>

definition handleSubscription :: "'w env \<Rightarrow> string \<Rightarrow> State \<Rightarrow> string option" where
  "handleSubscription env path st =
     (case subscription_target st (TrimPrefix path ''/sub/'') of
        None \<Rightarrow> None
      | Some u \<Rightarrow>
          let cfgs = subscription_configs env st u in
          if cfgs = [] then None
          else Some (''# '' @ site_name st @ '' subscription'' @ [CHR 0x0A, CHR 0x0A] @
                     JoinStrings cfgs [CHR 0x0A] @ [CHR 0x0A]))"

section \<open>Properties\<close>

lemma ok_values_map: "c \<in> set (ok_values (map f xs)) \<Longrightarrow> \<exists>x \<in> set xs. f x = Inr c"
  by (induction xs) (auto simp: ok_values_def List.map_filter_def split: sum.splits)

lemma share_link_served:
  assumes "xrayShareLink env st inboundID userID = Inr link"
  obtains x node u b cred where "findInbound st inboundID = Some x" "findNode st (in_NodeID x) = Some node"
    "findUser st userID = Some u" "findInboundClient st inboundID userID = Some b" "ic_Enabled b"
    "ev_Open env (ic_CredentialEnc b) = Inr cred" "share_link env x node u cred = Inr link"
  using assms by (auto simp: xrayShareLink_def split: option.splits if_splits sum.splits)

text \<open>A configuration that may be handed out: of an enabled peer or an enabled binding of the user.\<close>

definition own_config :: "'w env \<Rightarrow> State \<Rightarrow> User \<Rightarrow> string \<Rightarrow> bool" where
  "own_config env st u c \<longleftrightarrow>
     (\<exists>p \<in> set (st_VPNPeers st). vp_UserID p = u_ID u \<and> vp_Enabled p \<and> ev_Open env (vp_ConfigEnc p) = Inr c) \<or>
     (\<exists>b \<in> set (st_InboundClients st). ic_UserID b = u_ID u \<and> ic_Enabled b \<and>
        (\<exists>x node cred. findInbound st (ic_InboundID b) = Some x \<and> findNode st (in_NodeID x) = Some node \<and>
           ev_Open env (ic_CredentialEnc b) = Inr cred \<and>
           (\<exists>u'. findUser st (u_ID u) = Some u' \<and> share_link env x node u' cred = Inr c)))"

lemma subscription_configs_own: "c \<in> set (subscription_configs env st u) \<Longrightarrow> own_config env st u c"
proof (unfold subscription_configs_def set_append Un_iff, erule disjE)
  assume "c \<in> set (ok_values (map (\<lambda>p. ev_Open env (vp_ConfigEnc p))
      (filter (\<lambda>p. vp_UserID p = u_ID u \<and> vp_Enabled p) (st_VPNPeers st))))"
  from ok_values_map [OF this] show ?thesis unfolding own_config_def by auto
next
  assume "c \<in> set (ok_values (map (\<lambda>c. xrayShareLink env st (ic_InboundID c) (u_ID u))
      (filter (\<lambda>c. \<not> (ic_UserID c \<noteq> u_ID u \<or> \<not> ic_Enabled c)) (st_InboundClients st))))"
  from ok_values_map [OF this] obtain b :: InboundClient where "xrayShareLink env st (ic_InboundID b) (u_ID u) = Inr c"
    by blast
  then obtain x node v d cred where l: "findInbound st (ic_InboundID b) = Some x"
    "findNode st (in_NodeID x) = Some node" "findUser st (u_ID u) = Some v"
    "findInboundClient st (ic_InboundID b) (u_ID u) = Some d" "ic_Enabled d"
    "ev_Open env (ic_CredentialEnc d) = Inr cred" "share_link env x node v cred = Inr c"
    by (rule share_link_served)
  have d: "d \<in> set (st_InboundClients st)" "ic_InboundID d = ic_InboundID b" "ic_UserID d = u_ID u"
    using find_Some_in [OF l(4) [unfolded findInboundClient_def]] by simp_all
  show ?thesis unfolding own_config_def using l d by metis
qed

lemma subscription_body:
  assumes "handleSubscription env path st = Some body"
  obtains u where "u \<in> set (st_Users st)" "u_SubscriptionToken u = TrimPrefix path ''/sub/''"
    "u_Status u = ''active''" "subscription_configs env st u \<noteq> []"
    "body = ''# '' @ site_name st @ '' subscription'' @ [CHR 0x0A, CHR 0x0A] @
            JoinStrings (subscription_configs env st u) [CHR 0x0A] @ [CHR 0x0A]"
proof -
  obtain u where u: "subscription_target st (TrimPrefix path ''/sub/'') = Some u"
    using assms by (cases "subscription_target st (TrimPrefix path ''/sub/'')")
      (simp_all add: handleSubscription_def)
  have "subscription_configs env st u \<noteq> []"
    "body = ''# '' @ site_name st @ '' subscription'' @ [CHR 0x0A, CHR 0x0A] @
            JoinStrings (subscription_configs env st u) [CHR 0x0A] @ [CHR 0x0A]"
    using assms by (simp_all add: handleSubscription_def u Let_def split: if_splits)
  with that find_Some_in [OF u [unfolded subscription_target_def]] show thesis by blast
qed

text \<open>
  C30: a subscription URL gives away nothing but the configurations of the active user whose token it
  holds, each of an enabled WireGuard peer or of an enabled binding of that user, and it always has
  at least one; a user that is disabled, expired or over quota gets the 404 page.
\<close>

theorem subscription_discloses_own:
  assumes "handleSubscription env path st = Some body"
  shows "\<exists>u cfgs. u \<in> set (st_Users st) \<and> u_SubscriptionToken u = TrimPrefix path ''/sub/'' \<and>
           u_Status u = ''active'' \<and> cfgs \<noteq> [] \<and> list_all (own_config env st u) cfgs \<and>
           body = ''# '' @ site_name st @ '' subscription'' @ [CHR 0x0A, CHR 0x0A] @
                  JoinStrings cfgs [CHR 0x0A] @ [CHR 0x0A]"
proof -
  from assms obtain u where "u \<in> set (st_Users st)" "u_SubscriptionToken u = TrimPrefix path ''/sub/''"
    "u_Status u = ''active''" "subscription_configs env st u \<noteq> []"
    "body = ''# '' @ site_name st @ '' subscription'' @ [CHR 0x0A, CHR 0x0A] @
            JoinStrings (subscription_configs env st u) [CHR 0x0A] @ [CHR 0x0A]"
    by (rule subscription_body)
  then show ?thesis
    by (intro exI [of _ u] exI [of _ "subscription_configs env st u"])
      (simp add: list_all_iff subscription_configs_own)
qed

definition sample_subscribed :: State where
  "sample_subscribed =
     emptyState\<lparr>st_Nodes := [sample_node],
       st_Users := [sample_user\<lparr>u_SubscriptionToken := ''tok'', u_Status := ''active''\<rparr>],
       st_Inbounds := [sample_inbound], st_InboundClients := [sample_client]\<rparr>"

theorem subscription_discloses_own_witness:
  "handleSubscription sample_env ''/sub/tok'' sample_subscribed \<noteq> None \<and>
   list_ex (\<lambda>u. u_SubscriptionToken u = ''tok'' \<and> u_Status u = ''active'') (st_Users sample_subscribed)"
proof -
  have t: "TrimPrefix ''/sub/tok'' ''/sub/'' = ''tok''" by code_simp
  have "handleSubscription sample_env ''/sub/tok'' sample_subscribed \<noteq> None" by code_simp
  then obtain body where h: "handleSubscription sample_env ''/sub/tok'' sample_subscribed = Some body" by blast
  from subscription_discloses_own [OF h] show ?thesis unfolding t by (auto simp: h list_ex_iff)
qed

end
