(* ===== verification/InboundTx.thy ===== *)
theory InboundTx
  imports InboundUsers
begin

text \<open>
  The transactional operations on inbounds and their handlers: updates
  (src/internal/panel/inbound_hardening.go), creation, enabling and deletion
  (inbound_lifecycle.go), the control actions (inbound_control.go) and /api/inbounds (inbounds.go).
\<close>

definition inboundDeployOrder :: "string \<Rightarrow> string \<Rightarrow> string list" where
  "inboundDeployOrder = deployOrder"

definition redeployInboundNodes :: "string list \<Rightarrow> 'w deployer \<Rightarrow> 'w Store \<Rightarrow> 'w tx" where
  "redeployInboundNodes = redeployNodes"

text \<open>The callback of restoreInboundSnapshot.\<close>

definition restoreInboundSnapshot :: "string \<Rightarrow> Inbound \<Rightarrow> State \<Rightarrow> go_error + State" where
  "restoreInboundSnapshot rid before st =
     (case findInbound st rid of
        None \<Rightarrow> Inl (Plain ''inbound disappeared during rollback'')
      | Some _ \<Rightarrow> Inr (updInbound rid (\<lambda>_. cloneInboundValue before) st))"

section \<open>Create\<close>

definition create_inbound_update :: "Inbound \<Rightarrow> State \<Rightarrow> go_error + State" where
  "create_inbound_update obj st =
     (case validateInboundTargetSpec st [] (in_Name obj) (in_NodeID obj) (in_Listen obj) (in_Port obj) of
        Some e \<Rightarrow> Inl e
      | None \<Rightarrow> Inr (st\<lparr>st_Inbounds := st_Inbounds st @ [obj]\<rparr>))"

definition create_inbound_undo :: "Inbound \<Rightarrow> State \<Rightarrow> go_error + State" where
  "create_inbound_undo obj st = Inr (st\<lparr>st_Inbounds := deleteByID (st_Inbounds st) (in_ID obj) in_ID\<rparr>)"

definition createInboundTransactional ::
  "'w saver \<Rightarrow> Inbound \<Rightarrow> 'w deployer \<Rightarrow> 'w Store \<Rightarrow> 'w tx" where
  "createInboundTransactional save obj deploy s =
     (case UpdateE save (create_inbound_update obj) s of
        (Some e, s1) \<Rightarrow> (Some e, s1)
      | (None, s1) \<Rightarrow>
          deploy_or_rollback InboundDeploymentError save deploy (deploy (in_NodeID obj))
            (create_inbound_undo obj) [in_NodeID obj] s1)"

section \<open>Update\<close>

definition update_inbound_update ::
  "time \<Rightarrow> string \<Rightarrow> inboundCreate \<Rightarrow> State \<Rightarrow> go_error + (Inbound \<times> string \<times> string) \<times> State" where
  "update_inbound_update now rid i st =
     (case findInbound st rid of
        None \<Rightarrow> Inl (Plain ''inbound not found'')
      | Some x \<Rightarrow>
          (case validateInboundTargetSpec st rid (ci_Name i) (ci_NodeID i) (ci_Listen i) (ci_Port i) of
             Some e \<Rightarrow> Inl e
           | None \<Rightarrow>
               (case validateInboundReferenceChange st rid (ci_NodeID i) (ci_Enabled i) False of
                  Some e \<Rightarrow> Inl e
                | None \<Rightarrow> Inr ((cloneInboundValue x, in_NodeID x, ci_NodeID i),
                              updInbound rid (applyInboundInput now i) st))))"

definition updateInboundTransactional ::
  "'w saver \<Rightarrow> time \<Rightarrow> string \<Rightarrow> inboundCreate \<Rightarrow> 'w deployer \<Rightarrow> 'w Store \<Rightarrow> 'w tx" where
  "updateInboundTransactional save now rid i deploy s =
     (case Update save (update_inbound_update now rid i) s of
        (Inl e, s1) \<Rightarrow> (Some e, s1)
      | (Inr (before, oldNodeID, newNodeID), s1) \<Rightarrow>
          let nodes = inboundDeployOrder oldNodeID newNodeID in
          deploy_or_rollback InboundDeploymentError save deploy (redeployInboundNodes nodes deploy)
            (restoreInboundSnapshot rid before) nodes s1)"

section \<open>Enable and disable\<close>

definition set_inbound_enabled :: "time \<Rightarrow> bool \<Rightarrow> Inbound \<Rightarrow> Inbound" where
  "set_inbound_enabled now enabled x =
     x\<lparr>in_Enabled := enabled, in_Status := (if enabled then ''configured'' else ''disabled''),
       in_UpdatedAt := now\<rparr>"

definition set_inbound_update ::
  "time \<Rightarrow> string \<Rightarrow> bool \<Rightarrow> State \<Rightarrow> go_error + (Inbound \<times> string) \<times> State" where
  "set_inbound_update now rid enabled st =
     (case findInbound st rid of
        None \<Rightarrow> Inl (Plain ''inbound not found'')
      | Some x \<Rightarrow>
          (case (if enabled then validateInboundTarget st (in_ID x) (in_NodeID x) (in_Listen x) (in_Port x)
                 else None) of
             Some e \<Rightarrow> Inl e
           | None \<Rightarrow>
               (case validateInboundReferenceChange st rid (in_NodeID x) enabled False of
                  Some e \<Rightarrow> Inl e
                | None \<Rightarrow> Inr ((cloneInboundValue x, in_NodeID x),
                              updInbound rid (set_inbound_enabled now enabled) st))))"

definition setInboundEnabledTransactional ::
  "'w saver \<Rightarrow> time \<Rightarrow> string \<Rightarrow> bool \<Rightarrow> 'w deployer \<Rightarrow> 'w Store \<Rightarrow> 'w tx" where
  "setInboundEnabledTransactional save now rid enabled deploy s =
     (case Update save (set_inbound_update now rid enabled) s of
        (Inl e, s1) \<Rightarrow> (Some e, s1)
      | (Inr (before, nodeID), s1) \<Rightarrow>
          deploy_or_rollback InboundDeploymentError save deploy (deploy nodeID)
            (restoreInboundSnapshot rid before) [nodeID] s1)"

section \<open>Delete\<close>

text \<open>The callback captures the row, all bindings, the index and the node.\<close>

definition delete_inbound_update ::
  "string \<Rightarrow> State \<Rightarrow> go_error + (Inbound \<times> InboundClient list \<times> int \<times> string) \<times> State" where
  "delete_inbound_update rid st =
     (case findInbound st rid of
        None \<Rightarrow> Inl (Plain ''inbound not found'')
      | Some x \<Rightarrow>
          (case validateInboundReferenceChange st rid (in_NodeID x) False True of
             Some e \<Rightarrow> Inl e
           | None \<Rightarrow>
               Inr ((cloneInboundValue x, [] @ st_InboundClients st,
                     index_of (\<lambda>y. in_ID y = rid) (st_Inbounds st), in_NodeID x),
                    st\<lparr>st_Inbounds := deleteByID (st_Inbounds st) rid in_ID,
                       st_InboundClients := filter (\<lambda>c. ic_InboundID c \<noteq> rid) (st_InboundClients st)\<rparr>)))"

definition zero_inbound :: Inbound where
  "zero_inbound =
     \<lparr>in_ID = [], in_Name = [], in_Protocol = [], in_NodeID = [], in_Listen = [], in_Port = 0,
      in_Transport = [], in_TLSMode = [], in_Enabled = False, in_Status = [], in_Remark = [],
      in_Path = [], in_Host = [], in_ServiceName = [], in_ServerName = [], in_CertFile = [],
      in_KeyFile = [], in_RealityDest = [], in_RealityServerNames = [], in_RealityPrivateKeyEnc = [],
      in_RealityPublicKey = [], in_RealityShortIDs = [], in_RealityFingerprint = [],
      in_ShadowsocksMethod = [], in_ShadowsocksServerPasswordEnc = [],
      in_CreatedAt = 0, in_UpdatedAt = 0\<rparr>"

definition delete_inbound_undo ::
  "string \<Rightarrow> Inbound \<Rightarrow> InboundClient list \<Rightarrow> int \<Rightarrow> State \<Rightarrow> go_error + State" where
  "delete_inbound_undo rid before beforeClients index st =
     Inr (st\<lparr>st_Inbounds := reinsert_row in_ID zero_inbound rid index before (st_Inbounds st),
             st_InboundClients := [] @ beforeClients\<rparr>)"

definition deleteInboundTransactional ::
  "'w saver \<Rightarrow> string \<Rightarrow> 'w deployer \<Rightarrow> 'w Store \<Rightarrow> 'w tx" where
  "deleteInboundTransactional save rid deploy s =
     (case Update save (delete_inbound_update rid) s of
        (Inl e, s1) \<Rightarrow> (Some e, s1)
      | (Inr (before, beforeClients, index, nodeID), s1) \<Rightarrow>
          deploy_or_rollback InboundDeploymentError save deploy (deploy nodeID)
            (delete_inbound_undo rid before beforeClients index) [nodeID] s1)"

fun isInboundDeploymentError :: "go_error \<Rightarrow> bool" where
  "isInboundDeploymentError (InboundDeploymentError m) = True"
| "isInboundDeploymentError e = False"

section \<open>The node calls\<close>

text \<open>The decoder of a reply into a map is an argument.\<close>

definition xray_node_call ::
  "'w env \<Rightarrow> (string \<Rightarrow> go_error + json) \<Rightarrow> string \<Rightarrow> string \<Rightarrow> string \<Rightarrow> 'w Store \<Rightarrow> (go_error + json) \<times> 'w Store" where
  "xray_node_call env decode method path nodeID s =
     (case findNode (cloneState (store_st s)) nodeID of
        None \<Rightarrow> (Inl (Plain ''node not found''), s)
      | Some n \<Rightarrow> agentJSON env n method path None (Some decode) JNull s)"

definition xrayNodeStatus ::
  "'w env \<Rightarrow> (string \<Rightarrow> go_error + json) \<Rightarrow> string \<Rightarrow> 'w Store \<Rightarrow> (go_error + json) \<times> 'w Store" where
  "xrayNodeStatus env decode = xray_node_call env decode ''GET'' ''/v1/xray/status''"

definition installXrayOnNode ::
  "'w env \<Rightarrow> (string \<Rightarrow> go_error + json) \<Rightarrow> string \<Rightarrow> 'w Store \<Rightarrow> (go_error + json) \<times> 'w Store" where
  "installXrayOnNode env decode = xray_node_call env decode ''POST'' ''/v1/xray/install''"

section \<open>The handlers\<close>

datatype inbound_payload =
    InboundList "Inbound list" | InboundCreated Inbound | InboundDetail "Inbound \<times> client_detail list"
  | InboundView InboundSummary | InboundBinding "InboundClient option" string | InboundLink string
  | InboundAgent json | InboundOK

definition inbound_failure :: "nat \<Rightarrow> go_error \<Rightarrow> inbound_payload response" where
  "inbound_failure missing e =
     JsonError (if isInboundDeploymentError e then 502
                else if err_msg e = ''inbound not found'' then missing else 409) (err_msg e)"

definition handleInbounds ::
  "'w env \<Rightarrow> inboundCreate request \<Rightarrow> 'w Store \<Rightarrow> inbound_payload response \<times> 'w Store" where
  "handleInbounds env r s =
     (if rq_Method r = ''GET'' then (JsonWrite 200 (InboundList (st_Inbounds (cloneState (store_st s)))), s)
      else if rq_Method r = ''POST'' then
        (if requireRole r ''admin'' \<noteq> None then (JsonError 403 ''forbidden'', s)
         else (case rq_Body r of
           Inl e \<Rightarrow> (JsonError 400 (err_msg e), s)
         | Inr body \<Rightarrow>
             (case normalizeInboundInput env body s of
                (Inl e, s1) \<Rightarrow> (JsonError 400 (err_msg e), s1)
              | (Inr i, s1) \<Rightarrow>
                  (case inboundFromCreate env i s1 of
                     (obj, s2) \<Rightarrow>
                       (case createInboundTransactional (ev_save env) obj (deployXrayNode env) s2 of
                          (Some e, s3) \<Rightarrow> (inbound_failure 409 e, s3)
                        | (None, s3) \<Rightarrow>
                            (JsonWrite 201 (InboundCreated obj),
                             audit_now env r ''create'' (''inbound:'' @ in_Name obj) s3))))))
      else (JsonError 405 ''method not allowed'', s))"

definition handleInboundControl ::
  "'w env \<Rightarrow> 'b request \<Rightarrow> string \<Rightarrow> string \<Rightarrow> 'w Store \<Rightarrow> inbound_payload response \<times> 'w Store" where
  "handleInboundControl env r rid action s =
     (if action = ''summary'' then
        (if rq_Method r \<noteq> ''GET'' then (JsonError 405 ''method not allowed'', s)
         else (case effect (ev_Now env) s of (now, s1) \<Rightarrow>
                 (case inboundSummary (cloneState (store_st s1)) rid now of
                    Inl e \<Rightarrow> (JsonError 404 (err_msg e), s1)
                  | Inr out \<Rightarrow> (JsonWrite 200 (InboundView out), s1))))
      else if action = ''redeploy'' then
        (if rq_Method r \<noteq> ''POST'' then (JsonError 405 ''method not allowed'', s)
         else if requireRole r ''operator'' \<noteq> None then (JsonError 403 ''forbidden'', s)
         else (case findInbound (cloneState (store_st s)) rid of
                 None \<Rightarrow> (JsonError 404 ''inbound not found'', s)
               | Some x \<Rightarrow>
                   (case deployXrayNode env (in_NodeID x) s of
                      (Some e, s1) \<Rightarrow> (JsonError 502 (err_msg e), s1)
                    | (None, s1) \<Rightarrow>
                        (JsonWrite 200 InboundOK, audit_now env r ''redeploy'' (''inbound:'' @ rid) s1))))
      else
        (if rq_Method r \<noteq> ''POST'' then (JsonError 405 ''method not allowed'', s)
         else if requireRole r ''admin'' \<noteq> None then (JsonError 403 ''forbidden'', s)
         else (case effect (ev_Now env) s of (now, s1) \<Rightarrow>
                 (case setInboundEnabledTransactional (ev_save env) now rid (action = ''enable'')
                         (deployXrayNode env) s1 of
                    (Some e, s2) \<Rightarrow> (inbound_failure 404 e, s2)
                  | (None, s2) \<Rightarrow>
                      (JsonWrite 200 InboundOK, audit_now env r action (''inbound:'' @ rid) s2)))))"

text \<open>
  The sub-resources of an inbound. The body of the request is an inbound; user_body is what decoding
  the same body as a user ID gives. None means that no case applies, so the item itself is meant.
\<close>

definition inbound_node :: "'w Store \<Rightarrow> string \<Rightarrow> string" where
  "inbound_node s rid = (case findInbound (cloneState (store_st s)) rid of None \<Rightarrow> [] | Some x \<Rightarrow> in_NodeID x)"

definition deploy_inbound ::
  "'w env \<Rightarrow> 'b request \<Rightarrow> string \<Rightarrow> 'w Store \<Rightarrow> inbound_payload response \<times> 'w Store" where
  "deploy_inbound env r rid s =
     (if requireRole r ''operator'' \<noteq> None then (JsonError 403 ''forbidden'', s)
      else if inbound_node s rid = [] then (JsonError 404 ''inbound not found'', s)
      else (case deployXrayNode env (inbound_node s rid) s of
              (Some e, s1) \<Rightarrow> (JsonError 502 (err_msg e), s1)
            | (None, s1) \<Rightarrow>
                (JsonWrite 200 InboundOK, audit_now env r ''deploy'' (''inbound:'' @ rid) s1)))"

definition inbound_xray_status ::
  "'w env \<Rightarrow> (string \<Rightarrow> go_error + json) \<Rightarrow> string \<Rightarrow> 'w Store \<Rightarrow> inbound_payload response \<times> 'w Store" where
  "inbound_xray_status env decode rid s =
     (if inbound_node s rid = [] then (JsonError 404 ''inbound not found'', s)
      else (case xrayNodeStatus env decode (inbound_node s rid) s of
              (Inl e, s1) \<Rightarrow> (JsonError 502 (err_msg e), s1)
            | (Inr out, s1) \<Rightarrow> (JsonWrite 200 (InboundAgent out), s1)))"

definition inbound_xray_install ::
  "'w env \<Rightarrow> (string \<Rightarrow> go_error + json) \<Rightarrow> 'b request \<Rightarrow> string \<Rightarrow> 'w Store \<Rightarrow>
   inbound_payload response \<times> 'w Store" where
  "inbound_xray_install env decode r rid s =
     (if requireRole r ''admin'' \<noteq> None then (JsonError 403 ''forbidden'', s)
      else if inbound_node s rid = [] then (JsonError 404 ''inbound not found'', s)
      else (case installXrayOnNode env decode (inbound_node s rid) s of
              (Inl e, s1) \<Rightarrow> (JsonError 502 (err_msg e), s1)
            | (Inr out, s1) \<Rightarrow>
                (JsonWrite 200 (InboundAgent out),
                 audit_now env r ''install-xray'' (''node:'' @ inbound_node s rid) s1)))"

definition contains_text :: "string \<Rightarrow> string \<Rightarrow> bool" where
  "contains_text s t \<longleftrightarrow> list_ex (\<lambda>i. HasPrefix (drop i s) t) [0..<Suc (length s)]"

definition inbound_users ::
  "'w env \<Rightarrow> 'b request \<Rightarrow> (go_error + string) \<Rightarrow> string \<Rightarrow> 'w Store \<Rightarrow> inbound_payload response \<times> 'w Store" where
  "inbound_users env r user_body rid s =
     (if rq_Method r = ''GET'' then
        (case inboundDetail (cloneState (store_st s)) rid of
           Inl e \<Rightarrow> (JsonError 404 (err_msg e), s)
         | Inr d \<Rightarrow> (JsonWrite 200 (InboundDetail d), s))
      else if rq_Method r = ''POST'' then
        (if requireRole r ''admin'' \<noteq> None then (JsonError 403 ''forbidden'', s)
         else (case user_body of
           Inl e \<Rightarrow> (JsonError 400 (err_msg e), s)
         | Inr userID \<Rightarrow>
             (case attachUserToInbound env (deployXrayNode env) rid userID s of
                ((b, Some e), s1) \<Rightarrow>
                  (if contains_text (err_msg e) ''deploy failed''
                   then JsonWrite 201 (InboundBinding b (err_msg e))
                   else JsonError 400 (err_msg e), s1)
              | ((b, None), s1) \<Rightarrow>
                  (JsonWrite 201 (InboundBinding b []),
                   audit_now env r ''attach-user'' (''inbound:'' @ rid @ ''/user:'' @ userID) s1))))
      else (JsonError 405 ''method not allowed'', s))"

definition inbound_user ::
  "'w env \<Rightarrow> 'b request \<Rightarrow> string \<Rightarrow> string list \<Rightarrow> 'w Store \<Rightarrow>
   (inbound_payload response \<times> 'w Store) option" where
  "inbound_user env r rid parts s =
     (if length parts = 4 \<and> parts ! 3 = ''share'' \<and> rq_Method r = ''GET'' then
        Some (case xrayShareLink env (cloneState (store_st s)) rid (parts ! 2) of
                Inl e \<Rightarrow> (JsonError 400 (err_msg e), s)
              | Inr link \<Rightarrow> (JsonWrite 200 (InboundLink link), s))
      else if length parts = 3 \<and> rq_Method r = ''DELETE'' then
        Some (if requireRole r ''admin'' \<noteq> None then (JsonError 403 ''forbidden'', s)
              else (case detachUserFromInbound (ev_save env) (deployXrayNode env) rid (parts ! 2) s of
                      (Some e, s1) \<Rightarrow> (JsonError 502 (err_msg e), s1)
                    | (None, s1) \<Rightarrow>
                        (JsonWrite 200 InboundOK,
                         audit_now env r ''detach-user'' (''inbound:'' @ rid @ ''/user:'' @ (parts ! 2)) s1)))
      else None)"

definition inbound_item ::
  "'w env \<Rightarrow> inboundCreate request \<Rightarrow> string \<Rightarrow> 'w Store \<Rightarrow> inbound_payload response \<times> 'w Store" where
  "inbound_item env r rid s =
     (if rq_Method r = ''GET'' then
        (case inboundDetail (cloneState (store_st s)) rid of
           Inl e \<Rightarrow> (JsonError 404 (err_msg e), s)
         | Inr d \<Rightarrow> (JsonWrite 200 (InboundDetail d), s))
      else if rq_Method r = ''PUT'' then
        (if requireRole r ''admin'' \<noteq> None then (JsonError 403 ''forbidden'', s)
         else (case rq_Body r of
           Inl e \<Rightarrow> (JsonError 400 (err_msg e), s)
         | Inr body \<Rightarrow>
             (case normalizeInboundInput env body s of
                (Inl e, s1) \<Rightarrow> (JsonError 400 (err_msg e), s1)
              | (Inr i, s1) \<Rightarrow>
                  (case effect (ev_Now env) s1 of (now, s2) \<Rightarrow>
                     (case updateInboundTransactional (ev_save env) now rid i (deployXrayNode env) s2 of
                        (Some e, s3) \<Rightarrow> (inbound_failure 404 e, s3)
                      | (None, s3) \<Rightarrow>
                          (JsonWrite 200 InboundOK, audit_now env r ''update'' (''inbound:'' @ rid) s3))))))
      else if rq_Method r = ''DELETE'' then
        (if requireRole r ''admin'' \<noteq> None then (JsonError 403 ''forbidden'', s)
         else (case deleteInboundTransactional (ev_save env) rid (deployXrayNode env) s of
                 (Some e, s1) \<Rightarrow> (inbound_failure 404 e, s1)
               | (None, s1) \<Rightarrow>
                   (JsonWrite 200 InboundOK, audit_now env r ''delete'' (''inbound:'' @ rid) s1)))
      else (JsonError 405 ''method not allowed'', s))"

definition handleInboundItem ::
  "'w env \<Rightarrow> (string \<Rightarrow> go_error + json) \<Rightarrow> inboundCreate request \<Rightarrow> (go_error + string) \<Rightarrow> string \<Rightarrow>
   'w Store \<Rightarrow> inbound_payload response \<times> 'w Store" where
  "handleInboundItem env decode r user_body rest s =
     (let parts = SplitSlash (TrimSlash (TrimSpace rest)); rid = hd parts in
      if parts = [] \<or> rid = [] then (JsonError 404 ''inbound not found'', s)
      else if length parts = 2 \<and> parts ! 1 \<in> {''enable'', ''disable'', ''redeploy'', ''summary''}
        then handleInboundControl env r rid (parts ! 1) s
      else if length parts = 2 \<and> parts ! 1 = ''deploy'' \<and> rq_Method r = ''POST''
        then deploy_inbound env r rid s
      else if length parts = 2 \<and> parts ! 1 = ''xray-status'' \<and> rq_Method r = ''GET''
        then inbound_xray_status env decode rid s
      else if length parts = 2 \<and> parts ! 1 = ''xray-install'' \<and> rq_Method r = ''POST''
        then inbound_xray_install env decode r rid s
      else if length parts = 2 \<and> parts ! 1 = ''users'' then inbound_users env r user_body rid s
      else (case (if length parts \<ge> 3 \<and> parts ! 1 = ''users'' then inbound_user env r rid parts s else None) of
              Some answer \<Rightarrow> answer
            | None \<Rightarrow> inbound_item env r rid s))"

section \<open>Inbounds and deployments\<close>

text \<open>
  A deployment writes the status and the generated secrets of inbounds, so the view of the state
  has the inbounds without them; writing a row does the same to the view as to the state.
\<close>

lemma erase_runtime_ID [simp]: "in_ID (erase_runtime x) = in_ID x"
  by (simp add: erase_runtime_def)

lemma erase_delete: "map erase_runtime (deleteByID xs rid in_ID) = deleteByID (map erase_runtime xs) rid in_ID"
  by (simp add: deleteByID_def filter_map comp_def)

lemma erase_write:
  "map erase_runtime (upd_row in_ID rid (\<lambda>_. x) xs) =
   upd_row in_ID rid (\<lambda>_. erase_runtime x) (map erase_runtime xs)"
  by (induction xs) (simp_all add: upd_row_def)

lemma erase_find: "find_row in_ID (map erase_runtime xs) rid = map_option erase_runtime (find_row in_ID xs rid)"
  by (induction xs) (simp_all add: find_row_def)

lemma erase_reinsert:
  "map erase_runtime (reinsert_row in_ID zero rid i x xs) =
   reinsert_row in_ID (erase_runtime zero) rid i (erase_runtime x) (map erase_runtime xs)"
proof (cases "i < 0 \<or> int (length xs) < i")
  case True
  then show ?thesis by (auto simp: reinsert_row_def erase_find)
next
  case False
  then have "nat i \<le> length xs" by (simp add: nat_le_iff)
  with False show ?thesis
    by (simp add: reinsert_row_def erase_find slice_insert_eq take_map drop_map)
qed

lemma view_inbounds:
  "xray_view (st_Inbounds_update f st) = (rest_of st, map erase_runtime (f (st_Inbounds st)))"
  by (cases st) (simp add: xray_view_def rest_of_def)

lemma view_inbounds_cong:
  assumes "xray_view st = xray_view st1"
    and "\<And>xs. map erase_runtime (f xs) = g (map erase_runtime xs)"
  shows "xray_view (st_Inbounds_update f st) = xray_view (st_Inbounds_update f st1)"
proof -
  have "rest_of st = rest_of st1" "map erase_runtime (st_Inbounds st) = map erase_runtime (st_Inbounds st1)"
    using assms(1) by (simp_all add: xray_view_def)
  then show ?thesis by (simp add: view_inbounds assms(2))
qed

interpretation inbounds_tx: table_tx "deployXrayNode env" xray_view st_Inbounds st_Inbounds_update in_ID
  for env :: "'w env"
proof unfold_locales
  fix st st1 :: State and rid i and x zero :: Inbound
  assume v: "xray_view st = xray_view st1"
  show "xray_view (st_Inbounds_update (\<lambda>xs. deleteByID xs rid in_ID) st) =
      xray_view (st_Inbounds_update (\<lambda>xs. deleteByID xs rid in_ID) st1)"
    by (rule view_inbounds_cong [OF v]) (rule erase_delete)
  show "xray_view (st_Inbounds_update (upd_row in_ID rid (\<lambda>_. x)) st) =
      xray_view (st_Inbounds_update (upd_row in_ID rid (\<lambda>_. x)) st1)"
    by (rule view_inbounds_cong [OF v]) (rule erase_write)
  show "xray_view (st_Inbounds_update (reinsert_row in_ID zero rid i x) st) =
      xray_view (st_Inbounds_update (reinsert_row in_ID zero rid i x) st1)"
    by (rule view_inbounds_cong [OF v]) (rule erase_reinsert)
qed

section \<open>Lemmas on the operations\<close>

lemma updInbound_eq: "updInbound rid f st = st_Inbounds_update (upd_row in_ID rid f) st"
  by (cases st) (simp add: updInbound_def)

lemma redeployInboundNodes_view:
  "xray_view (store_st (snd (redeployInboundNodes ns (deployXrayNode env) s))) = xray_view (store_st s)"
  unfolding redeployInboundNodes_def by (rule xray.redeploy_view)

lemma restore_Inr:
  "restoreInboundSnapshot rid before st = Inr st' \<Longrightarrow>
   st' = st_Inbounds_update (upd_row in_ID rid (\<lambda>_. before)) st"
  by (auto simp: restoreInboundSnapshot_def updInbound_eq split: option.splits)

lemma create_inbound_update_Inr:
  "create_inbound_update obj st = Inr st' \<longleftrightarrow>
   validateInboundTargetSpec st [] (in_Name obj) (in_NodeID obj) (in_Listen obj) (in_Port obj) = None \<and>
   st' = st_Inbounds_update (\<lambda>xs. xs @ [obj]) st"
  by (auto simp: create_inbound_update_def split: option.split)

lemma create_inbound_undo_eq:
  "create_inbound_undo obj st = Inr (st_Inbounds_update (\<lambda>xs. deleteByID xs (in_ID obj) in_ID) st)"
  by (simp add: create_inbound_undo_def)

lemma update_inbound_update_Inr:
  assumes "update_inbound_update now rid i st = Inr (v, st')"
  shows "findInbound st rid = Some (fst v) \<and> fst (snd v) = in_NodeID (fst v) \<and> snd (snd v) = ci_NodeID i \<and>
         validateInboundTargetSpec st rid (ci_Name i) (ci_NodeID i) (ci_Listen i) (ci_Port i) = None \<and>
         validateInboundReferenceChange st rid (ci_NodeID i) (ci_Enabled i) False = None \<and>
         st' = st_Inbounds_update (upd_row in_ID rid (applyInboundInput now i)) st"
  using assms by (auto simp: update_inbound_update_def updInbound_eq split: option.splits)

lemma set_inbound_update_Inr:
  assumes "set_inbound_update now rid enabled st = Inr (v, st')"
  shows "findInbound st rid = Some (fst v) \<and> snd v = in_NodeID (fst v) \<and>
         validateInboundReferenceChange st rid (in_NodeID (fst v)) enabled False = None \<and>
         st' = st_Inbounds_update (upd_row in_ID rid (set_inbound_enabled now enabled)) st"
  using assms by (auto simp: set_inbound_update_def updInbound_eq split: option.splits if_splits)

lemma delete_inbound_update_Inr:
  assumes "delete_inbound_update rid st = Inr ((before, clients, index, nodeID), st')"
  shows "findInbound st rid = Some before \<and> clients = st_InboundClients st \<and>
         index = index_of (\<lambda>y. in_ID y = rid) (st_Inbounds st) \<and> nodeID = in_NodeID before \<and>
         (\<forall>r \<in> set (st_RoutingRules st). rid \<notin> set (rr_InboundIDs r)) \<and>
         st' = st_InboundClients_update (filter (\<lambda>c. ic_InboundID c \<noteq> rid))
                 (st_Inbounds_update (\<lambda>xs. deleteByID xs rid in_ID) st)"
  using assms
  by (cases st) (auto simp: delete_inbound_update_def validateInboundReferenceChange_None split: option.splits)

text \<open>The undo of a deletion restores what the view sees of the row and of the bindings.\<close>

lemma rest_of_clients: "rest_of (st_InboundClients_update f st) = st_InboundClients_update f (rest_of st)"
  by (cases st) (simp add: rest_of_def)

lemma clients_view:
  "xray_view (st_InboundClients_update f st) = (st_InboundClients_update f (rest_of st), snd (xray_view st))"
  by (simp add: xray_view_def rest_of_clients)

lemma clients_view_cong:
  "xray_view st = xray_view st1 \<Longrightarrow>
   xray_view (st_InboundClients_update f st) = xray_view (st_InboundClients_update f st1)"
  unfolding clients_view by (simp add: xray_view_def)

lemma delete_inbound_undo_eq:
  "delete_inbound_undo rid before clients index st =
   Inr (st_InboundClients_update (\<lambda>_. clients)
         (st_Inbounds_update (reinsert_row in_ID zero_inbound rid index before) st))"
  by (cases st) (simp add: delete_inbound_undo_def)

lemma delete_inbound_undone:
  assumes u: "delete_inbound_update rid st0 = Inr (v, st1)"
    and ids: "distinct (map in_ID (st_Inbounds st0))" and view: "xray_view st = xray_view st1"
    and undo: "delete_inbound_undo rid (fst v) (fst (snd v)) (fst (snd (snd v))) st = Inr st'"
  shows "xray_view st' = xray_view st0"
proof -
  obtain before clients index nodeID where v: "v = (before, clients, index, nodeID)" by (cases v)
  note d = delete_inbound_update_Inr [OF u [unfolded v]]
  let ?undo = "reinsert_row in_ID zero_inbound rid index before"
  let ?gone = "st_Inbounds_update (\<lambda>xs. deleteByID xs rid in_ID) st0"
  have "xray_view st' = xray_view (st_InboundClients_update (\<lambda>_. clients) (st_Inbounds_update ?undo st))"
    using undo by (simp add: v delete_inbound_undo_eq)
  also have "\<dots> = xray_view (st_InboundClients_update (\<lambda>_. clients) (st_Inbounds_update ?undo st1))"
    by (rule clients_view_cong, rule inbounds_tx.view_reinsert [OF view])
  also have "st_InboundClients_update (\<lambda>_. clients) (st_Inbounds_update ?undo st1) =
      st_InboundClients_update (\<lambda>_. clients) (st_Inbounds_update ?undo ?gone)"
    using d by (cases st0) simp
  also have "st_Inbounds_update ?undo ?gone = st0"
    using d ids by (intro inbounds.delete_then_rollback) (simp_all add: findInbound_def)
  also have "st_InboundClients_update (\<lambda>_. clients) st0 = st0" using d by (cases st0) simp
  finally show ?thesis .
qed

section \<open>Properties\<close>

text \<open>
  Updating an inbound is all or nothing. On success the row holds the new input, which clashes
  with no other inbound of its node and strands no routing rule, and the nodes of both versions are
  deployed; a failed deployment puts the row before back and redeploys both.
\<close>

lemma update_inbound_atomic:
  assumes "updateInboundTransactional save now rid i (deployXrayNode env) s = (r, s')"
  shows "tx_refused save (update_inbound_update now rid i) s r (store_st s') \<or>
         (\<exists>before. findInbound (store_st s) rid = Some before \<and>
            validateInboundTargetSpec (store_st s) rid (ci_Name i) (ci_NodeID i) (ci_Listen i) (ci_Port i) = None \<and>
            validateInboundReferenceChange (store_st s) rid (ci_NodeID i) (ci_Enabled i) False = None \<and>
            tx_run xray_view InboundDeploymentError (inboundDeployOrder (in_NodeID before) (ci_NodeID i))
              (store_st s) (updInbound rid (applyInboundInput now i) (store_st s)) r (store_st s'))"
proof -
  let ?st = "store_st s"
  let ?nodes = "\<lambda>v. inboundDeployOrder (fst (snd v)) (snd (snd v))"
  have run: "(case Update save (update_inbound_update now rid i) s of
      (Inl e, s1) \<Rightarrow> (Some e, s1)
    | (Inr v, s1) \<Rightarrow>
        deploy_or_rollback InboundDeploymentError save (deployXrayNode env)
          (redeployInboundNodes (?nodes v) (deployXrayNode env)) (restoreInboundSnapshot rid (fst v)) (?nodes v) s1)
      = (r, s')"
    using assms unfolding updateInboundTransactional_def Let_def
    by (auto split: prod.splits sum.splits)
  have "tx_refused save (update_inbound_update now rid i) s r (store_st s') \<or>
      (\<exists>v st1. update_inbound_update now rid i ?st = Inr (v, st1) \<and>
               tx_run xray_view InboundDeploymentError (?nodes v) ?st st1 r (store_st s'))"
  proof (rule inbounds_tx.update_tx [OF run redeployInboundNodes_view, where old = fst and
        change = "\<lambda>v. applyInboundInput now i"])
    fix v st1 assume "update_inbound_update now rid i ?st = Inr (v, st1)"
    from update_inbound_update_Inr [OF this]
    show "find_row in_ID (st_Inbounds ?st) rid = Some (fst v) \<and>
        st1 = st_Inbounds_update (upd_row in_ID rid (applyInboundInput now i)) ?st"
      unfolding findInbound_def by blast
  qed (simp_all add: restore_Inr)
  then show ?thesis
  proof (elim disjE exE conjE)
    fix v st1
    assume u: "update_inbound_update now rid i ?st = Inr (v, st1)"
      and t: "tx_run xray_view InboundDeploymentError (?nodes v) ?st st1 r (store_st s')"
    from update_inbound_update_Inr [OF u] t show ?thesis by (auto simp: updInbound_eq)
  qed blast
qed

definition sample_served :: State where
  "sample_served = sample_net\<lparr>st_Inbounds := [sample_inbound], st_InboundClients := [sample_client]\<rparr>"

definition sample_inbound_edit :: inboundCreate where
  "sample_inbound_edit =
     \<lparr>ci_Name = ''main'', ci_Protocol = ''trojan'', ci_NodeID = ''n1'', ci_Listen = ''0.0.0.0'',
      ci_Port = 8443, ci_Transport = ''tcp'', ci_TLSMode = ''none'', ci_Enabled = True, ci_Remark = [],
      ci_Path = ''/'', ci_Host = [], ci_ServiceName = ''gamebridge'', ci_ServerName = [],
      ci_CertFile = [], ci_KeyFile = [], ci_RealityDest = [], ci_RealityServerNames = [],
      ci_RealityShortIDs = [], ci_RealityFingerprint = ''chrome'', ci_ShadowsocksMethod = ''aes-128-gcm''\<rparr>"

lemma view_ports: "xray_view st = xray_view st1 \<Longrightarrow> map in_Port (st_Inbounds st) = map in_Port (st_Inbounds st1)"
proof -
  have port: "in_Port (erase_runtime x) = in_Port x" for x by (simp add: erase_runtime_def)
  assume "xray_view st = xray_view st1"
  then have "map erase_runtime (st_Inbounds st) = map erase_runtime (st_Inbounds st1)"
    by (simp add: xray_view_def)
  from arg_cong [OF this, of "map in_Port"] show ?thesis by (simp add: comp_def port)
qed

lemma update_inbound_atomic_witness:
  "map in_Port (st_Inbounds (store_st (snd (updateInboundTransactional (ev_save sample_env) 7 ''i1''
     sample_inbound_edit (deployXrayNode sample_env) (sample_store sample_served))))) = [8443]"
proof -
  have "fst (updateInboundTransactional (ev_save sample_env) 7 ''i1'' sample_inbound_edit
      (deployXrayNode sample_env) (sample_store sample_served)) = None" by code_simp
  then obtain s' where run: "updateInboundTransactional (ev_save sample_env) 7 ''i1'' sample_inbound_edit
      (deployXrayNode sample_env) (sample_store sample_served) = (None, s')"
    by (metis prod.collapse)
  from update_inbound_atomic [OF run] have
    "xray_view (store_st s') = xray_view (updInbound ''i1'' (applyInboundInput 7 sample_inbound_edit) sample_served)"
    by (auto simp: tx_refused_def tx_run_def sample_store_def)
  from view_ports [OF this] show ?thesis
    unfolding run snd_conv
    by (simp add: updInbound_def upd_row_def sample_served_def sample_inbound_def applyInboundInput_def
        sample_inbound_edit_def Let_def)
qed



end
