(* ===== verification/GroupTx.thy ===== *)
theory GroupTx
  imports OutboundTx
begin

text \<open>
  The operations on outbound groups, src/internal/panel/outbound_groups.go: create, update and
  delete as transactions, and the handlers of /api/outbound-groups. They report the same deployment
  errors as the outbounds do.
\<close>

definition cloneOutboundGroup :: "OutboundGroup \<Rightarrow> OutboundGroup" where
  "cloneOutboundGroup g = g\<lparr>og_Members := [] @ og_Members g\<rparr>"

lemma cloneOutboundGroup_id [simp]: "cloneOutboundGroup g = g"
  by (simp add: cloneOutboundGroup_def)

section \<open>Create\<close>

definition create_group_update :: "OutboundGroup \<Rightarrow> State \<Rightarrow> go_error + State" where
  "create_group_update g st =
     (case validateOutboundGroupSpec st g of
        Some e \<Rightarrow> Inl e
      | None \<Rightarrow> Inr (st\<lparr>st_OutboundGroups := st_OutboundGroups st @ [g]\<rparr>))"

definition create_group_undo :: "OutboundGroup \<Rightarrow> State \<Rightarrow> go_error + State" where
  "create_group_undo g st =
     Inr (st\<lparr>st_OutboundGroups := deleteOutboundGroupByID (st_OutboundGroups st) (og_ID g)\<rparr>)"

definition createOutboundGroupTransactional ::
  "'w saver \<Rightarrow> OutboundGroup \<Rightarrow> 'w deployer \<Rightarrow> 'w Store \<Rightarrow> 'w tx" where
  "createOutboundGroupTransactional save g deploy s =
     (case UpdateE save (create_group_update g) s of
        (Some e, s1) \<Rightarrow> (Some e, s1)
      | (None, s1) \<Rightarrow>
          deploy_or_rollback OutboundDeploymentError save deploy (deploy (og_NodeID g))
            (create_group_undo g) [og_NodeID g] s1)"

section \<open>Update\<close>

definition update_group_update ::
  "time \<Rightarrow> string \<Rightarrow> OutboundGroup \<Rightarrow> State \<Rightarrow> go_error + (OutboundGroup \<times> string \<times> string) \<times> State" where
  "update_group_update now rid g0 st =
     (case findOutboundGroup st rid of
        None \<Rightarrow> Inl (Plain ''outbound group not found'')
      | Some current \<Rightarrow>
          if og_NodeID current \<noteq> og_NodeID g0 \<and> outboundGroupReferencedByRouting st rid False
            then Inl (Plain ''cannot move an outbound group that is referenced by routing rules'')
          else if \<not> og_Enabled g0 \<and> outboundGroupReferencedByRouting st rid True
            then Inl (Plain ''cannot disable an outbound group used by an enabled routing rule'')
          else
            let g = g0\<lparr>og_ID := og_ID current, og_CreatedAt := og_CreatedAt current, og_UpdatedAt := now\<rparr> in
            case validateOutboundGroupSpec st g of
              Some e \<Rightarrow> Inl e
            | None \<Rightarrow> Inr ((cloneOutboundGroup current, og_NodeID current, og_NodeID g),
                          updOutboundGroup rid (\<lambda>_. cloneOutboundGroup g) st))"

definition update_group_undo :: "string \<Rightarrow> OutboundGroup \<Rightarrow> State \<Rightarrow> go_error + State" where
  "update_group_undo rid before st =
     (case findOutboundGroup st rid of
        None \<Rightarrow> Inl (Plain ''outbound group disappeared during rollback'')
      | Some _ \<Rightarrow> Inr (updOutboundGroup rid (\<lambda>_. cloneOutboundGroup before) st))"

definition updateOutboundGroupTransactional ::
  "'w saver \<Rightarrow> time \<Rightarrow> string \<Rightarrow> OutboundGroup \<Rightarrow> 'w deployer \<Rightarrow> 'w Store \<Rightarrow> 'w tx" where
  "updateOutboundGroupTransactional save now rid g deploy s =
     (case Update save (update_group_update now rid g) s of
        (Inl e, s1) \<Rightarrow> (Some e, s1)
      | (Inr (before, oldNodeID, newNodeID), s1) \<Rightarrow>
          let nodes = outboundDeployOrder oldNodeID newNodeID in
          deploy_or_rollback OutboundDeploymentError save deploy (redeployOutboundNodes nodes deploy)
            (update_group_undo rid before) nodes s1)"

section \<open>Delete\<close>

definition delete_group_update ::
  "string \<Rightarrow> State \<Rightarrow> go_error + (OutboundGroup \<times> int \<times> string) \<times> State" where
  "delete_group_update rid st =
     (case findOutboundGroup st rid of
        None \<Rightarrow> Inl (Plain ''outbound group not found'')
      | Some g \<Rightarrow>
          if outboundGroupReferencedByRouting st rid False
            then Inl (Plain ''outbound group is used by a routing rule'')
          else Inr ((cloneOutboundGroup g, index_of (\<lambda>y. og_ID y = rid) (st_OutboundGroups st), og_NodeID g),
                    st\<lparr>st_OutboundGroups := deleteOutboundGroupByID (st_OutboundGroups st) rid\<rparr>))"

definition zero_group :: OutboundGroup where
  "zero_group =
     \<lparr>og_ID = [], og_Name = [], og_NodeID = [], og_Strategy = [], og_Members = [],
      og_FallbackOutboundID = [], og_Expected = 0, og_Enabled = False, og_CreatedAt = 0,
      og_UpdatedAt = 0\<rparr>"

definition delete_group_undo :: "string \<Rightarrow> OutboundGroup \<Rightarrow> int \<Rightarrow> State \<Rightarrow> go_error + State" where
  "delete_group_undo rid before index st =
     Inr (st\<lparr>st_OutboundGroups := reinsert_row og_ID zero_group rid index before (st_OutboundGroups st)\<rparr>)"

definition deleteOutboundGroupTransactional ::
  "'w saver \<Rightarrow> string \<Rightarrow> 'w deployer \<Rightarrow> 'w Store \<Rightarrow> 'w tx" where
  "deleteOutboundGroupTransactional save rid deploy s =
     (case Update save (delete_group_update rid) s of
        (Inl e, s1) \<Rightarrow> (Some e, s1)
      | (Inr (before, index, nodeID), s1) \<Rightarrow>
          deploy_or_rollback OutboundDeploymentError save deploy (deploy nodeID)
            (delete_group_undo rid before index) [nodeID] s1)"

section \<open>The handlers\<close>

datatype group_payload =
    GroupList "OutboundGroup list" | GroupOne OutboundGroup | GroupCreated OutboundGroup
  | GroupSummary group_summary | GroupOK

type_synonym group_sort = "(OutboundGroup \<Rightarrow> OutboundGroup \<Rightarrow> bool) \<Rightarrow> OutboundGroup list \<Rightarrow> OutboundGroup list"

definition group_less :: "OutboundGroup \<Rightarrow> OutboundGroup \<Rightarrow> bool" where
  "group_less a b =
     (if og_NodeID a = og_NodeID b then string_less (og_Name a) (og_Name b)
      else string_less (og_NodeID a) (og_NodeID b))"

definition group_error :: "nat \<Rightarrow> go_error \<Rightarrow> group_payload response" where
  "group_error missing e =
     JsonError (if isOutboundDeploymentError e then 502
                else if err_msg e = ''outbound group not found'' then missing else 409) (err_msg e)"

definition handleOutboundGroups ::
  "'w env \<Rightarrow> group_sort \<Rightarrow> OutboundGroup request \<Rightarrow> 'w Store \<Rightarrow> group_payload response \<times> 'w Store" where
  "handleOutboundGroups env srt r s =
     (if rq_Method r = ''GET'' then
        (JsonWrite 200 (GroupList (srt group_less ([] @ st_OutboundGroups (cloneState (store_st s))))), s)
      else if rq_Method r = ''POST'' then
        (if requireRole r ''admin'' \<noteq> None then (JsonError 403 ''forbidden'', s)
         else (case rq_Body r of
           Inl e \<Rightarrow> (JsonError 400 (err_msg e), s)
         | Inr body \<Rightarrow>
             (case normalizeOutboundGroupInput body of
                Inl e \<Rightarrow> (JsonError 400 (err_msg e), s)
              | Inr g \<Rightarrow>
                  (case effect (ev_Now env) s of (now, s1) \<Rightarrow>
                  (case randomHex env 12 s1 of (rid, s2) \<Rightarrow>
                     let x = g\<lparr>og_ID := rid, og_Enabled := True, og_CreatedAt := now, og_UpdatedAt := now\<rparr> in
                     (case createOutboundGroupTransactional (ev_save env) x (deployOutboundNode env) s2 of
                        (Some e, s3) \<Rightarrow> (group_error 409 e, s3)
                      | (None, s3) \<Rightarrow>
                          (JsonWrite 201 (GroupCreated x),
                           audit_now env r ''create'' (''outbound-group:'' @ og_Name x) s3)))))))
      else (JsonError 405 ''method not allowed'', s))"

definition put_group ::
  "'w env \<Rightarrow> OutboundGroup request \<Rightarrow> string \<Rightarrow> 'w Store \<Rightarrow> group_payload response \<times> 'w Store" where
  "put_group env r rid s =
     (case rq_Body r of
        Inl e \<Rightarrow> (JsonError 400 (err_msg e), s)
      | Inr body \<Rightarrow>
          (case normalizeOutboundGroupInput body of
             Inl e \<Rightarrow> (JsonError 400 (err_msg e), s)
           | Inr g \<Rightarrow>
               (case effect (ev_Now env) s of (now, s1) \<Rightarrow>
                (case updateOutboundGroupTransactional (ev_save env) now rid g (deployOutboundNode env) s1 of
                   (Some e, s2) \<Rightarrow> (group_error 404 e, s2)
                 | (None, s2) \<Rightarrow>
                     (JsonWrite 200 GroupOK, audit_now env r ''update'' (''outbound-group:'' @ rid) s2)))))"

definition handleOutboundGroupItem ::
  "'w env \<Rightarrow> OutboundGroup request \<Rightarrow> string \<Rightarrow> 'w Store \<Rightarrow> group_payload response \<times> 'w Store" where
  "handleOutboundGroupItem env r rest s =
     (case SplitSlash (TrimSlash (TrimSpace rest)) of
        [] \<Rightarrow> (JsonError 404 ''outbound group not found'', s)
      | rid # parts \<Rightarrow>
          if rid = [] then (JsonError 404 ''outbound group not found'', s)
          else (case parts of
            action # _ \<Rightarrow>
              if action \<noteq> ''summary'' \<or> rq_Method r \<noteq> ''GET''
              then (JsonError 404 ''outbound group action not found'', s)
              else (case findOutboundGroup (cloneState (store_st s)) rid of
                      None \<Rightarrow> (JsonError 404 ''outbound group not found'', s)
                    | Some g \<Rightarrow>
                        (JsonWrite 200 (GroupSummary (outboundGroupSummary (cloneState (store_st s)) g)), s))
          | [] \<Rightarrow>
              if rq_Method r = ''GET'' then
                (case findOutboundGroup (cloneState (store_st s)) rid of
                   None \<Rightarrow> (JsonError 404 ''outbound group not found'', s)
                 | Some g \<Rightarrow> (JsonWrite 200 (GroupOne (cloneOutboundGroup g)), s))
              else if rq_Method r = ''PUT'' then
                (if requireRole r ''admin'' \<noteq> None then (JsonError 403 ''forbidden'', s)
                 else put_group env r rid s)
              else if rq_Method r = ''DELETE'' then
                (if requireRole r ''admin'' \<noteq> None then (JsonError 403 ''forbidden'', s)
                 else (case deleteOutboundGroupTransactional (ev_save env) rid (deployOutboundNode env) s of
                        (Some e, s1) \<Rightarrow> (group_error 404 e, s1)
                      | (None, s1) \<Rightarrow>
                          (JsonWrite 200 GroupOK, audit_now env r ''delete'' (''outbound-group:'' @ rid) s1)))
              else (JsonError 405 ''method not allowed'', s)))"

section \<open>Lemmas\<close>

lemma updOutboundGroup_eq:
  "updOutboundGroup rid f st = st_OutboundGroups_update (upd_row og_ID rid f) st"
  by (cases st) (simp add: updOutboundGroup_def)

lemma groupReferenced_iff:
  "outboundGroupReferencedByRouting st rid enabledOnly \<longleftrightarrow>
   (\<exists>r \<in> set (st_RoutingRules st). rr_OutboundGroupID r = rid \<and> (enabledOnly \<longrightarrow> rr_Enabled r))"
  by (auto simp: outboundGroupReferencedByRouting_def list_ex_iff)

lemma create_group_update_Inr:
  "create_group_update g st = Inr st' \<longleftrightarrow>
   validateOutboundGroupSpec st g = None \<and> st' = st_OutboundGroups_update (\<lambda>xs. xs @ [g]) st"
  by (auto simp: create_group_update_def split: option.split)

lemma update_group_update_Inr:
  assumes "update_group_update now rid g0 st = Inr (v, st')"
  shows "findOutboundGroup st rid = Some (fst v) \<and> fst (snd v) = og_NodeID (fst v) \<and> snd (snd v) = og_NodeID g0 \<and>
         (og_NodeID (fst v) \<noteq> og_NodeID g0 \<longrightarrow> \<not> outboundGroupReferencedByRouting st rid False) \<and>
         (\<not> og_Enabled g0 \<longrightarrow> \<not> outboundGroupReferencedByRouting st rid True) \<and>
         (\<exists>g. g = g0\<lparr>og_ID := rid, og_CreatedAt := og_CreatedAt (fst v), og_UpdatedAt := now\<rparr> \<and>
              validateOutboundGroupSpec st g = None \<and>
              st' = st_OutboundGroups_update (upd_row og_ID rid (\<lambda>_. g)) st)"
  using assms
  by (auto simp: update_group_update_def Let_def updOutboundGroup_eq findOutboundGroup_def
      dest: find_row_Some split: option.splits if_splits)

lemma update_group_undo_Inr:
  "update_group_undo rid before st = Inr st' \<Longrightarrow>
   st' = st_OutboundGroups_update (upd_row og_ID rid (\<lambda>_. before)) st"
  by (auto simp: update_group_undo_def updOutboundGroup_eq split: option.splits)

lemma delete_group_update_Inr:
  assumes "delete_group_update rid st = Inr (v, st')"
  shows "findOutboundGroup st rid = Some (fst v) \<and>
         fst (snd v) = index_of (\<lambda>y. og_ID y = rid) (st_OutboundGroups st) \<and>
         snd (snd v) = og_NodeID (fst v) \<and> \<not> outboundGroupReferencedByRouting st rid False \<and>
         st' = st_OutboundGroups_update (\<lambda>xs. deleteByID xs rid og_ID) st"
  using assms
  by (auto simp: delete_group_update_def deleteOutboundGroupByID_eq split: option.splits if_splits)

section \<open>Properties\<close>

text \<open>
  Updating a group is all or nothing, and a group that rules use keeps serving them: with the
  update a group that a rule names stays on its node, one that an enabled rule names stays enabled.
\<close>

lemma update_group_atomic:
  assumes "updateOutboundGroupTransactional save now rid x (deployOutboundNode env) s = (r, s')"
  shows "tx_refused save (update_group_update now rid x) s r (store_st s') \<or>
         (\<exists>before g. findOutboundGroup (store_st s) rid = Some before \<and>
            g = x\<lparr>og_ID := rid, og_CreatedAt := og_CreatedAt before, og_UpdatedAt := now\<rparr> \<and>
            validateOutboundGroupSpec (store_st s) g = None \<and>
            (\<forall>rule \<in> set (st_RoutingRules (store_st s)). rr_OutboundGroupID rule = rid \<longrightarrow>
               og_NodeID g = og_NodeID before \<and> (rr_Enabled rule \<longrightarrow> og_Enabled g)) \<and>
            tx_run xray_view OutboundDeploymentError (outboundDeployOrder (og_NodeID before) (og_NodeID x))
              (store_st s) (updOutboundGroup rid (\<lambda>_. g) (store_st s)) r (store_st s'))"
proof -
  let ?st = "store_st s"
  let ?nodes = "\<lambda>v. outboundDeployOrder (fst (snd v)) (snd (snd v))"
  let ?g = "\<lambda>v. x\<lparr>og_ID := rid, og_CreatedAt := og_CreatedAt (fst v), og_UpdatedAt := now\<rparr>"
  have run: "(case Update save (update_group_update now rid x) s of
      (Inl e, s1) \<Rightarrow> (Some e, s1)
    | (Inr v, s1) \<Rightarrow>
        deploy_or_rollback OutboundDeploymentError save (deployOutboundNode env)
          (redeployOutboundNodes (?nodes v) (deployOutboundNode env)) (update_group_undo rid (fst v))
          (?nodes v) s1) = (r, s')"
    using assms unfolding updateOutboundGroupTransactional_def Let_def
    by (auto split: prod.splits sum.splits)
  have "tx_refused save (update_group_update now rid x) s r (store_st s') \<or>
      (\<exists>v st1. update_group_update now rid x ?st = Inr (v, st1) \<and>
               tx_run xray_view OutboundDeploymentError (?nodes v) ?st st1 r (store_st s'))"
  proof (rule groups_tx.update_tx [OF run redeployOutboundNodes_view, where old = fst and
        change = "\<lambda>v _. ?g v"])
    fix v st1 assume "update_group_update now rid x ?st = Inr (v, st1)"
    from update_group_update_Inr [OF this]
    show "find_row og_ID (st_OutboundGroups ?st) rid = Some (fst v) \<and>
        st1 = st_OutboundGroups_update (upd_row og_ID rid (\<lambda>_. ?g v)) ?st"
      unfolding findOutboundGroup_def by blast
  qed (simp_all add: update_group_undo_Inr)
  then show ?thesis
  proof (elim disjE exE conjE)
    fix v st1
    assume u: "update_group_update now rid x ?st = Inr (v, st1)"
      and t: "tx_run xray_view OutboundDeploymentError (?nodes v) ?st st1 r (store_st s')"
    from update_group_update_Inr [OF u] t show ?thesis
      by (auto simp: updOutboundGroup_eq groupReferenced_iff)
  qed blast
qed

lemma update_group_atomic_witness:
  "map og_Name (st_OutboundGroups (store_st (snd (updateOutboundGroupTransactional (ev_save sample_env) 7
     ''g1'' (sample_group\<lparr>og_Name := ''main''\<rparr>) (deployOutboundNode sample_env) (sample_store sample_net))))) =
   [''main'']"
proof -
  let ?x = "sample_group\<lparr>og_Name := ''main''\<rparr>"
  have "fst (updateOutboundGroupTransactional (ev_save sample_env) 7 ''g1'' ?x
      (deployOutboundNode sample_env) (sample_store sample_net)) = None" by code_simp
  then obtain s' where run: "updateOutboundGroupTransactional (ev_save sample_env) 7 ''g1'' ?x
      (deployOutboundNode sample_env) (sample_store sample_net) = (None, s')"
    by (metis prod.collapse)
  from update_group_atomic [OF run] obtain g where
    "xray_view (store_st s') = xray_view (updOutboundGroup ''g1'' (\<lambda>_. g) sample_net)" "og_Name g = ''main''"
    by (auto simp: tx_refused_def tx_run_def sample_store_def)
  then show ?thesis
    using view_tables(3) [of "store_st s'" "updOutboundGroup ''g1'' (\<lambda>_. g) sample_net"]
    unfolding run snd_conv
    by (simp add: updOutboundGroup_def upd_row_def sample_net_def sample_group_def)
qed

end
