(* ===== verification/Accounting.thy ===== *)
theory Accounting
  imports Subscriptions
begin

text \<open>
  Traffic accounting, src/internal/panel/accounting.go: the collection of WireGuard and Xray
  counters from the node agents, the periodic traffic reset with its counter bases, and the
  enforcement of the users' policies on clients and peers. What an agent answers is an argument
  (its reply decoded, or an error); counters are int64 and wrap. A Go map that is only looked up
  is a map, one that is iterated is a list in an order given by an argument.
\<close>

record normalizedXrayUserStat =
  xs_Email :: string
  xs_Uplink :: int
  xs_Downlink :: int

record wgRuntimeStat =
  wg_Interface :: string
  wg_PublicKey :: string
  wg_LatestHandshake :: int
  wg_RXBytes :: int
  wg_TXBytes :: int

record peerStateTask =
  pt_Peer :: VPNPeer
  pt_Enabled :: bool

definition nonNegative :: "int \<Rightarrow> int" where
  "nonNegative v = (if v < 0 then 0 else v)"

section \<open>WireGuard counters\<close>

definition wgKey :: "string \<Rightarrow> string \<Rightarrow> string" where
  "wgKey nodeID publicKey = nodeID @ ''|'' @ publicKey"

type_synonym ('a, 'w) agent_get = "Node \<Rightarrow> 'w \<Rightarrow> (go_error + 'a) \<times> 'w"

text \<open>The loop over the enabled nodes that fills the map seen; a failing agent is skipped.\<close>

fun collectWireGuard ::
  "(wgRuntimeStat list, 'w) agent_get \<Rightarrow> Node list \<Rightarrow> (string \<rightharpoonup> wgRuntimeStat) \<Rightarrow> 'w \<Rightarrow>
   (string \<rightharpoonup> wgRuntimeStat) \<times> 'w" where
  "collectWireGuard get [] seen w = (seen, w)"
| "collectWireGuard get (n # ns) seen w =
     (if \<not> n_Enabled n then collectWireGuard get ns seen w
      else case get n w of
             (Inl e, w') \<Rightarrow> collectWireGuard get ns seen w'
           | (Inr ps, w') \<Rightarrow>
               collectWireGuard get ns
                 (fold (\<lambda>p m. m(wgKey (n_ID n) (wg_PublicKey p) \<mapsto> p)) ps seen) w')"

definition UnixSeconds :: "time \<Rightarrow> int" where
  "UnixSeconds t = t div Second - 62135596800"

text \<open>One peer of the store update: the counters it takes over, and whether its user is active.\<close>

definition wgPeerUpdate ::
  "(string \<rightharpoonup> wgRuntimeStat) \<Rightarrow> VPNPeer \<Rightarrow> VPNPeer" where
  "wgPeerUpdate seen p =
     (case seen (wgKey (vp_NodeID p) (vp_PublicKey p)) of
        None \<Rightarrow> p
      | Some x \<Rightarrow> p\<lparr>vp_RXBytes := wg_RXBytes x, vp_TXBytes := wg_TXBytes x\<rparr>)"

definition wgPeerActive ::
  "time \<Rightarrow> (string \<rightharpoonup> wgRuntimeStat) \<Rightarrow> VPNPeer \<Rightarrow> bool" where
  "wgPeerActive now seen p =
     (case seen (wgKey (vp_NodeID p) (vp_PublicKey p)) of
        None \<Rightarrow> False
      | Some x \<Rightarrow>
          let counterMoved = (wg_RXBytes x > vp_RXBytes p \<or> wg_TXBytes x > vp_TXBytes p);
              recentHandshake = (wg_LatestHandshake x > 0 \<and>
                                 int64 (UnixSeconds now - wg_LatestHandshake x) \<le> 180)
          in vp_Enabled p \<and> (counterMoved \<or> recentHandshake))"

definition peerBytes :: "VPNPeer \<Rightarrow> int" where
  "peerBytes p =
     int64 (nonNegative (int64 (vp_RXBytes p - vp_RXBaseBytes p)) +
            nonNegative (int64 (vp_TXBytes p - vp_TXBaseBytes p)))"

fun wgTotal :: "string \<Rightarrow> VPNPeer list \<Rightarrow> int \<Rightarrow> int" where
  "wgTotal uid [] acc = acc"
| "wgTotal uid (p # ps) acc =
     wgTotal uid ps (if vp_UserID p = uid then int64 (acc + peerBytes p) else acc)"

definition wgUserUpdate :: "time \<Rightarrow> VPNPeer list \<Rightarrow> string set \<Rightarrow> User \<Rightarrow> User" where
  "wgUserUpdate now ps active u =
     (let acc = wgTotal (u_ID u) ps 0;
          u1 = u\<lparr>u_WireGuardTrafficBytes := acc,
                 u_TrafficUsedBytes := int64 (acc + u_XrayTrafficBytes u)\<rparr>
      in if u_ID u \<in> active then u1\<lparr>u_LastOnlineAt := now, u_Online := True\<rparr> else u1)"

definition syncWireGuardUpdate ::
  "time \<Rightarrow> (string \<rightharpoonup> wgRuntimeStat) \<Rightarrow> State \<Rightarrow> State" where
  "syncWireGuardUpdate now seen st =
     (let ps = map (wgPeerUpdate seen) (st_VPNPeers st);
          active = set (map vp_UserID (filter (wgPeerActive now seen) (st_VPNPeers st)))
      in st\<lparr>st_VPNPeers := ps, st_Users := map (wgUserUpdate now ps active) (st_Users st)\<rparr>)"

section \<open>Xray counters\<close>

definition emailToUser :: "InboundClient list \<Rightarrow> string \<rightharpoonup> string" where
  "emailToUser cs =
     fold (\<lambda>c m. if ic_Email c \<noteq> '''' then m(ic_Email c \<mapsto> ic_UserID c) else m) cs Map.empty"

definition addXrayDelta ::
  "(string \<rightharpoonup> string) \<Rightarrow> normalizedXrayUserStat \<Rightarrow> (string \<Rightarrow> int) \<Rightarrow> (string \<Rightarrow> int)" where
  "addXrayDelta emails x deltas =
     (let userID = (case emails (xs_Email x) of Some u \<Rightarrow> u | None \<Rightarrow> '''')
      in if userID = '''' then deltas
         else deltas(userID :=
                int64 (deltas userID + int64 (nonNegative (xs_Uplink x) + nonNegative (xs_Downlink x)))))"

fun collectXray ::
  "(normalizedXrayUserStat list, 'w) agent_get \<Rightarrow> (string \<rightharpoonup> string) \<Rightarrow> Node list \<Rightarrow>
   (string \<Rightarrow> int) \<Rightarrow> 'w \<Rightarrow> (string \<Rightarrow> int) \<times> 'w" where
  "collectXray get emails [] deltas w = (deltas, w)"
| "collectXray get emails (n # ns) deltas w =
     (if \<not> n_Enabled n then collectXray get emails ns deltas w
      else case get n w of
             (Inl e, w') \<Rightarrow> collectXray get emails ns deltas w'
           | (Inr xs, w') \<Rightarrow> collectXray get emails ns (fold (addXrayDelta emails) xs deltas) w')"

definition xrayUserUpdate :: "time \<Rightarrow> (string \<Rightarrow> int) \<Rightarrow> User \<Rightarrow> User" where
  "xrayUserUpdate now deltas u =
     (let delta = deltas (u_ID u);
          u1 = (if delta > 0
                then u\<lparr>u_XrayTrafficBytes := int64 (u_XrayTrafficBytes u + delta),
                       u_LastOnlineAt := now, u_Online := True\<rparr>
                else let online = (\<not> IsZero (u_LastOnlineAt u) \<and> now - u_LastOnlineAt u \<le> 90 * Second);
                         u2 = u\<lparr>u_Online := online\<rparr>
                     in if \<not> online then u2\<lparr>u_OnlineIPs := 0\<rparr> else u2)
      in u1\<lparr>u_TrafficUsedBytes := int64 (u_WireGuardTrafficBytes u1 + u_XrayTrafficBytes u1)\<rparr>)"

definition syncXrayTraffic ::
  "'w saver \<Rightarrow> (normalizedXrayUserStat list, 'w) agent_get \<Rightarrow> time \<Rightarrow> 'w Store \<Rightarrow> 'w Store" where
  "syncXrayTraffic save get now s =
     (let st = cloneState (store_st s);
          (deltas, w) = collectXray get (emailToUser (st_InboundClients st)) (st_Nodes st)
                          (\<lambda>_. 0) (store_world s)
      in UpdateST save (\<lambda>st. st\<lparr>st_Users := map (xrayUserUpdate now deltas) (st_Users st)\<rparr>)
           (s\<lparr>store_world := w\<rparr>))"

section \<open>Traffic resets\<close>

definition rebasePeer :: "string \<Rightarrow> VPNPeer \<Rightarrow> VPNPeer" where
  "rebasePeer uid p =
     (if vp_UserID p = uid
      then p\<lparr>vp_RXBaseBytes := vp_RXBytes p, vp_TXBaseBytes := vp_TXBytes p\<rparr> else p)"

text \<open>One user of the loop, with the peers as the iterations before left them.\<close>

definition trafficResetUser ::
  "State \<Rightarrow> time \<Rightarrow> User \<Rightarrow> VPNPeer list \<Rightarrow> (User \<times> VPNPeer list) option" where
  "trafficResetUser st now u ps =
     (let days = effectiveResetIntervalDays st u in
      if days \<le> 0 then Some (u\<lparr>u_NextTrafficResetAt := 0\<rparr>, ps)
      else if IsZero (u_NextTrafficResetAt u)
        then Some (u\<lparr>u_NextTrafficResetAt := now + days_duration days\<rparr>, ps)
      else if now < u_NextTrafficResetAt u then Some (u, ps)
      else
        let u1 = u\<lparr>u_XrayTrafficBytes := 0, u_WireGuardTrafficBytes := 0, u_TrafficUsedBytes := 0\<rparr>;
            u2 = (if u_Status u1 = ''quota-exceeded'' then u1\<lparr>u_Status := ''active''\<rparr> else u1);
            ps' = map (rebasePeer (u_ID u2)) ps
        in map_option (\<lambda>next. (u2\<lparr>u_NextTrafficResetAt := next, u_UpdatedAt := now\<rparr>, ps'))
             (reset_loop (days_duration days) now (u_NextTrafficResetAt u2)))"

fun trafficResetUsers ::
  "State \<Rightarrow> time \<Rightarrow> User list \<Rightarrow> VPNPeer list \<Rightarrow> (User list \<times> VPNPeer list) option" where
  "trafficResetUsers st now [] ps = Some ([], ps)"
| "trafficResetUsers st now (u # us) ps =
     Option.bind (trafficResetUser st now u ps)
       (\<lambda>(u', ps1). map_option (\<lambda>(us', ps2). (u' # us', ps2)) (trafficResetUsers st now us ps1))"

definition trafficResetsUpdate :: "State \<Rightarrow> time \<Rightarrow> State option" where
  "trafficResetsUpdate st now =
     map_option (\<lambda>(us, ps). st\<lparr>st_Users := us, st_VPNPeers := ps\<rparr>)
       (trafficResetUsers st now (st_Users st) (st_VPNPeers st))"

definition processTrafficResets :: "'w saver \<Rightarrow> time \<Rightarrow> 'w Store \<Rightarrow> 'w Store option" where
  "processTrafficResets save now s =
     map_option (\<lambda>st'. UpdateST save (\<lambda>_. st') s) (trafficResetsUpdate (cloneState (store_st s)) now)"

section \<open>Policies\<close>

definition policyStatus :: "State \<Rightarrow> time \<Rightarrow> User \<Rightarrow> string" where
  "policyStatus st now u =
     (let limit = effectiveUserLimit st u;
          expired = (\<not> IsZero (u_ExpiresAt u) \<and> now > u_ExpiresAt u)
      in if expired then ''expired''
         else if limit > 0 \<and> u_TrafficUsedBytes u \<ge> limit then ''quota-exceeded''
         else if u_Status u = ''quota-exceeded'' then ''active''
         else u_Status u)"

definition policyUser :: "State \<Rightarrow> time \<Rightarrow> User \<Rightarrow> User" where
  "policyUser st now u =
     (let u1 = u\<lparr>u_TrafficUsedBytes := int64 (u_WireGuardTrafficBytes u + u_XrayTrafficBytes u)\<rparr>;
          status = policyStatus st now u1
      in if u_Status u1 \<noteq> status then u1\<lparr>u_Status := status, u_UpdatedAt := now\<rparr> else u1)"

definition policyChanged :: "State \<Rightarrow> time \<Rightarrow> User \<Rightarrow> bool" where
  "policyChanged st now u \<longleftrightarrow> u_Status (policyUser st now u) \<noteq> u_Status u"

text \<open>One inbound client: its new value, and the node to redeploy.\<close>

definition policyClient ::
  "State \<Rightarrow> string set \<Rightarrow> InboundClient \<Rightarrow> InboundClient \<times> string option" where
  "policyClient st changed c =
     (case findUser st (ic_UserID c) of
        None \<Rightarrow> (c, None)
      | Some u \<Rightarrow>
          let desired = (u_Status u = ''active'');
              node = map_option in_NodeID (findInbound st (ic_InboundID c))
          in if ic_Enabled c \<noteq> desired then (c\<lparr>ic_Enabled := desired\<rparr>, node)
             else if u_ID u \<in> changed then (c, node)
             else (c, None))"

definition policyPeer :: "State \<Rightarrow> VPNPeer \<Rightarrow> VPNPeer \<times> peerStateTask option" where
  "policyPeer st p =
     (case findUser st (vp_UserID p) of
        None \<Rightarrow> (p, None)
      | Some u \<Rightarrow>
          let desired = (u_Status u = ''active'')
          in if vp_Enabled p \<noteq> desired
             then let p' = p\<lparr>vp_Enabled := desired\<rparr>
                  in (p', Some \<lparr>pt_Peer = p', pt_Enabled = desired\<rparr>)
             else (p, None))"

text \<open>The store update: the nodes to redeploy (a set, in first-use order), the peer tasks, the state.\<close>

definition policyUpdate :: "time \<Rightarrow> State \<Rightarrow> (string list \<times> peerStateTask list) \<times> State" where
  "policyUpdate now st =
     (let changed = set (map u_ID (filter (policyChanged st now) (st_Users st)));
          st1 = st\<lparr>st_Users := map (policyUser st now) (st_Users st)\<rparr>;
          cs = map (policyClient st1 changed) (st_InboundClients st);
          ps = map (policyPeer st1) (st_VPNPeers st)
      in ((remdups (List.map_filter snd cs), List.map_filter snd ps),
          st1\<lparr>st_InboundClients := map fst cs, st_VPNPeers := map fst ps\<rparr>))"

text \<open>The agent call of setRemotePeerEnabled, for the node of the peer.\<close>

type_synonym 'w peer_state_call = "Node \<Rightarrow> VPNPeer \<Rightarrow> bool \<Rightarrow> 'w \<Rightarrow> go_error option \<times> 'w"

definition setRemotePeerEnabled ::
  "'w peer_state_call \<Rightarrow> VPNPeer \<Rightarrow> bool \<Rightarrow> 'w Store \<Rightarrow> go_error option \<times> 'w Store" where
  "setRemotePeerEnabled call p enabled s =
     (case findNode (cloneState (store_st s)) (vp_NodeID p) of
        None \<Rightarrow> (Some (Plain ''node missing''), s)
      | Some n \<Rightarrow>
          (case call n p enabled (store_world s) of (r, w) \<Rightarrow> (r, s\<lparr>store_world := w\<rparr>)))"

definition runPeerTask ::
  "'w saver \<Rightarrow> 'w peer_state_call \<Rightarrow> peerStateTask \<Rightarrow> 'w Store \<Rightarrow> 'w Store" where
  "runPeerTask save call t s =
     (case setRemotePeerEnabled call (pt_Peer t) (pt_Enabled t) s of
        (Some e, s1) \<Rightarrow>
          UpdateST save (updPeer (vp_ID (pt_Peer t)) (\<lambda>p. p\<lparr>vp_Enabled := \<not> pt_Enabled t\<rparr>)) s1
      | (None, s1) \<Rightarrow>
          if pt_Enabled t
          then UpdateST save
                 (updPeer (vp_ID (pt_Peer t))
                    (\<lambda>p. p\<lparr>vp_RXBytes := 0, vp_TXBytes := 0, vp_RXBaseBytes := 0, vp_TXBaseBytes := 0\<rparr>))
                 s1
          else s1)"

text \<open>The order in which Go iterates the set of nodes is the argument iter.\<close>

definition enforceUserPolicies ::
  "'w saver \<Rightarrow> 'w deployer \<Rightarrow> 'w peer_state_call \<Rightarrow> (string list \<Rightarrow> string list) \<Rightarrow> time \<Rightarrow>
   'w Store \<Rightarrow> 'w Store" where
  "enforceUserPolicies save deploy call iter now s =
     (case Update save (\<lambda>st. Inr (policyUpdate now st)) s of
        (Inl e, s1) \<Rightarrow>
          let (ids, tasks) = fst (policyUpdate now (cloneState (store_st s)))
          in fold (runPeerTask save call) tasks (deploy_all deploy (iter ids) s1)
      | (Inr (ids, tasks), s1) \<Rightarrow>
          fold (runPeerTask save call) tasks (deploy_all deploy (iter ids) s1))"

text \<open>The whole sync tick; each stage reads the clock once.\<close>

definition syncWireGuard ::
  "'w saver \<Rightarrow> 'w deployer \<Rightarrow> 'w peer_state_call \<Rightarrow> (string list \<Rightarrow> string list) \<Rightarrow>
   (wgRuntimeStat list, 'w) agent_get \<Rightarrow> (normalizedXrayUserStat list, 'w) agent_get \<Rightarrow>
   time \<Rightarrow> time \<Rightarrow> time \<Rightarrow> time \<Rightarrow> 'w Store \<Rightarrow> 'w Store option" where
  "syncWireGuard save deploy call iter getWG getXray now1 now2 now3 now4 s =
     (let (seen, w) = collectWireGuard getWG (st_Nodes (cloneState (store_st s))) Map.empty (store_world s);
          s1 = UpdateST save (syncWireGuardUpdate now1 seen) (s\<lparr>store_world := w\<rparr>);
          s2 = syncXrayTraffic save getXray now2 s1
      in map_option (enforceUserPolicies save deploy call iter now4) (processTrafficResets save now3 s2))"

section \<open>Lemmas\<close>

lemma wgTotal_sum:
  "int64 acc = acc \<Longrightarrow>
   wgTotal uid ps acc = int64 (acc + (\<Sum>p\<leftarrow>filter (\<lambda>p. vp_UserID p = uid) ps. peerBytes p))"
proof (induction ps arbitrary: acc)
  case (Cons p ps)
  show ?case
    using Cons.IH [of "int64 (acc + peerBytes p)"] Cons.IH [of acc] Cons.prems
    by (simp add: add.assoc)
qed simp

lemma wgUserUpdate_sum:
  "u_WireGuardTrafficBytes (wgUserUpdate now ps active u) =
     int64 (\<Sum>p\<leftarrow>filter (\<lambda>p. vp_UserID p = u_ID u) ps. peerBytes p)"
  by (simp add: wgUserUpdate_def Let_def wgTotal_sum)

lemma wgUserUpdate_frame [simp]:
  "u_ID (wgUserUpdate now ps active u) = u_ID u"
  "u_XrayTrafficBytes (wgUserUpdate now ps active u) = u_XrayTrafficBytes u"
  "u_TrafficUsedBytes (wgUserUpdate now ps active u) =
     int64 (u_WireGuardTrafficBytes (wgUserUpdate now ps active u) + u_XrayTrafficBytes u)"
  by (simp_all add: wgUserUpdate_def Let_def)

lemma syncWireGuard_users:
  "st_Users (syncWireGuardUpdate now seen st) =
     map (wgUserUpdate now (st_VPNPeers (syncWireGuardUpdate now seen st))
            (set (map vp_UserID (filter (wgPeerActive now seen) (st_VPNPeers st)))))
         (st_Users st)"
  by (simp add: syncWireGuardUpdate_def Let_def)

lemma syncWireGuard_peers:
  "st_VPNPeers (syncWireGuardUpdate now seen st) = map (wgPeerUpdate seen) (st_VPNPeers st)"
  by (simp add: syncWireGuardUpdate_def Let_def)

lemma wgPeerUpdate_frame [simp]:
  "vp_UserID (wgPeerUpdate seen p) = vp_UserID p"
  "vp_RXBaseBytes (wgPeerUpdate seen p) = vp_RXBaseBytes p"
  "vp_TXBaseBytes (wgPeerUpdate seen p) = vp_TXBaseBytes p"
  by (simp_all add: wgPeerUpdate_def split: option.splits)

text \<open>The rebase of a reset, and what the loop over the users makes of the peers.\<close>

lemma rebasePeer_frame [simp]:
  "vp_UserID (rebasePeer uid p) = vp_UserID p" "vp_RXBytes (rebasePeer uid p) = vp_RXBytes p"
  "vp_TXBytes (rebasePeer uid p) = vp_TXBytes p" "vp_ID (rebasePeer uid p) = vp_ID p"
  "vp_NodeID (rebasePeer uid p) = vp_NodeID p" "vp_PublicKey (rebasePeer uid p) = vp_PublicKey p"
  "vp_Enabled (rebasePeer uid p) = vp_Enabled p"
  by (simp_all add: rebasePeer_def)

lemma rebasePeer_idem [simp]: "rebasePeer uid (rebasePeer uid p) = rebasePeer uid p"
  by (simp add: rebasePeer_def)

definition rebaseDue :: "State \<Rightarrow> time \<Rightarrow> User list \<Rightarrow> VPNPeer \<Rightarrow> VPNPeer" where
  "rebaseDue st now us p =
     (if vp_UserID p \<in> u_ID ` {u \<in> set us. resetDue st now u}
      then p\<lparr>vp_RXBaseBytes := vp_RXBytes p, vp_TXBaseBytes := vp_TXBytes p\<rparr> else p)"

lemma trafficResetUser_Some:
  assumes "trafficResetUser st now u ps = Some (u', ps')"
  shows "u_ID u' = u_ID u"
    and "ps' = (if resetDue st now u then map (rebasePeer (u_ID u)) ps else ps)"
    and "resetDue st now u \<Longrightarrow> u_TrafficUsedBytes u' = 0 \<and> u_WireGuardTrafficBytes u' = 0 \<and>
           u_XrayTrafficBytes u' = 0 \<and> now < u_NextTrafficResetAt u'"
    and "\<not> resetDue st now u \<Longrightarrow> u' = u\<lparr>u_NextTrafficResetAt := u_NextTrafficResetAt u'\<rparr>"
  using assms
  by (auto simp: trafficResetUser_def Let_def resetDue_def split: if_splits dest: reset_loop_result)

lemma trafficResetUsers_Some:
  assumes "trafficResetUsers st now us ps = Some (us', ps')"
  shows "list_all2 (\<lambda>u u'. \<exists>qs qs'. trafficResetUser st now u qs = Some (u', qs')) us us'"
    and "ps' = map (rebaseDue st now us) ps"
  using assms
proof (induction us arbitrary: ps us' ps')
  case Nil
  { case 1 with Nil show ?case by simp
  next case 2 with Nil show ?case by (simp add: rebaseDue_def map_idI) }
next
  case (Cons u us)
  {
    case 1
    with Cons.IH(1) show ?case by (auto simp: bind_eq_Some_conv)
  next
    case 2
    then obtain u' ps1 vs where *: "trafficResetUser st now u ps = Some (u', ps1)"
      "trafficResetUsers st now us ps1 = Some (vs, ps')"
      by (auto simp: bind_eq_Some_conv)
    show ?case
      using Cons.IH(2) [OF *(2)] trafficResetUser_Some(2) [OF *(1)]
      by (auto simp: rebaseDue_def rebasePeer_def)
  }
qed

lemma effectiveUserLimit_upd [simp]:
  "effectiveUserLimit st (u\<lparr>u_TrafficUsedBytes := x\<rparr>) = effectiveUserLimit st u"
  "effectiveUserLimit st (u\<lparr>u_Status := v\<rparr>) = effectiveUserLimit st u"
  "effectiveUserLimit st (u\<lparr>u_StatusReason := v\<rparr>) = effectiveUserLimit st u"
  "effectiveUserLimit st (u\<lparr>u_UpdatedAt := t\<rparr>) = effectiveUserLimit st u"
  by (simp_all add: effectiveUserLimit_def)

section \<open>Properties\<close>

text \<open>
  A WireGuard sync makes each user's WireGuard traffic the int64 sum, over the user's own
  peers, of what the counters moved since their bases, and the used traffic its sum with the Xray
  traffic; tables other than users and peers, and the counter bases, are untouched.
\<close>

lemma wireguard_totals:
  assumes "st' = syncWireGuardUpdate now seen st" "u \<in> set (st_Users st')"
  shows "u_WireGuardTrafficBytes u =
           int64 (\<Sum>p\<leftarrow>filter (\<lambda>p. vp_UserID p = u_ID u) (st_VPNPeers st'). peerBytes p) \<and>
         u_TrafficUsedBytes u = int64 (u_WireGuardTrafficBytes u + u_XrayTrafficBytes u) \<and>
         map u_ID (st_Users st') = map u_ID (st_Users st) \<and>
         map vp_RXBaseBytes (st_VPNPeers st') = map vp_RXBaseBytes (st_VPNPeers st) \<and>
         st' = st\<lparr>st_Users := st_Users st', st_VPNPeers := st_VPNPeers st'\<rparr>"
proof -
  have frame: "st' = st\<lparr>st_Users := st_Users st', st_VPNPeers := st_VPNPeers st'\<rparr>"
    by (simp add: assms(1) syncWireGuardUpdate_def Let_def)
  obtain u0 active where u: "u = wgUserUpdate now (st_VPNPeers st') active u0"
    using assms(2) by (auto simp: assms(1) syncWireGuard_users)
  then show ?thesis
    using frame
    by (auto simp: wgUserUpdate_sum syncWireGuard_users syncWireGuard_peers assms(1) comp_def)
qed

definition sample_peer :: VPNPeer where
  "sample_peer =
     \<lparr>vp_ID = ''p1'', vp_UserID = ''u1'', vp_NodeID = ''n1'', vp_DeviceName = ''phone'',
      vp_Interface = ''wg0'', vp_Address = ''10.8.0.2/32'', vp_PublicKey = ''K'',
      vp_PrivateKeyEnc = [], vp_ConfigEnc = [], vp_ServerPublicKey = ''S'',
      vp_Endpoint = ''1.2.3.4:51820'', vp_Enabled = True, vp_RXBytes = 700, vp_TXBytes = 300,
      vp_RXBaseBytes = 0, vp_TXBaseBytes = 0, vp_CreatedAt = 1\<rparr>"

definition sample_wg_state :: State where
  "sample_wg_state = emptyState\<lparr>st_Users := [sample_user], st_VPNPeers := [sample_peer]\<rparr>"

lemma wireguard_totals_witness:
  "map u_WireGuardTrafficBytes (st_Users (syncWireGuardUpdate 5 Map.empty sample_wg_state)) = [1000]"
proof -
  obtain u where u: "st_Users (syncWireGuardUpdate 5 Map.empty sample_wg_state) = [u]" "u_ID u = ''u1''"
    by (simp add: syncWireGuard_users sample_wg_state_def sample_user_def)
  have "u_WireGuardTrafficBytes u = 1000"
    using wireguard_totals [OF refl, of u 5 Map.empty sample_wg_state] u
    by (simp add: syncWireGuard_peers wgPeerUpdate_def sample_wg_state_def sample_peer_def
        peerBytes_def nonNegative_def int64_id)
  then show ?thesis by (simp add: u(1))
qed

text \<open>
  When the traffic reset of accounting returns, every user that was due has all its counters
  at zero and its next date in the future, and its peers are rebased: until an agent reports other
  counters, a WireGuard sync counts nothing for that user.
\<close>

lemma traffic_reset_rebases:
  assumes "trafficResetsUpdate st now = Some st'" "u \<in> set (st_Users st)" "resetDue st now u"
  shows "(\<exists>u' \<in> set (st_Users st'). u_ID u' = u_ID u \<and> u_TrafficUsedBytes u' = 0 \<and>
            u_WireGuardTrafficBytes u' = 0 \<and> u_XrayTrafficBytes u' = 0 \<and>
            now < u_NextTrafficResetAt u') \<and>
         (\<forall>v \<in> set (st_Users (syncWireGuardUpdate later Map.empty st')).
            u_ID v = u_ID u \<longrightarrow> u_WireGuardTrafficBytes v = 0)"
proof -
  obtain us ps where r: "trafficResetUsers st now (st_Users st) (st_VPNPeers st) = Some (us, ps)"
    and st': "st' = st\<lparr>st_Users := us, st_VPNPeers := ps\<rparr>"
    using assms(1) by (auto simp: trafficResetsUpdate_def)
  have ps: "ps = map (rebaseDue st now (st_Users st)) (st_VPNPeers st)"
    by (rule trafficResetUsers_Some(2) [OF r])
  have zero: "peerBytes p = 0" if "p \<in> set ps" "vp_UserID p = u_ID u" for p
    using that assms(2,3) by (auto simp: ps rebaseDue_def peerBytes_def nonNegative_def)
  then have "map peerBytes (filter (\<lambda>p. vp_UserID p = u_ID u) ps) =
        map (\<lambda>_. 0) (filter (\<lambda>p. vp_UserID p = u_ID u) ps)"
    by (intro map_cong) auto
  then have sum: "(\<Sum>p\<leftarrow>filter (\<lambda>p. vp_UserID p = u_ID u) ps. peerBytes p) = 0"
    by (metis sum_list_0)
  have same: "map (wgPeerUpdate Map.empty) ps = ps"
    by (simp add: map_idI wgPeerUpdate_def)
  obtain u' qs qs' where "u' \<in> set us" "trafficResetUser st now u qs = Some (u', qs')"
    using trafficResetUsers_Some(1) [OF r] assms(2) by (auto simp: list_all2_conv_all_nth in_set_conv_nth) blast
  then have "\<exists>u' \<in> set (st_Users st'). u_ID u' = u_ID u \<and> u_TrafficUsedBytes u' = 0 \<and>
            u_WireGuardTrafficBytes u' = 0 \<and> u_XrayTrafficBytes u' = 0 \<and> now < u_NextTrafficResetAt u'"
    using trafficResetUser_Some(1,3) assms(3) unfolding st' by (intro bexI [of _ u']) auto
  moreover have "u_WireGuardTrafficBytes v = 0"
    if "v \<in> set (st_Users (syncWireGuardUpdate later Map.empty st'))" "u_ID v = u_ID u" for v
    using that sum by (auto simp: syncWireGuard_users syncWireGuard_peers st' same wgUserUpdate_sum)
  ultimately show ?thesis by blast
qed

lemma sample_reset_due: "resetDue sample_wg_state (10 ^ 18) sample_user"
  by (simp add: resetDue_def sample_user_def effectiveResetIntervalDays_def IsZero_def)

lemma traffic_reset_rebases_witness:
  "\<exists>st'. trafficResetsUpdate sample_wg_state (10 ^ 18) = Some st' \<and>
     (\<exists>u' \<in> set (st_Users st'). u_ID u' = ''u1'' \<and> u_TrafficUsedBytes u' = 0)"
proof -
  have "0 < days_duration 30" by (rule days_duration_pos) simp_all
  from reset_loop_positive [OF this, of "10 ^ 18" "86400000000000"]
  obtain t where "reset_loop (days_duration 30) (10 ^ 18) 86400000000000 = Some t" by blast
  then obtain st' where st': "trafficResetsUpdate sample_wg_state (10 ^ 18) = Some st'"
    by (simp add: trafficResetsUpdate_def trafficResetUser_def sample_wg_state_def sample_user_def
        effectiveResetIntervalDays_def IsZero_def Let_def)
  have "sample_user \<in> set (st_Users sample_wg_state)" by (simp add: sample_wg_state_def)
  from traffic_reset_rebases [OF st' this sample_reset_due] st'
  show ?thesis by (auto simp: sample_user_def)
qed

text \<open>
  The reset of the lifecycle reconciliation has no such effect on the WireGuard traffic: it
  leaves the counter bases alone, so after the next WireGuard sync every user has the WireGuard
  traffic it would have had without the reset.
\<close>

lemma lifecycle_reset_undone:
  assumes "reconcileSubscriptions st now = Some (ids, st')"
  shows "map u_WireGuardTrafficBytes (st_Users (syncWireGuardUpdate later seen st')) =
         map u_WireGuardTrafficBytes (st_Users (syncWireGuardUpdate later seen st))"
proof -
  have st': "st' = st\<lparr>st_Users := st_Users st'\<rparr>" by (rule reconcile_frame [OF assms])
  then have peers: "st_VPNPeers st' = st_VPNPeers st" by (metis State.select_convs(13) State.surjective State.update_convs(4))
  obtain nodes where "reconcileUsers st now (st_Users st) = Some (st_Users st', nodes)"
    using assms by (auto simp: reconcileSubscriptions_def)
  then have ids: "map u_ID (st_Users st') = map u_ID (st_Users st)"
    using reconcileUsers_Some(1) reconcileUser_Some(3)
    by (fastforce simp: list_eq_iff_nth_eq list_all2_conv_all_nth)
  have total: "map u_WireGuardTrafficBytes (st_Users (syncWireGuardUpdate later seen s)) =
      map (\<lambda>rid. int64 (\<Sum>p\<leftarrow>filter (\<lambda>p. vp_UserID p = rid) (map (wgPeerUpdate seen) (st_VPNPeers s)). peerBytes p))
          (map u_ID (st_Users s))" for s
    by (simp add: syncWireGuard_users syncWireGuard_peers wgUserUpdate_sum comp_def)
  show ?thesis by (simp only: total ids peers)
qed

lemma lifecycle_reset_undone_witness:
  "\<exists>ids st'. reconcileSubscriptions sample_wg_state (10 ^ 18) = Some (ids, st') \<and>
     map u_WireGuardTrafficBytes (st_Users (syncWireGuardUpdate (10 ^ 18) Map.empty st')) = [1000]"
proof -
  have "\<exists>us nodes. reconcileUsers sample_wg_state (10 ^ 18) (st_Users sample_wg_state) = Some (us, nodes)"
    by (rule reconcileUsers_total)
       (simp add: sample_wg_state_def sample_user_def effectiveResetIntervalDays_def)
  then obtain ids st' where *: "reconcileSubscriptions sample_wg_state (10 ^ 18) = Some (ids, st')"
    by (auto simp: reconcileSubscriptions_def)
  have "map u_WireGuardTrafficBytes
          (st_Users (syncWireGuardUpdate (10 ^ 18) Map.empty sample_wg_state)) = [1000]"
    by (simp add: syncWireGuard_users syncWireGuard_peers wgUserUpdate_sum wgPeerUpdate_def
        sample_wg_state_def sample_peer_def sample_user_def peerBytes_def nonNegative_def int64_id)
  with * lifecycle_reset_undone [OF *, of "10 ^ 18" Map.empty] show ?thesis by auto
qed



text \<open>
  A manual disable does not survive the expiry of the user: the policy tick overwrites the
  status, and a renewal then makes the user active, while a renewal of the disabled user, had the
  tick not run in between, would have left it disabled.
\<close>

lemma manual_disable_lost:
  assumes "u_Status u = ''disabled''" "u_ExpiresAt u \<noteq> 0" "u_ExpiresAt u < now" "0 < days"
  shows "(\<exists>v. renewUser st' later days (policyUser st now u) = Inr v \<and> u_Status v = ''active'') \<and>
         (\<exists>v. renewUser st' later days u = Inr v \<and> u_Status v = ''disabled'')"
  using assms
  by (simp add: renewUser_def policyUser_def policyStatus_def IsZero_def Let_def user_status_defs)

lemma manual_disable_lost_witness:
  "let u = sample_user\<lparr>u_Status := ''disabled'', u_ExpiresAt := 7\<rparr> in
   \<exists>v. renewUser sample_state 10 30 (policyUser sample_state 9 u) = Inr v \<and> u_Status v = ''active''"
  using manual_disable_lost
    [of "sample_user\<lparr>u_Status := ''disabled'', u_ExpiresAt := 7\<rparr>" 9 30 sample_state 10 sample_state]
  by (simp add: Let_def)

text \<open>
  The two background loops disagree on the spelling of the quota status: for a user that has
  used its quota, the policy tick writes quota-exceeded, the lifecycle tick then writes
  quota_exceeded, and each of them counts as a change at every tick.
\<close>

lemma quota_status_flaps:
  assumes "0 < effectiveUserLimit st u" "u_Status u = ''quota_exceeded''"
    "effectiveUserLimit st u \<le> u_TrafficUsedBytes u"
    "u_TrafficUsedBytes u = int64 (u_WireGuardTrafficBytes u + u_XrayTrafficBytes u)"
    "u_ExpiresAt u = 0" "\<not> resetDue st now u"
  shows "u_Status (policyUser st now u) = ''quota-exceeded'' \<and> policyChanged st now u \<and>
         (\<exists>v. reconcileUser st now (policyUser st now u) = Some (v, True) \<and>
              u_Status v = ''quota_exceeded'' \<and> policyChanged st now v)"
proof -
  let ?p = "policyUser st now u"
  have p: "?p = u\<lparr>u_Status := ''quota-exceeded'', u_UpdatedAt := now\<rparr>"
    using assms by (simp add: policyUser_def policyStatus_def IsZero_def Let_def)
  have due: "\<not> resetDue st now ?p"
    using assms(6) by (simp add: p resetDue_def effectiveResetIntervalDays_def)
  have norm: "normalizeUserStatus ''quota-exceeded'' \<noteq> ''disabled''" by code_simp
  have life: "userLifecycleStatus st ?p now = (''quota_exceeded'', ''traffic quota exceeded'')"
    using assms norm by (simp add: p userLifecycleStatus_def Let_def user_status_defs IsZero_def)
  have rec: "reconcileUser st now ?p =
      Some (?p\<lparr>u_Status := ''quota_exceeded'', u_StatusReason := ''traffic quota exceeded'',
               u_UpdatedAt := now\<rparr>, True)"
    using due life by (simp add: reconcileUser_def p)
  show ?thesis
    using assms rec
    by (simp add: p policyChanged_def policyUser_def policyStatus_def Let_def IsZero_def)
qed

lemma quota_status_flaps_witness:
  "policyChanged sample_state 5 (sample_user\<lparr>u_Status := ''quota_exceeded''\<rparr>)"
  using quota_status_flaps [of sample_state "sample_user\<lparr>u_Status := ''quota_exceeded''\<rparr>" 5]
  by (simp add: sample_state_def sample_user_def effectiveUserLimit_def int64_id resetDue_def IsZero_def)

end
