(* ===== verification/Security.thy ===== *)
theory Security
  imports Accounting Env "HOL-Library.Signed_Division"
begin

text \<open>
  src/internal/panel/security.go: password hashes (PBKDF2 over HMAC-SHA256), the sealing of secrets
  (AES-GCM), signed sessions and one-time codes. The keyed hashes, the cipher and the JSON codec of a
  session are arguments; the encodings (base64, base32, hexadecimal), the key derivation loop and
  every check are defined here. A byte string is a string.
\<close>

record crypto =
  cr_HMAC256 :: "string \<Rightarrow> string \<Rightarrow> string"
  cr_HMAC1 :: "string \<Rightarrow> string \<Rightarrow> string"
  cr_GCMSeal :: "string \<Rightarrow> string \<Rightarrow> string \<Rightarrow> string"
  cr_GCMOpen :: "string \<Rightarrow> string \<Rightarrow> string \<Rightarrow> go_error + string"

section \<open>Encodings\<close>

fun index_in :: "'a \<Rightarrow> 'a list \<Rightarrow> nat option" where
  "index_in c [] = None"
| "index_in c (x # xs) = (if x = c then Some 0 else map_option Suc (index_in c xs))"

definition byte_of :: "char \<Rightarrow> nat" where
  "byte_of c = of_char c"

definition alph :: "string \<Rightarrow> nat \<Rightarrow> char" where
  "alph a n = a ! (n mod 64)"

definition base64_std :: string where
  "base64_std = ''ABCDEFGHIJKLMNOPQRSTUVWXYZabcdefghijklmnopqrstuvwxyz0123456789+/''"

text \<open>Unpadded base64 over an alphabet, and its decoder, which skips line breaks.\<close>

fun base64_raw :: "string \<Rightarrow> string \<Rightarrow> string" where
  "base64_raw al [] = []"
| "base64_raw al [a] = (let x = byte_of a in [alph al (x div 4), alph al (x * 16)])"
| "base64_raw al [a, b] =
     (let x = byte_of a; y = byte_of b
      in [alph al (x div 4), alph al (x * 16 + y div 16), alph al (y * 4)])"
| "base64_raw al (a # b # c # cs) =
     (let x = byte_of a; y = byte_of b; z = byte_of c
      in [alph al (x div 4), alph al (x * 16 + y div 16), alph al (y * 4 + z div 64), alph al z] @
         base64_raw al cs)"

definition sextet :: "nat \<Rightarrow> nat \<Rightarrow> char" where
  "sextet hi lo = char_of ((hi + lo) mod 256)"

fun decode_sextets :: "nat list \<Rightarrow> string option" where
  "decode_sextets [] = Some []"
| "decode_sextets [i] = None"
| "decode_sextets [i, j] = Some [sextet (i * 4) (j div 16)]"
| "decode_sextets [i, j, k] = Some [sextet (i * 4) (j div 16), sextet (j * 16) (k div 4)]"
| "decode_sextets (i # j # k # l # is) =
     map_option (\<lambda>r. sextet (i * 4) (j div 16) # sextet (j * 16) (k div 4) # sextet (k * 64) l # r)
       (decode_sextets is)"

definition base64_decode :: "string \<Rightarrow> string \<Rightarrow> string option" where
  "base64_decode al s =
     Option.bind (those (map (\<lambda>c. index_in c al) (filter (\<lambda>c. c \<noteq> CHR 0x0A \<and> c \<noteq> CHR 0x0D) s))) decode_sextets"

definition RawStdEncode :: "string \<Rightarrow> string" where
  "RawStdEncode = base64_raw base64_std"

definition RawStdDecode :: "string \<Rightarrow> string option" where
  "RawStdDecode = base64_decode base64_std"

definition RawURLDecode :: "string \<Rightarrow> string option" where
  "RawURLDecode = base64_decode base64_url_alphabet"

definition byte_bits :: "nat \<Rightarrow> nat \<Rightarrow> bool list" where
  "byte_bits width n = map (\<lambda>i. odd (n div 2 ^ (width - 1 - i))) [0..<width]"

definition bits_value :: "bool list \<Rightarrow> nat" where
  "bits_value bs = fold (\<lambda>b v. 2 * v + of_bool b) bs 0"

function groups_of :: "nat \<Rightarrow> 'a list \<Rightarrow> 'a list list" where
  "groups_of k xs = (if k = 0 \<or> length xs < k then [] else take k xs # groups_of k (drop k xs))"
  by pat_completeness auto

termination
  by (relation "measure (\<lambda>(k, xs). length xs)") auto

declare groups_of.simps [simp del]

definition base32_alphabet :: string where
  "base32_alphabet = ''ABCDEFGHIJKLMNOPQRSTUVWXYZ234567''"

text \<open>Unpadded base32 of a string whose length is a multiple of five.\<close>

definition base32_encode :: "string \<Rightarrow> string" where
  "base32_encode s =
     map (\<lambda>g. base32_alphabet ! bits_value g) (groups_of 5 (concat (map (byte_bits 8 \<circ> byte_of) s)))"

text \<open>A last group of 1, 3 or 6 characters yields no byte.\<close>

definition base32_decode :: "string \<Rightarrow> string option" where
  "base32_decode s =
     (case those (map (\<lambda>c. index_in c base32_alphabet) (filter (\<lambda>c. c \<noteq> CHR 0x0A \<and> c \<noteq> CHR 0x0D) s)) of
        None \<Rightarrow> None
      | Some is \<Rightarrow>
          let left = length is mod 8;
              used = (if left \<in> {1, 3, 6} then take (length is - left) is else is)
          in Some (map (char_of \<circ> bits_value) (groups_of 8 (concat (map (byte_bits 5) used)))))"

definition hex_decode :: "string \<Rightarrow> string option" where
  "hex_decode s =
     (if odd (length s) then None
      else map_option (map (\<lambda>g. char_of (nat (16 * g ! 0 + g ! 1))) \<circ> groups_of 2) (those (map hex_value s)))"

section \<open>Passwords\<close>

definition passwordIterations :: int where
  "passwordIterations = 210000"

definition xor_bytes :: "string \<Rightarrow> string \<Rightarrow> string" where
  "xor_bytes t u = map2 (\<lambda>a b. char_of (byte_of a XOR byte_of b)) t u"

definition be_bytes :: "nat \<Rightarrow> int \<Rightarrow> string" where
  "be_bytes n v = map (\<lambda>i. char_of (nat (v div 256 ^ (n - 1 - i) mod 256))) [0..<n]"

text \<open>The loop over the iterations: the last hash and the exclusive or of all of them.\<close>

primrec pbkdf2_rounds :: "(string \<Rightarrow> string) \<Rightarrow> nat \<Rightarrow> string \<Rightarrow> string \<Rightarrow> string" where
  "pbkdf2_rounds h 0 u t = t"
| "pbkdf2_rounds h (Suc n) u t = (let u' = h u in pbkdf2_rounds h n u' (xor_bytes t u'))"

definition pbkdf2_block :: "crypto \<Rightarrow> string \<Rightarrow> string \<Rightarrow> int \<Rightarrow> nat \<Rightarrow> string" where
  "pbkdf2_block C password salt iterations block =
     (let u = cr_HMAC256 C password (salt @ be_bytes 4 (int block))
      in pbkdf2_rounds (cr_HMAC256 C password) (nat (iterations - 1)) u u)"

definition pbkdf2SHA256 :: "crypto \<Rightarrow> string \<Rightarrow> string \<Rightarrow> int \<Rightarrow> nat \<Rightarrow> string" where
  "pbkdf2SHA256 C password salt iterations keyLen =
     take keyLen (concat (map (pbkdf2_block C password salt iterations) [1..<Suc ((keyLen + 31) div 32)]))"

definition hashPassword :: "crypto \<Rightarrow> 'w env \<Rightarrow> string \<Rightarrow> 'w Store \<Rightarrow> (go_error + string) \<times> 'w Store" where
  "hashPassword C env p s =
     (if length p < 10 then (Inl (Plain ''password must be at least 10 characters''), s)
      else (case effect (ev_rand env 16) s of (salt, s1) \<Rightarrow>
              let dk = pbkdf2SHA256 C p salt passwordIterations 32 in
              (Inr (''pbkdf2-sha256$'' @ Itoa passwordIterations @ ''$'' @ RawStdEncode salt @ ''$'' @ RawStdEncode dk),
               s1)))"

text \<open>strconv.Atoi.\<close>

definition Atoi :: "string \<Rightarrow> int option" where
  "Atoi s =
     (let neg = (s \<noteq> [] \<and> hd s = CHR ''-'');
          ds = (if s \<noteq> [] \<and> (hd s = CHR ''-'' \<or> hd s = CHR ''+'') then tl s else s);
          v = (if neg then - digits_value ds else digits_value ds)
      in if ds = [] \<or> \<not> list_all is_digit ds \<or> v < - (2 ^ 63) \<or> 2 ^ 63 \<le> v then None else Some v)"

definition verifyPassword :: "crypto \<Rightarrow> string \<Rightarrow> string \<Rightarrow> bool" where
  "verifyPassword C enc p =
     (case split_at (CHR ''$'') enc of
        [scheme, its, salt, want] \<Rightarrow>
          if scheme \<noteq> ''pbkdf2-sha256'' then False
          else (case Atoi its of
                  None \<Rightarrow> False
                | Some it \<Rightarrow>
                    if it < 100000 then False
                    else (case (RawStdDecode salt, RawStdDecode want) of
                            (Some salt, Some want) \<Rightarrow> pbkdf2SHA256 C p salt it (length want) = want
                          | _ \<Rightarrow> False))
      | _ \<Rightarrow> False)"

section \<open>The key files\<close>

text \<open>The operations on the file at the path are arguments.\<close>

definition ensureKey ::
  "('w \<Rightarrow> go_error + string) \<Rightarrow> ('w \<Rightarrow> go_error option \<times> 'w) \<Rightarrow> (string \<Rightarrow> 'w \<Rightarrow> go_error option \<times> 'w) \<Rightarrow>
   (nat \<Rightarrow> 'w \<Rightarrow> string \<times> 'w) \<Rightarrow> 'w \<Rightarrow> (go_error + string) \<times> 'w" where
  "ensureKey read mkdir write rand w =
     (case (case read w of Inl e \<Rightarrow> None | Inr b \<Rightarrow> hex_decode (TrimSpace b)) of
        Some raw \<Rightarrow>
          if length raw = 32 then (Inr raw, w)
          else (case mkdir w of
                  (Some e, w1) \<Rightarrow> (Inl e, w1)
                | (None, w1) \<Rightarrow>
                    (case rand 32 w1 of (raw, w2) \<Rightarrow>
                      (case write (hex_encode raw @ [CHR 0x0A]) w2 of
                         (Some e, w3) \<Rightarrow> (Inl e, w3) | (None, w3) \<Rightarrow> (Inr raw, w3))))
      | None \<Rightarrow>
          (case mkdir w of
             (Some e, w1) \<Rightarrow> (Inl e, w1)
           | (None, w1) \<Rightarrow>
               (case rand 32 w1 of (raw, w2) \<Rightarrow>
                 (case write (hex_encode raw @ [CHR 0x0A]) w2 of
                    (Some e, w3) \<Rightarrow> (Inl e, w3) | (None, w3) \<Rightarrow> (Inr raw, w3)))))"

section \<open>Sealing secrets\<close>

definition aes_key_error :: "string \<Rightarrow> go_error option" where
  "aes_key_error k =
     (if length k \<in> {16, 24, 32} then None
      else Some (Plain (''crypto/aes: invalid key size '' @ Itoa (int (length k)))))"

definition Crypt_Seal ::
  "crypto \<Rightarrow> (nat \<Rightarrow> 'w \<Rightarrow> string \<times> 'w) \<Rightarrow> string \<Rightarrow> string \<Rightarrow> 'w \<Rightarrow> (go_error + string) \<times> 'w" where
  "Crypt_Seal C rand k plain w =
     (case aes_key_error k of
        Some e \<Rightarrow> (Inl e, w)
      | None \<Rightarrow>
          (case rand 12 w of (n, w1) \<Rightarrow> (Inr (RawURLEncode (n @ cr_GCMSeal C k n plain)), w1)))"

definition Crypt_Open :: "crypto \<Rightarrow> string \<Rightarrow> string \<Rightarrow> go_error + string" where
  "Crypt_Open C k enc =
     (case RawURLDecode enc of
        None \<Rightarrow> Inl (Plain ''illegal base64 data'')
      | Some all \<Rightarrow>
          (case aes_key_error k of
             Some e \<Rightarrow> Inl e
           | None \<Rightarrow>
               if length all < 12 then Inl (Plain ''invalid encrypted value'')
               else cr_GCMOpen C k (take 12 all) (drop 12 all)))"

text \<open>The server's environment has this cipher, under its master key.\<close>

definition with_crypt :: "crypto \<Rightarrow> string \<Rightarrow> 'w env \<Rightarrow> 'w env" where
  "with_crypt C k env = env\<lparr>ev_Seal := Crypt_Seal C (ev_rand env) k, ev_Open := Crypt_Open C k\<rparr>"

section \<open>Sessions\<close>

record sessionPayload =
  sp_AdminID :: string
  sp_Username :: string
  sp_Role :: string
  sp_Exp :: int

definition signSession :: "crypto \<Rightarrow> (sessionPayload \<Rightarrow> string) \<Rightarrow> string \<Rightarrow> sessionPayload \<Rightarrow> string" where
  "signSession C marshal k p =
     (let body = RawURLEncode (marshal p)
      in body @ ''.'' @ RawURLEncode (cr_HMAC256 C k body))"

definition verifySession ::
  "crypto \<Rightarrow> (string \<Rightarrow> sessionPayload option) \<Rightarrow> time \<Rightarrow> string \<Rightarrow> string \<Rightarrow> sessionPayload option" where
  "verifySession C unmarshal now k t =
     (case split_at (CHR ''.'') t of
        [body, sig] \<Rightarrow>
          (case RawURLDecode sig of
             None \<Rightarrow> None
           | Some mac \<Rightarrow>
               if cr_HMAC256 C k body \<noteq> mac then None
               else (case Option.bind (RawURLDecode body) unmarshal of
                       None \<Rightarrow> None
                     | Some p \<Rightarrow> if sp_Exp p < UnixSeconds now then None else Some p))
      | _ \<Rightarrow> None)"

section \<open>One-time codes\<close>

definition newTOTPSecret :: "'w env \<Rightarrow> 'w Store \<Rightarrow> string \<times> 'w Store" where
  "newTOTPSecret env s = (case effect (ev_rand env 20) s of (b, s1) \<Rightarrow> (base32_encode b, s1))"

definition ToUpper :: "string \<Rightarrow> string" where
  "ToUpper s = map (\<lambda>c. let n = (of_char c :: nat) in if 97 \<le> n \<and> n \<le> 122 then char_of (n - 32) else c) s"

definition pad6 :: "int \<Rightarrow> string" where
  "pad6 n = (let s = Itoa n in replicate (6 - length s) (CHR ''0'') @ s)"

definition totp_code :: "crypto \<Rightarrow> string \<Rightarrow> int \<Rightarrow> string" where
  "totp_code C raw step =
     (let sum = cr_HMAC1 C raw (be_bytes 8 (step mod 2 ^ 64));
          at = (\<lambda>i. int (byte_of (sum ! i)));
          off = byte_of (sum ! (length sum - 1)) mod 16
      in pad6 ((at off mod 128 * 2 ^ 24 + at (off + 1) * 2 ^ 16 + at (off + 2) * 2 ^ 8 + at (off + 3)) mod 1000000))"

definition verifyTOTP :: "crypto \<Rightarrow> string \<Rightarrow> string \<Rightarrow> time \<Rightarrow> bool" where
  "verifyTOTP C secret code0 now =
     (let code = TrimSpace code0 in
      if secret = [] then True
      else if length code \<noteq> 6 then False
      else (case base32_decode (ToUpper secret) of
              None \<Rightarrow> False
            | Some raw \<Rightarrow>
                list_ex (\<lambda>d. totp_code C raw (UnixSeconds now sdiv 30 + d) = code) [-1, 0, 1]))"

section \<open>Encodings are inverted by their decoders\<close>

text \<open>The alphabets the decoders accept: 64 different characters, none of them a line break.\<close>

definition alphabet_ok :: "string \<Rightarrow> bool" where
  "alphabet_ok al \<longleftrightarrow> length al = 64 \<and> distinct al \<and> CHR 0x0A \<notin> set al \<and> CHR 0x0D \<notin> set al"

lemma alphabets_ok: "alphabet_ok base64_std" "alphabet_ok base64_url_alphabet"
  by code_simp+

lemma index_in_nth: "distinct xs \<Longrightarrow> i < length xs \<Longrightarrow> index_in (xs ! i) xs = Some i"
proof (induction xs arbitrary: i)
  case (Cons x xs)
  then show ?case by (cases i) (auto simp: nth_mem)
qed simp

fun sextets :: "string \<Rightarrow> nat list" where
  "sextets [] = []"
| "sextets [a] = (let x = byte_of a in [x div 4, x * 16 mod 64])"
| "sextets [a, b] =
     (let x = byte_of a; y = byte_of b in [x div 4, (x * 16 + y div 16) mod 64, y * 4 mod 64])"
| "sextets (a # b # c # cs) =
     (let x = byte_of a; y = byte_of b; z = byte_of c
      in [x div 4, (x * 16 + y div 16) mod 64, (y * 4 + z div 64) mod 64, z mod 64] @ sextets cs)"

lemma byte_of_less: "byte_of c < 256"
  by (simp add: byte_of_def)

lemma char_of_byte [simp]: "char_of (byte_of c) = c"
  by (simp add: byte_of_def)

lemma quarter_less: "byte_of c div 4 < 64"
  using byte_of_less [of c] by linarith

lemma sextets_less: "n \<in> set (sextets s) \<Longrightarrow> n < 64"
  by (induction s rule: sextets.induct) (auto simp: Let_def quarter_less)

lemma base64_raw_sextets: "base64_raw al s = map (alph al) (sextets s)"
  by (induction s rule: sextets.induct) (simp_all add: Let_def alph_def)

lemma base64_set: "alphabet_ok al \<Longrightarrow> set (base64_raw al s) \<subseteq> set al"
  by (auto simp: base64_raw_sextets alph_def alphabet_ok_def)

lemma those_map_Some: "(\<And>x. x \<in> set xs \<Longrightarrow> f x = Some (g x)) \<Longrightarrow> those (map f xs) = Some (map g xs)"
  by (induction xs) auto

lemma sextet_arith:
  fixes q x y z :: nat
  shows "q < 16 \<Longrightarrow> (x * 16 + q) mod 64 = x mod 4 * 16 + q"
    and "q < 4 \<Longrightarrow> (x * 4 + q) mod 64 = x mod 16 * 4 + q"
  using mod_mult2_eq [of "x * 16 + q" 16 4] mod_mult2_eq [of "x * 4 + q" 4 16] by simp_all

lemma sextet_join:
  assumes "y < 256" "z < 256"
  shows "sextet (byte_of c div 4 * 4) ((byte_of c * 16 + y div 16) mod 64 div 16) = c"
    and "sextet ((x * 16 + byte_of c div 16) mod 64 * 16) ((byte_of c * 4 + z div 64) mod 64 div 4) = c"
    and "sextet ((y * 4 + byte_of c div 64) mod 64 * 64) (byte_of c mod 64) = c"
proof -
  have c: "byte_of c < 256" by (rule byte_of_less)
  have q: "y div 16 < 16" "z div 64 < 4" "byte_of c div 16 < 16" "byte_of c div 64 < 4"
    using assms c by linarith+
  have "byte_of c div 4 * 4 + (byte_of c mod 4 * 16 + y div 16) div 16 = byte_of c"
    using q(1) by (simp add: div_add1_eq)
  then show "sextet (byte_of c div 4 * 4) ((byte_of c * 16 + y div 16) mod 64 div 16) = c"
    using c by (simp add: sextet_def sextet_arith(1) [OF q(1)])
  have "((x mod 4 * 16 + byte_of c div 16) * 16 + (byte_of c mod 16 * 4 + z div 64) div 4) mod 256 = byte_of c"
  proof -
    have "(byte_of c mod 16 * 4 + z div 64) div 4 = byte_of c mod 16" using q(2) by simp
    then have "((x mod 4 * 16 + byte_of c div 16) * 16 + (byte_of c mod 16 * 4 + z div 64) div 4)
        = x mod 4 * 256 + byte_of c" by (simp add: algebra_simps)
    then show ?thesis using c by simp
  qed
  then show "sextet ((x * 16 + byte_of c div 16) mod 64 * 16) ((byte_of c * 4 + z div 64) mod 64 div 4) = c"
    by (simp add: sextet_def sextet_arith(1) [OF q(3)] sextet_arith(2) [OF q(2)])
  have "((y mod 16 * 4 + byte_of c div 64) * 64 + byte_of c mod 64) mod 256 = byte_of c"
  proof -
    have "(y mod 16 * 4 + byte_of c div 64) * 64 + byte_of c mod 64 = y mod 16 * 256 + byte_of c"
      by (simp add: algebra_simps)
    then show ?thesis using c by simp
  qed
  then show "sextet ((y * 4 + byte_of c div 64) mod 64 * 64) (byte_of c mod 64) = c"
    by (simp add: sextet_def sextet_arith(2) [OF q(4)])
qed

lemma decode_sextets_sextets: "decode_sextets (sextets s) = Some s"
proof (induction s rule: sextets.induct)
  case (2 a)
  then show ?case using sextet_join(1) [of 0 0 a] by (simp add: Let_def)
next
  case (3 a b)
  then show ?case
    using sextet_join(1) [of "byte_of b" 0 a] sextet_join(2) [of 0 0 "byte_of a" b]
    by (simp add: Let_def byte_of_less)
next
  case (4 a b c cs)
  then show ?case
    using sextet_join(1) [of "byte_of b" 0 a] sextet_join(2) [of 0 "byte_of c" "byte_of a" b]
      sextet_join(3) [of "byte_of b" 0 c]
    by (simp add: Let_def byte_of_less)
qed simp

lemma base64_decode_raw:
  assumes "alphabet_ok al"
  shows "base64_decode al (base64_raw al s) = Some s"
proof -
  have al: "length al = 64" "distinct al" "CHR 0x0A \<notin> set al" "CHR 0x0D \<notin> set al"
    using assms by (simp_all add: alphabet_ok_def)
  have "filter (\<lambda>c. c \<noteq> CHR 0x0A \<and> c \<noteq> CHR 0x0D) (base64_raw al s) = base64_raw al s"
    using base64_set [OF assms, of s] al(3,4) by (auto intro!: filter_True)
  moreover have "those (map (\<lambda>c. index_in c al) (base64_raw al s)) = Some (sextets s)"
    unfolding base64_raw_sextets map_map
    using those_map_Some [of "sextets s" "(\<lambda>c. index_in c al) \<circ> alph al" "\<lambda>n. n"] sextets_less al
    by (auto simp: alph_def index_in_nth)
  ultimately show ?thesis by (simp add: base64_decode_def decode_sextets_sextets)
qed

lemma RawURLEncode_raw: "RawURLEncode s = base64_raw base64_url_alphabet s"
  by (induction s rule: RawURLEncode.induct) (simp_all add: Let_def b64_def alph_def byte_of_def)

lemma base64_roundtrip [simp]:
  "RawStdDecode (RawStdEncode s) = Some s" "RawURLDecode (RawURLEncode s) = Some s"
  by (simp_all add: RawStdDecode_def RawStdEncode_def RawURLDecode_def RawURLEncode_raw
      base64_decode_raw alphabets_ok)

lemma base64_separators: "CHR ''$'' \<notin> set (RawStdEncode s)" "CHR ''.'' \<notin> set (RawURLEncode s)"
proof -
  have "CHR ''$'' \<notin> set base64_std" "CHR ''.'' \<notin> set base64_url_alphabet" by code_simp+
  then show "CHR ''$'' \<notin> set (RawStdEncode s)" "CHR ''.'' \<notin> set (RawURLEncode s)"
    using base64_set [OF alphabets_ok(1), of s] base64_set [OF alphabets_ok(2), of s]
    by (auto simp: RawStdEncode_def RawURLEncode_raw)
qed

lemma split_at_none: "d \<notin> set s \<Longrightarrow> split_at d s = [s]"
  by (induction s) auto

lemma split_at_first: "d \<notin> set s \<Longrightarrow> split_at d (s @ d # t) = s # split_at d t"
  by (induction s) auto

text \<open>
  What a token made of encoded parts relies on: the decoder inverts the encoder, and the separator
  is no character of an encoded part.
\<close>

locale token_codec =
  fixes enc :: "string \<Rightarrow> string" and dec :: "string \<Rightarrow> string option" and sep :: char
  assumes dec_enc: "dec (enc s) = Some s"
    and sep_free: "sep \<notin> set (enc s)"
begin

lemma split_last: "split_at sep (enc s) = [enc s]"
  by (rule split_at_none [OF sep_free])

lemma split_pair: "split_at sep (enc a @ sep # enc b) = [enc a, enc b]"
  by (simp add: split_at_first sep_free split_last)

lemma enc_inj: "enc a = enc b \<longleftrightarrow> a = b"
  by (metis dec_enc option.inject)

end

interpretation std64: token_codec RawStdEncode RawStdDecode "CHR ''$''"
  by unfold_locales (simp_all add: base64_separators)

interpretation url64: token_codec RawURLEncode RawURLDecode "CHR ''.''"
  by unfold_locales (simp_all add: base64_separators)

lemma split_at_nonempty: "split_at d s \<noteq> []"
  by (induction s) (auto split: list.splits)

lemma split_at_one: "split_at d t = [b] \<Longrightarrow> t = b"
  by (induction t arbitrary: b) (auto simp: split_at_nonempty split: if_splits list.splits)

lemma split_at_two: "split_at d t = [a, b] \<Longrightarrow> t = a @ d # b"
  by (induction t arbitrary: a) (auto simp: split_at_nonempty dest: split_at_one split: if_splits list.splits)

section \<open>The key derivation\<close>

text \<open>PBKDF2 as RFC 8018 has it: the exclusive or of the iterates, one sum per block.\<close>

definition pbkdf2_F :: "(string \<Rightarrow> string \<Rightarrow> string) \<Rightarrow> string \<Rightarrow> string \<Rightarrow> nat \<Rightarrow> nat \<Rightarrow> string" where
  "pbkdf2_F prf P S c i =
     (let U = (\<lambda>j. (prf P ^^ j) (prf P (S @ be_bytes 4 (int i))))
      in foldl xor_bytes (U 0) (map U [1..<c]))"

definition pbkdf2_spec :: "(string \<Rightarrow> string \<Rightarrow> string) \<Rightarrow> string \<Rightarrow> string \<Rightarrow> nat \<Rightarrow> nat \<Rightarrow> string" where
  "pbkdf2_spec prf P S c dkLen =
     take dkLen (concat (map (pbkdf2_F prf P S c) [1..<Suc (nat (- (- int dkLen div 32)))]))"

lemma pbkdf2_rounds_foldl:
  "pbkdf2_rounds h n u t = foldl xor_bytes t (map (\<lambda>j. (h ^^ j) u) [1..<Suc n])"
proof (induction n arbitrary: u t)
  case (Suc n)
  have "map (\<lambda>j. (h ^^ j) u) [1..<Suc (Suc n)] = h u # map (\<lambda>j. (h ^^ j) (h u)) [1..<Suc n]"
  proof -
    have "[1..<Suc (Suc n)] = 1 # map Suc [1..<Suc n]" by (simp add: map_Suc_upt upt_conv_Cons)
    then show ?thesis by (simp add: funpow_swap1)
  qed
  then show ?case by (simp add: Suc Let_def del: upt_Suc)
qed simp

lemma pbkdf2_block_F:
  assumes "0 < iterations"
  shows "pbkdf2_block C P S iterations i = pbkdf2_F (cr_HMAC256 C) P S (nat iterations) i"
proof -
  have "Suc (nat (iterations - 1)) = nat iterations" using assms by simp
  then show ?thesis
    by (simp add: pbkdf2_block_def pbkdf2_F_def pbkdf2_rounds_foldl Let_def del: upt_Suc)
qed

lemma blocks_ceiling: "nat (- (- int n div 32)) = (n + 31) div 32"
  by linarith

lemma xor_bytes_length [simp]: "length (xor_bytes t u) = min (length t) (length u)"
  by (simp add: xor_bytes_def)

lemma pbkdf2_rounds_length:
  "(\<And>v. length (h v) = 32) \<Longrightarrow> length t = 32 \<Longrightarrow> length (pbkdf2_rounds h n u t) = 32"
  by (induction n arbitrary: u t) (simp_all add: Let_def)

lemma pbkdf2_length:
  assumes "\<And>k m. length (cr_HMAC256 C k m) = 32"
  shows "length (pbkdf2SHA256 C P S iterations 32) = 32"
  using pbkdf2_rounds_length [of "cr_HMAC256 C P"] assms
  by (simp add: pbkdf2SHA256_def pbkdf2_block_def Let_def)

section \<open>Properties\<close>

text \<open>
  C21: the hand-written key derivation is PBKDF2 of RFC 8018 with a 32-byte hash: for every positive
  iteration count and every key length it takes that many bytes of the concatenated blocks, each the
  exclusive or of all iterates of the keyed hash.
\<close>

theorem pbkdf2_rfc:
  assumes "0 < iterations"
  shows "pbkdf2SHA256 C P S iterations dkLen = pbkdf2_spec (cr_HMAC256 C) P S (nat iterations) dkLen"
  unfolding pbkdf2SHA256_def pbkdf2_spec_def blocks_ceiling
  by (simp add: pbkdf2_block_F [OF assms, abs_def] fun_eq_iff del: upt_Suc)

definition sample_crypto :: crypto where
  "sample_crypto =
     \<lparr>cr_HMAC256 = (\<lambda>k m. take 32 (m @ k @ replicate 32 (CHR ''h''))),
      cr_HMAC1 = (\<lambda>k m. take 20 (m @ k @ replicate 20 (CHR 0x05))),
      cr_GCMSeal = (\<lambda>k n p. k @ p), cr_GCMOpen = (\<lambda>k n c. Inr (drop (length k) c))\<rparr>"

theorem pbkdf2_rfc_witness:
  "pbkdf2SHA256 sample_crypto ''pw'' ''salt'' 3 40 = pbkdf2_spec (cr_HMAC256 sample_crypto) ''pw'' ''salt'' 3 40"
  using pbkdf2_rfc [of 3 sample_crypto "''pw''" "''salt''" 40] by simp

lemma effect_eq: "effect f s = (fst (f (store_world s)), s\<lparr>store_world := snd (f (store_world s))\<rparr>)"
  by (simp add: effect_def split: prod.splits)

lemma Atoi_iterations: "Itoa passwordIterations = ''210000''" "Atoi ''210000'' = Some passwordIterations"
proof -
  show "Itoa passwordIterations = ''210000''"
    by (simp add: Itoa_def passwordIterations_def nat_digits.simps char_of_def bit_0)
  show "Atoi ''210000'' = Some passwordIterations" by code_simp
qed

lemma hash_parts:
  "split_at (CHR ''$'') (''pbkdf2-sha256$'' @ ''210000'' @ ''$'' @ RawStdEncode a @ ''$'' @ RawStdEncode b) =
   [''pbkdf2-sha256'', ''210000'', RawStdEncode a, RawStdEncode b]"
  by (simp add: std64.split_pair)

lemma verify_hashed:
  assumes hmac: "\<And>k m. length (cr_HMAC256 C k m) = 32" and h: "hashPassword C env p s = (Inr h, s')"
  shows "\<exists>salt. salt = fst (ev_rand env 16 (store_world s)) \<and> 10 \<le> length p \<and>
    (\<forall>q. verifyPassword C h q \<longleftrightarrow>
       pbkdf2SHA256 C q salt passwordIterations 32 = pbkdf2SHA256 C p salt passwordIterations 32)"
proof -
  let ?salt = "fst (ev_rand env 16 (store_world s))"
  let ?dk = "pbkdf2SHA256 C p ?salt passwordIterations 32"
  have len: "10 \<le> length p" and
    h': "h = ''pbkdf2-sha256$'' @ ''210000'' @ ''$'' @ RawStdEncode ?salt @ ''$'' @ RawStdEncode ?dk"
    using h by (auto simp: hashPassword_def effect_eq Let_def Atoi_iterations split: if_splits)
  have "verifyPassword C h q \<longleftrightarrow> pbkdf2SHA256 C q ?salt passwordIterations (length ?dk) = ?dk" for q
    unfolding verifyPassword_def h' hash_parts by (simp add: Atoi_iterations passwordIterations_def)
  then show ?thesis using len by (auto simp: pbkdf2_length [OF hmac])
qed

text \<open>
  C36: a password that was accepted and hashed verifies against its hash, and any other password
  verifies exactly when the key derivation gives it the same 32 bytes under the stored salt.
\<close>

theorem password_roundtrip:
  assumes "\<And>k m. length (cr_HMAC256 C k m) = 32" "hashPassword C env p s = (Inr h, s')"
  shows "verifyPassword C h p \<and> 10 \<le> length p \<and>
    (\<exists>salt. \<forall>q. verifyPassword C h q \<longleftrightarrow>
       pbkdf2SHA256 C q salt passwordIterations 32 = pbkdf2SHA256 C p salt passwordIterations 32)"
  using verify_hashed [OF assms] by blast

theorem password_roundtrip_witness:
  "\<exists>h s'. hashPassword sample_crypto sample_env ''correct horse'' \<lparr>store_st = emptyState, store_world = 0\<rparr> = (Inr h, s') \<and>
     verifyPassword sample_crypto h ''correct horse''"
proof -
  have hmac: "length (cr_HMAC256 sample_crypto k m) = 32" for k m by (simp add: sample_crypto_def)
  obtain h s' where h: "hashPassword sample_crypto sample_env ''correct horse''
      \<lparr>store_st = emptyState, store_world = 0\<rparr> = (Inr h, s')"
    by (simp add: hashPassword_def effect_eq Let_def)
  with password_roundtrip [OF hmac h] show ?thesis by blast
qed

text \<open>
  What Crypt seals under a key that AES accepts, Crypt opens to the same text, whatever the
  nonce: given that the cipher opens what it sealed under one key and nonce and that the random
  source yields the 12 bytes asked for.
\<close>

lemma crypt_roundtrip:
  assumes "\<And>n p. length n = 12 \<Longrightarrow> cr_GCMOpen C k n (cr_GCMSeal C k n p) = Inr p"
    and "\<And>w. length (fst (rand 12 w)) = 12" and "Crypt_Seal C rand k p w = (r, w')"
  shows "case r of Inr c \<Rightarrow> Crypt_Open C k c = Inr p | Inl e \<Rightarrow> aes_key_error k = Some e \<and> w' = w"
proof (cases "aes_key_error k")
  case None
  let ?n = "fst (rand 12 w)"
  have "r = Inr (RawURLEncode (?n @ cr_GCMSeal C k ?n p))"
    using assms(3) None by (auto simp: Crypt_Seal_def split: prod.splits)
  then show ?thesis using assms(1) [of ?n p] assms(2) [of w] None by (simp add: Crypt_Open_def)
qed (use assms(3) in \<open>auto simp: Crypt_Seal_def\<close>)

lemma crypt_roundtrip_witness:
  "\<exists>c w'. Crypt_Seal sample_crypto (ev_rand sample_env) (replicate 32 (CHR ''k'')) ''token'' 7 = (Inr c, w') \<and>
     Crypt_Open sample_crypto (replicate 32 (CHR ''k'')) c = Inr ''token''"
proof -
  let ?k = "replicate 32 (CHR ''k'')"
  have 1: "cr_GCMOpen sample_crypto ?k n (cr_GCMSeal sample_crypto ?k n p) = Inr p" for n p
    by (simp add: sample_crypto_def)
  have 2: "length (fst (ev_rand sample_env 12 w)) = 12" for w by (simp add: sample_env_def)
  obtain c w' where s: "Crypt_Seal sample_crypto (ev_rand sample_env) ?k ''token'' 7 = (Inr c, w')"
    by (simp add: Crypt_Seal_def aes_key_error_def sample_env_def)
  with crypt_roundtrip [OF 1 2 s] show ?thesis by auto
qed

lemma verifySession_Some:
  assumes "verifySession C unmarshal now k t = Some p"
  shows "\<exists>body sig raw. t = body @ ''.'' @ sig \<and> RawURLDecode sig = Some (cr_HMAC256 C k body) \<and>
    RawURLDecode body = Some raw \<and> unmarshal raw = Some p \<and> UnixSeconds now \<le> sp_Exp p"
proof -
  obtain body sig where s: "split_at (CHR ''.'') t = [body, sig]"
    using assms by (auto simp: verifySession_def split: list.splits)
  from split_at_two [OF s] have t: "t = body @ ''.'' @ sig" by simp
  have "RawURLDecode sig = Some (cr_HMAC256 C k body) \<and>
      (\<exists>raw. RawURLDecode body = Some raw \<and> unmarshal raw = Some p) \<and> UnixSeconds now \<le> sp_Exp p"
    using assms unfolding verifySession_def s
    by (auto simp: bind_eq_Some_conv not_less split: option.splits if_splits)
  with t show ?thesis by blast
qed

lemma verify_signed:
  "unmarshal (marshal p) = Some p \<Longrightarrow>
   verifySession C unmarshal now k (signSession C marshal k p) =
     (if sp_Exp p < UnixSeconds now then None else Some p)"
  by (simp add: verifySession_def signSession_def Let_def url64.split_pair)

text \<open>
  C7: a session token that was signed with the server's key is accepted with the payload it was
  signed for until it expires, and not after; and every token that is accepted carries the keyed
  hash of its own body, whose payload has not expired.
\<close>

theorem session_roundtrip:
  assumes "unmarshal (marshal p) = Some p"
  shows "verifySession C unmarshal now k (signSession C marshal k p) =
           (if sp_Exp p < UnixSeconds now then None else Some p) \<and>
         (\<forall>t q. verifySession C unmarshal now k t = Some q \<longrightarrow>
           (\<exists>body sig. t = body @ ''.'' @ sig \<and> RawURLDecode sig = Some (cr_HMAC256 C k body) \<and>
              Option.bind (RawURLDecode body) unmarshal = Some q \<and> UnixSeconds now \<le> sp_Exp q))"
proof (intro conjI allI impI)
  show "verifySession C unmarshal now k (signSession C marshal k p) =
      (if sp_Exp p < UnixSeconds now then None else Some p)"
    using assms by (rule verify_signed)
qed (use verifySession_Some in \<open>fastforce simp: bind_eq_Some_conv\<close>)

definition sample_session :: sessionPayload where
  "sample_session = \<lparr>sp_AdminID = ''1'', sp_Username = ''root'', sp_Role = ''owner'', sp_Exp = 43200\<rparr>"

theorem session_roundtrip_witness:
  "verifySession sample_crypto (\<lambda>_. Some sample_session) (62135596800 * Second) ''key''
     (signSession sample_crypto (\<lambda>_. ''{}'') ''key'' sample_session) = Some sample_session"
proof -
  have "UnixSeconds (62135596800 * Second) = 0" "0 \<le> sp_Exp sample_session"
    by (simp_all add: UnixSeconds_def Second_def sample_session_def)
  with session_roundtrip [of "\<lambda>_. Some sample_session" "\<lambda>_. ''{}''" sample_session] show ?thesis by simp
qed

end
