(* ===== verification/Sessions.thy ===== *)
theory Sessions
  imports Security
begin

text \<open>
  Who may use the panel, src/internal/panel/server.go: the authentication middleware, first setup,
  login and logout, the administrators, the audit view, the settings, the dashboard and the two
  status endpoints. A raw request has the two cookies, the CSRF header and the remote address; the
  middleware turns it into the request the handlers of the API take.
\<close>

record 'w server =
  sv_env :: "'w env"
  sv_crypto :: crypto
  sv_sessionKey :: string
  sv_CookieSecure :: bool
  sv_Marshal :: "sessionPayload \<Rightarrow> string"
  sv_Unmarshal :: "string \<Rightarrow> sessionPayload option"

record http_in =
  hq_Method :: string
  hq_Path :: string
  hq_Session :: "string option"
  hq_CSRFCookie :: "string option"
  hq_CSRFHeader :: string
  hq_RemoteAddr :: string
  hq_Query :: "(string \<times> string) list"
  hq_Body :: string

record cookie =
  ck_Name :: string
  ck_Value :: string
  ck_HttpOnly :: bool
  ck_Secure :: bool
  ck_SameSiteStrict :: bool
  ck_MaxAge :: int

section \<open>The remote address\<close>

definition last_index :: "char \<Rightarrow> string \<Rightarrow> nat option" where
  "last_index c s = map_option (\<lambda>i. length s - 1 - i) (index_in c (rev s))"

text \<open>net.SplitHostPort: the host, when the address is a host and a port.\<close>

definition split_host :: "string \<Rightarrow> string option" where
  "split_host hp =
     (case last_index (CHR '':'') hp of
        None \<Rightarrow> None
      | Some i \<Rightarrow>
          if hd hp = CHR ''['' then
            (case index_in (CHR '']'') hp of
               None \<Rightarrow> None
             | Some e \<Rightarrow>
                 if e + 1 \<noteq> i \<or> CHR ''['' \<in> set (drop 1 hp) \<or> CHR '']'' \<in> set (drop (e + 1) hp) then None
                 else Some (take (e - 1) (drop 1 hp)))
          else if CHR '':'' \<in> set (take i hp) \<or> CHR ''['' \<in> set hp \<or> CHR '']'' \<in> set hp then None
          else Some (take i hp))"

definition remoteIP :: "http_in \<Rightarrow> string" where
  "remoteIP q = (case split_host (hq_RemoteAddr q) of Some h \<Rightarrow> h | None \<Rightarrow> hq_RemoteAddr q)"

section \<open>The middleware\<close>

text \<open>The loop over the administrators stops at the first enabled one with the ID of the session.\<close>

definition session_enabled :: "State \<Rightarrow> string \<Rightarrow> bool" where
  "session_enabled st rid = list_ex (\<lambda>a. a_ID a = rid \<and> a_Enabled a) (st_Admins st)"

definition safe_method :: "string \<Rightarrow> bool" where
  "safe_method m \<longleftrightarrow> m = ''GET'' \<or> m = ''HEAD''"

text \<open>The refusal of the middleware, or the identity it hands on.\<close>

definition auth :: "'w server \<Rightarrow> time \<Rightarrow> http_in \<Rightarrow> State \<Rightarrow> (nat \<times> string) + authInfo" where
  "auth sv now q st =
     (case hq_Session q of
        None \<Rightarrow> Inl (401, ''authentication required'')
      | Some tok \<Rightarrow>
          (case verifySession (sv_crypto sv) (sv_Unmarshal sv) now (sv_sessionKey sv) tok of
             None \<Rightarrow> Inl (401, ''invalid session'')
           | Some p \<Rightarrow>
               if \<not> session_enabled st (sp_AdminID p) then Inl (401, ''account disabled'')
               else if \<not> safe_method (hq_Method q) \<and>
                       (case hq_CSRFCookie q of None \<Rightarrow> True | Some c \<Rightarrow> c = [] \<or> hq_CSRFHeader q \<noteq> c)
                 then Inl (403, ''CSRF validation failed'')
               else Inr \<lparr>ai_AdminID = sp_AdminID p, ai_Username = sp_Username p, ai_Role = sp_Role p\<rparr>))"

text \<open>The request a handler gets, with the body its decoder made.\<close>

definition request_of :: "authInfo \<Rightarrow> http_in \<Rightarrow> (string \<Rightarrow> go_error + 'b) \<Rightarrow> 'b request" where
  "request_of ai q decode =
     \<lparr>rq_Method = hq_Method q, rq_Auth = ai, rq_RemoteIP = remoteIP q, rq_Body = decode (hq_Body q)\<rparr>"

section \<open>Setup, login and logout\<close>

record credentials =
  cr_Username :: string
  cr_Password :: string
  cr_TOTP :: string

datatype auth_payload =
    NeedsSetup bool | AuthOK | LoggedIn string string bool | AdminList "Admin list"
  | AdminCreated string string string string | AuditView "AuditEntry list" | SettingsView "string \<rightharpoonup> string"

definition handleSetupStatus :: "string \<Rightarrow> State \<Rightarrow> auth_payload response" where
  "handleSetupStatus m st =
     (if m \<noteq> ''GET'' then JsonError 405 ''method not allowed'' else JsonWrite 200 (NeedsSetup (st_Admins st = [])))"

definition new_admin :: "string \<Rightarrow> string \<Rightarrow> string \<Rightarrow> string \<Rightarrow> string \<Rightarrow> time \<Rightarrow> Admin" where
  "new_admin rid name h role totp now =
     \<lparr>a_ID = rid, a_Username = name, a_PasswordHash = h, a_Role = role, a_TOTPSecret = totp,
      a_Enabled = True, a_CreatedAt = now\<rparr>"

definition setup_update :: "Admin \<Rightarrow> State \<Rightarrow> go_error + State" where
  "setup_update a st =
     (if st_Admins st \<noteq> [] then Inl (Plain ''setup already completed'')
      else Inr (st\<lparr>st_Admins := st_Admins st @ [a]\<rparr>))"

text \<open>The ID and the instant of the new owner are drawn before the update whose callback uses them.\<close>

definition handleSetup ::
  "'w server \<Rightarrow> string \<Rightarrow> go_error + credentials \<Rightarrow> 'w Store \<Rightarrow> auth_payload response \<times> 'w Store" where
  "handleSetup sv m body s =
     (if m \<noteq> ''POST'' then (JsonError 405 ''method not allowed'', s)
      else (case body of
        Inl e \<Rightarrow> (JsonError 400 (err_msg e), s)
      | Inr i \<Rightarrow>
          let name = normalizeUsername (cr_Username i) in
          if length name < 3 then (JsonError 400 ''username too short'', s)
          else (case hashPassword (sv_crypto sv) (sv_env sv) (cr_Password i) s of
                  (Inl e, s1) \<Rightarrow> (JsonError 400 (err_msg e), s1)
                | (Inr h, s1) \<Rightarrow>
                    (case randomHex (sv_env sv) 12 s1 of (rid, s2) \<Rightarrow>
                    (case effect (ev_Now (sv_env sv)) s2 of (now, s3) \<Rightarrow>
                    (case UpdateE (ev_save (sv_env sv)) (setup_update (new_admin rid name h ''owner'' [] now)) s3 of
                       (Some e, s4) \<Rightarrow> (JsonError 409 (err_msg e), s4)
                     | (None, s4) \<Rightarrow> (JsonWrite 201 AuthOK, s4)))))))"

definition session_cookies :: "bool \<Rightarrow> string \<Rightarrow> string \<Rightarrow> cookie list" where
  "session_cookies secure tok csrf =
     [\<lparr>ck_Name = ''gb_session'', ck_Value = tok, ck_HttpOnly = True, ck_Secure = secure,
       ck_SameSiteStrict = True, ck_MaxAge = 43200\<rparr>,
      \<lparr>ck_Name = ''gb_csrf'', ck_Value = csrf, ck_HttpOnly = False, ck_Secure = secure,
       ck_SameSiteStrict = True, ck_MaxAge = 43200\<rparr>]"

definition login_admin :: "State \<Rightarrow> string \<Rightarrow> Admin option" where
  "login_admin st name = List.find (\<lambda>x. a_Username x = normalizeUsername name) (st_Admins st)"

definition credentials_ok :: "crypto \<Rightarrow> Admin \<Rightarrow> credentials \<Rightarrow> time \<Rightarrow> bool" where
  "credentials_ok C a i now \<longleftrightarrow>
     a_Enabled a \<and> verifyPassword C (a_PasswordHash a) (cr_Password i) \<and>
     verifyTOTP C (a_TOTPSecret a) (cr_TOTP i) now"

definition twelve_hours :: time where
  "twelve_hours = 12 * 3600 * Second"

text \<open>The answer comes with the cookies it sets; a refusal waits a quarter of a second, here no time.\<close>

definition handleLogin ::
  "'w server \<Rightarrow> string \<Rightarrow> go_error + credentials \<Rightarrow> 'w Store \<Rightarrow>
   (auth_payload response \<times> cookie list) \<times> 'w Store" where
  "handleLogin sv m body s =
     (if m \<noteq> ''POST'' then ((JsonError 405 ''method not allowed'', []), s)
      else (case body of
        Inl e \<Rightarrow> ((JsonError 400 ''invalid request'', []), s)
      | Inr i \<Rightarrow>
          (case effect (ev_Now (sv_env sv)) s of (now, s1) \<Rightarrow>
          (case login_admin (cloneState (store_st s)) (cr_Username i) of
             None \<Rightarrow> ((JsonError 401 ''invalid credentials'', []), s1)
           | Some a \<Rightarrow>
               if \<not> credentials_ok (sv_crypto sv) a i now then ((JsonError 401 ''invalid credentials'', []), s1)
               else
                 (case effect (ev_Now (sv_env sv)) s1 of (now', s2) \<Rightarrow>
                    let tok = signSession (sv_crypto sv) (sv_Marshal sv) (sv_sessionKey sv)
                          \<lparr>sp_AdminID = a_ID a, sp_Username = a_Username a, sp_Role = a_Role a,
                           sp_Exp = UnixSeconds (now' + twelve_hours)\<rparr>
                    in (case randomHex (sv_env sv) 24 s2 of (csrf, s3) \<Rightarrow>
                          ((JsonWrite 200 (LoggedIn (a_Username a) (a_Role a) (a_TOTPSecret a \<noteq> [])),
                            session_cookies (sv_CookieSecure sv) tok csrf), s3)))))))"

definition clear_cookie :: "string \<Rightarrow> cookie" where
  "clear_cookie name =
     \<lparr>ck_Name = name, ck_Value = [], ck_HttpOnly = False, ck_Secure = False, ck_SameSiteStrict = False,
      ck_MaxAge = - 1\<rparr>"

definition handleLogout :: "auth_payload response \<times> cookie list" where
  "handleLogout = (JsonWrite 200 AuthOK, [clear_cookie ''gb_session'', clear_cookie ''gb_csrf''])"

section \<open>Administrators, audit log and settings\<close>

record admin_input =
  ad_Username :: string
  ad_Password :: string
  ad_Role :: string
  ad_EnableTOTP :: bool

definition admin_update :: "Admin \<Rightarrow> State \<Rightarrow> go_error + State" where
  "admin_update a st =
     (if list_ex (\<lambda>x. a_Username x = a_Username a) (st_Admins st) then Inl (Plain ''admin exists'')
      else Inr (st\<lparr>st_Admins := st_Admins st @ [a]\<rparr>))"

definition draw_totp :: "'w env \<Rightarrow> bool \<Rightarrow> 'w Store \<Rightarrow> string \<times> 'w Store" where
  "draw_totp env enable s = (if enable then newTOTPSecret env s else ([], s))"

definition handleAdmins ::
  "'w server \<Rightarrow> admin_input request \<Rightarrow> 'w Store \<Rightarrow> auth_payload response \<times> 'w Store" where
  "handleAdmins sv r s =
     (if requireRole r ''owner'' \<noteq> None then (JsonError 403 ''forbidden'', s)
      else if rq_Method r = ''GET'' then (JsonWrite 200 (AdminList (st_Admins (cloneState (store_st s)))), s)
      else if rq_Method r = ''POST'' then
        (case rq_Body r of
           Inl e \<Rightarrow> (JsonError 400 (err_msg e), s)
         | Inr i \<Rightarrow>
             if rank (ad_Role i) = 0 then (JsonError 400 ''invalid role'', s)
             else (case hashPassword (sv_crypto sv) (sv_env sv) (ad_Password i) s of
                     (Inl e, s1) \<Rightarrow> (JsonError 400 (err_msg e), s1)
                   | (Inr h, s1) \<Rightarrow>
                       (case randomHex (sv_env sv) 12 s1 of (rid, s2) \<Rightarrow>
                       (case effect (ev_Now (sv_env sv)) s2 of (now, s3) \<Rightarrow>
                       (case draw_totp (sv_env sv) (ad_EnableTOTP i) s3 of (totp, s4) \<Rightarrow>
                          let a = new_admin rid (normalizeUsername (ad_Username i)) h (ad_Role i) totp now in
                          (case UpdateE (ev_save (sv_env sv)) (admin_update a) s4 of
                             (Some e, s5) \<Rightarrow> (JsonError 409 (err_msg e), s5)
                           | (None, s5) \<Rightarrow>
                               (JsonWrite 201 (AdminCreated (a_ID a) (a_Username a) (a_Role a) (a_TOTPSecret a)),
                                audit_now (sv_env sv) r ''create'' (''admin:'' @ a_Username a) s5)))))))
      else (JsonError 405 ''method not allowed'', s))"

definition handleAdminItem ::
  "'w server \<Rightarrow> 'b request \<Rightarrow> string \<Rightarrow> 'w Store \<Rightarrow> auth_payload response \<times> 'w Store" where
  "handleAdminItem sv r rid s =
     (if requireRole r ''owner'' \<noteq> None then (JsonError 403 ''forbidden'', s)
      else if rq_Method r \<noteq> ''DELETE'' then (JsonError 405 ''method not allowed'', s)
      else if ai_AdminID (rq_Auth r) = rid then (JsonError 400 ''cannot delete current account'', s)
      else
        (JsonWrite 200 AuthOK,
         audit_now (sv_env sv) r ''delete'' (''admin:'' @ rid)
           (UpdateST (ev_save (sv_env sv)) (\<lambda>st. st\<lparr>st_Admins := deleteByID (st_Admins st) rid a_ID\<rparr>) s)))"

definition firstAudit :: "AuditEntry list \<Rightarrow> nat \<Rightarrow> AuditEntry list" where
  "firstAudit a n = take (if length a < n then length a else n) a"

definition handleAudit :: "'b request \<Rightarrow> State \<Rightarrow> auth_payload response" where
  "handleAudit r st =
     (if requireRole r ''admin'' \<noteq> None then JsonError 403 ''forbidden''
      else JsonWrite 200 (AuditView (firstAudit (st_Audit st) 300)))"

definition handleSettings ::
  "'w env \<Rightarrow> (string \<times> string) list request \<Rightarrow> 'w Store \<Rightarrow> auth_payload response \<times> 'w Store" where
  "handleSettings env r s =
     (if rq_Method r = ''GET'' then (JsonWrite 200 (SettingsView (st_Settings (cloneState (store_st s)))), s)
      else if rq_Method r = ''PUT'' then
        (if requireRole r ''owner'' \<noteq> None then (JsonError 403 ''forbidden'', s)
         else (case rq_Body r of
           Inl e \<Rightarrow> (JsonError 400 (err_msg e), s)
         | Inr m \<Rightarrow>
             (JsonWrite 200 AuthOK,
              audit_now env r ''update'' ''settings''
                (UpdateST (ev_save env) (\<lambda>st. st\<lparr>st_Settings := st_Settings st ++ map_of m\<rparr>) s))))
      else (JsonError 405 ''method not allowed'', s))"

section \<open>Status endpoints and dashboard\<close>

datatype status_answer = StatusError nat string | StatusHead nat | StatusOK nat

definition handleHealth :: "string \<Rightarrow> status_answer" where
  "handleHealth m =
     (if m \<noteq> ''GET'' \<and> m \<noteq> ''HEAD'' then StatusError 405 ''method not allowed''
      else if m = ''HEAD'' then StatusHead 200 else StatusOK 200)"

record ReleaseInfo =
  ri_Version :: string
  ri_Commit :: string
  ri_BuildTime :: string
  ri_Image :: string

text \<open>The version strings are set by the linker.\<close>

definition handleReleaseInfo :: "string \<Rightarrow> string \<Rightarrow> string \<Rightarrow> string \<Rightarrow> ReleaseInfo response" where
  "handleReleaseInfo ver com built m =
     (if m \<noteq> ''GET'' then JsonError 405 ''method not allowed''
      else JsonWrite 200 \<lparr>ri_Version = ver, ri_Commit = com, ri_BuildTime = built, ri_Image = ''gamebridge-panel''\<rparr>)"

record dashboard =
  db_Users :: nat
  db_Nodes :: nat
  db_NodesOnline :: nat
  db_Tunnels :: nat
  db_ActiveTunnels :: nat
  db_Plans :: nat
  db_TrafficBytes :: int
  db_NodesDetail :: "Node list"
  db_RecentAudit :: "AuditEntry list"

definition handleDashboard :: "State \<Rightarrow> dashboard" where
  "handleDashboard st =
     \<lparr>db_Users = length (st_Users st), db_Nodes = length (st_Nodes st),
      db_NodesOnline = length (filter (\<lambda>n. n_Status n = ''online'') (st_Nodes st)),
      db_Tunnels = length (st_Tunnels st),
      db_ActiveTunnels =
        length (filter (\<lambda>t. t_Status t = ''online'' \<or> t_Status t = ''created'') (st_Tunnels st)),
      db_Plans = length (st_Plans st),
      db_TrafficBytes = fold (\<lambda>u t. int64 (t + u_TrafficUsedBytes u)) (st_Users st) 0,
      db_NodesDetail = st_Nodes st, db_RecentAudit = firstAudit (st_Audit st) 8\<rparr>"

section \<open>Properties\<close>

text \<open>
  C20: a login that succeeds is that of an existing, enabled administrator whose password verifies, and
  hands out a session cookie and an anti-forgery cookie with which the middleware lets the requests
  of this administrator pass, under the name and role of the login, for as long as the account is
  there and enabled, until twelve hours after the login and not a second longer.
\<close>

theorem login_admits:
  assumes "\<And>a x. a \<in> set (st_Admins (store_st s)) \<Longrightarrow>
      sv_Unmarshal sv (sv_Marshal sv
        \<lparr>sp_AdminID = a_ID a, sp_Username = a_Username a, sp_Role = a_Role a, sp_Exp = x\<rparr>) =
      Some \<lparr>sp_AdminID = a_ID a, sp_Username = a_Username a, sp_Role = a_Role a, sp_Exp = x\<rparr>"
    and "handleLogin sv m body s = ((JsonWrite code v, cs), s')"
  shows "\<exists>a i w tok csrf. body = Inr i \<and> a \<in> set (st_Admins (store_st s)) \<and> a_Enabled a \<and>
    a_Username a = normalizeUsername (cr_Username i) \<and>
    verifyPassword (sv_crypto sv) (a_PasswordHash a) (cr_Password i) \<and>
    cs = session_cookies (sv_CookieSecure sv) tok csrf \<and>
    (\<forall>q now st. hq_Session q = Some tok \<longrightarrow>
       safe_method (hq_Method q) \<or> (csrf \<noteq> [] \<and> hq_CSRFCookie q = Some csrf \<and> hq_CSRFHeader q = csrf) \<longrightarrow>
       auth sv now q st =
         (if UnixSeconds (fst (ev_Now (sv_env sv) w) + twelve_hours) < UnixSeconds now
            then Inl (401, ''invalid session'')
          else if \<not> session_enabled st (a_ID a) then Inl (401, ''account disabled'')
          else Inr \<lparr>ai_AdminID = a_ID a, ai_Username = a_Username a, ai_Role = a_Role a\<rparr>))"
proof -
  let ?env = "sv_env sv"
  let ?now = "fst (ev_Now ?env (store_world s))" and ?w = "snd (ev_Now ?env (store_world s))"
  obtain i a where i: "body = Inr i" "login_admin (store_st s) (cr_Username i) = Some a"
    and ok: "credentials_ok (sv_crypto sv) a i ?now"
    using assms(2)
    by (auto simp: handleLogin_def effect_eq split: if_splits sum.splits option.splits)
  let ?p = "\<lparr>sp_AdminID = a_ID a, sp_Username = a_Username a, sp_Role = a_Role a,
             sp_Exp = UnixSeconds (fst (ev_Now ?env ?w) + twelve_hours)\<rparr>"
  let ?tok = "signSession (sv_crypto sv) (sv_Marshal sv) (sv_sessionKey sv) ?p"
  obtain csrf where cs: "cs = session_cookies (sv_CookieSecure sv) ?tok csrf"
    using assms(2) i ok by (auto simp: handleLogin_def effect_eq Let_def split: if_splits prod.splits)
  have a: "a \<in> set (st_Admins (store_st s))" "a_Username a = normalizeUsername (cr_Username i)"
    using find_Some_in [OF i(2) [unfolded login_admin_def]] by simp_all
  have verify: "verifySession (sv_crypto sv) (sv_Unmarshal sv) now (sv_sessionKey sv) ?tok =
      (if sp_Exp ?p < UnixSeconds now then None else Some ?p)" for now
    by (rule verify_signed) (rule assms(1) [OF a(1)])
  have pass: "auth sv now q st =
      (if UnixSeconds (fst (ev_Now ?env ?w) + twelve_hours) < UnixSeconds now then Inl (401, ''invalid session'')
       else if \<not> session_enabled st (a_ID a) then Inl (401, ''account disabled'')
       else Inr \<lparr>ai_AdminID = a_ID a, ai_Username = a_Username a, ai_Role = a_Role a\<rparr>)"
    if "hq_Session q = Some ?tok"
      "safe_method (hq_Method q) \<or> (csrf \<noteq> [] \<and> hq_CSRFCookie q = Some csrf \<and> hq_CSRFHeader q = csrf)" for q now st
    using that by (auto simp: auth_def verify)
  show ?thesis
    using i(1) a ok cs pass
    by (intro exI [of _ a] exI [of _ i] exI [of _ ?w] exI [of _ ?tok] exI [of _ csrf])
       (simp add: credentials_ok_def)
qed

text \<open>A codec for one administrator's sessions: the expiry in unary.\<close>

definition unary :: "sessionPayload \<Rightarrow> string" where
  "unary p = (if 0 \<le> sp_Exp p then replicate (nat (sp_Exp p)) (CHR ''p'')
              else CHR ''n'' # replicate (nat (- sp_Exp p)) (CHR ''n''))"

definition from_unary :: "string \<Rightarrow> sessionPayload option" where
  "from_unary b =
     Some \<lparr>sp_AdminID = ''1'', sp_Username = ''root'', sp_Role = ''owner'',
           sp_Exp = (if b \<noteq> [] \<and> hd b = CHR ''n'' then 1 - int (length b) else int (length b))\<rparr>"

lemma from_unary:
  "from_unary (unary \<lparr>sp_AdminID = ''1'', sp_Username = ''root'', sp_Role = ''owner'', sp_Exp = x\<rparr>) =
   Some \<lparr>sp_AdminID = ''1'', sp_Username = ''root'', sp_Role = ''owner'', sp_Exp = x\<rparr>"
  by (auto simp: from_unary_def unary_def)

definition sample_server :: "nat server" where
  "sample_server = \<lparr>sv_env = sample_env, sv_crypto = sample_crypto, sv_sessionKey = ''key'',
     sv_CookieSecure = True, sv_Marshal = unary, sv_Unmarshal = from_unary\<rparr>"

theorem login_admits_witness:
  "\<exists>h v cs s'. handleLogin sample_server ''POST''
      (Inr \<lparr>cr_Username = '' Root'', cr_Password = ''correct horse'', cr_TOTP = []\<rparr>)
      \<lparr>store_st = emptyState\<lparr>st_Admins := [new_admin ''1'' ''root'' h ''owner'' [] 1]\<rparr>, store_world = 0\<rparr> =
        ((JsonWrite 200 v, cs), s') \<and>
      (\<exists>tok csrf. cs = session_cookies True tok csrf)"
proof -
  let ?s = "\<lambda>h. \<lparr>store_st = emptyState\<lparr>st_Admins := [new_admin ''1'' ''root'' h ''owner'' [] 1]\<rparr>, store_world = 0 :: nat\<rparr>"
  let ?b = "Inr \<lparr>cr_Username = '' Root'', cr_Password = ''correct horse'', cr_TOTP = []\<rparr>"
  have hmac: "length (cr_HMAC256 sample_crypto k m) = 32" for k m by (simp add: sample_crypto_def)
  obtain h s1 where "hashPassword sample_crypto sample_env ''correct horse''
      \<lparr>store_st = emptyState, store_world = 0\<rparr> = (Inr h, s1)"
    by (simp add: hashPassword_def effect_eq Let_def)
  then have ok: "verifyPassword sample_crypto h ''correct horse''" using verify_hashed [OF hmac] by blast
  have name: "normalizeUsername '' Root'' = ''root''" by code_simp
  obtain v cs s' where l: "handleLogin sample_server ''POST'' ?b (?s h) = ((JsonWrite 200 v, cs), s')"
    using ok
    by (simp add: handleLogin_def effect_eq login_admin_def name new_admin_def credentials_ok_def verifyTOTP_def
        sample_server_def Let_def case_prod_beta)
  have m: "sv_Unmarshal sample_server (sv_Marshal sample_server
        \<lparr>sp_AdminID = a_ID a, sp_Username = a_Username a, sp_Role = a_Role a, sp_Exp = x\<rparr>) =
      Some \<lparr>sp_AdminID = a_ID a, sp_Username = a_Username a, sp_Role = a_Role a, sp_Exp = x\<rparr>"
    if "a \<in> set (st_Admins (store_st (?s h)))" for a x
    using that by (simp add: sample_server_def new_admin_def from_unary)
  have "\<exists>tok csrf. cs = session_cookies True tok csrf"
    using login_admits [OF m l] by (auto simp: sample_server_def)
  with l show ?thesis by blast
qed

end
