(* ===== verification/WGPeers.thy ===== *)
theory WGPeers
  imports InboundUsers Accounting
begin

text \<open>
  The WireGuard peers of a user: the allocation of an address in the server's network and the
  creation of a peer (src/internal/panel/accounting.go), the handler of a user's peers and the
  deletion on the node (operations.go), and the two traffic views (accounting.go).
\<close>

section \<open>Addresses of peers\<close>

definition isIPv4Broadcast :: "IP \<Rightarrow> IPNet \<Rightarrow> bool" where
  "isIPv4Broadcast ip network \<longleftrightarrow>
     (case (To4 ip, To4 (net_IP network)) of
        (Some v, Some base) \<Rightarrow>
          length (net_Mask network) = 4 \<and>
          v = map2 (\<lambda>b m. b OR NOT m) base (net_Mask network)
      | _ \<Rightarrow> False)"

text \<open>The loop of nextWGAddress, from its first attempt on.\<close>

function wg_search :: "int \<Rightarrow> IPNet \<Rightarrow> string list \<Rightarrow> IP \<Rightarrow> IP option" where
  "wg_search attempts network used candidate =
     (if attempts < 65536 then
        (let c = incIP candidate in
         if \<not> net_Contains network c then None
         else if ip_Equal c (net_IP network) \<or> isIPv4Broadcast c network
           then wg_search (attempts + 1) network used c
         else if ip_String c \<notin> set used then Some c
         else wg_search (attempts + 1) network used c)
      else None)"
  by pat_completeness auto

termination
  by (relation "measure (\<lambda>(attempts, network, used, candidate). nat (65536 - attempts))") auto

declare wg_search.simps [simp del]

definition invalid_cidr :: "string \<Rightarrow> go_error" where
  "invalid_cidr s = Plain (''invalid CIDR address: '' @ s)"

definition nextWGAddress :: "string \<Rightarrow> string list \<Rightarrow> go_error + string" where
  "nextWGAddress serverAddress used =
     (case ParseCIDR serverAddress of
        None \<Rightarrow> Inl (invalid_cidr serverAddress)
      | Some (serverIP, network) \<Rightarrow>
          (case wg_search 0 network used (short_ip serverIP) of
             None \<Rightarrow> Inl (Plain ''WireGuard subnet exhausted'')
           | Some c \<Rightarrow> Inr (ip_String c @ ''/'' @ Itoa (if To4 serverIP \<noteq> None then 32 else 128))))"

definition validateWGClientAddress :: "string \<Rightarrow> string \<Rightarrow> string list \<Rightarrow> go_error + string" where
  "validateWGClientAddress serverAddress clientAddress used =
     (case ParseCIDR serverAddress of
        None \<Rightarrow> Inl (invalid_cidr serverAddress)
      | Some (serverIP, network) \<Rightarrow>
          (case ParseCIDR clientAddress of
             None \<Rightarrow> Inl (Plain ''invalid client_address'')
           | Some (ip, _) \<Rightarrow>
               (case (if To4 serverIP \<noteq> None then To4 ip else Some ip) of
                  None \<Rightarrow> Inl (Plain ''client_address is outside WireGuard subnet'')
                | Some clientIP \<Rightarrow>
                    if \<not> net_Contains network clientIP
                      then Inl (Plain ''client_address is outside WireGuard subnet'')
                    else if ip_Equal clientIP serverIP \<or> ip_Equal clientIP (net_IP network) \<or>
                            isIPv4Broadcast clientIP network
                      then Inl (Plain ''client_address is reserved'')
                    else if ip_String clientIP \<in> set used
                      then Inl (Plain ''client_address is already in use'')
                    else Inr (ip_String clientIP @ ''/'' @ Itoa (if To4 clientIP \<noteq> None then 32 else 128)))))"

section \<open>Creating a peer\<close>

record wgCreate =
  wc_NodeID :: string
  wc_DeviceName :: string
  wc_Interface :: string
  wc_ServerAddress :: string
  wc_ClientAddress :: string
  wc_DNS :: string
  wc_ListenPort :: int

text \<open>The addresses in use on the interface, as the strings the code has in its map.\<close>

definition peer_ip :: "VPNPeer \<Rightarrow> IP option" where
  "peer_ip p = map_option fst (ParseCIDR (vp_Address p))"

definition used_addresses :: "State \<Rightarrow> string \<Rightarrow> string \<Rightarrow> string list" where
  "used_addresses st nodeID interface =
     List.map_filter (\<lambda>p. map_option ip_String (peer_ip p))
       (filter (\<lambda>p. vp_NodeID p = nodeID \<and> vp_Interface p = interface) (st_VPNPeers st))"

definition device_count :: "State \<Rightarrow> string \<Rightarrow> int" where
  "device_count st userID = int (length (filter (\<lambda>p. vp_UserID p = userID) (st_VPNPeers st)))"

definition peer_check :: "State \<Rightarrow> string \<Rightarrow> wgCreate \<Rightarrow> go_error + Node \<times> int \<times> string list" where
  "peer_check st userID i =
     (case findUser st userID of
        None \<Rightarrow> Inl (Plain ''user not found'')
      | Some u \<Rightarrow>
          (case findNode st (wc_NodeID i) of
             None \<Rightarrow> Inl (Plain ''node not found'')
           | Some n \<Rightarrow>
               if effectiveDeviceLimit st u \<le> device_count st userID
               then Inl (Plain ''device limit reached'')
               else Inr (n, device_count st userID, used_addresses st (wc_NodeID i) (wc_Interface i))))"

definition client_address :: "wgCreate \<Rightarrow> string list \<Rightarrow> go_error + string" where
  "client_address i used =
     (if wc_ClientAddress i = [] then nextWGAddress (wc_ServerAddress i) used
      else validateWGClientAddress (wc_ServerAddress i) (wc_ClientAddress i) used)"

record peerResponse =
  pr_PrivateKey :: string
  pr_PublicKey :: string
  pr_ServerPublicKey :: string
  pr_Config :: string

definition zero_peer_response :: peerResponse where
  "zero_peer_response = \<lparr>pr_PrivateKey = [], pr_PublicKey = [], pr_ServerPublicKey = [], pr_Config = []\<rparr>"

definition server_body :: "wgCreate \<Rightarrow> Node \<Rightarrow> json" where
  "server_body i n =
     JObj [(''interface'', JStr (wc_Interface i)), (''address'', JStr (wc_ServerAddress i)),
           (''listen_port'', JInt (wc_ListenPort i)), (''internet_interface'', JStr (n_InternetInterface n))]"

definition peer_body :: "wgCreate \<Rightarrow> string \<Rightarrow> string \<Rightarrow> json" where
  "peer_body i client endpoint =
     JObj [(''interface'', JStr (wc_Interface i)), (''client_address'', JStr client),
           (''endpoint'', JStr endpoint), (''dns'', JStr (wc_DNS i)), (''persistent_keepalive'', JInt 25)]"

definition new_peer ::
  "string \<Rightarrow> time \<Rightarrow> string \<Rightarrow> wgCreate \<Rightarrow> int \<Rightarrow> string \<Rightarrow> string \<Rightarrow> string \<Rightarrow> string \<Rightarrow> peerResponse \<Rightarrow> VPNPeer" where
  "new_peer rid now userID i deviceCount client endpoint priv cfg resp =
     \<lparr>vp_ID = rid, vp_UserID = userID, vp_NodeID = wc_NodeID i,
      vp_DeviceName = defaultString (wc_DeviceName i) (''device-'' @ Itoa (deviceCount + 1)),
      vp_Interface = wc_Interface i, vp_Address = client, vp_PublicKey = pr_PublicKey resp,
      vp_PrivateKeyEnc = priv, vp_ConfigEnc = cfg, vp_ServerPublicKey = pr_ServerPublicKey resp,
      vp_Endpoint = endpoint, vp_Enabled = True, vp_RXBytes = 0, vp_TXBytes = 0,
      vp_RXBaseBytes = 0, vp_TXBaseBytes = 0, vp_CreatedAt = now\<rparr>"

text \<open>Seal with its error dropped, as in the assignment priv, _ := s.crypt.Seal(...).\<close>

definition seal_or_empty :: "'w env \<Rightarrow> string \<Rightarrow> 'w Store \<Rightarrow> string \<times> 'w Store" where
  "seal_or_empty env plain s =
     (case effect (ev_Seal env plain) s of (Inl e, s1) \<Rightarrow> ([], s1) | (Inr c, s1) \<Rightarrow> (c, s1))"

text \<open>
  The decoders of the two replies are arguments: of the server's status into a map, of the peer's
  keys. The error of the last save is dropped, as the code drops it.
\<close>

definition createWGPeer ::
  "'w env \<Rightarrow> (string \<Rightarrow> go_error + json) \<Rightarrow> (string \<Rightarrow> go_error + peerResponse) \<Rightarrow> string \<Rightarrow> wgCreate \<Rightarrow>
   'w Store \<Rightarrow> (go_error + VPNPeer \<times> string) \<times> 'w Store" where
  "createWGPeer env decode_map decode_peer userID i s =
     (case peer_check (cloneState (store_st s)) userID i of
        Inl e \<Rightarrow> (Inl e, s)
      | Inr (n, deviceCount, used) \<Rightarrow>
          (case client_address i used of
             Inl e \<Rightarrow> (Inl e, s)
           | Inr client \<Rightarrow>
               (case agentJSON env n ''POST'' ''/v1/wireguard/server'' (Some (server_body i n))
                       (Some decode_map) JNull s of
                  (Inl e, s1) \<Rightarrow> (Inl e, s1)
                | (Inr _, s1) \<Rightarrow>
                    let endpoint = JoinHostPort (n_PublicIP n) (Itoa (wc_ListenPort i)) in
                    (case agentJSON env n ''POST'' ''/v1/wireguard/peer'' (Some (peer_body i client endpoint))
                            (Some decode_peer) zero_peer_response s1 of
                       (Inl e, s2) \<Rightarrow> (Inl e, s2)
                     | (Inr resp, s2) \<Rightarrow>
                         (case seal_or_empty env (pr_PrivateKey resp) s2 of (priv, s3) \<Rightarrow>
                         (case seal_or_empty env (pr_Config resp) s3 of (cfg, s4) \<Rightarrow>
                         (case randomHex env 12 s4 of (rid, s5) \<Rightarrow>
                         (case effect (ev_Now env) s5 of (now, s6) \<Rightarrow>
                            let p = new_peer rid now userID i deviceCount client endpoint priv cfg resp in
                            (Inr (p, pr_Config resp),
                             UpdateST (ev_save env) (\<lambda>st. st\<lparr>st_VPNPeers := st_VPNPeers st @ [p]\<rparr>) s6)))))))))"

definition deleteRemotePeer :: "'w env \<Rightarrow> VPNPeer \<Rightarrow> 'w Store \<Rightarrow> 'w tx" where
  "deleteRemotePeer env p s =
     (case findNode (cloneState (store_st s)) (vp_NodeID p) of
        None \<Rightarrow> (Some (Plain ''node missing''), s)
      | Some n \<Rightarrow>
          agentDo env n ''DELETE'' (''/v1/wireguard/peer?interface='' @ QueryEscape (vp_Interface p) @
            ''&public_key='' @ QueryEscape (vp_PublicKey p)) None s)"

section \<open>The handlers\<close>

datatype wg_payload = PeerList "(VPNPeer \<times> string) list" | PeerCreated VPNPeer string | TrafficView "json list"

definition peer_defaults :: "wgCreate \<Rightarrow> wgCreate" where
  "peer_defaults i =
     i\<lparr>wc_Interface := (if wc_Interface i = [] then ''gbwg0'' else wc_Interface i),
       wc_ServerAddress := (if wc_ServerAddress i = [] then ''10.77.0.1/24'' else wc_ServerAddress i),
       wc_ListenPort := (if wc_ListenPort i = 0 then 51820 else wc_ListenPort i),
       wc_DNS := (if wc_DNS i = [] then ''1.1.1.1'' else wc_DNS i)\<rparr>"

definition open_or_empty :: "'w env \<Rightarrow> string \<Rightarrow> string" where
  "open_or_empty env c = (case ev_Open env c of Inl e \<Rightarrow> [] | Inr p \<Rightarrow> p)"

definition handleUserWireGuard ::
  "'w env \<Rightarrow> (string \<Rightarrow> go_error + json) \<Rightarrow> (string \<Rightarrow> go_error + peerResponse) \<Rightarrow> wgCreate request \<Rightarrow> string \<Rightarrow>
   'w Store \<Rightarrow> wg_payload response \<times> 'w Store" where
  "handleUserWireGuard env decode_map decode_peer r userID s =
     (if rq_Method r = ''GET'' then
        (JsonWrite 200 (PeerList (map (\<lambda>p. (p, open_or_empty env (vp_ConfigEnc p)))
           (filter (\<lambda>p. vp_UserID p = userID) (st_VPNPeers (cloneState (store_st s)))))), s)
      else if rq_Method r = ''POST'' then
        (if requireRole r ''admin'' \<noteq> None then (JsonError 403 ''forbidden'', s)
         else (case rq_Body r of
           Inl e \<Rightarrow> (JsonError 400 (err_msg e), s)
         | Inr body \<Rightarrow>
             (case createWGPeer env decode_map decode_peer userID (peer_defaults body) s of
                (Inl e, s1) \<Rightarrow> (JsonError 400 (err_msg e), s1)
              | (Inr (p, c), s1) \<Rightarrow>
                  (JsonWrite 201 (PeerCreated p c),
                   audit_now env r ''create'' (''wireguard-peer:'' @ vp_ID p) s1))))
      else (JsonError 405 ''method not allowed'', s))"

definition online_view :: "User \<Rightarrow> json" where
  "online_view u =
     JObj [(''id'', JStr (u_ID u)), (''username'', JStr (u_Username u)), (''status'', JStr (u_Status u)),
           (''online'', JBool (u_Online u)), (''last_online_at'', JInt (u_LastOnlineAt u)),
           (''traffic_bytes'', JInt (u_TrafficUsedBytes u)), (''xray_bytes'', JInt (u_XrayTrafficBytes u)),
           (''wireguard_bytes'', JInt (u_WireGuardTrafficBytes u)),
           (''next_traffic_reset'', JInt (u_NextTrafficResetAt u))]"

definition handleOnlineUsers :: "'b request \<Rightarrow> State \<Rightarrow> wg_payload response" where
  "handleOnlineUsers r st =
     (if rq_Method r \<noteq> ''GET'' then JsonError 405 ''method not allowed''
      else JsonWrite 200 (TrafficView (map online_view (filter u_Online (st_Users st)))))"

definition traffic_view :: "State \<Rightarrow> User \<Rightarrow> json" where
  "traffic_view st u =
     JObj [(''id'', JStr (u_ID u)), (''username'', JStr (u_Username u)), (''status'', JStr (u_Status u)),
           (''traffic_bytes'', JInt (u_TrafficUsedBytes u)), (''xray_bytes'', JInt (u_XrayTrafficBytes u)),
           (''wireguard_bytes'', JInt (u_WireGuardTrafficBytes u)),
           (''limit_bytes'', JInt (effectiveUserLimit st u)),
           (''reset_interval_days'', JInt (effectiveResetIntervalDays st u)),
           (''next_reset_at'', JInt (u_NextTrafficResetAt u))]"

definition handleTrafficSummary :: "'b request \<Rightarrow> State \<Rightarrow> wg_payload response" where
  "handleTrafficSummary r st =
     (if rq_Method r \<noteq> ''GET'' then JsonError 405 ''method not allowed''
      else JsonWrite 200 (TrafficView (map (traffic_view st) (st_Users st))))"

section \<open>Lemmas\<close>

text \<open>An address the search returns, after how many steps it found it, and what it skipped.\<close>

definition wg_free :: "IPNet \<Rightarrow> string list \<Rightarrow> IP \<Rightarrow> bool" where
  "wg_free network used c \<longleftrightarrow>
     net_Contains network c \<and> \<not> ip_Equal c (net_IP network) \<and> \<not> isIPv4Broadcast c network \<and>
     ip_String c \<notin> set used"

lemma wg_search_Some:
  "wg_search a network used c0 = Some c \<Longrightarrow>
   \<exists>k. 0 < k \<and> int k + a \<le> 65536 \<and> c = (incIP ^^ k) c0 \<and> wg_free network used c"
proof (induction a network used c0 rule: wg_search.induct)
  case (1 a network used c0)
  let ?c = "incIP c0"
  have a: "a < 65536" using "1.prems" by (simp add: wg_search.simps [of a network used c0] split: if_splits)
  note step = "1.prems" [unfolded wg_search.simps [of a network used c0] Let_def if_P [OF a]]
  have further: "\<exists>k. 0 < k \<and> int k + a \<le> 65536 \<and> c = (incIP ^^ k) c0 \<and> wg_free network used c"
    if "\<exists>k. 0 < k \<and> int k + (a + 1) \<le> 65536 \<and> c = (incIP ^^ k) ?c \<and> wg_free network used c"
  proof -
    from that obtain k where k: "0 < k" "int k + (a + 1) \<le> 65536" "c = (incIP ^^ k) ?c" "wg_free network used c"
      by blast
    have "c = (incIP ^^ Suc k) c0" using k(3) by (simp add: funpow_swap1)
    with k show ?thesis by (intro exI [of _ "Suc k"]) simp
  qed
  show ?case
  proof (cases "ip_Equal ?c (net_IP network) \<or> isIPv4Broadcast ?c network \<or> ip_String ?c \<in> set used")
    case True
    then have "net_Contains network ?c" "wg_search (a + 1) network used ?c = Some c"
      using step by (auto split: if_splits)
    with True a show ?thesis by (intro further) (cases "ip_Equal ?c (net_IP network) \<or> isIPv4Broadcast ?c network",
        use "1.IH" in auto)
  next
    case False
    with step have "c = ?c" "net_Contains network ?c" by (auto split: if_splits)
    with False a show ?thesis by (intro exI [of _ 1]) (simp add: wg_free_def)
  qed
qed

lemma short_ip_len: "length ip = 16 \<Longrightarrow> length (short_ip ip) = 4 \<or> length (short_ip ip) = 16"
  by (simp add: short_ip_split)

text \<open>The candidates are never the server's own address.\<close>

lemma candidate_moves:
  assumes "length serverIP = 16" "0 < k" "k \<le> 65536"
  shows "short_ip ((incIP ^^ k) (short_ip serverIP)) \<noteq> short_ip serverIP"
proof -
  let ?s = "short_ip serverIP" and ?c = "(incIP ^^ k) (short_ip serverIP)"
  have len: "length ?s = 4 \<or> length ?s = 16" by (rule short_ip_len [OF assms(1)])
  have "(256::nat) ^ 4 \<le> 256 ^ length ?s" using len by (intro power_increasing) auto
  then have "k < 256 ^ length ?s" using assms(3) by simp
  then have "?c \<noteq> ?s" by (rule incs_moves [OF assms(2)])
  moreover have "short_ip ?c = ?c \<or> length (short_ip ?c) \<noteq> length ?s"
  proof (cases "length ?s = 4")
    case False
    with len have "length ?c = 16" by simp
    with False len show ?thesis by (cases "take 12 ?c = v4InV6Prefix") (simp_all add: short_ip_split)
  qed (simp add: short_ip_split)
  ultimately show ?thesis by auto
qed

text \<open>What an address that was handed out satisfies.\<close>

definition fresh_client :: "string \<Rightarrow> string list \<Rightarrow> string \<Rightarrow> bool" where
  "fresh_client serverAddress used client \<longleftrightarrow>
     (\<exists>serverIP network ip bits. ParseCIDR serverAddress = Some (serverIP, network) \<and>
        client = ip_String ip @ ''/'' @ Itoa bits \<and> bits \<in> {32, 128} \<and>
        wg_free network used ip \<and> short_ip ip \<noteq> short_ip serverIP)"

lemma nextWGAddress_fresh: "nextWGAddress sa used = Inr client \<Longrightarrow> fresh_client sa used client"
proof -
  assume n: "nextWGAddress sa used = Inr client"
  obtain serverIP network where p: "ParseCIDR sa = Some (serverIP, network)"
    using n by (auto simp: nextWGAddress_def split: option.splits)
  obtain c where c: "wg_search 0 network used (short_ip serverIP) = Some c"
    "client = ip_String c @ ''/'' @ Itoa (if To4 serverIP \<noteq> None then 32 else 128)"
    using n by (auto simp: nextWGAddress_def p split: option.splits)
  from wg_search_Some [OF c(1)] obtain k where k: "0 < k" "k \<le> 65536"
    "c = (incIP ^^ k) (short_ip serverIP)" "wg_free network used c" by auto
  have "short_ip c \<noteq> short_ip serverIP"
    unfolding k(3) by (rule candidate_moves [OF ParseCIDR_length [OF p] k(1,2)])
  with p c(2) k(4) show ?thesis unfolding fresh_client_def by auto
qed

lemma validateWGClientAddress_fresh:
  "validateWGClientAddress sa ca used = Inr client \<Longrightarrow> fresh_client sa used client"
proof -
  assume v: "validateWGClientAddress sa ca used = Inr client"
  obtain serverIP network where p: "ParseCIDR sa = Some (serverIP, network)"
    using v by (auto simp: validateWGClientAddress_def split: option.splits)
  obtain ip n2 where q: "ParseCIDR ca = Some (ip, n2)"
    using v by (auto simp: validateWGClientAddress_def p split: option.splits)
  obtain c where c: "(if To4 serverIP \<noteq> None then To4 ip else Some ip) = Some c"
    using v by (auto simp: validateWGClientAddress_def p q split: option.splits if_splits)
  note r = v [unfolded validateWGClientAddress_def p q option.case prod.case c guard_Inr]
  have "length c = 4 \<or> length c = 16"
    using c ParseCIDR_length [OF q] To4_length by (auto split: if_splits)
  with r ParseCIDR_length [OF p] have "short_ip c \<noteq> short_ip serverIP" by (simp add: ip_Equal_short)
  then show ?thesis
    unfolding fresh_client_def wg_free_def
    using p r by (intro exI [of _ serverIP] exI [of _ network] exI [of _ c]
        exI [of _ "if To4 c \<noteq> None then 32 else 128"]) auto
qed

lemma client_address_fresh: "client_address i used = Inr client \<Longrightarrow> fresh_client (wc_ServerAddress i) used client"
  by (auto simp: client_address_def nextWGAddress_fresh validateWGClientAddress_fresh split: if_splits)

lemma used_addresses_in:
  assumes "q \<in> set (st_VPNPeers st)" "vp_NodeID q = nodeID" "vp_Interface q = interface" "peer_ip q = Some ip"
  shows "ip_String ip \<in> set (used_addresses st nodeID interface)"
  unfolding used_addresses_def in_map_filter using assms by (intro bexI [of _ q]) simp_all

lemma seal_or_empty_st: "seal_or_empty env p s = (c, s') \<Longrightarrow> store_st s' = store_st s"
  by (auto simp: seal_or_empty_def dest: effect_stD split: prod.splits sum.splits)

lemma randomHex_stD: "randomHex env n s = (h, s') \<Longrightarrow> store_st s' = store_st s"
  using randomHex_st [of env n s] by simp

lemma agentJSON_stD: "agentJSON env n m path b out z s = (r, s') \<Longrightarrow> store_st s' = store_st s"
  using agentJSON_st [of env n m path b out z s] by simp

lemma UpdateST_cases: "store_st (UpdateST save f s) = store_st s \<or> store_st (UpdateST save f s) = f (store_st s)"
  by (auto simp: UpdateST_def Update_def split: prod.splits sum.splits option.splits)

text \<open>What a creation did when it succeeded.\<close>

lemma createWGPeer_Inr:
  assumes "createWGPeer env dm dp userID i s = (Inr (p, cfg), s')"
  shows "\<exists>u n. findUser (store_st s) userID = Some u \<and> findNode (store_st s) (wc_NodeID i) = Some n \<and>
           device_count (store_st s) userID < effectiveDeviceLimit (store_st s) u \<and>
           client_address i (used_addresses (store_st s) (wc_NodeID i) (wc_Interface i)) = Inr (vp_Address p) \<and>
           vp_UserID p = userID \<and> vp_NodeID p = wc_NodeID i \<and> vp_Interface p = wc_Interface i \<and>
           (store_st s' = store_st s \<or>
            store_st s' = (store_st s)\<lparr>st_VPNPeers := st_VPNPeers (store_st s) @ [p]\<rparr>)"
proof -
  let ?st = "store_st s"
  obtain n count used where check: "peer_check ?st userID i = Inr (n, count, used)"
    using assms by (auto simp: createWGPeer_def split: sum.splits)
  obtain client where client: "client_address i used = Inr client"
    using assms by (auto simp: createWGPeer_def check split: sum.splits)
  let ?endpoint = "JoinHostPort (n_PublicIP n) (Itoa (wc_ListenPort i))"
  obtain r1 s1 where 1: "agentJSON env n ''POST'' ''/v1/wireguard/server'' (Some (server_body i n)) (Some dm) JNull s
      = (r1, s1)" by fastforce
  obtain srv where r1: "r1 = Inr srv"
    using assms by (cases r1) (simp_all add: createWGPeer_def check client 1)
  obtain r2 s2 where 2: "agentJSON env n ''POST'' ''/v1/wireguard/peer'' (Some (peer_body i client ?endpoint))
      (Some dp) zero_peer_response s1 = (r2, s2)" by fastforce
  obtain resp where r2: "r2 = Inr resp"
    using assms by (cases r2) (simp_all add: createWGPeer_def check client 1 r1 2 Let_def)
  obtain priv s3 where 3: "seal_or_empty env (pr_PrivateKey resp) s2 = (priv, s3)" by fastforce
  obtain cf s4 where 4: "seal_or_empty env (pr_Config resp) s3 = (cf, s4)" by fastforce
  obtain rid s5 where 5: "randomHex env 12 s4 = (rid, s5)" by fastforce
  obtain now s6 where 6: "effect (ev_Now env) s5 = (now, s6)" by fastforce
  have p: "p = new_peer rid now userID i count client ?endpoint priv cf resp"
    and s': "s' = UpdateST (ev_save env) (\<lambda>st. st\<lparr>st_VPNPeers := st_VPNPeers st @ [p]\<rparr>) s6"
    using assms by (auto simp: createWGPeer_def check client 1 r1 2 r2 3 4 5 6 Let_def)
  have s6: "store_st s6 = ?st"
    using agentJSON_stD [OF 1] agentJSON_stD [OF 2] seal_or_empty_st [OF 3] seal_or_empty_st [OF 4]
      randomHex_stD [OF 5] effect_stD [OF 6] by simp
  have "store_st s' = ?st \<or> store_st s' = ?st\<lparr>st_VPNPeers := st_VPNPeers ?st @ [p]\<rparr>"
    using UpdateST_cases [of "ev_save env" "\<lambda>st. st\<lparr>st_VPNPeers := st_VPNPeers st @ [p]\<rparr>" s6]
    by (simp add: s' s6)
  with check client show ?thesis
    by (auto simp: peer_check_def p new_peer_def split: option.splits if_splits)
qed

section \<open>Properties\<close>

text \<open>
  C23: a peer is created only below the user's device limit, and its address lies in the server's
  network, is neither the network's own nor its broadcast address nor the server's, and differs from
  the address of every other peer of the node and interface; the rest of the state is untouched.
\<close>

theorem peer_address_fresh:
  assumes "createWGPeer env dm dp userID i s = (Inr (p, cfg), s')"
  shows "\<exists>serverIP network ip bits u. ParseCIDR (wc_ServerAddress i) = Some (serverIP, network) \<and>
           vp_Address p = ip_String ip @ ''/'' @ Itoa bits \<and> bits \<in> {32, 128} \<and>
           net_Contains network ip \<and> \<not> ip_Equal ip (net_IP network) \<and> \<not> isIPv4Broadcast ip network \<and>
           short_ip ip \<noteq> short_ip serverIP \<and>
           list_all (\<lambda>q. vp_NodeID q \<noteq> wc_NodeID i \<or> vp_Interface q \<noteq> wc_Interface i \<or>
                         map_option ip_String (peer_ip q) \<noteq> Some (ip_String ip)) (st_VPNPeers (store_st s)) \<and>
           findUser (store_st s) userID = Some u \<and>
           device_count (store_st s) userID < effectiveDeviceLimit (store_st s) u \<and>
           (store_st s' = store_st s \<or>
            store_st s' = (store_st s)\<lparr>st_VPNPeers := st_VPNPeers (store_st s) @ [p]\<rparr>)"
proof -
  let ?used = "used_addresses (store_st s) (wc_NodeID i) (wc_Interface i)"
  from createWGPeer_Inr [OF assms] obtain u where u: "findUser (store_st s) userID = Some u"
    "device_count (store_st s) userID < effectiveDeviceLimit (store_st s) u"
    "client_address i ?used = Inr (vp_Address p)"
    "store_st s' = store_st s \<or> store_st s' = (store_st s)\<lparr>st_VPNPeers := st_VPNPeers (store_st s) @ [p]\<rparr>"
    by blast
  from client_address_fresh [OF u(3), unfolded fresh_client_def wg_free_def]
  obtain serverIP network ip bits where a: "ParseCIDR (wc_ServerAddress i) = Some (serverIP, network)"
    "vp_Address p = ip_String ip @ ''/'' @ Itoa bits" "bits \<in> {32, 128}" "net_Contains network ip"
    "\<not> ip_Equal ip (net_IP network)" "\<not> isIPv4Broadcast ip network" "short_ip ip \<noteq> short_ip serverIP"
    "ip_String ip \<notin> set ?used" by blast
  have "list_all (\<lambda>q. vp_NodeID q \<noteq> wc_NodeID i \<or> vp_Interface q \<noteq> wc_Interface i \<or>
      map_option ip_String (peer_ip q) \<noteq> Some (ip_String ip)) (st_VPNPeers (store_st s))"
  proof (unfold list_all_iff, rule ballI, rule ccontr)
    fix q assume q: "q \<in> set (st_VPNPeers (store_st s))"
      "\<not> (vp_NodeID q \<noteq> wc_NodeID i \<or> vp_Interface q \<noteq> wc_Interface i \<or>
          map_option ip_String (peer_ip q) \<noteq> Some (ip_String ip))"
    then obtain ip' where "peer_ip q = Some ip'" "ip_String ip' = ip_String ip" by auto
    with q used_addresses_in [of q "store_st s" "wc_NodeID i" "wc_Interface i" ip'] a(8) show False by simp
  qed
  with a u show ?thesis by blast
qed

text \<open>A node that answers both calls, the second with the keys of the peer.\<close>

definition sample_peer_env :: "nat env" where
  "sample_peer_env = sample_env\<lparr>ev_http := (\<lambda>r w. (Inr (200, ''keys''), Suc w))\<rparr>"

definition sample_peer_create :: wgCreate where
  "sample_peer_create =
     \<lparr>wc_NodeID = ''n1'', wc_DeviceName = [], wc_Interface = ''gbwg0'', wc_ServerAddress = ''10.77.0.1/24'',
      wc_ClientAddress = [], wc_DNS = ''1.1.1.1'', wc_ListenPort = 51820\<rparr>"

definition sample_reply :: peerResponse where
  "sample_reply = \<lparr>pr_PrivateKey = ''k'', pr_PublicKey = ''K'', pr_ServerPublicKey = ''S'', pr_Config = ''c''\<rparr>"

definition sample_wg :: State where
  "sample_wg =
     emptyState\<lparr>st_Nodes := [sample_node], st_Users := [sample_user\<lparr>u_DeviceLimit := 2\<rparr>],
       st_VPNPeers := [sample_peer\<lparr>vp_NodeID := ''n1'', vp_Interface := ''gbwg0'', vp_Address := ''10.77.0.2/32''\<rparr>]\<rparr>"

theorem peer_address_fresh_witness:
  "case createWGPeer sample_peer_env (\<lambda>b. Inr JNull) (\<lambda>b. Inr sample_reply) ''u1'' sample_peer_create
          (sample_store sample_wg) of
     (Inl e, s') \<Rightarrow> False
   | (Inr (p, cfg), s') \<Rightarrow> vp_Address p = ''10.77.0.3/32'' \<and> findUser sample_wg ''u1'' \<noteq> None"
proof -
  let ?run = "createWGPeer sample_peer_env (\<lambda>b. Inr JNull) (\<lambda>b. Inr sample_reply) ''u1'' sample_peer_create
      (sample_store sample_wg)"
  have check: "peer_check sample_wg ''u1'' sample_peer_create = Inr (sample_node, 1, [''10.77.0.2''])"
    by code_simp
  have client: "client_address sample_peer_create [''10.77.0.2''] = Inr ''10.77.0.3/32''" by code_simp
  have answer: "agentJSON sample_peer_env sample_node m path b (Some (\<lambda>b. Inr x)) z s =
      (Inr x, s\<lparr>store_world := Suc (store_world s)\<rparr>)" for m path b z s and x :: 'x
    by (simp add: agentJSON_def sample_peer_env_def sample_env_def effect_def Let_def)
  have "case ?run of (Inl e, s') \<Rightarrow> False | (Inr (p, cfg), s') \<Rightarrow> vp_Address p = ''10.77.0.3/32''"
    by (simp add: createWGPeer_def sample_store_def check client answer Let_def new_peer_def split: prod.split)
  then obtain p cfg s' where run: "?run = (Inr (p, cfg), s')" and p: "vp_Address p = ''10.77.0.3/32''"
    by (auto split: prod.splits sum.splits)
  from peer_address_fresh [OF run] have "findUser sample_wg ''u1'' \<noteq> None"
    by (auto simp: sample_store_def)
  with p show ?thesis by (simp add: run)
qed

text \<open>
  The search starts at the server's own address and stops where it leaves the network, so the
  addresses below the server are never handed out: the subnet is reported exhausted with all of
  them free, while the same address is accepted when the client asks for it.
\<close>

lemma subnet_exhausted_below:
  "nextWGAddress ''10.77.0.254/24'' [] = Inl (Plain ''WireGuard subnet exhausted'')"
  "validateWGClientAddress ''10.77.0.254/24'' ''10.77.0.2/32'' [] = Inr ''10.77.0.2/32''"
  by code_simp+

end
