(* ===== verification/Accounts.thy ===== *)
theory Accounts
  imports Sessions WGPeers Xray
begin

text \<open>
  The users and the plans, src/internal/panel/server.go: handleUsers, handleUserItem, handlePlans and
  handlePlanItem. The callbacks of their store updates are functions on the state; a decoded body is
  an argument of the handler, one for each kind of body its path can have.
\<close>

datatype account_payload =
    UserList "(User \<times> UserEntitlements) list"
  | UserSaved "go_error + User \<times> UserEntitlements"
  | UserCreated User "go_error + User \<times> UserEntitlements"
  | EntitlementsView UserEntitlements
  | UserView User UserEntitlements "VPNPeer list" "InboundClient list"
  | WGAnswer wg_payload | PlanList "Plan list" | PlanSaved Plan | PlanView Plan nat | AccountOK

section \<open>Creating a user\<close>

definition plan_check :: "State \<Rightarrow> string \<Rightarrow> go_error option" where
  "plan_check st planID =
     (if planID = [] then None
      else case findPlan st planID of
             None \<Rightarrow> Some (Plain ''plan not found'')
           | Some p \<Rightarrow> if \<not> p_Enabled p then Some (Plain ''plan is disabled'') else None)"

text \<open>The callback; now1 and now2 are the instants maybeSetPlanExpiry reads.\<close>

definition create_user_update ::
  "time \<Rightarrow> time \<Rightarrow> time \<Rightarrow> User \<Rightarrow> State \<Rightarrow> go_error + User \<times> State" where
  "create_user_update now now1 now2 u st =
     (if list_ex (\<lambda>x. u_Username x = u_Username u) (st_Users st) then Inl (Plain ''username exists'')
      else case plan_check st (u_PlanID u) of
             Some e \<Rightarrow> Inl e
           | None \<Rightarrow>
               let u1 = maybeSetPlanExpiry st now1 now2 u;
                   (status, reason) = userLifecycleStatus st u1 now;
                   u2 = u1\<lparr>u_Status := status, u_StatusReason := reason\<rparr>
               in Inr (u2, st\<lparr>st_Users := st_Users st @ [u2]\<rparr>))"

definition user_input :: "User \<Rightarrow> User" where
  "user_input u =
     u\<lparr>u_Username := normalizeUsername (u_Username u), u_DisplayName := TrimSpace (u_DisplayName u),
       u_Email := TrimSpace (u_Email u)\<rparr>"

definition fresh_user :: "string \<Rightarrow> string \<Rightarrow> time \<Rightarrow> User \<Rightarrow> User" where
  "fresh_user rid token now u =
     u\<lparr>u_ID := rid, u_SubscriptionToken := token, u_Status := UserStatusActive, u_StatusReason := [],
       u_CreatedAt := now, u_UpdatedAt := now\<rparr>"

definition load_now :: "'w env \<Rightarrow> string \<Rightarrow> 'w Store \<Rightarrow> (go_error + User \<times> UserEntitlements) \<times> 'w Store" where
  "load_now env uid s = (case effect (ev_Now env) s of (now, s1) \<Rightarrow> (loadUserEntitlements now uid s1, s1))"

definition handleUsers ::
  "'w env \<Rightarrow> User request \<Rightarrow> 'w Store \<Rightarrow> account_payload response \<times> 'w Store" where
  "handleUsers env r s =
     (if rq_Method r = ''GET'' then
        (case effect (ev_Now env) s of (now, s1) \<Rightarrow>
           let st = cloneState (store_st s1)
           in (JsonWrite 200 (UserList (map (\<lambda>u. (u, userEntitlements st u now)) (st_Users st))), s1))
      else if rq_Method r = ''POST'' then
        (if requireRole r ''admin'' \<noteq> None then (JsonError 403 ''forbidden'', s)
         else (case rq_Body r of
           Inl e \<Rightarrow> (JsonError 400 (err_msg e), s)
         | Inr body \<Rightarrow>
             let u = user_input body in
             if u_Username u = [] then (JsonError 400 ''username required'', s)
             else
               (case effect (ev_Now env) s of (now, s1) \<Rightarrow>
               (case randomHex env 12 s1 of (rid, s2) \<Rightarrow>
               (case randomHex env 24 s2 of (token, s3) \<Rightarrow>
               (case effect (ev_Now env) s3 of (now1, s4) \<Rightarrow>
               (case effect (ev_Now env) s4 of (now2, s5) \<Rightarrow>
               (case Update (ev_save env) (create_user_update now now1 now2 (fresh_user rid token now u)) s5 of
                  (Inl e, s6) \<Rightarrow> (JsonError 409 (err_msg e), s6)
                | (Inr v, s6) \<Rightarrow>
                    (case load_now env (u_ID v) (audit_now env r ''create'' (''user:'' @ u_Username v) s6) of
                       (ent, s7) \<Rightarrow> (JsonWrite 201 (UserCreated v ent), s7))))))))))
      else (JsonError 405 ''method not allowed'', s))"

section \<open>Updating a user\<close>

record user_edit =
  ux_Username :: string
  ux_DisplayName :: string
  ux_Email :: string
  ux_PlanID :: string
  ux_Expires :: time
  ux_DataLimit :: int
  ux_Devices :: int
  ux_ResetDays :: int

definition edit_name :: "State \<Rightarrow> string \<Rightarrow> user_edit \<Rightarrow> User \<Rightarrow> go_error + User" where
  "edit_name st rid i u =
     (if TrimSpace (ux_Username i) = [] then Inr u
      else let name = normalizeUsername (ux_Username i) in
        if list_ex (\<lambda>x. u_ID x \<noteq> rid \<and> u_Username x = name) (st_Users st)
        then Inl (Plain ''username exists'') else Inr (u\<lparr>u_Username := name\<rparr>))"

definition edit_plan :: "State \<Rightarrow> user_edit \<Rightarrow> User \<Rightarrow> go_error + User" where
  "edit_plan st i u =
     (case plan_check st (ux_PlanID i) of
        Some e \<Rightarrow> Inl e
      | None \<Rightarrow> Inr (if ux_PlanID i = [] then u else u\<lparr>u_PlanID := ux_PlanID i\<rparr>))"

definition edit_fields :: "State \<Rightarrow> time \<Rightarrow> user_edit \<Rightarrow> User \<Rightarrow> User" where
  "edit_fields st now i u =
     (let u1 = u\<lparr>u_DisplayName := TrimSpace (ux_DisplayName i), u_Email := TrimSpace (ux_Email i),
                 u_ExpiresAt := ux_Expires i, u_DataLimitBytes := ux_DataLimit i,
                 u_DeviceLimit := ux_Devices i, u_ResetIntervalDays := ux_ResetDays i\<rparr>;
          days = effectiveResetIntervalDays st u1;
          u2 = (if IsZero (u_NextTrafficResetAt u1) \<and> days > 0
                then u1\<lparr>u_NextTrafficResetAt := now + days_duration days\<rparr> else u1);
          (status, reason) = userLifecycleStatus st u2 now;
          u3 = (if u_Status u2 \<noteq> UserStatusDisabled
                then u2\<lparr>u_Status := status, u_StatusReason := reason\<rparr> else u2)
      in u3\<lparr>u_UpdatedAt := now\<rparr>)"

text \<open>The callback captures the nodes that carry an inbound of the user.\<close>

definition update_user_update ::
  "time \<Rightarrow> string \<Rightarrow> user_edit \<Rightarrow> State \<Rightarrow> go_error + string list \<times> State" where
  "update_user_update now rid i st =
     (case findUser st rid of
        None \<Rightarrow> Inl (Plain ''user not found'')
      | Some u \<Rightarrow>
          (case edit_name st rid i u of
             Inl e \<Rightarrow> Inl e
           | Inr u1 \<Rightarrow>
               (case edit_plan st i u1 of
                  Inl e \<Rightarrow> Inl e
                | Inr u2 \<Rightarrow>
                    Inr (boundNodeIDs st rid, updUser rid (\<lambda>_. edit_fields st now i u2) st))))"

section \<open>Deleting a user\<close>

definition delete_user_update :: "string \<Rightarrow> State \<Rightarrow> go_error + State" where
  "delete_user_update rid st =
     (if findUser st rid = None then Inl (Plain ''user not found'')
      else Inr (st\<lparr>st_Users := deleteByID (st_Users st) rid u_ID,
                   st_VPNPeers := deleteUserVPNPeers (st_VPNPeers st) rid,
                   st_InboundClients := deleteUserInboundClients (st_InboundClients st) rid,
                   st_RoutingRules :=
                     map (\<lambda>q. q\<lparr>rr_UserIDs := deleteString (rr_UserIDs q) rid\<rparr>) (st_RoutingRules st)\<rparr>))"

text \<open>
  The peers and the nodes are those of the first read, which finds none when the user is missing; the
  peers are removed from their nodes before the state is written.
\<close>

definition user_peers :: "State \<Rightarrow> string \<Rightarrow> VPNPeer list" where
  "user_peers st rid = (if findUser st rid = None then [] else filter (\<lambda>p. vp_UserID p = rid) (st_VPNPeers st))"

definition user_nodes :: "State \<Rightarrow> string \<Rightarrow> string list" where
  "user_nodes st rid = (if findUser st rid = None then [] else boundNodeIDs st rid)"

definition remove_peers :: "'w env \<Rightarrow> VPNPeer list \<Rightarrow> 'w Store \<Rightarrow> 'w Store" where
  "remove_peers env ps s = fold (\<lambda>p s. snd (deleteRemotePeer env p s)) ps s"

definition deleteUser :: "'w env \<Rightarrow> 'b request \<Rightarrow> string \<Rightarrow> 'w Store \<Rightarrow> account_payload response \<times> 'w Store" where
  "deleteUser env r rid s =
     (let st = cloneState (store_st s);
          s1 = remove_peers env (user_peers st rid) s
      in (case UpdateE (ev_save env) (delete_user_update rid) s1 of
            (Some e, s2) \<Rightarrow> (JsonError 404 (err_msg e), s2)
          | (None, s2) \<Rightarrow>
              (JsonWrite 200 AccountOK,
               audit_now env r ''delete'' (''user:'' @ rid)
                 (deploy_all (deployXrayNode env) (user_nodes st rid) s2))))"

section \<open>The user item\<close>

record user_bodies =
  ub_Edit :: "go_error + user_edit"
  ub_Peer :: "go_error + wgCreate"
  ub_Action :: action_input

definition user_view :: "State \<Rightarrow> string \<Rightarrow> time \<Rightarrow> account_payload response" where
  "user_view st rid now =
     (case findUser st rid of
        None \<Rightarrow> JsonError 404 ''user not found''
      | Some u \<Rightarrow>
          JsonWrite 200 (UserView u (userEntitlements st u now)
            (filter (\<lambda>p. vp_UserID p = rid) (st_VPNPeers st))
            (filter (\<lambda>b. ic_UserID b = rid) (st_InboundClients st))))"

definition updateUser ::
  "'w env \<Rightarrow> 'b request \<Rightarrow> go_error + user_edit \<Rightarrow> string \<Rightarrow> 'w Store \<Rightarrow> account_payload response \<times> 'w Store" where
  "updateUser env r body rid s =
     (case body of
        Inl e \<Rightarrow> (JsonError 400 (err_msg e), s)
      | Inr i \<Rightarrow>
          (case effect (ev_Now env) s of (now, s1) \<Rightarrow>
          (case Update (ev_save env) (update_user_update now rid i) s1 of
             (Inl e, s2) \<Rightarrow> (JsonError 409 (err_msg e), s2)
           | (Inr nodes, s2) \<Rightarrow>
               (case load_now env rid
                       (audit_now env r ''update'' (''user:'' @ rid)
                          (deploy_all (deployXrayNode env) nodes s2)) of
                  (ent, s3) \<Rightarrow> (JsonWrite 200 (UserSaved ent), s3)))))"

definition handleUser ::
  "'w env \<Rightarrow> 'b request \<Rightarrow> user_bodies \<Rightarrow> string \<Rightarrow> 'w Store \<Rightarrow> account_payload response \<times> 'w Store" where
  "handleUser env r b rid s =
     (if rq_Method r = ''GET'' then
        (case effect (ev_Now env) s of (now, s1) \<Rightarrow> (user_view (cloneState (store_st s1)) rid now, s1))
      else if rq_Method r = ''PUT'' then
        (if requireRole r ''admin'' \<noteq> None then (JsonError 403 ''forbidden'', s)
         else updateUser env r (ub_Edit b) rid s)
      else if rq_Method r = ''DELETE'' then
        (if requireRole r ''admin'' \<noteq> None then (JsonError 403 ''forbidden'', s)
         else deleteUser env r rid s)
      else (JsonError 405 ''method not allowed'', s))"

text \<open>One action of subscriptions.go on a user, with its body already decoded.\<close>

definition draw_token :: "'w env \<Rightarrow> string \<Rightarrow> 'w Store \<Rightarrow> string \<times> 'w Store" where
  "draw_token env action s = (if action = ''regenerate-token'' then randomHex env 24 s else ([], s))"

definition handleUserSubscriptionAction ::
  "'w env \<Rightarrow> 'b request \<Rightarrow> action_input \<Rightarrow> string \<Rightarrow> string \<Rightarrow> 'w Store \<Rightarrow>
   account_payload response \<times> 'w Store" where
  "handleUserSubscriptionAction env r inp rid action s =
     (if requireRole r ''admin'' \<noteq> None then (JsonError 403 ''forbidden'', s)
      else if rq_Method r \<noteq> ''POST'' then (JsonError 405 ''method not allowed'', s)
      else
        (case effect (ev_Now env) s of (now, s1) \<Rightarrow>
        (case draw_token env action s1 of (token, s2) \<Rightarrow>
        (case Update (ev_save env) (userActionUpdate now rid action inp token) s2 of
           (Inl e, s3) \<Rightarrow> (JsonError 400 (err_msg e), s3)
         | (Inr nodes, s3) \<Rightarrow>
             (case load_now env rid
                     (audit_now env r action (''user:'' @ rid) (deploy_all (deployXrayNode env) nodes s3)) of
                (ent, s4) \<Rightarrow> (JsonWrite 200 (UserSaved ent), s4))))))"

definition handleUserItem ::
  "'w env \<Rightarrow> (string \<Rightarrow> go_error + json) \<Rightarrow> (string \<Rightarrow> go_error + peerResponse) \<Rightarrow> 'b request \<Rightarrow>
   user_bodies \<Rightarrow> string \<Rightarrow> 'w Store \<Rightarrow> account_payload response \<times> 'w Store" where
  "handleUserItem env decode_map decode_peer r b rest s =
     (let parts = SplitSlash (TrimSlash rest); rid = hd parts in
      if rid = [] then (JsonError 404 ''user not found'', s)
      else if length parts = 2 \<and> parts ! 1 = ''wireguard'' then
        (case handleUserWireGuard env decode_map decode_peer (with_body r (ub_Peer b)) rid s of
           (a, s1) \<Rightarrow> (map_response WGAnswer a, s1))
      else if length parts = 2 \<and>
              parts ! 1 \<in> {''enable'', ''disable'', ''reset-traffic'', ''renew'', ''regenerate-token'', ''apply-plan''} then
        handleUserSubscriptionAction env r (ub_Action b) rid (parts ! 1) s
      else if length parts = 2 \<and> parts ! 1 = ''entitlements'' then
        (if rq_Method r \<noteq> ''GET'' then (JsonError 405 ''method not allowed'', s)
         else (case load_now env rid s of
                 (Inl e, s1) \<Rightarrow> (JsonError 404 (err_msg e), s1)
               | (Inr (u, ent), s1) \<Rightarrow> (JsonWrite 200 (EntitlementsView ent), s1)))
      else if length parts \<noteq> 1 then (JsonError 404 ''not found'', s)
      else handleUser env r b rid s)"

section \<open>Plans\<close>

definition plan_input :: "Plan \<Rightarrow> go_error + Plan" where
  "plan_input p0 =
     (let p = p0\<lparr>p_Name := TrimSpace (p_Name p0)\<rparr> in
      if p_Name p = [] then Inl (Plain ''plan name required'')
      else if p_DataLimitBytes p < 0 \<or> p_DurationDays p < 0 \<or> p_ResetIntervalDays p < 0
        then Inl (Plain ''plan limits cannot be negative'')
      else Inr (if p_DeviceLimit p \<le> 0 then p\<lparr>p_DeviceLimit := 1\<rparr> else p))"

definition fresh_plan :: "string \<Rightarrow> time \<Rightarrow> Plan \<Rightarrow> Plan" where
  "fresh_plan rid now p = p\<lparr>p_ID := rid, p_Enabled := True, p_CreatedAt := now, p_UpdatedAt := now\<rparr>"

definition create_plan_update :: "Plan \<Rightarrow> State \<Rightarrow> go_error + State" where
  "create_plan_update p st =
     (if list_ex (\<lambda>x. EqualFold (p_Name x) (p_Name p)) (st_Plans st) then Inl (Plain ''plan name exists'')
      else Inr (st\<lparr>st_Plans := st_Plans st @ [p]\<rparr>))"

definition edit_plan_row :: "time \<Rightarrow> Plan \<Rightarrow> Plan \<Rightarrow> Plan" where
  "edit_plan_row now i p =
     p\<lparr>p_Name := p_Name i, p_DataLimitBytes := p_DataLimitBytes i, p_DurationDays := p_DurationDays i,
       p_DeviceLimit := p_DeviceLimit i, p_ResetIntervalDays := p_ResetIntervalDays i,
       p_Enabled := p_Enabled i, p_UpdatedAt := now\<rparr>"

definition update_plan_update :: "time \<Rightarrow> string \<Rightarrow> Plan \<Rightarrow> State \<Rightarrow> go_error + State" where
  "update_plan_update now rid i st =
     (if findPlan st rid = None then Inl (Plain ''plan not found'')
      else if list_ex (\<lambda>x. p_ID x \<noteq> rid \<and> EqualFold (p_Name x) (p_Name i)) (st_Plans st)
        then Inl (Plain ''plan name exists'')
      else Inr (updPlan rid (edit_plan_row now i) st))"

definition delete_plan_update :: "string \<Rightarrow> State \<Rightarrow> go_error + State" where
  "delete_plan_update rid st =
     (if findPlan st rid = None then Inl (Plain ''plan not found'')
      else if list_ex (\<lambda>u. u_PlanID u = rid) (st_Users st) then Inl (Plain ''plan is assigned to users'')
      else Inr (st\<lparr>st_Plans := deleteByID (st_Plans st) rid p_ID\<rparr>))"

definition handlePlans ::
  "'w env \<Rightarrow> Plan request \<Rightarrow> 'w Store \<Rightarrow> account_payload response \<times> 'w Store" where
  "handlePlans env r s =
     (if rq_Method r = ''GET'' then (JsonWrite 200 (PlanList (st_Plans (cloneState (store_st s)))), s)
      else if rq_Method r = ''POST'' then
        (if requireRole r ''admin'' \<noteq> None then (JsonError 403 ''forbidden'', s)
         else (case bind_sum (rq_Body r) plan_input of
           Inl e \<Rightarrow> (JsonError 400 (err_msg e), s)
         | Inr p \<Rightarrow>
             (case effect (ev_Now env) s of (now, s1) \<Rightarrow>
             (case randomHex env 12 s1 of (rid, s2) \<Rightarrow>
                let q = fresh_plan rid now p in
                (case UpdateE (ev_save env) (create_plan_update q) s2 of
                   (Some e, s3) \<Rightarrow> (JsonError 409 (err_msg e), s3)
                 | (None, s3) \<Rightarrow>
                     (JsonWrite 201 (PlanSaved q), audit_now env r ''create'' (''plan:'' @ p_Name q) s3))))))
      else (JsonError 405 ''method not allowed'', s))"

definition zero_plan :: Plan where
  "zero_plan =
     \<lparr>p_ID = [], p_Name = [], p_DataLimitBytes = 0, p_DurationDays = 0, p_DeviceLimit = 0,
      p_ResetIntervalDays = 0, p_Enabled = False, p_CreatedAt = 0, p_UpdatedAt = 0\<rparr>"

definition plan_view :: "State \<Rightarrow> string \<Rightarrow> account_payload response" where
  "plan_view st rid =
     (case findPlan st rid of
        None \<Rightarrow> JsonError 404 ''plan not found''
      | Some p \<Rightarrow> JsonWrite 200 (PlanView p (length (filter (\<lambda>u. u_PlanID u = rid) (st_Users st)))))"

definition plan_error :: "go_error \<Rightarrow> account_payload response" where
  "plan_error e = JsonError (if err_msg e = ''plan not found'' then 404 else 409) (err_msg e)"

text \<open>The instant of an update is drawn before the callback that uses it.\<close>

definition handlePlanItem ::
  "'w env \<Rightarrow> Plan request \<Rightarrow> string \<Rightarrow> 'w Store \<Rightarrow> account_payload response \<times> 'w Store" where
  "handlePlanItem env r rid s =
     (if requireRole r ''admin'' \<noteq> None then (JsonError 403 ''forbidden'', s)
      else if rq_Method r = ''GET'' then (plan_view (cloneState (store_st s)) rid, s)
      else if rq_Method r = ''PUT'' then
        (case bind_sum (rq_Body r) plan_input of
           Inl e \<Rightarrow> (JsonError 400 (err_msg e), s)
         | Inr i \<Rightarrow>
             (case effect (ev_Now env) s of (now, s1) \<Rightarrow>
             (case UpdateE (ev_save env) (update_plan_update now rid i) s1 of
                (Some e, s2) \<Rightarrow> (JsonError 409 (err_msg e), s2)
              | (None, s2) \<Rightarrow>
                  let s3 = audit_now env r ''update'' (''plan:'' @ rid) s2 in
                  (JsonWrite 200 (PlanSaved (case findPlan (cloneState (store_st s3)) rid of
                                               Some p \<Rightarrow> p | None \<Rightarrow> zero_plan)), s3))))
      else if rq_Method r = ''DELETE'' then
        (case UpdateE (ev_save env) (delete_plan_update rid) s of
           (Some e, s1) \<Rightarrow> (plan_error e, s1)
         | (None, s1) \<Rightarrow> (JsonWrite 200 AccountOK, audit_now env r ''delete'' (''plan:'' @ rid) s1))
      else (JsonError 405 ''method not allowed'', s))"

end
