(* ===== verification/Integrity.thy ===== *)
theory Integrity
  imports GroupTx Accounts
begin

text \<open>
  How the operations of RoutingTx, OutboundTx and GroupTx, and the deletion of a user, work together:
  the state machine whose steps are the committed writes of those operations (in any order, from any number of requests),
  and the references between the three tables that every reachable state keeps. The undo of a
  failed deployment is not a step: it is checked against nothing, and the last property shows what
  it does when another request came in between.
\<close>

section \<open>The references\<close>

definition outbound_serves :: "State \<Rightarrow> string \<Rightarrow> string \<Rightarrow> bool" where
  "outbound_serves st nodeID rid \<longleftrightarrow>
     (case findOutbound st rid of None \<Rightarrow> False | Some x \<Rightarrow> out_NodeID x = nodeID \<and> out_Enabled x)"

definition group_ok :: "State \<Rightarrow> OutboundGroup \<Rightarrow> bool" where
  "group_ok st g \<longleftrightarrow>
     list_all (\<lambda>m. outbound_serves st (og_NodeID g) (ogm_OutboundID m)) (og_Members g) \<and>
     (og_FallbackOutboundID g \<in> {''direct'', ''blocked''} \<or>
      outbound_serves st (og_NodeID g) (og_FallbackOutboundID g))"

definition rule_ok :: "State \<Rightarrow> RoutingRule \<Rightarrow> bool" where
  "rule_ok st r \<longleftrightarrow>
     (if rr_OutboundGroupID r \<noteq> [] then
        (case findOutboundGroup st (rr_OutboundGroupID r) of
           None \<Rightarrow> False
         | Some g \<Rightarrow> og_NodeID g = rr_NodeID r \<and> (rr_Enabled r \<longrightarrow> og_Enabled g))
      else rr_OutboundID r \<in> {''direct'', ''blocked''} \<or> findOutbound st (rr_OutboundID r) \<noteq> None)"

definition same_slot :: "Outbound \<Rightarrow> Outbound \<Rightarrow> bool" where
  "same_slot x y \<longleftrightarrow>
     out_NodeID x = out_NodeID y \<and> EqualFold (TrimSpace (out_Tag x)) (TrimSpace (out_Tag y))"

definition tags_unique :: "Outbound list \<Rightarrow> bool" where
  "tags_unique xs \<longleftrightarrow> (\<forall>x \<in> set xs. \<forall>y \<in> set xs. same_slot x y \<longrightarrow> out_ID x = out_ID y)"

definition ids_ok :: "State \<Rightarrow> bool" where
  "ids_ok st \<longleftrightarrow>
     distinct (map out_ID (st_Outbounds st)) \<and> [] \<notin> out_ID ` set (st_Outbounds st) \<and>
     distinct (map og_ID (st_OutboundGroups st)) \<and>
     distinct (map rr_ID (st_RoutingRules st))"

definition integrity :: "State \<Rightarrow> bool" where
  "integrity st \<longleftrightarrow>
     ids_ok st \<and> tags_unique (st_Outbounds st) \<and>
     list_all (group_ok st) (st_OutboundGroups st) \<and>
     list_all (rule_ok st) (st_RoutingRules st)"

lemma same_slot_sym: "same_slot x y \<longleftrightarrow> same_slot y x"
  by (auto simp: same_slot_def EqualFold_sym)

lemma tags_unique_insert:
  assumes "tags_unique xs" "\<And>y. y \<in> set zs \<Longrightarrow> y = x \<or> y \<in> set xs \<and> \<not> same_slot y x"
  shows "tags_unique zs"
  using assms same_slot_sym unfolding tags_unique_def by metis

section \<open>The steps\<close>

text \<open>
  New rows carry fresh random IDs. Any operation that leaves the three tables alone (deployments,
  accounting, the handlers of users and nodes) is a step, and so is the result of a health probe.
\<close>

inductive panel_step :: "State \<Rightarrow> State \<Rightarrow> bool" where
  outbound_created: "create_outbound_update x st = Inr st' \<Longrightarrow> out_ID x \<noteq> [] \<Longrightarrow>
    out_ID x \<notin> out_ID ` set (st_Outbounds st) \<Longrightarrow> panel_step st st'"
| outbound_updated: "update_outbound_update now rid i enc st = Inr (v, st') \<Longrightarrow> panel_step st st'"
| outbound_set: "set_outbound_update now rid enabled st = Inr (b, st') \<Longrightarrow> panel_step st st'"
| outbound_deleted: "delete_outbound_update rid st = Inr (w, st') \<Longrightarrow> panel_step st st'"
| outbound_probed: "store_health now rid res st = Inr (out, st') \<Longrightarrow> panel_step st st'"
| group_created: "create_group_update g st = Inr st' \<Longrightarrow>
    og_ID g \<notin> og_ID ` set (st_OutboundGroups st) \<Longrightarrow> panel_step st st'"
| group_updated: "update_group_update now rid g st = Inr (gv, st') \<Longrightarrow> panel_step st st'"
| group_deleted: "delete_group_update rid st = Inr (gw, st') \<Longrightarrow> panel_step st st'"
| rule_created: "create_rule_update r st = Inr st' \<Longrightarrow>
    rr_ID r \<notin> rr_ID ` set (st_RoutingRules st) \<Longrightarrow> panel_step st st'"
| rule_updated: "update_rule_update now rid r st = Inr (rv, st') \<Longrightarrow> panel_step st st'"
| rule_deleted: "delete_rule_update rid st = Inr (rw, st') \<Longrightarrow> panel_step st st'"
| user_removed: "delete_user_update rid st = Inr st' \<Longrightarrow> panel_step st st'"
| elsewhere: "st_Outbounds st' = st_Outbounds st \<Longrightarrow> st_OutboundGroups st' = st_OutboundGroups st \<Longrightarrow>
    st_RoutingRules st' = st_RoutingRules st \<Longrightarrow> panel_step st st'"

section \<open>Frames\<close>

text \<open>What a reference sees of a state are the rows it names.\<close>

lemma find_append_new:
  "find_row key (xs @ [x]) rid =
   (case find_row key xs rid of Some y \<Rightarrow> Some y | None \<Rightarrow> if key x = rid then Some x else None)"
  by (induction xs) (auto simp: find_row_def)

lemma outbound_serves_cong:
  "findOutbound st' rid = findOutbound st rid \<Longrightarrow> outbound_serves st' n rid = outbound_serves st n rid"
  by (simp add: outbound_serves_def)

lemma group_ok_mono:
  assumes "group_ok st g"
    and "\<And>rid. group_references g rid \<Longrightarrow> outbound_serves st (og_NodeID g) rid \<Longrightarrow>
           outbound_serves st' (og_NodeID g) rid"
  shows "group_ok st' g"
  using assms by (auto simp: group_ok_def group_references_def list_all_iff list_ex_iff)

lemma rule_ok_mono:
  assumes "rule_ok st r"
    and "rr_OutboundID r \<notin> {''direct'', ''blocked''} \<Longrightarrow> findOutbound st (rr_OutboundID r) \<noteq> None \<Longrightarrow>
           findOutbound st' (rr_OutboundID r) \<noteq> None"
    and "\<And>g. findOutboundGroup st (rr_OutboundGroupID r) = Some g \<Longrightarrow> rr_OutboundGroupID r \<noteq> [] \<Longrightarrow>
           \<exists>g'. findOutboundGroup st' (rr_OutboundGroupID r) = Some g' \<and> og_NodeID g' = og_NodeID g \<and>
                (rr_Enabled r \<and> og_Enabled g \<longrightarrow> og_Enabled g')"
  shows "rule_ok st' r"
  using assms by (fastforce simp: rule_ok_def split: option.splits if_splits)

lemma integrity_cong:
  assumes "st_Outbounds st' = st_Outbounds st" "st_OutboundGroups st' = st_OutboundGroups st"
    "st_RoutingRules st' = st_RoutingRules st"
  shows "integrity st' = integrity st"
  using assms
  by (simp add: integrity_def ids_ok_def group_ok_def [abs_def] rule_ok_def [abs_def]
      outbound_serves_def findOutbound_def findOutboundGroup_def)

text \<open>A group the checks accept, and a rule the checks accept, are in order.\<close>

lemma spec_group_ok: "validateOutboundGroupSpec st g = None \<Longrightarrow> group_ok st g"
  by (auto simp: validateOutboundGroupSpec_def group_ok_def outbound_serves_def list_all_iff
      validateMembers_None validateFallback_def split: option.splits if_splits)

lemma valid_rule_ok: "validateRoutingReferences st r = None \<Longrightarrow> rule_ok st r"
  unfolding validateRoutingReferences_None by (auto simp: rule_ok_def)

lemma target_spec_clash:
  assumes "validateOutboundTargetSpec st rid name n tag = None" "x \<in> set (st_Outbounds st)"
    "out_ID x \<noteq> rid" "out_NodeID x = n"
  shows "\<not> EqualFold (TrimSpace (out_Tag x)) (TrimSpace tag)"
  using assms
  by (auto simp: validateOutboundTargetSpec_def Let_def clashing_outbound_None
      split: option.splits if_splits)

section \<open>Writes to the outbounds\<close>

lemma set_upd_row:
  assumes "distinct (map key xs)" "find_row key xs rid = Some x"
  shows "set (upd_row key rid f xs) = insert (f x) {y \<in> set xs. key y \<noteq> rid}"
  using assms by (induction xs) (auto simp: find_row_def upd_row_def image_iff split: if_splits)

lemma outbounds_changed:
  assumes "integrity st" and st': "st' = st_Outbounds_update f st"
    and ids: "distinct (map out_ID (st_Outbounds st'))" "[] \<notin> out_ID ` set (st_Outbounds st')"
    and tags: "tags_unique (st_Outbounds st')"
    and serves: "\<And>g rid. g \<in> set (st_OutboundGroups st) \<Longrightarrow> group_references g rid \<Longrightarrow>
      outbound_serves st (og_NodeID g) rid \<Longrightarrow> outbound_serves st' (og_NodeID g) rid"
    and kept: "\<And>r. r \<in> set (st_RoutingRules st) \<Longrightarrow> findOutbound st (rr_OutboundID r) \<noteq> None \<Longrightarrow>
      findOutbound st' (rr_OutboundID r) \<noteq> None"
  shows "integrity st'"
proof -
  have other: "st_OutboundGroups st' = st_OutboundGroups st" "st_RoutingRules st' = st_RoutingRules st"
    by (simp_all add: st')
  have "group_ok st' g" if "g \<in> set (st_OutboundGroups st)" for g
    using group_ok_mono [of st g st'] serves [OF that] that assms(1) by (simp add: integrity_def list_all_iff)
  moreover have "rule_ok st' r" if "r \<in> set (st_RoutingRules st)" for r
  proof (rule rule_ok_mono [of st])
    show "rule_ok st r" using that assms(1) by (simp add: integrity_def list_all_iff)
  qed (use kept [OF that] in \<open>auto simp: findOutboundGroup_def other\<close>)
  ultimately show ?thesis
    using assms(1) ids tags by (simp add: integrity_def ids_ok_def list_all_iff other)
qed

lemma outbound_row_changed:
  assumes int: "integrity st" and st': "st' = st_Outbounds_update (upd_row out_ID rid h) st"
    and x: "findOutbound st rid = Some x" and h: "\<And>y. out_ID (h y) = out_ID y"
    and slot: "\<And>y. y \<in> set (st_Outbounds st) \<Longrightarrow> out_ID y \<noteq> rid \<Longrightarrow> \<not> same_slot y (h x)"
    and refs: "\<And>g. g \<in> set (st_OutboundGroups st) \<Longrightarrow> group_references g rid \<Longrightarrow>
      outbound_serves st (og_NodeID g) rid \<Longrightarrow> out_NodeID (h x) = og_NodeID g \<and> out_Enabled (h x)"
  shows "integrity st'"
proof -
  have ids: "distinct (map out_ID (st_Outbounds st))" "[] \<notin> out_ID ` set (st_Outbounds st)"
    and tags: "tags_unique (st_Outbounds st)"
    using int by (simp_all add: integrity_def ids_ok_def)
  have keys: "map out_ID (st_Outbounds st') = map out_ID (st_Outbounds st)"
    unfolding st' by (simp add: keys_upd_row h)
  have keyset: "out_ID ` set (st_Outbounds st') = out_ID ` set (st_Outbounds st)"
    using keys by (metis list.set_map)
  note rows = set_upd_row [OF ids(1) x [unfolded findOutbound_def], of h]
  have find: "findOutbound st' rid' = (if rid' = rid then Some (h x) else findOutbound st rid')" for rid'
    using x by (simp add: st' findOutbound_def find_row_upd find_row_upd_other h)
  show ?thesis
  proof (rule outbounds_changed [OF int st'])
    show "distinct (map out_ID (st_Outbounds st'))" "[] \<notin> out_ID ` set (st_Outbounds st')"
      using ids by (simp_all add: keys keyset)
    show "tags_unique (st_Outbounds st')"
      by (rule tags_unique_insert [OF tags, of _ "h x"]) (use slot in \<open>auto simp: st' rows\<close>)
    show "outbound_serves st' (og_NodeID g) rid'"
      if "g \<in> set (st_OutboundGroups st)" "group_references g rid'" "outbound_serves st (og_NodeID g) rid'"
      for g rid'
      using refs that by (cases "rid' = rid") (auto simp: outbound_serves_def find)
    show "findOutbound st' (rr_OutboundID r) \<noteq> None"
      if "findOutbound st (rr_OutboundID r) \<noteq> None" for r
      using that by (simp add: find)
  qed
qed

lemma same_slot_unique:
  assumes "integrity st" "findOutbound st rid = Some x" "y \<in> set (st_Outbounds st)" "out_ID y \<noteq> rid"
    "out_NodeID z = out_NodeID x" "out_Tag z = out_Tag x"
  shows "\<not> same_slot y z"
proof -
  have "x \<in> set (st_Outbounds st)" "out_ID x = rid"
    using find_row_Some [OF assms(2) [unfolded findOutbound_def]] by simp_all
  then show ?thesis using assms unfolding integrity_def tags_unique_def same_slot_def by metis
qed

lemma outbound_created_ok:
  assumes int: "integrity st" and c: "create_outbound_update x st = Inr st'"
    and new: "out_ID x \<noteq> []" "out_ID x \<notin> out_ID ` set (st_Outbounds st)"
  shows "integrity st'"
proof -
  note u = c [unfolded create_outbound_update_Inr]
  have ids: "distinct (map out_ID (st_Outbounds st))" "[] \<notin> out_ID ` set (st_Outbounds st)"
    and tags: "tags_unique (st_Outbounds st)"
    using int by (simp_all add: integrity_def ids_ok_def)
  have find: "findOutbound st rid = Some y \<Longrightarrow> findOutbound st' rid = Some y" for rid y
    using u by (auto simp: findOutbound_def find_append_new)
  show ?thesis
  proof (rule outbounds_changed [OF int conjunct2 [OF u]])
    show "distinct (map out_ID (st_Outbounds st'))" "[] \<notin> out_ID ` set (st_Outbounds st')"
      using ids new u by auto
    have "\<not> same_slot y x" if y: "y \<in> set (st_Outbounds st)" for y
    proof -
      have "out_ID y \<noteq> []" using y ids(2) by force
      from target_spec_clash [OF conjunct1 [OF u] y this] show ?thesis by (auto simp: same_slot_def)
    qed
    then show "tags_unique (st_Outbounds st')"
      by (intro tags_unique_insert [OF tags, of _ x]) (use u in auto)
    show "outbound_serves st' (og_NodeID g) rid" if "outbound_serves st (og_NodeID g) rid" for g rid
      using that find by (auto simp: outbound_serves_def split: option.splits)
    show "findOutbound st' (rr_OutboundID r) \<noteq> None"
      if "findOutbound st (rr_OutboundID r) \<noteq> None" for r
      using that find by auto
  qed
qed

lemma outbound_updated_ok:
  assumes int: "integrity st" and c: "update_outbound_update now rid i enc st = Inr (v, st')"
  shows "integrity st'"
proof -
  note u = update_outbound_update_Inr [OF c]
  let ?h = "apply_outbound_input now enc i"
  have x: "findOutbound st rid = Some (fst v)" and st': "st' = st_Outbounds_update (upd_row out_ID rid ?h) st"
    using u by blast+
  show ?thesis
  proof (rule outbound_row_changed [OF int st' x])
    show "\<not> same_slot y (?h (fst v))" if "y \<in> set (st_Outbounds st)" "out_ID y \<noteq> rid" for y
      using target_spec_clash [of st rid "oi_Name i" "oi_NodeID i" "oi_Tag i" y] u that
      by (auto simp: same_slot_def apply_outbound_input_def)
    show "out_NodeID (?h (fst v)) = og_NodeID g \<and> out_Enabled (?h (fst v))"
      if "g \<in> set (st_OutboundGroups st)" "group_references g rid" for g
      using u that
      by (auto simp: validateOutboundGroupReferencesForChange_def groupRefs_None apply_outbound_input_def)
  qed simp
qed

lemma outbound_set_ok:
  assumes int: "integrity st" and c: "set_outbound_update now rid enabled st = Inr (b, st')"
  shows "integrity st'"
proof -
  from set_outbound_update_Inr [OF c] obtain x where x: "findOutbound st rid = Some x"
    and off: "\<not> enabled \<longrightarrow> validateOutboundGroupReferencesForChange st rid (out_NodeID x) False = None"
    and st': "st' = st_Outbounds_update
      (upd_row out_ID rid (\<lambda>x. x\<lparr>out_Enabled := enabled, out_UpdatedAt := now\<rparr>)) st"
    by blast
  show ?thesis
  proof (rule outbound_row_changed [OF int st' x])
    show "out_NodeID (x\<lparr>out_Enabled := enabled, out_UpdatedAt := now\<rparr>) = og_NodeID g \<and>
          out_Enabled (x\<lparr>out_Enabled := enabled, out_UpdatedAt := now\<rparr>)"
      if "g \<in> set (st_OutboundGroups st)" "group_references g rid" "outbound_serves st (og_NodeID g) rid" for g
      using off that x by (cases enabled) (auto simp: group_refs_gone outbound_serves_def)
  qed (use same_slot_unique [OF int x] in simp_all)
qed

lemma outbound_probed_ok:
  assumes int: "integrity st" and c: "store_health now rid res st = Inr (out, st')"
  shows "integrity st'"
proof -
  from c obtain x where x: "findOutbound st rid = Some x"
    and st': "st' = st_Outbounds_update (upd_row out_ID rid (applyOutboundHealthResult now res)) st"
    by (auto simp: store_health_def updOutbound_eq split: option.splits)
  have same: "out_ID (applyOutboundHealthResult now res y) = out_ID y"
    "out_NodeID (applyOutboundHealthResult now res y) = out_NodeID y"
    "out_Tag (applyOutboundHealthResult now res y) = out_Tag y"
    "out_Enabled (applyOutboundHealthResult now res y) = out_Enabled y" for y
    by (simp_all add: applyOutboundHealthResult_def Let_def)
  show ?thesis
    by (rule outbound_row_changed [OF int st' x])
      (use same_slot_unique [OF int x] x in \<open>auto simp: same outbound_serves_def\<close>)
qed

section \<open>Writes to the groups and the rules\<close>

lemma groups_changed:
  assumes "integrity st" and st': "st' = st_OutboundGroups_update f st"
    and ids: "distinct (map og_ID (st_OutboundGroups st'))"
    and oks: "\<And>g. g \<in> set (st_OutboundGroups st') \<Longrightarrow> g \<in> set (st_OutboundGroups st) \<or> group_ok st g"
    and kept: "\<And>r g. r \<in> set (st_RoutingRules st) \<Longrightarrow>
      findOutboundGroup st (rr_OutboundGroupID r) = Some g \<Longrightarrow> \<exists>g'.
        findOutboundGroup st' (rr_OutboundGroupID r) = Some g' \<and> og_NodeID g' = og_NodeID g \<and>
        (rr_Enabled r \<and> og_Enabled g \<longrightarrow> og_Enabled g')"
  shows "integrity st'"
proof -
  have other: "st_Outbounds st' = st_Outbounds st" "st_RoutingRules st' = st_RoutingRules st"
    by (simp_all add: st')
  then have same: "group_ok st' g = group_ok st g" for g
    by (simp add: group_ok_def outbound_serves_def findOutbound_def)
  have "rule_ok st' r" if "r \<in> set (st_RoutingRules st)" for r
  proof (rule rule_ok_mono [of st])
    show "rule_ok st r" using that assms(1) by (simp add: integrity_def list_all_iff)
  qed (use kept [OF that] in \<open>auto simp: findOutbound_def other\<close>)
  moreover have "group_ok st' g" if "g \<in> set (st_OutboundGroups st')" for g
    using oks [OF that] assms(1) by (auto simp: same integrity_def list_all_iff)
  ultimately show ?thesis
    using assms(1) ids by (simp add: integrity_def ids_ok_def list_all_iff other)
qed

lemma group_created_ok:
  assumes int: "integrity st" and c: "create_group_update g st = Inr st'"
    and new: "og_ID g \<notin> og_ID ` set (st_OutboundGroups st)"
  shows "integrity st'"
proof -
  note u = c [unfolded create_group_update_Inr]
  show ?thesis
  proof (rule groups_changed [OF int conjunct2 [OF u]])
    show "distinct (map og_ID (st_OutboundGroups st'))"
      using int new u by (simp add: integrity_def ids_ok_def)
    show "\<exists>g'. findOutboundGroup st' (rr_OutboundGroupID r) = Some g' \<and> og_NodeID g' = og_NodeID y \<and>
        (rr_Enabled r \<and> og_Enabled y \<longrightarrow> og_Enabled g')"
      if "findOutboundGroup st (rr_OutboundGroupID r) = Some y" for r y
      using that u by (auto simp: findOutboundGroup_def find_append_new)
  qed (use u spec_group_ok in auto)
qed

lemma group_updated_ok:
  assumes int: "integrity st" and c: "update_group_update now rid g0 st = Inr (v, st')"
  shows "integrity st'"
proof -
  note u = update_group_update_Inr [OF c]
  obtain g where old: "findOutboundGroup st rid = Some (fst v)"
    and st': "st' = st_OutboundGroups_update (upd_row og_ID rid (\<lambda>_. g)) st"
    and g: "og_ID g = rid" "og_NodeID g = og_NodeID g0" "og_Enabled g = og_Enabled g0"
    and spec: "validateOutboundGroupSpec st g = None"
    using u by auto
  have ids: "distinct (map og_ID (st_OutboundGroups st))" using int by (simp add: integrity_def ids_ok_def)
  note rows = set_upd_row [OF ids old [unfolded findOutboundGroup_def], of "\<lambda>_. g"]
  show ?thesis
  proof (rule groups_changed [OF int st'])
    show "distinct (map og_ID (st_OutboundGroups st'))"
      using ids g(1) by (simp add: st' keys_upd_row)
    show "y \<in> set (st_OutboundGroups st) \<or> group_ok st y" if "y \<in> set (st_OutboundGroups st')" for y
      using that spec_group_ok [OF spec] by (auto simp: st' rows)
    show "\<exists>g'. findOutboundGroup st' (rr_OutboundGroupID r) = Some g' \<and> og_NodeID g' = og_NodeID y \<and>
        (rr_Enabled r \<and> og_Enabled y \<longrightarrow> og_Enabled g')"
      if r: "r \<in> set (st_RoutingRules st)" "findOutboundGroup st (rr_OutboundGroupID r) = Some y" for r y
    proof (cases "rr_OutboundGroupID r = rid")
      case True
      with old r(2) have "y = fst v" by simp
      moreover have "findOutboundGroup st' rid = Some g"
        using old g(1) by (simp add: st' findOutboundGroup_def find_row_upd)
      ultimately show ?thesis
        using u r(1) True g by (auto simp: groupReferenced_iff)
    next
      case False
      with r(2) g(1) show ?thesis by (simp add: st' findOutboundGroup_def find_row_upd_other)
    qed
  qed
qed

lemma group_deleted_ok:
  assumes int: "integrity st" and c: "delete_group_update rid st = Inr (w, st')"
  shows "integrity st'"
proof -
  note u = delete_group_update_Inr [OF c]
  have st': "st' = st_OutboundGroups_update (\<lambda>xs. deleteByID xs rid og_ID) st" using u by blast
  show ?thesis
  proof (rule groups_changed [OF int st'])
    show "distinct (map og_ID (st_OutboundGroups st'))"
      using int by (simp add: st' distinct_delete integrity_def ids_ok_def)
    show "\<exists>g'. findOutboundGroup st' (rr_OutboundGroupID r) = Some g' \<and> og_NodeID g' = og_NodeID y \<and>
        (rr_Enabled r \<and> og_Enabled y \<longrightarrow> og_Enabled g')"
      if r: "r \<in> set (st_RoutingRules st)" "findOutboundGroup st (rr_OutboundGroupID r) = Some y" for r y
      using u r by (auto simp: groupReferenced_iff st' findOutboundGroup_def find_delete_other)
  qed (auto simp: st' deleteByID_def)
qed

lemma outbound_deleted_ok:
  assumes int: "integrity st" and c: "delete_outbound_update rid st = Inr (w, st')"
  shows "integrity st'"
proof -
  note u = delete_outbound_update_Inr [OF c]
  have st': "st' = st_Outbounds_update (\<lambda>xs. deleteByID xs rid out_ID) st" using u by blast
  have find: "rid' \<noteq> rid \<Longrightarrow> findOutbound st' rid' = findOutbound st rid'" for rid'
    by (simp add: st' findOutbound_def find_delete_other)
  show ?thesis
  proof (rule outbounds_changed [OF int st'])
    show "distinct (map out_ID (st_Outbounds st'))"
      using int by (simp add: st' distinct_delete integrity_def ids_ok_def)
    show "[] \<notin> out_ID ` set (st_Outbounds st')" "tags_unique (st_Outbounds st')"
      using int by (auto simp: st' deleteByID_def integrity_def ids_ok_def tags_unique_def)
    show "outbound_serves st' (og_NodeID g) rid'"
      if "g \<in> set (st_OutboundGroups st)" "group_references g rid'" "outbound_serves st (og_NodeID g) rid'"
      for g rid'
      using u that find [of rid'] by (cases "rid' = rid") (auto simp: group_refs_gone outbound_serves_def)
    show "findOutbound st' (rr_OutboundID r) \<noteq> None"
      if "r \<in> set (st_RoutingRules st)" "findOutbound st (rr_OutboundID r) \<noteq> None" for r
      using u that find [of "rr_OutboundID r"] by (metis imageI)
  qed
qed

lemma rules_changed:
  assumes "integrity st" and st': "st' = st_RoutingRules_update f st"
    and ids: "distinct (map rr_ID (st_RoutingRules st'))"
    and oks: "\<And>r. r \<in> set (st_RoutingRules st') \<Longrightarrow>
      r \<in> set (st_RoutingRules st) \<or> validateRoutingReferences st r = None"
  shows "integrity st'"
proof -
  have other: "st_Outbounds st' = st_Outbounds st" "st_OutboundGroups st' = st_OutboundGroups st"
    by (simp_all add: st')
  then have same: "rule_ok st' r = rule_ok st r" "group_ok st' g = group_ok st g" for r g
    by (simp_all add: rule_ok_def group_ok_def outbound_serves_def findOutbound_def findOutboundGroup_def)
  have "rule_ok st' r" if "r \<in> set (st_RoutingRules st')" for r
    using oks [OF that] valid_rule_ok assms(1) by (auto simp: same integrity_def list_all_iff)
  then show ?thesis
    using assms(1) ids by (simp add: integrity_def ids_ok_def list_all_iff same other)
qed

lemma rule_updated_ok:
  assumes int: "integrity st" and c: "update_rule_update now rid r0 st = Inr (v, st')"
  shows "integrity st'"
proof -
  from update_rule_update_Inr [OF c] obtain r where old: "findRoutingRule st rid = Some (fst v)"
    and r: "rr_ID r = rid" "validateRoutingReferences st r = None"
    and st': "st' = st_RoutingRules_update (upd_row rr_ID rid (\<lambda>_. r)) st" by blast
  have ids: "distinct (map rr_ID (st_RoutingRules st))" using int by (simp add: integrity_def ids_ok_def)
  show ?thesis
    by (rule rules_changed [OF int st'])
      (use ids r set_upd_row [OF ids old [unfolded findRoutingRule_def], of "\<lambda>_. r"]
       in \<open>auto simp: st' keys_upd_row\<close>)
qed

section \<open>Properties\<close>

text \<open>The deletion of a user takes it out of the rules, and no reference reads the users of a rule.\<close>

lemma user_deletion_writes:
  assumes "delete_user_update rid st = Inr st'"
  shows "st_Outbounds st' = st_Outbounds st" "st_OutboundGroups st' = st_OutboundGroups st"
    "st_Inbounds st' = st_Inbounds st"
    "st_RoutingRules st' =
       map (\<lambda>q. q\<lparr>rr_UserIDs := deleteString (rr_UserIDs q) rid\<rparr>) (st_RoutingRules st)"
  using assms by (auto simp: delete_user_update_def split: if_splits)

lemma rule_ok_users: "rule_ok st (r\<lparr>rr_UserIDs := us\<rparr>) = rule_ok st r"
  by (simp add: rule_ok_def split: option.split)

lemma user_removed_ok:
  assumes int: "integrity st" and d: "delete_user_update rid st = Inr st'"
  shows "integrity st'"
proof -
  note w = user_deletion_writes [OF d]
  have "group_ok st' g = group_ok st g" "rule_ok st' r = rule_ok st r" for g r
    by (simp_all add: group_ok_def rule_ok_def outbound_serves_def findOutbound_def findOutboundGroup_def w)
  then show ?thesis
    using int by (simp add: integrity_def ids_ok_def list_all_iff comp_def rule_ok_users w)
qed

lemma panel_step_integrity: "panel_step st st' \<Longrightarrow> integrity st \<Longrightarrow> integrity st'"
proof (induction rule: panel_step.induct)
  case (rule_created r st st')
  note u = rule_created(1) [unfolded create_rule_update_Inr]
  show ?case
    by (rule rules_changed [OF rule_created(3) conjunct2 [OF u]])
      (use u rule_created(2,3) in \<open>auto simp: integrity_def ids_ok_def\<close>)
next
  case (rule_deleted rid st rw st')
  have st': "st' = st_RoutingRules_update (\<lambda>xs. deleteByID xs rid rr_ID) st"
    using delete_rule_update_Inr [OF rule_deleted(1)] by blast
  show ?case
  proof (rule rules_changed [OF rule_deleted(2) st'])
    show "distinct (map rr_ID (st_RoutingRules st'))"
      using rule_deleted(2) by (simp add: st' distinct_delete integrity_def ids_ok_def)
  qed (auto simp: st' deleteByID_def)
next
  case (elsewhere st' st)
  from integrity_cong [OF elsewhere(1,2,3)] elsewhere(4) show ?case by simp
next
  case (outbound_created x st st')
  from outbound_created(4,1,2,3) show ?case by (rule outbound_created_ok)
next
  case (group_created g st st')
  from group_created(3,1,2) show ?case by (rule group_created_ok)
next
  case user_removed
  from user_removed(2,1) show ?case by (rule user_removed_ok)
next
  case outbound_updated
  from outbound_updated(2,1) show ?case by (rule outbound_updated_ok)
next
  case outbound_set
  from outbound_set(2,1) show ?case by (rule outbound_set_ok)
next
  case outbound_deleted
  from outbound_deleted(2,1) show ?case by (rule outbound_deleted_ok)
next
  case outbound_probed
  from outbound_probed(2,1) show ?case by (rule outbound_probed_ok)
next
  case group_updated
  from group_updated(2,1) show ?case by (rule group_updated_ok)
next
  case group_deleted
  from group_deleted(2,1) show ?case by (rule group_deleted_ok)
next
  case rule_updated
  from rule_updated(2,1) show ?case by (rule rule_updated_ok)
qed

lemma reached_integrity: "panel_step\<^sup>*\<^sup>* emptyState st \<Longrightarrow> integrity st"
proof (induction rule: rtranclp_induct)
  case base
  show ?case by (simp add: integrity_def ids_ok_def tags_unique_def emptyState_def)
next
  case (step st st')
  then show ?case using panel_step_integrity by blast
qed

text \<open>
  C3: whatever sequence of requests is committed, in every state reached from the empty one the
  references between the tables are intact: the members and the fallback of every group are enabled
  outbounds of the group's node, every rule that names a group names an existing one on its own
  node, enabled if the rule is, every rule that names an outbound names an existing one, and no two
  outbounds of a node share a tag.
\<close>

theorem reachable_integrity:
  assumes "panel_step\<^sup>*\<^sup>* emptyState st"
  shows "integrity st"
  using assms by (rule reached_integrity)

definition sample_bare :: State where
  "sample_bare = emptyState\<lparr>st_Nodes := [sample_node]\<rparr>"

lemma sample_steps:
  "create_outbound_update sample_outbound sample_bare = Inr (sample_bare\<lparr>st_Outbounds := [sample_outbound]\<rparr>)"
  "create_group_update sample_group (sample_bare\<lparr>st_Outbounds := [sample_outbound]\<rparr>) = Inr sample_net"
proof -
  have "validateOutboundTargetSpec sample_bare [] (out_Name sample_outbound) (out_NodeID sample_outbound)
      (out_Tag sample_outbound) = None" by code_simp
  then show "create_outbound_update sample_outbound sample_bare =
      Inr (sample_bare\<lparr>st_Outbounds := [sample_outbound]\<rparr>)"
    unfolding create_outbound_update_Inr by (simp add: sample_bare_def emptyState_def)
  have "validateOutboundGroupSpec (sample_bare\<lparr>st_Outbounds := [sample_outbound]\<rparr>) sample_group = None"
    by code_simp
  then show "create_group_update sample_group (sample_bare\<lparr>st_Outbounds := [sample_outbound]\<rparr>) = Inr sample_net"
    unfolding create_group_update_Inr by (simp add: sample_bare_def emptyState_def sample_net_def)
qed

lemma sample_net_reached: "panel_step\<^sup>*\<^sup>* emptyState sample_net"
proof -
  let ?s1 = sample_bare
  let ?s2 = "?s1\<lparr>st_Outbounds := [sample_outbound]\<rparr>"
  have "panel_step emptyState ?s1" by (rule elsewhere) (simp_all add: sample_bare_def)
  moreover have "panel_step ?s1 ?s2"
    by (rule outbound_created [OF sample_steps(1)]) (simp_all add: sample_bare_def sample_outbound_def emptyState_def)
  moreover have "panel_step ?s2 sample_net"
    by (rule group_created [OF sample_steps(2)]) (simp add: sample_bare_def emptyState_def)
  ultimately show ?thesis by (meson r_into_rtranclp rtranclp_trans)
qed

theorem reachable_integrity_witness: "integrity sample_net"
  by (rule reachable_integrity [OF sample_net_reached])

text \<open>
  The undo of a failed deployment is not checked against the other tables, and the store is not
  locked while the nodes are deployed. A group created in that window with the new outbound as a
  member is left with a member that does not exist when the undo deletes the outbound: no state
  that the committed operations alone can reach.
\<close>

lemma undo_race_dangles:
  assumes "panel_step\<^sup>*\<^sup>* emptyState st" "create_outbound_update x st = Inr st1"
    and "create_group_update g st1 = Inr st2" "m \<in> set (og_Members g)" "ogm_OutboundID m = out_ID x"
    and "create_outbound_undo x st2 = Inr st3"
  shows "g \<in> set (st_OutboundGroups st3) \<and> findOutbound st3 (ogm_OutboundID m) = None \<and>
         \<not> panel_step\<^sup>*\<^sup>* emptyState st3"
proof -
  have g: "g \<in> set (st_OutboundGroups st3)" and none: "findOutbound st3 (out_ID x) = None"
    using assms(3,6) by (auto simp: create_group_update_Inr create_outbound_undo_def findOutbound_def)
  have "\<not> outbound_serves st3 (og_NodeID g) (ogm_OutboundID m)"
    by (simp add: outbound_serves_def none assms(5))
  then have "\<not> group_ok st3 g" using assms(4) by (auto simp: group_ok_def list_all_iff)
  then have "\<not> integrity st3" using g by (auto simp: integrity_def list_all_iff)
  then have "\<not> panel_step\<^sup>*\<^sup>* emptyState st3" using reached_integrity by blast
  with g none assms(5) show ?thesis by simp
qed

lemma undo_race_dangles_witness:
  "\<not> panel_step\<^sup>*\<^sup>* emptyState (sample_net\<lparr>st_Outbounds := []\<rparr>)"
proof -
  let ?m = "\<lparr>ogm_OutboundID = ''o1'', ogm_Priority = 0, ogm_Weight = 1\<rparr>"
  have 0: "panel_step\<^sup>*\<^sup>* emptyState sample_bare"
    by (rule r_into_rtranclp, rule elsewhere) (simp_all add: sample_bare_def)
  have 3: "?m \<in> set (og_Members sample_group)" "ogm_OutboundID ?m = out_ID sample_outbound"
    by (simp_all add: sample_group_def sample_outbound_def)
  have 4: "create_outbound_undo sample_outbound sample_net = Inr (sample_net\<lparr>st_Outbounds := []\<rparr>)"
    by (simp add: create_outbound_undo_def deleteByID_def sample_net_def)
  show ?thesis using undo_race_dangles [OF 0 sample_steps 3 4] by blast
qed

end
