(* ===== verification/InboundIntegrity.thy ===== *)
theory InboundIntegrity
  imports InboundTx Integrity
begin

text \<open>
  How the operations of InboundTx and RoutingTx work together: the state machine whose steps are
  their committed writes and the writes of deployments, and what every reachable state keeps: no
  two inbounds of a node listen on the same address and port, no two inbounds share a name, and
  every inbound a routing rule names exists on the node of the rule.
\<close>

definition same_socket :: "Inbound \<Rightarrow> Inbound \<Rightarrow> bool" where
  "same_socket x y \<longleftrightarrow>
     in_NodeID x = in_NodeID y \<and> in_Port x = in_Port y \<and> in_Listen x = in_Listen y"

definition same_name :: "Inbound \<Rightarrow> Inbound \<Rightarrow> bool" where
  "same_name x y \<longleftrightarrow> EqualFold (TrimSpace (in_Name x)) (TrimSpace (in_Name y))"

definition inbounds_apart :: "Inbound list \<Rightarrow> bool" where
  "inbounds_apart xs \<longleftrightarrow>
     (\<forall>x \<in> set xs. \<forall>y \<in> set xs. same_socket x y \<or> same_name x y \<longrightarrow> in_ID x = in_ID y)"

definition rule_inbounds_ok :: "State \<Rightarrow> RoutingRule \<Rightarrow> bool" where
  "rule_inbounds_ok st r \<longleftrightarrow>
     list_all (\<lambda>rid. case findInbound st rid of None \<Rightarrow> False | Some x \<Rightarrow> in_NodeID x = rr_NodeID r)
       (rr_InboundIDs r)"

definition inbound_ids_ok :: "State \<Rightarrow> bool" where
  "inbound_ids_ok st \<longleftrightarrow>
     distinct (map in_ID (st_Inbounds st)) \<and> [] \<notin> in_ID ` set (st_Inbounds st) \<and>
     distinct (map rr_ID (st_RoutingRules st))"

definition inbound_integrity :: "State \<Rightarrow> bool" where
  "inbound_integrity st \<longleftrightarrow>
     inbound_ids_ok st \<and> inbounds_apart (st_Inbounds st) \<and>
     list_all (rule_inbounds_ok st) (st_RoutingRules st)"

text \<open>
  A deployment may write the runtime fields of any inbound; the deletion of a user takes it out of
  the rules; the other operations on users, bindings, outbounds and groups leave both tables alone.
\<close>

inductive inbound_step :: "State \<Rightarrow> State \<Rightarrow> bool" where
  created: "create_inbound_update x st = Inr st' \<Longrightarrow> in_ID x \<noteq> [] \<Longrightarrow>
    in_ID x \<notin> in_ID ` set (st_Inbounds st) \<Longrightarrow> inbound_step st st'"
| updated: "update_inbound_update now rid i st = Inr (v, st') \<Longrightarrow> inbound_step st st'"
| enabled: "set_inbound_update now rid on st = Inr (b, st') \<Longrightarrow> inbound_step st st'"
| deleted: "delete_inbound_update rid st = Inr (w, st') \<Longrightarrow> inbound_step st st'"
| rule_made: "create_rule_update r st = Inr st' \<Longrightarrow>
    rr_ID r \<notin> rr_ID ` set (st_RoutingRules st) \<Longrightarrow> inbound_step st st'"
| rule_changed: "update_rule_update now rid r st = Inr (rv, st') \<Longrightarrow> inbound_step st st'"
| rule_gone: "delete_rule_update rid st = Inr (rw, st') \<Longrightarrow> inbound_step st st'"
| user_gone: "delete_user_update rid st = Inr st' \<Longrightarrow> inbound_step st st'"
| deployed: "map erase_runtime (st_Inbounds st') = map erase_runtime (st_Inbounds st) \<Longrightarrow>
    st_RoutingRules st' = st_RoutingRules st \<Longrightarrow> inbound_step st st'"

section \<open>What the invariant reads of an inbound\<close>

text \<open>The ID, the node, the socket and the name: a write that keeps them keeps the invariant.\<close>

definition inbound_shape :: "Inbound \<Rightarrow> string \<times> string \<times> string \<times> int \<times> string" where
  "inbound_shape x = (in_ID x, in_NodeID x, in_Listen x, in_Port x, in_Name x)"

lemma shape_runtime: "inbound_shape (erase_runtime x) = inbound_shape x"
  by (simp add: inbound_shape_def erase_runtime_def)

lemma shape_set: "inbound_shape (set_inbound_enabled now on x) = inbound_shape x"
  by (simp add: inbound_shape_def set_inbound_enabled_def)

lemma apart_shape:
  assumes "map inbound_shape xs = map inbound_shape ys" "inbounds_apart ys"
  shows "inbounds_apart xs"
proof -
  have img: "inbound_shape ` set xs = inbound_shape ` set ys" using arg_cong [OF assms(1), of set] by simp
  have *: "\<exists>y \<in> set ys. inbound_shape y = inbound_shape x" if "x \<in> set xs" for x
  proof -
    from that have "inbound_shape x \<in> inbound_shape ` set ys" unfolding img [symmetric] by simp
    then show ?thesis by (auto simp: image_iff)
  qed
  show ?thesis unfolding inbounds_apart_def
  proof (intro ballI impI)
    fix x x' assume x: "x \<in> set xs" "x' \<in> set xs" "same_socket x x' \<or> same_name x x'"
    from * [OF x(1)] obtain y where y: "y \<in> set ys" "inbound_shape y = inbound_shape x" by blast
    from * [OF x(2)] obtain y' where y': "y' \<in> set ys" "inbound_shape y' = inbound_shape x'" by blast
    have "same_socket y y' \<or> same_name y y'"
      using x(3) y(2) y'(2) by (simp add: inbound_shape_def same_socket_def same_name_def)
    with assms(2) y(1) y'(1) have "in_ID y = in_ID y'" unfolding inbounds_apart_def by blast
    with y(2) y'(2) show "in_ID x = in_ID x'" by (simp add: inbound_shape_def)
  qed
qed

lemma find_shape:
  "map inbound_shape xs = map inbound_shape ys \<Longrightarrow>
   map_option in_NodeID (find_row in_ID xs rid) = map_option in_NodeID (find_row in_ID ys rid)"
proof (induction xs arbitrary: ys)
  case (Cons x xs)
  then obtain y zs where "ys = y # zs" "inbound_shape x = inbound_shape y"
    "map inbound_shape xs = map inbound_shape zs" by auto
  moreover from this(2) have "in_ID x = in_ID y" "in_NodeID x = in_NodeID y"
    by (simp_all add: inbound_shape_def)
  ultimately show ?case using Cons.IH [of zs] by (simp add: find_row_def)
qed (simp add: find_row_def)

lemma rule_inbounds_node:
  "rule_inbounds_ok st r \<longleftrightarrow>
   list_all (\<lambda>rid. map_option in_NodeID (findInbound st rid) = Some (rr_NodeID r)) (rr_InboundIDs r)"
  by (auto simp: rule_inbounds_ok_def list_all_iff split: option.splits)

lemma keys_shape: "map inbound_shape xs = map inbound_shape ys \<Longrightarrow> map in_ID xs = map in_ID ys"
proof -
  have id: "in_ID = fst \<circ> inbound_shape" by (simp add: fun_eq_iff inbound_shape_def)
  show "map inbound_shape xs = map inbound_shape ys \<Longrightarrow> map in_ID xs = map in_ID ys"
    unfolding id map_map [symmetric] by simp
qed

lemma shape_kept:
  assumes "inbound_integrity st" "st_RoutingRules st' = st_RoutingRules st"
    and shape: "map inbound_shape (st_Inbounds st') = map inbound_shape (st_Inbounds st)"
  shows "inbound_integrity st'"
proof -
  have keys: "map in_ID (st_Inbounds st') = map in_ID (st_Inbounds st)" by (rule keys_shape [OF shape])
  then have "in_ID ` set (st_Inbounds st') = in_ID ` set (st_Inbounds st)" by (metis list.set_map)
  moreover have "rule_inbounds_ok st' r = rule_inbounds_ok st r" for r
    unfolding rule_inbounds_node findInbound_def find_shape [OF shape] by simp
  moreover have "inbounds_apart (st_Inbounds st')"
    using apart_shape [OF shape] assms(1) by (simp add: inbound_integrity_def)
  ultimately show ?thesis
    using assms(1,2) keys by (simp add: inbound_integrity_def inbound_ids_ok_def list_all_iff)
qed

section \<open>The steps keep the invariant\<close>

lemma apart_insert:
  assumes "inbounds_apart xs"
    and "\<And>y. y \<in> set zs \<Longrightarrow> y = x \<or> y \<in> set xs \<and> \<not> same_socket y x \<and> \<not> same_name y x"
  shows "inbounds_apart zs"
proof -
  have sym: "same_socket a b = same_socket b a" "same_name a b = same_name b a" for a b
    by (auto simp: same_socket_def same_name_def EqualFold_sym)
  show ?thesis using assms sym unfolding inbounds_apart_def by metis
qed

lemma target_free:
  assumes "validateInboundTargetSpec st rid name n l p = None" "x \<in> set (st_Inbounds st)" "in_ID x \<noteq> rid"
  shows "\<not> EqualFold (TrimSpace (in_Name x)) (TrimSpace name) \<and> \<not> same_listener n l p x"
  using assms by (auto simp: validateInboundTargetSpec_def clashing_inbound_None split: option.splits)

lemma inbounds_changed:
  assumes "inbound_integrity st" and rules: "st_RoutingRules st' = st_RoutingRules st"
    and ids: "distinct (map in_ID (st_Inbounds st'))" "[] \<notin> in_ID ` set (st_Inbounds st')"
    and apart: "inbounds_apart (st_Inbounds st')"
    and kept: "\<And>r rid x. r \<in> set (st_RoutingRules st) \<Longrightarrow> rid \<in> set (rr_InboundIDs r) \<Longrightarrow>
      findInbound st rid = Some x \<Longrightarrow> in_NodeID x = rr_NodeID r \<Longrightarrow>
      map_option in_NodeID (findInbound st' rid) = Some (rr_NodeID r)"
  shows "inbound_integrity st'"
proof -
  have "rule_inbounds_ok st' r" if "r \<in> set (st_RoutingRules st)" for r
    using assms(1) that kept [OF that]
    by (fastforce simp: inbound_integrity_def list_all_iff rule_inbounds_node)
  then show ?thesis
    using assms(1) ids apart by (simp add: inbound_integrity_def inbound_ids_ok_def list_all_iff rules)
qed

lemma created_ok:
  assumes int: "inbound_integrity st" and c: "create_inbound_update x st = Inr st'"
    and new: "in_ID x \<noteq> []" "in_ID x \<notin> in_ID ` set (st_Inbounds st)"
  shows "inbound_integrity st'"
proof -
  note u = c [unfolded create_inbound_update_Inr]
  have ids: "distinct (map in_ID (st_Inbounds st))" "[] \<notin> in_ID ` set (st_Inbounds st)"
    and apart: "inbounds_apart (st_Inbounds st)"
    using int by (simp_all add: inbound_integrity_def inbound_ids_ok_def)
  have rows: "st_Inbounds st' = st_Inbounds st @ [x]" using u by simp
  show ?thesis
  proof (rule inbounds_changed [OF int])
    show "st_RoutingRules st' = st_RoutingRules st" using u by simp
    show "distinct (map in_ID (st_Inbounds st'))" "[] \<notin> in_ID ` set (st_Inbounds st')"
      using ids new by (auto simp: rows)
    have "\<not> same_socket y x \<and> \<not> same_name y x" if y: "y \<in> set (st_Inbounds st)" for y
    proof -
      have "in_ID y \<noteq> []" using y ids(2) by force
      from target_free [OF conjunct1 [OF u] y this] show ?thesis
        by (auto simp: same_socket_def same_name_def same_listener_def)
    qed
    then show "inbounds_apart (st_Inbounds st')"
      by (intro apart_insert [OF apart, of _ x]) (auto simp: rows)
    show "map_option in_NodeID (findInbound st' rid) = Some (rr_NodeID r)"
      if "findInbound st rid = Some y" "in_NodeID y = rr_NodeID r" for rid y r
      using that by (simp add: findInbound_def rows find_append_new)
  qed
qed

lemma updated_ok:
  assumes int: "inbound_integrity st" and c: "update_inbound_update now rid i st = Inr (v, st')"
  shows "inbound_integrity st'"
proof -
  note u = update_inbound_update_Inr [OF c]
  let ?h = "applyInboundInput now i"
  have x: "findInbound st rid = Some (fst v)" and st': "st' = st_Inbounds_update (upd_row in_ID rid ?h) st"
    using u by blast+
  have ids: "distinct (map in_ID (st_Inbounds st))" "[] \<notin> in_ID ` set (st_Inbounds st)"
    and apart: "inbounds_apart (st_Inbounds st)"
    using int by (simp_all add: inbound_integrity_def inbound_ids_ok_def)
  have keys: "map in_ID (st_Inbounds st') = map in_ID (st_Inbounds st)"
    unfolding st' by (simp add: keys_upd_row)
  have keyset: "in_ID ` set (st_Inbounds st') = in_ID ` set (st_Inbounds st)"
    using keys by (metis list.set_map)
  have h: "in_NodeID (?h y) = ci_NodeID i" "in_Name (?h y) = ci_Name i" "in_Listen (?h y) = ci_Listen i"
    "in_Port (?h y) = ci_Port i" for y
    by (simp_all add: applyInboundInput_def Let_def)
  have free: "\<not> same_socket y (?h z) \<and> \<not> same_name y (?h z)"
    if "y \<in> set (st_Inbounds st)" "in_ID y \<noteq> rid" for y z
    using target_free [of st rid "ci_Name i" "ci_NodeID i" "ci_Listen i" "ci_Port i" y] u that
    by (auto simp: same_socket_def same_name_def same_listener_def h)
  show ?thesis
  proof (rule inbounds_changed [OF int])
    show "st_RoutingRules st' = st_RoutingRules st" by (simp add: st')
    show "distinct (map in_ID (st_Inbounds st'))" "[] \<notin> in_ID ` set (st_Inbounds st')"
      using ids by (simp_all add: keys keyset)
    show "inbounds_apart (st_Inbounds st')"
      by (rule apart_insert [OF apart, of _ "?h (fst v)"])
        (use free in \<open>auto simp: st' set_upd_row [OF ids(1) x [unfolded findInbound_def]]\<close>)
    show "map_option in_NodeID (findInbound st' rid') = Some (rr_NodeID r)"
      if "r \<in> set (st_RoutingRules st)" "rid' \<in> set (rr_InboundIDs r)" "findInbound st rid' = Some y"
        "in_NodeID y = rr_NodeID r" for r rid' y
      using that x u
      by (cases "rid' = rid")
        (auto simp: st' findInbound_def find_row_upd find_row_upd_other h validateInboundReferenceChange_None)
  qed
qed

lemma deleted_ok:
  assumes int: "inbound_integrity st" and c: "delete_inbound_update rid st = Inr (w, st')"
  shows "inbound_integrity st'"
proof -
  obtain before clients index nodeID where w: "w = (before, clients, index, nodeID)" by (cases w)
  note u = delete_inbound_update_Inr [OF c [unfolded w]]
  have rows: "st_Inbounds st' = deleteByID (st_Inbounds st) rid in_ID"
    "st_RoutingRules st' = st_RoutingRules st" using u by simp_all
  show ?thesis
  proof (rule inbounds_changed [OF int rows(2)])
    show "distinct (map in_ID (st_Inbounds st'))"
      using int by (simp add: rows distinct_delete inbound_integrity_def inbound_ids_ok_def)
    show "[] \<notin> in_ID ` set (st_Inbounds st')" "inbounds_apart (st_Inbounds st')"
      using int by (auto simp: rows deleteByID_def inbound_integrity_def inbound_ids_ok_def inbounds_apart_def)
    show "map_option in_NodeID (findInbound st' rid') = Some (rr_NodeID r)"
      if "r \<in> set (st_RoutingRules st)" "rid' \<in> set (rr_InboundIDs r)" "findInbound st rid' = Some y"
        "in_NodeID y = rr_NodeID r" for r rid' y
    proof -
      have "rid' \<noteq> rid" using u that by blast
      then show ?thesis using that by (simp add: findInbound_def rows find_delete_other)
    qed
  qed
qed

lemma rules_kept:
  assumes int: "inbound_integrity st" and st': "st' = st_RoutingRules_update f st"
    and ids: "distinct (map rr_ID (st_RoutingRules st'))"
    and oks: "\<And>r. r \<in> set (st_RoutingRules st') \<Longrightarrow>
      r \<in> set (st_RoutingRules st) \<or> validateRoutingReferences st r = None"
  shows "inbound_integrity st'"
proof -
  have rows: "st_Inbounds st' = st_Inbounds st" by (simp add: st')
  have "rule_inbounds_ok st' r" if "r \<in> set (st_RoutingRules st')" for r
    using oks [OF that] int
    by (auto simp: inbound_integrity_def list_all_iff rule_inbounds_node findInbound_def rows
        validateRoutingReferences_None)
  then show ?thesis
    using int ids by (simp add: inbound_integrity_def inbound_ids_ok_def list_all_iff rows)
qed

lemma inbound_step_integrity: "inbound_step st st' \<Longrightarrow> inbound_integrity st \<Longrightarrow> inbound_integrity st'"
proof (induction rule: inbound_step.induct)
  case created
  from created(4,1,2,3) show ?case by (rule created_ok)
next
  case updated
  from updated(2,1) show ?case by (rule updated_ok)
next
  case (enabled now rid on st b st')
  have st': "st' = st_Inbounds_update (upd_row in_ID rid (set_inbound_enabled now on)) st"
    using set_inbound_update_Inr [OF enabled(1)] by blast
  show ?case
  proof (rule shape_kept [OF enabled(2)])
    show "map inbound_shape (st_Inbounds st') = map inbound_shape (st_Inbounds st)"
      by (simp add: st' upd_row_def map_upd_first shape_set)
  qed (simp add: st')
next
  case deleted
  from deleted(2,1) show ?case by (rule deleted_ok)
next
  case (rule_made r st st')
  note u = rule_made(1) [unfolded create_rule_update_Inr]
  show ?case
    by (rule rules_kept [OF rule_made(3) conjunct2 [OF u]])
      (use u rule_made(2,3) in \<open>auto simp: inbound_integrity_def inbound_ids_ok_def\<close>)
next
  case (rule_changed now rid r0 st rv st')
  from update_rule_update_Inr [OF rule_changed(1)] obtain r where old: "findRoutingRule st rid = Some (fst rv)"
    and r: "rr_ID r = rid" "validateRoutingReferences st r = None"
    and st': "st' = st_RoutingRules_update (upd_row rr_ID rid (\<lambda>_. r)) st" by blast
  have ids: "distinct (map rr_ID (st_RoutingRules st))"
    using rule_changed(2) by (simp add: inbound_integrity_def inbound_ids_ok_def)
  show ?case
    by (rule rules_kept [OF rule_changed(2) st'])
      (use ids r set_upd_row [OF ids old [unfolded findRoutingRule_def], of "\<lambda>_. r"]
       in \<open>auto simp: st' keys_upd_row\<close>)
next
  case (rule_gone rid st rw st')
  have st': "st' = st_RoutingRules_update (\<lambda>xs. deleteByID xs rid rr_ID) st"
    using delete_rule_update_Inr [OF rule_gone(1)] by blast
  show ?case
  proof (rule rules_kept [OF rule_gone(2) st'])
    show "distinct (map rr_ID (st_RoutingRules st'))"
      using rule_gone(2) by (simp add: st' distinct_delete inbound_integrity_def inbound_ids_ok_def)
  qed (auto simp: st' deleteByID_def)
next
  case (user_gone rid st st')
  then show ?case using user_deletion_writes [OF user_gone(1)]
    by (simp add: inbound_integrity_def inbound_ids_ok_def rule_inbounds_ok_def [abs_def] findInbound_def
        list_all_iff comp_def cong: option.case_cong)
next
  case (deployed st' st)
  from arg_cong [OF deployed(1), of "map inbound_shape"]
  have "map inbound_shape (st_Inbounds st') = map inbound_shape (st_Inbounds st)"
    by (simp add: comp_def shape_runtime)
  from shape_kept [OF deployed(3,2) this] show ?case .
qed

lemma reached_inbounds: "inbound_step\<^sup>*\<^sup>* emptyState st \<Longrightarrow> inbound_integrity st"
proof (induction rule: rtranclp_induct)
  case base
  show ?case by (simp add: inbound_integrity_def inbound_ids_ok_def inbounds_apart_def emptyState_def)
next
  case (step st st')
  then show ?case using inbound_step_integrity by blast
qed

section \<open>Properties\<close>



end
