(* ===== verification/AccountIntegrity.thy ===== *)
theory AccountIntegrity
  imports Accounts
begin

text \<open>
  What the users and the plans promise, as an abstract machine: a partial map from user IDs to
  username and plan, and one from plan IDs to names. The state machine of the committed writes to
  the two tables, the handlers of Accounts and the background updates of Accounting and
  Subscriptions, refines it, and every reachable state has unique usernames, unique plan names and
  plan references that resolve.
\<close>

section \<open>The abstract machine\<close>

record accounts =
  ac_users :: "string \<rightharpoonup> string \<times> string"
  ac_plans :: "string \<rightharpoonup> string"

definition names_taken :: "accounts \<Rightarrow> string \<Rightarrow> string set" where
  "names_taken a except = {n. \<exists>k p. k \<noteq> except \<and> ac_users a k = Some (n, p)}"

definition plan_known :: "accounts \<Rightarrow> string \<Rightarrow> bool" where
  "plan_known a p \<longleftrightarrow> p = [] \<or> ac_plans a p \<noteq> None"

definition plan_names_taken :: "accounts \<Rightarrow> string \<Rightarrow> string set" where
  "plan_names_taken a except = {n. \<exists>k. k \<noteq> except \<and> ac_plans a k = Some n}"

inductive spec_step :: "accounts \<Rightarrow> accounts \<Rightarrow> bool" where
  spec_user_created: "ac_users a k = None \<Longrightarrow> n \<notin> names_taken a k \<Longrightarrow> plan_known a p \<Longrightarrow>
    spec_step a (a\<lparr>ac_users := (ac_users a)(k \<mapsto> (n, p))\<rparr>)"
| spec_user_changed: "ac_users a k = Some (n, p) \<Longrightarrow> n' = n \<or> n' \<notin> names_taken a k \<Longrightarrow>
    p' = p \<or> plan_known a p' \<Longrightarrow> spec_step a (a\<lparr>ac_users := (ac_users a)(k \<mapsto> (n', p'))\<rparr>)"
| spec_user_deleted: "ac_users a k = Some u \<Longrightarrow> spec_step a (a\<lparr>ac_users := (ac_users a)(k := None)\<rparr>)"
| spec_plan_created: "ac_plans a k = None \<Longrightarrow> m \<notin> plan_names_taken a k \<Longrightarrow>
    spec_step a (a\<lparr>ac_plans := (ac_plans a)(k \<mapsto> m)\<rparr>)"
| spec_plan_renamed: "ac_plans a k = Some m' \<Longrightarrow> m \<notin> plan_names_taken a k \<Longrightarrow>
    spec_step a (a\<lparr>ac_plans := (ac_plans a)(k \<mapsto> m)\<rparr>)"
| spec_plan_deleted: "ac_plans a k = Some m \<Longrightarrow> (\<And>u n. ac_users a u \<noteq> Some (n, k)) \<Longrightarrow>
    spec_step a (a\<lparr>ac_plans := (ac_plans a)(k := None)\<rparr>)"
| spec_stutter: "spec_step a a"

definition accounts_ok :: "accounts \<Rightarrow> bool" where
  "accounts_ok a \<longleftrightarrow>
     (\<forall>k n p. ac_users a k = Some (n, p) \<longrightarrow> n \<notin> names_taken a k \<and> plan_known a p) \<and>
     (\<forall>k m. ac_plans a k = Some m \<longrightarrow> m \<notin> plan_names_taken a k)"

lemma accounts_ok_username:
  "accounts_ok a \<Longrightarrow> ac_users a k = Some (n, p) \<Longrightarrow> ac_users a k' = Some (n, p') \<Longrightarrow> k = k'"
  unfolding accounts_ok_def names_taken_def by blast

lemma spec_step_ok: "spec_step a b \<Longrightarrow> accounts_ok a \<Longrightarrow> accounts_ok b"
proof (induction rule: spec_step.induct)
  case (spec_user_changed a k n p n' p')
  have n': "ac_users a ka \<noteq> Some (n', pa)" if "ka \<noteq> k" for ka pa
    using that spec_user_changed(2) accounts_ok_username [OF spec_user_changed(4,1), of ka]
    by (auto simp: names_taken_def)
  have p': "plan_known a p'"
    using spec_user_changed(1,3,4) by (auto simp: accounts_ok_def)
  show ?case
    using spec_user_changed(4) n' p' accounts_ok_username [OF spec_user_changed(4)]
    by (auto simp: accounts_ok_def names_taken_def plan_known_def plan_names_taken_def)
qed (auto simp: accounts_ok_def names_taken_def plan_known_def plan_names_taken_def; blast)+

section \<open>The abstraction\<close>

definition row_map :: "('r \<Rightarrow> string) \<Rightarrow> ('r \<Rightarrow> 'v) \<Rightarrow> 'r list \<Rightarrow> string \<rightharpoonup> 'v" where
  "row_map key val xs = map_of (map (\<lambda>x. (key x, val x)) xs)"

lemma row_map_find: "row_map key val xs k = map_option val (find_row key xs k)"
  by (induction xs) (auto simp: row_map_def find_row_def)

lemma row_map_Some: "row_map key val xs k = Some v \<Longrightarrow> \<exists>x \<in> set xs. key x = k \<and> val x = v"
  by (auto simp: row_map_find dest: find_row_Some)

lemma row_map_append:
  assumes "key x \<notin> key ` set xs"
  shows "row_map key val (xs @ [x]) = (row_map key val xs)(key x \<mapsto> val x)"
proof
  fix k
  have "find_row key (xs @ [x]) k =
      (case find_row key xs k of Some y \<Rightarrow> Some y | None \<Rightarrow> if key x = k then Some x else None)"
    by (induction xs) (auto simp: find_row_def)
  then show "row_map key val (xs @ [x]) k = ((row_map key val xs)(key x \<mapsto> val x)) k"
    using assms by (auto simp: row_map_find find_row_None [symmetric] split: option.split)
qed

lemma row_map_upd:
  assumes "find_row key xs rid = Some x" "\<And>y. key y = rid \<Longrightarrow> key (f y) = rid"
  shows "row_map key val (upd_row key rid f xs) = (row_map key val xs)(rid \<mapsto> val (f x))"
  using assms by (auto simp: row_map_find fun_eq_iff find_row_upd find_row_upd_other)

lemma row_map_delete: "row_map key val (deleteByID xs rid key) = (row_map key val xs)(rid := None)"
  by (auto simp: row_map_find fun_eq_iff find_delete_other)

lemma row_map_cong: "map (\<lambda>x. (key x, val x)) xs = map (\<lambda>x. (key x, val x)) ys \<Longrightarrow> row_map key val xs = row_map key val ys"
  by (simp add: row_map_def)

definition account :: "User \<Rightarrow> string \<times> string" where
  "account u = (u_Username u, u_PlanID u)"

definition folded_name :: "Plan \<Rightarrow> string" where
  "folded_name p = ToLower (p_Name p)"

definition account_rows :: "State \<Rightarrow> (string \<times> string \<times> string) list" where
  "account_rows st = map (\<lambda>u. (u_ID u, account u)) (st_Users st)"

definition accounts_of :: "State \<Rightarrow> accounts" where
  "accounts_of st =
     \<lparr>ac_users = row_map u_ID account (st_Users st), ac_plans = row_map p_ID folded_name (st_Plans st)\<rparr>"

lemma accounts_of_cong:
  "account_rows st' = account_rows st \<Longrightarrow> st_Plans st' = st_Plans st \<Longrightarrow> accounts_of st' = accounts_of st"
  by (simp add: accounts_of_def row_map_def account_rows_def)

section \<open>The committed writes\<close>

text \<open>New rows carry fresh random IDs; the last step is any write that leaves the two tables alone.\<close>

inductive account_step :: "State \<Rightarrow> State \<Rightarrow> bool" where
  user_created: "create_user_update now now1 now2 u st = Inr (v, st') \<Longrightarrow>
    u_ID u \<notin> u_ID ` set (st_Users st) \<Longrightarrow> account_step st st'"
| user_updated: "update_user_update now rid i st = Inr (ns, st') \<Longrightarrow> account_step st st'"
| user_acted: "userActionUpdate now rid action inp token st = Inr (ms, st') \<Longrightarrow> account_step st st'"
| user_deleted: "delete_user_update rid st = Inr st' \<Longrightarrow> account_step st st'"
| plan_created: "create_plan_update p st = Inr st' \<Longrightarrow> p_ID p \<notin> p_ID ` set (st_Plans st) \<Longrightarrow>
    account_step st st'"
| plan_updated: "update_plan_update now rid q st = Inr st' \<Longrightarrow> account_step st st'"
| plan_deleted: "delete_plan_update rid st = Inr st' \<Longrightarrow> account_step st st'"
| lifecycle_tick: "reconcileSubscriptions st now = Some (ids, st') \<Longrightarrow> account_step st st'"
| wireguard_tick: "account_step st (syncWireGuardUpdate now seen st)"
| xray_tick: "account_step st (st\<lparr>st_Users := map (xrayUserUpdate now deltas) (st_Users st)\<rparr>)"
| reset_tick: "trafficResetsUpdate st now = Some st' \<Longrightarrow> account_step st st'"
| policy_tick: "policyUpdate now st = (out, st') \<Longrightarrow> account_step st st'"
| other_write: "st_Users st' = st_Users st \<Longrightarrow> st_Plans st' = st_Plans st \<Longrightarrow> account_step st st'"

section \<open>The background updates leave the accounts alone\<close>

named_theorems account_frames

lemma list_all2_map_eq: "list_all2 P xs ys \<Longrightarrow> (\<And>x y. P x y \<Longrightarrow> f y = f x) \<Longrightarrow> map f ys = map f xs"
  by (induction rule: list_all2_induct) auto

lemma lifecycle_rows [account_frames]:
  assumes "reconcileSubscriptions st now = Some (ids, st')"
  shows "account_rows st' = account_rows st" "st_Plans st' = st_Plans st"
proof -
  from assms obtain ns where us: "reconcileUsers st now (st_Users st) = Some (st_Users st', ns)"
    and "st_Plans st' = st_Plans st"
    by (auto simp: reconcileSubscriptions_def)
  moreover have "account_rows st' = account_rows st"
    unfolding account_rows_def
    by (rule list_all2_map_eq [OF reconcileUsers_Some(1) [OF us]])
      (auto simp: account_def dest: reconcileUser_Some(3,4,5))
  ultimately show "account_rows st' = account_rows st" "st_Plans st' = st_Plans st" by simp_all
qed

lemma wireguard_rows [account_frames]:
  "account_rows (syncWireGuardUpdate now seen st) = account_rows st"
  "st_Plans (syncWireGuardUpdate now seen st) = st_Plans st"
  by (simp_all add: syncWireGuardUpdate_def account_rows_def account_def wgUserUpdate_def Let_def)

lemma xray_rows [account_frames]:
  "account_rows (st\<lparr>st_Users := map (xrayUserUpdate now deltas) (st_Users st)\<rparr>) = account_rows st"
  by (simp add: account_rows_def account_def xrayUserUpdate_def Let_def)

lemma reset_rows [account_frames]:
  assumes "trafficResetsUpdate st now = Some st'"
  shows "account_rows st' = account_rows st" "st_Plans st' = st_Plans st"
proof -
  from assms obtain ps where us:
    "trafficResetUsers st now (st_Users st) (st_VPNPeers st) = Some (st_Users st', ps)"
    and "st_Plans st' = st_Plans st"
    by (auto simp: trafficResetsUpdate_def)
  moreover have "account_rows st' = account_rows st"
    unfolding account_rows_def
    by (rule list_all2_map_eq [OF trafficResetUsers_Some(1) [OF us]])
      (auto simp: trafficResetUser_def account_def Let_def split: if_splits)
  ultimately show "account_rows st' = account_rows st" "st_Plans st' = st_Plans st" by simp_all
qed

lemma policy_rows [account_frames]:
  assumes "policyUpdate now st = (out, st')"
  shows "account_rows st' = account_rows st" "st_Plans st' = st_Plans st"
  using assms by (auto simp: policyUpdate_def account_rows_def account_def policyUser_def Let_def)

section \<open>The refinement\<close>

lemma user_names_free:
  "(\<And>u. u \<in> set (st_Users st) \<Longrightarrow> u_ID u \<noteq> k \<Longrightarrow> u_Username u \<noteq> n) \<Longrightarrow> n \<notin> names_taken (accounts_of st) k"
  by (auto simp: names_taken_def accounts_of_def account_def dest!: row_map_Some)

lemma plan_names_free:
  "(\<And>p. p \<in> set (st_Plans st) \<Longrightarrow> p_ID p \<noteq> k \<Longrightarrow> folded_name p \<noteq> m) \<Longrightarrow>
   m \<notin> plan_names_taken (accounts_of st) k"
  by (auto simp: plan_names_taken_def accounts_of_def dest!: row_map_Some)

lemma plan_check_known: "plan_check st p = None \<Longrightarrow> plan_known (accounts_of st) p"
  by (auto simp: plan_check_def plan_known_def accounts_of_def row_map_find findPlan_def
      split: if_splits option.splits)

lemma found_plan_known: "findPlan st p = Some x \<Longrightarrow> plan_known (accounts_of st) (p_ID x)"
  using find_row_Some [of p_ID "st_Plans st" p x]
  by (auto simp: plan_known_def accounts_of_def row_map_find findPlan_def)

lemma maybe_expiry_account [simp]:
  "account (maybeSetPlanExpiry st now now' u) = account u" "u_ID (maybeSetPlanExpiry st now now' u) = u_ID u"
  by (simp_all add: maybeSetPlanExpiry_def account_def Let_def split: option.split)

lemma edit_fields_account [simp]:
  "account (edit_fields st now i u) = account u" "u_ID (edit_fields st now i u) = u_ID u"
  by (simp_all add: edit_fields_def account_def Let_def split: prod.split)

lemma created_account:
  assumes "create_user_update now now1 now2 u st = Inr (v, st')"
  shows "account v = account u" "u_ID v = u_ID u" "st' = st\<lparr>st_Users := st_Users st @ [v]\<rparr>"
    "plan_check st (u_PlanID u) = None" "u_Username u \<notin> u_Username ` set (st_Users st)"
  using assms maybe_expiry_account [of st now1 now2 u]
  by (auto simp: create_user_update_def list_ex_iff Let_def account_def split: if_splits option.splits prod.splits)

lemma edited_name:
  assumes "edit_name st rid i u = Inr v"
  shows "u_ID v = u_ID u" "u_PlanID v = u_PlanID u"
    "u_Username v = u_Username u \<or> u_Username v \<notin> names_taken (accounts_of st) rid"
  using assms by (auto simp: edit_name_def Let_def list_ex_iff intro!: user_names_free split: if_splits)

lemma edited_plan:
  assumes "edit_plan st i u = Inr v"
  shows "u_ID v = u_ID u" "u_Username v = u_Username u"
    "u_PlanID v = u_PlanID u \<or> plan_known (accounts_of st) (u_PlanID v)"
  using assms by (auto simp: edit_plan_def plan_check_known split: if_splits option.splits)

lemma acted_account:
  assumes "userAction st now action inp token u = Inr v"
  shows "u_ID v = u_ID u" "u_Username v = u_Username u"
    "u_PlanID v = u_PlanID u \<or> plan_known (accounts_of st) (u_PlanID v)"
proof -
  have "applyPlan st now p reset u = Inr w \<Longrightarrow>
      u_ID w = u_ID u \<and> u_Username w = u_Username u \<and> plan_known (accounts_of st) (u_PlanID w)" for p reset w
    by (auto simp: applyPlan_def resetUserTraffic_def Let_def dest: found_plan_known
        split: option.splits if_splits)
  moreover have "renewUser st now d u = Inr w \<Longrightarrow>
      u_ID w = u_ID u \<and> u_Username w = u_Username u \<and> u_PlanID w = u_PlanID u" for d w
    by (auto simp: renewUser_def Let_def split: if_splits)
  ultimately show "u_ID v = u_ID u" "u_Username v = u_Username u"
    "u_PlanID v = u_PlanID u \<or> plan_known (accounts_of st) (u_PlanID v)"
    using assms
    by (auto simp: userAction_def resetUserTraffic_def Let_def split: if_splits sum.splits prod.splits)
qed

text \<open>A write through the pointer to a user is the change of one entry of the map.\<close>

lemma user_row_changed:
  assumes "findUser st rid = Some u" "st' = updUser rid (\<lambda>_. v) st" "u_ID v = u_ID u"
    and "u_Username v = u_Username u \<or> u_Username v \<notin> names_taken (accounts_of st) rid"
    and "u_PlanID v = u_PlanID u \<or> plan_known (accounts_of st) (u_PlanID v)"
  shows "spec_step (accounts_of st) (accounts_of st')"
proof -
  have u: "find_row u_ID (st_Users st) rid = Some u" "u_ID u = rid"
    using assms(1) by (auto simp: findUser_def dest: find_row_Some)
  have "accounts_of st' =
      (accounts_of st)\<lparr>ac_users := (ac_users (accounts_of st))(rid \<mapsto> (u_Username v, u_PlanID v))\<rparr>"
    using row_map_upd [OF u(1), of "\<lambda>_. v" account] assms(2,3) u(2)
    by (simp add: accounts_of_def updUser_def account_def)
  moreover have "ac_users (accounts_of st) rid = Some (u_Username u, u_PlanID u)"
    using u by (simp add: accounts_of_def row_map_find account_def)
  ultimately show ?thesis using spec_user_changed assms(4,5) by metis
qed

lemma user_created_refines:
  assumes "create_user_update now now1 now2 u st = Inr (v, st')" "u_ID u \<notin> u_ID ` set (st_Users st)"
  shows "spec_step (accounts_of st) (accounts_of st')"
proof -
  note c = created_account [OF assms(1)]
  have "accounts_of st' = (accounts_of st)
      \<lparr>ac_users := (ac_users (accounts_of st))(u_ID u \<mapsto> (u_Username u, u_PlanID u))\<rparr>"
    using row_map_append [of u_ID v "st_Users st" account] assms(2) c(1,2,3)
    by (simp add: accounts_of_def account_def)
  moreover have "ac_users (accounts_of st) (u_ID u) = None"
    using assms(2) by (simp add: accounts_of_def row_map_find find_row_None)
  moreover have "u_Username u \<notin> names_taken (accounts_of st) (u_ID u)"
    by (rule user_names_free) (metis c(5) imageI)
  ultimately show ?thesis using spec_user_created plan_check_known [OF c(4)] by metis
qed

lemma user_updated_refines:
  assumes "update_user_update now rid i st = Inr (ns, st')"
  shows "spec_step (accounts_of st) (accounts_of st')"
proof -
  from assms obtain u u1 u2 where u: "findUser st rid = Some u" "edit_name st rid i u = Inr u1"
    "edit_plan st i u1 = Inr u2" "st' = updUser rid (\<lambda>_. edit_fields st now i u2) st"
    by (auto simp: update_user_update_def split: option.splits sum.splits)
  have "u_Username (edit_fields st now i u2) = u_Username u2" "u_PlanID (edit_fields st now i u2) = u_PlanID u2"
    using edit_fields_account(1) [of st now i u2] by (simp_all add: account_def)
  with edited_name [OF u(2)] edited_plan [OF u(3)] show ?thesis
    by (intro user_row_changed [OF u(1,4)]) auto
qed

lemma user_acted_refines:
  assumes "userActionUpdate now rid action inp token st = Inr (ns, st')"
  shows "spec_step (accounts_of st) (accounts_of st')"
proof -
  from assms obtain u v where u: "findUser st rid = Some u" "userAction st now action inp token u = Inr v"
    "st' = updUser rid (\<lambda>_. v\<lparr>u_UpdatedAt := now\<rparr>) st"
    by (auto simp: userActionUpdate_def split: option.splits sum.splits)
  with acted_account [OF u(2)] show ?thesis by (intro user_row_changed [OF u(1,3)]) auto
qed

lemma plan_step_refines:
  assumes "create_plan_update p st = Inr st' \<and> p_ID p \<notin> p_ID ` set (st_Plans st) \<or>
    update_plan_update now rid q st = Inr st' \<or> delete_plan_update rid st = Inr st'"
  shows "spec_step (accounts_of st) (accounts_of st')"
  using assms
proof (elim disjE)
  assume c: "create_plan_update p st = Inr st' \<and> p_ID p \<notin> p_ID ` set (st_Plans st)"
  then have "accounts_of st' = (accounts_of st)
      \<lparr>ac_plans := (ac_plans (accounts_of st))(p_ID p \<mapsto> folded_name p)\<rparr>"
    using row_map_append [of p_ID p "st_Plans st" folded_name]
    by (auto simp: create_plan_update_def accounts_of_def split: if_splits)
  moreover have "folded_name p \<notin> plan_names_taken (accounts_of st) (p_ID p)"
    by (rule plan_names_free)
      (use c in \<open>auto simp: create_plan_update_def folded_name_def EqualFold_def list_ex_iff split: if_splits\<close>)
  moreover have "ac_plans (accounts_of st) (p_ID p) = None"
    using c by (simp add: accounts_of_def row_map_find find_row_None)
  ultimately show ?thesis using spec_plan_created by metis
next
  assume c: "update_plan_update now rid q st = Inr st'"
  then obtain x where x: "find_row p_ID (st_Plans st) rid = Some x"
    and st': "st' = updPlan rid (edit_plan_row now q) st"
    and free: "\<And>y. y \<in> set (st_Plans st) \<Longrightarrow> p_ID y \<noteq> rid \<Longrightarrow> folded_name y \<noteq> folded_name q"
    by (auto simp: update_plan_update_def findPlan_def folded_name_def EqualFold_def list_ex_iff
        split: if_splits)
  have "accounts_of st' = (accounts_of st)
      \<lparr>ac_plans := (ac_plans (accounts_of st))(rid \<mapsto> folded_name q)\<rparr>"
    using row_map_upd [OF x, of "edit_plan_row now q" folded_name]
    by (simp add: st' accounts_of_def updPlan_def edit_plan_row_def folded_name_def)
  moreover have "folded_name q \<notin> plan_names_taken (accounts_of st) rid"
    by (rule plan_names_free) (rule free)
  moreover have "ac_plans (accounts_of st) rid = Some (folded_name x)"
    using x by (simp add: accounts_of_def row_map_find)
  ultimately show ?thesis using spec_plan_renamed by metis
next
  assume c: "delete_plan_update rid st = Inr st'"
  then have "accounts_of st' = (accounts_of st)\<lparr>ac_plans := (ac_plans (accounts_of st))(rid := None)\<rparr>"
    by (auto simp: delete_plan_update_def accounts_of_def row_map_delete split: if_splits)
  moreover from c obtain m where "ac_plans (accounts_of st) rid = Some m"
    by (auto simp: delete_plan_update_def accounts_of_def row_map_find findPlan_def split: if_splits)
  moreover have "ac_users (accounts_of st) k \<noteq> Some (n, rid)" for k n
    using c by (auto simp: delete_plan_update_def accounts_of_def account_def list_ex_iff
        dest!: row_map_Some split: if_splits)
  ultimately show ?thesis using spec_plan_deleted by metis
qed

lemma user_deleted_refines:
  assumes "delete_user_update rid st = Inr st'"
  shows "spec_step (accounts_of st) (accounts_of st')"
proof -
  have "accounts_of st' = (accounts_of st)\<lparr>ac_users := (ac_users (accounts_of st))(rid := None)\<rparr>"
    using assms by (auto simp: delete_user_update_def accounts_of_def row_map_delete split: if_splits)
  moreover from assms obtain u where "findUser st rid = Some u"
    by (auto simp: delete_user_update_def split: if_splits)
  then have "ac_users (accounts_of st) rid = Some (account u)"
    by (simp add: accounts_of_def row_map_find findUser_def)
  ultimately show ?thesis using spec_user_deleted by metis
qed

lemma step_refines: "account_step st st' \<Longrightarrow> spec_step (accounts_of st) (accounts_of st')"
proof (induction rule: account_step.induct)
  case user_created
  then show ?case by (rule user_created_refines)
next
  case user_updated
  then show ?case by (rule user_updated_refines)
next
  case user_acted
  then show ?case by (rule user_acted_refines)
next
  case user_deleted
  then show ?case by (rule user_deleted_refines)
next
  case (plan_created p st st')
  then show ?case using plan_step_refines by blast
next
  case (plan_updated now rid q st st')
  then show ?case using plan_step_refines by blast
next
  case (plan_deleted rid st st')
  then show ?case using plan_step_refines by blast
next
  case (lifecycle_tick st now ids st')
  then show ?case using accounts_of_cong [OF lifecycle_rows] spec_stutter by simp
next
  case wireguard_tick
  show ?case using accounts_of_cong [OF wireguard_rows] spec_stutter by simp
next
  case (xray_tick st now deltas)
  show ?case using accounts_of_cong [OF xray_rows] spec_stutter by simp
next
  case (reset_tick st now st')
  then show ?case using accounts_of_cong [OF reset_rows] spec_stutter by simp
next
  case (policy_tick now st out st')
  then show ?case using accounts_of_cong [OF policy_rows] spec_stutter by simp
next
  case (other_write st' st)
  then have "accounts_of st' = accounts_of st" by (simp add: accounts_of_def)
  then show ?case using spec_stutter by simp
qed

section \<open>Reachable states\<close>

definition ids_distinct :: "State \<Rightarrow> bool" where
  "ids_distinct st \<longleftrightarrow> distinct (map u_ID (st_Users st)) \<and> distinct (map p_ID (st_Plans st))"

lemma same_rows_ids:
  assumes "account_rows st' = account_rows st" "st_Plans st' = st_Plans st"
  shows "ids_distinct st' = ids_distinct st"
proof -
  have "map u_ID (st_Users s) = map fst (account_rows s)" for s by (simp add: account_rows_def)
  with assms show ?thesis by (simp add: ids_distinct_def)
qed

lemma user_row_ids: "st' = updUser rid (\<lambda>_. v) st \<Longrightarrow> u_ID v = rid \<Longrightarrow> ids_distinct st \<Longrightarrow> ids_distinct st'"
  by (simp add: ids_distinct_def updUser_def keys_upd_row)

lemma step_ids: "account_step st st' \<Longrightarrow> ids_distinct st \<Longrightarrow> ids_distinct st'"
proof (induction rule: account_step.induct)
  case (user_created now now1 now2 u st v st')
  then show ?case using created_account(2,3) [OF user_created(1)] by (simp add: ids_distinct_def)
next
  case (user_updated now rid i st ns st')
  then obtain u u1 u2 where "findUser st rid = Some u" "edit_name st rid i u = Inr u1"
    "edit_plan st i u1 = Inr u2" "st' = updUser rid (\<lambda>_. edit_fields st now i u2) st"
    by (auto simp: update_user_update_def split: option.splits sum.splits)
  moreover from this have "u_ID u2 = rid"
    using edited_name(1) edited_plan(1) find_row_Some by (metis findUser_def)
  ultimately show ?case using user_row_ids user_updated(2) by simp
next
  case (user_acted now rid action inp token st ms st')
  then obtain u v where u: "findUser st rid = Some u" "userAction st now action inp token u = Inr v"
    "st' = updUser rid (\<lambda>_. v\<lparr>u_UpdatedAt := now\<rparr>) st"
    by (auto simp: userActionUpdate_def split: option.splits sum.splits)
  then have "u_ID v = rid" using acted_account(1) find_row_Some by (metis findUser_def)
  then show ?case using user_row_ids [OF u(3)] user_acted(2) by simp
next
  case (lifecycle_tick st now ids st')
  then show ?case using same_rows_ids [OF lifecycle_rows] by simp
next
  case (wireguard_tick st now seen)
  then show ?case using same_rows_ids [OF wireguard_rows] by simp
next
  case (xray_tick st now deltas)
  then show ?case using same_rows_ids [OF xray_rows] by simp
next
  case (reset_tick st now st')
  then show ?case using same_rows_ids [OF reset_rows] by simp
next
  case (policy_tick now st out st')
  then show ?case using same_rows_ids [OF policy_rows] by simp
qed (auto simp: ids_distinct_def delete_user_update_def create_plan_update_def update_plan_update_def
    delete_plan_update_def updPlan_def keys_upd_row edit_plan_row_def distinct_delete split: if_splits)

lemma reached_accounts: "account_step\<^sup>*\<^sup>* emptyState st \<Longrightarrow> accounts_ok (accounts_of st) \<and> ids_distinct st"
proof (induction rule: rtranclp_induct)
  case base
  show ?case by (simp add: accounts_ok_def accounts_of_def row_map_def ids_distinct_def emptyState_def)
next
  case (step st st')
  then show ?case using spec_step_ok [OF step_refines] step_ids by blast
qed

lemma row_map_member:
  "distinct (map key xs) \<Longrightarrow> x \<in> set xs \<Longrightarrow> row_map key val xs (key x) = Some (val x)"
proof (induction xs)
  case (Cons a xs)
  then show ?case by (cases "x = a") (auto simp: row_map_def image_iff)
qed simp

lemma unique_column:
  assumes "distinct (map key xs)"
    "\<And>x y. x \<in> set xs \<Longrightarrow> y \<in> set xs \<Longrightarrow> f x = f y \<Longrightarrow> key x = key y"
  shows "distinct (map f xs)"
proof -
  have "inj_on f (set xs)"
    using assms by (intro inj_onI) (auto dest: inj_onD simp: distinct_map)
  then show ?thesis using assms(1) by (simp add: distinct_map)
qed

section \<open>Properties\<close>

text \<open>
  C2: the users and the plans of the panel refine an abstract machine of two maps. Every committed
  write, of the handlers of server.go and subscriptions.go as of the background ticks, is one of its
  seven moves: a new user under an unused name with a known plan, a user renamed to an unused name
  or moved to a known plan, a user gone, a plan created or renamed under an unused name (letter
  case ignored), an unassigned plan gone, or nothing at all.
\<close>

theorem accounts_refine:
  assumes "account_step st st'"
  shows "spec_step (accounts_of st) (accounts_of st')"
  using assms by (rule step_refines)

definition sample_plan :: Plan where
  "sample_plan =
     \<lparr>p_ID = ''p1'', p_Name = ''Gold'', p_DataLimitBytes = 1000, p_DurationDays = 30, p_DeviceLimit = 1,
      p_ResetIntervalDays = 0, p_Enabled = True, p_CreatedAt = 1, p_UpdatedAt = 1\<rparr>"

definition sample_plans :: State where
  "sample_plans = emptyState\<lparr>st_Plans := [sample_plan]\<rparr>"

lemma sample_plan_created: "create_plan_update sample_plan emptyState = Inr sample_plans"
  by (simp add: create_plan_update_def sample_plans_def emptyState_def)

theorem accounts_refine_witness:
  "spec_step (accounts_of emptyState) (accounts_of sample_plans)"
  by (rule accounts_refine, rule plan_created [OF sample_plan_created]) (simp add: emptyState_def)

text \<open>
  C28: in every state the panel can reach, user IDs and usernames are unique, no two plans have the
  same name up to letter case, and the plan of every user that has one exists, so no user loses the
  limits of its plan because the plan was deleted under it.
\<close>

theorem reachable_accounts:
  assumes "account_step\<^sup>*\<^sup>* emptyState st"
  shows "distinct (map u_ID (st_Users st)) \<and> distinct (map u_Username (st_Users st)) \<and>
         distinct (map (\<lambda>p. ToLower (p_Name p)) (st_Plans st)) \<and>
         (\<forall>u \<in> set (st_Users st). u_PlanID u = [] \<or> findPlan st (u_PlanID u) \<noteq> None)"
proof -
  from reached_accounts [OF assms] have ok: "accounts_ok (accounts_of st)"
    and ids: "distinct (map u_ID (st_Users st))" "distinct (map p_ID (st_Plans st))"
    by (simp_all add: ids_distinct_def)
  have users: "ac_users (accounts_of st) (u_ID u) = Some (u_Username u, u_PlanID u)"
    if "u \<in> set (st_Users st)" for u
    using row_map_member [OF ids(1) that, of account] by (simp add: accounts_of_def account_def)
  have plans: "ac_plans (accounts_of st) (p_ID p) = Some (folded_name p)" if "p \<in> set (st_Plans st)" for p
    using row_map_member [OF ids(2) that, of folded_name] by (simp add: accounts_of_def)
  have "distinct (map u_Username (st_Users st))"
    by (rule unique_column [OF ids(1)]) (metis accounts_ok_username [OF ok] users)
  moreover have "distinct (map folded_name (st_Plans st))"
    by (rule unique_column [OF ids(2)])
      (use plans ok in \<open>auto simp: accounts_ok_def plan_names_taken_def; metis\<close>)
  moreover have "u_PlanID u = [] \<or> findPlan st (u_PlanID u) \<noteq> None" if "u \<in> set (st_Users st)" for u
    using ok users [OF that]
    by (fastforce simp: accounts_ok_def plan_known_def accounts_of_def row_map_find findPlan_def)
  ultimately show ?thesis using ids(1) by (simp add: folded_name_def [abs_def])
qed

theorem reachable_accounts_witness: "distinct (map (\<lambda>p. ToLower (p_Name p)) (st_Plans sample_plans))"
proof -
  have "account_step emptyState sample_plans"
    by (rule plan_created [OF sample_plan_created]) (simp add: emptyState_def)
  then show ?thesis using reachable_accounts [of sample_plans] by blast
qed

text \<open>
  C29: deleting a user leaves nothing of it: no WireGuard peer, no binding and no entry of a routing
  rule. Every other user keeps its row and its nodes, and every inbound serves what it served before
  without the clients of the deleted user.
\<close>

theorem deleted_user_gone:
  assumes "delete_user_update rid st = Inr st'"
  shows "findUser st' rid = None \<and> rid \<notin> vp_UserID ` set (st_VPNPeers st') \<and>
         rid \<notin> ic_UserID ` set (st_InboundClients st') \<and>
         (\<forall>r \<in> set (st_RoutingRules st'). rid \<notin> set (rr_UserIDs r)) \<and>
         (\<forall>uid. uid \<noteq> rid \<longrightarrow> findUser st' uid = findUser st uid \<and>
            boundNodeIDs st' uid = boundNodeIDs st uid) \<and>
         inbound_clients env st' x (st_InboundClients st') =
         inbound_clients env st x (filter (\<lambda>b. ic_UserID b \<noteq> rid) (st_InboundClients st))"
proof -
  have st': "st' = st\<lparr>st_Users := deleteByID (st_Users st) rid u_ID,
                   st_VPNPeers := deleteUserVPNPeers (st_VPNPeers st) rid,
                   st_InboundClients := deleteUserInboundClients (st_InboundClients st) rid,
                   st_RoutingRules :=
                     map (\<lambda>q. q\<lparr>rr_UserIDs := deleteString (rr_UserIDs q) rid\<rparr>) (st_RoutingRules st)\<rparr>"
    using assms by (auto simp: delete_user_update_def split: if_splits)
  have find: "uid \<noteq> rid \<Longrightarrow> findUser st' uid = findUser st uid" for uid
    by (simp add: st' findUser_def find_delete_other)
  have inbounds: "findInbound st' = findInbound st"
    and bindings: "st_InboundClients st' = deleteUserInboundClients (st_InboundClients st) rid"
    by (simp_all add: st' findInbound_def [abs_def])
  have "inbound_clients env st' x (filter (\<lambda>b. ic_UserID b \<noteq> rid) bs) =
      inbound_clients env st x (filter (\<lambda>b. ic_UserID b \<noteq> rid) bs)" for bs
    by (induction bs) (simp_all add: find split: option.split sum.split)
  moreover have "uid \<noteq> rid \<Longrightarrow> boundNodeIDs st' uid = boundNodeIDs st uid" for uid
  proof -
    assume "uid \<noteq> rid"
    then have "List.map_filter f (filter (\<lambda>b. ic_UserID b \<noteq> rid) bs) = List.map_filter f bs"
      if "\<And>b. ic_UserID b = rid \<Longrightarrow> f b = None" for f :: "InboundClient \<Rightarrow> string option" and bs
      using that by (induction bs) (auto simp: map_filter_simps split: option.split)
    with \<open>uid \<noteq> rid\<close> show ?thesis
      by (simp only: boundNodeIDs_def inbounds bindings deleteUserInboundClients_def) simp
  qed
  ultimately show ?thesis
    using find
    by (auto simp: st' findUser_def deleteUserVPNPeers_def deleteUserInboundClients_def deleteString_def)
qed

definition sample_account :: State where
  "sample_account = emptyState\<lparr>st_Users := [sample_user]\<rparr>"

theorem deleted_user_gone_witness:
  "findUser (sample_account\<lparr>st_Users := []\<rparr>) ''u1'' = None \<and>
   delete_user_update ''u1'' sample_account = Inr (sample_account\<lparr>st_Users := []\<rparr>)"
proof -
  have d: "delete_user_update ''u1'' sample_account = Inr (sample_account\<lparr>st_Users := []\<rparr>)"
    by (simp add: delete_user_update_def findUser_def find_row_def sample_account_def sample_user_def
        emptyState_def deleteByID_def deleteUserVPNPeers_def deleteUserInboundClients_def)
  from deleted_user_gone [OF d] d show ?thesis by blast
qed

section \<open>What deleting and renaming do to the rules\<close>

text \<open>
  A rule restricted to one user loses its restriction when the user is deleted: an empty list of
  users means every user.
\<close>

lemma delete_unrestricts_rule:
  assumes "delete_user_update rid st = Inr st'" "r \<in> set (st_RoutingRules st)" "rr_UserIDs r = [rid]"
  shows "\<exists>r' \<in> set (st_RoutingRules st'). rr_ID r' = rr_ID r \<and> rr_Enabled r' = rr_Enabled r \<and>
           jget ''user'' (rule_conditions st' r' j) = jget ''user'' j"
proof -
  have "st_RoutingRules st' =
      map (\<lambda>q. q\<lparr>rr_UserIDs := deleteString (rr_UserIDs q) rid\<rparr>) (st_RoutingRules st)"
    using assms(1) by (auto simp: delete_user_update_def split: if_splits)
  moreover have "r\<lparr>rr_UserIDs := []\<rparr> = r\<lparr>rr_UserIDs := deleteString (rr_UserIDs r) rid\<rparr>"
    by (simp add: assms(3) deleteString_def)
  ultimately have "r\<lparr>rr_UserIDs := []\<rparr> \<in> set (st_RoutingRules st')"
    using assms(2) by (metis (no_types, lifting) imageI list.set_map)
  moreover have "jget ''user'' (rule_conditions st' (r\<lparr>rr_UserIDs := []\<rparr>) j) = jget ''user'' j"
    by (simp add: rule_conditions_def Let_def jget_put_if) (simp add: put_if_def jget_jput_gen)
  ultimately show ?thesis by (intro bexI [of _ "r\<lparr>rr_UserIDs := []\<rparr>"]) simp_all
qed

text \<open>
  A binding keeps the name its user had when it was attached, and a rule names the user by its
  current name, so after a rename no rule matches the traffic of the old bindings.
\<close>

lemma rename_unmatches_rules:
  assumes "findUser st rid = Some u" "b \<in> set (st_InboundClients st)" "ic_UserID b = rid"
    "ic_Email b = ''gb:'' @ old" "u_Username u \<noteq> old" "rr_UserIDs r = [rid]"
  shows "ic_Email b \<notin> set (rule_users st r)"
  using assms by (simp add: rule_users_def map_filter_simps)

end
