(* ===== verification/Tunnels.thy ===== *)
theory Tunnels
  imports WGPeers
begin

text \<open>
  src/internal/panel/operations.go: tunnels between two nodes, port forwards, the log view and the
  probe of a node. A tunnel is set up on the destination first, then on the source; its addresses
  are the first two of the given network.
\<close>

section \<open>Nodes\<close>

definition nodeStatusAfterProbe :: "bool \<Rightarrow> bool \<Rightarrow> int \<Rightarrow> string" where
  "nodeStatusAfterProbe enabled maintenance failures =
     (if \<not> enabled then NodeStatusDisabled
      else if maintenance then NodeStatusMaintenance
      else if failures \<ge> 3 then NodeStatusOffline
      else if failures > 0 then NodeStatusDegraded
      else NodeStatusOnline)"

definition validateNodeForWork :: "Node \<Rightarrow> go_error option" where
  "validateNodeForWork n =
     (if \<not> n_Enabled n then Some (Plain (''node '' @ Quote (n_Name n) @ '' is disabled''))
      else if n_Maintenance n then Some (Plain (''node '' @ Quote (n_Name n) @ '' is in maintenance''))
      else if n_Status n \<noteq> NodeStatusOnline
        then Some (Plain (''node '' @ Quote (n_Name n) @ '' is not online (status: '' @ n_Status n @ '')''))
      else None)"

text \<open>The error and the metrics of a probe, written to the node as it is by then.\<close>

definition probe_written :: "time \<Rightarrow> go_error + NodeMetrics \<Rightarrow> Node \<Rightarrow> Node" where
  "probe_written now r x =
     (let x0 = x\<lparr>n_UpdatedAt := now\<rparr> in
      case r of
        Inl e \<Rightarrow>
          let x1 = x0\<lparr>n_FailureCount := int64 (n_FailureCount x0 + 1), n_LastError := err_msg e\<rparr>
          in x1\<lparr>n_Status := nodeStatusAfterProbe (n_Enabled x1) (n_Maintenance x1) (n_FailureCount x1)\<rparr>
      | Inr m \<Rightarrow>
          x0\<lparr>n_Status := NodeStatusOnline, n_LastSeen := now, n_Metrics := m, n_FailureCount := 0,
             n_LastError := []\<rparr>)"

definition probe_resting :: "time \<Rightarrow> Node \<Rightarrow> Node" where
  "probe_resting now x =
     x\<lparr>n_Status := nodeStatusAfterProbe (n_Enabled x) (n_Maintenance x) (n_FailureCount x),
       n_UpdatedAt := now\<rparr>"

definition probeNode ::
  "'w env \<Rightarrow> (string \<Rightarrow> go_error + NodeMetrics) \<Rightarrow> NodeMetrics \<Rightarrow> string \<Rightarrow> 'w Store \<Rightarrow> 'w Store" where
  "probeNode env decode zero rid s =
     (case findNode (cloneState (store_st s)) rid of
        None \<Rightarrow> s
      | Some n \<Rightarrow>
          (case effect (ev_Now env) s of (now, s1) \<Rightarrow>
             if \<not> n_Enabled n \<or> n_Maintenance n then UpdateST (ev_save env) (updNode rid (probe_resting now)) s1
             else (case agentJSON env n ''GET'' ''/v1/status'' None (Some decode) zero s1 of
                     (r, s2) \<Rightarrow> UpdateST (ev_save env) (updNode rid (probe_written now r)) s2)))"

definition enabled_nodes :: "State \<Rightarrow> string list" where
  "enabled_nodes st = map n_ID (filter n_Enabled (st_Nodes st))"

section \<open>Addresses of a tunnel\<close>

definition derivePair :: "string \<Rightarrow> go_error + string \<times> string \<times> string \<times> string" where
  "derivePair cidr =
     (case ParseCIDR cidr of
        None \<Rightarrow> Inl (invalid_cidr cidr)
      | Some (ip, n) \<Rightarrow>
          let ones = Itoa (int (mask_Size (net_Mask n)));
              a = incIP ip; b = incIP (incIP ip)
          in if \<not> net_Contains n a \<or> \<not> net_Contains n b then Inl (Plain ''CIDR too small'')
             else Inr (ip_String a @ ''/'' @ ones, ip_String b @ ''/'' @ ones, ip_String a, ip_String b))"

section \<open>Creating a tunnel\<close>

record tunnelCreate =
  tc_Name :: string
  tc_SourceNodeID :: string
  tc_DestinationNodeID :: string
  tc_Transport :: string
  tc_Profile :: string
  tc_Ports :: "int list"
  tc_MTU :: int
  tc_CIDR :: string
  tc_Interface :: string
  tc_VNI :: int

definition allowedTransport :: "string \<Rightarrow> bool" where
  "allowedTransport t \<longleftrightarrow>
     t \<in> {''pulseudp'', ''pulseudp-mp'', ''kcp'', ''quic'', ''icmp'', ''gre'', ''gre6'', ''ipip'', ''sit'',
          ''geneve'', ''vxlan''}"

definition kernel_transport :: "string \<Rightarrow> bool" where
  "kernel_transport t \<longleftrightarrow> t \<in> {''gre'', ''gre6'', ''ipip'', ''sit'', ''geneve'', ''vxlan''}"

definition tunnel_defaults :: "tunnelCreate \<Rightarrow> tunnelCreate" where
  "tunnel_defaults i =
     i\<lparr>tc_Profile := (if tc_Profile i = [] then ''competitive'' else tc_Profile i),
       tc_MTU := (if tc_MTU i = 0
                  then if tc_Transport i = ''icmp'' then 900
                       else if tc_Transport i = ''quic'' then 1280 else 1360
                  else tc_MTU i),
       tc_Interface := (if tc_Interface i = [] then ''gb0'' else tc_Interface i),
       tc_CIDR := (if tc_CIDR i = [] then ''10.20.0.0/30'' else tc_CIDR i)\<rparr>"

definition normalize_tunnel :: "tunnelCreate \<Rightarrow> go_error + tunnelCreate" where
  "normalize_tunnel i0 =
     (let i = i0\<lparr>tc_Transport := ToLower (TrimSpace (tc_Transport i0))\<rparr> in
      if \<not> allowedTransport (tc_Transport i) then Inl (Plain ''unsupported transport'')
      else if tc_Name i = [] \<or> list_ex (\<lambda>c. c \<in> {CHR 0x2F, CHR 0x5C, CHR 0x20, CHR 0x09, CHR 0x0A}) (tc_Name i)
        then Inl (Plain ''invalid tunnel name'')
      else Inr (tunnel_defaults i))"

fun wrap_error :: "string \<Rightarrow> go_error \<Rightarrow> go_error" where
  "wrap_error prefix e = Plain (prefix @ err_msg e)"

definition tunnel_nodes :: "State \<Rightarrow> tunnelCreate \<Rightarrow> go_error + Node \<times> Node" where
  "tunnel_nodes st i =
     (case (findNode st (tc_SourceNodeID i), findNode st (tc_DestinationNodeID i)) of
        (Some src, Some dst) \<Rightarrow>
          if n_ID src = n_ID dst then Inl (Plain ''source and destination node must be different'')
          else (case validateNodeForWork src of
                  Some e \<Rightarrow> Inl (wrap_error ''source node: '' e)
                | None \<Rightarrow>
                    (case validateNodeForWork dst of
                       Some e \<Rightarrow> Inl (wrap_error ''destination node: '' e)
                     | None \<Rightarrow> Inr (src, dst)))
      | _ \<Rightarrow> Inl (Plain ''source or destination node not found''))"

definition jints :: "int list \<Rightarrow> json" where
  "jints xs = JArr (map JInt xs)"

definition userspace_spec ::
  "tunnelCreate \<Rightarrow> string \<Rightarrow> string \<Rightarrow> string \<Rightarrow> string \<Rightarrow> string \<Rightarrow> bool \<Rightarrow> string \<Rightarrow> json" where
  "userspace_spec i role peer_host cidr peerIP keyHex is_nat internet =
     JObj [(''name'', JStr (tc_Name i)), (''kind'', JStr ''userspace''), (''role'', JStr role),
           (''transport'', JStr (tc_Transport i)), (''peer_host'', JStr peer_host),
           (''ports'', jints (tc_Ports i)), (''interface'', JStr (tc_Interface i)),
           (''local_cidr'', JStr cidr), (''peer_ip'', JStr peerIP), (''mtu'', JInt (tc_MTU i)),
           (''key_hex'', JStr keyHex), (''profile'', JStr (tc_Profile i)), (''nat'', JBool is_nat),
           (''internet_interface'', JStr internet), (''vni'', JInt (tc_VNI i))]"

definition transport_options :: "tunnelCreate \<Rightarrow> json \<Rightarrow> json" where
  "transport_options i m =
     (let m1 = (if tc_Transport i = ''pulseudp-mp''
                then jput ''duplicate_small_packets'' (JBool (tc_Profile i \<in> {''stable'', ''lossy''})) m else m);
          par = (if tc_Profile i = ''lossy'' then 3 else if tc_Profile i = ''stable'' then 2 else 0);
          m2 = (if tc_Transport i = ''kcp''
                then jput ''kcp_parity_shards'' (JInt par) (jput ''kcp_data_shards'' (JInt 10) m1) else m1)
      in if tc_Transport i = ''icmp''
         then jput ''icmp_burst'' (JInt 4) (jput ''icmp_poll_ms'' (JInt 8) (jput ''icmp_id'' (JInt 4242) m2))
         else m2)"

definition kernel_spec :: "tunnelCreate \<Rightarrow> string \<Rightarrow> string \<Rightarrow> string \<Rightarrow> string \<Rightarrow> json" where
  "kernel_spec i local_public remote_public cidr remote_ip =
     JObj [(''name'', JStr (tc_Name i)), (''kind'', JStr ''kernel''), (''transport'', JStr (tc_Transport i)),
           (''interface'', JStr (tc_Interface i)), (''local_public'', JStr local_public),
           (''remote_public'', JStr remote_public), (''local_cidr'', JStr cidr),
           (''remote_ip'', JStr remote_ip), (''mtu'', JInt (tc_MTU i)),
           (''vni'', JInt (if tc_VNI i = 0 then 100 else tc_VNI i))]"

text \<open>The specifications of the source and of the destination.\<close>

definition tunnel_specs ::
  "tunnelCreate \<Rightarrow> Node \<Rightarrow> Node \<Rightarrow> string \<times> string \<times> string \<times> string \<Rightarrow> string \<Rightarrow> json \<times> json" where
  "tunnel_specs i src dst pair keyHex =
     (case pair of (srcCIDR, dstCIDR, srcIP, dstIP) \<Rightarrow>
        if kernel_transport (tc_Transport i)
        then (kernel_spec i (n_PublicIP src) (n_PublicIP dst) srcCIDR dstIP,
              kernel_spec i (n_PublicIP dst) (n_PublicIP src) dstCIDR srcIP)
        else (transport_options i
                (userspace_spec i ''client'' (n_PublicIP dst) srcCIDR dstIP keyHex False []),
              transport_options i
                (userspace_spec i ''server'' [] dstCIDR srcIP keyHex True (n_InternetInterface dst))))"

definition new_tunnel :: "string \<Rightarrow> time \<Rightarrow> time \<Rightarrow> tunnelCreate \<Rightarrow> Node \<Rightarrow> Node \<Rightarrow> Tunnel" where
  "new_tunnel rid created updated i src dst =
     \<lparr>t_ID = rid, t_Name = tc_Name i, t_SourceNodeID = n_ID src, t_DestinationNodeID = n_ID dst,
      t_Transport = tc_Transport i, t_Profile = tc_Profile i, t_Ports = tc_Ports i, t_MTU = tc_MTU i,
      t_CIDR = tc_CIDR i, t_Interface = tc_Interface i, t_Status = ''online'', t_VNI = tc_VNI i,
      t_CreatedAt = created, t_UpdatedAt = updated\<rparr>"

text \<open>url.PathEscape.\<close>

definition path_safe :: "char \<Rightarrow> bool" where
  "path_safe c \<longleftrightarrow> query_safe c \<or> c \<in> set ''$&+=:@''"

definition PathEscape :: "string \<Rightarrow> string" where
  "PathEscape s =
     concat (map (\<lambda>c. if path_safe c then [c]
                      else let n = (of_char c :: nat) in [CHR ''%'', upper_hex (n div 16), upper_hex n]) s)"

definition tunnel_path :: "string \<Rightarrow> string" where
  "tunnel_path name = ''/v1/tunnels/'' @ PathEscape name"

definition createTunnel ::
  "'w env \<Rightarrow> tunnelCreate \<Rightarrow> 'w Store \<Rightarrow> (go_error + Tunnel) \<times> 'w Store" where
  "createTunnel env i0 s =
     (case normalize_tunnel i0 of
        Inl e \<Rightarrow> (Inl e, s)
      | Inr i \<Rightarrow>
          (case tunnel_nodes (cloneState (store_st s)) i of
             Inl e \<Rightarrow> (Inl e, s)
           | Inr (src, dst) \<Rightarrow>
               (case derivePair (tc_CIDR i) of
                  Inl e \<Rightarrow> (Inl e, s)
                | Inr pair \<Rightarrow>
                    (case randomHex env 32 s of (keyHex, s1) \<Rightarrow>
                    (case tunnel_specs i src dst pair keyHex of (srcSpec, dstSpec) \<Rightarrow>
                    (case agentDo env dst ''POST'' ''/v1/tunnels'' (Some dstSpec) s1 of
                       (Some e, s2) \<Rightarrow> (Inl (wrap_error ''destination node: '' e), s2)
                     | (None, s2) \<Rightarrow>
                         (case agentDo env src ''POST'' ''/v1/tunnels'' (Some srcSpec) s2 of
                            (Some e, s3) \<Rightarrow>
                              (Inl (wrap_error ''source node: '' e),
                               snd (agentDo env dst ''DELETE'' (tunnel_path (tc_Name i)) None s3))
                          | (None, s3) \<Rightarrow>
                              (case randomHex env 12 s3 of (rid, s4) \<Rightarrow>
                              (case effect (ev_Now env) s4 of (created, s5) \<Rightarrow>
                              (case effect (ev_Now env) s5 of (updated, s6) \<Rightarrow>
                                 let t = new_tunnel rid created updated i src dst in
                                 (Inr t, UpdateST (ev_save env) (\<lambda>st. st\<lparr>st_Tunnels := st_Tunnels st @ [t]\<rparr>) s6)))))))))))"

section \<open>Actions on a tunnel\<close>

definition tunnel_ends :: "State \<Rightarrow> string \<Rightarrow> go_error + Tunnel \<times> Node \<times> Node" where
  "tunnel_ends st rid =
     (case findTunnel st rid of
        None \<Rightarrow> Inl (Plain ''tunnel not found'')
      | Some t \<Rightarrow>
          (case (findNode st (t_SourceNodeID t), findNode st (t_DestinationNodeID t)) of
             (Some src, Some dst) \<Rightarrow> Inr (t, src, dst)
           | _ \<Rightarrow> Inl (Plain ''node missing'')))"

definition tunnel_status :: "string \<Rightarrow> go_error option \<Rightarrow> go_error option \<Rightarrow> string" where
  "tunnel_status action e1 e2 =
     (if e1 \<noteq> None \<or> e2 \<noteq> None then ''degraded'' else if action = ''stop'' then ''stopped'' else ''online'')"

definition agent_action ::
  "'w env \<Rightarrow> (string \<Rightarrow> go_error + json) \<Rightarrow> Node \<Rightarrow> string \<Rightarrow> 'w Store \<Rightarrow> 'w tx" where
  "agent_action env decode n path s =
     (case agentJSON env n ''POST'' path None (Some decode) JNull s of
        (Inl e, s1) \<Rightarrow> (Some e, s1) | (Inr _, s1) \<Rightarrow> (None, s1))"

text \<open>The clock is read inside the callback of the update; its instant is drawn before it here.\<close>

definition tunnelAction ::
  "'w env \<Rightarrow> (string \<Rightarrow> go_error + json) \<Rightarrow> string \<Rightarrow> string \<Rightarrow> 'w Store \<Rightarrow> 'w tx" where
  "tunnelAction env decode rid action s =
     (case tunnel_ends (cloneState (store_st s)) rid of
        Inl e \<Rightarrow> (Some e, s)
      | Inr (t, src, dst) \<Rightarrow>
          let path = tunnel_path (t_Name t) @ ''/'' @ (if action = ''refresh'' then ''status'' else action) in
          (case agent_action env decode src path s of (e1, s1) \<Rightarrow>
          (case agent_action env decode dst path s1 of (e2, s2) \<Rightarrow>
          (case effect (ev_Now env) s2 of (now, s3) \<Rightarrow>
             ((if e1 \<noteq> None then e1 else e2),
              UpdateST (ev_save env)
                (updTunnel rid (\<lambda>q. q\<lparr>t_Status := tunnel_status action e1 e2, t_UpdatedAt := now\<rparr>)) s3)))))"

definition delete_on ::
  "'w env \<Rightarrow> Node option \<Rightarrow> string \<Rightarrow> 'w Store \<Rightarrow> 'w Store" where
  "delete_on env n path s =
     (case n of
        None \<Rightarrow> s
      | Some n \<Rightarrow> if n_ID n \<noteq> [] then snd (agentDo env n ''DELETE'' path None s) else s)"

definition deleteTunnel :: "'w env \<Rightarrow> string \<Rightarrow> 'w Store \<Rightarrow> 'w tx" where
  "deleteTunnel env rid s =
     (let st = cloneState (store_st s) in
      case findTunnel st rid of
        None \<Rightarrow> (Some (Plain ''tunnel not found''), s)
      | Some t \<Rightarrow>
          let s1 = delete_on env (findNode st (t_SourceNodeID t)) (tunnel_path (t_Name t)) s;
              s2 = delete_on env (findNode st (t_DestinationNodeID t)) (tunnel_path (t_Name t)) s1
          in UpdateE (ev_save env) (\<lambda>st. Inr (st\<lparr>st_Tunnels := deleteByID (st_Tunnels st) rid t_ID\<rparr>)) s2)"

section \<open>The handlers\<close>

datatype ops_payload =
    TunnelList "Tunnel list" | TunnelCreated Tunnel | ForwardList "PortForward list"
  | ForwardCreated PortForward | OpsAgent json | OpsOK

definition handleTunnels ::
  "'w env \<Rightarrow> tunnelCreate request \<Rightarrow> 'w Store \<Rightarrow> ops_payload response \<times> 'w Store" where
  "handleTunnels env r s =
     (if rq_Method r = ''GET'' then (JsonWrite 200 (TunnelList (st_Tunnels (cloneState (store_st s)))), s)
      else if rq_Method r = ''POST'' then
        (if requireRole r ''operator'' \<noteq> None then (JsonError 403 ''forbidden'', s)
         else (case rq_Body r of
           Inl e \<Rightarrow> (JsonError 400 (err_msg e), s)
         | Inr i \<Rightarrow>
             (case createTunnel env i s of
                (Inl e, s1) \<Rightarrow> (JsonError 400 (err_msg e), s1)
              | (Inr t, s1) \<Rightarrow>
                  (JsonWrite 201 (TunnelCreated t), audit_now env r ''create'' (''tunnel:'' @ t_Name t) s1))))
      else (JsonError 405 ''method not allowed'', s))"

definition handleTunnelItem ::
  "'w env \<Rightarrow> (string \<Rightarrow> go_error + json) \<Rightarrow> 'b request \<Rightarrow> string \<Rightarrow> 'w Store \<Rightarrow> ops_payload response \<times> 'w Store" where
  "handleTunnelItem env decode r rest s =
     (let parts = SplitSlash (TrimSlash rest); rid = hd parts in
      if length parts = 2 then
        (if requireRole r ''operator'' \<noteq> None then (JsonError 403 ''forbidden'', s)
         else let a = parts ! 1 in
           if a \<notin> {''start'', ''stop'', ''restart'', ''refresh''} then (JsonError 400 ''invalid action'', s)
           else (case tunnelAction env decode rid a s of
                   (Some e, s1) \<Rightarrow> (JsonError 400 (err_msg e), s1)
                 | (None, s1) \<Rightarrow> (JsonWrite 200 OpsOK, audit_now env r a (''tunnel:'' @ rid) s1)))
      else if rq_Method r = ''DELETE'' then
        (if requireRole r ''operator'' \<noteq> None then (JsonError 403 ''forbidden'', s)
         else (case deleteTunnel env rid s of
                 (Some e, s1) \<Rightarrow> (JsonError 400 (err_msg e), s1)
               | (None, s1) \<Rightarrow> (JsonWrite 200 OpsOK, audit_now env r ''delete'' (''tunnel:'' @ rid) s1)))
      else (JsonError 405 ''method not allowed'', s))"

definition forward_json :: "PortForward \<Rightarrow> json" where
  "forward_json f =
     JObj [(''id'', JStr (pf_ID f)), (''node_id'', JStr (pf_NodeID f)), (''protocol'', JStr (pf_Protocol f)),
           (''listen_port'', JInt (pf_ListenPort f)), (''dest_ip'', JStr (pf_DestIP f)),
           (''dest_port'', JInt (pf_DestPort f)), (''enabled'', JBool (pf_Enabled f)),
           (''created_at'', JInt (pf_CreatedAt f))]"

definition handleForwards ::
  "'w env \<Rightarrow> PortForward request \<Rightarrow> 'w Store \<Rightarrow> ops_payload response \<times> 'w Store" where
  "handleForwards env r s =
     (if rq_Method r = ''GET'' then (JsonWrite 200 (ForwardList (st_Forwards (cloneState (store_st s)))), s)
      else if rq_Method r = ''POST'' then
        (if requireRole r ''operator'' \<noteq> None then (JsonError 403 ''forbidden'', s)
         else (case rq_Body r of
           Inl e \<Rightarrow> (JsonError 400 (err_msg e), s)
         | Inr i \<Rightarrow>
             if pf_Protocol i \<notin> {''udp'', ''tcp'', ''both''} then (JsonError 400 ''protocol must be udp, tcp or both'', s)
             else (case findNode (cloneState (store_st s)) (pf_NodeID i) of
                     None \<Rightarrow> (JsonError 404 ''node not found'', s)
                   | Some n \<Rightarrow>
                       (case randomHex env 10 s of (rid, s1) \<Rightarrow>
                       (case effect (ev_Now env) s1 of (now, s2) \<Rightarrow>
                          let f = i\<lparr>pf_ID := rid, pf_Enabled := True, pf_CreatedAt := now\<rparr> in
                          (case agentDo env n ''POST'' ''/v1/forwards'' (Some (forward_json f)) s2 of
                             (Some e, s3) \<Rightarrow> (JsonError 400 (err_msg e), s3)
                           | (None, s3) \<Rightarrow>
                               (JsonWrite 201 (ForwardCreated f),
                                audit_now env r ''create'' (''forward:'' @ pf_ID f)
                                  (UpdateST (ev_save env)
                                     (\<lambda>st. st\<lparr>st_Forwards := st_Forwards st @ [f]\<rparr>) s3))))))))
      else (JsonError 405 ''method not allowed'', s))"

text \<open>The loop over the forwards keeps the last match; without one the node ID is empty.\<close>

definition forward_node :: "State \<Rightarrow> string \<Rightarrow> string" where
  "forward_node st rid =
     fold (\<lambda>f n. if pf_ID f = rid then pf_NodeID f else n) (st_Forwards st) []"

definition handleForwardItem ::
  "'w env \<Rightarrow> 'b request \<Rightarrow> string \<Rightarrow> 'w Store \<Rightarrow> ops_payload response \<times> 'w Store" where
  "handleForwardItem env r rid s =
     (if rq_Method r \<noteq> ''DELETE'' \<or> requireRole r ''operator'' \<noteq> None
      then (JsonError 405 ''method not allowed'', s)
      else
        let st = cloneState (store_st s);
            s1 = delete_on env (findNode st (forward_node st rid)) (''/v1/forwards/'' @ PathEscape rid) s;
            s2 = UpdateST (ev_save env) (\<lambda>st. st\<lparr>st_Forwards := deleteByID (st_Forwards st) rid pf_ID\<rparr>) s1
        in (JsonWrite 200 OpsOK, audit_now env r ''delete'' (''forward:'' @ rid) s2))"

text \<open>The query parameters of the log view are arguments.\<close>

definition handleLogs ::
  "'w env \<Rightarrow> (string \<Rightarrow> go_error + json) \<Rightarrow> string \<Rightarrow> string \<Rightarrow> string \<Rightarrow> 'w Store \<Rightarrow>
   ops_payload response \<times> 'w Store" where
  "handleLogs env decode nodeID unit lines0 s =
     (let lines = (if lines0 = [] then ''200'' else lines0) in
      case findNode (cloneState (store_st s)) nodeID of
        None \<Rightarrow> (JsonError 404 ''node not found'', s)
      | Some n \<Rightarrow>
          (case agentJSON env n ''GET'' (''/v1/logs?unit='' @ QueryEscape unit @ ''&lines='' @ QueryEscape lines)
                  None (Some decode) JNull s of
             (Inl e, s1) \<Rightarrow> (JsonError 400 (err_msg e), s1)
           | (Inr out, s1) \<Rightarrow> (JsonWrite 200 (OpsAgent out), s1)))"

section \<open>Properties\<close>

text \<open>
  The two ends of a tunnel get different addresses, both inside the tunnel's network and both
  different from the address the network was given with, whatever the family of the network.
\<close>

lemma derive_pair_distinct:
  assumes "derivePair cidr = Inr (srcCIDR, dstCIDR, srcIP, dstIP)"
  shows "\<exists>ip n a b. ParseCIDR cidr = Some (ip, n) \<and> srcIP = ip_String a \<and> dstIP = ip_String b \<and>
           srcCIDR = srcIP @ ''/'' @ Itoa (int (mask_Size (net_Mask n))) \<and>
           dstCIDR = dstIP @ ''/'' @ Itoa (int (mask_Size (net_Mask n))) \<and>
           net_Contains n a \<and> net_Contains n b \<and> distinct [ip, a, b] \<and>
           ip_val a = (ip_val ip + 1) mod 256 ^ 16 \<and> ip_val b = (ip_val ip + 2) mod 256 ^ 16"
proof -
  obtain ip n where p: "ParseCIDR cidr = Some (ip, n)"
    using assms by (auto simp: derivePair_def split: option.splits)
  let ?a = "incIP ip" and ?b = "incIP (incIP ip)"
  have len: "length ip = 16" by (rule ParseCIDR_length [OF p])
  have "(incIP ^^ 1) ip \<noteq> ip" "(incIP ^^ 2) ip \<noteq> ip" "(incIP ^^ 1) ?a \<noteq> ?a"
    by (rule incs_moves; simp add: len)+
  then have moves: "?a \<noteq> ip" "?b \<noteq> ip" "?b \<noteq> ?a" by (simp_all add: numeral_2_eq_2)
  have vals: "ip_val ?a = (ip_val ip + 1) mod 256 ^ 16" "ip_val ?b = (ip_val ip + 2) mod 256 ^ 16"
    using ip_val_incs [of 1 ip] ip_val_incs [of 2 ip] by (simp_all add: len numeral_2_eq_2)
  have in_net: "net_Contains n ?a" "net_Contains n ?b"
    and out: "srcIP = ip_String ?a" "dstIP = ip_String ?b"
      "srcCIDR = ip_String ?a @ ''/'' @ Itoa (int (mask_Size (net_Mask n)))"
      "dstCIDR = ip_String ?b @ ''/'' @ Itoa (int (mask_Size (net_Mask n)))"
    using assms by (auto simp: derivePair_def p Let_def split: if_splits)
  show ?thesis
    using p moves vals in_net out by (intro exI [of _ ip] exI [of _ n] exI [of _ ?a] exI [of _ ?b]) auto
qed

lemma derive_pair_distinct_witness:
  "derivePair ''10.20.0.0/30'' = Inr (''10.20.0.1/30'', ''10.20.0.2/30'', ''10.20.0.1'', ''10.20.0.2'') \<and>
   ParseCIDR ''10.20.0.0/30'' \<noteq> None"
proof -
  have d: "derivePair ''10.20.0.0/30'' = Inr (''10.20.0.1/30'', ''10.20.0.2/30'', ''10.20.0.1'', ''10.20.0.2'')"
    by code_simp
  from derive_pair_distinct [OF d] d show ?thesis by auto
qed

text \<open>The failures since the last success, on top of those counted before the first probe.\<close>

fun failures_after :: "int \<Rightarrow> (time \<times> (go_error + NodeMetrics)) list \<Rightarrow> int" where
  "failures_after k [] = k"
| "failures_after k ((t, Inl e) # rs) = failures_after (k + 1) rs"
| "failures_after k ((t, Inr m) # rs) = failures_after 0 rs"

definition working :: "Node \<Rightarrow> bool" where
  "working n \<longleftrightarrow>
     n_Enabled n \<and> \<not> n_Maintenance n \<and> 0 \<le> n_FailureCount n \<and>
     n_Status n = nodeStatusAfterProbe True False (n_FailureCount n)"

text \<open>
  The status of a node that takes work follows from its probes alone: after any sequence of them
  it is online when the last one succeeded, degraded after one or two failures since, and offline
  from the third failure on.
\<close>

lemma probe_status_counts:
  assumes "working n" "n_FailureCount n + int (length rs) < 2 ^ 63"
  shows "working (fold (\<lambda>(t, r). probe_written t r) rs n) \<and>
         n_FailureCount (fold (\<lambda>(t, r). probe_written t r) rs n) = failures_after (n_FailureCount n) rs"
  using assms
proof (induction rs arbitrary: n)
  case (Cons x rs)
  obtain t r where x: "x = (t, r)" by (cases x)
  show ?case
  proof (cases r)
    case (Inl e)
    have c: "int64 (n_FailureCount n + 1) = n_FailureCount n + 1"
      using Cons.prems by (intro int64_id) (simp_all add: working_def)
    have "working (probe_written t r n)" "n_FailureCount (probe_written t r n) = n_FailureCount n + 1"
      using Cons.prems by (simp_all add: Inl probe_written_def Let_def working_def c)
    moreover from this Cons.prems(2) have "n_FailureCount (probe_written t r n) + int (length rs) < 2 ^ 63" by simp
    ultimately show ?thesis using Cons.IH [of "probe_written t r n"] by (simp add: x Inl)
  next
    case (Inr m)
    have w: "working (probe_written t r n)" "n_FailureCount (probe_written t r n) = 0"
      using Cons.prems by (simp_all add: Inr probe_written_def Let_def working_def nodeStatusAfterProbe_def)
    moreover have "0 + int (length rs) < 2 ^ 63" using Cons.prems by (simp add: working_def)
    ultimately show ?thesis using Cons.IH [of "probe_written t r n"] by (simp add: x Inr)
  qed
qed simp

definition sample_probes :: "(time \<times> (go_error + NodeMetrics)) list" where
  "sample_probes = [(1, Inl (Plain ''timeout'')), (2, Inr (n_Metrics sample_node)),
     (3, Inl (Plain ''timeout'')), (4, Inl (Plain ''timeout'')), (5, Inl (Plain ''timeout''))]"

lemma probe_status_counts_witness:
  "n_Status (fold (\<lambda>(t, r). probe_written t r) sample_probes (sample_node\<lparr>n_Status := ''online'', n_FailureCount := 0\<rparr>)) =
   NodeStatusOffline"
proof -
  let ?n = "sample_node\<lparr>n_Status := ''online'', n_FailureCount := 0\<rparr>"
  have w: "working ?n" by code_simp
  have "n_FailureCount ?n + int (length sample_probes) < 2 ^ 63" by (simp add: sample_probes_def)
  from probe_status_counts [OF w this] show ?thesis
    by (simp add: working_def nodeStatusAfterProbe_def sample_probes_def)
qed

text \<open>
  The result of a successful probe is written over whatever became of the node meanwhile: a node that
  was disabled, or put into maintenance, between the request and the answer ends up online.
\<close>

lemma probe_overrides_disable:
  "n_Status (probe_written now (Inr m) (x\<lparr>n_Enabled := False, n_Status := NodeStatusDisabled\<rparr>)) = NodeStatusOnline"
  "n_Status (probe_written now (Inl e) (x\<lparr>n_Enabled := False, n_Status := NodeStatusDisabled\<rparr>)) = NodeStatusDisabled"
  by (simp_all add: probe_written_def nodeStatusAfterProbe_def Let_def)

end
