(* ===== verification/Nodes.thy ===== *)
theory Nodes
  imports Tunnels
begin

text \<open>
  The nodes, src/internal/panel/server.go: handleNodes and handleNodeItem. A handler that starts a
  probe in a goroutine answers before the probe runs; the probes it starts are the middle component
  of its result.
\<close>

record node_input =
  ni_Name :: string
  ni_Role :: string
  ni_PublicIP :: string
  ni_AgentURL :: string
  ni_AgentToken :: string
  ni_InternetInterface :: string
  ni_Tags :: "string list option"

datatype node_payload =
    NodeList "Node list" | NodeSaved "Node option" | NodeView Node "Tunnel list" | NodeOK
  | NodeMetricsView Node | NodeTunnels "Tunnel list"

definition url_ok :: "string \<Rightarrow> bool" where
  "url_ok u \<longleftrightarrow> HasPrefix u ''http://'' \<or> HasPrefix u ''https://''"

definition url_error :: string where
  "url_error = ''agent URL must start with http:// or https://''"

definition defaultString :: "string \<Rightarrow> string \<Rightarrow> string" where
  "defaultString v d = (if TrimSpace v = [] then d else v)"

definition new_node :: "NodeMetrics \<Rightarrow> string \<Rightarrow> time \<Rightarrow> string \<Rightarrow> node_input \<Rightarrow> Node" where
  "new_node zero rid now enc i =
     \<lparr>n_ID = rid, n_Name = TrimSpace (ni_Name i), n_Role = TrimSpace (ni_Role i),
      n_PublicIP = TrimSpace (ni_PublicIP i), n_AgentURL = TrimRightSlash (TrimSpace (ni_AgentURL i)),
      n_AgentTokenEnc = enc,
      n_InternetInterface = defaultString (TrimSpace (ni_InternetInterface i)) ''eth0'',
      n_Enabled = True, n_Maintenance = False, n_Status = NodeStatusUnknown, n_FailureCount = 0,
      n_LastError = [], n_Tags = [], n_LastSeen = 0, n_Metrics = zero, n_CreatedAt = now, n_UpdatedAt = now\<rparr>"

text \<open>The error of the save is dropped: the answer is 201 even when nothing was stored.\<close>

definition handleNodes ::
  "'w env \<Rightarrow> NodeMetrics \<Rightarrow> node_input request \<Rightarrow> 'w Store \<Rightarrow> node_payload response \<times> string list \<times> 'w Store" where
  "handleNodes env zero r s =
     (if rq_Method r = ''GET'' then (JsonWrite 200 (NodeList (st_Nodes (cloneState (store_st s)))), [], s)
      else if rq_Method r = ''POST'' then
        (if requireRole r ''admin'' \<noteq> None then (JsonError 403 ''forbidden'', [], s)
         else (case rq_Body r of
           Inl e \<Rightarrow> (JsonError 400 (err_msg e), [], s)
         | Inr i \<Rightarrow>
             if \<not> url_ok (ni_AgentURL i) then (JsonError 400 url_error, [], s)
             else
               (case effect (ev_Seal env (ni_AgentToken i)) s of
                  (Inl e, s1) \<Rightarrow> (JsonError 500 (err_msg e), [], s1)
                | (Inr enc, s1) \<Rightarrow>
                    (case effect (ev_Now env) s1 of (now, s2) \<Rightarrow>
                    (case randomHex env 12 s2 of (rid, s3) \<Rightarrow>
                       let n = new_node zero rid now enc i in
                       (JsonWrite 201 (NodeSaved (Some n)), [rid],
                        audit_now env r ''create'' (''node:'' @ n_Name n)
                          (UpdateST (ev_save env) (\<lambda>st. st\<lparr>st_Nodes := st_Nodes st @ [n]\<rparr>) s3)))))))
      else (JsonError 405 ''method not allowed'', [], s))"

definition node_tunnels :: "State \<Rightarrow> string \<Rightarrow> Tunnel list" where
  "node_tunnels st rid = filter (\<lambda>t. t_SourceNodeID t = rid \<or> t_DestinationNodeID t = rid) (st_Tunnels st)"

definition over :: "string \<Rightarrow> string \<Rightarrow> string" where
  "over old v = (if TrimSpace v = [] then old else TrimSpace v)"

definition edit_node :: "time \<Rightarrow> string \<Rightarrow> node_input \<Rightarrow> Node \<Rightarrow> Node" where
  "edit_node now enc i n =
     n\<lparr>n_Name := over (n_Name n) (ni_Name i), n_Role := over (n_Role n) (ni_Role i),
       n_PublicIP := over (n_PublicIP n) (ni_PublicIP i),
       n_AgentURL := (if TrimSpace (ni_AgentURL i) = [] then n_AgentURL n
                      else TrimRightSlash (TrimSpace (ni_AgentURL i))),
       n_InternetInterface := over (n_InternetInterface n) (ni_InternetInterface i),
       n_AgentTokenEnc := (if enc = [] then n_AgentTokenEnc n else enc),
       n_Tags := (case ni_Tags i of None \<Rightarrow> n_Tags n | Some ts \<Rightarrow> ts), n_UpdatedAt := now\<rparr>"

definition edit_node_update :: "string \<Rightarrow> (Node \<Rightarrow> Node) \<Rightarrow> State \<Rightarrow> go_error + State" where
  "edit_node_update rid f st =
     (if findNode st rid = None then Inl (Plain ''node not found'') else Inr (updNode rid f st))"

definition delete_node_update :: "string \<Rightarrow> State \<Rightarrow> go_error + State" where
  "delete_node_update rid st =
     (if findNode st rid = None then Inl (Plain ''node not found'')
      else case validateNodeDeleteReferences st rid of
             Some e \<Rightarrow> Inl e
           | None \<Rightarrow> Inr (st\<lparr>st_Nodes := deleteByID (st_Nodes st) rid n_ID\<rparr>))"

definition switch_node :: "time \<Rightarrow> bool \<Rightarrow> Node \<Rightarrow> Node" where
  "switch_node now enable n =
     (let n1 = n\<lparr>n_Enabled := enable, n_UpdatedAt := now\<rparr> in
      if enable then n1\<lparr>n_Status := NodeStatusUnknown, n_FailureCount := 0, n_LastError := []\<rparr>
      else n1\<lparr>n_Status := NodeStatusDisabled\<rparr>)"

definition maintain_node :: "time \<Rightarrow> bool \<Rightarrow> Node \<Rightarrow> Node" where
  "maintain_node now enabled n =
     (let n1 = n\<lparr>n_Maintenance := enabled, n_UpdatedAt := now\<rparr> in
      if \<not> n_Enabled n then n1\<lparr>n_Status := NodeStatusDisabled\<rparr>
      else if enabled then n1\<lparr>n_Status := NodeStatusMaintenance\<rparr>
      else n1\<lparr>n_Status := NodeStatusUnknown, n_FailureCount := 0, n_LastError := []\<rparr>)"

text \<open>The token is sealed only when one is given; an empty result stands for none.\<close>

definition seal_token :: "'w env \<Rightarrow> string \<Rightarrow> 'w Store \<Rightarrow> (go_error + string) \<times> 'w Store" where
  "seal_token env token s =
     (if TrimSpace token = [] then (Inr [], s) else effect (ev_Seal env token) s)"

definition node_saved :: "string \<Rightarrow> 'w Store \<Rightarrow> node_payload response" where
  "node_saved rid s = JsonWrite 200 (NodeSaved (findNode (cloneState (store_st s)) rid))"

definition updateNode ::
  "'w env \<Rightarrow> node_input request \<Rightarrow> string \<Rightarrow> 'w Store \<Rightarrow> node_payload response \<times> string list \<times> 'w Store" where
  "updateNode env r rid s =
     (case rq_Body r of
        Inl e \<Rightarrow> (JsonError 400 (err_msg e), [], s)
      | Inr i \<Rightarrow>
          if ni_AgentURL i \<noteq> [] \<and> \<not> url_ok (ni_AgentURL i) then (JsonError 400 url_error, [], s)
          else
            (case seal_token env (ni_AgentToken i) s of
               (Inl e, s1) \<Rightarrow> (JsonError 500 (err_msg e), [], s1)
             | (Inr enc, s1) \<Rightarrow>
                 (case effect (ev_Now env) s1 of (now, s2) \<Rightarrow>
                 (case UpdateE (ev_save env) (edit_node_update rid (edit_node now enc i)) s2 of
                    (Some e, s3) \<Rightarrow> (JsonError 404 (err_msg e), [], s3)
                  | (None, s3) \<Rightarrow>
                      let s4 = audit_now env r ''update'' (''node:'' @ rid) s3
                      in (node_saved rid s4, [rid], s4)))))"

definition node_error :: "go_error \<Rightarrow> node_payload response" where
  "node_error e = JsonError (if err_msg e = ''node not found'' then 404 else 409) (err_msg e)"

definition node_row ::
  "'w env \<Rightarrow> node_input request \<Rightarrow> string \<Rightarrow> 'w Store \<Rightarrow> node_payload response \<times> string list \<times> 'w Store" where
  "node_row env r rid s =
     (if rq_Method r = ''GET'' then
        (case findNode (cloneState (store_st s)) rid of
           None \<Rightarrow> (JsonError 404 ''node not found'', [], s)
         | Some n \<Rightarrow> (JsonWrite 200 (NodeView n (node_tunnels (cloneState (store_st s)) rid)), [], s))
      else if rq_Method r = ''PUT'' then
        (if requireRole r ''admin'' \<noteq> None then (JsonError 403 ''forbidden'', [], s) else updateNode env r rid s)
      else if rq_Method r = ''DELETE'' then
        (if requireRole r ''admin'' \<noteq> None then (JsonError 403 ''forbidden'', [], s)
         else (case UpdateE (ev_save env) (delete_node_update rid) s of
                 (Some e, s1) \<Rightarrow> (node_error e, [], s1)
               | (None, s1) \<Rightarrow> (JsonWrite 200 NodeOK, [], audit_now env r ''delete'' (''node:'' @ rid) s1)))
      else (JsonError 405 ''method not allowed'', [], s))"

text \<open>enable, disable and maintenance write the node, log it, and may start a probe.\<close>

definition set_node ::
  "'w env \<Rightarrow> 'b request \<Rightarrow> string \<Rightarrow> string \<Rightarrow> (time \<Rightarrow> Node \<Rightarrow> Node) \<Rightarrow> bool \<Rightarrow> 'w Store \<Rightarrow>
   node_payload response \<times> string list \<times> 'w Store" where
  "set_node env r action rid f probe s =
     (case effect (ev_Now env) s of (now, s1) \<Rightarrow>
     (case UpdateE (ev_save env) (edit_node_update rid (f now)) s1 of
        (Some e, s2) \<Rightarrow> (JsonError 404 (err_msg e), [], s2)
      | (None, s2) \<Rightarrow>
          let s3 = audit_now env r action (''node:'' @ rid) s2
          in (node_saved rid s3, (if probe then [rid] else []), s3)))"

definition probe_now ::
  "'w env \<Rightarrow> (string \<Rightarrow> go_error + NodeMetrics) \<Rightarrow> NodeMetrics \<Rightarrow> 'b request \<Rightarrow> string \<Rightarrow> string \<Rightarrow>
   'w Store \<Rightarrow> node_payload response \<times> string list \<times> 'w Store" where
  "probe_now env decode zero r action rid s =
     (if rq_Method r \<noteq> ''POST'' then (JsonError 405 ''method not allowed'', [], s)
      else if requireRole r ''operator'' \<noteq> None then (JsonError 403 ''forbidden'', [], s)
      else if findNode (cloneState (store_st s)) rid = None then (JsonError 404 ''node not found'', [], s)
      else
        let s1 = probeNode env decode zero rid s;
            s2 = (if action = ''sync'' then audit_now env r ''sync'' (''node:'' @ rid) s1 else s1)
        in (node_saved rid s2, [], s2))"

definition node_action ::
  "'w env \<Rightarrow> (string \<Rightarrow> go_error + NodeMetrics) \<Rightarrow> NodeMetrics \<Rightarrow> 'b request \<Rightarrow> go_error + bool \<Rightarrow>
   string \<Rightarrow> string \<Rightarrow> 'w Store \<Rightarrow> node_payload response \<times> string list \<times> 'w Store" where
  "node_action env decode zero r maintenance action rid s =
     (if action \<in> {''probe'', ''sync''} then probe_now env decode zero r action rid s
      else if action \<in> {''enable'', ''disable''} then
        (if rq_Method r \<noteq> ''POST'' then (JsonError 405 ''method not allowed'', [], s)
         else if requireRole r ''admin'' \<noteq> None then (JsonError 403 ''forbidden'', [], s)
         else set_node env r action rid (\<lambda>now. switch_node now (action = ''enable'')) (action = ''enable'') s)
      else if action = ''maintenance'' then
        (if rq_Method r \<noteq> ''POST'' then (JsonError 405 ''method not allowed'', [], s)
         else if requireRole r ''admin'' \<noteq> None then (JsonError 403 ''forbidden'', [], s)
         else (case maintenance of
           Inl e \<Rightarrow> (JsonError 400 (err_msg e), [], s)
         | Inr on \<Rightarrow> set_node env r ''maintenance'' rid (\<lambda>now. maintain_node now on) (\<not> on) s))
      else if action = ''metrics'' then
        (if rq_Method r \<noteq> ''GET'' then (JsonError 405 ''method not allowed'', [], s)
         else (case findNode (cloneState (store_st s)) rid of
           None \<Rightarrow> (JsonError 404 ''node not found'', [], s)
         | Some n \<Rightarrow> (JsonWrite 200 (NodeMetricsView n), [], s)))
      else if action = ''tunnels'' then
        (if rq_Method r \<noteq> ''GET'' then (JsonError 405 ''method not allowed'', [], s)
         else if findNode (cloneState (store_st s)) rid = None then (JsonError 404 ''node not found'', [], s)
         else (JsonWrite 200 (NodeTunnels (node_tunnels (cloneState (store_st s)) rid)), [], s))
      else (JsonError 404 ''not found'', [], s))"

definition handleNodeItem ::
  "'w env \<Rightarrow> (string \<Rightarrow> go_error + NodeMetrics) \<Rightarrow> NodeMetrics \<Rightarrow> node_input request \<Rightarrow>
   go_error + bool \<Rightarrow> string \<Rightarrow> 'w Store \<Rightarrow> node_payload response \<times> string list \<times> 'w Store" where
  "handleNodeItem env decode zero r maintenance rest s =
     (let parts = SplitSlash (TrimSlash rest); rid = hd parts in
      if rid = [] then (JsonError 404 ''node not found'', [], s)
      else if length parts = 1 then node_row env r rid s
      else if length parts \<noteq> 2 then (JsonError 404 ''not found'', [], s)
      else node_action env decode zero r maintenance (parts ! 1) rid s)"

end
