(* ===== verification/Api.thy ===== *)
theory Api
  imports Accounts Nodes InboundIntegrity
begin

text \<open>
  The panel's interface as a whole, src/internal/panel/server.go: routes, the middleware in front of
  the API and handleAPI, which calls the handlers of every component. The record api has the server
  and the decoders of the standard library, one for each kind of body and reply. A request that never
  returns (a traffic reset that loops forever) is None.
\<close>

record 'w api =
  ap_server :: "'w server"
  ap_iter :: "string list \<Rightarrow> string list"
  ap_rule_sort :: rule_sort
  ap_group_sort :: group_sort
  ap_map :: "string \<Rightarrow> go_error + json"
  ap_peer :: "string \<Rightarrow> go_error + peerResponse"
  ap_metrics :: "string \<Rightarrow> go_error + NodeMetrics"
  ap_probe :: "string \<Rightarrow> go_error + outboundProbeResponse"
  ap_runtime :: "string \<Rightarrow> go_error + wgRuntimeStat list"
  ap_stats :: "string \<Rightarrow> go_error + normalizedXrayUserStat list"
  ap_User :: "string \<Rightarrow> go_error + User"
  ap_user_edit :: "string \<Rightarrow> go_error + user_edit"
  ap_wgCreate :: "string \<Rightarrow> go_error + wgCreate"
  ap_renew :: "string \<Rightarrow> go_error + int"
  ap_apply :: "string \<Rightarrow> go_error + (string \<times> bool)"
  ap_Plan :: "string \<Rightarrow> go_error + Plan"
  ap_node_create :: "string \<Rightarrow> go_error + node_input"
  ap_node_edit :: "string \<Rightarrow> go_error + node_input"
  ap_maintenance :: "string \<Rightarrow> go_error + bool"
  ap_inbound :: "string \<Rightarrow> go_error + inboundCreate"
  ap_inbound_user :: "string \<Rightarrow> go_error + string"
  ap_outbound :: "string \<Rightarrow> go_error + outboundInput"
  ap_group :: "string \<Rightarrow> go_error + OutboundGroup"
  ap_rule :: "string \<Rightarrow> go_error + RoutingRule"
  ap_tunnel :: "string \<Rightarrow> go_error + tunnelCreate"
  ap_forward :: "string \<Rightarrow> go_error + PortForward"
  ap_admin :: "string \<Rightarrow> go_error + admin_input"
  ap_settings :: "string \<Rightarrow> go_error + (string \<times> string) list"
  ap_credentials :: "string \<Rightarrow> go_error + credentials"

definition ap_env :: "'w api \<Rightarrow> 'w env" where
  "ap_env ap = sv_env (ap_server ap)"

definition zero_metrics :: NodeMetrics where
  "zero_metrics =
     \<lparr>nm_Hostname = [], nm_Kernel = [], nm_CoreVersion = [], nm_UptimeSeconds = 0, nm_Load1 = 0,
      nm_Load5 = 0, nm_Load15 = 0, nm_MemoryTotal = 0, nm_MemoryAvailable = 0, nm_DiskTotal = 0,
      nm_DiskFree = 0, nm_NetworkRX = 0, nm_NetworkTX = 0\<rparr>"

datatype api_payload =
    PMe authInfo | PDashboard dashboard | PAccount account_payload | PNode node_payload
  | PInbound inbound_payload | POutbound outbound_payload | PGroup group_payload
  | PRouting routing_payload | PTraffic wg_payload | POps ops_payload | PAuth auth_payload | PSync

section \<open>The traffic synchronisation on demand\<close>

text \<open>An agent call does not read the state, so it is a function on the world.\<close>

definition on_world :: "('w Store \<Rightarrow> 'a \<times> 'w Store) \<Rightarrow> 'w \<Rightarrow> 'a \<times> 'w" where
  "on_world f w =
     (case f \<lparr>store_st = emptyState, store_world = w\<rparr> of (a, s) \<Rightarrow> (a, store_world s))"

definition get_list :: "'w env \<Rightarrow> string \<Rightarrow> (string \<Rightarrow> go_error + 'a list) \<Rightarrow> ('a list, 'w) agent_get" where
  "get_list env path decode n = on_world (agentJSON env n ''GET'' path None (Some decode) [])"

definition peer_state_body :: "VPNPeer \<Rightarrow> bool \<Rightarrow> json" where
  "peer_state_body p enabled =
     JObj [(''interface'', JStr (vp_Interface p)), (''public_key'', JStr (vp_PublicKey p)),
           (''client_address'', JStr (vp_Address p)), (''enabled'', JBool enabled)]"

definition peer_state :: "'w env \<Rightarrow> 'w peer_state_call" where
  "peer_state env n p enabled =
     on_world (agentDo env n ''POST'' ''/v1/wireguard/peer-state'' (Some (peer_state_body p enabled)))"

text \<open>syncWireGuard with the server's agents; the four instants it reads are drawn first.\<close>

definition sync_traffic :: "'w api \<Rightarrow> 'w Store \<Rightarrow> 'w Store option" where
  "sync_traffic ap s =
     (let env = ap_env ap in
      case effect (ev_Now env) s of (now1, s1) \<Rightarrow>
      (case effect (ev_Now env) s1 of (now2, s2) \<Rightarrow>
      (case effect (ev_Now env) s2 of (now3, s3) \<Rightarrow>
      (case effect (ev_Now env) s3 of (now4, s4) \<Rightarrow>
         syncWireGuard (ev_save env) (deployXrayNode env) (peer_state env) (ap_iter ap)
           (get_list env ''/v1/wireguard/runtime'' (ap_runtime ap))
           (get_list env ''/v1/xray/stats?reset=1'' (ap_stats ap)) now1 now2 now3 now4 s4))))"

section \<open>The dispatcher\<close>

type_synonym 'w api_result = "api_payload response \<times> string list \<times> 'w Store"

definition answer :: "('a \<Rightarrow> api_payload) \<Rightarrow> 'a response \<times> 'w Store \<Rightarrow> 'w api_result option" where
  "answer wrap a = Some (map_response wrap (fst a), [], snd a)"

definition answer_node :: "node_payload response \<times> string list \<times> 'w Store \<Rightarrow> 'w api_result option" where
  "answer_node a = Some (map_response PNode (fst a), fst (snd a), snd (snd a))"

definition user_bodies_of :: "'w api \<Rightarrow> string \<Rightarrow> user_bodies" where
  "user_bodies_of ap b =
     \<lparr>ub_Edit = ap_user_edit ap b, ub_Peer = ap_wgCreate ap b,
      ub_Action = \<lparr>ain_renew = ap_renew ap b, ain_apply = ap_apply ap b\<rparr>\<rparr>"

definition query_get :: "http_in \<Rightarrow> string \<Rightarrow> string" where
  "query_get q k = (case map_of (hq_Query q) k of Some v \<Rightarrow> v | None \<Rightarrow> [])"

definition no_body :: "string \<Rightarrow> go_error + unit" where
  "no_body b = Inr ()"

text \<open>The cases of the switch in their order; the first half, then the second.\<close>

definition api_admin_part :: "'w api \<Rightarrow> authInfo \<Rightarrow> http_in \<Rightarrow> string \<Rightarrow> 'w Store \<Rightarrow> 'w api_result option" where
  "api_admin_part ap ai q p s =
     (let env = ap_env ap; sv = ap_server ap; st = cloneState (store_st s) in
      if p = ''logs'' then
        answer POps (handleLogs env (ap_map ap) (query_get q ''node_id'') (query_get q ''unit'')
          (query_get q ''lines'') s)
      else if p = ''audit'' then answer PAuth (handleAudit (request_of ai q no_body) st, s)
      else if p = ''admins'' then answer PAuth (handleAdmins sv (request_of ai q (ap_admin ap)) s)
      else if HasPrefix p ''admins/'' then
        answer PAuth (handleAdminItem sv (request_of ai q no_body) (TrimPrefix p ''admins/'') s)
      else if p = ''settings'' then answer PAuth (handleSettings env (request_of ai q (ap_settings ap)) s)
      else if p = ''sync-traffic'' then
        (if requireRole (request_of ai q no_body) ''operator'' \<noteq> None then Some (JsonError 403 ''forbidden'', [], s)
         else map_option (\<lambda>s'. (JsonWrite 200 PSync, [], s')) (sync_traffic ap s))
      else Some (JsonError 404 ''not found'', [], s))"

definition api_net_part :: "'w api \<Rightarrow> authInfo \<Rightarrow> http_in \<Rightarrow> string \<Rightarrow> 'w Store \<Rightarrow> 'w api_result option" where
  "api_net_part ap ai q p s =
     (let env = ap_env ap; st = cloneState (store_st s) in
      if p = ''outbound-groups'' then
        answer PGroup (handleOutboundGroups env (ap_group_sort ap) (request_of ai q (ap_group ap)) s)
      else if HasPrefix p ''outbound-groups/'' then
        answer PGroup (handleOutboundGroupItem env (request_of ai q (ap_group ap))
          (TrimPrefix p ''outbound-groups/'') s)
      else if p = ''routing'' then
        answer PRouting (handleRoutingRules env (ap_rule_sort ap) (request_of ai q (ap_rule ap)) s)
      else if HasPrefix p ''routing/'' then
        answer PRouting (handleRoutingRuleItem env (request_of ai q (ap_rule ap)) (TrimPrefix p ''routing/'') s)
      else if p = ''online-users'' then answer PTraffic (handleOnlineUsers (request_of ai q no_body) st, s)
      else if p = ''traffic'' then answer PTraffic (handleTrafficSummary (request_of ai q no_body) st, s)
      else if p = ''tunnels'' then answer POps (handleTunnels env (request_of ai q (ap_tunnel ap)) s)
      else if HasPrefix p ''tunnels/'' then
        answer POps (handleTunnelItem env (ap_map ap) (request_of ai q no_body) (TrimPrefix p ''tunnels/'') s)
      else if p = ''forwards'' then answer POps (handleForwards env (request_of ai q (ap_forward ap)) s)
      else if HasPrefix p ''forwards/'' then
        answer POps (handleForwardItem env (request_of ai q no_body) (TrimPrefix p ''forwards/'') s)
      else api_admin_part ap ai q p s)"

definition handleAPI :: "'w api \<Rightarrow> authInfo \<Rightarrow> http_in \<Rightarrow> 'w Store \<Rightarrow> 'w api_result option" where
  "handleAPI ap ai q s =
     (let env = ap_env ap; st = cloneState (store_st s); p = TrimPrefix (hq_Path q) ''/api/'' in
      if p = ''me'' then Some (JsonWrite 200 (PMe ai), [], s)
      else if p = ''dashboard'' then Some (JsonWrite 200 (PDashboard (handleDashboard st)), [], s)
      else if p = ''users'' then answer PAccount (handleUsers env (request_of ai q (ap_User ap)) s)
      else if HasPrefix p ''users/'' then
        answer PAccount (handleUserItem env (ap_map ap) (ap_peer ap) (request_of ai q no_body)
          (user_bodies_of ap (hq_Body q)) (TrimPrefix p ''users/'') s)
      else if p = ''plans'' then answer PAccount (handlePlans env (request_of ai q (ap_Plan ap)) s)
      else if HasPrefix p ''plans/'' then
        answer PAccount (handlePlanItem env (request_of ai q (ap_Plan ap)) (TrimPrefix p ''plans/'') s)
      else if p = ''nodes'' then
        answer_node (handleNodes env zero_metrics (request_of ai q (ap_node_create ap)) s)
      else if HasPrefix p ''nodes/'' then
        answer_node (handleNodeItem env (ap_metrics ap) zero_metrics (request_of ai q (ap_node_edit ap))
          (ap_maintenance ap (hq_Body q)) (TrimPrefix p ''nodes/'') s)
      else if p = ''inbounds'' then answer PInbound (handleInbounds env (request_of ai q (ap_inbound ap)) s)
      else if HasPrefix p ''inbounds/'' then
        answer PInbound (handleInboundItem env (ap_map ap) (request_of ai q (ap_inbound ap))
          (ap_inbound_user ap (hq_Body q)) (TrimPrefix p ''inbounds/'') s)
      else if p = ''outbounds'' then answer POutbound (handleOutboundsV2 env (request_of ai q (ap_outbound ap)) s)
      else if HasPrefix p ''outbounds/'' then
        answer POutbound (handleOutboundItemV2 env (ap_probe ap) (request_of ai q (ap_outbound ap))
          (TrimPrefix p ''outbounds/'') s)
      else api_net_part ap ai q p s)"

section \<open>The routes\<close>

datatype page = Index | StaticFile

datatype http_answer =
    AStatus status_answer
  | ARelease "ReleaseInfo response"
  | AAuth "auth_payload response" "cookie list"
  | AApi "api_payload response"
  | ASubscription "string option"
  | AStatusOK
  | APage page

text \<open>The last path segment.\<close>

definition path_base :: "string \<Rightarrow> string" where
  "path_base path = (case last_index (CHR 0x2F) path of None \<Rightarrow> path | Some i \<Rightarrow> drop (i + 1) path)"

definition static_page :: "string \<Rightarrow> page" where
  "static_page path =
     (if path = ''/'' \<or> (CHR ''.'' \<notin> set (path_base path) \<and> \<not> HasPrefix path ''/api/'') then Index
      else StaticFile)"

definition api_request :: "'w api \<Rightarrow> http_in \<Rightarrow> 'w Store \<Rightarrow> (http_answer \<times> string list \<times> 'w Store) option" where
  "api_request ap q s =
     (case effect (ev_Now (ap_env ap)) s of (now, s1) \<Rightarrow>
        (case auth (ap_server ap) now q (cloneState (store_st s1)) of
           Inl (code, msg) \<Rightarrow> Some (AApi (JsonError code msg), [], s1)
         | Inr ai \<Rightarrow> map_option (\<lambda>(r, probes, s2). (AApi r, probes, s2)) (handleAPI ap ai q s1)))"

text \<open>
  The multiplexer of net/http: an exact pattern first, then the longest prefix; the paths are clean.
  The version strings of a release are those of an ordinary build.
\<close>

definition routes :: "'w api \<Rightarrow> http_in \<Rightarrow> 'w Store \<Rightarrow> (http_answer \<times> string list \<times> 'w Store) option" where
  "routes ap q s =
     (let sv = ap_server ap; m = hq_Method q; path = hq_Path q; st = cloneState (store_st s) in
      if path = ''/healthz'' then Some (AStatus (handleHealth m), [], s)
      else if path = ''/api/release/info'' then
        Some (ARelease (handleReleaseInfo ''dev'' ''unknown'' ''unknown'' m), [], s)
      else if path = ''/api/auth/me'' \<or> path = ''/api/dashboard/stats'' then Some (AStatusOK, [], s)
      else if path = ''/api/setup/status'' then Some (AAuth (handleSetupStatus m st) [], [], s)
      else if path = ''/api/setup'' then
        (case handleSetup sv m (ap_credentials ap (hq_Body q)) s of (r, s1) \<Rightarrow> Some (AAuth r [], [], s1))
      else if path = ''/api/auth/login'' then
        (case handleLogin sv m (ap_credentials ap (hq_Body q)) s of ((r, cs), s1) \<Rightarrow> Some (AAuth r cs, [], s1))
      else if path = ''/api/auth/logout'' then Some (AAuth (fst handleLogout) (snd handleLogout), [], s)
      else if HasPrefix path ''/sub/'' then Some (ASubscription (handleSubscription (sv_env sv) path st), [], s)
      else if HasPrefix path ''/api/'' then api_request ap q s
      else Some (APage (static_page path), [], s))"

end
