(* ===== verification/Frames.thy ===== *)
theory Frames
  imports Tunnels InboundIntegrity
begin

text \<open>
  What an operation leaves alone, one rule per construct of the code: keeps out v s x says that the
  store in the result x of an operation that began in s shows the same view v of the state; out
  finds the store in the result. A handler is taken apart by these rules, branch by branch, and a
  call in the middle of it only has to keep the view itself.
\<close>

definition kept :: "(State \<Rightarrow> 'v) \<Rightarrow> 'w Store \<Rightarrow> 'w Store \<Rightarrow> bool" where
  "kept v s s' \<longleftrightarrow> v (store_st s') = v (store_st s)"

definition keeps :: "('x \<Rightarrow> 'w Store) \<Rightarrow> (State \<Rightarrow> 'v) \<Rightarrow> 'w Store \<Rightarrow> 'x \<Rightarrow> bool" where
  "keeps out v s x \<longleftrightarrow> kept v s (out x)"

named_theorems keeps_intros \<open>the rules that take an operation apart\<close>
named_theorems keeps_calls \<open>operations that leave the table of administrators alone\<close>

section \<open>The constructs\<close>

lemma kept_refl [keeps_intros]: "kept v s s"
  by (simp add: kept_def)

lemma kept_trans: "kept v s s1 \<Longrightarrow> kept v s1 s2 \<Longrightarrow> kept v s s2"
  by (simp add: kept_def)

lemma keeps_pair [keeps_intros]: "kept v s s' \<Longrightarrow> keeps snd v s (r, s')"
  by (simp add: keeps_def)

lemma keeps_triple [keeps_intros]: "kept v s s' \<Longrightarrow> keeps (\<lambda>x. snd (snd x)) v s (r, p, s')"
  by (simp add: keeps_def)

lemma keeps_if [keeps_intros]:
  "(c \<Longrightarrow> keeps out v s a) \<Longrightarrow> (\<not> c \<Longrightarrow> keeps out v s b) \<Longrightarrow> keeps out v s (if c then a else b)"
  by simp

lemma keeps_option [keeps_intros]:
  "(x = None \<Longrightarrow> keeps out v s a) \<Longrightarrow> (\<And>y. x = Some y \<Longrightarrow> keeps out v s (f y)) \<Longrightarrow>
   keeps out v s (case x of None \<Rightarrow> a | Some y \<Rightarrow> f y)"
  by (simp split: option.split)

lemma keeps_sum [keeps_intros]:
  "(\<And>e. x = Inl e \<Longrightarrow> keeps out v s (f e)) \<Longrightarrow> (\<And>y. x = Inr y \<Longrightarrow> keeps out v s (g y)) \<Longrightarrow>
   keeps out v s (case x of Inl e \<Rightarrow> f e | Inr y \<Rightarrow> g y)"
  by (simp split: sum.split)

lemma keeps_list [keeps_intros]:
  "(x = [] \<Longrightarrow> keeps out v s a) \<Longrightarrow> (\<And>y ys. x = y # ys \<Longrightarrow> keeps out v s (f y ys)) \<Longrightarrow>
   keeps out v s (case x of [] \<Rightarrow> a | y # ys \<Rightarrow> f y ys)"
  by (simp split: list.split)

lemma keeps_let [keeps_intros]: "keeps out v s (f e) \<Longrightarrow> keeps out v s (Let e f)"
  by simp

text \<open>A call, then the rest; and a tuple without a store, by the type of its second part.\<close>

lemma keeps_bind [keeps_intros]:
  "keeps snd v s m \<Longrightarrow> (\<And>a s1. keeps out v s1 (f a s1)) \<Longrightarrow>
   keeps out v s (case m of (a, s1) \<Rightarrow> f a s1)"
  by (cases m) (auto simp: keeps_def kept_def)

lemma keeps_tuple: "(\<And>a b. m = (a, b) \<Longrightarrow> keeps out v s (f a b)) \<Longrightarrow> keeps out v s (case m of (a, b) \<Rightarrow> f a b)"
  by (cases m) simp

lemma keeps_tuple_types [keeps_intros]:
  "(\<And>a b. m1 = (a, b) \<Longrightarrow> keeps out v s (f1 a b)) \<Longrightarrow> keeps out v s (case m1 of (a, b :: 'c list) \<Rightarrow> f1 a b)"
  "(\<And>a b. m2 = (a, b) \<Longrightarrow> keeps out v s (f2 a b)) \<Longrightarrow> keeps out v s (case m2 of (a, b :: 'c \<times> 'd) \<Rightarrow> f2 a b)"
  "(\<And>a b. m3 = (a, b) \<Longrightarrow> keeps out v s (f3 a b)) \<Longrightarrow> keeps out v s (case m3 of (a, b :: 'c option) \<Rightarrow> f3 a b)"
  "(\<And>a b. m4 = (a, b) \<Longrightarrow> keeps out v s (f4 a b)) \<Longrightarrow> keeps out v s (case m4 of (a, b :: outboundInput) \<Rightarrow> f4 a b)"
  "(\<And>a b. m5 = (a, b) \<Longrightarrow> keeps out v s (f5 a b)) \<Longrightarrow> keeps out v s (case m5 of (a, b :: UserEntitlements) \<Rightarrow> f5 a b)"
  "(\<And>a b. m6 = (a, b) \<Longrightarrow> keeps out v s (f6 a b)) \<Longrightarrow> keeps out v s (case m6 of (a, b :: json) \<Rightarrow> f6 a b)"
  "(\<And>a b. m7 = (a, b) \<Longrightarrow> keeps out v s (f7 a b)) \<Longrightarrow> keeps out v s (case m7 of (a, b :: Node) \<Rightarrow> f7 a b)"
  "(\<And>a b. m8 = (a, b) \<Longrightarrow> keeps out v s (f8 a b)) \<Longrightarrow> keeps out v s (case m8 of (a, b :: int) \<Rightarrow> f8 a b)"
  by (rule keeps_tuple, assumption)+

lemma kept_if [keeps_intros]:
  "(c \<Longrightarrow> kept v s a) \<Longrightarrow> (\<not> c \<Longrightarrow> kept v s b) \<Longrightarrow> kept v s (if c then a else b)"
  by simp

lemma keeps_snd: "keeps snd v s x \<Longrightarrow> kept v s (snd x)"
  by (simp add: keeps_def)

section \<open>The primitive calls\<close>

lemma keeps_effect [keeps_calls]: "keeps snd v s (effect f s)"
  by (simp add: keeps_def kept_def frame_simps)

lemma keeps_randomHex [keeps_calls]: "keeps snd v s (randomHex env n s)"
  by (simp add: keeps_def kept_def frame_simps)

lemma keeps_agentJSON [keeps_calls]: "keeps snd v s (agentJSON env n m p b d z s)"
  by (simp add: keeps_def kept_def frame_simps)

lemma keeps_agentDo [keeps_calls]: "keeps snd v s (agentDo env n m p b s)"
  by (simp add: keeps_def kept_def frame_simps)

lemma kept_UpdateST: "(\<And>st. v (f st) = v st) \<Longrightarrow> kept v s (UpdateST save f s)"
  by (simp add: kept_def frame_simps)

lemma keeps_Update:
  "(\<And>st a st'. fn st = Inr (a, st') \<Longrightarrow> v st' = v st) \<Longrightarrow> keeps snd v s (Update save fn s)"
  by (cases "Update save fn s"; cases "fst (Update save fn s)")
     (auto simp: keeps_def kept_def dest: Update_Inl Update_Inr)

lemma keeps_UpdateE:
  "(\<And>st st'. fn st = Inr st' \<Longrightarrow> v st' = v st) \<Longrightarrow> keeps snd v s (UpdateE save fn s)"
  by (simp add: keeps_def kept_def UpdateE_frame)

lemma keeps_rollback:
  assumes "\<And>n s. keeps snd v s (deploy n s)" "\<And>s. keeps snd v s (recover s)"
    and "\<And>st st'. undo st = Inr st' \<Longrightarrow> v st' = v st"
  shows "keeps snd v s (deploy_or_rollback wrap save deploy recover undo ns s)"
proof (induction ns arbitrary: s)
  case (Cons n ns)
  show ?case
    unfolding deploy_or_rollback.simps
    by (intro keeps_bind keeps_option assms(1) assms(2) Cons.IH keeps_UpdateE assms(3) keeps_pair kept_refl)
qed (simp add: deploy_or_rollback.simps keeps_def kept_refl)

lemma keeps_redeploy:
  assumes "\<And>n s. keeps snd v s (deploy n s)"
  shows "keeps snd v s (redeployNodes ns deploy s)"
proof -

  have "deploy_frame deploy v" by unfold_locales (use assms in \<open>simp add: keeps_def kept_def\<close>)
  from deploy_frame.redeploy_view [OF this] show ?thesis by (simp add: keeps_def kept_def)
qed

end
