(* ===== verification/AdminFrames.thy ===== *)
theory AdminFrames
  imports Api Frames
begin

text \<open>
  Every operation of the API other than setup and the administrator handlers leaves the table of
  administrators alone: one fact per operation, in the collection keeps_calls, from the store update
  of each up to the handlers.
\<close>

section \<open>Deployments\<close>

lemma xray_view_admins: "xray_view st' = xray_view st \<Longrightarrow> st_Admins st' = st_Admins st"
proof -
  assume "xray_view st' = xray_view st"
  then have "st_Admins (rest_of st') = st_Admins (rest_of st)" by (simp add: xray_view_def)
  then show ?thesis by (simp add: rest_of_def)
qed

lemma deploy_admins [keeps_calls]: "keeps snd st_Admins s (deployXrayNode env n s)"
  unfolding keeps_def kept_def by (rule xray_view_admins) (rule deployXrayNode_view)

lemma deploy_outbound_admins [keeps_calls]: "keeps snd st_Admins s (deployOutboundNode env n s)"
  unfolding keeps_def kept_def by (rule xray_view_admins) (rule deployOutboundNode_view)

lemma deploy_all_admins: "kept st_Admins s (deploy_all (deployXrayNode env) ns s)"
proof (induction ns arbitrary: s)
  case (Cons n ns)
  show ?case
    unfolding deploy_all.simps by (rule kept_trans [OF keeps_snd [OF deploy_admins] Cons.IH])
qed (simp add: kept_refl)

lemma audit_now_admins:
  assumes "kept st_Admins s s1"
  shows "kept st_Admins s (audit_now env r a obj s1)"
proof -
  have "keeps id st_Admins s1 (audit_now env r a obj s1)"
    unfolding audit_now_def
    by (intro keeps_bind keeps_calls) (simp add: keeps_def kept_def frame_simps)
  then show ?thesis using assms by (simp add: keeps_def kept_def)
qed

lemma kept_then_update:
  "kept st_Admins s s1 \<Longrightarrow> (\<And>st. st_Admins (f st) = st_Admins st) \<Longrightarrow> kept st_Admins s (UpdateST save f s1)"
  using kept_trans [OF _ kept_UpdateST] .

lemma kept_then_deploy:
  "kept st_Admins s s1 \<Longrightarrow> kept st_Admins s (deploy_all (deployXrayNode env) ns s1)"
  using kept_trans [OF _ deploy_all_admins] .

lemmas kept_steps = audit_now_admins kept_then_update kept_then_deploy

section \<open>Inbounds\<close>

lemma inbound_updates_admins:
  "create_inbound_update x st = Inr st' \<Longrightarrow> st_Admins st' = st_Admins st"
  "create_inbound_undo x st = Inr st' \<Longrightarrow> st_Admins st' = st_Admins st"
  "update_inbound_update now rid i st = Inr (v, st') \<Longrightarrow> st_Admins st' = st_Admins st"
  "restoreInboundSnapshot rid before st = Inr st' \<Longrightarrow> st_Admins st' = st_Admins st"
  "set_inbound_update now rid enabled st = Inr (w, st') \<Longrightarrow> st_Admins st' = st_Admins st"
  "delete_inbound_update rid st = Inr (d, st') \<Longrightarrow> st_Admins st' = st_Admins st"
  "delete_inbound_undo rid before clients index st = Inr st' \<Longrightarrow> st_Admins st' = st_Admins st"
  "attach_write b st = Inr st' \<Longrightarrow> st_Admins st' = st_Admins st"
  "detach_update iid uid st = Inr (n, st') \<Longrightarrow> st_Admins st' = st_Admins st"
  by (auto simp: create_inbound_update_def create_inbound_undo_def update_inbound_update_def
      restoreInboundSnapshot_def set_inbound_update_def delete_inbound_update_def
      delete_inbound_undo_def attach_write_def detach_update_def updInbound_def Let_def
      split: option.splits if_splits)

lemma inbound_tx_admins [keeps_calls]:
  "keeps snd st_Admins s (createInboundTransactional save x (deployXrayNode env) s)"
  "keeps snd st_Admins s (updateInboundTransactional save now rid i (deployXrayNode env) s)"
  "keeps snd st_Admins s (setInboundEnabledTransactional save now rid enabled (deployXrayNode env) s)"
  "keeps snd st_Admins s (deleteInboundTransactional save rid (deployXrayNode env) s)"
  "keeps snd st_Admins s (attachUserToInbound env (deployXrayNode env) iid uid s)"
  "keeps snd st_Admins s (detachUserFromInbound save (deployXrayNode env) iid uid s)"
  unfolding createInboundTransactional_def updateInboundTransactional_def
    setInboundEnabledTransactional_def deleteInboundTransactional_def attachUserToInbound_def
    detachUserFromInbound_def redeployInboundNodes_def credentialForProtocol_def uuidV4_def randomCredential_def
  by (intro keeps_intros keeps_calls keeps_Update keeps_UpdateE keeps_rollback keeps_redeploy
      inbound_updates_admins; assumption)+

section \<open>Outbounds, groups and rules\<close>

lemma outbound_updates_admins:
  "create_outbound_update x st = Inr st' \<Longrightarrow> st_Admins st' = st_Admins st"
  "create_outbound_undo x st = Inr st' \<Longrightarrow> st_Admins st' = st_Admins st"
  "update_outbound_update now rid i enc st = Inr (v, st') \<Longrightarrow> st_Admins st' = st_Admins st"
  "update_outbound_undo rid before st = Inr st' \<Longrightarrow> st_Admins st' = st_Admins st"
  "set_outbound_update now rid enabled st = Inr (w, st') \<Longrightarrow> st_Admins st' = st_Admins st"
  "set_outbound_undo now rid was st = Inr st' \<Longrightarrow> st_Admins st' = st_Admins st"
  "delete_outbound_update rid st = Inr (d, st') \<Longrightarrow> st_Admins st' = st_Admins st"
  "delete_outbound_undo rid before index st = Inr st' \<Longrightarrow> st_Admins st' = st_Admins st"
  "store_health now rid res st = Inr (out, st') \<Longrightarrow> st_Admins st' = st_Admins st"
  by (auto simp: create_outbound_update_def create_outbound_undo_def update_outbound_update_def
      update_outbound_undo_def set_outbound_update_def set_outbound_undo_def delete_outbound_update_def
      delete_outbound_undo_def store_health_def updOutbound_def Let_def split: option.splits if_splits)

lemma group_updates_admins:
  "create_group_update g st = Inr st' \<Longrightarrow> st_Admins st' = st_Admins st"
  "create_group_undo g st = Inr st' \<Longrightarrow> st_Admins st' = st_Admins st"
  "update_group_update now rid g st = Inr (v, st') \<Longrightarrow> st_Admins st' = st_Admins st"
  "update_group_undo rid gb st = Inr st' \<Longrightarrow> st_Admins st' = st_Admins st"
  "delete_group_update rid st = Inr (d, st') \<Longrightarrow> st_Admins st' = st_Admins st"
  "delete_group_undo rid gb index st = Inr st' \<Longrightarrow> st_Admins st' = st_Admins st"
  by (auto simp: create_group_update_def create_group_undo_def update_group_update_def update_group_undo_def
      delete_group_update_def delete_group_undo_def updOutboundGroup_def Let_def split: option.splits if_splits)

lemma rule_updates_admins:
  "create_rule_update r st = Inr st' \<Longrightarrow> st_Admins st' = st_Admins st"
  "create_rule_undo r st = Inr st' \<Longrightarrow> st_Admins st' = st_Admins st"
  "update_rule_update now rid r st = Inr (v, st') \<Longrightarrow> st_Admins st' = st_Admins st"
  "update_rule_undo rid rb st = Inr st' \<Longrightarrow> st_Admins st' = st_Admins st"
  "delete_rule_update rid st = Inr (d, st') \<Longrightarrow> st_Admins st' = st_Admins st"
  "delete_rule_undo rid rb index st = Inr st' \<Longrightarrow> st_Admins st' = st_Admins st"
  by (auto simp: create_rule_update_def create_rule_undo_def update_rule_update_def update_rule_undo_def
      delete_rule_update_def delete_rule_undo_def updRoutingRule_def Let_def split: option.splits if_splits)

lemma net_tx_admins [keeps_calls]:
  "keeps snd st_Admins s (createOutboundTransactional save x (deployOutboundNode env) s)"
  "keeps snd st_Admins s (updateOutboundTransactional save now rid i enc (deployOutboundNode env) s)"
  "keeps snd st_Admins s (setOutboundEnabledTransactional env rid enabled (deployOutboundNode env) s)"
  "keeps snd st_Admins s (deleteOutboundTransactional save rid (deployOutboundNode env) s)"
  "keeps snd st_Admins s (createOutboundGroupTransactional save g (deployOutboundNode env) s)"
  "keeps snd st_Admins s (updateOutboundGroupTransactional save now rid g (deployOutboundNode env) s)"
  "keeps snd st_Admins s (deleteOutboundGroupTransactional save rid (deployOutboundNode env) s)"
  "keeps snd st_Admins s (createRoutingRuleTransactional save r (deployXrayNode env) s)"
  "keeps snd st_Admins s (updateRoutingRuleTransactional save now rid r (deployXrayNode env) s)"
  "keeps snd st_Admins s (deleteRoutingRuleTransactional save rid (deployXrayNode env) s)"
  unfolding createOutboundTransactional_def updateOutboundTransactional_def
    setOutboundEnabledTransactional_def deleteOutboundTransactional_def
    createOutboundGroupTransactional_def updateOutboundGroupTransactional_def
    deleteOutboundGroupTransactional_def createRoutingRuleTransactional_def
    updateRoutingRuleTransactional_def deleteRoutingRuleTransactional_def
    redeployOutboundNodes_def redeployRoutingNodes_def
  by (intro keeps_intros keeps_calls keeps_Update keeps_UpdateE keeps_rollback keeps_redeploy
      outbound_updates_admins group_updates_admins rule_updates_admins; assumption)+

lemma probe_result_kept [keeps_calls]: "keeps snd v s (probe_result env decode node port s)"
  unfolding probe_result_def by (intro keeps_intros keeps_calls)

lemma probe_health_admins [keeps_calls]: "keeps snd st_Admins s (probeOutboundHealth env decode rid s)"
  unfolding probeOutboundHealth_def
  by (intro keeps_intros keeps_calls keeps_Update outbound_updates_admins; assumption)

lemma seal_kept [keeps_calls]: "keeps snd v s (seal env plain s)"
  unfolding seal_def by (intro keeps_intros keeps_calls)

lemma update_secret_kept [keeps_calls]: "keeps snd v s (update_secret env old i s)"
  unfolding update_secret_def update_openvpn_secret_def Let_def by (intro keeps_intros keeps_calls)

section \<open>Peers, tunnels and traffic\<close>

lemma peer_calls_admins [keeps_calls]:
  "keeps snd st_Admins s (createWGPeer env dm dp uid i s)"
  "keeps snd st_Admins s (deleteRemotePeer env p s)"
  unfolding createWGPeer_def deleteRemotePeer_def seal_or_empty_def
  by (intro keeps_intros keeps_calls kept_UpdateST; simp)+

lemma delete_on_kept: "kept v s (delete_on env n path s)"
proof (cases n)
  case (Some x)
  have "kept v s (snd (agentDo env x ''DELETE'' path None s))" by (rule keeps_snd [OF keeps_agentDo])
  then show ?thesis by (simp add: delete_on_def Some kept_refl)
qed (simp add: delete_on_def kept_refl)

lemma agent_action_kept [keeps_calls]: "keeps snd v s (agent_action env d n path s)"
  unfolding agent_action_def by (intro keeps_intros keeps_calls)

lemma tunnel_calls_admins [keeps_calls]:
  "keeps snd st_Admins s (createTunnel env i s)"
  "keeps snd st_Admins s (tunnelAction env d rid a s)"
proof -
  show "keeps snd st_Admins s (createTunnel env i s)"
    unfolding createTunnel_def
    by (intro keeps_intros keeps_calls kept_UpdateST keeps_snd) simp
  show "keeps snd st_Admins s (tunnelAction env d rid a s)"
    unfolding tunnelAction_def by (intro keeps_intros keeps_calls kept_UpdateST) (simp add: updTunnel_def)+
qed

lemma deleteTunnel_admins [keeps_calls]: "keeps snd st_Admins s (deleteTunnel env rid s)"
proof -
  have two: "kept st_Admins s (delete_on env m p (delete_on env n p s))" for m n p
    by (rule kept_trans [OF delete_on_kept delete_on_kept])
  have "keeps snd st_Admins s1 (UpdateE save (\<lambda>st. Inr (st\<lparr>st_Tunnels := f st\<rparr>)) s1)" for s1 :: "'a Store" and save f
    by (rule keeps_UpdateE) auto
  with two show ?thesis
    by (auto simp: deleteTunnel_def Let_def keeps_def kept_def split: option.split)
qed

lemma probeNode_admins: "kept st_Admins s (probeNode env d z rid s)"
proof -
  have "keeps id st_Admins s (probeNode env d z rid s)"
    unfolding probeNode_def
    by (intro keeps_intros keeps_calls)
      (simp_all add: keeps_def kept_refl kept_UpdateST updNode_def)
  then show ?thesis by (simp add: keeps_def)
qed

section \<open>Users, plans and nodes\<close>

lemma account_updates_admins:
  "create_user_update now n1 n2 u st = Inr (uv, st') \<Longrightarrow> st_Admins st' = st_Admins st"
  "update_user_update now rid i st = Inr (uw, st') \<Longrightarrow> st_Admins st' = st_Admins st"
  "delete_user_update rid st = Inr st' \<Longrightarrow> st_Admins st' = st_Admins st"
  "userActionUpdate now rid action inp token st = Inr (nodes, st') \<Longrightarrow> st_Admins st' = st_Admins st"
  "create_plan_update p st = Inr st' \<Longrightarrow> st_Admins st' = st_Admins st"
  "update_plan_update now rid p st = Inr st' \<Longrightarrow> st_Admins st' = st_Admins st"
  "delete_plan_update rid st = Inr st' \<Longrightarrow> st_Admins st' = st_Admins st"
  "edit_node_update rid f st = Inr st' \<Longrightarrow> st_Admins st' = st_Admins st"
  "delete_node_update rid st = Inr st' \<Longrightarrow> st_Admins st' = st_Admins st"
  by (auto simp: create_user_update_def update_user_update_def delete_user_update_def
      userActionUpdate_def create_plan_update_def update_plan_update_def delete_plan_update_def
      edit_node_update_def delete_node_update_def updUser_def updPlan_def updNode_def Let_def
      split: option.splits if_splits sum.splits prod.splits)

lemma remove_peers_admins: "kept st_Admins s (remove_peers env ps s)"
proof (induction ps arbitrary: s)
  case (Cons p ps)
  have "remove_peers env (p # ps) s = remove_peers env ps (snd (deleteRemotePeer env p s))"
    by (simp add: remove_peers_def)
  with kept_trans [OF keeps_snd [OF peer_calls_admins(2)] Cons.IH] show ?case by simp
qed (simp add: remove_peers_def kept_refl)

lemma load_now_after [keeps_calls]: "kept v s s1 \<Longrightarrow> keeps snd v s (load_now env rid s1)"
proof -
  assume s1: "kept v s s1"
  have "keeps snd v s1 (load_now env rid s1)" unfolding load_now_def by (intro keeps_intros keeps_effect)
  with s1 show ?thesis by (simp add: keeps_def kept_def)
qed

section \<open>The handlers\<close>

lemma user_handlers_admins [keeps_calls]:
  "keeps snd st_Admins s (handleUsers env ru s)"
  "keeps snd st_Admins s (handleUserWireGuard env dm dp rw rid s)"
  "keeps snd st_Admins s (handleUserSubscriptionAction env r inp rid action s)"
  "keeps snd st_Admins s (updateUser env r body rid s)"
  "keeps snd st_Admins s (handlePlans env rp s)"
  "keeps snd st_Admins s (handlePlanItem env rp rid s)"
  unfolding handleUsers_def handleUserWireGuard_def handleUserSubscriptionAction_def updateUser_def
    handlePlans_def handlePlanItem_def draw_token_def
  by (intro keeps_intros keeps_calls kept_steps keeps_Update keeps_UpdateE;
      (erule account_updates_admins | simp)?)+

lemma deleteUser_admins [keeps_calls]: "keeps snd st_Admins s (deleteUser env r rid s)"
proof -
  have "keeps snd st_Admins s1 (UpdateE save (delete_user_update rid) s1)" for s1 :: "'a Store" and save
    by (rule keeps_UpdateE) (rule account_updates_admins)
  then have "keeps snd st_Admins s1
      (case UpdateE save (delete_user_update rid) s1 of
         (Some e, s2) \<Rightarrow> (JsonError 404 (err_msg e), s2)
       | (None, s2) \<Rightarrow> (JsonWrite 200 AccountOK,
           audit_now env r ''delete'' (''user:'' @ rid) (deploy_all (deployXrayNode env) ns s2)))"
    for s1 :: "'a Store" and save ns
    by (intro keeps_intros kept_steps)
  with remove_peers_admins [of s env] show ?thesis
    by (simp add: deleteUser_def Let_def keeps_def) (rule kept_trans)
qed

lemma userItem_admins [keeps_calls]: "keeps snd st_Admins s (handleUserItem env dm dp r b rest s)"
proof -
  have "keeps snd st_Admins s (handleUser env r b rid s)" for rid
    unfolding handleUser_def by (intro keeps_intros keeps_calls)
  then show ?thesis
    unfolding handleUserItem_def
    by (intro keeps_intros keeps_calls) (auto intro: keeps_intros split: prod.splits)
qed

lemma set_node_admins: "keeps (\<lambda>x. snd (snd x)) st_Admins s (set_node env r a rid f p s)"
  unfolding set_node_def
  by (intro keeps_intros keeps_calls kept_steps keeps_UpdateE; (erule account_updates_admins)?)

lemma node_handlers_admins:
  "keeps (\<lambda>x. snd (snd x)) st_Admins s (handleNodes env zero r s)"
  "keeps (\<lambda>x. snd (snd x)) st_Admins s (node_row env r rid s)"
  "keeps (\<lambda>x. snd (snd x)) st_Admins s (probe_now env d zero q a rid s)"
  unfolding handleNodes_def node_row_def updateNode_def seal_token_def probe_now_def
  by (intro keeps_intros keeps_calls kept_steps keeps_UpdateE probeNode_admins;
      (erule account_updates_admins | simp)?)+

lemma nodeItem_admins: "keeps (\<lambda>x. snd (snd x)) st_Admins s (handleNodeItem env d zero r m rest s)"
  unfolding handleNodeItem_def node_action_def
  by (intro keeps_intros set_node_admins node_handlers_admins)

lemma inbound_handlers_admins [keeps_calls]:
  "keeps snd st_Admins s (handleInboundControl env r rid a s)"
  "keeps snd st_Admins s (deploy_inbound env r rid s)"
  "keeps snd st_Admins s (inbound_xray_status env d rid s)"
  "keeps snd st_Admins s (inbound_xray_install env d r rid s)"
  "keeps snd st_Admins s (inbound_users env r ub rid s)"
  "keeps snd st_Admins s (inbound_item env ri rid s)"
  "keeps snd st_Admins s (handleInbounds env ri s)"
  unfolding handleInboundControl_def deploy_inbound_def inbound_xray_status_def inbound_xray_install_def
    inbound_users_def inbound_item_def handleInbounds_def xrayNodeStatus_def installXrayOnNode_def
    xray_node_call_def normalizeInboundInput_def inboundFromCreate_def
  by (intro keeps_intros keeps_calls kept_steps; simp)+

lemma outbound_handlers_admins [keeps_calls]:
  "keeps snd st_Admins s (handleOutboundsV2 env ro s)"
  "keeps snd st_Admins s (outbound_action env d ro rid a s)"
  "keeps snd st_Admins s (put_outbound env ro rid s)"
  "keeps snd st_Admins s (handleOutboundGroups env gs rg s)"
  "keeps snd st_Admins s (handleOutboundGroupItem env rg rest s)"
  "keeps snd st_Admins s (handleRoutingRules env rs rr s)"
  "keeps snd st_Admins s (handleRoutingRuleItem env rr rest s)"
  unfolding handleOutboundsV2_def outbound_action_def put_outbound_def handleOutboundGroups_def
    handleOutboundGroupItem_def put_group_def handleRoutingRules_def handleRoutingRuleItem_def
  by (intro keeps_intros keeps_calls kept_steps; simp)+

lemma ops_handlers_admins [keeps_calls]:
  "keeps snd st_Admins s (handleTunnels env rt s)"
  "keeps snd st_Admins s (handleTunnelItem env d r rest s)"
  "keeps snd st_Admins s (handleForwards env rf s)"
  "keeps snd st_Admins s (handleLogs env d n u l s)"
  "keeps snd st_Admins s (handleSettings env rs s)"
  unfolding handleTunnels_def handleTunnelItem_def handleForwards_def handleLogs_def handleSettings_def
  by (intro keeps_intros keeps_calls kept_steps; simp)+

lemma forwardItem_admins [keeps_calls]: "keeps snd st_Admins s (handleForwardItem env r rid s)"
  unfolding handleForwardItem_def by (intro keeps_intros kept_steps delete_on_kept) simp

lemma inboundItem_admins [keeps_calls]: "keeps snd st_Admins s (handleInboundItem env d r ub rest s)"
proof -
  have one: "keeps snd st_Admins s a" if "inbound_user env r rid parts s = Some a" for rid parts a
  proof -
    have "keeps snd st_Admins s (case detachUserFromInbound (ev_save env) (deployXrayNode env) i u s of
        (Some e, s1) \<Rightarrow> (JsonError 502 (err_msg e), s1)
      | (None, s1) \<Rightarrow> (JsonWrite 200 InboundOK, audit_now env r ''detach-user'' obj s1))" for i u obj
      by (intro keeps_intros keeps_calls kept_steps)
    then show ?thesis
      using that by (auto simp: inbound_user_def keeps_def kept_refl split: if_splits sum.splits)
  qed
  show ?thesis
    unfolding handleInboundItem_def
    by (intro keeps_intros keeps_calls) (auto intro: one split: if_splits)
qed

lemma outboundItem_admins [keeps_calls]: "keeps snd st_Admins s (handleOutboundItemV2 env d r rest s)"
  unfolding handleOutboundItemV2_def by (intro keeps_intros keeps_calls kept_steps)

section \<open>The traffic synchronisation\<close>

lemma peer_task_admins: "kept st_Admins s (runPeerTask save call t s)"
proof -
  have "keeps snd st_Admins s (setRemotePeerEnabled call p b s)" for p b
    by (auto simp: setRemotePeerEnabled_def keeps_def kept_def split: option.split prod.split)
  then have "keeps id st_Admins s (runPeerTask save call t s)"
    unfolding runPeerTask_def
    by (intro keeps_intros) (auto simp: keeps_def kept_refl updPeer_def intro!: kept_UpdateST)
  then show ?thesis by (simp add: keeps_def)
qed

lemma fold_kept: "(\<And>x s. kept v s (f x s)) \<Longrightarrow> kept v s (fold f xs s)"
  by (induction xs arbitrary: s) (auto simp: kept_def)

lemma traffic_resets_admins: "trafficResetsUpdate st now = Some st' \<Longrightarrow> st_Admins st' = st_Admins st"
  by (auto simp: trafficResetsUpdate_def split: option.splits prod.splits)

lemma policyUpdate_admins: "st_Admins (snd (policyUpdate now st)) = st_Admins st"
  by (simp add: policyUpdate_def Let_def)

lemma enforce_admins:
  "kept st_Admins s (enforceUserPolicies save (deployXrayNode env) call iter now s)"
proof -
  have tasks: "kept st_Admins s1 (fold (runPeerTask save call) ts (deploy_all (deployXrayNode env) ns s1))"
    for s1 :: "'a Store" and ts ns
    by (rule kept_trans [OF deploy_all_admins fold_kept]) (rule peer_task_admins)
  have u: "keeps snd st_Admins s (Update save (\<lambda>st. Inr (policyUpdate now st)) s)"
    by (rule keeps_Update) (metis policyUpdate_admins snd_conv sum.inject(2))
  have "keeps id st_Admins s (enforceUserPolicies save (deployXrayNode env) call iter now s)"
    unfolding enforceUserPolicies_def
    by (intro keeps_intros u; (simp add: keeps_def tasks split: prod.split)?)
  then show ?thesis by (simp add: keeps_def)
qed

lemma kept_world: "kept v s s1 \<Longrightarrow> kept v s (s1\<lparr>store_world := w\<rparr>)"
  by (simp add: kept_def)

lemma sync_admins:
  assumes "syncWireGuard save (deployXrayNode env) call iter g x n1 n2 n3 n4 s = Some s'"
  shows "kept st_Admins s s'"
proof -
  obtain seen w where c: "collectWireGuard g (st_Nodes (store_st s)) Map.empty (store_world s) = (seen, w)"
    by fastforce
  let ?s1 = "UpdateST save (syncWireGuardUpdate n1 seen) (s\<lparr>store_world := w\<rparr>)"
  let ?s2 = "syncXrayTraffic save x n2 ?s1"
  obtain s3 where r: "processTrafficResets save n3 ?s2 = Some s3"
    and s': "s' = enforceUserPolicies save (deployXrayNode env) call iter n4 s3"
    using assms by (auto simp: syncWireGuard_def c)
  have "kept st_Admins s ?s1"
    using kept_UpdateST [of st_Admins "syncWireGuardUpdate n1 seen" "s\<lparr>store_world := w\<rparr>" save]
    by (simp add: kept_def syncWireGuardUpdate_def Let_def)
  moreover have "kept st_Admins ?s1 ?s2"
    by (auto simp: syncXrayTraffic_def kept_def Let_def frame_simps split: prod.split)
  moreover have "kept st_Admins ?s2 s3"
  proof -
    obtain st' where "trafficResetsUpdate (store_st ?s2) n3 = Some st'" "s3 = UpdateST save (\<lambda>_. st') ?s2"
      using r by (auto simp: processTrafficResets_def)
    then show ?thesis
      using UpdateST_st [of save "\<lambda>_. st'" ?s2] traffic_resets_admins [of "store_st ?s2" n3 st']
      by (auto simp: kept_def)
  qed
  ultimately show ?thesis using enforce_admins by (metis kept_trans s')
qed

lemma sync_traffic_admins:
  assumes "sync_traffic ap s = Some s'"
  shows "kept st_Admins s s'"
proof -
  have "\<exists>n1 n2 n3 n4 w. syncWireGuard (ev_save (ap_env ap)) (deployXrayNode (ap_env ap)) (peer_state (ap_env ap))
      (ap_iter ap) (get_list (ap_env ap) ''/v1/wireguard/runtime'' (ap_runtime ap))
      (get_list (ap_env ap) ''/v1/xray/stats?reset=1'' (ap_stats ap)) n1 n2 n3 n4 (s\<lparr>store_world := w\<rparr>) = Some s'"
    using assms by (simp add: sync_traffic_def effect_eq Let_def) blast
  then show ?thesis using sync_admins by (fastforce simp: kept_def)
qed

end
