(* ===== verification/Background.thy ===== *)
theory Background
  imports AdminFrames
begin

text \<open>
  The loop background() of src/internal/panel/operations.go and the goroutines that it and the node
  requests start, with the requests: the panel as a machine. The events of the three tickers and the
  start are steps on the store; what they start with go is a list of tasks, run later in any order.
\<close>

section \<open>The loop\<close>

datatype tick = Started | ProbeTick | LifecycleTick | SyncTick

datatype task = ProbeNode string | ProbeHealth

definition lifecycle :: "'w api \<Rightarrow> 'w Store \<Rightarrow> 'w Store option" where
  "lifecycle ap s =
     (case effect (ev_Now (ap_env ap)) s of (now, s1) \<Rightarrow>
        reconcileSubscriptionsAndDeploy (ev_save (ap_env ap)) (deployXrayNode (ap_env ap)) now s1)"

definition enabled_ids :: "State \<Rightarrow> string list" where
  "enabled_ids st = map n_ID (filter n_Enabled (st_Nodes st))"

text \<open>None is the tick that never returns: a reset interval that overflows.\<close>

fun background :: "'w api \<Rightarrow> tick \<Rightarrow> 'w Store \<Rightarrow> (task list \<times> 'w Store) option" where
  "background ap Started s =
     map_option (\<lambda>s1. ([ProbeHealth], ensureOutboundHealthRuntime (ap_env ap) (deployOutboundNode (ap_env ap)) s1))
       (lifecycle ap s)"
| "background ap ProbeTick s = Some (map ProbeNode (enabled_ids (cloneState (store_st s))), s)"
| "background ap LifecycleTick s = map_option (Pair []) (lifecycle ap s)"
| "background ap SyncTick s =
     Option.bind (sync_traffic ap s) (\<lambda>s1. map_option (Pair [ProbeHealth]) (lifecycle ap s1))"

fun run_task :: "'w api \<Rightarrow> task \<Rightarrow> 'w Store \<Rightarrow> 'w Store" where
  "run_task ap (ProbeNode rid) s = probeNode (ap_env ap) (ap_metrics ap) zero_metrics rid s"
| "run_task ap ProbeHealth s = probeAllOutboundHealth (ap_env ap) (ap_probe ap) (ap_iter ap) s"

text \<open>The panel: its store and the goroutines that have not run yet.\<close>

record 'w panel =
  pn_store :: "'w Store"
  pn_tasks :: "task list"

inductive panel_step :: "'w api \<Rightarrow> 'w panel \<Rightarrow> 'w panel \<Rightarrow> bool" for ap where
  request: "routes ap q (pn_store p) = Some (a, probes, s) \<Longrightarrow>
    panel_step ap p \<lparr>pn_store = s, pn_tasks = pn_tasks p @ map ProbeNode probes\<rparr>"
| ticked: "background ap t (pn_store p) = Some (ts, s) \<Longrightarrow>
    panel_step ap p \<lparr>pn_store = s, pn_tasks = pn_tasks p @ ts\<rparr>"
| ran: "t \<in> set (pn_tasks p) \<Longrightarrow>
    panel_step ap p \<lparr>pn_store = run_task ap t (pn_store p), pn_tasks = remove1 t (pn_tasks p)\<rparr>"

section \<open>The administrators\<close>

lemma reconcile_admins:
  "reconcileSubscriptionsAndDeploy save (deployXrayNode env) now s = Some s' \<Longrightarrow> kept st_Admins s s'"
proof -
  assume "reconcileSubscriptionsAndDeploy save (deployXrayNode env) now s = Some s'"
  then obtain ids st where r: "reconcileSubscriptions (cloneState (store_st s)) now = Some (ids, st)"
    and s': "s' = (case Update save (\<lambda>_. Inr (ids, st)) s of
      (Inl e, s1) \<Rightarrow> s1 | (Inr ids, s1) \<Rightarrow> deploy_all (deployXrayNode env) ids s1)"
    by (auto simp: reconcileSubscriptionsAndDeploy_def split: option.splits prod.splits sum.splits)
  from r have "st_Admins st = st_Admins (store_st s)"
    by (auto simp: reconcileSubscriptions_def)
  then have "kept st_Admins s (snd (Update save (\<lambda>_. Inr (ids, st)) s))"
    by (cases "Update save (\<lambda>_. Inr (ids, st)) s"; cases "fst (Update save (\<lambda>_. Inr (ids, st)) s)")
      (auto simp: kept_def dest: Update_Inl Update_Inr)
  then show ?thesis
    unfolding s' by (auto intro: kept_then_deploy split: prod.split sum.split)
qed

lemma lifecycle_admins: "lifecycle ap s = Some s' \<Longrightarrow> kept st_Admins s s'"
  by (auto simp: lifecycle_def effect_eq dest!: reconcile_admins) (simp add: kept_def)

lemma ensure_runtime_admins:
  "kept st_Admins s (ensureOutboundHealthRuntime env (deployOutboundNode env) s)"
proof -
  have "keeps id st_Admins s (ensure_node env (deployOutboundNode env) n s)" for n s
    unfolding ensure_node_def
    by (intro keeps_intros keeps_calls) (auto simp: keeps_def kept_refl intro: kept_UpdateST)
  then show ?thesis
    unfolding ensureOutboundHealthRuntime_def by (intro fold_kept) (simp add: keeps_def)
qed

lemma background_admins: "background ap t s = Some (ts, s') \<Longrightarrow> kept st_Admins s s'"
  by (cases t)
    (auto simp: kept_refl bind_eq_Some_conv dest!: lifecycle_admins sync_traffic_admins
      intro: kept_trans ensure_runtime_admins)

lemma run_task_admins: "kept st_Admins s (run_task ap t s)"
proof (cases t)
  case ProbeHealth
  then show ?thesis
    by (auto simp: probeAllOutboundHealth_def intro!: fold_kept keeps_snd probe_health_admins)
qed (simp add: probeNode_admins)

section \<open>The ticks return\<close>

text \<open>
  The loop over the reset dates ends when the interval of every user fits into a duration; nothing a
  tick does changes the intervals.
\<close>

definition limits :: "State \<Rightarrow> (int \<times> string) list \<times> Plan list" where
  "limits st = (map (\<lambda>u. (u_ResetIntervalDays u, u_PlanID u)) (st_Users st), st_Plans st)"

definition intervals_fit :: "State \<Rightarrow> bool" where
  "intervals_fit st \<longleftrightarrow> list_all (\<lambda>u. effectiveResetIntervalDays st u \<le> 106751) (st_Users st)"

definition interval_of :: "Plan list \<Rightarrow> int \<times> string \<Rightarrow> int" where
  "interval_of plans x =
     (if fst x > 0 then fst x
      else case find_row p_ID plans (snd x) of
             Some p \<Rightarrow> if p_ResetIntervalDays p > 0 then p_ResetIntervalDays p else 0 | None \<Rightarrow> 0)"

lemma intervals_fit_limits:
  "intervals_fit st \<longleftrightarrow> list_all (\<lambda>x. interval_of (snd (limits st)) x \<le> 106751) (fst (limits st))"
proof -
  have "effectiveResetIntervalDays st u = interval_of (st_Plans st) (u_ResetIntervalDays u, u_PlanID u)" for u
    by (simp add: effectiveResetIntervalDays_def findPlan_def interval_of_def)
  then show ?thesis by (simp add: intervals_fit_def limits_def list.pred_map comp_def)
qed

lemma intervals_limits: "kept limits s s' \<Longrightarrow> intervals_fit (store_st s) \<Longrightarrow> intervals_fit (store_st s')"
  by (simp add: intervals_fit_limits kept_def)

lemma interval_step: "0 < d \<Longrightarrow> d \<le> 106751 \<Longrightarrow> \<exists>r. reset_loop (days_duration d) now t = Some r"
proof -
  assume "0 < d" "d \<le> 106751"
  then have "0 < days_duration d" by (intro days_duration_pos) simp_all
  from reset_loop_positive [OF this] show ?thesis by blast
qed

lemma advance_returns: "d \<le> 106751 \<Longrightarrow> \<exists>r. advanceResetAt t d now = Some r"
  using interval_step [of d now t] by (auto simp: advanceResetAt_def)

lemma reconcile_returns: "intervals_fit st \<Longrightarrow> \<exists>r. reconcileSubscriptions st now = Some r"
proof -
  have one: "\<exists>r. reconcileUser st now u = Some r" if "effectiveResetIntervalDays st u \<le> 106751" for u
    using advance_returns [OF that, of "u_NextTrafficResetAt u" now]
    by (auto simp: reconcileUser_def Let_def split: prod.split)
  have "\<exists>r. reconcileUsers st now us = Some r" if "list_all (\<lambda>u. effectiveResetIntervalDays st u \<le> 106751) us" for us
    using that
  proof (induction us)
    case (Cons u us)
    then have u: "effectiveResetIntervalDays st u \<le> 106751" by simp
    from one [OF u] obtain r where r: "reconcileUser st now u = Some r" by blast
    from Cons obtain rs where "reconcileUsers st now us = Some rs" by fastforce
    with r show ?case by (cases r; cases rs) simp
  qed simp
  then show "intervals_fit st \<Longrightarrow> \<exists>r. reconcileSubscriptions st now = Some r"
    by (fastforce simp: intervals_fit_def reconcileSubscriptions_def)
qed

lemma resets_return: "intervals_fit st \<Longrightarrow> \<exists>r. trafficResetsUpdate st now = Some r"
proof -
  have one: "\<exists>r. trafficResetUser st now u ps = Some r" if "effectiveResetIntervalDays st u \<le> 106751" for u ps
    using interval_step [OF _ that] by (cases "effectiveResetIntervalDays st u \<le> 0") (auto simp: trafficResetUser_def Let_def)
  have "\<exists>r. trafficResetUsers st now us ps = Some r" if "list_all (\<lambda>u. effectiveResetIntervalDays st u \<le> 106751) us" for us ps
    using that
  proof (induction us arbitrary: ps)
    case (Cons u us)
    then have fits: "effectiveResetIntervalDays st u \<le> 106751" by simp
    from one [OF fits] obtain r where "trafficResetUser st now u ps = Some r" by blast
    then obtain u' ps1 where u: "trafficResetUser st now u ps = Some (u', ps1)" by (cases r) simp
    from Cons.IH [of ps1] Cons.prems obtain rs where "trafficResetUsers st now us ps1 = Some rs" by fastforce
    with u show ?case by (cases rs) simp
  qed simp
  then show "intervals_fit st \<Longrightarrow> \<exists>r. trafficResetsUpdate st now = Some r"
    by (fastforce simp: intervals_fit_def trafficResetsUpdate_def)
qed

lemma deploy_limits: "keeps snd limits s (deployXrayNode env n s)"
proof -
  have view: "limits st' = limits st" if "xray_view st' = xray_view st" for st st'
  proof -
    from that have "limits (rest_of st') = limits (rest_of st)" by (simp add: xray_view_def)
    then show ?thesis by (simp add: rest_of_def limits_def)
  qed
  show ?thesis unfolding keeps_def kept_def by (rule view) (rule deployXrayNode_view)
qed

lemma deploy_all_limits: "kept limits s (deploy_all (deployXrayNode env) ns s)"
proof (induction ns arbitrary: s)
  case (Cons n ns)
  show ?case
    unfolding deploy_all.simps by (rule kept_trans [OF keeps_snd [OF deploy_limits] Cons.IH])
qed (simp add: kept_refl)

lemma limits_maps:
  "limits (syncWireGuardUpdate now seen st) = limits st"
  "limits (st\<lparr>st_Users := map (xrayUserUpdate now deltas) (st_Users st)\<rparr>) = limits st"
  "limits (snd (policyUpdate now st)) = limits st" "limits (updPeer i f st) = limits st"
  by (simp_all add: limits_def syncWireGuardUpdate_def wgUserUpdate_def xrayUserUpdate_def policyUpdate_def
      policyUser_def updPeer_def Let_def)

lemma limits_resets: "trafficResetsUpdate st now = Some st' \<Longrightarrow> limits st' = limits st"
proof -
  let ?f = "\<lambda>u. (u_ResetIntervalDays u, u_PlanID u)"
  have one: "?f u' = ?f u" if "trafficResetUser st now u ps = Some (u', ps')" for u u' ps ps'
    using that by (auto simp: trafficResetUser_def Let_def split: if_splits)
  have "map ?f us' = map ?f us" if "trafficResetUsers st now us ps = Some (us', ps')" for us us' ps ps'
    using that
    by (induction us arbitrary: us' ps) (auto simp: bind_eq_Some_conv dest: one)
  then show "trafficResetsUpdate st now = Some st' \<Longrightarrow> limits st' = limits st"
    by (auto simp: trafficResetsUpdate_def limits_def)
qed

lemma enforce_limits:
  "kept limits s (enforceUserPolicies save (deployXrayNode env) call iter now s)"
proof -
  have remote: "keeps snd limits s1 (setRemotePeerEnabled call p b s1)" for s1 p b
    by (auto simp: setRemotePeerEnabled_def keeps_def kept_def split: option.split prod.split)
  have "keeps id limits s1 (runPeerTask save call t s1)" for s1 t
    unfolding runPeerTask_def
    by (intro keeps_intros remote) (auto simp: keeps_def kept_refl limits_maps intro!: kept_UpdateST)
  then have "kept limits s1 (fold (runPeerTask save call) ts s1)" for s1 ts
    by (intro fold_kept) (simp add: keeps_def)
  then have tasks: "kept limits s1 (fold (runPeerTask save call) ts (deploy_all (deployXrayNode env) ns s1))" for s1 ts ns
    using deploy_all_limits kept_trans by blast
  have u: "keeps snd limits s (Update save (\<lambda>st. Inr (policyUpdate now st)) s)"
    by (rule keeps_Update) (metis limits_maps(3) snd_conv sum.inject(2))
  have "keeps id limits s (enforceUserPolicies save (deployXrayNode env) call iter now s)"
    unfolding enforceUserPolicies_def
    by (intro keeps_intros u; (simp add: keeps_def tasks split: prod.split)?)
  then show ?thesis by (simp add: keeps_def)
qed

text \<open>The synchronisation returns and leaves the intervals as they were.\<close>

lemma sync_returns:
  assumes fit: "intervals_fit (store_st s)"
  shows "\<exists>s'. syncWireGuard save (deployXrayNode env) call iter g x n1 n2 n3 n4 s = Some s' \<and> kept limits s s'"
proof -
  obtain seen w where c: "collectWireGuard g (st_Nodes (store_st s)) Map.empty (store_world s) = (seen, w)"
    by fastforce
  let ?s1 = "UpdateST save (syncWireGuardUpdate n1 seen) (s\<lparr>store_world := w\<rparr>)"
  let ?s2 = "syncXrayTraffic save x n2 ?s1"
  have "kept limits (s\<lparr>store_world := w\<rparr>) ?s1" by (rule kept_UpdateST) (rule limits_maps)
  moreover have "kept limits ?s1 ?s2"
    using limits_maps(2)
    by (auto simp: syncXrayTraffic_def kept_def Let_def frame_simps split: prod.split)
  ultimately have 2: "kept limits s ?s2" by (simp add: kept_def)
  with fit have "intervals_fit (store_st ?s2)" by (rule intervals_limits [rotated])
  then obtain st where st: "trafficResetsUpdate (store_st ?s2) n3 = Some st" using resets_return by blast
  let ?s3 = "UpdateST save (\<lambda>_. st) ?s2"
  have "kept limits ?s2 ?s3"
    using UpdateST_st [of save "\<lambda>_. st" ?s2] limits_resets [OF st] by (auto simp: kept_def)
  with 2 have "kept limits s (enforceUserPolicies save (deployXrayNode env) call iter n4 ?s3)"
    using enforce_limits kept_trans by blast
  moreover have "syncWireGuard save (deployXrayNode env) call iter g x n1 n2 n3 n4 s =
      Some (enforceUserPolicies save (deployXrayNode env) call iter n4 ?s3)"
    using st by (simp add: syncWireGuard_def c processTrafficResets_def)
  ultimately show ?thesis by blast
qed

lemma sync_traffic_returns:
  assumes "intervals_fit (store_st s)"
  shows "\<exists>s'. sync_traffic ap s = Some s' \<and> intervals_fit (store_st s')"
proof -
  have "\<exists>n1 n2 n3 n4 w. sync_traffic ap s =
      syncWireGuard (ev_save (ap_env ap)) (deployXrayNode (ap_env ap)) (peer_state (ap_env ap))
        (ap_iter ap) (get_list (ap_env ap) ''/v1/wireguard/runtime'' (ap_runtime ap))
        (get_list (ap_env ap) ''/v1/xray/stats?reset=1'' (ap_stats ap)) n1 n2 n3 n4 (s\<lparr>store_world := w\<rparr>)"
    by (simp add: sync_traffic_def effect_eq Let_def) blast
  then obtain n1 n2 n3 n4 w where sync: "sync_traffic ap s =
      syncWireGuard (ev_save (ap_env ap)) (deployXrayNode (ap_env ap)) (peer_state (ap_env ap))
        (ap_iter ap) (get_list (ap_env ap) ''/v1/wireguard/runtime'' (ap_runtime ap))
        (get_list (ap_env ap) ''/v1/xray/stats?reset=1'' (ap_stats ap)) n1 n2 n3 n4 (s\<lparr>store_world := w\<rparr>)" by blast
  let ?s = "s\<lparr>store_world := w\<rparr>"
  have fit: "intervals_fit (store_st ?s)" using assms by simp
  from sync_returns [OF fit] intervals_limits [OF _ fit] show ?thesis unfolding sync by blast
qed

lemma lifecycle_returns: "intervals_fit (store_st s) \<Longrightarrow> \<exists>s'. lifecycle ap s = Some s'"
proof -
  assume "intervals_fit (store_st s)"
  then obtain r where "reconcileSubscriptions (store_st s) (fst (ev_Now (ap_env ap) (store_world s))) = Some r"
    using reconcile_returns by blast
  then show "\<exists>s'. lifecycle ap s = Some s'"
    by (cases r) (auto simp: lifecycle_def effect_eq reconcileSubscriptionsAndDeploy_def split: prod.split sum.split)
qed

text \<open>
  C38: when the reset interval of every user is at most 106751 days, every tick of the background loop returns:
  the start, the probes, the lifecycle and the traffic synchronisation with the lifecycle after it. One user with
  a longer interval is enough for the loop to hang with the store locked (the lemma tick_hangs).
\<close>

theorem ticks_return:
  assumes "intervals_fit (store_st s)"
  shows "\<exists>ts s'. background ap t s = Some (ts, s')"
proof (cases t)
  case SyncTick
  obtain s1 where s1: "sync_traffic ap s = Some s1" "intervals_fit (store_st s1)"
    using sync_traffic_returns [OF assms] by blast
  then obtain s2 where "lifecycle ap s1 = Some s2" using lifecycle_returns by blast
  with s1 SyncTick show ?thesis by simp
qed (use lifecycle_returns [OF assms, of ap] in auto)

definition sample_api :: "nat api" where
  "sample_api =
     \<lparr>ap_server = \<lparr>sv_env = sample_env, sv_crypto = sample_crypto, sv_sessionKey = ''key'', sv_CookieSecure = True,
                    sv_Marshal = (\<lambda>p. ''{}''), sv_Unmarshal = (\<lambda>_. Some sample_session)\<rparr>,
      ap_iter = id, ap_rule_sort = insertion_sort, ap_group_sort = insertion_sort,
      ap_map = (\<lambda>_. Inr JNull), ap_peer = (\<lambda>_. Inl (Plain ''EOF'')), ap_metrics = (\<lambda>_. Inl (Plain ''EOF'')), ap_probe = (\<lambda>_. Inl (Plain ''EOF'')),
      ap_runtime = (\<lambda>_. Inr []), ap_stats = (\<lambda>_. Inr []), ap_User = (\<lambda>_. Inl (Plain ''EOF'')), ap_user_edit = (\<lambda>_. Inl (Plain ''EOF'')),
      ap_wgCreate = (\<lambda>_. Inl (Plain ''EOF'')), ap_renew = (\<lambda>_. Inr 30), ap_apply = (\<lambda>_. Inl (Plain ''EOF'')), ap_Plan = (\<lambda>_. Inl (Plain ''EOF'')),
      ap_node_create = (\<lambda>_. Inl (Plain ''EOF'')), ap_node_edit = (\<lambda>_. Inl (Plain ''EOF'')), ap_maintenance = (\<lambda>_. Inr True),
      ap_inbound = (\<lambda>_. Inl (Plain ''EOF'')), ap_inbound_user = (\<lambda>_. Inl (Plain ''EOF'')), ap_outbound = (\<lambda>_. Inl (Plain ''EOF'')),
      ap_group = (\<lambda>_. Inl (Plain ''EOF'')), ap_rule = (\<lambda>_. Inl (Plain ''EOF'')), ap_tunnel = (\<lambda>_. Inl (Plain ''EOF'')), ap_forward = (\<lambda>_. Inl (Plain ''EOF'')),
      ap_admin = (\<lambda>_. Inl (Plain ''EOF'')), ap_settings = (\<lambda>b. Inr [(''site_name'', b)]),
      ap_credentials = (\<lambda>_. Inl (Plain ''EOF''))\<rparr>"

theorem ticks_return_witness:
  "\<exists>ts s'. background sample_api SyncTick
     \<lparr>store_st = emptyState\<lparr>st_Users := [sample_user\<lparr>u_ResetIntervalDays := 30\<rparr>]\<rparr>, store_world = 0\<rparr> = Some (ts, s')"
  by (rule ticks_return) (simp add: intervals_fit_def effectiveResetIntervalDays_def)

lemma tick_hangs:
  assumes "u \<in> set (st_Users (store_st s))" and "resetDue (store_st s) (fst (ev_Now (ap_env ap) (store_world s))) u"
    and "days_duration (effectiveResetIntervalDays (store_st s) u) \<le> 0"
  shows "background ap LifecycleTick s = None"
proof -
  let ?st = "store_st s" and ?now = "fst (ev_Now (ap_env ap) (store_world s))"
  have "advanceResetAt (u_NextTrafficResetAt u) (effectiveResetIntervalDays ?st u) ?now = None"
    using assms(2,3) by (intro advance_reset_diverges) (auto simp: resetDue_def IsZero_def)
  then have "reconcileUser ?st ?now u = None" using assms(2) by (simp add: reconcileUser_def)
  then have "reconcileUsers ?st ?now us = None" if "u \<in> set us" for us
    using that by (induction us) (auto simp: bind_eq_None_conv split: prod.split)
  with assms(1) have "reconcileSubscriptions ?st ?now = None" by (simp add: reconcileSubscriptions_def)
  then show ?thesis by (simp add: lifecycle_def effect_eq reconcileSubscriptionsAndDeploy_def)
qed

end
