(* ===== verification/ApiSafety.thy ===== *)
theory ApiSafety
  imports Background
begin

text \<open>
  What holds of every request, whatever handler answers it: a request that changes the state came
  from an operator, and the panel never loses its last administrator.
\<close>

section \<open>Passive requests\<close>

text \<open>A viewer's request, and a request with a method that is safe in HTTP.\<close>

definition inert :: "'b request \<Rightarrow> bool" where
  "inert r \<longleftrightarrow> rank (ai_Role (rq_Auth r)) < 2 \<or> safe_method (rq_Method r)"

lemma refused_role:
  assumes "rank (ai_Role (rq_Auth r)) < 2"
  shows "requireRole r ''operator'' = Some (Plain ''insufficient permissions'')"
    "requireRole r ''admin'' = Some (Plain ''insufficient permissions'')"
    "requireRole r ''owner'' = Some (Plain ''insufficient permissions'')"
  using assms by (simp_all add: requireRole_def) (simp_all add: rank_def)

lemma inert_cases:
  assumes "inert r"
  obtains (viewer) "requireRole r ''operator'' = Some (Plain ''insufficient permissions'')"
      "requireRole r ''admin'' = Some (Plain ''insufficient permissions'')"
      "requireRole r ''owner'' = Some (Plain ''insufficient permissions'')"
  | (get) "rq_Method r = ''GET''"
  | (head) "rq_Method r = ''HEAD''"
  using assms refused_role [of r] by (auto simp: inert_def safe_method_def)

lemma inert_with_body [simp]: "inert (with_body r b) = inert r"
  by (simp add: inert_def)

lemma requireRole_with_body [simp]: "requireRole (with_body r b) = requireRole r"
  by (rule ext) (simp add: requireRole_def)

lemma kept_id: "keeps snd id s x \<Longrightarrow> store_st (snd x) = store_st s"
  "keeps (\<lambda>x. snd (snd x)) id s y \<Longrightarrow> store_st (snd (snd y)) = store_st s"
  by (simp_all add: keeps_def kept_def)

lemma Users_inert: "inert r \<Longrightarrow> keeps snd id s (handleUsers env r s)"
  unfolding handleUsers_def by (erule inert_cases; (intro keeps_intros keeps_calls)?; simp)

lemma UserWireGuard_inert: "inert r \<Longrightarrow> keeps snd id s (handleUserWireGuard env dm dp r rid s)"
  unfolding handleUserWireGuard_def by (erule inert_cases; (intro keeps_intros)?; simp)

lemma UserAction_inert: "inert r \<Longrightarrow> keeps snd id s (handleUserSubscriptionAction env r inp rid action s)"
  unfolding handleUserSubscriptionAction_def by (erule inert_cases; (intro keeps_intros)?; simp)

lemma User_inert: "inert r \<Longrightarrow> keeps snd id s (handleUser env r b rid s)"
  unfolding handleUser_def by (erule inert_cases; (intro keeps_intros keeps_calls)?; simp)

lemma UserItem_inert: "inert r \<Longrightarrow> keeps snd id s (handleUserItem env dm dp r b rest s)"
  unfolding handleUserItem_def
  by (intro keeps_intros load_now_after UserWireGuard_inert UserAction_inert User_inert)
    (auto intro: keeps_intros split: prod.splits)

lemma Plans_inert: "inert r \<Longrightarrow> keeps snd id s (handlePlans env r s)"
  unfolding handlePlans_def by (erule inert_cases; (intro keeps_intros)?; simp)

lemma PlanItem_inert: "inert r \<Longrightarrow> keeps snd id s (handlePlanItem env r rid s)"
  unfolding handlePlanItem_def by (erule inert_cases; (intro keeps_intros)?; simp)

lemma Nodes_inert: "inert r \<Longrightarrow> keeps (\<lambda>x. snd (snd x)) id s (handleNodes env zero r s)"
  unfolding handleNodes_def by (erule inert_cases; (intro keeps_intros)?; simp)

lemma node_row_inert: "inert r \<Longrightarrow> keeps (\<lambda>x. snd (snd x)) id s (node_row env r rid s)"
  unfolding node_row_def by (erule inert_cases; (intro keeps_intros)?; simp)

lemma node_action_inert: "inert r \<Longrightarrow> keeps (\<lambda>x. snd (snd x)) id s (node_action env d zero r m a rid s)"
  unfolding node_action_def probe_now_def by (erule inert_cases; (intro keeps_intros)?; simp)

lemma NodeItem_inert: "inert r \<Longrightarrow> keeps (\<lambda>x. snd (snd x)) id s (handleNodeItem env d zero r m rest s)"
  unfolding handleNodeItem_def by (intro keeps_intros node_row_inert node_action_inert)

lemma Inbounds_inert: "inert r \<Longrightarrow> keeps snd id s (handleInbounds env r s)"
  unfolding handleInbounds_def by (erule inert_cases; (intro keeps_intros)?; simp)

lemma InboundControl_inert: "inert r \<Longrightarrow> keeps snd id s (handleInboundControl env r rid a s)"
  unfolding handleInboundControl_def by (erule inert_cases; (intro keeps_intros keeps_calls)?; simp)

lemma inbound_post_inert:
  assumes "inert r" "rq_Method r = ''POST''"
  shows "keeps snd id s (deploy_inbound env r rid s)" "keeps snd id s (inbound_xray_install env d r rid s)"
  using assms unfolding deploy_inbound_def inbound_xray_install_def
  by (auto elim!: inert_cases intro: keeps_intros)

lemma inbound_users_inert: "inert r \<Longrightarrow> keeps snd id s (inbound_users env r ub rid s)"
  unfolding inbound_users_def by (erule inert_cases; (intro keeps_intros)?; simp)

lemma inbound_item_inert: "inert r \<Longrightarrow> keeps snd id s (inbound_item env r rid s)"
  unfolding inbound_item_def by (erule inert_cases; (intro keeps_intros)?; simp)

lemma xray_status_kept: "keeps snd v s (inbound_xray_status env d rid s)"
  unfolding inbound_xray_status_def xrayNodeStatus_def xray_node_call_def by (intro keeps_intros keeps_calls)

lemma inbound_user_inert: "inert r \<Longrightarrow> inbound_user env r rid parts s = Some a \<Longrightarrow> keeps snd id s a"
  by (erule inert_cases) (auto simp: inbound_user_def keeps_def kept_def split: if_splits sum.splits)

lemma InboundItem_inert: "inert r \<Longrightarrow> keeps snd id s (handleInboundItem env d r ub rest s)"
  unfolding handleInboundItem_def
  by (intro keeps_intros xray_status_kept InboundControl_inert inbound_post_inert inbound_users_inert
      inbound_item_inert) (auto intro: inbound_user_inert split: if_splits)

lemma Outbounds_inert: "inert r \<Longrightarrow> keeps snd id s (handleOutboundsV2 env r s)"
  unfolding handleOutboundsV2_def by (erule inert_cases; (intro keeps_intros)?; simp)

lemma outbound_action_inert: "inert r \<Longrightarrow> keeps snd id s (outbound_action env d r rid a s)"
  unfolding outbound_action_def by (erule inert_cases; (intro keeps_intros)?; simp)

lemma OutboundItem_inert: "inert r \<Longrightarrow> keeps snd id s (handleOutboundItemV2 env d r rest s)"
  unfolding handleOutboundItemV2_def
  by (intro keeps_intros outbound_action_inert) (auto elim!: inert_cases)

lemma Groups_inert: "inert r \<Longrightarrow> keeps snd id s (handleOutboundGroups env srt r s)"
  unfolding handleOutboundGroups_def by (erule inert_cases; (intro keeps_intros)?; simp)

lemma GroupItem_inert: "inert r \<Longrightarrow> keeps snd id s (handleOutboundGroupItem env r rest s)"
  unfolding handleOutboundGroupItem_def by (erule inert_cases; (intro keeps_intros)?; simp)

lemma Rules_inert: "inert r \<Longrightarrow> keeps snd id s (handleRoutingRules env srt r s)"
  unfolding handleRoutingRules_def by (erule inert_cases; (intro keeps_intros)?; simp)

lemma RuleItem_inert: "inert r \<Longrightarrow> keeps snd id s (handleRoutingRuleItem env r path s)"
  unfolding handleRoutingRuleItem_def by (erule inert_cases; (intro keeps_intros)?; simp)

lemma Tunnels_inert: "inert r \<Longrightarrow> keeps snd id s (handleTunnels env r s)"
  unfolding handleTunnels_def by (erule inert_cases; (intro keeps_intros)?; simp)

text \<open>An action on a tunnel is not limited to a method.\<close>

lemma TunnelItem_inert:
  assumes "inert r" "rank (ai_Role (rq_Auth r)) < 2 \<or> length (SplitSlash (TrimSlash rest)) \<noteq> 2"
  shows "keeps snd id s (handleTunnelItem env d r rest s)"
  unfolding handleTunnelItem_def
  using assms refused_role [of r] by (intro keeps_intros) (auto elim!: inert_cases)

lemma Forwards_inert: "inert r \<Longrightarrow> keeps snd id s (handleForwards env r s)"
  unfolding handleForwards_def by (erule inert_cases; (intro keeps_intros)?; simp)

lemma ForwardItem_inert: "inert r \<Longrightarrow> keeps snd id s (handleForwardItem env r rid s)"
  unfolding handleForwardItem_def by (erule inert_cases; simp add: keeps_def kept_def)

lemma Logs_kept: "keeps snd v s (handleLogs env d n u l s)"
  unfolding handleLogs_def by (intro keeps_intros keeps_calls)

lemma Admins_inert: "inert r \<Longrightarrow> keeps snd id s (handleAdmins sv r s)"
  unfolding handleAdmins_def by (erule inert_cases; (intro keeps_intros)?; simp)

lemma AdminItem_inert: "inert r \<Longrightarrow> keeps snd id s (handleAdminItem sv r rid s)"
  unfolding handleAdminItem_def by (erule inert_cases; (intro keeps_intros)?; simp)

lemma Settings_inert: "inert r \<Longrightarrow> keeps snd id s (handleSettings env r s)"
  unfolding handleSettings_def by (erule inert_cases; (intro keeps_intros)?; simp)

lemmas inert_handlers = Users_inert UserItem_inert Plans_inert PlanItem_inert
  Inbounds_inert InboundItem_inert Outbounds_inert OutboundItem_inert
  Groups_inert GroupItem_inert Rules_inert RuleItem_inert Tunnels_inert Forwards_inert
  ForwardItem_inert Logs_kept Admins_inert AdminItem_inert Settings_inert

section \<open>The dispatcher\<close>

text \<open>What holds of the state after a request that returned.\<close>

definition result_keeps :: "(State \<Rightarrow> 'v) \<Rightarrow> 'w Store \<Rightarrow> ('a \<times> 'b \<times> 'w Store) option \<Rightarrow> bool" where
  "result_keeps v s x \<longleftrightarrow> (\<forall>a. x = Some a \<longrightarrow> kept v s (snd (snd a)))"

lemma result_keeps_rules:
  "(c \<Longrightarrow> result_keeps v s a) \<Longrightarrow> (\<not> c \<Longrightarrow> result_keeps v s b) \<Longrightarrow> result_keeps v s (if c then a else b)"
  "result_keeps v s (f e) \<Longrightarrow> result_keeps v s (Let e f)"
  "keeps snd v s p \<Longrightarrow> result_keeps v s (answer wrap p)"
  "keeps (\<lambda>x. snd (snd x)) v s t \<Longrightarrow> result_keeps v s (answer_node t)"
  "kept v s s' \<Longrightarrow> result_keeps v s (Some (r, ps, s'))"
  by (simp_all add: result_keeps_def answer_def answer_node_def keeps_def)

lemma inert_request_of [simp]:
  "inert (request_of ai q d) \<longleftrightarrow> rank (ai_Role ai) < 2 \<or> safe_method (hq_Method q)"
  "rq_Auth (request_of ai q d) = ai" "rq_Method (request_of ai q d) = hq_Method q"
  by (simp_all add: inert_def request_of_def)

text \<open>The two calls that act whatever the method is.\<close>

definition acts_on_get :: "string \<Rightarrow> bool" where
  "acts_on_get path \<longleftrightarrow>
     (let p = TrimPrefix path ''/api/'' in
      p = ''sync-traffic'' \<or>
      (HasPrefix p ''tunnels/'' \<and> length (SplitSlash (TrimSlash (TrimPrefix p ''tunnels/''))) = 2))"

lemma admin_part_inert:
  assumes "rank (ai_Role ai) < 2 \<or> (safe_method (hq_Method q) \<and> p \<noteq> ''sync-traffic'')"
  shows "result_keeps id s (api_admin_part ap ai q p s)"
  unfolding api_admin_part_def
  by (intro result_keeps_rules keeps_intros Logs_kept Admins_inert AdminItem_inert Settings_inert)
    (use assms refused_role(1) [of "request_of ai q no_body"] in \<open>auto simp: result_keeps_def\<close>)

lemma net_part_inert:
  assumes "rank (ai_Role ai) < 2 \<or>
      (safe_method (hq_Method q) \<and> p \<noteq> ''sync-traffic'' \<and>
       \<not> (HasPrefix p ''tunnels/'' \<and> length (SplitSlash (TrimSlash (TrimPrefix p ''tunnels/''))) = 2))"
  shows "result_keeps id s (api_net_part ap ai q p s)"
  unfolding api_net_part_def
  by (intro result_keeps_rules keeps_intros Groups_inert GroupItem_inert Rules_inert RuleItem_inert
      Tunnels_inert TunnelItem_inert Forwards_inert ForwardItem_inert admin_part_inert)
    (use assms in auto)

lemma handleAPI_inert:
  assumes "rank (ai_Role ai) < 2 \<or> (safe_method (hq_Method q) \<and> \<not> acts_on_get (hq_Path q))"
  shows "result_keeps id s (handleAPI ap ai q s)"
  unfolding handleAPI_def
  by (intro result_keeps_rules keeps_intros Users_inert UserItem_inert Plans_inert PlanItem_inert Nodes_inert
      NodeItem_inert Inbounds_inert InboundItem_inert Outbounds_inert OutboundItem_inert net_part_inert)
    (use assms in \<open>auto simp: acts_on_get_def Let_def\<close>)

text \<open>Only the two administrator handlers write the table of administrators.\<close>

definition admin_path :: "string \<Rightarrow> bool" where
  "admin_path path \<longleftrightarrow>
     (let p = TrimPrefix path ''/api/'' in p = ''admins'' \<or> HasPrefix p ''admins/'')"

lemma admin_part_admins:
  assumes "p \<noteq> ''admins''" "\<not> HasPrefix p ''admins/''"
  shows "result_keeps st_Admins s (api_admin_part ap ai q p s)"
  unfolding api_admin_part_def
  by (intro result_keeps_rules keeps_intros keeps_calls)
    (use assms sync_traffic_admins in \<open>auto simp: result_keeps_def\<close>)

lemma net_part_admins:
  assumes "p \<noteq> ''admins''" "\<not> HasPrefix p ''admins/''"
  shows "result_keeps st_Admins s (api_net_part ap ai q p s)"
  unfolding api_net_part_def
  by (intro result_keeps_rules keeps_intros keeps_calls admin_part_admins assms)

lemma handleAPI_admins:
  assumes "\<not> admin_path (hq_Path q)"
  shows "result_keeps st_Admins s (handleAPI ap ai q s)"
proof -
  have p: "TrimPrefix (hq_Path q) ''/api/'' \<noteq> ''admins''"
    "\<not> HasPrefix (TrimPrefix (hq_Path q) ''/api/'') ''admins/''"
    using assms by (simp_all add: admin_path_def Let_def)
  show ?thesis
    unfolding handleAPI_def
    by (intro result_keeps_rules keeps_intros keeps_calls node_handlers_admins nodeItem_admins net_part_admins p)
qed

section \<open>Requests without a session\<close>

lemma hashPassword_kept [keeps_calls]: "keeps snd v s (hashPassword C env p s)"
  unfolding hashPassword_def by (intro keeps_intros keeps_calls)

lemma draw_totp_kept [keeps_calls]: "keeps snd v s (draw_totp env b s)"
  unfolding draw_totp_def newTOTPSecret_def by (intro keeps_intros keeps_calls)

lemma setup_update_refused:
  "st_Admins (store_st s) \<noteq> [] \<Longrightarrow>
   UpdateE save (setup_update a) s = (Some (Plain ''setup already completed''), s)"
  by (simp add: UpdateE_def Update_def setup_update_def)

lemma setup_refused:
  assumes "m \<noteq> ''POST'' \<or> st_Admins (store_st s) \<noteq> []"
  shows "keeps snd id s (handleSetup sv m body s) \<and> resp_status (fst (handleSetup sv m body s)) \<noteq> 201"
proof (cases "m = ''POST'' \<and> (\<exists>i h s1. body = Inr i \<and> \<not> length (normalizeUsername (cr_Username i)) < 3 \<and>
    hashPassword (sv_crypto sv) (sv_env sv) (cr_Password i) s = (Inr h, s1))")
  case True
  then obtain i h s1 where m: "m = ''POST''" "body = Inr i" "\<not> length (normalizeUsername (cr_Username i)) < 3"
    and h: "hashPassword (sv_crypto sv) (sv_env sv) (cr_Password i) s = (Inr h, s1)" by blast
  obtain rid s2 where r: "randomHex (sv_env sv) 12 s1 = (rid, s2)" by fastforce
  obtain now s3 where n: "effect (ev_Now (sv_env sv)) s2 = (now, s3)" by fastforce
  have st: "store_st s3 = store_st s"
    using hashPassword_kept [of id s "sv_crypto sv" "sv_env sv" "cr_Password i"]
      keeps_randomHex [of id s1 "sv_env sv" 12] keeps_effect [of id s2 "ev_Now (sv_env sv)"]
    by (simp add: h r n keeps_def kept_def)
  then have "st_Admins (store_st s3) \<noteq> []" using assms m(1) by simp
  from setup_update_refused [OF this] st show ?thesis
    by (simp add: handleSetup_def m h r n Let_def keeps_def kept_def)
next
  case False
  have keep: "store_st s1 = store_st s" if "hashPassword C env p s = (x, s1)" for C env p x s1
    using hashPassword_kept [of id s C env p] that by (simp add: keeps_def kept_def)
  show ?thesis
    using False
    by (auto simp: handleSetup_def Let_def keeps_def kept_def dest: keep split: sum.splits prod.splits)
qed

lemma login_kept: "keeps snd v s (handleLogin sv m body s)"
  unfolding handleLogin_def by (intro keeps_intros keeps_calls)

lemma auth_Inr:
  assumes "auth sv now q st = Inr ai"
  obtains tok p where "hq_Session q = Some tok"
    "verifySession (sv_crypto sv) (sv_Unmarshal sv) now (sv_sessionKey sv) tok = Some p"
    "session_enabled st (sp_AdminID p)"
    "ai = \<lparr>ai_AdminID = sp_AdminID p, ai_Username = sp_Username p, ai_Role = sp_Role p\<rparr>"
    "safe_method (hq_Method q) \<or> (\<exists>c. hq_CSRFCookie q = Some c \<and> c \<noteq> [] \<and> hq_CSRFHeader q = c)"
  using assms by (auto simp: auth_def split: option.splits if_splits)

lemma api_request_authorized:
  assumes "api_request ap q s = Some (a, pr, s')" "store_st s' \<noteq> store_st s"
  obtains now ai where "auth (ap_server ap) now q (store_st s) = Inr ai" "2 \<le> rank (ai_Role ai)"
    "safe_method (hq_Method q) \<longrightarrow> acts_on_get (hq_Path q)"
proof -
  let ?now = "fst (ev_Now (ap_env ap) (store_world s))"
  let ?s1 = "s\<lparr>store_world := snd (ev_Now (ap_env ap) (store_world s))\<rparr>"
  obtain ai where ai: "auth (ap_server ap) ?now q (store_st s) = Inr ai"
    using assms by (auto simp: api_request_def effect_eq split: sum.splits)
  then obtain r where h: "handleAPI ap ai q ?s1 = Some (r, pr, s')"
    using assms by (auto simp: api_request_def effect_eq)
  have "\<not> (rank (ai_Role ai) < 2 \<or> (safe_method (hq_Method q) \<and> \<not> acts_on_get (hq_Path q)))"
  proof
    assume "rank (ai_Role ai) < 2 \<or> (safe_method (hq_Method q) \<and> \<not> acts_on_get (hq_Path q))"
    from handleAPI_inert [OF this, of ?s1 ap] h assms(2) show False
      by (simp add: result_keeps_def kept_def)
  qed
  with ai show thesis by (intro that [of ?now ai]) auto
qed

section \<open>The last administrator\<close>

lemma handleAPI_admin_handlers:
  assumes "TrimPrefix (hq_Path q) ''/api/'' = p"
  shows "p = ''admins'' \<Longrightarrow> handleAPI ap ai q s =
      answer PAuth (handleAdmins (ap_server ap) (request_of ai q (ap_admin ap)) s)"
    and "p = ''admins/'' @ rid \<Longrightarrow> handleAPI ap ai q s =
      answer PAuth (handleAdminItem (ap_server ap) (request_of ai q no_body) rid s)"
  using assms
  by (simp_all add: handleAPI_def api_net_part_def api_admin_part_def Let_def HasPrefix_def TrimPrefix_def)

lemma admin_update_grows:
  "UpdateE save (admin_update a) s = (r, s') \<Longrightarrow> st_Admins (store_st s) \<noteq> [] \<Longrightarrow> st_Admins (store_st s') \<noteq> []"
  by (cases r) (auto simp: admin_update_def dest!: UpdateE_None UpdateE_Some sym [of _ "store_st s'"] split: if_splits)

lemma handleAdmins_grows:
  fixes s :: "'w Store"
  assumes "st_Admins (store_st s) \<noteq> []"
  shows "st_Admins (store_st (snd (handleAdmins sv r s))) \<noteq> []"
proof -
  have call: "keeps snd id s1 x \<Longrightarrow> x = (y, s2) \<Longrightarrow> store_st s2 = store_st s1"
    for s1 s2 :: "'w Store" and x y by (simp add: keeps_def kept_def)
  have audit: "st_Admins (store_st (audit_now env q a obj s1)) = st_Admins (store_st s1)"
    for env and q :: "admin_input request" and a obj and s1 :: "'w Store"
    using audit_now_admins [OF kept_refl] by (simp add: kept_def)
  show ?thesis
    using assms
    by (auto simp: handleAdmins_def Let_def audit split: sum.split prod.split option.split
        dest!: call [OF hashPassword_kept] call [OF keeps_randomHex] call [OF keeps_effect]
          call [OF draw_totp_kept] dest: admin_update_grows)
qed

lemma handleAdminItem_keeps:
  assumes "session_enabled (store_st s) (ai_AdminID (rq_Auth r))"
  shows "st_Admins (store_st (snd (handleAdminItem sv r rid s))) \<noteq> []"
proof -
  obtain a where a: "a \<in> set (st_Admins (store_st s))" "a_ID a = ai_AdminID (rq_Auth r)"
    using assms by (auto simp: session_enabled_def list_ex_iff)
  let ?s1 = "UpdateST (ev_save (sv_env sv)) (\<lambda>st. st\<lparr>st_Admins := deleteByID (st_Admins st) rid a_ID\<rparr>) s"
  have "a \<in> set (st_Admins (store_st ?s1))" if "ai_AdminID (rq_Auth r) \<noteq> rid"
    using UpdateST_st [of "ev_save (sv_env sv)" "\<lambda>st. st\<lparr>st_Admins := deleteByID (st_Admins st) rid a_ID\<rparr>" s] a that
    by (auto simp: deleteByID_def)
  moreover have "st_Admins (store_st (audit_now (sv_env sv) r ''delete'' (''admin:'' @ rid) ?s1)) =
      st_Admins (store_st ?s1)"
    using audit_now_admins [OF kept_refl] by (simp add: kept_def)
  ultimately show ?thesis
    using a by (auto simp: handleAdminItem_def)
qed

section \<open>Properties\<close>


lemma handleAPI_keeps_admin:
  assumes auth: "auth (ap_server ap) now q (store_st s) = Inr ai"
    and h: "handleAPI ap ai q s = Some (r, probes, s')" and some: "st_Admins (store_st s) \<noteq> []"
  shows "st_Admins (store_st s') \<noteq> []"
proof (cases "admin_path (hq_Path q)")
  case False
  from handleAPI_admins [OF this, of s ap ai] h some show ?thesis by (simp add: result_keeps_def kept_def)
next
  case True
  then consider "TrimPrefix (hq_Path q) ''/api/'' = ''admins''"
    | rid where "TrimPrefix (hq_Path q) ''/api/'' = ''admins/'' @ rid"
    by (auto simp: admin_path_def Let_def HasPrefix_append)
  then show ?thesis
  proof cases
    case 1
    from handleAPI_admin_handlers(1) [OF 1 refl, of ap ai s] h handleAdmins_grows [OF some]
    show ?thesis by (auto simp: answer_def)
  next
    case 2
    have "session_enabled (store_st s) (ai_AdminID ai)" using auth by (auto elim: auth_Inr)
    with handleAPI_admin_handlers(2) [OF 2 refl, of ap ai s] h
      handleAdminItem_keeps [of s "request_of ai q no_body" "ap_server ap" rid]
    show ?thesis by (auto simp: answer_def)
  qed
qed

text \<open>A request, a tick and a goroutine each keep the last administrator.\<close>

lemma step_keeps_admin:
  "panel_step ap p p' \<Longrightarrow> st_Admins (store_st (pn_store p)) \<noteq> [] \<Longrightarrow> st_Admins (store_st (pn_store p')) \<noteq> []"
proof (induction rule: panel_step.induct)
  case (request q p a probes s')
  let ?s = "pn_store p"
  show ?case
  proof (cases "store_st s' = store_st ?s")
    case False
    have first: "handleSetup sv m b ?s = (x, s1) \<Longrightarrow> store_st s1 = store_st ?s" for sv m b x s1
      using setup_refused [of m ?s sv b] request(2) by (simp add: keeps_def kept_def)
    have login: "handleLogin sv m b ?s = (x, s1) \<Longrightarrow> store_st s1 = store_st ?s" for sv m b x s1
      using login_kept [of id ?s sv m b] by (simp add: keeps_def kept_def)
    have "api_request ap q ?s = Some (a, probes, s')"
      using request(1) False
      by (auto simp: routes_def Let_def dest: first login split: if_splits prod.splits)
    then obtain now s1 ai r where g: "auth (ap_server ap) now q (store_st s1) = Inr ai" "store_st s1 = store_st ?s"
      "handleAPI ap ai q s1 = Some (r, probes, s')"
      using False by (auto simp: api_request_def dest: effect_stD split: prod.splits sum.splits)
    have "st_Admins (store_st s1) \<noteq> []" using g(2) request(2) by simp
    from handleAPI_keeps_admin [OF g(1,3) this] show ?thesis by simp
  qed (use request in simp)
next
  case (ticked t p ts s)
  with background_admins show ?case by (fastforce simp: kept_def)
next
  case (ran t p)
  with run_task_admins [of "pn_store p" ap t] show ?case by (simp add: kept_def)
qed

text \<open>
  C6: once the panel has an administrator it never loses the last one, whatever requests it answers
  one after the other and whatever its background loop and goroutines do in between, so the setup stays
  closed: it changes nothing and is never answered with 201.
\<close>

theorem setup_only_once:
  assumes "(panel_step ap)\<^sup>*\<^sup>* p p'" "st_Admins (store_st (pn_store p)) \<noteq> []"
  shows "st_Admins (store_st (pn_store p')) \<noteq> [] \<and>
    (\<forall>m body r s. handleSetup (ap_server ap) m body (pn_store p') = (r, s) \<longrightarrow>
       store_st s = store_st (pn_store p') \<and> resp_status r \<noteq> 201)"
proof -
  have some: "st_Admins (store_st (pn_store p')) \<noteq> []"
    using assms(1) by (induction rule: rtranclp_induct) (use assms(2) step_keeps_admin in auto)
  have "store_st s = store_st (pn_store p') \<and> resp_status r \<noteq> 201"
    if "handleSetup (ap_server ap) m body (pn_store p') = (r, s)" for m body r s
    using setup_refused [of m "pn_store p'" "ap_server ap" body] some that by (simp add: keeps_def kept_def)
  with some show ?thesis by blast
qed

text \<open>
  The check of the caller and the deletion are two steps. Two owners who delete each other at the same
  time, both checked before either deletion, leave no administrator, and the setup is open again.
\<close>

lemma mutual_deletion:
  assumes "st_Admins st = [a, b]"
  shows "deleteByID (deleteByID (st_Admins st) (a_ID b) a_ID) (a_ID a) a_ID = []"
  using assms by (auto simp: deleteByID_def)

definition sample_admin :: Admin where
  "sample_admin = new_admin ''1'' ''root'' ''hash'' ''owner'' [] 1"

definition sample_store :: "nat Store" where
  "sample_store = \<lparr>store_st = emptyState\<lparr>st_Admins := [sample_admin]\<rparr>, store_world = 0\<rparr>"

definition sample_request :: "string \<Rightarrow> string \<Rightarrow> http_in" where
  "sample_request m path =
     \<lparr>hq_Method = m, hq_Path = path,
      hq_Session = Some (signSession sample_crypto (\<lambda>p. ''{}'') ''key'' sample_session),
      hq_CSRFCookie = Some ''c'', hq_CSRFHeader = ''c'', hq_RemoteAddr = ''10.0.0.9:4711'', hq_Query = [],
      hq_Body = ''Panel''\<rparr>"

lemma sample_auth:
  "auth (ap_server sample_api) 1 (sample_request m path) (emptyState\<lparr>st_Admins := [sample_admin]\<rparr>) =
   Inr \<lparr>ai_AdminID = ''1'', ai_Username = ''root'', ai_Role = ''owner''\<rparr>"
proof -
  have v: "verifySession sample_crypto (\<lambda>_. Some sample_session) 1 ''key''
      (signSession sample_crypto (\<lambda>p. ''{}'') ''key'' sample_session) = Some sample_session"
    by (simp add: verify_signed sample_session_def UnixSeconds_def Second_def)
  show ?thesis
    using v
    by (simp add: auth_def sample_api_def sample_request_def session_enabled_def sample_admin_def new_admin_def
        sample_session_def)
qed

lemma handleAPI_settings:
  assumes "hq_Path q = ''/api/settings''"
  shows "handleAPI ap ai q s =
    answer PAuth (handleSettings (ap_env ap) (request_of ai q (ap_settings ap)) s)"
  by (simp add: handleAPI_def api_net_part_def api_admin_part_def Let_def assms HasPrefix_def TrimPrefix_def)

lemma sample_settings:
  "st_Settings (store_st (snd (handleSettings sample_env
     \<lparr>rq_Method = ''PUT'', rq_Auth = \<lparr>ai_AdminID = ''1'', ai_Username = ''root'', ai_Role = ''owner''\<rparr>,
      rq_RemoteIP = ip, rq_Body = Inr [(''site_name'', ''Panel'')]\<rparr> sample_store))) ''site_name'' = Some ''Panel''"
  by code_simp

lemma sample_put:
  "\<exists>a pr s'. routes sample_api (sample_request ''PUT'' ''/api/settings'') sample_store = Some (a, pr, s') \<and>
     st_Settings (store_st s') ''site_name'' = Some ''Panel''"
proof -
  let ?q = "sample_request ''PUT'' ''/api/settings''"
  have q: "hq_Path ?q = ''/api/settings''" "hq_Method ?q = ''PUT''" "hq_Body ?q = ''Panel''"
    by (simp_all add: sample_request_def)
  have e: "ap_env sample_api = sample_env" "ev_Now sample_env w = (1, w)" "sample_store\<lparr>store_world := 0\<rparr> = sample_store"
    "store_world sample_store = 0" "store_st sample_store = emptyState\<lparr>st_Admins := [sample_admin]\<rparr>" for w
    by (simp_all add: ap_env_def sample_api_def sample_env_def sample_store_def)
  have "HasPrefix ''/api/settings'' ''/api/''" "\<not> HasPrefix ''/api/settings'' ''/sub/''"
    by (simp_all add: HasPrefix_def)
  then have "routes sample_api ?q sample_store = api_request sample_api ?q sample_store"
    by (simp add: routes_def Let_def q)
  also have "\<dots> = map_option (\<lambda>(r, probes, s2). (AApi r, probes, s2))
      (handleAPI sample_api \<lparr>ai_AdminID = ''1'', ai_Username = ''root'', ai_Role = ''owner''\<rparr> ?q sample_store)"
    by (simp add: api_request_def effect_eq e sample_auth)
  finally show ?thesis
    using sample_settings [of "remoteIP ?q"]
    by (simp add: handleAPI_settings q e answer_def request_of_def) (simp add: sample_api_def)
qed


theorem setup_only_once_witness:
  "\<exists>a pr s'. routes sample_api (sample_request ''PUT'' ''/api/settings'') sample_store = Some (a, pr, s') \<and>
     st_Admins (store_st s') \<noteq> []"
proof -
  obtain a pr s' where r: "routes sample_api (sample_request ''PUT'' ''/api/settings'') sample_store = Some (a, pr, s')"
    using sample_put by blast
  let ?p = "\<lparr>pn_store = sample_store, pn_tasks = [ProbeHealth]\<rparr>"
    and ?p' = "\<lparr>pn_store = s', pn_tasks = [ProbeHealth] @ map ProbeNode pr\<rparr>"
  have "routes sample_api (sample_request ''PUT'' ''/api/settings'') (pn_store ?p) = Some (a, pr, s')" using r by simp
  from request [OF this] have "(panel_step sample_api)\<^sup>*\<^sup>* ?p ?p'" by auto
  moreover have "st_Admins (store_st (pn_store ?p)) \<noteq> []" by (simp add: sample_store_def)
  ultimately have "st_Admins (store_st (pn_store ?p')) \<noteq> []" using setup_only_once by blast
  with r show ?thesis by simp
qed

end
