(* ===== verification/Host.thy ===== *)
theory Host
  imports Sessions OutboundInput "HOL-Library.AList"
begin

text \<open>
  The machine the node agent (src/internal/agent) works on: its files, and what the agent can ask of
  the operating system. The files are part of the model, so a write, a removal and a rename have the
  effect Go's package os documents; whether a call fails, and what a program prints or does, is
  decided by the record os of functions. Also run and runOutput of server.go, the file name check all
  of the agent uses, and the functions of packages strings and filepath that only the agent needs.
\<close>

section \<open>Strings\<close>

definition HasSuffix :: "string \<Rightarrow> string \<Rightarrow> bool" where
  "HasSuffix s p = HasPrefix (rev s) (rev p)"

definition TrimSuffix :: "string \<Rightarrow> string \<Rightarrow> string" where
  "TrimSuffix s p = rev (TrimPrefix (rev s) (rev p))"

text \<open>strings.ReplaceAll for a pattern of one byte, and for CR LF.\<close>

definition replace_char :: "char \<Rightarrow> string \<Rightarrow> string \<Rightarrow> string" where
  "replace_char c new s = concat (map (\<lambda>x. if x = c then new else [x]) s)"

fun replace_crlf :: "string \<Rightarrow> string" where
  "replace_crlf [] = []"
| "replace_crlf (c # cs) =
     (case cs of
        d # ds \<Rightarrow> if c = CHR 0x0D \<and> d = CHR 0x0A then CHR 0x0A # replace_crlf ds else c # replace_crlf cs
      | [] \<Rightarrow> [c])"

fun Contains :: "string \<Rightarrow> string \<Rightarrow> bool" where
  "Contains [] p = (p = [])"
| "Contains (c # cs) p = (HasPrefix (c # cs) p \<or> Contains cs p)"

text \<open>strings.SplitN(s, c, 2).\<close>

definition split_two :: "char \<Rightarrow> string \<Rightarrow> string list" where
  "split_two c s =
     (case index_in c s of None \<Rightarrow> [s] | Some i \<Rightarrow> [take i s, drop (i + 1) s])"

definition text_lines :: "string list \<Rightarrow> string" where
  "text_lines ls = concat (map (\<lambda>l. l @ [CHR 0x0A]) ls)"

text \<open>strings.Fields; word is the field read so far, in reverse.\<close>

function fields_from :: "string \<Rightarrow> string \<Rightarrow> string list" where
  "fields_from word [] = (if word = [] then [] else [rev word])"
| "fields_from word (c # cs) =
     (case strip_any utf8_spaces (c # cs) of
        Some r \<Rightarrow> (if word = [] then [] else [rev word]) @ fields_from [] r
      | None \<Rightarrow> fields_from (c # word) cs)"
  by pat_completeness auto
termination
proof (relation "measure (length \<circ> snd)")
  show "(([], r), word, c # cs) \<in> measure (length \<circ> snd)"
    if "strip_any utf8_spaces (c # cs) = Some r" for word c cs r
  proof -
    note strip = that
    obtain w where w: "w \<in> set utf8_spaces" "c # cs = w @ r" using strip_any_Some [OF strip] by blast
    then have "length (c # cs) = length w + length r" by (metis length_append)
    moreover have "0 < length w" using w(1) by (auto simp: utf8_spaces_def)
    ultimately show ?thesis by simp
  qed
qed simp_all

definition Fields :: "string \<Rightarrow> string list" where
  "Fields s = fields_from [] s"

text \<open>strconv.ParseInt(s, 10, 64) with its error ignored: 0, or the nearest bound.\<close>

definition ParseInt64 :: "string \<Rightarrow> int" where
  "ParseInt64 s =
     (let neg = (s \<noteq> [] \<and> hd s = CHR ''-'');
          ds = (if s \<noteq> [] \<and> (hd s = CHR ''-'' \<or> hd s = CHR ''+'') then tl s else s);
          v = (if neg then - digits_value ds else digits_value ds)
      in if ds = [] \<or> \<not> list_all is_digit ds then 0
         else if v < - (2 ^ 63) then - (2 ^ 63) else if 2 ^ 63 \<le> v then 2 ^ 63 - 1 else v)"

section \<open>Paths\<close>

definition path_Base :: "string \<Rightarrow> string" where
  "path_Base p =
     (if p = [] then ''.''
      else let t = rev (dropWhile (\<lambda>c. c = CHR 0x2F) (rev p))
           in if t = [] then ''/'' else last (SplitSlash t))"

definition safeName :: "string \<Rightarrow> bool" where
  "safeName s \<longleftrightarrow> 1 \<le> length s \<and> length s \<le> 40 \<and> list_all safe_char s"

text \<open>The check safeOpenVPNName, safeTorName and safeWGPathComponent make, each with its error.\<close>

definition safe_component :: "string \<Rightarrow> bool" where
  "safe_component name \<longleftrightarrow>
     (let base = path_Base name in base = name \<and> base \<noteq> ''.'' \<and> base \<noteq> ''..'' \<and> safeName base)"

definition in_dir :: "string \<Rightarrow> string \<Rightarrow> string" where
  "in_dir dir file = dir @ ''/'' @ file"

section \<open>The machine\<close>

record 'h host =
  ho_files :: "(string \<times> string) list"
  ho_rest :: 'h

text \<open>
  A write that fails leaves the given content, or no file. The functions on 'h host may read and
  change the files as well: they are the programs the agent starts.
\<close>

record 'h os =
  os_Write :: "string \<Rightarrow> string \<Rightarrow> 'h \<Rightarrow> (go_error \<times> string option) option \<times> 'h"
  os_Read :: "string \<Rightarrow> 'h \<Rightarrow> go_error option"
  os_Remove :: "string \<Rightarrow> 'h \<Rightarrow> bool \<times> 'h"
  os_Rename :: "string \<Rightarrow> string \<Rightarrow> 'h \<Rightarrow> go_error option \<times> 'h"
  os_Mkdir :: "string \<Rightarrow> 'h \<Rightarrow> go_error option \<times> 'h"
  os_Run :: "string list \<Rightarrow> string \<Rightarrow> 'h host \<Rightarrow> (string \<times> go_error option) \<times> 'h host"
  os_LookPath :: "string \<Rightarrow> 'h host \<Rightarrow> string option"
  os_Dial :: "int \<Rightarrow> 'h \<Rightarrow> bool \<times> 'h"
  os_HasInterface :: "string \<Rightarrow> 'h \<Rightarrow> bool"
  os_Sleep :: "'h \<Rightarrow> 'h"
  os_TempName :: "'h \<Rightarrow> (go_error + string) \<times> 'h"
  os_Nano :: "'h \<Rightarrow> int \<times> 'h"
  os_Marshal :: "json \<Rightarrow> string"
  os_MarshalIndent :: "json \<Rightarrow> string"

definition file_at :: "string \<Rightarrow> 'h host \<Rightarrow> string option" where
  "file_at p h = map_of (ho_files h) p"

definition set_file :: "string \<Rightarrow> string option \<Rightarrow> 'h host \<Rightarrow> 'h host" where
  "set_file p c h =
     h\<lparr>ho_files := (case c of None \<Rightarrow> AList.delete p (ho_files h) | Some b \<Rightarrow> AList.update p b (ho_files h))\<rparr>"

definition WriteFile :: "'h os \<Rightarrow> string \<Rightarrow> string \<Rightarrow> 'h host \<Rightarrow> go_error option \<times> 'h host" where
  "WriteFile os p b h =
     (case os_Write os p b (ho_rest h) of
        (None, w) \<Rightarrow> (None, set_file p (Some b) (h\<lparr>ho_rest := w\<rparr>))
      | (Some (e, left), w) \<Rightarrow> (Some e, set_file p left (h\<lparr>ho_rest := w\<rparr>)))"

definition ReadFile :: "'h os \<Rightarrow> string \<Rightarrow> 'h host \<Rightarrow> go_error + string" where
  "ReadFile os p h =
     (case file_at p h of
        None \<Rightarrow> Inl (Plain (''open '' @ p @ '': no such file or directory''))
      | Some b \<Rightarrow> (case os_Read os p (ho_rest h) of Some e \<Rightarrow> Inl e | None \<Rightarrow> Inr b))"

definition Stat :: "string \<Rightarrow> 'h host \<Rightarrow> bool" where
  "Stat p h = (file_at p h \<noteq> None)"

definition RemoveFile :: "'h os \<Rightarrow> string \<Rightarrow> 'h host \<Rightarrow> 'h host" where
  "RemoveFile os p h =
     (case os_Remove os p (ho_rest h) of
        (ok, w) \<Rightarrow> (if ok then set_file p None (h\<lparr>ho_rest := w\<rparr>) else h\<lparr>ho_rest := w\<rparr>))"

text \<open>os.RemoveAll: the files below a directory.\<close>

definition RemoveTree :: "'h os \<Rightarrow> string \<Rightarrow> 'h host \<Rightarrow> 'h host" where
  "RemoveTree os p h =
     (case os_Remove os p (ho_rest h) of
        (ok, w) \<Rightarrow>
          (if ok then h\<lparr>ho_rest := w, ho_files := filter (\<lambda>f. \<not> HasPrefix (fst f) (p @ ''/'')) (ho_files h)\<rparr>
           else h\<lparr>ho_rest := w\<rparr>))"

definition Rename :: "'h os \<Rightarrow> string \<Rightarrow> string \<Rightarrow> 'h host \<Rightarrow> go_error option \<times> 'h host" where
  "Rename os p p' h =
     (case os_Rename os p p' (ho_rest h) of
        (Some e, w) \<Rightarrow> (Some e, h\<lparr>ho_rest := w\<rparr>)
      | (None, w) \<Rightarrow> (None, set_file p None (set_file p' (file_at p h) (h\<lparr>ho_rest := w\<rparr>))))"

definition MkdirAll :: "'h os \<Rightarrow> string \<Rightarrow> 'h host \<Rightarrow> go_error option \<times> 'h host" where
  "MkdirAll os p h = (case os_Mkdir os p (ho_rest h) of (r, w) \<Rightarrow> (r, h\<lparr>ho_rest := w\<rparr>))"

text \<open>filepath.Glob(dir/*ext), in lexical order.\<close>

definition glob :: "string \<Rightarrow> string \<Rightarrow> 'h host \<Rightarrow> string list" where
  "glob dir ext h =
     insertion_sort string_less
       (filter (\<lambda>p. HasPrefix p (dir @ ''/'') \<and> CHR 0x2F \<notin> set (TrimPrefix p (dir @ ''/'')) \<and>
                    HasSuffix (TrimPrefix p (dir @ ''/'')) ext)
         (remdups (map fst (ho_files h))))"

text \<open>exec.Command(args).CombinedOutput() without input, with it, and the two wrappers of server.go.\<close>

definition command :: "'h os \<Rightarrow> string list \<Rightarrow> 'h host \<Rightarrow> (string \<times> go_error option) \<times> 'h host" where
  "command os args h = os_Run os args [] h"

definition runOutput :: "'h os \<Rightarrow> string list \<Rightarrow> 'h host \<Rightarrow> string \<times> 'h host" where
  "runOutput os args h = (case command os args h of ((out, e), h') \<Rightarrow> (out, h'))"

definition run :: "'h os \<Rightarrow> string list \<Rightarrow> 'h host \<Rightarrow> go_error option \<times> 'h host" where
  "run os args h =
     (case command os args h of
        ((out, None), h') \<Rightarrow> (None, h')
      | ((out, Some e), h') \<Rightarrow> (Some (Plain (err_msg e @ '': '' @ TrimSpace out)), h'))"

definition run_ignored :: "'h os \<Rightarrow> string list \<Rightarrow> 'h host \<Rightarrow> 'h host" where
  "run_ignored os args h = snd (command os args h)"

text \<open>if err := f(); err != nil { return err }, and the rest.\<close>

definition attempt ::
  "('h host \<Rightarrow> go_error option \<times> 'h host) \<Rightarrow> ('h host \<Rightarrow> go_error option \<times> 'h host) \<Rightarrow>
   'h host \<Rightarrow> go_error option \<times> 'h host" where
  "attempt f k h = (case f h of (Some e, h') \<Rightarrow> (Some e, h') | (None, h') \<Rightarrow> k h')"

text \<open>A sequence of steps, each of which may return its error at once.\<close>

primrec attempts ::
  "('h host \<Rightarrow> go_error option \<times> 'h host) list \<Rightarrow> ('h host \<Rightarrow> go_error option \<times> 'h host) \<Rightarrow>
   'h host \<Rightarrow> go_error option \<times> 'h host" where
  "attempts [] k = k"
| "attempts (f # fs) k = attempt f (attempts fs k)"

text \<open>The loop that waits until something is ready, for a number of rounds.\<close>

primrec wait_ready :: "('h host \<Rightarrow> bool \<times> 'h host) \<Rightarrow> 'h os \<Rightarrow> nat \<Rightarrow> 'h host \<Rightarrow> bool \<times> 'h host" where
  "wait_ready ready os 0 h = (False, h)"
| "wait_ready ready os (Suc n) h =
     (case ready h of
        (True, h') \<Rightarrow> (True, h')
      | (False, h') \<Rightarrow> wait_ready ready os n (h'\<lparr>ho_rest := os_Sleep os (ho_rest h')\<rparr>))"

section \<open>Lemmas\<close>

lemma file_set_file [simp]: "file_at p (set_file q c h) = (if p = q then c else file_at p h)"
  by (auto simp: file_at_def set_file_def update_conv' delete_conv' split: option.split)

lemma map_of_filter_key: "P k \<Longrightarrow> map_of (filter (\<lambda>e. P (fst e)) xs) k = map_of xs k"
  by (induction xs) auto

lemma file_rest [simp]: "file_at p (h\<lparr>ho_rest := w\<rparr>) = file_at p h"
  by (simp add: file_at_def)

lemma file_WriteFile:
  "WriteFile os q b h = (r, h') \<Longrightarrow> p \<noteq> q \<Longrightarrow> file_at p h' = file_at p h"
  "WriteFile os q b h = (None, h') \<Longrightarrow> file_at q h' = Some b"
  by (auto simp: WriteFile_def split: prod.splits option.splits)

lemma file_RemoveFile: "p \<noteq> q \<Longrightarrow> file_at p (RemoveFile os q h) = file_at p h"
  by (simp add: RemoveFile_def split: prod.split)

lemma file_RemoveTree: "\<not> HasPrefix p (q @ ''/'') \<Longrightarrow> file_at p (RemoveTree os q h) = file_at p h"
  using map_of_filter_key [of "\<lambda>k. \<not> HasPrefix k (q @ ''/'')" p "ho_files h"]
  by (simp add: RemoveTree_def file_at_def split: prod.split)

lemma file_MkdirAll: "MkdirAll os q h = (r, h') \<Longrightarrow> file_at p h' = file_at p h"
  by (auto simp: MkdirAll_def split: prod.splits)

lemma TrimPrefix_same [simp]: "TrimPrefix (d @ n) d = n"
proof -
  have "strip_prefix d (d @ n) = Some n" by simp
  then show ?thesis by (simp only: TrimPrefix_def option.case)
qed

lemma TrimPrefix_dir [simp]: "TrimPrefix (d @ c # n) (d @ [c]) = n"
  using TrimPrefix_same [of "d @ [c]" n] by simp

lemma TrimSuffix_same [simp]: "TrimSuffix (n @ e) e = n"
  by (simp add: TrimSuffix_def)

lemma HasSuffix_append: "HasSuffix s e \<longleftrightarrow> (\<exists>n. s = n @ e)"
proof -
  have "(\<exists>r. rev s = rev e @ r) \<longleftrightarrow> (\<exists>n. s = n @ e)" by (metis rev_append rev_rev_ident)
  then show ?thesis by (simp add: HasSuffix_def HasPrefix_append)
qed

lemma glob_in:
  "p \<in> set (glob dir ext h) \<longleftrightarrow>
   (\<exists>n. p = in_dir dir n \<and> CHR 0x2F \<notin> set n \<and> HasSuffix n ext \<and> file_at p h \<noteq> None)"
  by (auto simp: glob_def in_dir_def HasPrefix_append file_at_def map_of_eq_None_iff)

lemma distinct_glob: "distinct (glob dir ext h)"
  by (simp add: glob_def)

text \<open>A safe name has no slash, so it is one component of a path.\<close>

lemma safe_char_plain [simp]: "\<not> safe_char (CHR 0x2F)" "\<not> safe_char (CHR 0x0A)" "\<not> safe_char (CHR 0x20)"
  by (simp_all add: safe_char_def)

lemma safe_component_plain:
  "safe_component n \<Longrightarrow> n \<noteq> [] \<and> list_all safe_char n"
  by (auto simp: safe_component_def safeName_def Let_def)

lemma safe_no_slash: "list_all safe_char n \<Longrightarrow> CHR 0x2F \<notin> set n"
  by (auto simp: list_all_iff)

lemma SplitSlash_plain: "CHR 0x2F \<notin> set n \<Longrightarrow> SplitSlash n = [n]"
  by (induction n) auto

lemma SplitSlash_nonempty [simp]: "SplitSlash s \<noteq> []"
  by (induction s) (auto split: list.split)

lemma SplitSlash_snoc: "CHR 0x2F \<notin> set n \<Longrightarrow> \<exists>ps. ps \<noteq> [] \<and> SplitSlash (d @ CHR 0x2F # n) = ps @ [n]"
proof (induction d)
  case Nil
  then show ?case by (simp add: SplitSlash_plain)
next
  case (Cons c d)
  then obtain ps where ps: "ps \<noteq> []" "SplitSlash (d @ CHR 0x2F # n) = ps @ [n]" by blast
  then obtain p q where pq: "SplitSlash (d @ CHR 0x2F # n) = p # q @ [n]" by (cases ps) auto
  show ?case
  proof (cases "c = CHR 0x2F")
    case True
    have "SplitSlash ((c # d) @ CHR 0x2F # n) = ([] # ps) @ [n]"
      by (simp only: append_Cons SplitSlash.simps True refl if_True ps)
    then show ?thesis by blast
  next
    case False
    have "SplitSlash ((c # d) @ CHR 0x2F # n) = ((c # p) # q) @ [n]"
      by (simp only: append_Cons SplitSlash.simps False if_False pq list.case)
    then show ?thesis by blast
  qed
qed

lemma Base_in_dir: "CHR 0x2F \<notin> set n \<Longrightarrow> n \<noteq> [] \<Longrightarrow> path_Base (in_dir d n) = n"
proof -
  assume n: "CHR 0x2F \<notin> set n" "n \<noteq> []"
  then obtain m c where m: "n = m @ [c]" and "c \<noteq> CHR 0x2F" by (cases n rule: rev_cases) auto
  then have "rev (dropWhile (\<lambda>c. c = CHR 0x2F) (rev (in_dir d n))) = in_dir d n" by (simp add: in_dir_def)
  moreover obtain ps where "SplitSlash (in_dir d n) = ps @ [n]" using SplitSlash_snoc [OF n(1)] by (auto simp: in_dir_def)
  moreover have "in_dir d n \<noteq> []" by (simp add: in_dir_def)
  ultimately show ?thesis by (simp add: path_Base_def)
qed

text \<open>Nothing is trimmed off a word of printable ASCII characters, such as a safe name.\<close>

definition word_char :: "char \<Rightarrow> bool" where
  "word_char c = (let n = (of_char c :: nat) in 33 \<le> n \<and> n \<le> 126)"

lemma safe_word: "safe_char c \<Longrightarrow> word_char c"
  by (auto simp: safe_char_def word_char_def Let_def)

lemma safe_words: "list_all safe_char s \<Longrightarrow> list_all word_char s"
  by (auto simp: list_all_iff safe_word)

lemma spaces_no_word:
  "list_all (\<lambda>w. w \<noteq> [] \<and> \<not> word_char (hd w)) utf8_spaces"
  "list_all (\<lambda>w. w \<noteq> [] \<and> \<not> word_char (hd w)) (map rev utf8_spaces)"
  by code_simp+

lemma word_bare:
  assumes s: "s = [] \<or> word_char (hd s)" and ws: "list_all (\<lambda>w. w \<noteq> [] \<and> \<not> word_char (hd w)) ws"
  shows "bare ws s"
  unfolding bare_def strip_any_None
proof (intro ballI allI notI)
  fix w r assume w: "w \<in> set ws" and eq: "s = w @ r"
  with ws have "w \<noteq> []" "\<not> word_char (hd w)" by (auto simp: list_all_iff)
  with s eq show False by (cases w) simp_all
qed

lemma ends_TrimSpace:
  assumes "s = [] \<or> (word_char (hd s) \<and> word_char (last s))"
  shows "TrimSpace s = s"
proof -
  have "rev s = [] \<or> word_char (hd (rev s))" using assms by (auto simp: hd_rev)
  with assms word_bare [OF _ spaces_no_word(1), of s] word_bare [OF _ spaces_no_word(2), of "rev s"]
  show ?thesis by (auto simp: TrimSpace_def trim_front_bare)
qed

lemma safe_TrimSpace: "list_all word_char s \<Longrightarrow> TrimSpace s = s"
  by (rule ends_TrimSpace) (cases s; auto simp: list_all_iff)

lemma safe_component_TrimSpace [simp]: "safe_component n \<Longrightarrow> TrimSpace n = n"
  by (simp add: safe_component_plain safe_words safe_TrimSpace)

text \<open>Fields reads a word up to the next space.\<close>

lemma fields_word: "list_all word_char w \<Longrightarrow> fields_from acc (w @ r) = fields_from (rev w @ acc) r"
proof (induction w arbitrary: acc)
  case (Cons c w)
  then have "bare utf8_spaces (c # w @ r)" by (intro word_bare spaces_no_word) simp
  with Cons show ?case by (simp add: bare_def)
qed simp

lemma fields_space: "fields_from acc (CHR 0x20 # r) = (if acc = [] then [] else [rev acc]) @ fields_from [] r"
proof -
  have "strip_any utf8_spaces (CHR 0x20 # r) = Some r" by (simp add: utf8_spaces_def)
  then show ?thesis by simp
qed

lemma Fields_two:
  assumes "list_all word_char v" "list_all word_char w" "v \<noteq> []" "w \<noteq> []"
  shows "Fields (v @ CHR 0x20 # w) = [v, w]"
proof -
  have "fields_from [] (v @ CHR 0x20 # w @ []) = [v, w]"
    using assms by (simp only: fields_word fields_space) simp
  then show ?thesis by (simp add: Fields_def)
qed

end
