(* ===== verification/Managed.thy ===== *)
theory Managed
  imports Host
begin

text \<open>
  The shape that syncManagedWGOutbounds, syncManagedTorOutbounds and syncManagedOpenVPNOutbounds share:
  normalise and check every specification of the request, apply them in order, then remove what a marker
  file names and the request does not. The locale managed states what the three kinds of outbound
  promise, and proves once that after a successful synchronisation the marker files name exactly the
  outbounds of the request.
\<close>

section \<open>The synchronisation\<close>

text \<open>The maps of the names (ports, interfaces) seen so far are read off the list built so far.\<close>

fun normalize_all ::
  "('s \<Rightarrow> go_error + 's) \<Rightarrow> ('s list \<Rightarrow> 's \<Rightarrow> go_error option) \<Rightarrow> 's list \<Rightarrow> 's list \<Rightarrow> go_error + 's list" where
  "normalize_all norm clash acc [] = Inr acc"
| "normalize_all norm clash acc (raw # raws) =
     (case norm raw of
        Inl e \<Rightarrow> Inl e
      | Inr x \<Rightarrow>
          (case clash acc x of
             Some e \<Rightarrow> Inl e
           | None \<Rightarrow> normalize_all norm clash (acc @ [x]) raws))"

fun apply_all ::
  "('s \<Rightarrow> 'h host \<Rightarrow> go_error option \<times> 'h host) \<Rightarrow> ('s \<Rightarrow> string) \<Rightarrow> 's list \<Rightarrow> 'h host \<Rightarrow> go_error option \<times> 'h host" where
  "apply_all app what [] h = (None, h)"
| "apply_all app what (x # xs) h =
     (case app x h of
        (Some e, h') \<Rightarrow> (Some (Plain (''apply '' @ what x @ '': '' @ err_msg e)), h')
      | (None, h') \<Rightarrow> apply_all app what xs h')"

definition marker_name :: "string \<Rightarrow> string" where
  "marker_name p = TrimSuffix (path_Base p) ''.json''"

fun remove_stale ::
  "(string \<Rightarrow> 'h host \<Rightarrow> 'h host) \<Rightarrow> string list \<Rightarrow> string list \<Rightarrow> 'h host \<Rightarrow> 'h host" where
  "remove_stale rem desired [] h = h"
| "remove_stale rem desired (m # ms) h =
     remove_stale rem desired ms (if marker_name m \<in> set desired then h else rem (marker_name m) h)"

definition sync_managed ::
  "('s \<Rightarrow> go_error + 's) \<Rightarrow> ('s list \<Rightarrow> 's \<Rightarrow> go_error option) \<Rightarrow> ('s \<Rightarrow> string) \<Rightarrow> ('s \<Rightarrow> string) \<Rightarrow>
   ('s \<Rightarrow> 'h host \<Rightarrow> go_error option \<times> 'h host) \<Rightarrow> (string \<Rightarrow> 'h host \<Rightarrow> 'h host) \<Rightarrow> string \<Rightarrow>
   's list \<Rightarrow> 'h host \<Rightarrow> go_error option \<times> 'h host" where
  "sync_managed norm clash name what app rem dir specs h =
     (case normalize_all norm clash [] specs of
        Inl e \<Rightarrow> (Some e, h)
      | Inr xs \<Rightarrow>
          (case apply_all app what xs h of
             (Some e, h1) \<Rightarrow> (Some e, h1)
           | (None, h1) \<Rightarrow> (None, remove_stale rem (map name xs) (glob dir ''.json'' h1) h1)))"

section \<open>Paths, guards and frames\<close>

definition marker :: "string \<Rightarrow> string \<Rightarrow> string" where
  "marker dir n = in_dir dir (n @ ''.json'')"

definition marker_names :: "string \<Rightarrow> 'h host \<Rightarrow> string list" where
  "marker_names dir h = map marker_name (glob dir ''.json'' h)"

text \<open>Every marker file of the directory was written for a good name.\<close>

definition markers_ok :: "(string \<Rightarrow> bool) \<Rightarrow> string \<Rightarrow> 'h host \<Rightarrow> bool" where
  "markers_ok good dir h = list_all good (marker_names dir h)"

text \<open>A value whose error ends the function.\<close>

definition need :: "go_error + 'a \<Rightarrow> ('a \<Rightarrow> 'h host \<Rightarrow> go_error option \<times> 'h host) \<Rightarrow> 'h host \<Rightarrow> go_error option \<times> 'h host" where
  "need r k h = (case r of Inl e \<Rightarrow> (Some e, h) | Inr a \<Rightarrow> k a h)"

lemma need_simps [simp]: "need (Inr a) k = k a" "need (Inl e) k = (\<lambda>h. (Some e, h))"
  by (simp_all add: need_def fun_eq_iff)

text \<open>No program the agent starts touches the directory, and no removal fails.\<close>

definition quiet :: "'h os \<Rightarrow> string \<Rightarrow> bool" where
  "quiet os dir \<longleftrightarrow>
     (\<forall>args inp h n. file_at (in_dir dir n) (snd (os_Run os args inp h)) = file_at (in_dir dir n) h) \<and>
     (\<forall>p w. fst (os_Remove os p w))"

definition spares :: "string \<Rightarrow> ('h host \<Rightarrow> 'a \<times> 'h host) \<Rightarrow> bool" where
  "spares p f \<longleftrightarrow> (\<forall>h. file_at p (snd (f h)) = file_at p h)"

definition leaves :: "string \<Rightarrow> ('h host \<Rightarrow> go_error option \<times> 'h host) \<Rightarrow> bool" where
  "leaves p f \<longleftrightarrow> (\<forall>h h'. f h = (None, h') \<longrightarrow> file_at p h' \<noteq> None)"

named_theorems spare_intros \<open>what a step of the agent leaves alone\<close>

lemma sparesD: "spares p f \<Longrightarrow> f h = (r, h') \<Longrightarrow> file_at p h' = file_at p h"
  by (metis spares_def snd_conv)

lemma spares_return [spare_intros]: "spares p (\<lambda>h. (r, h))"
  by (simp add: spares_def)

lemma spares_WriteFile [spare_intros]: "p \<noteq> q \<Longrightarrow> spares p (WriteFile os q b)"
  unfolding spares_def by (metis file_WriteFile(1) prod.collapse)

lemma spares_MkdirAll [spare_intros]: "spares p (MkdirAll os q)"
  unfolding spares_def by (metis file_MkdirAll prod.collapse)

lemma command_file: "quiet os dir \<Longrightarrow> file_at (in_dir dir n) (snd (command os args h)) = file_at (in_dir dir n) h"
  by (simp add: quiet_def command_def)

lemma spares_run [spare_intros]: "quiet os dir \<Longrightarrow> spares (in_dir dir n) (run os args)"
proof -
  assume q: "quiet os dir"
  have "file_at (in_dir dir n) (snd (run os args h)) = file_at (in_dir dir n) (snd (command os args h))" for h
    by (simp add: run_def split: prod.split option.split)
  with q show ?thesis by (simp add: spares_def command_file)
qed

lemma run_ignored_file [spare_intros]:
  "quiet os dir \<Longrightarrow> file_at (in_dir dir n) (run_ignored os args h) = file_at (in_dir dir n) h"
  by (simp add: run_ignored_def command_file)

lemma RemoveFile_gone: "quiet os dir \<Longrightarrow> file_at p (RemoveFile os p h) = None"
  by (auto simp: quiet_def RemoveFile_def split: prod.split) (metis fst_conv)

lemma spares_attempt [spare_intros]: "spares p f \<Longrightarrow> spares p k \<Longrightarrow> spares p (attempt f k)"
  by (auto simp: spares_def attempt_def split: prod.split option.split) (metis snd_conv)+

lemma spares_attempts [spare_intros]:
  "(\<And>f. f \<in> set fs \<Longrightarrow> spares p f) \<Longrightarrow> spares p k \<Longrightarrow> spares p (attempts fs k)"
  by (induction fs) (auto intro: spares_attempt)

lemma spares_wait_ready:
  assumes "\<And>h. file_at p (snd (ready h)) = file_at p h"
  shows "file_at p (snd (wait_ready ready os n h)) = file_at p h"
proof (induction n arbitrary: h)
  case (Suc n)
  obtain b h' where r: "ready h = (b, h')" by (cases "ready h")
  with assms [of h] have "file_at p h' = file_at p h" by simp
  with Suc r show ?case by (simp split: bool.split)
qed simp

lemma spares_Rename [spare_intros]: "p \<noteq> q \<Longrightarrow> p \<noteq> q' \<Longrightarrow> spares p (Rename os q q')"
  by (simp add: spares_def Rename_def split: prod.split option.split)

lemma leaves_attempt: "leaves p f \<Longrightarrow> spares p k \<Longrightarrow> leaves p (attempt f k)"
  by (auto simp: leaves_def attempt_def split: prod.splits option.splits) (metis sparesD option.distinct(1))

lemma leaves_later: "leaves p k \<Longrightarrow> leaves p (attempt f k)"
  by (auto simp: leaves_def attempt_def split: prod.splits option.splits)

lemma leaves_WriteFile: "leaves p (WriteFile os p b)"
  by (auto simp: leaves_def dest: file_WriteFile(2))

text \<open>A function that at every host returns an error at once or does what a better known one does.\<close>

lemma leaves_cases: "(\<And>h. (\<exists>e. g h = (Some e, h)) \<or> (\<exists>f. leaves p f \<and> g h = f h)) \<Longrightarrow> leaves p g"
  unfolding leaves_def by (metis option.distinct(1) prod.inject)

lemma spares_cases: "(\<And>h. (\<exists>e. g h = (Some e, h)) \<or> (\<exists>f. spares p f \<and> g h = f h)) \<Longrightarrow> spares p g"
  unfolding spares_def by (metis snd_conv)

section \<open>Markers\<close>

lemma marker_inj [simp]: "marker dir m = marker dir n \<longleftrightarrow> m = n"
  by (simp add: marker_def in_dir_def)

lemma file_Remove_marker:
  "quiet os d \<Longrightarrow> file_at (marker dir m) (RemoveFile os (marker dir n) h) =
     (if m = n then None else file_at (marker dir m) h)"
  by (simp add: RemoveFile_gone file_RemoveFile)

lemma marker_name_marker: "CHR 0x2F \<notin> set n \<Longrightarrow> marker_name (marker dir n) = n"
  by (simp add: marker_name_def marker_def Base_in_dir)

lemma marker_of_name: "p \<in> set (glob dir ''.json'' h) \<Longrightarrow> p = marker dir (marker_name p)"
proof -
  assume "p \<in> set (glob dir ''.json'' h)"
  then obtain n m where "p = in_dir dir n" "CHR 0x2F \<notin> set n" "n = m @ ''.json''"
    by (auto simp: glob_in HasSuffix_append)
  then have "p = marker dir m" "CHR 0x2F \<notin> set m" by (simp_all add: marker_def)
  then show ?thesis by (simp add: marker_name_marker)
qed

lemma marker_in_glob:
  "CHR 0x2F \<notin> set n \<Longrightarrow> marker dir n \<in> set (glob dir ''.json'' h) \<longleftrightarrow> file_at (marker dir n) h \<noteq> None"
  by (auto simp: glob_in marker_def in_dir_def HasSuffix_append)

lemma in_marker_names:
  "n \<in> set (marker_names dir h) \<longleftrightarrow> CHR 0x2F \<notin> set n \<and> file_at (marker dir n) h \<noteq> None"
proof
  assume "n \<in> set (marker_names dir h)"
  then obtain p where p: "p \<in> set (glob dir ''.json'' h)" "n = marker_name p" by (auto simp: marker_names_def)
  then have eq: "p = marker dir n" by (simp add: marker_of_name [symmetric])
  from p(1) have "CHR 0x2F \<notin> set n"
    unfolding eq by (auto simp: glob_in marker_def in_dir_def)
  with p(1) eq show "CHR 0x2F \<notin> set n \<and> file_at (marker dir n) h \<noteq> None" by (simp add: marker_in_glob)
next
  assume n: "CHR 0x2F \<notin> set n \<and> file_at (marker dir n) h \<noteq> None"
  then have "marker dir n \<in> set (glob dir ''.json'' h)" by (simp add: marker_in_glob)
  then have "marker_name (marker dir n) \<in> set (marker_names dir h)" by (simp add: marker_names_def)
  with n show "n \<in> set (marker_names dir h)" by (simp add: marker_name_marker)
qed

lemma normalize_all_Inr:
  "normalize_all norm clash acc specs = Inr xs \<Longrightarrow>
   \<exists>ys. xs = acc @ ys \<and> list_all2 (\<lambda>s x. norm s = Inr x) specs ys"
proof (induction norm clash acc specs rule: normalize_all.induct)
  case (2 norm clash acc raw raws)
  from "2.prems" obtain x where x: "norm raw = Inr x" "clash acc x = None"
    "normalize_all norm clash (acc @ [x]) raws = Inr xs"
    by (auto split: sum.splits option.splits)
  with "2.IH" obtain ys where "xs = (acc @ [x]) @ ys" "list_all2 (\<lambda>s x. norm s = Inr x) raws ys" by blast
  with x(1) show ?case by (auto intro!: exI [of _ "x # ys"])
qed simp

lemma apply_all_invariant:
  assumes "\<And>x h r h'. x \<in> set xs \<Longrightarrow> I h \<Longrightarrow> app x h = (r, h') \<Longrightarrow> I h'"
    and "I h" and "apply_all app what xs h = (r, h')"
  shows "I h'"
  using assms
proof (induction xs arbitrary: h)
  case (Cons x xs)
  obtain r1 h1 where h1: "app x h = (r1, h1)" by (cases "app x h")
  then have I1: "I h1" using Cons.prems(1,2) by auto
  show ?case
  proof (cases r1)
    case None
    then have "apply_all app what xs h1 = (r, h')" using h1 Cons.prems(3) by simp
    with Cons.IH [of h1] Cons.prems(1) I1 show ?thesis by auto
  next
    case (Some e)
    with h1 I1 Cons.prems(3) show ?thesis by simp
  qed
qed simp

lemma remove_stale_spares:
  "\<forall>m \<in> set ms. \<forall>h. file_at p (rem (marker_name m) h) = file_at p h \<Longrightarrow>
   file_at p (remove_stale rem desired ms h) = file_at p h"
  by (induction ms arbitrary: h) auto

section \<open>The contract of a managed kind of outbound\<close>

locale managed =
  fixes norm :: "'s \<Rightarrow> go_error + 's"
    and clash :: "'s list \<Rightarrow> 's \<Rightarrow> go_error option"
    and name :: "'s \<Rightarrow> string"
    and what :: "'s \<Rightarrow> string"
    and app :: "'s \<Rightarrow> 'h host \<Rightarrow> go_error option \<times> 'h host"
    and rem :: "string \<Rightarrow> 'h host \<Rightarrow> 'h host"
    and dir :: string
    and good :: "string \<Rightarrow> bool"
    and calm :: bool
  assumes good_safe: "good n \<Longrightarrow> safe_component n"
    and app_safe: "norm s = Inr x \<Longrightarrow> app x h = (None, h') \<Longrightarrow> good (name x)"
    and clash_new: "clash acc x = None \<Longrightarrow> name x \<notin> name ` set acc"
    and app_leaves: "calm \<Longrightarrow> norm s = Inr x \<Longrightarrow> leaves (marker dir (name x)) (app x)"
    and app_spares: "calm \<Longrightarrow> norm s = Inr x \<Longrightarrow> n \<noteq> name x \<Longrightarrow> spares (marker dir n) (app x)"
    and rem_gone: "calm \<Longrightarrow> good n \<Longrightarrow> file_at (marker dir n) (rem n h) = None"
    and rem_spares: "calm \<Longrightarrow> good n \<Longrightarrow> m \<noteq> n \<Longrightarrow>
      file_at (marker dir m) (rem n h) = file_at (marker dir m) h"
begin

lemma rejected: "normalize_all norm clash [] specs = Inl e \<Longrightarrow>
    sync_managed norm clash name what app rem dir specs h = (Some e, h)"
  by (simp add: sync_managed_def)

lemma names_distinct:
  "normalize_all norm clash acc specs = Inr xs \<Longrightarrow> distinct (map name acc) \<Longrightarrow> distinct (map name xs)"
proof (induction specs arbitrary: acc)
  case (Cons raw raws)
  from Cons.prems(1) obtain x where x: "clash acc x = None" "normalize_all norm clash (acc @ [x]) raws = Inr xs"
    by (auto split: sum.splits option.splits)
  have "distinct (map name (acc @ [x]))" using clash_new [OF x(1)] Cons.prems(2) by simp
  with Cons.IH [OF x(2)] show ?case .
qed simp

lemma apply_all_spares:
  "calm \<Longrightarrow> \<forall>x \<in> set xs. \<exists>s. norm s = Inr x \<Longrightarrow> n \<notin> name ` set xs \<Longrightarrow> apply_all app what xs h = (r, h') \<Longrightarrow>
   file_at (marker dir n) h' = file_at (marker dir n) h"
proof (induction xs arbitrary: h)
  case (Cons x xs)
  obtain s where s: "norm s = Inr x" using Cons.prems(2) by auto
  obtain r1 h1 where h1: "app x h = (r1, h1)" by (cases "app x h")
  have "n \<noteq> name x" using Cons.prems(3) by auto
  then have same: "file_at (marker dir n) h1 = file_at (marker dir n) h"
    using app_spares [OF Cons.prems(1) s] h1 by (blast dest: sparesD)
  show ?case
  proof (cases r1)
    case None
    with Cons.prems h1 have "apply_all app what xs h1 = (r, h')" by simp
    with Cons same show ?thesis by simp
  next
    case (Some e)
    with Cons.prems(4) h1 same show ?thesis by simp
  qed
qed simp

lemma apply_all_leaves:
  "calm \<Longrightarrow> \<forall>x \<in> set xs. \<exists>s. norm s = Inr x \<Longrightarrow> distinct (map name xs) \<Longrightarrow>
   apply_all app what xs h = (None, h') \<Longrightarrow> \<forall>x \<in> set xs. file_at (marker dir (name x)) h' \<noteq> None"
proof (induction xs arbitrary: h)
  case (Cons x xs)
  obtain s where s: "norm s = Inr x" using Cons.prems(2) by auto
  from Cons.prems(4) obtain h1 where h1: "app x h = (None, h1)" "apply_all app what xs h1 = (None, h')"
    by (auto split: prod.splits option.splits)
  have "file_at (marker dir (name x)) h1 \<noteq> None"
    using app_leaves [OF Cons.prems(1) s] h1(1) by (auto simp: leaves_def)
  moreover have "file_at (marker dir (name x)) h' = file_at (marker dir (name x)) h1"
    using Cons.prems h1(2) by (intro apply_all_spares) auto
  ultimately show ?case using Cons.IH [OF Cons.prems(1) _ _ h1(2)] Cons.prems by auto
qed simp

lemma each_normal:
  "normalize_all norm clash [] specs = Inr xs \<Longrightarrow> \<forall>x \<in> set xs. \<exists>s. norm s = Inr x"
proof -
  assume "normalize_all norm clash [] specs = Inr xs"
  then have "list_all2 (\<lambda>s x. norm s = Inr x) specs xs" using normalize_all_Inr by fastforce
  then show ?thesis by (induction rule: list_all2_induct) auto
qed

lemma apply_all_safe:
  "\<forall>x \<in> set xs. \<exists>s. norm s = Inr x \<Longrightarrow> apply_all app what xs h = (None, h') \<Longrightarrow>
   \<forall>x \<in> set xs. good (name x)"
  by (induction xs arbitrary: h) (auto split: prod.splits option.splits dest: app_safe)

lemma rem_file:
  "calm \<Longrightarrow> good m \<Longrightarrow>
   file_at (marker dir n) (rem m h) = (if n = m then None else file_at (marker dir n) h)"
  by (simp add: rem_gone rem_spares)

lemma remove_stale_file:
  "calm \<Longrightarrow> \<forall>m \<in> set ms. good (marker_name m) \<Longrightarrow>
   file_at (marker dir n) (remove_stale rem desired ms h) =
     (if n \<in> marker_name ` set ms \<and> n \<notin> set desired then None else file_at (marker dir n) h)"
  by (induction ms arbitrary: h) (auto simp: rem_file)

lemma apply_all_ok:
  assumes "calm" "\<forall>x \<in> set xs. \<exists>s. norm s = Inr x" "apply_all app what xs h = (None, h')" "markers_ok good dir h"
  shows "markers_ok good dir h'"
  unfolding markers_ok_def list_all_iff
proof
  fix n assume n: "n \<in> set (marker_names dir h')"
  show "good n"
  proof (cases "n \<in> name ` set xs")
    case True
    then show ?thesis using apply_all_safe [OF assms(2,3)] by auto
  next
    case False
    with n have "n \<in> set (marker_names dir h)"
      using apply_all_spares [OF assms(1,2) False assms(3)] by (simp add: in_marker_names)
    with assms(4) show ?thesis by (simp add: markers_ok_def list_all_iff)
  qed
qed

text \<open>A request that is applied without an error leaves exactly its own markers.\<close>

lemma sync_exact:
  assumes calm: calm and ok: "markers_ok good dir h"
    and sync: "sync_managed norm clash name what app rem dir specs h = (None, h')"
  shows "\<exists>xs. list_all2 (\<lambda>s x. norm s = Inr x) specs xs \<and> distinct (map name xs) \<and>
    set (marker_names dir h') = set (map name xs) \<and> markers_ok good dir h'"
proof -
  from sync obtain xs h1 where xs: "normalize_all norm clash [] specs = Inr xs"
    and h1: "apply_all app what xs h = (None, h1)"
    and h': "h' = remove_stale rem (map name xs) (glob dir ''.json'' h1) h1"
    by (auto simp: sync_managed_def split: sum.splits prod.splits option.splits)
  have normed: "list_all2 (\<lambda>s x. norm s = Inr x) specs xs" using normalize_all_Inr [OF xs] by simp
  have each: "\<forall>x \<in> set xs. \<exists>s. norm s = Inr x" using each_normal [OF xs] .
  have dist: "distinct (map name xs)" using names_distinct [OF xs] by simp
  have here: "\<forall>x \<in> set xs. file_at (marker dir (name x)) h1 \<noteq> None"
    using calm each dist h1 by (rule apply_all_leaves)
  have safe: "good (name x)" if "x \<in> set xs" for x
    using apply_all_safe [OF each h1] that by blast
  have "good n" if "n \<in> set (marker_names dir h1)" for n
    using apply_all_ok [OF calm each h1 ok] that by (simp add: markers_ok_def list_all_iff)
  then have left: "file_at (marker dir n) h' =
      (if n \<in> set (marker_names dir h1) \<and> n \<notin> set (map name xs) then None else file_at (marker dir n) h1)" for n
    unfolding h' using remove_stale_file [OF calm, of "glob dir ''.json'' h1" n "map name xs" h1]
    by (simp add: marker_names_def)
  have iff: "n \<in> set (marker_names dir h') \<longleftrightarrow> n \<in> set (map name xs)" for n
  proof
    assume "n \<in> set (map name xs)"
    then have "good n" "file_at (marker dir n) h1 \<noteq> None" using here safe by auto
    with \<open>n \<in> set (map name xs)\<close> left [of n] show "n \<in> set (marker_names dir h')"
      using good_safe [THEN safe_component_plain] safe_no_slash by (simp add: in_marker_names)
  next
    assume "n \<in> set (marker_names dir h')"
    then have "CHR 0x2F \<notin> set n" "file_at (marker dir n) h' \<noteq> None" by (simp_all add: in_marker_names)
    with left [of n] show "n \<in> set (map name xs)" by (auto simp: in_marker_names split: if_splits)
  qed
  then have "set (marker_names dir h') = set (map name xs)" by blast
  moreover from this have "markers_ok good dir h'" using safe by (auto simp: markers_ok_def list_all_iff)
  ultimately show ?thesis using normed dist by blast
qed

end

text \<open>A machine on which everything succeeds, for the examples.\<close>

definition sample_os :: "unit os" where
  "sample_os =
     \<lparr>os_Write = \<lambda>_ _ w. (None, w), os_Read = \<lambda>_ _. None, os_Remove = \<lambda>_ w. (True, w),
      os_Rename = \<lambda>_ _ w. (None, w), os_Mkdir = \<lambda>_ w. (None, w), os_Run = \<lambda>_ _ h. (([], None), h),
      os_LookPath = \<lambda>p _. Some (''/usr/bin/'' @ p), os_Dial = \<lambda>_ w. (True, w),
      os_HasInterface = \<lambda>_ _. True, os_Sleep = \<lambda>w. w, os_TempName = \<lambda>w. (Inr ''/tmp/gb-psk-1'', w),
      os_Nano = \<lambda>w. (1, w), os_Marshal = \<lambda>_. ''{}'', os_MarshalIndent = \<lambda>_. ''{}''\<rparr>"

lemma sample_os_quiet: "quiet sample_os dir"
  by (simp add: quiet_def sample_os_def)

lemma sample_os_steps [simp]:
  "WriteFile sample_os p b h = (None, set_file p (Some b) h)"
  "MkdirAll sample_os p h = (None, h)"
  "run sample_os args h = (None, h)"
  "os_LookPath sample_os p h = Some (''/usr/bin/'' @ p)"
  "Rename sample_os p q h = (None, set_file p None (set_file q (file_at p h) h))"
  "os_Dial sample_os i w = (True, w)"
  "os_HasInterface sample_os n w"
proof -
  have rest: "h\<lparr>ho_rest := ()\<rparr> = h" for h :: "unit host" by simp
  show "WriteFile sample_os p b h = (None, set_file p (Some b) h)" "MkdirAll sample_os p h = (None, h)"
    "Rename sample_os p q h = (None, set_file p None (set_file q (file_at p h) h))"
    by (simp_all add: Rename_def WriteFile_def MkdirAll_def sample_os_def rest)
qed (simp_all add: run_def command_def sample_os_def)

lemma attempt_done [simp]: "f h = (None, h') \<Longrightarrow> attempt f k h = k h'"
  by (simp add: attempt_def)

definition sample_host :: "string list \<Rightarrow> unit host" where
  "sample_host ps = \<lparr>ho_files = map (\<lambda>p. (p, ''{}'')) ps, ho_rest = ()\<rparr>"

end
