(* ===== verification/AgentTunnels.thy ===== *)
theory AgentTunnels
  imports Managed
begin

text \<open>
  The tunnels, port forwards and logs of a node and what the agent reports of it,
  src/internal/agent/server.go from collectMetrics to deleteForward. fmt.Sscanf, the name of the host and
  the size of the disk are arguments of collectMetrics.
\<close>

section \<open>Metrics\<close>

text \<open>strconv.ParseUint(s, 10, 64) with its error ignored: 0, or the largest value.\<close>

definition ParseUint64 :: "string \<Rightarrow> uint64" where
  "ParseUint64 s =
     (if s = [] \<or> \<not> list_all is_digit s then 0
      else if digits_value s < 2 ^ 64 then word_of_int (digits_value s) else - 1)"

text \<open>strings.Replace(line, ":", " ", 1).\<close>

definition first_colon :: "string \<Rightarrow> string" where
  "first_colon l =
     (case index_in (CHR '':'') l of None \<Rightarrow> l | Some i \<Rightarrow> take i l @ CHR 0x20 # drop (i + 1) l)"

text \<open>The lines of a bufio.Scanner.\<close>

definition scan_lines :: "string \<Rightarrow> string list" where
  "scan_lines b =
     (let ls = split_at (CHR 0x0A) b
      in map (\<lambda>l. TrimSuffix l [CHR 0x0D]) (if last ls = [] then butlast ls else ls))"

definition net_dev_line :: "string \<Rightarrow> uint64 \<times> uint64 \<Rightarrow> uint64 \<times> uint64" where
  "net_dev_line raw t =
     (let l = TrimSpace raw in
      if CHR '':'' \<notin> set l then t
      else
        let p = Fields (first_colon l) in
        if 10 \<le> length p \<and> p ! 0 \<noteq> ''lo''
          then (fst t + ParseUint64 (p ! 1), snd t + ParseUint64 (p ! 9))
        else t)"

definition net_dev :: "string \<Rightarrow> uint64 \<times> uint64" where
  "net_dev b = fold net_dev_line (scan_lines b) (0, 0)"

record 'h probes =
  sy_Hostname :: "'h host \<Rightarrow> string"
  sy_Float :: "string \<Rightarrow> float64"
  sy_Floats :: "string \<Rightarrow> float64 \<times> float64 \<times> float64"
  sy_Field :: "string \<Rightarrow> string \<times> uint64"
  sy_Disk :: "'h host \<Rightarrow> uint64 \<times> uint64"

definition meminfo_line :: "(string \<Rightarrow> string \<times> uint64) \<Rightarrow> string \<Rightarrow> uint64 \<times> uint64 \<Rightarrow> uint64 \<times> uint64" where
  "meminfo_line field l t =
     (case field l of (k, v) \<Rightarrow>
        if TrimSuffix k '':'' = ''MemTotal'' then (v * 1024, snd t)
        else if TrimSuffix k '':'' = ''MemAvailable'' then (fst t, v * 1024)
        else t)"

text \<open>The content of a file, when it can be read.\<close>

definition read_or :: "'h os \<Rightarrow> 'a \<Rightarrow> (string \<Rightarrow> 'a) \<Rightarrow> string \<Rightarrow> 'h host \<Rightarrow> 'a" where
  "read_or os d f p h = (case ReadFile os p h of Inl _ \<Rightarrow> d | Inr b \<Rightarrow> f b)"

definition collectMetrics :: "'h os \<Rightarrow> 'h probes \<Rightarrow> 'h host \<Rightarrow> NodeMetrics \<times> 'h host" where
  "collectMetrics os sy h =
     (case runOutput os [''uname'', ''-r''] h of (kver, h1) \<Rightarrow>
     (case runOutput os [''/usr/local/bin/gamebridge-core'', ''version''] h1 of (core, h2) \<Rightarrow>
     (case read_or os (0, 0, 0) (sy_Floats sy) ''/proc/loadavg'' h2 of (l1, l5, l15) \<Rightarrow>
     (case read_or os (0, 0) (\<lambda>b. fold (meminfo_line (sy_Field sy)) (scan_lines b) (0, 0))
        ''/proc/meminfo'' h2 of (mem_total, mem_free) \<Rightarrow>
     (case read_or os (0, 0) net_dev ''/proc/net/dev'' h2 of (rx, tx) \<Rightarrow>
        (\<lparr>nm_Hostname = sy_Hostname sy h, nm_Kernel = TrimSpace kver, nm_CoreVersion = TrimSpace core,
          nm_UptimeSeconds = read_or os 0 (sy_Float sy) ''/proc/uptime'' h2,
          nm_Load1 = l1, nm_Load5 = l5, nm_Load15 = l15, nm_MemoryTotal = mem_total, nm_MemoryAvailable = mem_free,
          nm_DiskTotal = fst (sy_Disk sy h2), nm_DiskFree = snd (sy_Disk sy h2),
          nm_NetworkRX = rx, nm_NetworkTX = tx\<rparr>, h2))))))"

section \<open>Tunnels\<close>

record TunnelSpec =
  ts_Name :: string
  ts_Kind :: string
  ts_Role :: string
  ts_Transport :: string
  ts_PeerHost :: string
  ts_Ports :: "int list"
  ts_Interface :: string
  ts_LocalCIDR :: string
  ts_PeerIP :: string
  ts_MTU :: int
  ts_KeyHex :: string
  ts_Profile :: string
  ts_DuplicateSmallPackets :: bool
  ts_KCPDataShards :: int
  ts_KCPParityShards :: int
  ts_ICMPID :: int
  ts_ICMPPollMS :: int
  ts_ICMPBurst :: int
  ts_NAT :: bool
  ts_InternetInterface :: string
  ts_LocalPublic :: string
  ts_RemotePublic :: string
  ts_VNI :: int

definition tunnel_config :: "TunnelSpec \<Rightarrow> json" where
  "tunnel_config x =
     JObj [(''name'', JStr (ts_Name x)), (''role'', JStr (ts_Role x)), (''transport'', JStr (ts_Transport x)),
       (''listen_host'', JStr ''0.0.0.0''), (''peer_host'', JStr (ts_PeerHost x)),
       (''ports'', JArr (map JInt (ts_Ports x))), (''interface'', JStr (ts_Interface x)),
       (''local_cidr'', JStr (ts_LocalCIDR x)), (''peer_ip'', JStr (ts_PeerIP x)), (''mtu'', JInt (ts_MTU x)),
       (''key_hex'', JStr (ts_KeyHex x)), (''profile'', JStr (ts_Profile x)),
       (''duplicate_small_packets'', JBool (ts_DuplicateSmallPackets x)), (''duplicate_threshold'', JInt 512),
       (''kcp_data_shards'', JInt (ts_KCPDataShards x)), (''kcp_parity_shards'', JInt (ts_KCPParityShards x)),
       (''icmp_id'', JInt (ts_ICMPID x)), (''icmp_poll_ms'', JInt (ts_ICMPPollMS x)),
       (''icmp_burst'', JInt (ts_ICMPBurst x)), (''nat'', JBool (ts_NAT x)),
       (''internet_interface'', JStr (ts_InternetInterface x)), (''keepalive_ms'', JInt 1000),
       (''path_timeout_ms'', JInt 5000)]"

definition tunnel_dir :: string where "tunnel_dir = ''/etc/gamebridge''"
definition kernel_dir :: string where "kernel_dir = ''/etc/gamebridge/kernel''"

definition userspace_file :: "string \<Rightarrow> string" where
  "userspace_file name = in_dir tunnel_dir (name @ ''.json'')"

definition kernel_file :: "string \<Rightarrow> string" where
  "kernel_file name = in_dir kernel_dir (name @ ''.sh'')"

definition userspace_unit :: "string \<Rightarrow> string" where
  "userspace_unit name = ''gamebridge@'' @ name @ ''.service''"

definition kernel_unit :: "string \<Rightarrow> string" where
  "kernel_unit name = ''gamebridge-kernel@'' @ name @ ''.service''"

text \<open>The end of both creations: the reload, whose error is ignored, and the start of the unit.\<close>

definition enable_unit :: "'h os \<Rightarrow> string \<Rightarrow> 'h host \<Rightarrow> go_error option \<times> 'h host" where
  "enable_unit os unit h =
     run os [''systemctl'', ''enable'', ''--now'', unit] (snd (run os [''systemctl'', ''daemon-reload''] h))"

definition createUserspaceTunnel :: "'h os \<Rightarrow> TunnelSpec \<Rightarrow> 'h host \<Rightarrow> go_error option \<times> 'h host" where
  "createUserspaceTunnel os x h =
     (if length (ts_KeyHex x) \<noteq> 64 then (Some (Plain ''key_hex must be 64 hex chars''), h)
      else attempts
        [MkdirAll os tunnel_dir,
         WriteFile os (userspace_file (ts_Name x)) (os_MarshalIndent os (tunnel_config x) @ [CHR 0x0A])]
        (enable_unit os (userspace_unit (ts_Name x))) h)"

text \<open>The function q: a word in single quotes for the shell.\<close>

definition shell_q :: "string \<Rightarrow> string" where
  "shell_q v =
     [CHR 0x27] @ replace_char (CHR 0x27) [CHR 0x27, CHR 0x22, CHR 0x27, CHR 0x22, CHR 0x27] v @ [CHR 0x27]"

definition kernel_defaults :: "TunnelSpec \<Rightarrow> TunnelSpec" where
  "kernel_defaults x =
     x\<lparr>ts_Interface := (if ts_Interface x = [] then ''gbk0'' else ts_Interface x),
       ts_MTU := (if ts_MTU x = 0 then 1400 else ts_MTU x), ts_VNI := (if ts_VNI x = 0 then 100 else ts_VNI x)\<rparr>"

definition kernel_add :: "TunnelSpec \<Rightarrow> go_error + string" where
  "kernel_add x =
     (let i = shell_q (ts_Interface x); l = shell_q (ts_LocalPublic x); r = shell_q (ts_RemotePublic x);
          t = ts_Transport x in
      if t \<in> {''gre'', ''ipip''}
        then Inr (''ip tunnel add '' @ i @ '' mode '' @ t @ '' local '' @ l @ '' remote '' @ r @ '' ttl 255'')
      else if t = ''sit''
        then Inr (''ip tunnel add '' @ i @ '' mode sit local '' @ l @ '' remote '' @ r @ '' ttl 255'')
      else if t = ''gre6''
        then Inr (''ip -6 tunnel add '' @ i @ '' mode ip6gre local '' @ l @ '' remote '' @ r)
      else if t = ''geneve''
        then Inr (''ip link add '' @ i @ '' type geneve id '' @ Itoa (ts_VNI x) @ '' remote '' @ r @ '' dstport 6081'')
      else if t = ''vxlan''
        then Inr (''ip link add '' @ i @ '' type vxlan id '' @ Itoa (ts_VNI x) @ '' remote '' @ r @ '' local '' @ l @
                  '' dstport 4789'')
      else Inl (Plain ''unsupported kernel transport''))"

definition kernel_addr :: "TunnelSpec \<Rightarrow> string" where
  "kernel_addr x =
     (if CHR '':'' \<in> set (ts_LocalCIDR x) then ''ip -6 addr add '' else ''ip addr add '') @
     shell_q (ts_LocalCIDR x) @ '' dev '' @ shell_q (ts_Interface x)"

definition kernel_script :: "TunnelSpec \<Rightarrow> string \<Rightarrow> string" where
  "kernel_script x add =
     (let i = shell_q (ts_Interface x) in
      text_lines
        [''#!/usr/bin/env bash'', ''set -e'', ''case \"${1:-up}\" in'', ''up)'',
         '' ip link del '' @ i @ '' 2>/dev/null || true'', '' '' @ add, '' '' @ kernel_addr x,
         '' ip link set '' @ i @ '' mtu '' @ Itoa (ts_MTU x) @ '' up'', '' ;;'',
         ''down) ip link del '' @ i @ '' 2>/dev/null || true ;;'', ''*) exit 2 ;;'', ''esac''])"

definition createKernelTunnel :: "'h os \<Rightarrow> TunnelSpec \<Rightarrow> 'h host \<Rightarrow> go_error option \<times> 'h host" where
  "createKernelTunnel os raw =
     (let x = kernel_defaults raw in
      need (kernel_add x) (\<lambda>add.
        attempts
          [MkdirAll os kernel_dir, WriteFile os (kernel_file (ts_Name x)) (kernel_script x add)]
          (enable_unit os (kernel_unit (ts_Name x)))))"

definition detectTunnelUnit :: "string \<Rightarrow> 'h host \<Rightarrow> string" where
  "detectTunnelUnit name h =
     (if Stat (userspace_file name) h then userspace_unit name
      else if Stat (kernel_file name) h then kernel_unit name
      else [])"

definition tunnelStatus :: "'h os \<Rightarrow> string \<Rightarrow> 'h host \<Rightarrow> json \<times> 'h host" where
  "tunnelStatus os name h =
     (let unit = detectTunnelUnit name h in
      case (if unit = [] then (''missing'', h)
            else (case runOutput os [''systemctl'', ''is-active'', unit] h of (out, h1) \<Rightarrow> (TrimSpace out, h1))) of
        (st, h') \<Rightarrow> (JObj [(''name'', JStr name), (''unit'', JStr unit), (''status'', JStr st)], h'))"

definition deleteTunnel :: "'h os \<Rightarrow> string \<Rightarrow> 'h host \<Rightarrow> 'h host" where
  "deleteTunnel os name h =
     (let u = detectTunnelUnit name h;
          h1 = (if u = [] then h else run_ignored os [''systemctl'', ''disable'', ''--now'', u] h)
      in RemoveFile os (kernel_file name) (RemoveFile os (userspace_file name) h1))"

text \<open>strings.TrimSuffix(filepath.Base(p), filepath.Ext(p)).\<close>

definition path_Ext :: "string \<Rightarrow> string" where
  "path_Ext p =
     (let b = last (SplitSlash p) in
      case last_index (CHR ''.'') b of None \<Rightarrow> [] | Some i \<Rightarrow> drop i b)"

definition stem :: "string \<Rightarrow> string" where
  "stem p = TrimSuffix (path_Base p) (path_Ext p)"

fun list_tunnels :: "'h os \<Rightarrow> string list \<Rightarrow> string list \<Rightarrow> 'h host \<Rightarrow> json list \<times> 'h host" where
  "list_tunnels os seen [] h = ([], h)"
| "list_tunnels os seen (p # ps) h =
     (if stem p \<in> set seen then list_tunnels os seen ps h
      else (case tunnelStatus os (stem p) h of (j, h1) \<Rightarrow>
           (case list_tunnels os (stem p # seen) ps h1 of (out, h2) \<Rightarrow> (j # out, h2))))"

text \<open>The scripts are looked up after the status of every configuration.\<close>

definition listTunnels :: "'h os \<Rightarrow> 'h host \<Rightarrow> json list \<times> 'h host" where
  "listTunnels os h =
     (let ps = glob tunnel_dir ''.json'' h in
      case list_tunnels os [] ps h of (out, h1) \<Rightarrow>
      (case list_tunnels os (map stem ps) (glob kernel_dir ''.sh'' h1) h1 of (out', h2) \<Rightarrow> (out @ out', h2)))"

definition handleTunnels ::
  "'h os \<Rightarrow> string \<Rightarrow> go_error + TunnelSpec \<Rightarrow> 'h host \<Rightarrow> json response \<times> 'h host" where
  "handleTunnels os m body h =
     (if m = ''GET'' then (case listTunnels os h of (out, h') \<Rightarrow> (JsonWrite 200 (JArr out), h'))
      else if m = ''POST'' then
        (case body of
           Inl e \<Rightarrow> (JsonError 400 (err_msg e), h)
         | Inr x \<Rightarrow>
             if \<not> safeName (ts_Name x) then (JsonError 400 ''invalid name'', h)
             else (case (if ts_Kind x = ''kernel'' then createKernelTunnel os x h
                         else createUserspaceTunnel os x h) of
                     (Some e, h') \<Rightarrow> (JsonError 400 (err_msg e), h')
                   | (None, h') \<Rightarrow>
                       (JsonWrite 201 (JObj [(''ok'', JBool True), (''name'', JStr (ts_Name x))]), h')))
      else (JsonError 405 ''method not allowed'', h))"

definition tunnel_action :: "'h os \<Rightarrow> string \<Rightarrow> string \<Rightarrow> 'h host \<Rightarrow> json response \<times> 'h host" where
  "tunnel_action os name action h =
     (if action = ''status'' then (case tunnelStatus os name h of (j, h') \<Rightarrow> (JsonWrite 200 j, h'))
      else if action \<notin> {''start'', ''stop'', ''restart''} then (JsonError 400 ''bad action'', h)
      else
        let unit = detectTunnelUnit name h in
        if unit = [] then (JsonError 404 ''tunnel not found'', h)
        else (case run os [''systemctl'', action, unit] h of
                (Some e, h1) \<Rightarrow> (JsonError 400 (err_msg e), h1)
              | (None, h1) \<Rightarrow> (case tunnelStatus os name h1 of (j, h2) \<Rightarrow> (JsonWrite 200 j, h2))))"

definition handleTunnelItem :: "'h os \<Rightarrow> string \<Rightarrow> string \<Rightarrow> 'h host \<Rightarrow> json response \<times> 'h host" where
  "handleTunnelItem os m path h =
     (let p = SplitSlash (TrimSlash (TrimPrefix path ''/v1/tunnels/'')); name = hd p in
      if \<not> safeName name then (JsonError 400 ''invalid name'', h)
      else if m = ''DELETE'' then (JsonWrite 200 (JObj [(''ok'', JBool True)]), deleteTunnel os name h)
      else if m \<noteq> ''POST'' \<or> length p \<noteq> 2 then (JsonError 405 ''method not allowed'', h)
      else tunnel_action os name (p ! 1) h)"

section \<open>Logs\<close>

definition unit_pattern :: "string \<Rightarrow> bool" where
  "unit_pattern u \<longleftrightarrow>
     HasSuffix u ''.service'' \<and> 8 < length u \<and> list_all (\<lambda>c. safe_char c \<or> c = CHR ''@'') u"

definition handleLogs :: "'h os \<Rightarrow> string \<Rightarrow> string \<Rightarrow> string \<Rightarrow> 'h host \<Rightarrow> json response \<times> 'h host" where
  "handleLogs os m unit_query lines_query h =
     (if m \<noteq> ''GET'' then (JsonError 405 ''method not allowed'', h)
      else
        let unit = (if unit_query = [] then ''gamebridge-agent.service'' else unit_query) in
        if \<not> unit_pattern unit then (JsonError 400 ''invalid unit'', h)
        else
          let lines = (case Atoi lines_query of Some v \<Rightarrow> if 0 < v \<and> v \<le> 2000 then v else 200 | None \<Rightarrow> 200) in
          (case runOutput os [''journalctl'', ''-u'', unit, ''-n'', Itoa lines, ''--no-pager'', ''--output=short-iso''] h of
             (out, h') \<Rightarrow> (JsonWrite 200 (JObj [(''logs'', JStr out)]), h')))"

section \<open>Port forwards\<close>

record Forward =
  fw_ID :: string
  fw_Protocol :: string
  fw_ListenPort :: int
  fw_DestIP :: string
  fw_DestPort :: int

definition forward_rules :: "Forward \<Rightarrow> string \<Rightarrow> string \<Rightarrow> string list list" where
  "forward_rules f op p =
     [[''-t'', ''nat'', op, ''PREROUTING'', ''-p'', p, ''--dport'', Itoa (fw_ListenPort f), ''-j'', ''DNAT'',
       ''--to-destination'', fw_DestIP f @ '':'' @ Itoa (fw_DestPort f)],
      [op, ''FORWARD'', ''-p'', p, ''-d'', fw_DestIP f, ''--dport'', Itoa (fw_DestPort f), ''-j'', ''ACCEPT''],
      [''-t'', ''nat'', op, ''POSTROUTING'', ''-p'', p, ''-d'', fw_DestIP f, ''--dport'', Itoa (fw_DestPort f),
       ''-j'', ''MASQUERADE'']]"

definition forwardArgs :: "Forward \<Rightarrow> string \<Rightarrow> string list list" where
  "forwardArgs f op =
     concat (map (forward_rules f op) (if fw_Protocol f = ''both'' then [''udp'', ''tcp''] else [fw_Protocol f]))"

definition check_args :: "string list \<Rightarrow> string list" where
  "check_args a = map (\<lambda>x. if x = ''-A'' then ''-C'' else x) a"

fun install_rules :: "'h os \<Rightarrow> string list list \<Rightarrow> 'h host \<Rightarrow> go_error option \<times> 'h host" where
  "install_rules os [] h = (None, h)"
| "install_rules os (a # as) h =
     (case command os (''iptables'' # check_args a) h of
        ((_, None), h1) \<Rightarrow> install_rules os as h1
      | ((_, Some _), h1) \<Rightarrow>
          (case run os (''iptables'' # a) h1 of
             (Some e, h2) \<Rightarrow> (Some e, h2)
           | (None, h2) \<Rightarrow> install_rules os as h2))"

definition forward_command :: "string list \<Rightarrow> string" where
  "forward_command a = ''iptables '' @ JoinStrings (map shell_q a) '' ''"

definition forward_script :: "Forward \<Rightarrow> string" where
  "forward_script f =
     text_lines
       ([''#!/usr/bin/env bash'', ''set -e''] @
        map (\<lambda>a. forward_command (check_args a) @ '' 2>/dev/null || '' @ forward_command a) (forwardArgs f ''-A''))"

definition forward_dir :: string where
  "forward_dir = ''/etc/gamebridge/forward-rules.d''"

definition forward_json :: "Forward \<Rightarrow> json" where
  "forward_json f =
     JObj [(''id'', JStr (fw_ID f)), (''protocol'', JStr (fw_Protocol f)), (''listen_port'', JInt (fw_ListenPort f)),
           (''dest_ip'', JStr (fw_DestIP f)), (''dest_port'', JInt (fw_DestPort f))]"

definition ensureForwardAggregator :: "'h os \<Rightarrow> 'h host \<Rightarrow> go_error option \<times> 'h host" where
  "ensureForwardAggregator os =
     WriteFile os ''/etc/gamebridge/forward-rules.sh''
       (text_lines
          [''#!/usr/bin/env bash'', ''set -e'',
           ''for f in /etc/gamebridge/forward-rules.d/*.sh; do [ -e \"$f\" ] || continue; bash \"$f\"; done''])"

definition forward_port :: "int \<Rightarrow> bool" where
  "forward_port p \<longleftrightarrow> 1 \<le> p \<and> p \<le> 65535"

definition installForward :: "'h os \<Rightarrow> Forward \<Rightarrow> 'h host \<Rightarrow> go_error option \<times> 'h host" where
  "installForward os f h =
     (if \<not> forward_port (fw_ListenPort f) \<or> \<not> forward_port (fw_DestPort f) then (Some (Plain ''invalid port''), h)
      else if fw_Protocol f \<notin> {''udp'', ''tcp'', ''both''} then (Some (Plain ''invalid protocol''), h)
      else
        let h1 = snd (MkdirAll os forward_dir h);
            h2 = snd (WriteFile os (in_dir forward_dir (fw_ID f @ ''.json'')) (os_Marshal os (forward_json f)) h1);
            h3 = run_ignored os [''sysctl'', ''-w'', ''net.ipv4.ip_forward=1''] h2
        in attempts
             [install_rules os (forwardArgs f ''-A''),
              WriteFile os (in_dir forward_dir (fw_ID f @ ''.sh'')) (forward_script f)]
             (ensureForwardAggregator os) h3)"

definition deleteForward :: "'h os \<Rightarrow> (string \<Rightarrow> Forward option) \<Rightarrow> string \<Rightarrow> 'h host \<Rightarrow> 'h host" where
  "deleteForward os unmarshal fid h =
     (let p = in_dir forward_dir (fid @ ''.json'');
          f = (case ReadFile os p h of Inl _ \<Rightarrow> None | Inr b \<Rightarrow> unmarshal b);
          h1 = (case f of
                  None \<Rightarrow> h
                | Some x \<Rightarrow> fold (\<lambda>a. run_ignored os (''iptables'' # a)) (forwardArgs x ''-D'') h)
      in RemoveFile os (in_dir forward_dir (fid @ ''.sh'')) (RemoveFile os p h1))"

definition handleForwards :: "'h os \<Rightarrow> string \<Rightarrow> go_error + Forward \<Rightarrow> 'h host \<Rightarrow> json response \<times> 'h host" where
  "handleForwards os m body h =
     (if m \<noteq> ''POST'' then (JsonError 405 ''method not allowed'', h)
      else (case body of
        Inl e \<Rightarrow> (JsonError 400 (err_msg e), h)
      | Inr f \<Rightarrow>
          if \<not> safeName (fw_ID f) then (JsonError 400 ''invalid id'', h)
          else (case installForward os f h of
                  (Some e, h') \<Rightarrow> (JsonError 400 (err_msg e), h')
                | (None, h') \<Rightarrow> (JsonWrite 201 (JObj [(''ok'', JBool True)]), h'))))"

definition handleForwardItem ::
  "'h os \<Rightarrow> (string \<Rightarrow> Forward option) \<Rightarrow> string \<Rightarrow> string \<Rightarrow> 'h host \<Rightarrow> json response \<times> 'h host" where
  "handleForwardItem os unmarshal m path h =
     (if m \<noteq> ''DELETE'' then (JsonError 405 ''method not allowed'', h)
      else
        let fid = TrimPrefix path ''/v1/forwards/'' in
        if \<not> safeName fid then (JsonError 400 ''invalid id'', h)
        else (JsonWrite 200 (JObj [(''ok'', JBool True)]), deleteForward os unmarshal fid h))"

section \<open>The shell reads back what was quoted\<close>

text \<open>
  The words of a simple command, as a POSIX shell splits it: quotes, blanks, and no answer for anything
  that would be more than a word (an expansion, an operator, a comment, the end of a line, an open quote).
\<close>

datatype sh_mode = Blank | Bare | Single | Double

definition sh_special :: "char \<Rightarrow> bool" where
  "sh_special c \<longleftrightarrow> c \<in> set ([CHR 0x0A, CHR 0x24, CHR 0x60, CHR 0x5C] @ '';&|<>()*?[]#~!{}'')"

fun sh_read :: "sh_mode \<Rightarrow> string \<Rightarrow> string \<Rightarrow> string list option" where
  "sh_read m w [] = (if m = Blank then Some [] else if m = Bare then Some [w] else None)"
| "sh_read m w (c # cs) =
     (if m = Single then (if c = CHR 0x27 then sh_read Bare w cs else sh_read Single (w @ [c]) cs)
      else if m = Double then
        (if c = CHR 0x22 then sh_read Bare w cs
         else if c \<in> {CHR 0x24, CHR 0x60, CHR 0x5C} then None
         else sh_read Double (w @ [c]) cs)
      else if c = CHR 0x27 then sh_read Single w cs
      else if c = CHR 0x22 then sh_read Double w cs
      else if c = CHR 0x20 \<or> c = CHR 0x09 then
        (if m = Bare then map_option ((#) w) (sh_read Blank [] cs) else sh_read Blank [] cs)
      else if sh_special c then None
      else sh_read Bare (w @ [c]) cs)"

definition sh_words :: "string \<Rightarrow> string list option" where
  "sh_words s = sh_read Blank [] s"

definition sh_plain :: "char \<Rightarrow> bool" where
  "sh_plain c \<longleftrightarrow> \<not> sh_special c \<and> c \<notin> {CHR 0x27, CHR 0x22, CHR 0x20, CHR 0x09}"

lemma sh_read_single:
  "sh_read Single w (replace_char (CHR 0x27) [CHR 0x27, CHR 0x22, CHR 0x27, CHR 0x22, CHR 0x27] v @ CHR 0x27 # r) =
   sh_read Bare (w @ v) r"
  by (induction v arbitrary: w) (simp_all add: replace_char_def)

lemma sh_read_quoted: "m = Blank \<or> m = Bare \<Longrightarrow> sh_read m w (shell_q v @ r) = sh_read Bare (w @ v) r"
  using sh_read_single [of w v r] by (auto simp: shell_q_def)

lemma sh_read_plain: "list_all sh_plain v \<Longrightarrow> sh_read Bare w (v @ r) = sh_read Bare (w @ v) r"
  by (induction v arbitrary: w) (simp_all add: sh_plain_def)

text \<open>A piece of a command line: a quoted word, or a word of plain characters as it is.\<close>

definition sh_piece :: "string \<Rightarrow> string \<Rightarrow> bool" where
  "sh_piece p w \<longleftrightarrow> p = shell_q w \<or> (p = w \<and> w \<noteq> [] \<and> list_all sh_plain w)"

lemma sh_read_piece: "sh_piece p w \<Longrightarrow> sh_read Blank [] (p @ r) = sh_read Bare w r"
proof -
  assume p: "sh_piece p w"
  show ?thesis
  proof (cases "p = shell_q w")
    case True
    then show ?thesis by (simp add: sh_read_quoted)
  next
    case False
    with p obtain c v where v: "p = c # v" "w = c # v" "sh_plain c" "list_all sh_plain v"
      by (cases w) (auto simp: sh_piece_def)
    then have "sh_read Blank [] (p @ r) = sh_read Bare [c] (v @ r)" by (simp add: sh_plain_def)
    also have "\<dots> = sh_read Bare w r" using v by (simp add: sh_read_plain)
    finally show ?thesis .
  qed
qed

lemma sh_words_join: "list_all2 sh_piece ps ws \<Longrightarrow> sh_words (JoinStrings ps '' '') = Some ws"
proof (induction rule: list_all2_induct)
  case Nil
  then show ?case by (simp add: sh_words_def)
next
  case (Cons p ps w ws)
  show ?case
  proof (cases ps)
    case Nil
    with Cons sh_read_piece [OF Cons(1), of "[]"] show ?thesis by (simp add: sh_words_def)
  next
    case (Cons q qs)
    then have "JoinStrings (p # ps) '' '' = p @ '' '' @ JoinStrings ps '' ''" by simp
    then show ?thesis
      using sh_read_piece [OF \<open>sh_piece p w\<close>, of "'' '' @ JoinStrings ps '' ''"] \<open>sh_words _ = _\<close>
      by (simp add: sh_words_def)
  qed
qed

lemma digits_plain: "list_all sh_plain (nat_digits n) \<and> nat_digits n \<noteq> []"
proof (induction n rule: nat_digits.induct)
  case (1 n)
  have "sh_plain (char_of (48 + k))" if "k < 10" for k :: nat
  proof -
    have "k \<in> {0, 1, 2, 3, 4, 5, 6, 7, 8, 9}" using that by auto
    moreover have "list_all (\<lambda>k. sh_plain (char_of (48 + k :: nat))) [0, 1, 2, 3, 4, 5, 6, 7, 8, 9]" by code_simp
    ultimately show ?thesis by (auto simp: list_all_iff)
  qed
  then show ?case using 1 by (simp add: nat_digits.simps [of n])
qed

lemma Itoa_plain: "list_all sh_plain (Itoa n) \<and> Itoa n \<noteq> []"
proof -
  have "sh_plain (CHR ''-'')" by code_simp
  then show ?thesis by (simp add: Itoa_def digits_plain)
qed

lemma plain_words:
  "list_all (list_all sh_plain)
     [''ip'', ''-6'', ''tunnel'', ''link'', ''addr'', ''add'', ''mode'', ''local'', ''remote'', ''ttl'', ''255'', ''sit'',
      ''ip6gre'', ''gre'', ''ipip'', ''type'', ''geneve'', ''vxlan'', ''id'', ''dstport'', ''6081'', ''4789'', ''dev'',
      ''iptables'']"
  by code_simp

lemma sh_pieces [simp]: "sh_piece (shell_q w) w" "sh_piece (Itoa n) (Itoa n)"
  by (simp_all add: sh_piece_def Itoa_plain)

lemma sh_piece_literal [simp]: "list_all sh_plain w \<Longrightarrow> w \<noteq> [] \<Longrightarrow> sh_piece w w"
  by (simp add: sh_piece_def)

text \<open>The commands the scripts of the agent mean.\<close>

definition kernel_argv :: "TunnelSpec \<Rightarrow> string list" where
  "kernel_argv x =
     (let i = ts_Interface x; l = ts_LocalPublic x; r = ts_RemotePublic x; t = ts_Transport x; n = Itoa (ts_VNI x) in
      if t \<in> {''gre'', ''ipip'', ''sit''}
        then [''ip'', ''tunnel'', ''add'', i, ''mode'', t, ''local'', l, ''remote'', r, ''ttl'', ''255'']
      else if t = ''gre6'' then [''ip'', ''-6'', ''tunnel'', ''add'', i, ''mode'', ''ip6gre'', ''local'', l, ''remote'', r]
      else if t = ''geneve''
        then [''ip'', ''link'', ''add'', i, ''type'', ''geneve'', ''id'', n, ''remote'', r, ''dstport'', ''6081'']
      else [''ip'', ''link'', ''add'', i, ''type'', ''vxlan'', ''id'', n, ''remote'', r, ''local'', l, ''dstport'', ''4789''])"

definition kernel_pieces :: "TunnelSpec \<Rightarrow> string list" where
  "kernel_pieces x =
     (let i = shell_q (ts_Interface x); l = shell_q (ts_LocalPublic x); r = shell_q (ts_RemotePublic x);
          t = ts_Transport x; n = Itoa (ts_VNI x) in
      if t \<in> {''gre'', ''ipip'', ''sit''}
        then [''ip'', ''tunnel'', ''add'', i, ''mode'', t, ''local'', l, ''remote'', r, ''ttl'', ''255'']
      else if t = ''gre6'' then [''ip'', ''-6'', ''tunnel'', ''add'', i, ''mode'', ''ip6gre'', ''local'', l, ''remote'', r]
      else if t = ''geneve''
        then [''ip'', ''link'', ''add'', i, ''type'', ''geneve'', ''id'', n, ''remote'', r, ''dstport'', ''6081'']
      else [''ip'', ''link'', ''add'', i, ''type'', ''vxlan'', ''id'', n, ''remote'', r, ''local'', l, ''dstport'', ''4789''])"

lemma kernel_add_pieces: "kernel_add x = Inr add \<Longrightarrow> add = JoinStrings (kernel_pieces x) '' ''"
  by (auto simp: kernel_add_def kernel_pieces_def Let_def split: if_splits)

lemma kernel_pieces_read: "list_all2 sh_piece (kernel_pieces x) (kernel_argv x)"
  using plain_words by (auto simp: kernel_pieces_def kernel_argv_def Let_def)

lemma forward_command_words: "sh_words (forward_command a) = Some (''iptables'' # a)"
proof -
  have "list_all2 sh_piece (map shell_q a) a" by (induction a) simp_all
  moreover have "sh_piece ''iptables'' ''iptables''" using plain_words by simp
  ultimately have words: "sh_words (JoinStrings (''iptables'' # map shell_q a) '' '') = Some (''iptables'' # a)"
    by (intro sh_words_join) simp
  show ?thesis
  proof (cases a)
    case Nil
    have "sh_words (forward_command []) = Some [''iptables'']" by code_simp
    with Nil show ?thesis by simp
  next
    case (Cons b bs)
    then have "forward_command a = JoinStrings (''iptables'' # map shell_q a) '' ''" by (simp add: forward_command_def)
    with words show ?thesis by (simp only:)
  qed
qed

definition addr_argv :: "TunnelSpec \<Rightarrow> string list" where
  "addr_argv x =
     (if CHR '':'' \<in> set (ts_LocalCIDR x) then [''ip'', ''-6''] else [''ip'']) @
     [''addr'', ''add'', ts_LocalCIDR x, ''dev'', ts_Interface x]"

lemma kernel_addr_words: "sh_words (kernel_addr x) = Some (addr_argv x)"
proof -
  let ?ps = "(if CHR '':'' \<in> set (ts_LocalCIDR x) then [''ip'', ''-6''] else [''ip'']) @
     [''addr'', ''add'', shell_q (ts_LocalCIDR x), ''dev'', shell_q (ts_Interface x)]"
  have "kernel_addr x = JoinStrings ?ps '' ''" by (simp add: kernel_addr_def)
  moreover have "list_all2 sh_piece ?ps (addr_argv x)" using plain_words by (simp add: addr_argv_def)
  ultimately show ?thesis by (simp only: sh_words_join)
qed

text \<open>
  C19: Nothing in a request can break out of a script the agent writes. Whatever bytes the fields of the
  tunnel or the forward hold, a shell reads the lines that create the tunnel and its address, and both
  halves of every line of the forward script, as exactly the one command with the arguments the agent
  means: those it would run itself.
\<close>
theorem scripts_read_back:
  assumes "kernel_add x = Inr add"
  shows "sh_words add = Some (kernel_argv x) \<and> sh_words (kernel_addr x) = Some (addr_argv x) \<and>
    map (sh_words \<circ> forward_command) (forwardArgs f op) = map (\<lambda>a. Some (''iptables'' # a)) (forwardArgs f op) \<and>
    map (sh_words \<circ> forward_command \<circ> check_args) (forwardArgs f op) =
      map (\<lambda>a. Some (''iptables'' # check_args a)) (forwardArgs f op)"
  using kernel_pieces_read [of x]
  by (simp add: kernel_add_pieces [OF assms] sh_words_join kernel_addr_words forward_command_words)

definition sample_tunnel :: TunnelSpec where
  "sample_tunnel =
     \<lparr>ts_Name = ''t1'', ts_Kind = ''kernel'', ts_Role = [], ts_Transport = ''sit'', ts_PeerHost = [], ts_Ports = [],
      ts_Interface = ''gb0; reboot'', ts_LocalCIDR = ''10.0.0.1/30'', ts_PeerIP = [], ts_MTU = 0, ts_KeyHex = [],
      ts_Profile = [], ts_DuplicateSmallPackets = False, ts_KCPDataShards = 0, ts_KCPParityShards = 0, ts_ICMPID = 0,
      ts_ICMPPollMS = 0, ts_ICMPBurst = 0, ts_NAT = False, ts_InternetInterface = [],
      ts_LocalPublic = ''192.0.2.1'' @ [CHR 0x27], ts_RemotePublic = ''$(id)'', ts_VNI = 0\<rparr>"

theorem scripts_read_back_witness:
  "\<exists>add. kernel_add sample_tunnel = Inr add \<and>
     sh_words add = Some [''ip'', ''tunnel'', ''add'', ''gb0; reboot'', ''mode'', ''sit'', ''local'',
       ''192.0.2.1'' @ [CHR 0x27], ''remote'', ''$(id)'', ''ttl'', ''255'']"
proof -
  obtain add where add: "kernel_add sample_tunnel = Inr add"
    by (simp add: kernel_add_def sample_tunnel_def)
  have "kernel_argv sample_tunnel = [''ip'', ''tunnel'', ''add'', ''gb0; reboot'', ''mode'', ''sit'', ''local'',
       ''192.0.2.1'' @ [CHR 0x27], ''remote'', ''$(id)'', ''ttl'', ''255'']"
    by (simp add: kernel_argv_def sample_tunnel_def)
  with scripts_read_back [OF add] add show ?thesis by simp
qed

section \<open>Forwards that share a rule\<close>

text \<open>
  A machine whose iptables keeps its rules as a list: -C asks for a rule, -A appends it, -D removes its
  first copy.
\<close>

definition rule_key :: "string list \<Rightarrow> string list" where
  "rule_key a = filter (\<lambda>x. x \<notin> {''-A'', ''-C'', ''-D''}) a"

definition iptables :: "string list \<Rightarrow> string list list \<Rightarrow> bool \<times> string list list" where
  "iptables a rules =
     (if ''-C'' \<in> set a then (rule_key a \<in> set rules, rules)
      else if ''-D'' \<in> set a then (rule_key a \<in> set rules, remove1 (rule_key a) rules)
      else (True, rules @ [rule_key a]))"

definition iptables_run ::
  "string list \<Rightarrow> string list list host \<Rightarrow> (string \<times> go_error option) \<times> string list list host" where
  "iptables_run args h =
     (if args = [] \<or> hd args \<noteq> ''iptables'' then (([], None), h)
      else (case iptables (tl args) (ho_rest h) of
              (ok, rules) \<Rightarrow> (([], if ok then None else Some (Plain ''exit status 1'')), h\<lparr>ho_rest := rules\<rparr>)))"

definition iptables_os :: "string list list os" where
  "iptables_os =
     \<lparr>os_Write = \<lambda>_ _ w. (None, w), os_Read = \<lambda>_ _. None, os_Remove = \<lambda>_ w. (True, w),
      os_Rename = \<lambda>_ _ w. (None, w), os_Mkdir = \<lambda>_ w. (None, w), os_Run = \<lambda>args _ h. iptables_run args h,
      os_LookPath = \<lambda>p _. Some p, os_Dial = \<lambda>_ w. (True, w), os_HasInterface = \<lambda>_ _. True,
      os_Sleep = \<lambda>w. w, os_TempName = \<lambda>w. (Inr ''/tmp/gb-psk-1'', w), os_Nano = \<lambda>w. (1, w),
      os_Marshal = \<lambda>_. ''{}'', os_MarshalIndent = \<lambda>_. ''{}''\<rparr>"

lemma iptables_os_simps [simp]:
  "command iptables_os args h = iptables_run args h"
  "fst (os_Write iptables_os p b w) = None"
  by (simp_all add: iptables_os_def command_def)

text \<open>Installing appends the rules that are missing, so a second installation changes nothing.\<close>

definition missing :: "string list list \<Rightarrow> string list list \<Rightarrow> string list list" where
  "missing rules as = fold (\<lambda>a rs. if rule_key a \<in> set rs then rs else rs @ [rule_key a]) as rules"

lemma key_check [simp]: "rule_key (check_args a) = rule_key a"
  by (induction a) (simp_all add: rule_key_def check_args_def)

lemma install_rules_missing:
  "list_all (\<lambda>a. ''-A'' \<in> set a \<and> ''-C'' \<notin> set a \<and> ''-D'' \<notin> set a) as \<Longrightarrow>
   install_rules iptables_os as h = (None, h\<lparr>ho_rest := missing (ho_rest h) as\<rparr>)"
proof (induction as arbitrary: h)
  case Nil
  then show ?case by (simp add: missing_def)
next
  case (Cons a as)
  have "''-C'' \<in> set (check_args a)" using Cons.prems by (auto simp: check_args_def image_iff)
  then show ?case
    using Cons by (simp add: iptables_run_def iptables_def run_def missing_def)
qed

lemma missing_idem: "missing (missing rules as) as = missing rules as"
proof -
  have step: "missing rules (a # as) = missing (if rule_key a \<in> set rules then rules else rules @ [rule_key a]) as"
    for a as rules by (simp add: missing_def)
  have mono: "set rules \<subseteq> set (missing rules as)" for rules as
  proof (induction as arbitrary: rules)
    case (Cons a as)
    show ?case using Cons.IH [of "if rule_key a \<in> set rules then rules else rules @ [rule_key a]"]
      unfolding step by (auto split: if_splits)
  qed (simp add: missing_def)
  have all: "\<forall>a \<in> set as. rule_key a \<in> set (missing rules as)" for rules as
  proof (induction as arbitrary: rules)
    case (Cons a as)
    let ?r = "if rule_key a \<in> set rules then rules else rules @ [rule_key a]"
    have "rule_key a \<in> set (missing ?r as)" using mono [of ?r as] by (auto split: if_splits)
    then show ?case using Cons.IH [of ?r] by (simp add: step)
  qed simp
  have "\<forall>a \<in> set as. rule_key a \<in> set rules \<Longrightarrow> missing rules as = rules" for rules as
    by (induction as) (simp_all add: missing_def)
  then show ?thesis using all by blast
qed

lemma nat_digits_digit: "list_all is_digit (nat_digits n)"
proof (induction n rule: nat_digits.induct)
  case (1 n)
  have "is_digit (char_of (48 + k))" if "k < 10" for k :: nat using that by (simp add: is_digit_def)
  then show ?case using 1 by (simp add: nat_digits.simps [of n])
qed

lemma letters: "\<not> is_digit (CHR ''C'')" "\<not> is_digit (CHR ''D'')" "\<not> is_digit (CHR ''-'')"
  by code_simp+

lemma forward_rules_once:
  assumes "fw_Protocol f \<in> {''udp'', ''tcp'', ''both''}" and "fw_DestIP f \<notin> {''-A'', ''-C'', ''-D''}"
    and "install_rules iptables_os (forwardArgs f ''-A'') h = (r, h')"
  shows "install_rules iptables_os (forwardArgs f ''-A'') h' = (None, h')"
proof -
  have digit: "Itoa n \<noteq> ''-C''" "Itoa n \<noteq> ''-D''" for n
    using nat_digits_digit [of "nat (- n)"] nat_digits_digit [of "nat n"] letters by (auto simp: Itoa_def)
  have "CHR '':'' \<in> set (d @ CHR '':'' # p)" for d p :: string by simp
  moreover have "CHR '':'' \<notin> set ''-C''" "CHR '':'' \<notin> set ''-D''" by simp_all
  ultimately have colon: "d @ CHR '':'' # p \<noteq> ''-C''" "d @ CHR '':'' # p \<noteq> ''-D''" for d p :: string by metis+
  have "list_all (\<lambda>a. ''-A'' \<in> set a \<and> ''-C'' \<notin> set a \<and> ''-D'' \<notin> set a) (forwardArgs f ''-A'')"
    using assms(1,2)
    by (auto simp: forwardArgs_def forward_rules_def colon digit colon [THEN not_sym] digit [THEN not_sym])
  from install_rules_missing [OF this] assms(3) show ?thesis by (auto simp: missing_idem)
qed

definition sample_forwards :: "Forward \<times> Forward" where
  "sample_forwards =
     (\<lparr>fw_ID = ''f1'', fw_Protocol = ''udp'', fw_ListenPort = 1, fw_DestIP = ''d'', fw_DestPort = 9\<rparr>,
      \<lparr>fw_ID = ''f2'', fw_Protocol = ''udp'', fw_ListenPort = 2, fw_DestIP = ''d'', fw_DestPort = 9\<rparr>)"

text \<open>
  Two forwards to one destination share the rule that lets the traffic pass; deleting one of them takes it
  from the other, whose redirection is left without it.
\<close>

lemma shared_rules_deleted:
  "case sample_forwards of (f1, f2) \<Rightarrow>
     let rules = missing (missing [] (forwardArgs f1 ''-A'')) (forwardArgs f2 ''-A'');
         left = fold (\<lambda>a rs. snd (iptables a rs)) (forwardArgs f1 ''-D'') rules;
         pass = rule_key (forwardArgs f2 ''-A'' ! 1); redirect = rule_key (forwardArgs f2 ''-A'' ! 0)
     in pass \<in> set rules \<and> pass \<notin> set left \<and> redirect \<in> set left"
  by code_simp

end
