(* ===== verification/AgentPeers.thy ===== *)
theory AgentPeers
  imports Managed
begin

text \<open>
  The WireGuard server of a node and its peers, src/internal/agent/server.go from wgGen to handleWGStats:
  key pairs made by wg, the server's configuration, adding and removing a peer.
\<close>

record WGServer =
  wv_Interface :: string
  wv_Address :: string
  wv_ListenPort :: int
  wv_InternetInterface :: string

record WGPeer =
  we_Interface :: string
  we_ClientAddress :: string
  we_Endpoint :: string
  we_DNS :: string
  we_PersistentKeepalive :: int

section \<open>Keys\<close>

text \<open>The public key of a private one, as wg prints it.\<close>

definition wg_pubkey :: "'h os \<Rightarrow> string \<Rightarrow> 'h host \<Rightarrow> (string \<times> go_error option) \<times> 'h host" where
  "wg_pubkey os priv h = os_Run os [''wg'', ''pubkey''] (priv @ [CHR 0x0A]) h"

definition wgGen :: "'h os \<Rightarrow> 'h host \<Rightarrow> (go_error + string \<times> string) \<times> 'h host" where
  "wgGen os h =
     (case runOutput os [''wg'', ''genkey''] h of (out, h1) \<Rightarrow>
        let priv = TrimSpace out in
        if priv = [] then (Inl (Plain ''wg genkey failed''), h1)
        else (case wg_pubkey os priv h1 of
                ((_, Some e), h2) \<Rightarrow> (Inl e, h2)
              | ((b, None), h2) \<Rightarrow> (Inr (priv, TrimSpace b), h2)))"

definition wgPub :: "'h os \<Rightarrow> string \<Rightarrow> 'h host \<Rightarrow> (string \<times> go_error option) \<times> 'h host" where
  "wgPub os priv h = (case wg_pubkey os priv h of ((b, e), h1) \<Rightarrow> ((TrimSpace b, e), h1))"

text \<open>The first line that begins with PrivateKey and has an equals sign.\<close>

fun priv_line :: "string list \<Rightarrow> string" where
  "priv_line [] = []"
| "priv_line (l # ls) =
     (if HasPrefix (TrimSpace l) ''PrivateKey'' then
        (case split_two (CHR ''='') l of [_, v] \<Rightarrow> TrimSpace v | _ \<Rightarrow> priv_line ls)
      else priv_line ls)"

definition parsePriv :: "'h os \<Rightarrow> string \<Rightarrow> 'h host \<Rightarrow> string" where
  "parsePriv os path h =
     priv_line (split_at (CHR 0x0A) (case ReadFile os path h of Inl _ \<Rightarrow> [] | Inr b \<Rightarrow> b))"

section \<open>The server\<close>

definition wg_server_path :: "string \<Rightarrow> string" where
  "wg_server_path iface = in_dir ''/etc/wireguard'' (iface @ ''.conf'')"

definition wg_server_config :: "WGServer \<Rightarrow> string \<Rightarrow> string" where
  "wg_server_config x priv =
     text_lines
       [''[Interface]'', ''Address = '' @ wv_Address x, ''ListenPort = '' @ Itoa (wv_ListenPort x),
        ''PrivateKey = '' @ priv, ''SaveConfig = true'',
        ''PostUp = iptables -A FORWARD -i %i -j ACCEPT; iptables -A FORWARD -o %i -j ACCEPT; iptables -t nat -A POSTROUTING -o '' @
          wv_InternetInterface x @ '' -j MASQUERADE'',
        ''PostDown = iptables -D FORWARD -i %i -j ACCEPT; iptables -D FORWARD -o %i -j ACCEPT; iptables -t nat -D POSTROUTING -o '' @
          wv_InternetInterface x @ '' -j MASQUERADE'']"

definition wg_defaults :: "WGServer \<Rightarrow> WGServer" where
  "wg_defaults x =
     x\<lparr>wv_ListenPort := (if wv_ListenPort x = 0 then 51820 else wv_ListenPort x),
       wv_InternetInterface := (if wv_InternetInterface x = [] then ''eth0'' else wv_InternetInterface x)\<rparr>"

definition wg_enable :: "string \<Rightarrow> string list" where
  "wg_enable iface = [''systemctl'', ''enable'', ''--now'', ''wg-quick@'' @ iface @ ''.service'']"

definition wg_create :: "'h os \<Rightarrow> WGServer \<Rightarrow> string \<Rightarrow> 'h host \<Rightarrow> (go_error + string) \<times> 'h host" where
  "wg_create os x path h =
     (case wgGen os h of
        (Inl e, h1) \<Rightarrow> (Inl e, h1)
      | (Inr (priv, pub), h1) \<Rightarrow>
          (case WriteFile os path (wg_server_config x priv) h1 of
             (Some e, h2) \<Rightarrow> (Inl e, h2)
           | (None, h2) \<Rightarrow>
               (case run os (wg_enable (wv_Interface x))
                       (run_ignored os [''sysctl'', ''-w'', ''net.ipv4.ip_forward=1''] h2) of
                  (Some e, h3) \<Rightarrow> (Inl e, h3)
                | (None, h3) \<Rightarrow> (Inr pub, h3))))"

definition ensureWG :: "'h os \<Rightarrow> WGServer \<Rightarrow> 'h host \<Rightarrow> (go_error + string) \<times> 'h host" where
  "ensureWG os raw h =
     (if \<not> safeName (wv_Interface raw) then (Inl (Plain ''invalid interface''), h)
      else
        let x = wg_defaults raw; path = wg_server_path (wv_Interface x);
            h1 = snd (MkdirAll os ''/etc/wireguard'' h) in
        if \<not> Stat path h1 then wg_create os x path h1
        else
          let priv = parsePriv os path h1 in
          if priv = [] then (Inl (Plain ''cannot read server private key''), h1)
          else (case wgPub os priv h1 of
                  ((pub, e), h2) \<Rightarrow>
                    (case e of Some err \<Rightarrow> Inl err | None \<Rightarrow> Inr pub,
                     snd (run os (wg_enable (wv_Interface x)) h2))))"

text \<open>The answer repeats the request, not the defaults.\<close>

definition handleWGServer :: "'h os \<Rightarrow> string \<Rightarrow> go_error + WGServer \<Rightarrow> 'h host \<Rightarrow> json response \<times> 'h host" where
  "handleWGServer os m body h =
     (if m \<noteq> ''POST'' then (JsonError 405 ''method not allowed'', h)
      else (case body of
        Inl e \<Rightarrow> (JsonError 400 (err_msg e), h)
      | Inr x \<Rightarrow>
          (case ensureWG os x h of
             (Inl e, h') \<Rightarrow> (JsonError 400 (err_msg e), h')
           | (Inr pub, h') \<Rightarrow>
               (JsonWrite 200 (JObj [(''public_key'', JStr pub), (''interface'', JStr (wv_Interface x)),
                  (''listen_port'', JInt (wv_ListenPort x))]), h'))))"

section \<open>Peers\<close>

definition client_config :: "WGPeer \<Rightarrow> string \<Rightarrow> string \<Rightarrow> string \<Rightarrow> string" where
  "client_config x priv serverPub psk =
     text_lines
       [''[Interface]'', ''PrivateKey = '' @ priv, ''Address = '' @ we_ClientAddress x, ''DNS = '' @ we_DNS x, [],
        ''[Peer]'', ''PublicKey = '' @ serverPub, ''PresharedKey = '' @ psk, ''Endpoint = '' @ we_Endpoint x,
        ''AllowedIPs = 0.0.0.0/0, ::/0'',
        ''PersistentKeepalive = '' @
          Itoa (if we_PersistentKeepalive x = 0 then 25 else we_PersistentKeepalive x)]"

text \<open>The rest of addWGPeer once the shared key is in its temporary file.\<close>

definition peer_with_key ::
  "'h os \<Rightarrow> WGPeer \<Rightarrow> string \<Rightarrow> string \<Rightarrow> string \<Rightarrow> string \<Rightarrow> 'h host \<Rightarrow> (go_error + json) \<times> 'h host" where
  "peer_with_key os x priv pub psk tmp h =
     (case ParseCIDR (we_ClientAddress x) of
        None \<Rightarrow> (Inl (Plain (''invalid CIDR address: '' @ we_ClientAddress x)), h)
      | Some (ip, _) \<Rightarrow>
          (case run os [''wg'', ''set'', we_Interface x, ''peer'', pub, ''preshared-key'', tmp, ''allowed-ips'',
                        ip_String ip @ ''/32''] h of
             (Some e, h1) \<Rightarrow> (Inl e, h1)
           | (None, h1) \<Rightarrow>
               let h2 = run_ignored os [''wg-quick'', ''save'', we_Interface x] h1 in
               (case wgPub os (parsePriv os (wg_server_path (we_Interface x)) h2) h2 of
                  ((_, Some e), h3) \<Rightarrow> (Inl e, h3)
                | ((serverPub, None), h3) \<Rightarrow>
                    (Inr (JObj [(''private_key'', JStr priv), (''public_key'', JStr pub),
                       (''server_public_key'', JStr serverPub),
                       (''config'', JStr (client_config x priv serverPub psk))]), h3))))"

text \<open>os.CreateTemp makes an empty file; it is removed at the end.\<close>

definition create_temp :: "'h os \<Rightarrow> 'h host \<Rightarrow> (go_error + string) \<times> 'h host" where
  "create_temp os h =
     (case os_TempName os (ho_rest h) of
        (Inl e, w) \<Rightarrow> (Inl e, h\<lparr>ho_rest := w\<rparr>)
      | (Inr p, w) \<Rightarrow> (Inr p, set_file p (Some []) (h\<lparr>ho_rest := w\<rparr>)))"

definition addWGPeer :: "'h os \<Rightarrow> WGPeer \<Rightarrow> 'h host \<Rightarrow> (go_error + json) \<times> 'h host" where
  "addWGPeer os x h =
     (if \<not> safeName (we_Interface x) then (Inl (Plain ''invalid interface''), h)
      else (case wgGen os h of
        (Inl e, h1) \<Rightarrow> (Inl e, h1)
      | (Inr (priv, pub), h1) \<Rightarrow>
          (case runOutput os [''wg'', ''genpsk''] h1 of (out, h2) \<Rightarrow>
             let psk = TrimSpace out in
             if psk = [] then (Inl (Plain ''wg genpsk failed''), h2)
             else (case create_temp os h2 of
                     (Inl e, h3) \<Rightarrow> (Inl e, h3)
                   | (Inr tmp, h3) \<Rightarrow>
                       (case peer_with_key os x priv pub psk tmp
                               (snd (WriteFile os tmp (psk @ [CHR 0x0A]) h3)) of
                          (r, h4) \<Rightarrow> (r, RemoveFile os tmp h4))))))"

definition handleWGPeer ::
  "'h os \<Rightarrow> string \<Rightarrow> string \<Rightarrow> string \<Rightarrow> go_error + WGPeer \<Rightarrow> 'h host \<Rightarrow> json response \<times> 'h host" where
  "handleWGPeer os m iface pub body h =
     (if m = ''POST'' then
        (case body of
           Inl e \<Rightarrow> (JsonError 400 (err_msg e), h)
         | Inr x \<Rightarrow>
             (case addWGPeer os x h of
                (Inl e, h') \<Rightarrow> (JsonError 400 (err_msg e), h')
              | (Inr j, h') \<Rightarrow> (JsonWrite 201 j, h')))
      else if m = ''DELETE'' then
        (if \<not> safeName iface \<or> pub = [] then (JsonError 400 ''invalid request'', h)
         else (case run os [''wg'', ''set'', iface, ''peer'', pub, ''remove''] h of
                 (Some e, h') \<Rightarrow> (JsonError 400 (err_msg e), h')
               | (None, h') \<Rightarrow>
                   (JsonWrite 200 (JObj [(''ok'', JBool True)]), run_ignored os [''wg-quick'', ''save'', iface] h')))
      else (JsonError 405 ''method not allowed'', h))"

record wgStat =
  wt_Interface :: string
  wt_PublicKey :: string
  wt_RXBytes :: int
  wt_TXBytes :: int

definition wg_stat_line :: "string \<Rightarrow> wgStat list" where
  "wg_stat_line l =
     (let f = Fields l in
      if length f < 9 then []
      else [\<lparr>wt_Interface = f ! 0, wt_PublicKey = f ! 1, wt_RXBytes = ParseInt64 (f ! 6),
             wt_TXBytes = ParseInt64 (f ! 7)\<rparr>])"

definition handleWGStats :: "'h os \<Rightarrow> string \<Rightarrow> 'h host \<Rightarrow> wgStat list response \<times> 'h host" where
  "handleWGStats os m h =
     (if m \<noteq> ''GET'' then (JsonError 405 ''method not allowed'', h)
      else (case runOutput os [''wg'', ''show'', ''all'', ''dump''] h of
              (out, h') \<Rightarrow> (JsonWrite 200 (concat (map wg_stat_line (split_at (CHR 0x0A) (TrimSpace out)))), h')))"

end
