(* ===== verification/XrayAgent.thy ===== *)
theory XrayAgent
  imports Managed Health
begin

text \<open>
  The agent's side of Xray and of the traffic counters: src/internal/agent/xray.go (status, installation,
  key pairs, applying a configuration), xray_health.go (the probe through a local SOCKS port) and
  phase3.go (the statistics of Xray and WireGuard, switching a WireGuard peer). What an HTTP client or the
  JSON decoder of the standard library returns is an argument.
\<close>

definition xrayConfigDir :: string where
  "xrayConfigDir = ''/usr/local/etc/xray''"

definition xrayConfigPath :: string where
  "xrayConfigPath = in_dir xrayConfigDir ''config.json''"

definition xrayFallback :: string where
  "xrayFallback = ''/usr/local/bin/xray''"

section \<open>Status and installation\<close>

definition xrayBinary :: "'h os \<Rightarrow> 'h host \<Rightarrow> string" where
  "xrayBinary os h =
     (case os_LookPath os ''xray'' h of
        Some p \<Rightarrow> p
      | None \<Rightarrow> if Stat xrayFallback h then xrayFallback else [])"

definition xrayStatus :: "'h os \<Rightarrow> 'h host \<Rightarrow> json \<times> 'h host" where
  "xrayStatus os h =
     (let bin = xrayBinary os h; installed = (bin \<noteq> []) in
      case (if installed then runOutput os [bin, ''version''] h else ([], h)) of (v, h1) \<Rightarrow>
      (case runOutput os [''systemctl'', ''is-active'', ''xray.service''] h1 of (a, h2) \<Rightarrow>
        (JObj [(''installed'', JBool installed), (''binary'', JStr bin),
               (''version'', JStr (if installed then hd (split_at (CHR 0x0A) (TrimSpace v)) else [])),
               (''active'', JBool (TrimSpace a = ''active'')), (''config_path'', JStr xrayConfigPath),
               (''config_exists'', JBool (Stat xrayConfigPath h2))], h2)))"

definition handleXrayStatus :: "'h os \<Rightarrow> string \<Rightarrow> 'h host \<Rightarrow> json response \<times> 'h host" where
  "handleXrayStatus os m h =
     (if m \<noteq> ''GET'' then (JsonError 405 ''method not allowed'', h)
      else (case xrayStatus os h of (j, h') \<Rightarrow> (JsonWrite 200 j, h')))"

definition xray_install_script :: string where
  "xray_install_script =
     ''set -euo pipefail; curl -L --fail --retry 3 https://github.com/XTLS/Xray-install/raw/main/install-release.sh | bash -s -- install''"

definition failure :: "string \<Rightarrow> go_error \<Rightarrow> string \<Rightarrow> string" where
  "failure what e out = what @ '': '' @ err_msg e @ '': '' @ TrimSpace out"

definition handleXrayInstall :: "'h os \<Rightarrow> string \<Rightarrow> 'h host \<Rightarrow> json response \<times> 'h host" where
  "handleXrayInstall os m h =
     (if m \<noteq> ''POST'' then (JsonError 405 ''method not allowed'', h)
      else
        case (if xrayBinary os h = [] then command os [''bash'', ''-c'', xray_install_script] h
              else (([], None), h)) of
          ((out, Some e), h1) \<Rightarrow> (JsonError 502 (failure ''xray install failed'' e out), h1)
        | ((out, None), h1) \<Rightarrow> (case xrayStatus os h1 of (j, h2) \<Rightarrow> (JsonWrite 200 j, h2)))"

section \<open>Key pairs\<close>

definition x25519_line :: "string \<Rightarrow> string \<times> string \<Rightarrow> string \<times> string" where
  "x25519_line raw keys =
     (case split_two (CHR '':'') (TrimSpace raw) of
        [a, b] \<Rightarrow>
          let k = ToLower (replace_char (CHR 0x20) [] (TrimSpace a)); v = TrimSpace b in
          if k \<in> {''privatekey'', ''private''} then (v, snd keys)
          else if k \<in> {''publickey'', ''public'', ''password''} then (fst keys, v)
          else keys
      | _ \<Rightarrow> keys)"

definition parseX25519Output :: "string \<Rightarrow> string \<times> string" where
  "parseX25519Output out = fold x25519_line (split_at (CHR 0x0A) out) ([], [])"

definition handleXrayX25519 :: "'h os \<Rightarrow> string \<Rightarrow> 'h host \<Rightarrow> json response \<times> 'h host" where
  "handleXrayX25519 os m h =
     (if m \<noteq> ''POST'' then (JsonError 405 ''method not allowed'', h)
      else
        let bin = xrayBinary os h in
        if bin = [] then (JsonError 409 ''xray is not installed'', h)
        else (case command os [bin, ''x25519''] h of
                ((out, Some e), h1) \<Rightarrow> (JsonError 502 (failure ''x25519 failed'' e out), h1)
              | ((out, None), h1) \<Rightarrow>
                  (case parseX25519Output out of (priv, pub) \<Rightarrow>
                     if priv = [] \<or> pub = [] then (JsonError 502 ''could not parse xray x25519 output'', h1)
                     else (JsonWrite 200 (JObj [(''private_key'', JStr priv), (''public_key'', JStr pub)]), h1))))"

section \<open>Applying a configuration\<close>

definition xrayBackupPath :: string where
  "xrayBackupPath = xrayConfigPath @ ''.gamebridge.bak''"

text \<open>Whether there was a configuration; its content is in the backup then.\<close>

definition xray_backup :: "'h os \<Rightarrow> 'h host \<Rightarrow> (go_error + bool) \<times> 'h host" where
  "xray_backup os h =
     (if \<not> Stat xrayConfigPath h then (Inr False, h)
      else (case ReadFile os xrayConfigPath h of
              Inl e \<Rightarrow> (Inl e, h)
            | Inr old \<Rightarrow>
                (case WriteFile os xrayBackupPath old h of
                   (Some e, h1) \<Rightarrow> (Inl e, h1)
                 | (None, h1) \<Rightarrow> (Inr True, h1))))"

definition xray_restore :: "'h os \<Rightarrow> bool \<Rightarrow> 'h host \<Rightarrow> 'h host" where
  "xray_restore os hadOld h =
     (if \<not> hadOld then h
      else (case ReadFile os xrayBackupPath h of
              Inl _ \<Rightarrow> h
            | Inr old \<Rightarrow>
                run_ignored os [''systemctl'', ''restart'', ''xray.service'']
                  (snd (WriteFile os xrayConfigPath old h))))"

definition xray_restart :: "'h os \<Rightarrow> bool \<Rightarrow> 'h host \<Rightarrow> json response \<times> 'h host" where
  "xray_restart os hadOld h =
     (let h1 = run_ignored os [''systemctl'', ''enable'', ''xray.service''] h in
      case command os [''systemctl'', ''restart'', ''xray.service''] h1 of
        ((out, Some e), h2) \<Rightarrow>
          (JsonError 502 (failure ''xray restart failed'' e out), xray_restore os hadOld h2)
      | ((out, None), h2) \<Rightarrow>
          (case xrayStatus os h2 of (j, h3) \<Rightarrow>
             (JsonWrite 200 (JObj [(''ok'', JBool True), (''status'', j)]), h3)))"

definition xray_replace :: "'h os \<Rightarrow> string \<Rightarrow> string \<Rightarrow> 'h host \<Rightarrow> json response \<times> 'h host" where
  "xray_replace os bin tmp h =
     (case command os [bin, ''run'', ''-test'', ''-config'', tmp] h of
        ((out, Some e), h1) \<Rightarrow> (JsonError 400 (failure ''xray config test failed'' e out), h1)
      | ((out, None), h1) \<Rightarrow>
          (case xray_backup os h1 of
             (Inl e, h2) \<Rightarrow> (JsonError 500 (err_msg e), h2)
           | (Inr hadOld, h2) \<Rightarrow>
               (case ReadFile os tmp h2 of
                  Inl e \<Rightarrow> (JsonError 500 (err_msg e), h2)
                | Inr raw \<Rightarrow>
                    (case WriteFile os xrayConfigPath raw h2 of
                       (Some e, h3) \<Rightarrow> (JsonError 500 (err_msg e), h3)
                     | (None, h3) \<Rightarrow> xray_restart os hadOld h3))))"

text \<open>The temporary file is removed whatever happens after it was written.\<close>

definition handleXrayApply ::
  "'h os \<Rightarrow> (string \<Rightarrow> bool) \<Rightarrow> string \<Rightarrow> go_error + string \<Rightarrow> 'h host \<Rightarrow> json response \<times> 'h host" where
  "handleXrayApply os json_valid m body h =
     (if m \<noteq> ''POST'' then (JsonError 405 ''method not allowed'', h)
      else
        let bin = xrayBinary os h in
        if bin = [] then (JsonError 409 ''xray is not installed'', h)
        else (case body of
          Inl e \<Rightarrow> (JsonError 400 (err_msg e), h)
        | Inr cfg \<Rightarrow>
            if cfg = [] \<or> \<not> json_valid cfg then (JsonError 400 ''invalid xray config'', h)
            else (case MkdirAll os xrayConfigDir h of
                    (Some e, h1) \<Rightarrow> (JsonError 500 (err_msg e), h1)
                  | (None, h1) \<Rightarrow>
                      (case os_Nano os (ho_rest h1) of (n, w) \<Rightarrow>
                         let h2 = h1\<lparr>ho_rest := w\<rparr>; tmp = xrayConfigPath @ ''.gbtmp-'' @ Itoa n in
                         (case WriteFile os tmp (cfg @ [CHR 0x0A]) h2 of
                            (Some e, h3) \<Rightarrow> (JsonError 500 (err_msg e), h3)
                          | (None, h3) \<Rightarrow>
                              (case xray_replace os bin tmp h3 of (r, h4) \<Rightarrow> (r, RemoveFile os tmp h4)))))))"

section \<open>The outbound probe\<close>

definition agentHealthPortMin :: int where "agentHealthPortMin = 30000"
definition agentHealthPortMax :: int where "agentHealthPortMax = 39999"

definition outboundHealthTargets :: "string list" where
  "outboundHealthTargets =
     [''https://www.gstatic.com/generate_204'', ''https://www.cloudflare.com/cdn-cgi/trace'']"

record xrayOutboundProbeResponse =
  xp_Healthy :: bool
  xp_LatencyMS :: int
  xp_CheckedAt :: time
  xp_Target :: string
  xp_Error :: string

definition validateOutboundHealthPort :: "int \<Rightarrow> go_error option" where
  "validateOutboundHealthPort port =
     (if port < agentHealthPortMin \<or> agentHealthPortMax < port
        then Some (Plain (''outbound health SOCKS port must be between '' @ Itoa agentHealthPortMin @
                          '' and '' @ Itoa agentHealthPortMax))
      else None)"

definition boundedProbeError :: "go_error option \<Rightarrow> string" where
  "boundedProbeError e =
     (case e of
        None \<Rightarrow> []
      | Some err \<Rightarrow> let msg = TrimSpace (err_msg err) in if 512 < length msg then take 512 msg else msg)"

text \<open>
  fetch is the request for one target through the SOCKS port: the status code or the error, the measured
  latency, and the rest of the world.
\<close>

type_synonym 'h fetch = "int \<Rightarrow> string \<Rightarrow> 'h \<Rightarrow> ((go_error + int) \<times> int) \<times> 'h"

fun probe_targets :: "'h fetch \<Rightarrow> int \<Rightarrow> time \<Rightarrow> string list \<Rightarrow> string list \<Rightarrow> 'h \<Rightarrow> xrayOutboundProbeResponse \<times> 'h" where
  "probe_targets fetch port at errs [] w =
     (\<lparr>xp_Healthy = False, xp_LatencyMS = 0, xp_CheckedAt = at, xp_Target = [],
       xp_Error = boundedProbeError (Some (Plain (JoinStrings errs ''; '')))\<rparr>, w)"
| "probe_targets fetch port at errs (t # ts) w =
     (case fetch port t w of
        ((Inl e, _), w1) \<Rightarrow> probe_targets fetch port at (errs @ [t @ '': '' @ err_msg e]) ts w1
      | ((Inr status, latency), w1) \<Rightarrow>
          if 200 \<le> status \<and> status < 500 then
            (\<lparr>xp_Healthy = True, xp_LatencyMS = latency, xp_CheckedAt = at, xp_Target = t, xp_Error = []\<rparr>, w1)
          else probe_targets fetch port at (errs @ [t @ '': HTTP '' @ Itoa status]) ts w1)"

definition probeXrayOutbound ::
  "'h fetch \<Rightarrow> go_error option \<Rightarrow> time \<Rightarrow> int \<Rightarrow> 'h \<Rightarrow> xrayOutboundProbeResponse \<times> 'h" where
  "probeXrayOutbound fetch dialer_error at port w =
     (case (case validateOutboundHealthPort port of Some e \<Rightarrow> Some e | None \<Rightarrow> dialer_error) of
        Some e \<Rightarrow>
          (\<lparr>xp_Healthy = False, xp_LatencyMS = 0, xp_CheckedAt = at, xp_Target = [],
            xp_Error = boundedProbeError (Some e)\<rparr>, w)
      | None \<Rightarrow> probe_targets fetch port at [] outboundHealthTargets w)"

definition handleXrayOutboundProbe ::
  "'h fetch \<Rightarrow> go_error option \<Rightarrow> time \<Rightarrow> string \<Rightarrow> go_error + int \<Rightarrow> 'h \<Rightarrow> xrayOutboundProbeResponse response \<times> 'h" where
  "handleXrayOutboundProbe fetch dialer_error at m body w =
     (if m \<noteq> ''POST'' then (JsonError 405 ''method not allowed'', w)
      else (case body of
        Inl e \<Rightarrow> (JsonError 400 (err_msg e), w)
      | Inr port \<Rightarrow>
          (case validateOutboundHealthPort port of
             Some e \<Rightarrow> (JsonError 400 (err_msg e), w)
           | None \<Rightarrow>
               (case probeXrayOutbound fetch dialer_error at port w of (r, w') \<Rightarrow> (JsonWrite 200 r, w')))))"

section \<open>The statistics of Xray\<close>

text \<open>A value of the reply: absent, or a JSON value. A number that is no int64 and a text that is no number count 0.\<close>

definition parseXrayStatValue :: "json option \<Rightarrow> int" where
  "parseXrayStatValue raw =
     (case raw of
        Some (JInt n) \<Rightarrow> if - (2 ^ 63) \<le> n \<and> n < 2 ^ 63 then n else 0
      | Some (JStr s) \<Rightarrow> ParseInt64 s
      | _ \<Rightarrow> 0)"

record normalizedXrayStat =
  nx_Email :: string
  nx_Uplink :: int
  nx_Downlink :: int

text \<open>strings.Split(s, ">>>").\<close>

function split_arrows :: "string \<Rightarrow> string list" where
  "split_arrows [] = [[]]"
| "split_arrows (c # cs) =
     (case strip_prefix ''>>>'' (c # cs) of
        Some r \<Rightarrow> [] # split_arrows r
      | None \<Rightarrow> (case split_arrows cs of [] \<Rightarrow> [[c]] | p # ps \<Rightarrow> (c # p) # ps))"
  by pat_completeness auto
termination
  by (relation "measure length") (auto split: if_splits)

text \<open>The email and the direction of a user's counter.\<close>

definition stat_key :: "string \<Rightarrow> (string \<times> string) option" where
  "stat_key name =
     (case split_arrows name of
        [a, email, b, dir] \<Rightarrow> if a = ''user'' \<and> b = ''traffic'' then Some (email, dir) else None
      | _ \<Rightarrow> None)"

definition count_stat :: "string \<Rightarrow> int \<Rightarrow> normalizedXrayStat \<Rightarrow> normalizedXrayStat" where
  "count_stat dir v x =
     (if dir = ''uplink'' then x\<lparr>nx_Uplink := int64 (nx_Uplink x + v)\<rparr>
      else if dir = ''downlink'' then x\<lparr>nx_Downlink := int64 (nx_Downlink x + v)\<rparr>
      else x)"

definition add_stat ::
  "string \<times> json option \<Rightarrow> normalizedXrayStat list \<Rightarrow> normalizedXrayStat list" where
  "add_stat st xs =
     (case stat_key (fst st) of
        None \<Rightarrow> xs
      | Some (email, dir) \<Rightarrow>
          let ys = (if email \<in> set (map nx_Email xs) then xs
                    else xs @ [\<lparr>nx_Email = email, nx_Uplink = 0, nx_Downlink = 0\<rparr>])
          in upd_first (\<lambda>x. nx_Email x = email) (count_stat dir (parseXrayStatValue (snd st))) ys)"

definition normalizeXrayUserStats :: "(string \<times> json option) list \<Rightarrow> normalizedXrayStat list" where
  "normalizeXrayUserStats stats = fold add_stat stats []"

definition handleXrayStats ::
  "'h os \<Rightarrow> (string \<Rightarrow> go_error + (string \<times> json option) list) \<Rightarrow> string \<Rightarrow> string \<Rightarrow> 'h host \<Rightarrow>
   normalizedXrayStat list response \<times> 'h host" where
  "handleXrayStats os unmarshal m reset h =
     (if m \<noteq> ''GET'' then (JsonError 405 ''method not allowed'', h)
      else
        let bin = xrayBinary os h in
        if bin = [] then (JsonError 409 ''xray is not installed'', h)
        else
          let args = [bin, ''api'', ''statsquery'', ''--server=127.0.0.1:10085'', ''-pattern'', ''user>>>''] @
                     (if reset = ''1'' then [''-reset=true''] else []) in
          (case command os args h of
             ((raw, Some e), h1) \<Rightarrow> (JsonError 502 (failure ''xray stats query failed'' e raw), h1)
           | ((raw, None), h1) \<Rightarrow>
               (case unmarshal raw of
                  Inl e \<Rightarrow> (JsonError 502 (''invalid xray stats output: '' @ err_msg e), h1)
                | Inr stats \<Rightarrow> (JsonWrite 200 (normalizeXrayUserStats stats), h1))))"

section \<open>The counters of WireGuard\<close>

record wgRuntimePeer =
  wr_Interface :: string
  wr_PublicKey :: string
  wr_LatestHandshake :: int
  wr_RXBytes :: int
  wr_TXBytes :: int

definition wg_dump_line :: "string \<Rightarrow> wgRuntimePeer list" where
  "wg_dump_line line =
     (let fs = Fields line in
      if length fs < 9 then []
      else [\<lparr>wr_Interface = fs ! 0, wr_PublicKey = fs ! 1, wr_LatestHandshake = ParseInt64 (fs ! 5),
             wr_RXBytes = ParseInt64 (fs ! 6), wr_TXBytes = ParseInt64 (fs ! 7)\<rparr>])"

definition parseWGRuntimeDump :: "string \<Rightarrow> wgRuntimePeer list" where
  "parseWGRuntimeDump out = concat (map wg_dump_line (split_at (CHR 0x0A) (TrimSpace out)))"

definition handleWGRuntime :: "'h os \<Rightarrow> string \<Rightarrow> 'h host \<Rightarrow> wgRuntimePeer list response \<times> 'h host" where
  "handleWGRuntime os m h =
     (if m \<noteq> ''GET'' then (JsonError 405 ''method not allowed'', h)
      else (case runOutput os [''wg'', ''show'', ''all'', ''dump''] h of
              (out, h') \<Rightarrow> (JsonWrite 200 (parseWGRuntimeDump out), h')))"

record wgPeerStateRequest =
  ws_Interface :: string
  ws_PublicKey :: string
  ws_ClientAddress :: string
  ws_Enabled :: bool

definition wg_save :: "'h os \<Rightarrow> string \<Rightarrow> 'h host \<Rightarrow> json response \<times> 'h host" where
  "wg_save os iface h =
     (JsonWrite 200 (JObj [(''ok'', JBool True)]), run_ignored os [''wg-quick'', ''save'', iface] h)"

text \<open>Removing a peer that is already gone is not an error.\<close>

definition handleWGPeerState ::
  "'h os \<Rightarrow> string \<Rightarrow> go_error + wgPeerStateRequest \<Rightarrow> 'h host \<Rightarrow> json response \<times> 'h host" where
  "handleWGPeerState os m body h =
     (if m \<noteq> ''POST'' then (JsonError 405 ''method not allowed'', h)
      else (case body of
        Inl e \<Rightarrow> (JsonError 400 (err_msg e), h)
      | Inr x \<Rightarrow>
          if \<not> safeName (ws_Interface x) \<or> TrimSpace (ws_PublicKey x) = []
            then (JsonError 400 ''invalid WireGuard peer state request'', h)
          else if ws_Enabled x then
            (if TrimSpace (ws_ClientAddress x) = []
               then (JsonError 400 ''client_address is required when enabling a peer'', h)
             else (case run os [''wg'', ''set'', ws_Interface x, ''peer'', ws_PublicKey x, ''allowed-ips'',
                                ws_ClientAddress x] h of
                     (Some e, h1) \<Rightarrow> (JsonError 502 (err_msg e), h1)
                   | (None, h1) \<Rightarrow> wg_save os (ws_Interface x) h1))
          else (case run os [''wg'', ''set'', ws_Interface x, ''peer'', ws_PublicKey x, ''remove''] h of
                  (Some e, h1) \<Rightarrow>
                    if Contains (ToLower (err_msg e)) ''not found'' then wg_save os (ws_Interface x) h1
                    else (JsonError 502 (err_msg e), h1)
                | (None, h1) \<Rightarrow> wg_save os (ws_Interface x) h1)))"

section \<open>A configuration is replaced or kept\<close>

text \<open>What is known of the machine: xray and systemctl leave the directory alone, and its files can be read.\<close>

lemma quiet_files:
  assumes "quiet os d"
  shows "file_at (in_dir d n) (snd (os_Run os args inp h)) = file_at (in_dir d n) h"
    "file_at (in_dir d n) (run_ignored os args h) = file_at (in_dir d n) h"
    "file_at (in_dir d n) (snd (runOutput os args h)) = file_at (in_dir d n) h"
    "file_at (in_dir d n) (snd (command os args h)) = file_at (in_dir d n) h"
  using assms by (simp_all add: quiet_def command_def run_ignored_def runOutput_def split_beta)

lemma command_quiet: "quiet os d \<Longrightarrow> command os args h = (r, h') \<Longrightarrow> file_at (in_dir d n) h' = file_at (in_dir d n) h"
  using quiet_files(4) [of os d n args h] by simp

lemma xrayStatus_file:
  "quiet os d \<Longrightarrow> file_at (in_dir d n) (snd (xrayStatus os h)) = file_at (in_dir d n) h"
  by (simp add: xrayStatus_def Let_def split_beta quiet_files)

lemma ReadFile_ok: "(\<And>p w. os_Read os p w = None) \<Longrightarrow>
    ReadFile os p h = (case file_at p h of None \<Rightarrow> Inl (Plain (''open '' @ p @ '': no such file or directory'')) | Some b \<Rightarrow> Inr b)"
  by (simp add: ReadFile_def split: option.split)

lemma WriteFile_succeeds: "fst (os_Write os p b (ho_rest h)) = None \<Longrightarrow> \<exists>h'. WriteFile os p b h = (None, h')"
  by (cases "os_Write os p b (ho_rest h)") (simp add: WriteFile_def)

lemma WriteFile_ok:
  assumes "WriteFile os q b h = (None, h')"
  shows "file_at p h' = (if p = q then Some b else file_at p h)"
  using file_WriteFile(2) [OF assms] file_WriteFile(1) [OF assms, of p] by simp

text \<open>The three names of the directory that a request uses are different.\<close>

definition xray_names :: "string \<Rightarrow> bool" where
  "xray_names tmp \<longleftrightarrow>
     (\<exists>t. tmp = in_dir xrayConfigDir t) \<and> tmp \<noteq> xrayConfigPath \<and> tmp \<noteq> xrayBackupPath"

lemma xray_tmp: "xray_names (xrayConfigPath @ ''.gbtmp-'' @ n)"
  by (simp add: xray_names_def xrayConfigPath_def xrayBackupPath_def in_dir_def)

lemma xrayBackup_in: "xrayBackupPath = in_dir xrayConfigDir (''config.json'' @ ''.gamebridge.bak'')"
  by (simp add: xrayBackupPath_def xrayConfigPath_def in_dir_def)

lemma xrayBackup_other: "xrayBackupPath \<noteq> xrayConfigPath" "xrayConfigPath \<noteq> xrayBackupPath"
  by (simp_all add: xrayBackupPath_def xrayConfigPath_def in_dir_def)

lemma xray_backup_result:
  assumes "\<And>p w. os_Read os p w = None" and "xray_backup os h = (r, h')"
  shows "file_at xrayConfigPath h' = file_at xrayConfigPath h \<and>
    (tmp \<noteq> xrayBackupPath \<longrightarrow> file_at tmp h' = file_at tmp h) \<and>
    (\<forall>old. r = Inr True \<and> file_at xrayConfigPath h = Some old \<longrightarrow> file_at xrayBackupPath h' = Some old) \<and>
    (r = Inr False \<longrightarrow> file_at xrayConfigPath h = None)"
  using assms(2)
  by (auto simp: xray_backup_def Stat_def ReadFile_ok [OF assms(1)] WriteFile_ok xrayBackup_other
      dest: file_WriteFile(1) [where p = xrayConfigPath] file_WriteFile(1) [where p = tmp]
      split: if_splits option.splits prod.splits)

lemma xray_restart_result:
  assumes q: "quiet os xrayConfigDir" and rd: "\<And>p w. os_Read os p w = None"
    and wr: "\<And>b w. fst (os_Write os xrayConfigPath b w) = None"
    and new: "file_at xrayConfigPath h = Some new" and res: "xray_restart os hadOld h = (r, h')"
  shows "(resp_status r = 200 \<longrightarrow> file_at xrayConfigPath h' = Some new) \<and>
    (resp_status r \<noteq> 200 \<and> hadOld \<longrightarrow>
       (\<forall>old. file_at xrayBackupPath h = Some old \<longrightarrow> file_at xrayConfigPath h' = Some old))"
proof -
  let ?h1 = "run_ignored os [''systemctl'', ''enable'', ''xray.service''] h"
  obtain out e h2 where c: "command os [''systemctl'', ''restart'', ''xray.service''] ?h1 = ((out, e), h2)"
    by (metis prod.collapse)
  have same: "file_at (in_dir xrayConfigDir n) h2 = file_at (in_dir xrayConfigDir n) h" for n
    using command_quiet [OF q c] quiet_files(2) [OF q] by simp
  show ?thesis
  proof (cases e)
    case None
    then have "r = JsonWrite 200 (JObj [(''ok'', JBool True), (''status'', fst (xrayStatus os h2))])"
      "h' = snd (xrayStatus os h2)"
      using res c by (simp_all add: xray_restart_def Let_def split_beta)
    with new same xrayStatus_file [OF q] show ?thesis by (simp add: xrayConfigPath_def)
  next
    case (Some err)
    then have r: "resp_status r = 502" and h': "h' = xray_restore os hadOld h2"
      using res c by (auto simp: xray_restart_def Let_def)
    have "file_at xrayConfigPath h' = Some old" if "hadOld" "file_at xrayBackupPath h = Some old" for old
    proof -
      have b: "file_at xrayBackupPath h2 = Some old" using same that(2) by (simp add: xrayBackup_in)
      obtain w where w: "WriteFile os xrayConfigPath old h2 = (None, w)"
        using WriteFile_succeeds wr by blast
      have "file_at xrayConfigPath w = Some old" using w by (rule file_WriteFile(2))
      then show ?thesis using that(1) b w quiet_files(2) [OF q]
        by (simp add: h' xray_restore_def ReadFile_ok [OF rd] xrayConfigPath_def)
    qed
    with r show ?thesis by simp
  qed
qed

lemma xray_replace_result:
  assumes q: "quiet os xrayConfigDir" and rd: "\<And>p w. os_Read os p w = None"
    and wr: "\<And>b w. fst (os_Write os xrayConfigPath b w) = None"
    and names: "xray_names tmp" and cfg: "file_at tmp h = Some cfg" and res: "xray_replace os bin tmp h = (r, h')"
  shows "(resp_status r = 200 \<longrightarrow> file_at xrayConfigPath h' = Some cfg) \<and>
    (resp_status r \<noteq> 200 \<longrightarrow>
       (\<forall>old. file_at xrayConfigPath h = Some old \<longrightarrow> file_at xrayConfigPath h' = Some old))"
proof -
  obtain t where t: "tmp = in_dir xrayConfigDir t" using names by (auto simp: xray_names_def)
  obtain out e h1 where c: "command os [bin, ''run'', ''-test'', ''-config'', tmp] h = ((out, e), h1)"
    by (metis prod.collapse)
  note same = command_quiet [OF q c]
  show ?thesis
  proof (cases e)
    case (Some err)
    with res c have "resp_status r = 400" "h' = h1" by (auto simp: xray_replace_def)
    with same show ?thesis by (simp add: xrayConfigPath_def)
  next
    case None
    obtain b h2 where b: "xray_backup os h1 = (b, h2)" by (cases "xray_backup os h1")
    note saved = xray_backup_result [OF rd b, of tmp]
    have c2: "file_at xrayConfigPath h2 = file_at xrayConfigPath h"
      using saved same by (simp add: xrayConfigPath_def)
    show ?thesis
    proof (cases b)
      case (Inl err)
      with None res c b have "resp_status r = 500" "h' = h2" by (auto simp: xray_replace_def)
      with c2 show ?thesis by simp
    next
      case (Inr hadOld)
      have "file_at tmp h2 = Some cfg" using saved names same cfg by (simp add: xray_names_def t)
      then have raw: "ReadFile os tmp h2 = Inr cfg" by (simp add: ReadFile_ok [OF rd])
      obtain h3 where w: "WriteFile os xrayConfigPath cfg h2 = (None, h3)"
        using WriteFile_succeeds wr by blast
      have go: "xray_restart os hadOld h3 = (r, h')" using None Inr res c b raw w by (simp add: xray_replace_def)
      have old: "file_at xrayBackupPath h3 = Some old" if "hadOld" "file_at xrayConfigPath h = Some old" for old
      proof -
        have "file_at xrayBackupPath h3 = file_at xrayBackupPath h2"
          using WriteFile_ok [OF w, of xrayBackupPath] xrayBackup_other by simp
        moreover have "file_at xrayConfigPath h1 = Some old" using same that(2) by (simp add: xrayConfigPath_def)
        ultimately show ?thesis using saved Inr that(1) by auto
      qed
      have none: "hadOld" if "file_at xrayConfigPath h = Some old" for old
      proof (rule ccontr)
        assume "\<not> hadOld"
        then have "file_at xrayConfigPath h = None" using saved Inr same by (simp add: xrayConfigPath_def)
        with that show False by simp
      qed
      show ?thesis
        using xray_restart_result [OF q rd wr file_WriteFile(2) [OF w] go] old none by blast
    qed
  qed
qed

text \<open>
  C13: A configuration is applied whole or not at all. If the answer is 200, the file holds the submitted
  configuration; with any other answer (a rejected test, a failing backup, a service that does not restart)
  a node that had a configuration has it back, unchanged. The hypotheses: the programs leave the
  directory alone and removals succeed, files can be read, and the configuration file can be written.
\<close>
theorem xray_apply_all_or_nothing:
  assumes "quiet os xrayConfigDir" and "\<And>p w. os_Read os p w = None"
    and "\<And>b w. fst (os_Write os xrayConfigPath b w) = None"
    and "file_at xrayConfigPath h = Some old" and "handleXrayApply os json_valid m (Inr cfg) h = (r, h')"
  shows "file_at xrayConfigPath h' = Some (if resp_status r = 200 then cfg @ [CHR 0x0A] else old)"
proof -
  let ?made = "MkdirAll os xrayConfigDir h"
  let ?tmp = "xrayConfigPath @ ''.gbtmp-'' @ Itoa (fst (os_Nano os (ho_rest (snd ?made))))"
  let ?h2 = "snd ?made \<lparr>ho_rest := snd (os_Nano os (ho_rest (snd ?made)))\<rparr>"
  let ?written = "WriteFile os ?tmp (cfg @ [CHR 0x0A]) ?h2"
  let ?run = "xray_replace os (xrayBinary os h) ?tmp (snd ?written)"
  have made: "file_at xrayConfigPath (snd ?made) = Some old"
    using assms(4) file_MkdirAll [of os xrayConfigDir h] by (metis prod.collapse)
  have ne: "xrayConfigPath \<noteq> ?tmp" by simp
  have kept: "file_at xrayConfigPath (snd ?written) = Some old"
    using made file_WriteFile(1) [OF prod.collapse [symmetric] ne, of os "cfg @ [CHR 0x0A]" ?h2] by simp
  consider (refused) "h' = h" "resp_status r \<noteq> 200"
    | (going) "(r, h') = (case fst ?made of
          Some e \<Rightarrow> (JsonError 500 (err_msg e), snd ?made)
        | None \<Rightarrow> (case fst ?written of
                    Some e \<Rightarrow> (JsonError 500 (err_msg e), snd ?written)
                  | None \<Rightarrow> (fst ?run, RemoveFile os ?tmp (snd ?run))))"
  proof (cases "m \<noteq> ''POST'' \<or> xrayBinary os h = [] \<or> cfg = [] \<or> \<not> json_valid cfg")
    case True
    then show thesis using assms(5) refused by (auto simp: handleXrayApply_def Let_def split: if_splits)
  next
    case False
    show thesis
      by (rule going, subst assms(5) [symmetric])
        (use False in \<open>simp add: handleXrayApply_def Let_def split_beta cong: option.case_cong\<close>)
  qed
  then consider (same) "h' = h \<or> h' = snd ?made \<or> h' = snd ?written" "resp_status r \<noteq> 200"
    | (ran) "fst ?written = None" "r = fst ?run" "h' = RemoveFile os ?tmp (snd ?run)"
    by cases (auto split: option.splits)
  then show ?thesis
  proof cases
    case ran
    have "file_at ?tmp (snd ?written) = Some (cfg @ [CHR 0x0A])"
      using ran(1) file_WriteFile(2) [of os ?tmp _ ?h2] by (metis prod.collapse)
    from xray_replace_result [OF assms(1-3) xray_tmp this prod.collapse [symmetric]]
    have "file_at xrayConfigPath (snd ?run) = Some (if resp_status r = 200 then cfg @ [CHR 0x0A] else old)"
      using kept ran(2) by auto
    with ran(3) show ?thesis by (simp add: file_RemoveFile)
  qed (use assms(4) made kept in auto)
qed

definition sample_xray_host :: "unit host" where
  "sample_xray_host = \<lparr>ho_files = [(xrayConfigPath, ''old'')], ho_rest = ()\<rparr>"

text \<open>A machine on which the service does not restart.\<close>

definition failing_os :: "unit os" where
  "failing_os =
     sample_os\<lparr>os_Run := \<lambda>args _ h. (([], if ''restart'' \<in> set args then Some (Plain ''exit status 1'') else None), h)\<rparr>"

theorem xray_apply_all_or_nothing_witness:
  "\<exists>r h'. handleXrayApply failing_os (\<lambda>_. True) ''POST'' (Inr ''{}'') sample_xray_host = (r, h') \<and>
     file_at xrayConfigPath h' = Some (if resp_status r = 200 then ''{}'' @ [CHR 0x0A] else ''old'')"
proof -
  obtain r h' where run: "handleXrayApply failing_os (\<lambda>_. True) ''POST'' (Inr ''{}'') sample_xray_host = (r, h')"
    by (metis prod.collapse)
  have "quiet failing_os xrayConfigDir" by (simp add: quiet_def failing_os_def sample_os_def)
  moreover have "os_Read failing_os p w = None" "fst (os_Write failing_os xrayConfigPath b w) = None" for p b w
    by (simp_all add: failing_os_def sample_os_def)
  moreover have "file_at xrayConfigPath sample_xray_host = Some ''old''" by (simp add: sample_xray_host_def file_at_def)
  ultimately show ?thesis using xray_apply_all_or_nothing [OF _ _ _ _ run] run by blast
qed

section \<open>Counters and probes\<close>

text \<open>The emails of the reply in the order they are first seen, and the values of one counter.\<close>

definition stat_emails :: "(string \<times> json option) list \<Rightarrow> string list" where
  "stat_emails stats = rev (remdups (rev (List.map_filter (\<lambda>st. map_option fst (stat_key (fst st))) stats)))"

definition stat_values :: "string \<Rightarrow> string \<Rightarrow> (string \<times> json option) list \<Rightarrow> int list" where
  "stat_values email dir stats =
     map (parseXrayStatValue \<circ> snd) (filter (\<lambda>st. stat_key (fst st) = Some (email, dir)) stats)"

definition stat_totals :: "(string \<times> json option) list \<Rightarrow> normalizedXrayStat list" where
  "stat_totals stats =
     map (\<lambda>e. \<lparr>nx_Email = e, nx_Uplink = int64 (sum_list (stat_values e ''uplink'' stats)),
                nx_Downlink = int64 (sum_list (stat_values e ''downlink'' stats))\<rparr>) (stat_emails stats)"

lemma int64_add: "int64 (int64 a + b) = int64 (a + b)"
  unfolding int64_def by (metis signed_take_bit_add signed_take_bit_signed_take_bit min.idem)

lemma stat_emails_snoc:
  "stat_emails (stats @ [st]) =
     (case stat_key (fst st) of
        None \<Rightarrow> stat_emails stats
      | Some (e, d) \<Rightarrow> if e \<in> set (stat_emails stats) then stat_emails stats else stat_emails stats @ [e])"
  by (auto simp: stat_emails_def List.map_filter_def split: option.split)

lemma stat_values_snoc:
  "stat_values e d (stats @ [st]) =
     stat_values e d stats @ (if stat_key (fst st) = Some (e, d) then [parseXrayStatValue (snd st)] else [])"
  by (simp add: stat_values_def)

lemma distinct_emails: "distinct (stat_emails stats)"
  by (simp add: stat_emails_def)

lemma stat_values_new: "e \<notin> set (stat_emails stats) \<Longrightarrow> stat_values e d stats = []"
  by (force simp: stat_emails_def stat_values_def List.map_filter_def filter_empty_conv)

lemma upd_first_map:
  "distinct es \<Longrightarrow> (\<And>e. nm (g e) = e) \<Longrightarrow>
   upd_first (\<lambda>x. nm x = k) f (map g es) = map (\<lambda>e. if e = k then f (g e) else g e) es"
  by (induction es) auto

lemma add_stat_totals: "add_stat st (stat_totals stats) = stat_totals (stats @ [st])"
proof (cases "stat_key (fst st)")
  case None
  then show ?thesis by (simp add: add_stat_def stat_totals_def stat_emails_snoc stat_values_snoc)
next
  case (Some ed)
  obtain e d where ed: "ed = (e, d)" by (cases ed)
  let ?g = "\<lambda>e. \<lparr>nx_Email = e, nx_Uplink = int64 (sum_list (stat_values e ''uplink'' stats)),
                nx_Downlink = int64 (sum_list (stat_values e ''downlink'' stats))\<rparr>"
  let ?es = "if e \<in> set (stat_emails stats) then stat_emails stats else stat_emails stats @ [e]"
  have names: "nx_Email \<circ> ?g = id" by (simp add: fun_eq_iff)
  have zero: "?g e = \<lparr>nx_Email = e, nx_Uplink = 0, nx_Downlink = 0\<rparr>" if "e \<notin> set (stat_emails stats)"
    using stat_values_new [OF that] by (simp add: int64_def)
  have "add_stat st (stat_totals stats) =
      upd_first (\<lambda>x. nx_Email x = e) (count_stat d (parseXrayStatValue (snd st))) (map ?g ?es)"
    using zero by (simp add: add_stat_def Some ed stat_totals_def names Let_def)
  also have "\<dots> = map (\<lambda>x. if x = e then count_stat d (parseXrayStatValue (snd st)) (?g x) else ?g x) ?es"
    by (rule upd_first_map) (simp_all add: distinct_emails)
  also have "\<dots> = stat_totals (stats @ [st])"
    by (simp add: stat_totals_def stat_emails_snoc Some ed stat_values_snoc count_stat_def int64_add)
  finally show ?thesis .
qed

text \<open>
  C39: The traffic reported per user is the sum of that user's counters. For every reply of Xray, in any
  order and with any other entries in between, there is one row per email, in the order the emails are
  first seen, whose uplink and downlink are the sums of the values of the counters of that email and
  direction, in the arithmetic of int64.
\<close>
theorem xray_stats_totals: "normalizeXrayUserStats stats = stat_totals stats"
proof (induction stats rule: rev_induct)
  case Nil
  show ?case by (simp add: normalizeXrayUserStats_def stat_totals_def stat_emails_def List.map_filter_def)
next
  case (snoc st stats)
  then show ?case by (simp add: normalizeXrayUserStats_def add_stat_totals)
qed

text \<open>The ports the panel assigns to its probes are the ports the agent accepts.\<close>

lemma probe_ports_accepted:
  assumes "buildOutboundHealthProbes st nodeID = Inr ps" and "p \<in> set ps"
  shows "validateOutboundHealthPort (hp_Port p) = None"
  using assms assign_ports_Inr [of "usedPorts st nodeID" outboundHealthPortMin "probe_candidates st nodeID" ps]
  by (auto simp: buildOutboundHealthProbes_def validateOutboundHealthPort_def port_defs agentHealthPortMin_def
      agentHealthPortMax_def)

lemma bounded_probe_error: "length (boundedProbeError e) \<le> 512"
  by (simp add: boundedProbeError_def Let_def split: option.split)

end
