(* ===== verification/TorAgent.thy ===== *)
theory TorAgent
  imports Managed
begin

text \<open>
  The managed Tor outbounds of a node, src/internal/agent/tor_outbound.go: the checked specification,
  the files and the unit of one outbound, applying and removing it, the synchronisation with the
  panel's request, and the two handlers. The JSON codec of the standard library is os_Marshal for
  what the agent writes and the argument unmarshal for what it reads.
\<close>

definition managedTorOutboundDir :: string where
  "managedTorOutboundDir = ''/etc/gamebridge/tor-outbounds''"

definition managedTorDataDir :: string where
  "managedTorDataDir = ''/var/lib/gamebridge/tor-outbounds''"

definition systemd_dir :: string where
  "systemd_dir = ''/etc/systemd/system''"

record TorOutboundSpec =
  to_Name :: string
  to_SocksPort :: int

record torOutboundStatus =
  tos_Name :: string
  tos_SocksPort :: int
  tos_Running :: bool

section \<open>Names and files\<close>

definition safeTorName :: "string \<Rightarrow> go_error + string" where
  "safeTorName name =
     (let n = TrimSpace name in
      if \<not> safe_component n then Inl (Plain ''invalid Tor outbound name'') else Inr (path_Base n))"

definition normalizeTorOutboundSpec :: "TorOutboundSpec \<Rightarrow> go_error + TorOutboundSpec" where
  "normalizeTorOutboundSpec x =
     (case safeTorName (to_Name x) of
        Inl e \<Rightarrow> Inl e
      | Inr n \<Rightarrow>
          if to_SocksPort x < 1024 \<or> 65535 < to_SocksPort x
            then Inl (Plain ''tor SOCKS port must be between 1024 and 65535'')
          else Inr (x\<lparr>to_Name := n\<rparr>))"

definition torConfigPath :: "string \<Rightarrow> go_error + string" where
  "torConfigPath name = bind_sum (safeTorName name) (\<lambda>n. Inr (in_dir managedTorOutboundDir (n @ ''.torrc'')))"

definition torMarkerPath :: "string \<Rightarrow> go_error + string" where
  "torMarkerPath name = bind_sum (safeTorName name) (\<lambda>n. Inr (in_dir managedTorOutboundDir (n @ ''.json'')))"

definition torDataPath :: "string \<Rightarrow> go_error + string" where
  "torDataPath name = bind_sum (safeTorName name) (\<lambda>n. Inr (in_dir managedTorDataDir n))"

definition torUnitName :: "string \<Rightarrow> go_error + string" where
  "torUnitName name = bind_sum (safeTorName name) (\<lambda>n. Inr (''gamebridge-tor-'' @ n @ ''.service''))"

definition torUnitPath :: "string \<Rightarrow> go_error + string" where
  "torUnitPath name = bind_sum (torUnitName name) (\<lambda>u. Inr (in_dir systemd_dir u))"

definition renderTorConfig :: "TorOutboundSpec \<Rightarrow> string \<Rightarrow> string" where
  "renderTorConfig x dataDir =
     text_lines
       [''ClientOnly 1'', ''SocksPort 127.0.0.1:'' @ Itoa (to_SocksPort x) @ '' IsolateSOCKSAuth'',
        ''DataDirectory '' @ dataDir, ''AvoidDiskWrites 1'']"

definition renderTorUnit :: "string \<Rightarrow> string \<Rightarrow> string \<Rightarrow> string" where
  "renderTorUnit torBinary configPath dataDir =
     text_lines
       [''[Unit]'', ''Description=GameBridge managed Tor outbound'', ''After=network-online.target'',
        ''Wants=network-online.target'', [], ''[Service]'', ''Type=simple'',
        ''ExecStart='' @ torBinary @ '' -f '' @ configPath, ''Restart=on-failure'', ''RestartSec=3'',
        ''NoNewPrivileges=true'', ''PrivateTmp=true'', ''ProtectHome=true'', ''ProtectSystem=strict'',
        ''ReadWritePaths='' @ dataDir, ''ReadOnlyPaths='' @ configPath, [], ''[Install]'',
        ''WantedBy=multi-user.target'']"

definition tor_meta :: "TorOutboundSpec \<Rightarrow> json" where
  "tor_meta x = JObj [(''name'', JStr (to_Name x)), (''socks_port'', JInt (to_SocksPort x))]"

section \<open>Applying and removing one outbound\<close>

definition torSOCKSReady :: "'h os \<Rightarrow> int \<Rightarrow> 'h host \<Rightarrow> bool \<times> 'h host" where
  "torSOCKSReady os port h = (case os_Dial os port (ho_rest h) of (ok, w) \<Rightarrow> (ok, h\<lparr>ho_rest := w\<rparr>))"

definition tor_wait :: "'h os \<Rightarrow> TorOutboundSpec \<Rightarrow> 'h host \<Rightarrow> go_error option \<times> 'h host" where
  "tor_wait os x h =
     (case wait_ready (torSOCKSReady os (to_SocksPort x)) os 12 h of
        (True, h') \<Rightarrow> (None, h')
      | (False, h') \<Rightarrow>
          (Some (Plain (''tor outbound '' @ to_Name x @ '' did not open SOCKS port '' @ Itoa (to_SocksPort x))), h'))"

definition tor_start :: "'h os \<Rightarrow> TorOutboundSpec \<Rightarrow> string \<Rightarrow> 'h host \<Rightarrow> go_error option \<times> 'h host" where
  "tor_start os x unitName =
     attempts [run os [''systemctl'', ''daemon-reload''], run os [''systemctl'', ''enable'', unitName],
               run os [''systemctl'', ''restart'', unitName]]
       (tor_wait os x)"

definition tor_install ::
  "'h os \<Rightarrow> TorOutboundSpec \<Rightarrow> string \<Rightarrow> string \<Rightarrow> string \<Rightarrow> string \<Rightarrow> string \<Rightarrow> string \<Rightarrow>
   'h host \<Rightarrow> go_error option \<times> 'h host" where
  "tor_install os x torBinary configPath markerPath dataDir unitPath unitName =
     attempts
       [MkdirAll os managedTorOutboundDir, MkdirAll os dataDir,
        WriteFile os configPath (renderTorConfig x dataDir),
        WriteFile os unitPath (renderTorUnit torBinary configPath dataDir),
        WriteFile os markerPath (os_Marshal os (tor_meta x))]
       (tor_start os x unitName)"

definition applyManagedTorOutbound :: "'h os \<Rightarrow> TorOutboundSpec \<Rightarrow> 'h host \<Rightarrow> go_error option \<times> 'h host" where
  "applyManagedTorOutbound os raw =
     need (normalizeTorOutboundSpec raw) (\<lambda>x h.
       (case os_LookPath os ''tor'' h of
          None \<Rightarrow> (Some (Plain ''tor binary not found on node''), h)
        | Some torBinary \<Rightarrow>
            need (torConfigPath (to_Name x)) (\<lambda>configPath.
            need (torMarkerPath (to_Name x)) (\<lambda>markerPath.
            need (torDataPath (to_Name x)) (\<lambda>dataDir.
            need (torUnitPath (to_Name x)) (\<lambda>unitPath.
            need (torUnitName (to_Name x)) (\<lambda>unitName.
              tor_install os x torBinary configPath markerPath dataDir unitPath unitName))))) h))"

text \<open>The paths of a name the check accepts; the function returns at once for another.\<close>

definition removeManagedTorOutbound :: "'h os \<Rightarrow> string \<Rightarrow> 'h host \<Rightarrow> 'h host" where
  "removeManagedTorOutbound os name h =
     (case safeTorName name of
        Inl _ \<Rightarrow> h
      | Inr safe \<Rightarrow>
     (case torUnitName safe of Inl _ \<Rightarrow> h | Inr unitName \<Rightarrow>
     (case torUnitPath safe of Inl _ \<Rightarrow> h | Inr unitPath \<Rightarrow>
     (case torConfigPath safe of Inl _ \<Rightarrow> h | Inr configPath \<Rightarrow>
     (case torMarkerPath safe of Inl _ \<Rightarrow> h | Inr markerPath \<Rightarrow>
     (case torDataPath safe of Inl _ \<Rightarrow> h | Inr dataDir \<Rightarrow>
        let h1 = run_ignored os [''systemctl'', ''disable'', ''--now'', unitName] h;
            h2 = RemoveFile os unitPath h1;
            h3 = RemoveFile os configPath h2;
            h4 = RemoveFile os markerPath h3;
            h5 = RemoveTree os dataDir h4
        in run_ignored os [''systemctl'', ''daemon-reload''] h5))))))"

section \<open>The synchronisation\<close>

definition tor_clash :: "TorOutboundSpec list \<Rightarrow> TorOutboundSpec \<Rightarrow> go_error option" where
  "tor_clash seen x =
     (if to_Name x \<in> set (map to_Name seen) then Some (Plain (''duplicate Tor outbound name '' @ to_Name x))
      else if to_SocksPort x \<in> set (map to_SocksPort seen)
        then Some (Plain (''duplicate Tor SOCKS port '' @ Itoa (to_SocksPort x)))
      else None)"

definition tor_what :: "TorOutboundSpec \<Rightarrow> string" where
  "tor_what x = ''Tor outbound '' @ to_Name x"

definition syncManagedTorOutbounds ::
  "'h os \<Rightarrow> TorOutboundSpec list \<Rightarrow> 'h host \<Rightarrow> go_error option \<times> 'h host" where
  "syncManagedTorOutbounds os specs h =
     sync_managed normalizeTorOutboundSpec tor_clash to_Name tor_what (applyManagedTorOutbound os)
       (removeManagedTorOutbound os) managedTorOutboundDir specs h"

fun list_tor ::
  "'h os \<Rightarrow> (string \<Rightarrow> TorOutboundSpec option) \<Rightarrow> string list \<Rightarrow> 'h host \<Rightarrow> torOutboundStatus list \<times> 'h host" where
  "list_tor os unmarshal [] h = ([], h)"
| "list_tor os unmarshal (m # ms) h =
     (case ReadFile os m h of
        Inl _ \<Rightarrow> list_tor os unmarshal ms h
      | Inr b \<Rightarrow>
          (case unmarshal b of
             None \<Rightarrow> list_tor os unmarshal ms h
           | Some spec \<Rightarrow>
               (case normalizeTorOutboundSpec spec of
                  Inl _ \<Rightarrow> list_tor os unmarshal ms h
                | Inr _ \<Rightarrow>
                    (case torSOCKSReady os (to_SocksPort spec) h of
                       (running, h1) \<Rightarrow>
                         (case list_tor os unmarshal ms h1 of
                            (out, h2) \<Rightarrow>
                              (\<lparr>tos_Name = to_Name spec, tos_SocksPort = to_SocksPort spec,
                                tos_Running = running\<rparr> # out, h2))))))"

definition listManagedTorOutbounds ::
  "'h os \<Rightarrow> (string \<Rightarrow> TorOutboundSpec option) \<Rightarrow> 'h host \<Rightarrow> torOutboundStatus list \<times> 'h host" where
  "listManagedTorOutbounds os unmarshal h = list_tor os unmarshal (glob managedTorOutboundDir ''.json'' h) h"

section \<open>The handlers\<close>

datatype tor_payload = TorSynced nat | TorStatus bool "torOutboundStatus list"

definition handleTorOutboundSync ::
  "'h os \<Rightarrow> string \<Rightarrow> go_error + TorOutboundSpec list \<Rightarrow> 'h host \<Rightarrow> tor_payload response \<times> 'h host" where
  "handleTorOutboundSync os m body h =
     (if m \<noteq> ''POST'' then (JsonError 405 ''method not allowed'', h)
      else (case body of
        Inl e \<Rightarrow> (JsonError 400 (err_msg e), h)
      | Inr specs \<Rightarrow>
          (case syncManagedTorOutbounds os specs h of
             (Some e, h') \<Rightarrow> (JsonError 400 (err_msg e), h')
           | (None, h') \<Rightarrow> (JsonWrite 200 (TorSynced (length specs)), h'))))"

definition handleTorStatus ::
  "'h os \<Rightarrow> (string \<Rightarrow> TorOutboundSpec option) \<Rightarrow> string \<Rightarrow> 'h host \<Rightarrow> tor_payload response \<times> 'h host" where
  "handleTorStatus os unmarshal m h =
     (if m \<noteq> ''GET'' then (JsonError 405 ''method not allowed'', h)
      else (case listManagedTorOutbounds os unmarshal h of
              (out, h') \<Rightarrow> (JsonWrite 200 (TorStatus (os_LookPath os ''tor'' h \<noteq> None) out), h')))"

section \<open>Lemmas\<close>

lemma safeTorName_eq:
  "safeTorName name =
     (if safe_component (TrimSpace name) then Inr (TrimSpace name) else Inl (Plain ''invalid Tor outbound name''))"
  by (simp add: safeTorName_def safe_component_def Let_def)

lemma normalizeTor_Inr:
  "normalizeTorOutboundSpec s = Inr x \<longleftrightarrow>
   x = s\<lparr>to_Name := TrimSpace (to_Name s)\<rparr> \<and> safe_component (TrimSpace (to_Name s)) \<and>
   1024 \<le> to_SocksPort s \<and> to_SocksPort s \<le> 65535"
  by (auto simp: normalizeTorOutboundSpec_def safeTorName_eq)

lemma normalizeTor_idem: "normalizeTorOutboundSpec s = Inr x \<Longrightarrow> normalizeTorOutboundSpec x = Inr x"
  by (simp add: normalizeTor_Inr)

lemma tor_paths:
  assumes "safe_component n"
  shows "torConfigPath n = Inr (in_dir managedTorOutboundDir (n @ ''.torrc''))"
    "torMarkerPath n = Inr (marker managedTorOutboundDir n)"
    "torDataPath n = Inr (in_dir managedTorDataDir n)"
    "torUnitName n = Inr (''gamebridge-tor-'' @ n @ ''.service'')"
    "torUnitPath n = Inr (in_dir systemd_dir (''gamebridge-tor-'' @ n @ ''.service''))"
  using assms
  by (simp_all add: torConfigPath_def torMarkerPath_def torDataPath_def torUnitName_def torUnitPath_def
      safeTorName_eq marker_def)

text \<open>None of the other files an outbound has is a marker.\<close>

lemma tor_not_marker:
  "marker managedTorOutboundDir m \<noteq> in_dir managedTorOutboundDir (n @ ''.torrc'')"
  "marker managedTorOutboundDir m \<noteq> in_dir systemd_dir u"
  "marker managedTorOutboundDir m \<noteq> in_dir managedTorDataDir u"
  "\<not> HasPrefix (marker managedTorOutboundDir m) (in_dir managedTorDataDir u @ ''/'')"
proof -
  have "rev (m @ ''.json'') \<noteq> rev (n @ ''.torrc'')" by simp
  then show "marker managedTorOutboundDir m \<noteq> in_dir managedTorOutboundDir (n @ ''.torrc'')"
    unfolding marker_def in_dir_def by (metis append_same_eq same_append_eq)
qed (simp_all add: marker_def in_dir_def managedTorOutboundDir_def systemd_dir_def managedTorDataDir_def
    HasPrefix_append)

text \<open>The function either reports that there is no binary, or installs the outbound's own files.\<close>

lemma tor_applied:
  assumes "normalizeTorOutboundSpec s = Inr x"
  obtains e where "applyManagedTorOutbound os x h = (Some e, h)"
  | b u v d where "applyManagedTorOutbound os x h =
      tor_install os x b (in_dir managedTorOutboundDir (to_Name x @ ''.torrc''))
        (marker managedTorOutboundDir (to_Name x)) d (in_dir systemd_dir v) u h"
proof -
  from assms have x: "safe_component (to_Name x)"
    by (simp add: normalizeTor_Inr)
  show thesis
  proof (cases "os_LookPath os ''tor'' h")
    case None
    then show thesis
      using that(1) by (simp add: applyManagedTorOutbound_def need_def normalizeTor_idem [OF assms])
  next
    case (Some b)
    then show thesis
      using that(2) by (simp add: applyManagedTorOutbound_def need_def normalizeTor_idem [OF assms] tor_paths [OF x])
  qed
qed

lemma spares_tor_start:
  assumes "quiet os dir"
  shows "spares (in_dir dir n) (tor_start os x u)"
proof -
  have "file_at (in_dir dir n) (snd (torSOCKSReady os p h)) = file_at (in_dir dir n) h" for p h
    by (simp add: torSOCKSReady_def split: prod.split)
  then have "file_at (in_dir dir n) (snd (wait_ready (torSOCKSReady os p) os k h)) = file_at (in_dir dir n) h" for p k h
    by (rule spares_wait_ready)
  moreover have "file_at p (snd (tor_wait os x h)) =
      file_at p (snd (wait_ready (torSOCKSReady os (to_SocksPort x)) os 12 h))" for p h
    by (simp add: tor_wait_def split: prod.split bool.split)
  ultimately have "spares (in_dir dir n) (tor_wait os x)" by (simp add: spares_def)
  with assms show ?thesis unfolding tor_start_def by (auto intro!: spare_intros)
qed

lemma tor_install_leaves:
  assumes "spares p (tor_start os x u)"
  shows "leaves p (tor_install os x b c p d up u)"
  unfolding tor_install_def attempts.simps
  by (rule leaves_later leaves_attempt [OF leaves_WriteFile assms])+

lemma tor_install_spares:
  assumes "spares p (tor_start os x u)" and "p \<noteq> c" and "p \<noteq> m" and "p \<noteq> up"
  shows "spares p (tor_install os x b c m d up u)"
  unfolding tor_install_def using assms by (auto intro!: spare_intros)

lemma tor_app_leaves:
  assumes q: "quiet os managedTorOutboundDir" and s: "normalizeTorOutboundSpec s = Inr x"
  shows "leaves (marker managedTorOutboundDir (to_Name x)) (applyManagedTorOutbound os x)"
proof -
  have "spares (marker managedTorOutboundDir (to_Name x)) (tor_start os x u)" for u
    unfolding marker_def by (rule spares_tor_start [OF q])
  then show ?thesis
    by (intro leaves_cases) (metis s tor_applied tor_install_leaves)
qed

lemma tor_app_spares:
  assumes q: "quiet os managedTorOutboundDir" and s: "normalizeTorOutboundSpec s = Inr x" and n: "n \<noteq> to_Name x"
  shows "spares (marker managedTorOutboundDir n) (applyManagedTorOutbound os x)"
proof -
  have "spares (marker managedTorOutboundDir n) (tor_start os x u)" for u
    unfolding marker_def by (rule spares_tor_start [OF q])
  then have "spares (marker managedTorOutboundDir n)
      (tor_install os x b (in_dir managedTorOutboundDir (to_Name x @ ''.torrc''))
           (marker managedTorOutboundDir (to_Name x)) d (in_dir systemd_dir v) u)" for b d u v
    using n by (intro tor_install_spares) (simp_all add: tor_not_marker)
  then show ?thesis
    by (intro spares_cases) (metis s tor_applied)
qed

lemma tor_removed:
  assumes q: "quiet os managedTorOutboundDir" and "safe_component n"
  shows "file_at (marker managedTorOutboundDir m) (removeManagedTorOutbound os n h) =
    (if m = n then None else file_at (marker managedTorOutboundDir m) h)"
proof -
  have quiet_run: "file_at (marker managedTorOutboundDir m) (run_ignored os args h) =
      file_at (marker managedTorOutboundDir m) h" for args h
    unfolding marker_def by (rule run_ignored_file [OF q])
  show ?thesis
    by (simp add: removeManagedTorOutbound_def safeTorName_eq assms tor_paths Let_def quiet_run tor_not_marker
        file_RemoveTree file_RemoveFile file_Remove_marker [OF q])
qed

interpretation tor: managed normalizeTorOutboundSpec tor_clash to_Name tor_what "applyManagedTorOutbound os"
  "removeManagedTorOutbound os" managedTorOutboundDir safe_component
  "quiet os managedTorOutboundDir" for os
proof
  show "safe_component (to_Name x)" if "normalizeTorOutboundSpec s = Inr x" "applyManagedTorOutbound os x h = (None, h')"
    for s x h h'
    using that by (simp add: normalizeTor_Inr)
  show "to_Name x \<notin> to_Name ` set acc" if "tor_clash acc x = None" for acc x
    using that by (auto simp: tor_clash_def split: if_splits)
qed (simp_all add: tor_app_leaves tor_app_spares tor_removed)

section \<open>Properties\<close>

text \<open>
  C14: A synchronisation of the Tor outbounds that succeeds leaves exactly the markers of its request:
  an outbound is managed afterwards if and only if the request names it, and no two of the request share
  a name. The hypotheses are that the programs the agent starts leave the directory of the markers alone,
  that removals do not fail, and that the markers found were written for safe names, as the ones left are.
\<close>
theorem tor_sync_exact:
  assumes "quiet os managedTorOutboundDir" and "markers_ok safe_component managedTorOutboundDir h"
    and "syncManagedTorOutbounds os specs h = (None, h')"
  shows "set (marker_names managedTorOutboundDir h') = (\<lambda>s. TrimSpace (to_Name s)) ` set specs \<and>
    distinct (map (\<lambda>s. TrimSpace (to_Name s)) specs) \<and> markers_ok safe_component managedTorOutboundDir h'"
proof -
  obtain xs where xs: "list_all2 (\<lambda>s x. normalizeTorOutboundSpec s = Inr x) specs xs"
      "distinct (map to_Name xs)" "set (marker_names managedTorOutboundDir h') = set (map to_Name xs)"
      "markers_ok safe_component managedTorOutboundDir h'"
    using tor.sync_exact [OF assms(1,2) assms(3) [unfolded syncManagedTorOutbounds_def]] by blast
  from xs(1) have "map to_Name xs = map (\<lambda>s. TrimSpace (to_Name s)) specs"
    by (induction rule: list_all2_induct) (simp_all add: normalizeTor_Inr)
  with xs show ?thesis by (metis image_set)
qed

definition sample_tor_host :: "unit host" where
  "sample_tor_host = sample_host [''/etc/hosts'', marker managedTorOutboundDir ''old'']"

definition sample_tor_specs :: "TorOutboundSpec list" where
  "sample_tor_specs = [\<lparr>to_Name = '' de-1 '', to_SocksPort = 9050\<rparr>]"

theorem tor_sync_exact_witness:
  "marker_names managedTorOutboundDir sample_tor_host = [''old''] \<and>
   set (marker_names managedTorOutboundDir
     (snd (syncManagedTorOutbounds sample_os sample_tor_specs sample_tor_host))) = {''de-1''}"
proof -
  have old: "marker_names managedTorOutboundDir sample_tor_host = [''old'']" by code_simp
  have ok: "markers_ok safe_component managedTorOutboundDir sample_tor_host" by code_simp
  have norm: "normalizeTorOutboundSpec \<lparr>to_Name = '' de-1 '', to_SocksPort = 9050\<rparr> =
      Inr \<lparr>to_Name = ''de-1'', to_SocksPort = 9050\<rparr>" by code_simp
  have safe: "safe_component ''de-1''" by code_simp
  have "\<exists>h'. applyManagedTorOutbound sample_os \<lparr>to_Name = ''de-1'', to_SocksPort = 9050\<rparr> h = (None, h')" for h
    by (simp add: applyManagedTorOutbound_def need_def normalizeTor_idem [OF norm]
        tor_paths [OF safe] tor_install_def tor_start_def tor_wait_def
        numeral_eq_Suc torSOCKSReady_def)
  then have "fst (syncManagedTorOutbounds sample_os sample_tor_specs sample_tor_host) = None"
    by (auto simp: syncManagedTorOutbounds_def sync_managed_def sample_tor_specs_def norm tor_clash_def
        split: prod.split option.split) (metis option.distinct(1) prod.inject)
  then have "syncManagedTorOutbounds sample_os sample_tor_specs sample_tor_host =
      (None, snd (syncManagedTorOutbounds sample_os sample_tor_specs sample_tor_host))"
    by (metis prod.collapse)
  note sync = tor_sync_exact [OF sample_os_quiet ok this]
  have "(\<lambda>s. TrimSpace (to_Name s)) ` set sample_tor_specs = {''de-1''}" by code_simp
  with old sync show ?thesis by simp
qed

end
