(* ===== verification/WireGuardAgent.thy ===== *)
theory WireGuardAgent
  imports Managed
begin

text \<open>
  The managed WireGuard outbounds of a node, src/internal/agent/wireguard_outbound.go: the checked
  specification and the configuration it becomes, applying and removing an interface, the
  synchronisation with the panel's request, and its handler.
\<close>

definition managedWGOutboundDir :: string where
  "managedWGOutboundDir = ''/etc/gamebridge/wireguard-outbounds''"

record WGOutboundSpec =
  wo_Interface :: string
  wo_Address :: string
  wo_PrivateKey :: string
  wo_PeerPublicKey :: string
  wo_Endpoint :: string
  wo_AllowedIPs :: "string list"
  wo_PersistentKeepalive :: int
  wo_MTU :: int

section \<open>The specification\<close>

text \<open>net.SplitHostPort: the host, and what follows the last colon.\<close>

definition SplitHostPort :: "string \<Rightarrow> (string \<times> string) option" where
  "SplitHostPort hp =
     map_option (\<lambda>h. (h, case last_index (CHR '':'') hp of None \<Rightarrow> [] | Some i \<Rightarrow> drop (i + 1) hp)) (split_host hp)"

definition trim_wg :: "WGOutboundSpec \<Rightarrow> WGOutboundSpec" where
  "trim_wg x =
     x\<lparr>wo_Interface := TrimSpace (wo_Interface x), wo_Address := TrimSpace (wo_Address x),
       wo_PrivateKey := TrimSpace (wo_PrivateKey x), wo_PeerPublicKey := TrimSpace (wo_PeerPublicKey x),
       wo_Endpoint := TrimSpace (wo_Endpoint x), wo_AllowedIPs := map TrimSpace (wo_AllowedIPs x)\<rparr>"

definition endpoint_ok :: "string \<Rightarrow> bool" where
  "endpoint_ok e =
     (case SplitHostPort e of
        None \<Rightarrow> False
      | Some (host, port) \<Rightarrow> TrimSpace host \<noteq> [] \<and> TrimSpace port \<noteq> [])"

fun bad_cidr :: "string list \<Rightarrow> string option" where
  "bad_cidr [] = None"
| "bad_cidr (c # cs) = (if CIDR_ok c then bad_cidr cs else Some c)"

definition wg_numbers :: "WGOutboundSpec \<Rightarrow> go_error + WGOutboundSpec" where
  "wg_numbers x =
     (let x1 = (if wo_PersistentKeepalive x = 0 then x\<lparr>wo_PersistentKeepalive := 25\<rparr> else x) in
      if wo_PersistentKeepalive x1 < 0 \<or> 65535 < wo_PersistentKeepalive x1
        then Inl (Plain ''invalid WireGuard keepalive'')
      else
        let x2 = (if wo_MTU x1 = 0 then x1\<lparr>wo_MTU := 1420\<rparr> else x1) in
        if wo_MTU x2 < 576 \<or> 9000 < wo_MTU x2 then Inl (Plain ''invalid WireGuard MTU'') else Inr x2)"

definition normalizeWGOutboundSpec :: "WGOutboundSpec \<Rightarrow> go_error + WGOutboundSpec" where
  "normalizeWGOutboundSpec raw =
     (let x = trim_wg raw in
      if \<not> safeName (wo_Interface x) \<or> 15 < length (wo_Interface x)
        then Inl (Plain ''invalid WireGuard outbound interface'')
      else if \<not> CIDR_ok (wo_Address x) then Inl (Plain ''invalid WireGuard outbound address'')
      else if wo_PrivateKey x = [] \<or> wo_PeerPublicKey x = []
        then Inl (Plain ''WireGuard private_key and peer_public_key are required'')
      else if \<not> endpoint_ok (wo_Endpoint x) then Inl (Plain ''invalid WireGuard endpoint'')
      else
        let x1 = (if wo_AllowedIPs x = [] then x\<lparr>wo_AllowedIPs := [''0.0.0.0/0'', ''::/0'']\<rparr> else x) in
        (case bad_cidr (wo_AllowedIPs x1) of
           Some c \<Rightarrow> Inl (Plain (''invalid WireGuard allowed IP '' @ Quote c))
         | None \<Rightarrow> wg_numbers x1))"

definition renderWGOutboundConfig :: "WGOutboundSpec \<Rightarrow> string" where
  "renderWGOutboundConfig x =
     text_lines
       [''[Interface]'', ''Address = '' @ wo_Address x, ''PrivateKey = '' @ wo_PrivateKey x,
        ''MTU = '' @ Itoa (wo_MTU x), ''Table = off'', [],
        ''[Peer]'', ''PublicKey = '' @ wo_PeerPublicKey x, ''Endpoint = '' @ wo_Endpoint x,
        ''AllowedIPs = '' @ JoinStrings (wo_AllowedIPs x) '', '',
        ''PersistentKeepalive = '' @ Itoa (wo_PersistentKeepalive x)]"

section \<open>Files\<close>

definition safeWGPathComponent :: "string \<Rightarrow> go_error + string" where
  "safeWGPathComponent iface =
     (let n = TrimSpace iface in
      if \<not> safe_component n \<or> 15 < length (path_Base n)
        then Inl (Plain ''invalid WireGuard outbound interface'')
      else Inr (path_Base n))"

definition managedWGMarker :: "string \<Rightarrow> go_error + string" where
  "managedWGMarker iface =
     bind_sum (safeWGPathComponent iface) (\<lambda>n. Inr (in_dir managedWGOutboundDir (n @ ''.json'')))"

definition wgConfigPath :: "string \<Rightarrow> go_error + string" where
  "wgConfigPath iface = bind_sum (safeWGPathComponent iface) (\<lambda>n. Inr (in_dir ''/etc/wireguard'' (n @ ''.conf'')))"

definition wg_meta :: "WGOutboundSpec \<Rightarrow> json" where
  "wg_meta x = JObj [(''interface'', JStr (wo_Interface x))]"

definition wg_unit :: "string \<Rightarrow> string" where
  "wg_unit iface = ''wg-quick@'' @ iface @ ''.service''"

section \<open>Applying and removing one outbound\<close>

text \<open>The new configuration replaces the old one by a rename.\<close>

definition replace_file :: "'h os \<Rightarrow> string \<Rightarrow> string \<Rightarrow> 'h host \<Rightarrow> go_error option \<times> 'h host" where
  "replace_file os tmp path h =
     (case Rename os tmp path h of
        (Some e, h') \<Rightarrow> (Some e, RemoveFile os tmp h')
      | (None, h') \<Rightarrow> (None, h'))"

definition wg_unmanaged :: "string \<Rightarrow> string \<Rightarrow> string \<Rightarrow> 'h host \<Rightarrow> go_error option \<times> 'h host" where
  "wg_unmanaged iface cfgPath mark h =
     (if Stat cfgPath h \<and> \<not> Stat mark h
        then (Some (Plain (''wireguard interface '' @ iface @ '' already has an unmanaged config'')), h)
      else (None, h))"

definition wg_install ::
  "'h os \<Rightarrow> WGOutboundSpec \<Rightarrow> string \<Rightarrow> string \<Rightarrow> 'h host \<Rightarrow> go_error option \<times> 'h host" where
  "wg_install os x cfgPath mark =
     (let tmp = cfgPath @ ''.gamebridge.tmp''; unit = wg_unit (wo_Interface x) in
      attempts
        [wg_unmanaged (wo_Interface x) cfgPath mark,
         WriteFile os tmp (renderWGOutboundConfig x), replace_file os tmp cfgPath,
         WriteFile os mark (os_Marshal os (wg_meta x)),
         run os [''systemctl'', ''enable'', unit]]
        (run os [''systemctl'', ''restart'', unit]))"

definition applyManagedWGOutbound :: "'h os \<Rightarrow> WGOutboundSpec \<Rightarrow> 'h host \<Rightarrow> go_error option \<times> 'h host" where
  "applyManagedWGOutbound os raw =
     need (normalizeWGOutboundSpec raw) (\<lambda>x.
       attempts [MkdirAll os managedWGOutboundDir, MkdirAll os ''/etc/wireguard'']
         (need (wgConfigPath (wo_Interface x)) (\<lambda>cfgPath.
          need (managedWGMarker (wo_Interface x)) (\<lambda>mark.
            wg_install os x cfgPath mark))))"

definition removeManagedWGOutbound :: "'h os \<Rightarrow> string \<Rightarrow> 'h host \<Rightarrow> 'h host" where
  "removeManagedWGOutbound os iface h =
     (case safeWGPathComponent iface of
        Inl _ \<Rightarrow> h
      | Inr safe \<Rightarrow>
     (case wgConfigPath safe of Inl _ \<Rightarrow> h | Inr cfgPath \<Rightarrow>
     (case managedWGMarker safe of Inl _ \<Rightarrow> h | Inr mark \<Rightarrow>
        RemoveFile os mark (RemoveFile os cfgPath
          (run_ignored os [''systemctl'', ''disable'', ''--now'', wg_unit safe] h)))))"

section \<open>The synchronisation and its handler\<close>

definition wg_clash :: "WGOutboundSpec list \<Rightarrow> WGOutboundSpec \<Rightarrow> go_error option" where
  "wg_clash seen x =
     (if wo_Interface x \<in> set (map wo_Interface seen)
        then Some (Plain (''duplicate WireGuard interface '' @ wo_Interface x))
      else None)"

definition syncManagedWGOutbounds ::
  "'h os \<Rightarrow> WGOutboundSpec list \<Rightarrow> 'h host \<Rightarrow> go_error option \<times> 'h host" where
  "syncManagedWGOutbounds os specs h =
     sync_managed normalizeWGOutboundSpec wg_clash wo_Interface wo_Interface (applyManagedWGOutbound os)
       (removeManagedWGOutbound os) managedWGOutboundDir specs h"

datatype wg_sync_payload = WGSynced nat

definition handleWGOutboundSync ::
  "'h os \<Rightarrow> string \<Rightarrow> go_error + WGOutboundSpec list \<Rightarrow> 'h host \<Rightarrow> wg_sync_payload response \<times> 'h host" where
  "handleWGOutboundSync os m body h =
     (if m \<noteq> ''POST'' then (JsonError 405 ''method not allowed'', h)
      else (case body of
        Inl e \<Rightarrow> (JsonError 400 (err_msg e), h)
      | Inr specs \<Rightarrow>
          (case syncManagedWGOutbounds os specs h of
             (Some e, h') \<Rightarrow> (JsonError 400 (err_msg e), h')
           | (None, h') \<Rightarrow> (JsonWrite 200 (WGSynced (length specs)), h'))))"

section \<open>Lemmas\<close>

lemma safeWGPathComponent_eq:
  "safeWGPathComponent n =
     (if safe_component (TrimSpace n) \<and> length (TrimSpace n) \<le> 15 then Inr (TrimSpace n)
      else Inl (Plain ''invalid WireGuard outbound interface''))"
  by (auto simp: safeWGPathComponent_def safe_component_def Let_def)

definition wg_config :: "string \<Rightarrow> string" where
  "wg_config n = in_dir ''/etc/wireguard'' (n @ ''.conf'')"

lemma wg_paths:
  assumes "safe_component n" and "length n \<le> 15"
  shows "wgConfigPath n = Inr (wg_config n)" "managedWGMarker n = Inr (marker managedWGOutboundDir n)"
  using assms by (simp_all add: wgConfigPath_def managedWGMarker_def safeWGPathComponent_eq marker_def wg_config_def)

lemma normalizeWG_Inr:
  "normalizeWGOutboundSpec s = Inr x \<Longrightarrow>
   wo_Interface x = TrimSpace (wo_Interface s) \<and> safeName (wo_Interface x) \<and> length (wo_Interface x) \<le> 15"
  by (auto simp: normalizeWGOutboundSpec_def trim_wg_def wg_numbers_def Let_def split: if_splits option.splits)

lemma wg_numbers_idem: "wg_numbers s = Inr x \<Longrightarrow> wg_numbers x = Inr x"
  by (auto simp: wg_numbers_def Let_def split: if_splits)

lemma wg_numbers_same:
  "wg_numbers s = Inr x \<Longrightarrow> wo_Interface x = wo_Interface s \<and> wo_Address x = wo_Address s \<and>
   wo_PrivateKey x = wo_PrivateKey s \<and> wo_PeerPublicKey x = wo_PeerPublicKey s \<and>
   wo_Endpoint x = wo_Endpoint s \<and> wo_AllowedIPs x = wo_AllowedIPs s"
  by (auto simp: wg_numbers_def Let_def split: if_splits)

lemma trim_wg_same:
  assumes "wo_Interface x = wo_Interface (trim_wg s)" "wo_Address x = wo_Address (trim_wg s)"
    "wo_PrivateKey x = wo_PrivateKey (trim_wg s)" "wo_PeerPublicKey x = wo_PeerPublicKey (trim_wg s)"
    "wo_Endpoint x = wo_Endpoint (trim_wg s)" "map TrimSpace (wo_AllowedIPs x) = wo_AllowedIPs x"
  shows "trim_wg x = x"
  using assms by (simp add: trim_wg_def)

lemma wg_all_trim: "map TrimSpace [''0.0.0.0/0'', ''::/0''] = [''0.0.0.0/0'', ''::/0'']"
  by code_simp

lemma normalizeWG_idem:
  assumes "normalizeWGOutboundSpec s = Inr x"
  shows "normalizeWGOutboundSpec x = Inr x"
proof -
  let ?t = "trim_wg s"
  let ?a = "if wo_AllowedIPs ?t = [] then ?t\<lparr>wo_AllowedIPs := [''0.0.0.0/0'', ''::/0'']\<rparr> else ?t"
  from assms have g: "safeName (wo_Interface ?t)" "length (wo_Interface ?t) \<le> 15" "CIDR_ok (wo_Address ?t)"
    "wo_PrivateKey ?t \<noteq> []" "wo_PeerPublicKey ?t \<noteq> []" "endpoint_ok (wo_Endpoint ?t)"
    "bad_cidr (wo_AllowedIPs ?a) = None" "wg_numbers ?a = Inr x"
    unfolding normalizeWGOutboundSpec_def Let_def by (simp_all split: if_splits option.splits)
  note same = wg_numbers_same [OF g(8)]
  have ips: "wo_AllowedIPs ?a \<noteq> []" "map TrimSpace (wo_AllowedIPs ?a) = wo_AllowedIPs ?a"
    using wg_all_trim by (simp_all add: trim_wg_def)
  with same have trim: "trim_wg x = x" by (intro trim_wg_same [of x s]) simp_all
  have allowed: "wo_AllowedIPs x \<noteq> []" "bad_cidr (wo_AllowedIPs x) = None"
    using same ips(1) g(7) by (simp_all only: not_False_eq_True)
  have "wo_Interface x = wo_Interface ?t" "wo_Address x = wo_Address ?t" "wo_PrivateKey x = wo_PrivateKey ?t"
    "wo_PeerPublicKey x = wo_PeerPublicKey ?t" "wo_Endpoint x = wo_Endpoint ?t"
    using same by simp_all
  with g(1-6) allowed trim wg_numbers_idem [OF g(8)] show ?thesis
    by (simp add: normalizeWGOutboundSpec_def)
qed

lemma wg_not_marker: "marker managedWGOutboundDir m \<noteq> wg_config n"
  "marker managedWGOutboundDir m \<noteq> wg_config n @ t"
  by (simp_all add: marker_def in_dir_def managedWGOutboundDir_def wg_config_def)

lemma wg_applied:
  assumes "normalizeWGOutboundSpec s = Inr x"
  shows "applyManagedWGOutbound os x =
    attempts [MkdirAll os managedWGOutboundDir, MkdirAll os ''/etc/wireguard'']
      (if safe_component (wo_Interface x)
         then wg_install os x (wg_config (wo_Interface x)) (marker managedWGOutboundDir (wo_Interface x))
       else (\<lambda>h. (Some (Plain ''invalid WireGuard outbound interface''), h)))"
proof -
  from normalizeWG_Inr [OF normalizeWG_idem [OF assms]]
  have x: "TrimSpace (wo_Interface x) = wo_Interface x" "length (wo_Interface x) \<le> 15" by simp_all
  show ?thesis
  proof (cases "safe_component (wo_Interface x)")
    case True
    then show ?thesis
      by (intro ext) (simp add: applyManagedWGOutbound_def need_def normalizeWG_idem [OF assms] wg_paths x)
  next
    case False
    then show ?thesis
      by (intro ext) (simp add: applyManagedWGOutbound_def need_def normalizeWG_idem [OF assms] wgConfigPath_def
          safeWGPathComponent_eq x)
  qed
qed

lemma replace_file_spares [spare_intros]:
  "p \<noteq> tmp \<Longrightarrow> p \<noteq> path \<Longrightarrow> spares p (replace_file os tmp path)"
proof -
  assume p: "p \<noteq> tmp" "p \<noteq> path"
  have "file_at p (snd (replace_file os tmp path h)) = file_at p (snd (Rename os tmp path h))" for h
    using p by (simp add: replace_file_def file_RemoveFile split: prod.split option.split)
  with spares_Rename [OF p, of os] show ?thesis by (simp add: spares_def)
qed

lemma wg_unmanaged_spares [spare_intros]: "spares p (wg_unmanaged i c m)"
  by (simp add: spares_def wg_unmanaged_def)

lemma wg_install_spares:
  assumes q: "quiet os managedWGOutboundDir" and n: "n \<noteq> m"
  shows "spares (marker managedWGOutboundDir n) (wg_install os x (wg_config c) (marker managedWGOutboundDir m))"
proof -
  have "spares (marker managedWGOutboundDir n) (run os args)" for args
    unfolding marker_def by (rule spares_run [OF q])
  with n show ?thesis
    unfolding wg_install_def Let_def by (auto intro!: spare_intros simp: wg_not_marker)
qed

lemma wg_install_leaves:
  assumes q: "quiet os managedWGOutboundDir"
  shows "leaves (marker managedWGOutboundDir n) (wg_install os x c (marker managedWGOutboundDir n))"
proof -
  have run: "spares (marker managedWGOutboundDir n) (run os args)" for args
    unfolding marker_def by (rule spares_run [OF q])
  show ?thesis
    unfolding wg_install_def Let_def attempts.simps
    by (rule leaves_attempt [OF leaves_WriteFile spares_attempt [OF run run]] leaves_later)+
qed

lemma wg_removed:
  assumes q: "quiet os managedWGOutboundDir" and "safe_component n" and "length n \<le> 15"
  shows "file_at (marker managedWGOutboundDir m) (removeManagedWGOutbound os n h) =
    (if m = n then None else file_at (marker managedWGOutboundDir m) h)"
proof -
  have "file_at (marker managedWGOutboundDir m) (run_ignored os args h) =
      file_at (marker managedWGOutboundDir m) h" for args h
    unfolding marker_def by (rule run_ignored_file [OF q])
  then show ?thesis
    by (simp add: removeManagedWGOutbound_def safeWGPathComponent_eq assms wg_paths wg_not_marker
        file_RemoveFile file_Remove_marker [OF q])
qed

definition wg_name :: "string \<Rightarrow> bool" where
  "wg_name n \<longleftrightarrow> safe_component n \<and> length n \<le> 15"

interpretation wg: managed normalizeWGOutboundSpec wg_clash wo_Interface wo_Interface "applyManagedWGOutbound os"
  "removeManagedWGOutbound os" managedWGOutboundDir wg_name "quiet os managedWGOutboundDir" for os
proof
  show "wg_name (wo_Interface x)" if "normalizeWGOutboundSpec s = Inr x" "applyManagedWGOutbound os x h = (None, h')"
    for s x h h'
    using that normalizeWG_Inr [OF that(1)]
    by (auto simp: wg_applied [OF that(1)] wg_name_def attempt_def split: if_splits prod.splits option.splits)
  show "wo_Interface x \<notin> wo_Interface ` set acc" if "wg_clash acc x = None" for acc x
    using that by (auto simp: wg_clash_def split: if_splits)
  show "leaves (marker managedWGOutboundDir (wo_Interface x)) (applyManagedWGOutbound os x)"
    if "quiet os managedWGOutboundDir" "normalizeWGOutboundSpec s = Inr x" for s x
    unfolding wg_applied [OF that(2)] attempts.simps
    by (intro leaves_later) (simp add: wg_install_leaves [OF that(1)], simp add: leaves_def)
  show "spares (marker managedWGOutboundDir n) (applyManagedWGOutbound os x)"
    if "quiet os managedWGOutboundDir" "normalizeWGOutboundSpec s = Inr x" "n \<noteq> wo_Interface x" for s x n
    unfolding wg_applied [OF that(2)] attempts.simps
    by (intro spares_attempt spares_MkdirAll) (simp add: wg_install_spares [OF that(1,3)] spares_return)
qed (simp_all add: wg_name_def wg_removed)

section \<open>Configurations the agent does not manage\<close>

definition wg_foreign :: "string \<Rightarrow> string \<Rightarrow> 'h host \<Rightarrow> bool" where
  "wg_foreign n b h \<longleftrightarrow> file_at (wg_config n) h = Some b \<and> file_at (marker managedWGOutboundDir n) h = None"

lemma wg_config_inj [simp]:
  "wg_config m = wg_config n \<longleftrightarrow> m = n" "wg_config n \<noteq> wg_config m @ ''.gamebridge.tmp''"
proof -
  show "wg_config m = wg_config n \<longleftrightarrow> m = n" by (simp add: wg_config_def in_dir_def)
  have "rev (wg_config n) \<noteq> rev (wg_config m @ ''.gamebridge.tmp'')" by (simp add: wg_config_def in_dir_def)
  then show "wg_config n \<noteq> wg_config m @ ''.gamebridge.tmp''" by metis
qed

lemma wg_install_other:
  assumes "quiet os ''/etc/wireguard''" and "n \<noteq> m"
  shows "spares (wg_config n) (wg_install os x (wg_config m) (marker managedWGOutboundDir m))"
proof -
  have "spares (wg_config n) (run os args)" for args
    unfolding wg_config_def by (rule spares_run [OF assms(1)])
  with assms(2) show ?thesis
    unfolding wg_install_def Let_def
    by (auto intro!: spare_intros simp: wg_not_marker(1) [symmetric] wg_not_marker(1) [THEN not_sym])
qed

lemma wg_apply_foreign:
  assumes q: "quiet os managedWGOutboundDir" "quiet os ''/etc/wireguard''"
    and s: "normalizeWGOutboundSpec s = Inr x" and h: "wg_foreign n b h"
    and app: "applyManagedWGOutbound os x h = (r, h')"
  shows "wg_foreign n b h'"
proof (cases "n = wo_Interface x")
  case False
  have "spares (wg_config n) (applyManagedWGOutbound os x)"
    unfolding wg_applied [OF s] attempts.simps
    by (intro spares_attempt spares_MkdirAll) (simp add: wg_install_other [OF q(2) False] spares_return)
  with h sparesD [OF wg.app_spares [OF q(1) s False] app] app show ?thesis
    by (auto simp: wg_foreign_def dest: sparesD)
next
  case True
  have guard: "attempt (wg_unmanaged n (wg_config n) (marker managedWGOutboundDir n)) k h1 =
      (Some (Plain (''wireguard interface '' @ n @ '' already has an unmanaged config'')), h1)"
    if "wg_foreign n b h1" for k h1
    using that by (simp add: attempt_def wg_unmanaged_def wg_foreign_def Stat_def)
  have mk: "wg_foreign n b h2" if "MkdirAll os d h1 = (r1, h2)" "wg_foreign n b h1" for d h1 r1 h2
    using that by (simp add: wg_foreign_def file_MkdirAll [OF that(1)])
  show ?thesis
    using app h mk
    by (auto simp: wg_applied [OF s] True [symmetric] wg_install_def Let_def attempt_def [of "MkdirAll _ _"] guard
        split: prod.splits option.splits if_splits)
qed

lemma wg_remove_other:
  assumes "quiet os ''/etc/wireguard''" and "wg_name m" and "m \<noteq> n"
  shows "file_at (wg_config n) (removeManagedWGOutbound os m h) = file_at (wg_config n) h"
proof -
  have "file_at (wg_config n) (run_ignored os args h) = file_at (wg_config n) h" for args h
    unfolding wg_config_def by (rule run_ignored_file [OF assms(1)])
  with assms(2,3) show ?thesis
    by (simp add: removeManagedWGOutbound_def safeWGPathComponent_eq wg_name_def wg_paths
        file_RemoveFile wg_not_marker(1) [THEN not_sym])
qed

lemma wg_sync_exact:
  assumes "quiet os managedWGOutboundDir" and "markers_ok wg_name managedWGOutboundDir h"
    and "syncManagedWGOutbounds os specs h = (None, h')"
  shows "set (marker_names managedWGOutboundDir h') = (\<lambda>s. TrimSpace (wo_Interface s)) ` set specs \<and>
    markers_ok wg_name managedWGOutboundDir h'"
proof -
  obtain xs where xs: "list_all2 (\<lambda>s x. normalizeWGOutboundSpec s = Inr x) specs xs"
      "set (marker_names managedWGOutboundDir h') = set (map wo_Interface xs)"
      "markers_ok wg_name managedWGOutboundDir h'"
    using wg.sync_exact [OF assms(1,2) assms(3) [unfolded syncManagedWGOutbounds_def]] by blast
  from xs(1) have "map wo_Interface xs = map (\<lambda>s. TrimSpace (wo_Interface s)) specs"
    by (induction rule: list_all2_induct) (simp_all add: normalizeWG_Inr)
  with xs show ?thesis by (metis image_set)
qed


definition sample_wg_spec :: WGOutboundSpec where
  "sample_wg_spec =
     \<lparr>wo_Interface = ''wg0'', wo_Address = ''10.7.0.2/24'', wo_PrivateKey = ''k1'', wo_PeerPublicKey = ''k2'',
      wo_Endpoint = ''192.0.2.7:51820'', wo_AllowedIPs = [], wo_PersistentKeepalive = 0, wo_MTU = 0\<rparr>"

definition sample_wg_host :: "unit host" where
  "sample_wg_host =
     \<lparr>ho_files = [(wg_config ''wg0'', ''[Interface]''), (marker managedWGOutboundDir ''wg7'', ''{}'')], ho_rest = ()\<rparr>"


text \<open>The keys are not checked for line breaks: the line after the first becomes a line of the file.\<close>

lemma wg_key_injects:
  "\<exists>x. normalizeWGOutboundSpec
         (sample_wg_spec\<lparr>wo_PrivateKey := ''k1'' @ [CHR 0x0A] @ ''PostUp = reboot''\<rparr>) = Inr x \<and>
       ''PostUp = reboot'' \<in> set (split_at (CHR 0x0A) (renderWGOutboundConfig x))"
proof -
  have "case normalizeWGOutboundSpec (sample_wg_spec\<lparr>wo_PrivateKey := ''k1'' @ [CHR 0x0A] @ ''PostUp = reboot''\<rparr>) of
      Inl _ \<Rightarrow> False
    | Inr x \<Rightarrow> ''PostUp = reboot'' \<in> set (split_at (CHR 0x0A) (renderWGOutboundConfig x))"
    by code_simp
  then show ?thesis by (simp split: sum.splits)
qed

end
