(* ===== verification/OpenVPNAgent.thy ===== *)
theory OpenVPNAgent
  imports Managed
begin

text \<open>
  The managed OpenVPN outbounds of a node, src/internal/agent/openvpn_outbound.go: the checked
  specification, the sanitised profile and the other files of one outbound, applying and removing it,
  the synchronisation with the panel's request, and the two handlers. The argument unmarshal is
  json.Unmarshal of a marker: what is decoded, and whether without an error.
\<close>

definition managedOpenVPNOutboundDir :: string where
  "managedOpenVPNOutboundDir = ''/etc/gamebridge/openvpn-outbounds''"

record OpenVPNOutboundSpec =
  oo_Name :: string
  oo_Interface :: string
  oo_RoutingTable :: int
  oo_Mark :: int
  oo_Profile :: string
  oo_Username :: string
  oo_Password :: string

record openVPNOutboundStatus =
  oos_Name :: string
  oos_Interface :: string
  oos_RoutingTable :: int
  oos_Mark :: int
  oos_Running :: bool

section \<open>The specification\<close>

definition safeOpenVPNName :: "string \<Rightarrow> go_error + string" where
  "safeOpenVPNName name =
     (let n = TrimSpace name in
      if \<not> safe_component n then Inl (Plain ''invalid openvpn outbound name'') else Inr (path_Base n))"

definition safeOpenVPNInterface :: "string \<Rightarrow> go_error + string" where
  "safeOpenVPNInterface iface =
     (let n = TrimSpace iface in
      if \<not> safe_component n \<or> 15 < length (path_Base n) then Inl (Plain ''invalid openvpn interface'')
      else Inr (path_Base n))"

definition routing_value :: "int \<Rightarrow> bool" where
  "routing_value n \<longleftrightarrow> 1000 \<le> n \<and> n \<le> 65000"

definition one_line :: "string \<Rightarrow> bool" where
  "one_line s \<longleftrightarrow> CHR 0x0D \<notin> set s \<and> CHR 0x0A \<notin> set s"

definition check_openvpn :: "OpenVPNOutboundSpec \<Rightarrow> go_error + OpenVPNOutboundSpec" where
  "check_openvpn x =
     (if oo_Profile x = [] then Inl (Plain ''openvpn profile is required'')
      else if CHR 0x00 \<in> set (oo_Profile x) then Inl (Plain ''openvpn profile contains a NUL byte'')
      else if \<not> routing_value (oo_RoutingTable x)
        then Inl (Plain ''openvpn routing table must be between 1000 and 65000'')
      else if \<not> routing_value (oo_Mark x) then Inl (Plain ''openvpn mark must be between 1000 and 65000'')
      else if \<not> one_line (oo_Username x) \<or> \<not> one_line (oo_Password x)
        then Inl (Plain ''openvpn username and password must be single-line values'')
      else if (oo_Username x = []) \<noteq> (oo_Password x = [])
        then Inl (Plain ''openvpn username and password must be provided together'')
      else Inr x)"

definition normalizeOpenVPNOutboundSpec :: "OpenVPNOutboundSpec \<Rightarrow> go_error + OpenVPNOutboundSpec" where
  "normalizeOpenVPNOutboundSpec x =
     bind_sum (safeOpenVPNName (oo_Name x)) (\<lambda>n.
     bind_sum (safeOpenVPNInterface (oo_Interface x)) (\<lambda>i.
       check_openvpn
         (x\<lparr>oo_Name := n, oo_Interface := i, oo_Profile := TrimSpace (oo_Profile x),
            oo_Username := TrimSpace (oo_Username x)\<rparr>)))"

section \<open>Files\<close>

definition openVPN_path :: "string \<Rightarrow> string \<Rightarrow> go_error + string" where
  "openVPN_path ext name =
     bind_sum (safeOpenVPNName name) (\<lambda>n. Inr (in_dir managedOpenVPNOutboundDir (n @ ext)))"

definition openVPNConfigPath :: "string \<Rightarrow> go_error + string" where
  "openVPNConfigPath = openVPN_path ''.ovpn''"

definition openVPNAuthPath :: "string \<Rightarrow> go_error + string" where
  "openVPNAuthPath = openVPN_path ''.auth''"

definition openVPNMarkerPath :: "string \<Rightarrow> go_error + string" where
  "openVPNMarkerPath = openVPN_path ''.json''"

definition openVPNRouteScriptPath :: "string \<Rightarrow> go_error + string" where
  "openVPNRouteScriptPath = openVPN_path ''-route.sh''"

definition openVPNUnitName :: "string \<Rightarrow> go_error + string" where
  "openVPNUnitName name =
     bind_sum (safeOpenVPNName name) (\<lambda>n. Inr (''gamebridge-openvpn-'' @ n @ ''.service''))"

definition openVPNUnitPath :: "string \<Rightarrow> go_error + string" where
  "openVPNUnitPath name = bind_sum (openVPNUnitName name) (\<lambda>u. Inr (in_dir ''/etc/systemd/system'' u))"

section \<open>The sanitised profile\<close>

definition blocked :: "string list" where
  "blocked =
     [''script-security'', ''up'', ''down'', ''route-up'', ''route-pre-down'', ''ipchange'', ''tls-verify'',
      ''auth-user-pass-verify'', ''plugin'', ''management'', ''management-client'',
      ''management-client-auth'', ''management-external-key'', ''management-query-passwords'',
      ''client-connect'', ''client-disconnect'', ''learn-address'', ''daemon'', ''cd'', ''chroot'', ''log'',
      ''log-append'', ''status'', ''writepid'', ''tmp-dir'', ''askpass'']"

definition blockedRoutes :: "string list" where
  "blockedRoutes = [''route'', ''route-ipv6'', ''redirect-gateway'', ''redirect-private'']"

definition externalFiles :: "string list" where
  "externalFiles =
     [''ca'', ''capath'', ''cert'', ''key'', ''pkcs12'', ''crl-verify'', ''secret'', ''tls-auth'',
      ''tls-crypt'', ''tls-crypt-v2'']"

definition inlineBlocks :: "string list" where
  "inlineBlocks =
     [''ca'', ''cert'', ''key'', ''pkcs12'', ''crl-verify'', ''secret'', ''tls-auth'', ''tls-crypt'',
      ''tls-crypt-v2'']"

text \<open>The lines the function leaves out, to put in its own later.\<close>

definition dropped :: "string list" where
  "dropped = [''route-nopull'', ''persist-key'', ''persist-tun'', ''auth-nocache'', ''pull-filter'']"

definition directive_key :: "string \<Rightarrow> string" where
  "directive_key f = ToLower (dropWhile (\<lambda>c. c = CHR ''-'') f)"

text \<open>The loop's state: the inline block that is open (none is []), the lines so far, sawAuthDirective.\<close>

type_synonym profile_state = "string \<times> string list \<times> bool"

definition sanitize_directive :: "string \<Rightarrow> string list \<Rightarrow> profile_state \<Rightarrow> go_error + profile_state" where
  "sanitize_directive raw words ps =
     (case (words, ps) of
        ([], _) \<Rightarrow> Inr ps
      | (f # args, (cur, out, saw)) \<Rightarrow>
          let key = directive_key f in
          if key \<in> set blocked
            then Inl (Plain (''openvpn profile directive '' @ Quote key @ '' is not allowed''))
          else if key \<in> set blockedRoutes
            then Inl (Plain (''openvpn profile directive '' @ Quote key @ '' would modify host routing''))
          else if key \<in> set externalFiles
            then Inl (Plain (''openvpn profile directive '' @ Quote key @ '' must use an inline block''))
          else if key = ''dev'' then
            (if args \<noteq> [] \<and> HasPrefix (ToLower (hd args)) ''tap''
               then Inl (Plain ''openvpn TAP profiles are not supported'') else Inr ps)
          else if key = ''dev-type'' then
            (if args \<noteq> [] \<and> EqualFold (hd args) ''tap''
               then Inl (Plain ''openvpn TAP profiles are not supported'') else Inr ps)
          else if key = ''auth-user-pass'' then Inr (cur, out, True)
          else if key \<in> set dropped then Inr ps
          else Inr (cur, out @ [raw], saw))"

definition opens_block :: "string \<Rightarrow> bool" where
  "opens_block lower \<longleftrightarrow> HasPrefix lower ''<'' \<and> HasSuffix lower ''>'' \<and> \<not> HasPrefix lower ''</''"

definition block_tag :: "string \<Rightarrow> string" where
  "block_tag lower = TrimSuffix (TrimPrefix lower ''<'') ''>''"

definition passive_line :: "string \<Rightarrow> bool" where
  "passive_line trim \<longleftrightarrow> trim = [] \<or> HasPrefix trim ''#'' \<or> HasPrefix trim '';''"

definition sanitize_line :: "string \<Rightarrow> profile_state \<Rightarrow> go_error + profile_state" where
  "sanitize_line raw ps =
     (case ps of (cur, out, saw) \<Rightarrow>
       let trim = TrimSpace raw; lower = ToLower trim in
       if cur \<noteq> [] then Inr (if lower = ''</'' @ cur @ ''>'' then [] else cur, out @ [raw], saw)
       else if opens_block lower \<and> block_tag lower \<in> set inlineBlocks
         then Inr (block_tag lower, out @ [raw], saw)
       else if opens_block lower \<and> block_tag lower = ''connection''
         then Inl (Plain ''openvpn <connection> blocks are not supported in managed profiles'')
       else if passive_line trim then Inr (cur, out @ [raw], saw)
       else sanitize_directive raw (Fields trim) ps)"

fun sanitize_lines :: "string list \<Rightarrow> profile_state \<Rightarrow> go_error + profile_state" where
  "sanitize_lines [] ps = Inr ps"
| "sanitize_lines (raw # raws) ps = bind_sum (sanitize_line raw ps) (sanitize_lines raws)"

definition managed_lines :: "string \<Rightarrow> string \<Rightarrow> bool \<Rightarrow> string list" where
  "managed_lines safeIface authPath hasAuth =
     [[], ''dev '' @ safeIface, ''dev-type tun'', ''route-nopull'',
      ''pull-filter ignore \"redirect-gateway\"'', ''pull-filter ignore \"redirect-private\"'',
      ''persist-key'', ''persist-tun'', ''auth-nocache''] @
     (if hasAuth then [''auth-user-pass '' @ authPath] else [])"

definition sanitizeOpenVPNProfile :: "string \<Rightarrow> string \<Rightarrow> string \<Rightarrow> bool \<Rightarrow> go_error + string" where
  "sanitizeOpenVPNProfile profile iface authPath hasAuth =
     bind_sum (safeOpenVPNInterface iface) (\<lambda>safeIface.
     bind_sum (sanitize_lines (split_at (CHR 0x0A) (replace_crlf profile)) ([], [], False)) (\<lambda>(cur, out, saw).
       if cur \<noteq> [] then Inl (Plain (''openvpn inline block <'' @ cur @ ''> is not closed''))
       else if saw \<and> \<not> hasAuth
         then Inl (Plain ''openvpn profile requires username/password authentication'')
       else Inr (TrimSpace (JoinStrings (out @ managed_lines safeIface authPath hasAuth) [CHR 0x0A]) @
                 [CHR 0x0A])))"

section \<open>The route script and the unit\<close>

definition route_script_lines :: "string list" where
  "route_script_lines =
     [''cleanup() {'',
      ''    ip rule del fwmark \"$MARK\" table \"$TABLE\" 2>/dev/null || true'',
      ''    ip route flush table \"$TABLE\" 2>/dev/null || true'',
      ''    ip -6 rule del fwmark \"$MARK\" table \"$TABLE\" 2>/dev/null || true'',
      ''    ip -6 route flush table \"$TABLE\" 2>/dev/null || true'',
      ''}'', [],
      ''if [ \"${1:-up}\" = \"down\" ]; then'', ''    cleanup'', ''    exit 0'', ''fi'', [],
      ''i=0'', ''while [ \"$i\" -lt 120 ]; do'',
      ''    if ip link show dev \"$IFACE\" >/dev/null 2>&1; then'', ''        break'', ''    fi'',
      ''    i=$((i + 1))'', ''    sleep 0.25'', ''done'', [],
      ''if ! ip link show dev \"$IFACE\" >/dev/null 2>&1; then'', ''    exit 1'', ''fi'', [],
      ''cleanup'',
      ''ip route replace default dev \"$IFACE\" table \"$TABLE\"'',
      ''ip rule add fwmark \"$MARK\" table \"$TABLE\"'',
      ''ip -6 route replace default dev \"$IFACE\" table \"$TABLE\" 2>/dev/null || true'',
      ''ip -6 rule add fwmark \"$MARK\" table \"$TABLE\" 2>/dev/null || true'']"

definition renderOpenVPNRouteScript :: "string \<Rightarrow> int \<Rightarrow> int \<Rightarrow> go_error + string" where
  "renderOpenVPNRouteScript iface tbl mark =
     bind_sum (safeOpenVPNInterface iface) (\<lambda>safeIface.
       if \<not> routing_value tbl \<or> \<not> routing_value mark then Inl (Plain ''invalid openvpn routing values'')
       else Inr (text_lines
         ([''#!/bin/sh'', ''set -u'', ''IFACE='' @ safeIface, ''TABLE='' @ Itoa tbl, ''MARK='' @ Itoa mark, []] @
          route_script_lines)))"

definition renderOpenVPNUnit :: "string \<Rightarrow> string \<Rightarrow> string \<Rightarrow> string" where
  "renderOpenVPNUnit binary configPath routeScript =
     text_lines
       [''[Unit]'', ''Description=GameBridge managed OpenVPN outbound'', ''After=network-online.target'',
        ''Wants=network-online.target'', [], ''[Service]'', ''Type=simple'',
        ''ExecStart='' @ binary @ '' --config '' @ configPath,
        ''ExecStartPost='' @ routeScript @ '' up'', ''ExecStopPost='' @ routeScript @ '' down'',
        ''Restart=on-failure'', ''RestartSec=3'', ''NoNewPrivileges=true'', ''PrivateTmp=true'',
        ''ProtectHome=true'', ''ProtectSystem=strict'', [], ''[Install]'', ''WantedBy=multi-user.target'']"

definition openvpn_meta :: "OpenVPNOutboundSpec \<Rightarrow> json" where
  "openvpn_meta x =
     JObj [(''name'', JStr (oo_Name x)), (''interface'', JStr (oo_Interface x)),
           (''routing_table'', JInt (oo_RoutingTable x)), (''mark'', JInt (oo_Mark x)),
           (''profile'', JStr []), (''username'', JStr []), (''password'', JStr [])]"

section \<open>Applying and removing one outbound\<close>

definition openVPNInterfaceReady :: "'h os \<Rightarrow> string \<Rightarrow> 'h host \<Rightarrow> bool \<times> 'h host" where
  "openVPNInterfaceReady os iface h =
     (case safeOpenVPNInterface iface of
        Inl _ \<Rightarrow> (False, h)
      | Inr safe \<Rightarrow> (os_HasInterface os safe (ho_rest h), h))"

definition openvpn_wait :: "'h os \<Rightarrow> OpenVPNOutboundSpec \<Rightarrow> 'h host \<Rightarrow> go_error option \<times> 'h host" where
  "openvpn_wait os x h =
     (case wait_ready (openVPNInterfaceReady os (oo_Interface x)) os 20 h of
        (True, h') \<Rightarrow> (None, h')
      | (False, h') \<Rightarrow>
          (Some (Plain (''openvpn outbound '' @ oo_Name x @ '' did not create interface '' @ oo_Interface x)), h'))"

definition openvpn_start :: "'h os \<Rightarrow> OpenVPNOutboundSpec \<Rightarrow> string \<Rightarrow> 'h host \<Rightarrow> go_error option \<times> 'h host" where
  "openvpn_start os x unitName =
     attempts [run os [''systemctl'', ''daemon-reload''], run os [''systemctl'', ''enable'', unitName],
               run os [''systemctl'', ''restart'', unitName]]
       (openvpn_wait os x)"

definition openvpn_auth :: "'h os \<Rightarrow> OpenVPNOutboundSpec \<Rightarrow> string \<Rightarrow> bool \<Rightarrow> 'h host \<Rightarrow> go_error option \<times> 'h host" where
  "openvpn_auth os x authPath hasAuth h =
     (if hasAuth then WriteFile os authPath (text_lines [oo_Username x, oo_Password x]) h
      else (None, RemoveFile os authPath h))"

definition openvpn_install ::
  "'h os \<Rightarrow> OpenVPNOutboundSpec \<Rightarrow> string \<Rightarrow> string \<Rightarrow> string \<Rightarrow> string \<Rightarrow> string \<Rightarrow> string \<Rightarrow> string \<Rightarrow>
   'h host \<Rightarrow> go_error option \<times> 'h host" where
  "openvpn_install os x binary configPath authPath markerPath routeScriptPath unitName unitPath =
     (let hasAuth = (oo_Username x \<noteq> [] \<and> oo_Password x \<noteq> []) in
      attempt (MkdirAll os managedOpenVPNOutboundDir)
        (need (sanitizeOpenVPNProfile (oo_Profile x) (oo_Interface x) authPath hasAuth) (\<lambda>config.
           attempts [WriteFile os configPath config, openvpn_auth os x authPath hasAuth]
             (need (renderOpenVPNRouteScript (oo_Interface x) (oo_RoutingTable x) (oo_Mark x)) (\<lambda>script.
                attempts
                  [WriteFile os routeScriptPath script,
                   WriteFile os unitPath (renderOpenVPNUnit binary configPath routeScriptPath),
                   WriteFile os markerPath (os_Marshal os (openvpn_meta x))]
                  (openvpn_start os x unitName))))))"

definition applyManagedOpenVPNOutbound ::
  "'h os \<Rightarrow> OpenVPNOutboundSpec \<Rightarrow> 'h host \<Rightarrow> go_error option \<times> 'h host" where
  "applyManagedOpenVPNOutbound os raw =
     need (normalizeOpenVPNOutboundSpec raw) (\<lambda>x h.
       (case os_LookPath os ''openvpn'' h of
          None \<Rightarrow> (Some (Plain ''openvpn binary not found on node''), h)
        | Some binary \<Rightarrow>
            need (openVPNConfigPath (oo_Name x)) (\<lambda>configPath.
            need (openVPNAuthPath (oo_Name x)) (\<lambda>authPath.
            need (openVPNMarkerPath (oo_Name x)) (\<lambda>markerPath.
            need (openVPNRouteScriptPath (oo_Name x)) (\<lambda>routeScriptPath.
            need (openVPNUnitName (oo_Name x)) (\<lambda>unitName.
            need (openVPNUnitPath (oo_Name x)) (\<lambda>unitPath.
              openvpn_install os x binary configPath authPath markerPath routeScriptPath unitName unitPath)))))) h))"

definition zero_openvpn :: OpenVPNOutboundSpec where
  "zero_openvpn =
     \<lparr>oo_Name = [], oo_Interface = [], oo_RoutingTable = 0, oo_Mark = 0, oo_Profile = [],
      oo_Username = [], oo_Password = []\<rparr>"

text \<open>The rules and routes the marker remembers, when its numbers are in range.\<close>

definition openvpn_unroute :: "'h os \<Rightarrow> OpenVPNOutboundSpec \<Rightarrow> 'h host \<Rightarrow> 'h host" where
  "openvpn_unroute os meta h =
     (if 1000 \<le> oo_Mark meta \<and> 1000 \<le> oo_RoutingTable meta then
        run_ignored os [''ip'', ''route'', ''flush'', ''table'', Itoa (oo_RoutingTable meta)]
          (run_ignored os [''ip'', ''rule'', ''del'', ''fwmark'', Itoa (oo_Mark meta), ''table'',
             Itoa (oo_RoutingTable meta)] h)
      else h)"

definition openvpn_remove_files ::
  "'h os \<Rightarrow> string list \<Rightarrow> 'h host \<Rightarrow> 'h host" where
  "openvpn_remove_files os ps h = fold (RemoveFile os) ps h"

definition removeManagedOpenVPNOutbound ::
  "'h os \<Rightarrow> (string \<Rightarrow> OpenVPNOutboundSpec \<times> bool) \<Rightarrow> string \<Rightarrow> 'h host \<Rightarrow> 'h host" where
  "removeManagedOpenVPNOutbound os unmarshal name h =
     (case safeOpenVPNName name of
        Inl _ \<Rightarrow> h
      | Inr safe \<Rightarrow>
     (case openVPNMarkerPath safe of Inl _ \<Rightarrow> h | Inr markerPath \<Rightarrow>
        let meta = (case ReadFile os markerPath h of Inl _ \<Rightarrow> zero_openvpn | Inr b \<Rightarrow> fst (unmarshal b)) in
     (case openVPNUnitName safe of Inl _ \<Rightarrow> h | Inr unitName \<Rightarrow>
     (case openVPNUnitPath safe of Inl _ \<Rightarrow> h | Inr unitPath \<Rightarrow>
     (case openVPNConfigPath safe of Inl _ \<Rightarrow> h | Inr configPath \<Rightarrow>
     (case openVPNAuthPath safe of Inl _ \<Rightarrow> h | Inr authPath \<Rightarrow>
     (case openVPNRouteScriptPath safe of Inl _ \<Rightarrow> h | Inr routeScriptPath \<Rightarrow>
        let h1 = run_ignored os [''systemctl'', ''disable'', ''--now'', unitName] h;
            h2 = openvpn_unroute os meta h1;
            h3 = openvpn_remove_files os [unitPath, configPath, authPath, markerPath, routeScriptPath] h2
        in run_ignored os [''systemctl'', ''daemon-reload''] h3)))))))"

section \<open>The synchronisation\<close>

definition openvpn_clash :: "OpenVPNOutboundSpec list \<Rightarrow> OpenVPNOutboundSpec \<Rightarrow> go_error option" where
  "openvpn_clash seen x =
     (if oo_Name x \<in> set (map oo_Name seen) then Some (Plain (''duplicate openvpn outbound name '' @ oo_Name x))
      else if oo_Interface x \<in> set (map oo_Interface seen)
        then Some (Plain (''duplicate openvpn interface '' @ oo_Interface x))
      else if oo_RoutingTable x \<in> set (map oo_RoutingTable seen)
        then Some (Plain (''duplicate openvpn routing table '' @ Itoa (oo_RoutingTable x)))
      else if oo_Mark x \<in> set (map oo_Mark seen)
        then Some (Plain (''duplicate openvpn mark '' @ Itoa (oo_Mark x)))
      else None)"

definition openvpn_what :: "OpenVPNOutboundSpec \<Rightarrow> string" where
  "openvpn_what x = ''openvpn outbound '' @ oo_Name x"

definition syncManagedOpenVPNOutbounds ::
  "'h os \<Rightarrow> (string \<Rightarrow> OpenVPNOutboundSpec \<times> bool) \<Rightarrow> OpenVPNOutboundSpec list \<Rightarrow> 'h host \<Rightarrow>
   go_error option \<times> 'h host" where
  "syncManagedOpenVPNOutbounds os unmarshal specs h =
     sync_managed normalizeOpenVPNOutboundSpec openvpn_clash oo_Name openvpn_what
       (applyManagedOpenVPNOutbound os) (removeManagedOpenVPNOutbound os unmarshal)
       managedOpenVPNOutboundDir specs h"

fun list_openvpn ::
  "'h os \<Rightarrow> (string \<Rightarrow> OpenVPNOutboundSpec \<times> bool) \<Rightarrow> string list \<Rightarrow> 'h host \<Rightarrow> openVPNOutboundStatus list" where
  "list_openvpn os unmarshal [] h = []"
| "list_openvpn os unmarshal (m # ms) h =
     (case ReadFile os m h of
        Inl _ \<Rightarrow> list_openvpn os unmarshal ms h
      | Inr b \<Rightarrow>
          (case unmarshal b of (spec, ok) \<Rightarrow>
             if \<not> ok then list_openvpn os unmarshal ms h
             else (case (safeOpenVPNName (oo_Name spec), safeOpenVPNInterface (oo_Interface spec)) of
                     (Inr _, Inr _) \<Rightarrow>
                       \<lparr>oos_Name = oo_Name spec, oos_Interface = oo_Interface spec,
                        oos_RoutingTable = oo_RoutingTable spec, oos_Mark = oo_Mark spec,
                        oos_Running = fst (openVPNInterfaceReady os (oo_Interface spec) h)\<rparr>
                       # list_openvpn os unmarshal ms h
                   | _ \<Rightarrow> list_openvpn os unmarshal ms h)))"

definition listManagedOpenVPNOutbounds ::
  "'h os \<Rightarrow> (string \<Rightarrow> OpenVPNOutboundSpec \<times> bool) \<Rightarrow> 'h host \<Rightarrow> openVPNOutboundStatus list" where
  "listManagedOpenVPNOutbounds os unmarshal h =
     list_openvpn os unmarshal (glob managedOpenVPNOutboundDir ''.json'' h) h"

section \<open>The handlers\<close>

datatype openvpn_payload = OpenVPNSynced nat | OpenVPNStatus bool "openVPNOutboundStatus list"

definition handleOpenVPNOutboundSync ::
  "'h os \<Rightarrow> (string \<Rightarrow> OpenVPNOutboundSpec \<times> bool) \<Rightarrow> string \<Rightarrow> go_error + OpenVPNOutboundSpec list \<Rightarrow>
   'h host \<Rightarrow> openvpn_payload response \<times> 'h host" where
  "handleOpenVPNOutboundSync os unmarshal m body h =
     (if m \<noteq> ''POST'' then (JsonError 405 ''method not allowed'', h)
      else (case body of
        Inl e \<Rightarrow> (JsonError 400 (err_msg e), h)
      | Inr specs \<Rightarrow>
          (case syncManagedOpenVPNOutbounds os unmarshal specs h of
             (Some e, h') \<Rightarrow> (JsonError 400 (err_msg e), h')
           | (None, h') \<Rightarrow> (JsonWrite 200 (OpenVPNSynced (length specs)), h'))))"

definition handleOpenVPNStatus ::
  "'h os \<Rightarrow> (string \<Rightarrow> OpenVPNOutboundSpec \<times> bool) \<Rightarrow> string \<Rightarrow> 'h host \<Rightarrow> openvpn_payload response" where
  "handleOpenVPNStatus os unmarshal m h =
     (if m \<noteq> ''GET'' then JsonError 405 ''method not allowed''
      else JsonWrite 200
        (OpenVPNStatus (os_LookPath os ''openvpn'' h \<noteq> None) (listManagedOpenVPNOutbounds os unmarshal h)))"

section \<open>What a profile says\<close>

text \<open>
  A reader of profiles: it follows the inline blocks and yields the directives outside them, each as its
  key and its arguments. It reads a line as the code does (no quoting).
\<close>

type_synonym directive = "string \<times> string list"

definition read_line :: "string \<Rightarrow> string \<times> directive list \<Rightarrow> string \<times> directive list" where
  "read_line raw rs =
     (case rs of (cur, ds) \<Rightarrow>
       let trim = TrimSpace raw; lower = ToLower trim in
       if cur \<noteq> [] then (if lower = ''</'' @ cur @ ''>'' then [] else cur, ds)
       else if opens_block lower \<and> block_tag lower \<in> set inlineBlocks then (block_tag lower, ds)
       else if passive_line trim then (cur, ds)
       else (case Fields trim of [] \<Rightarrow> rs | f # args \<Rightarrow> (cur, ds @ [(directive_key f, args)])))"

definition read_lines :: "string list \<Rightarrow> string \<times> directive list \<Rightarrow> string \<times> directive list" where
  "read_lines ls rs = fold read_line ls rs"

definition directives :: "string \<Rightarrow> directive list" where
  "directives cfg = snd (read_lines (split_at (CHR 0x0A) cfg) ([], []))"

definition forbidden :: "string list" where
  "forbidden = blocked @ blockedRoutes @ externalFiles @ [''dev'', ''dev-type'', ''auth-user-pass''] @ dropped"

definition managed_directives :: "string \<Rightarrow> string \<Rightarrow> bool \<Rightarrow> directive list" where
  "managed_directives iface authPath hasAuth =
     [(''dev'', [iface]), (''dev-type'', [''tun'']), (''route-nopull'', []),
      (''pull-filter'', [''ignore'', ''\"redirect-gateway\"'']),
      (''pull-filter'', [''ignore'', ''\"redirect-private\"'']),
      (''persist-key'', []), (''persist-tun'', []), (''auth-nocache'', [])] @
     (if hasAuth then [(''auth-user-pass'', [authPath])] else [])"

lemma read_lines_append: "read_lines (ls @ ms) rs = read_lines ms (read_lines ls rs)"
  by (simp add: read_lines_def)

text \<open>The lines kept so far read as the same open block and as directives that are not forbidden.\<close>

definition reads_clean :: "profile_state \<Rightarrow> bool" where
  "reads_clean ps \<longleftrightarrow>
     (case ps of (cur, out, saw) \<Rightarrow>
       (\<exists>ds. read_lines out ([], []) = (cur, ds) \<and> list_all (\<lambda>d. fst d \<notin> set forbidden) ds) \<and>
       list_all (\<lambda>l. CHR 0x0A \<notin> set l) out)"

lemma keep_line:
  assumes "read_lines out ([], []) = (cur, ds)"
  shows "read_lines (out @ [raw]) ([], []) = read_line raw (cur, ds)"
  using assms by (simp add: read_lines_append) (simp add: read_lines_def)

lemma sanitize_line_clean:
  assumes "reads_clean ps" and line: "CHR 0x0A \<notin> set raw" and "sanitize_line raw ps = Inr ps'"
  shows "reads_clean ps'"
proof -
  obtain cur out saw where ps: "ps = (cur, out, saw)" by (cases ps)
  with assms(1) obtain ds where ds: "read_lines out ([], []) = (cur, ds)"
    "list_all (\<lambda>d. fst d \<notin> set forbidden) ds" "list_all (\<lambda>l. CHR 0x0A \<notin> set l) out"
    by (auto simp: reads_clean_def)
  note keep = keep_line [OF ds(1), of raw]
  consider (same) "ps' = (cur, out, saw)" | (auth) "ps' = (cur, out, True)"
    | (kept) cur' ds' where "ps' = (cur', out @ [raw], saw)" "read_line raw (cur, ds) = (cur', ds')"
        "list_all (\<lambda>d. fst d \<notin> set forbidden) ds'"
  proof -
    show thesis
      using assms(3) ds(2) that
      by (auto simp: ps sanitize_line_def read_line_def sanitize_directive_def forbidden_def Let_def
          split: if_splits list.splits)
  qed
  then show ?thesis
  proof cases
    case kept
    with keep ds(3) line show ?thesis by (simp add: reads_clean_def)
  qed (use ds in \<open>simp_all add: reads_clean_def\<close>)
qed

lemma sanitize_lines_clean:
  "reads_clean ps \<Longrightarrow> list_all (\<lambda>l. CHR 0x0A \<notin> set l) raws \<Longrightarrow> sanitize_lines raws ps = Inr ps' \<Longrightarrow>
   reads_clean ps'"
proof (induction raws arbitrary: ps)
  case (Cons raw raws)
  then obtain ps1 where "sanitize_line raw ps = Inr ps1" "sanitize_lines raws ps1 = Inr ps'"
    by (cases "sanitize_line raw ps") auto
  moreover from this have "reads_clean ps1"
    using Cons.prems(1,2) by (intro sanitize_line_clean [of ps raw ps1]) simp_all
  ultimately show ?case using Cons.IH [of ps1] Cons.prems(2) by simp
qed simp

lemma split_at_clean: "list_all (\<lambda>l. c \<notin> set l) (split_at c s)"
proof (induction s)
  case (Cons a s)
  then show ?case by (cases "split_at c s") auto
qed simp

lemma split_at_append:
  "c \<notin> set w \<Longrightarrow> split_at c (w @ r) = (w @ hd (split_at c r)) # tl (split_at c r)"
proof (induction w)
  case Nil
  then show ?case by (cases "split_at c r") (simp_all add: split_at_nonempty)
qed auto

lemma split_at_end: "split_at c (s @ [c]) = split_at c s @ [[]]"
proof (induction s)
  case (Cons a s)
  then show ?case using split_at_nonempty [of c s] by (cases "split_at c s") auto
qed simp

lemma split_at_join:
  "ls \<noteq> [] \<Longrightarrow> list_all (\<lambda>l. c \<notin> set l) ls \<Longrightarrow> split_at c (JoinStrings ls [c]) = ls"
proof (induction ls "[c]" rule: JoinStrings.induct)
  case (2 x)
  then show ?case using split_at_append [of c x "[]"] by simp
next
  case (3 x y ys)
  then show ?case by (simp add: split_at_first)
qed simp

lemma strip_space: "w \<in> set utf8_spaces \<Longrightarrow> strip_any utf8_spaces (w @ l) = Some l"
  by (auto simp: utf8_spaces_def)

lemma TrimSpace_space: "w \<in> set utf8_spaces \<Longrightarrow> TrimSpace (w @ l) = TrimSpace l"
proof -
  assume w: "w \<in> set utf8_spaces"
  then have "w \<noteq> []" using utf8_spaces_nonempty by blast
  then have "trim_front utf8_spaces (w @ l) = trim_front utf8_spaces l"
    using strip_space [OF w] by (simp add: trim_front.simps [of utf8_spaces "w @ l"])
  then show ?thesis by (simp add: TrimSpace_def)
qed

lemma space_break: "w \<in> set utf8_spaces \<Longrightarrow> w = [CHR 0x0A] \<or> CHR 0x0A \<notin> set w"
  by (auto simp: utf8_spaces_def)

lemma read_blank: "read_line [] rs = rs"
  by (cases rs) (simp add: read_line_def opens_block_def passive_line_def HasPrefix_def ToLower_def)

text \<open>Blank space in front of the text is not read.\<close>

lemma read_trim_front:
  "read_lines (split_at (CHR 0x0A) (trim_front utf8_spaces s)) rs = read_lines (split_at (CHR 0x0A) s) rs"
proof (induction utf8_spaces s rule: trim_front.induct)
  case (1 s)
  show ?case
  proof (cases "strip_any utf8_spaces s")
    case None
    then show ?thesis by (simp add: trim_front.simps)
  next
    case (Some r)
    then obtain w where w: "w \<in> set utf8_spaces" "s = w @ r" using strip_any_Some by blast
    then have "w \<noteq> []" using utf8_spaces_nonempty by blast
    with w(2) have "length r < length s" by simp
    with 1 Some have "read_lines (split_at (CHR 0x0A) (trim_front utf8_spaces s)) rs =
        read_lines (split_at (CHR 0x0A) r) rs"
      by (simp add: trim_front.simps [of utf8_spaces s])
    also have "\<dots> = read_lines (split_at (CHR 0x0A) s) rs"
    proof (cases "w = [CHR 0x0A]")
      case True
      then have "split_at (CHR 0x0A) s = [] # split_at (CHR 0x0A) r" using w(2) by simp
      then show ?thesis by (simp add: read_lines_def read_blank)
    next
      case False
      with w space_break have "CHR 0x0A \<notin> set w" by blast
      moreover have "read_line (w @ l) x = read_line l x" for l x
        by (simp add: read_line_def TrimSpace_space [OF w(1)])
      ultimately show ?thesis
        unfolding w(2) using split_at_nonempty [of "CHR 0x0A" r]
        by (cases "split_at (CHR 0x0A) r") (simp_all add: split_at_append read_lines_def)
    qed
    finally show ?thesis .
  qed
qed

lemma directives_TrimSpace:
  assumes "t \<noteq> []" and "word_char (last t)"
  shows "directives (TrimSpace t @ [CHR 0x0A]) = directives t"
proof -
  obtain p where p: "t = p @ trim_front utf8_spaces t" using trim_front_suffix by blast
  have "trim_front utf8_spaces t \<noteq> [] \<or> trim_front utf8_spaces t = []" by blast
  then have "trim_front utf8_spaces t = [] \<or> word_char (hd (rev (trim_front utf8_spaces t)))"
    using p assms by (metis hd_rev last_appendR)
  then have "bare (map rev utf8_spaces) (rev (trim_front utf8_spaces t))"
    by (intro word_bare spaces_no_word) auto
  then have "TrimSpace t = trim_front utf8_spaces t" by (simp add: TrimSpace_def trim_front_bare)
  then have "directives (TrimSpace t @ [CHR 0x0A]) = snd (read_lines [[]] (read_lines (split_at (CHR 0x0A) t) ([], [])))"
    by (simp add: directives_def split_at_end read_lines_append read_trim_front)
  then show ?thesis by (simp add: directives_def read_lines_def read_blank)
qed

text \<open>A line of one directive without a comment, a block or blank space around it.\<close>

definition plain_line :: "string \<Rightarrow> directive \<Rightarrow> bool" where
  "plain_line l d \<longleftrightarrow>
     TrimSpace l = l \<and> l \<noteq> [] \<and> hd l \<notin> set ''<#;'' \<and> CHR 0x0A \<notin> set l \<and>
     (case Fields l of [] \<Rightarrow> False | f # args \<Rightarrow> d = (directive_key f, args))"

lemma ascii_lower_angle: "ascii_lower c = CHR ''<'' \<longleftrightarrow> c = CHR ''<''"
proof -
  have "char_of (n + 32) \<noteq> CHR ''<''" if "65 \<le> n" "n \<le> 90" for n :: nat
  proof
    assume "char_of (n + 32) = CHR ''<''"
    then have "(n + 32) mod 256 = of_char (CHR ''<'')" by (metis of_char_of)
    with that show False by simp
  qed
  then show ?thesis by (auto simp: ascii_lower_def Let_def)
qed

lemma read_plain: "plain_line l d \<Longrightarrow> read_line l ([], ds) = ([], ds @ [d])"
  by (cases l) (auto simp: plain_line_def read_line_def opens_block_def passive_line_def HasPrefix_append
      ToLower_def ascii_lower_angle Let_def split: list.splits)

lemma read_plains: "list_all2 plain_line ls ds' \<Longrightarrow> read_lines ls ([], ds) = ([], ds @ ds')"
  by (induction arbitrary: ds rule: list_all2_induct) (simp_all add: read_lines_def read_plain)

lemma managed_constants:
  "list_all2 plain_line
     [''dev-type tun'', ''route-nopull'', ''pull-filter ignore \"redirect-gateway\"'',
      ''pull-filter ignore \"redirect-private\"'', ''persist-key'', ''persist-tun'', ''auth-nocache'']
     [(''dev-type'', [''tun'']), (''route-nopull'', []), (''pull-filter'', [''ignore'', ''\"redirect-gateway\"'']),
      (''pull-filter'', [''ignore'', ''\"redirect-private\"'']),
      (''persist-key'', []), (''persist-tun'', []), (''auth-nocache'', [])]"
  by code_simp

lemma plain_two:
  assumes w: "list_all word_char w" "w \<noteq> []" and v: "list_all word_char v" "v \<noteq> []" "hd v \<notin> set ''<#;''"
  shows "plain_line (v @ CHR 0x20 # w) (directive_key v, [w])"
proof -
  have "Fields (v @ CHR 0x20 # w) = [v, w]" using assms by (intro Fields_two) simp_all
  moreover have "word_char (hd v)" using v(1,2) by (cases v) simp_all
  then have "TrimSpace (v @ CHR 0x20 # w) = v @ CHR 0x20 # w"
    by (intro ends_TrimSpace) (use w v in \<open>auto simp: list_all_iff\<close>)
  moreover have "\<not> word_char (CHR 0x0A)" by code_simp
  then have "CHR 0x0A \<notin> set (v @ CHR 0x20 # w)" using w v by (auto simp: list_all_iff)
  ultimately show ?thesis using v(2,3) by (simp add: plain_line_def)
qed

lemma managed_plain:
  assumes "list_all word_char iface" "iface \<noteq> []" "list_all word_char authPath" "authPath \<noteq> []"
  shows "list_all2 plain_line (tl (managed_lines iface authPath hasAuth)) (managed_directives iface authPath hasAuth)"
proof -
  have words: "list_all word_char ''dev''" "list_all word_char ''auth-user-pass''" by code_simp+
  have "plain_line (''dev'' @ CHR 0x20 # iface) (directive_key ''dev'', [iface])"
    by (rule plain_two [OF assms(1,2) words(1)]) simp_all
  moreover have "plain_line (''auth-user-pass'' @ CHR 0x20 # authPath) (directive_key ''auth-user-pass'', [authPath])"
    by (rule plain_two [OF assms(3,4) words(2)]) simp_all
  moreover have "directive_key ''dev'' = ''dev''" "directive_key ''auth-user-pass'' = ''auth-user-pass''"
    by code_simp+
  ultimately show ?thesis using managed_constants
    by (simp add: managed_lines_def managed_directives_def)
qed

lemma auth_path_word:
  "openVPNAuthPath name = Inr p \<Longrightarrow> list_all word_char p \<and> p \<noteq> [] \<and> word_char (last p)"
proof -
  assume "openVPNAuthPath name = Inr p"
  then have p: "p = in_dir managedOpenVPNOutboundDir (TrimSpace name @ ''.auth'')" "safe_component (TrimSpace name)"
    by (auto simp: openVPNAuthPath_def openVPN_path_def safeOpenVPNName_def safe_component_def Let_def
        split: if_splits)
  have "list_all word_char managedOpenVPNOutboundDir" "list_all word_char ''.auth''" "word_char (CHR 0x2F)"
    by code_simp+
  with p safe_words [of "TrimSpace name"] safe_component_plain [OF p(2)]
  have "list_all word_char p" by (simp add: in_dir_def)
  moreover from p have "p \<noteq> []" by (simp add: in_dir_def)
  ultimately show ?thesis by (auto simp: list_all_iff)
qed

lemma openvpn_interface_word:
  "safeOpenVPNInterface iface = Inr i \<Longrightarrow> i = TrimSpace iface \<and> list_all word_char i \<and> i \<noteq> []"
  using safe_component_plain [of "TrimSpace iface"] safe_words [of "TrimSpace iface"]
  by (auto simp: safeOpenVPNInterface_def safe_component_def Let_def split: if_splits)

lemma last_join: "ls \<noteq> [] \<Longrightarrow> last ls \<noteq> [] \<Longrightarrow> JoinStrings ls sep \<noteq> [] \<and> last (JoinStrings ls sep) = last (last ls)"
  by (induction ls sep rule: JoinStrings.induct) (auto split: if_splits)

lemma managed_last:
  assumes "list_all word_char authPath" "authPath \<noteq> []"
  shows "last (managed_lines iface authPath hasAuth) \<noteq> [] \<and>
    word_char (last (last (managed_lines iface authPath hasAuth)))"
  using assms by (auto simp: managed_lines_def list_all_iff word_char_def Let_def)

definition sample_profile :: string where
  "sample_profile =
     text_lines [''# a provider'', ''client'', ''remote 192.0.2.9 1194'', ''DEV tun7'', ''<ca>'', ''up'', ''</ca>'',
                 ''auth-user-pass'']"


text \<open>A key in quotes is not recognised, although OpenVPN reads it without them.\<close>

lemma quoted_directive_passes:
  "\<exists>cfg. sanitizeOpenVPNProfile (text_lines [''client'', ''\"script-security\" 2'', ''\"up\" /tmp/x'']) ''tun1'' [] False = Inr cfg \<and>
     (''\"up\"'', [''/tmp/x'']) \<in> set (directives cfg)"
proof -
  have "case sanitizeOpenVPNProfile (text_lines [''client'', ''\"script-security\" 2'', ''\"up\" /tmp/x'']) ''tun1'' [] False of
      Inl _ \<Rightarrow> False | Inr cfg \<Rightarrow> (''\"up\"'', [''/tmp/x'']) \<in> set (directives cfg)"
    by code_simp
  then show ?thesis by (simp split: sum.splits)
qed

section \<open>The synchronisation is exact\<close>

lemma safeOpenVPNName_eq:
  "safeOpenVPNName n =
     (if safe_component (TrimSpace n) then Inr (TrimSpace n) else Inl (Plain ''invalid openvpn outbound name''))"
  by (simp add: safeOpenVPNName_def safe_component_def Let_def)

lemma safeOpenVPNInterface_eq:
  "safeOpenVPNInterface n =
     (if safe_component (TrimSpace n) \<and> length (TrimSpace n) \<le> 15 then Inr (TrimSpace n)
      else Inl (Plain ''invalid openvpn interface''))"
  by (auto simp: safeOpenVPNInterface_def safe_component_def Let_def)

lemma check_openvpn_Inr: "check_openvpn x = Inr y \<Longrightarrow> y = x"
  by (simp add: check_openvpn_def split: if_splits)

lemma normalizeOpenVPN_Inr:
  assumes "normalizeOpenVPNOutboundSpec s = Inr x"
  shows "oo_Name x = TrimSpace (oo_Name s)" "safe_component (TrimSpace (oo_Name s))"
    "normalizeOpenVPNOutboundSpec x = Inr x"
proof -
  let ?y = "s\<lparr>oo_Name := TrimSpace (oo_Name s), oo_Interface := TrimSpace (oo_Interface s),
    oo_Profile := TrimSpace (oo_Profile s), oo_Username := TrimSpace (oo_Username s)\<rparr>"
  from assms have g: "safe_component (TrimSpace (oo_Name s))" "safe_component (TrimSpace (oo_Interface s))"
    "length (TrimSpace (oo_Interface s)) \<le> 15" "check_openvpn ?y = Inr x"
    by (simp_all add: normalizeOpenVPNOutboundSpec_def safeOpenVPNName_eq safeOpenVPNInterface_eq split: if_splits)
  then have x: "x = ?y" by (simp add: check_openvpn_Inr)
  then show "oo_Name x = TrimSpace (oo_Name s)" "safe_component (TrimSpace (oo_Name s))" using g(1) by simp_all
  show "normalizeOpenVPNOutboundSpec x = Inr x"
    using g by (simp add: x normalizeOpenVPNOutboundSpec_def safeOpenVPNName_eq safeOpenVPNInterface_eq)
qed

lemma openvpn_paths:
  assumes "safe_component n"
  shows "openVPNConfigPath n = Inr (in_dir managedOpenVPNOutboundDir (n @ ''.ovpn''))"
    "openVPNAuthPath n = Inr (in_dir managedOpenVPNOutboundDir (n @ ''.auth''))"
    "openVPNMarkerPath n = Inr (marker managedOpenVPNOutboundDir n)"
    "openVPNRouteScriptPath n = Inr (in_dir managedOpenVPNOutboundDir (n @ ''-route.sh''))"
    "openVPNUnitName n = Inr (''gamebridge-openvpn-'' @ n @ ''.service'')"
    "openVPNUnitPath n = Inr (in_dir ''/etc/systemd/system'' (''gamebridge-openvpn-'' @ n @ ''.service''))"
  using assms
  by (simp_all add: openVPNConfigPath_def openVPNAuthPath_def openVPNMarkerPath_def openVPNRouteScriptPath_def
      openVPN_path_def openVPNUnitName_def openVPNUnitPath_def safeOpenVPNName_eq marker_def)

lemma marker_suffix:
  "rev (take 5 (rev (n @ e))) \<noteq> ''.json'' \<Longrightarrow> marker dir m \<noteq> in_dir dir (n @ e)"
proof
  assume e: "rev (take 5 (rev (n @ e))) \<noteq> ''.json''" and "marker dir m = in_dir dir (n @ e)"
  then have "m @ ''.json'' = n @ e" by (simp add: marker_def in_dir_def)
  then have "take 5 (rev (n @ e)) = take 5 (rev (m @ ''.json''))" by simp
  then have "rev (take 5 (rev (n @ e))) = ''.json''" by (simp del: rev_append) simp
  with e show False by simp
qed

lemma openvpn_not_marker:
  "marker managedOpenVPNOutboundDir m \<noteq> in_dir managedOpenVPNOutboundDir (n @ ''.ovpn'')"
  "marker managedOpenVPNOutboundDir m \<noteq> in_dir managedOpenVPNOutboundDir (n @ ''.auth'')"
  "marker managedOpenVPNOutboundDir m \<noteq> in_dir managedOpenVPNOutboundDir (n @ ''-route.sh'')"
  "marker managedOpenVPNOutboundDir m \<noteq> in_dir ''/etc/systemd/system'' u"
  by (rule marker_suffix, simp)+ (simp add: marker_def in_dir_def managedOpenVPNOutboundDir_def)

lemma openvpn_applied:
  assumes "normalizeOpenVPNOutboundSpec s = Inr x"
  obtains e where "applyManagedOpenVPNOutbound os x h = (Some e, h)"
  | b u v where "applyManagedOpenVPNOutbound os x h =
      openvpn_install os x b (in_dir managedOpenVPNOutboundDir (oo_Name x @ ''.ovpn''))
        (in_dir managedOpenVPNOutboundDir (oo_Name x @ ''.auth'')) (marker managedOpenVPNOutboundDir (oo_Name x))
        (in_dir managedOpenVPNOutboundDir (oo_Name x @ ''-route.sh'')) u (in_dir ''/etc/systemd/system'' v) h"
proof -
  from normalizeOpenVPN_Inr [OF assms] have x: "safe_component (oo_Name x)" "normalizeOpenVPNOutboundSpec x = Inr x"
    by simp_all
  show thesis
    by (cases "os_LookPath os ''openvpn'' h")
      (use that in \<open>simp_all add: applyManagedOpenVPNOutbound_def x openvpn_paths\<close>)
qed

lemma openvpn_auth_spares: "p \<noteq> a \<Longrightarrow> spares p (openvpn_auth os x a b)"
  using spares_WriteFile [of p a os "text_lines [oo_Username x, oo_Password x]"]
  by (simp add: spares_def openvpn_auth_def file_RemoveFile)

lemma spares_openvpn_start:
  assumes "quiet os dir"
  shows "spares (in_dir dir n) (openvpn_start os x u)"
proof -
  have "file_at p (snd (openVPNInterfaceReady os i h)) = file_at p h" for p i h
    by (simp add: openVPNInterfaceReady_def split: sum.split)
  then have "file_at p (snd (wait_ready (openVPNInterfaceReady os i) os k h)) = file_at p h" for p i k h
    by (rule spares_wait_ready)
  moreover have "file_at p (snd (openvpn_wait os x h)) =
      file_at p (snd (wait_ready (openVPNInterfaceReady os (oo_Interface x)) os 20 h))" for p h
    by (simp add: openvpn_wait_def split: prod.split bool.split)
  ultimately have "spares (in_dir dir n) (openvpn_wait os x)" by (simp add: spares_def)
  with assms show ?thesis unfolding openvpn_start_def by (auto intro!: spare_intros)
qed

lemma spares_need: "(\<And>a. spares p (k a)) \<Longrightarrow> spares p (need r k)"
  by (cases r) (simp_all add: spares_return)

lemma leaves_need: "(\<And>a. leaves p (k a)) \<Longrightarrow> leaves p (need r k)"
  by (cases r) (simp_all add: leaves_def)

lemma openvpn_install_spares:
  assumes "spares p (openvpn_start os x u)" "p \<noteq> c" "p \<noteq> a" "p \<noteq> m" "p \<noteq> r" "p \<noteq> up"
  shows "spares p (openvpn_install os x b c a m r u up)"
  unfolding openvpn_install_def Let_def attempts.simps
  by (intro spares_attempt spares_need) (use assms in \<open>auto intro!: spare_intros openvpn_auth_spares\<close>)

lemma openvpn_install_leaves:
  assumes "spares m (openvpn_start os x u)"
  shows "leaves m (openvpn_install os x b c a m r u up)"
  unfolding openvpn_install_def Let_def attempts.simps
  by (rule leaves_attempt [OF leaves_WriteFile assms] leaves_later leaves_need)+

lemma openvpn_removed:
  assumes q: "quiet os managedOpenVPNOutboundDir" and "safe_component n"
  shows "file_at (marker managedOpenVPNOutboundDir m) (removeManagedOpenVPNOutbound os unm n h) =
    (if m = n then None else file_at (marker managedOpenVPNOutboundDir m) h)"
proof -
  have runs: "file_at (marker managedOpenVPNOutboundDir m) (run_ignored os args h) =
      file_at (marker managedOpenVPNOutboundDir m) h" for args h
    unfolding marker_def by (rule run_ignored_file [OF q])
  then have "file_at (marker managedOpenVPNOutboundDir m) (openvpn_unroute os meta h) =
      file_at (marker managedOpenVPNOutboundDir m) h" for meta h
    by (simp add: openvpn_unroute_def)
  with runs show ?thesis
    by (simp add: removeManagedOpenVPNOutbound_def safeOpenVPNName_eq assms openvpn_paths Let_def
        openvpn_remove_files_def file_RemoveFile openvpn_not_marker file_Remove_marker [OF q])
qed

interpretation openvpn: managed normalizeOpenVPNOutboundSpec openvpn_clash oo_Name openvpn_what
  "applyManagedOpenVPNOutbound os" "removeManagedOpenVPNOutbound os unm" managedOpenVPNOutboundDir safe_component
  "quiet os managedOpenVPNOutboundDir" for os unm
proof
  show "safe_component (oo_Name x)"
    if "normalizeOpenVPNOutboundSpec s = Inr x" "applyManagedOpenVPNOutbound os x h = (None, h')" for s x h h'
    using normalizeOpenVPN_Inr [OF that(1)] by simp
  show "oo_Name x \<notin> oo_Name ` set acc" if "openvpn_clash acc x = None" for acc x
    using that by (auto simp: openvpn_clash_def split: if_splits)
  show "leaves (marker managedOpenVPNOutboundDir (oo_Name x)) (applyManagedOpenVPNOutbound os x)"
    if "quiet os managedOpenVPNOutboundDir" "normalizeOpenVPNOutboundSpec s = Inr x" for s x
  proof -
    have "spares (marker managedOpenVPNOutboundDir (oo_Name x)) (openvpn_start os x u)" for u
      unfolding marker_def by (rule spares_openvpn_start [OF that(1)])
    then show ?thesis by (intro leaves_cases) (metis that(2) openvpn_applied openvpn_install_leaves)
  qed
  show "spares (marker managedOpenVPNOutboundDir n) (applyManagedOpenVPNOutbound os x)"
    if "quiet os managedOpenVPNOutboundDir" "normalizeOpenVPNOutboundSpec s = Inr x" "n \<noteq> oo_Name x" for s x n
  proof -
    have "spares (marker managedOpenVPNOutboundDir n) (openvpn_start os x u)" for u
      unfolding marker_def by (rule spares_openvpn_start [OF that(1)])
    then have "spares (marker managedOpenVPNOutboundDir n)
      (openvpn_install os x b (in_dir managedOpenVPNOutboundDir (oo_Name x @ ''.ovpn''))
        (in_dir managedOpenVPNOutboundDir (oo_Name x @ ''.auth'')) (marker managedOpenVPNOutboundDir (oo_Name x))
        (in_dir managedOpenVPNOutboundDir (oo_Name x @ ''-route.sh'')) u (in_dir ''/etc/systemd/system'' v))" for b u v
      using that(3) by (intro openvpn_install_spares) (simp_all add: openvpn_not_marker)
    then show ?thesis by (intro spares_cases) (metis that(2) openvpn_applied)
  qed
qed (simp_all add: openvpn_removed)

lemma openvpn_sync_exact:
  assumes "quiet os managedOpenVPNOutboundDir" and "markers_ok safe_component managedOpenVPNOutboundDir h"
    and "syncManagedOpenVPNOutbounds os unm specs h = (None, h')"
  shows "set (marker_names managedOpenVPNOutboundDir h') = (\<lambda>s. TrimSpace (oo_Name s)) ` set specs \<and>
    markers_ok safe_component managedOpenVPNOutboundDir h'"
proof -
  obtain xs where xs: "list_all2 (\<lambda>s x. normalizeOpenVPNOutboundSpec s = Inr x) specs xs"
      "set (marker_names managedOpenVPNOutboundDir h') = set (map oo_Name xs)"
      "markers_ok safe_component managedOpenVPNOutboundDir h'"
    using openvpn.sync_exact [OF assms(1,2) assms(3) [unfolded syncManagedOpenVPNOutbounds_def]] by blast
  from xs(1) have "map oo_Name xs = map (\<lambda>s. TrimSpace (oo_Name s)) specs"
    by (induction rule: list_all2_induct) (simp_all add: normalizeOpenVPN_Inr)
  with xs show ?thesis by (metis image_set)
qed

end
