(* ===== verification/AgentServer.thy ===== *)
theory AgentServer
  imports AgentTunnels AgentPeers XrayAgent TorAgent WireGuardAgent OpenVPNAgent
begin

text \<open>
  The node agent as a whole: New, the token check and the routes of src/internal/agent/server.go with
  those of xray.go and phase3.go, over the handlers of the other theories. One function, agent_serve,
  is the agent's answer to any request. The decoders of the standard library are fields of the record
  agent, one for each kind of body.
\<close>

record 'h agent =
  ag_os :: "'h os"
  ag_Token :: string
  ag_Version :: string
  ag_probes :: "'h probes"
  ag_fetch :: "'h fetch"
  ag_dialer :: "go_error option"
  ag_now :: "'h \<Rightarrow> time"
  ag_json_valid :: "string \<Rightarrow> bool"
  ag_tunnel :: "string \<Rightarrow> go_error + TunnelSpec"
  ag_forward :: "string \<Rightarrow> go_error + Forward"
  ag_stored_forward :: "string \<Rightarrow> Forward option"
  ag_wg_server :: "string \<Rightarrow> go_error + WGServer"
  ag_wg_peer :: "string \<Rightarrow> go_error + WGPeer"
  ag_wg_outbounds :: "string \<Rightarrow> go_error + WGOutboundSpec list"
  ag_tor_outbounds :: "string \<Rightarrow> go_error + TorOutboundSpec list"
  ag_stored_tor :: "string \<Rightarrow> TorOutboundSpec option"
  ag_openvpn_outbounds :: "string \<Rightarrow> go_error + OpenVPNOutboundSpec list"
  ag_stored_openvpn :: "string \<Rightarrow> OpenVPNOutboundSpec \<times> bool"
  ag_config :: "string \<Rightarrow> go_error + string"
  ag_port :: "string \<Rightarrow> go_error + int"
  ag_stats :: "string \<Rightarrow> go_error + (string \<times> json option) list"
  ag_peer_state :: "string \<Rightarrow> go_error + wgPeerStateRequest"

record agent_request =
  aq_Method :: string
  aq_Path :: string
  aq_Authorization :: string
  aq_Query :: "(string \<times> string) list"
  aq_Body :: string

datatype agent_payload =
    AJson json | AStatus string NodeMetrics "json list" | AWGSync wg_sync_payload | ATor tor_payload
  | AOpenVPN openvpn_payload | AProbe xrayOutboundProbeResponse | AXrayStats "normalizedXrayStat list"
  | ARuntime "wgRuntimePeer list" | AWGStats "wgStat list"

fun agent_answer :: "('a \<Rightarrow> agent_payload) \<Rightarrow> 'a response \<times> 'h host \<Rightarrow> agent_payload response \<times> 'h host" where
  "agent_answer wrap (r, h) = (map_response wrap r, h)"

definition agent_New :: "string \<Rightarrow> go_error option" where
  "agent_New token =
     (if length token < 24 then Some (Plain ''GAMEBRIDGE_AGENT_TOKEN must be at least 24 characters'') else None)"

definition handleStatus :: "'h agent \<Rightarrow> string \<Rightarrow> 'h host \<Rightarrow> agent_payload response \<times> 'h host" where
  "handleStatus ag m h =
     (if m \<noteq> ''GET'' then (JsonError 405 ''method not allowed'', h)
      else (case collectMetrics (ag_os ag) (ag_probes ag) h of (metrics, h1) \<Rightarrow>
           (case listTunnels (ag_os ag) h1 of (ts, h2) \<Rightarrow> (JsonWrite 200 (AStatus (ag_Version ag) metrics ts), h2))))"

definition agent_query :: "agent_request \<Rightarrow> string \<Rightarrow> string" where
  "agent_query q k = (case map_of (aq_Query q) k of Some v \<Rightarrow> v | None \<Rightarrow> [])"

text \<open>A probe changes the rest of the world only.\<close>

definition agent_probe :: "'h agent \<Rightarrow> agent_request \<Rightarrow> 'h host \<Rightarrow> xrayOutboundProbeResponse response \<times> 'h host" where
  "agent_probe ag q h =
     (case handleXrayOutboundProbe (ag_fetch ag) (ag_dialer ag) (ag_now ag (ho_rest h)) (aq_Method q)
             (ag_port ag (aq_Body q)) (ho_rest h) of
        (r, w) \<Rightarrow> (r, h\<lparr>ho_rest := w\<rparr>))"

text \<open>The routes of registerXrayRoutes and registerPhase3Routes, and those of routes.\<close>

definition xray_routes ::
  "'h agent \<Rightarrow> agent_request \<Rightarrow> string \<Rightarrow> 'h host \<Rightarrow> (agent_payload response \<times> 'h host) option" where
  "xray_routes ag q p h =
     (let os = ag_os ag; m = aq_Method q; b = aq_Body q in
      if p = ''/v1/xray/status'' then Some (agent_answer AJson (handleXrayStatus os m h))
      else if p = ''/v1/xray/install'' then Some (agent_answer AJson (handleXrayInstall os m h))
      else if p = ''/v1/xray/x25519'' then Some (agent_answer AJson (handleXrayX25519 os m h))
      else if p = ''/v1/xray/apply'' then
        Some (agent_answer AJson (handleXrayApply os (ag_json_valid ag) m (ag_config ag b) h))
      else if p = ''/v1/xray/outbound-probe'' then Some (agent_answer AProbe (agent_probe ag q h))
      else None)"

definition phase3_routes ::
  "'h agent \<Rightarrow> agent_request \<Rightarrow> string \<Rightarrow> 'h host \<Rightarrow> (agent_payload response \<times> 'h host) option" where
  "phase3_routes ag q p h =
     (let os = ag_os ag; m = aq_Method q; b = aq_Body q in
      if p = ''/v1/xray/stats'' then
        Some (agent_answer AXrayStats (handleXrayStats os (ag_stats ag) m (agent_query q ''reset'') h))
      else if p = ''/v1/wireguard/peer-state'' then
        Some (agent_answer AJson (handleWGPeerState os m (ag_peer_state ag b) h))
      else if p = ''/v1/wireguard/runtime'' then Some (agent_answer ARuntime (handleWGRuntime os m h))
      else None)"

definition outbound_routes ::
  "'h agent \<Rightarrow> agent_request \<Rightarrow> string \<Rightarrow> 'h host \<Rightarrow> (agent_payload response \<times> 'h host) option" where
  "outbound_routes ag q p h =
     (let os = ag_os ag; m = aq_Method q; b = aq_Body q in
      if p = ''/v1/wireguard/outbounds/sync'' then
        Some (agent_answer AWGSync (handleWGOutboundSync os m (ag_wg_outbounds ag b) h))
      else if p = ''/v1/tor/outbounds/sync'' then
        Some (agent_answer ATor (handleTorOutboundSync os m (ag_tor_outbounds ag b) h))
      else if p = ''/v1/tor/status'' then Some (agent_answer ATor (handleTorStatus os (ag_stored_tor ag) m h))
      else if p = ''/v1/openvpn/outbounds/sync'' then
        Some (agent_answer AOpenVPN
          (handleOpenVPNOutboundSync os (ag_stored_openvpn ag) m (ag_openvpn_outbounds ag b) h))
      else if p = ''/v1/openvpn/status'' then
        Some (agent_answer AOpenVPN (handleOpenVPNStatus os (ag_stored_openvpn ag) m h, h))
      else None)"

definition host_routes ::
  "'h agent \<Rightarrow> agent_request \<Rightarrow> string \<Rightarrow> 'h host \<Rightarrow> (agent_payload response \<times> 'h host) option" where
  "host_routes ag q p h =
     (let os = ag_os ag; m = aq_Method q; b = aq_Body q in
      if p = ''/v1/status'' then Some (handleStatus ag m h)
      else if p = ''/v1/tunnels'' then Some (agent_answer AJson (handleTunnels os m (ag_tunnel ag b) h))
      else if HasPrefix p ''/v1/tunnels/'' then Some (agent_answer AJson (handleTunnelItem os m p h))
      else if p = ''/v1/logs'' then
        Some (agent_answer AJson (handleLogs os m (agent_query q ''unit'') (agent_query q ''lines'') h))
      else if p = ''/v1/forwards'' then Some (agent_answer AJson (handleForwards os m (ag_forward ag b) h))
      else if HasPrefix p ''/v1/forwards/'' then
        Some (agent_answer AJson (handleForwardItem os (ag_stored_forward ag) m p h))
      else if p = ''/v1/wireguard/server'' then
        Some (agent_answer AJson (handleWGServer os m (ag_wg_server ag b) h))
      else if p = ''/v1/wireguard/peer'' then
        Some (agent_answer AJson
          (handleWGPeer os m (agent_query q ''interface'') (agent_query q ''public_key'') (ag_wg_peer ag b) h))
      else if p = ''/v1/wireguard/stats'' then Some (agent_answer AWGStats (handleWGStats os m h))
      else None)"

definition agent_route ::
  "'h agent \<Rightarrow> agent_request \<Rightarrow> 'h host \<Rightarrow> (agent_payload response \<times> 'h host) option" where
  "agent_route ag q h =
     (let p = aq_Path q in
      case host_routes ag q p h of Some a \<Rightarrow> Some a
      | None \<Rightarrow> (case outbound_routes ag q p h of Some a \<Rightarrow> Some a
      | None \<Rightarrow> (case xray_routes ag q p h of Some a \<Rightarrow> Some a
      | None \<Rightarrow> phase3_routes ag q p h)))"

text \<open>Every route is behind the token check; a path without a route is not found.\<close>

definition token_ok :: "'h agent \<Rightarrow> agent_request \<Rightarrow> bool" where
  "token_ok ag q \<longleftrightarrow> aq_Authorization q = ''Bearer '' @ ag_Token ag"

definition agent_serve :: "'h agent \<Rightarrow> agent_request \<Rightarrow> 'h host \<Rightarrow> agent_payload response \<times> 'h host" where
  "agent_serve ag q h =
     (case agent_route ag q h of
        None \<Rightarrow> (JsonError 404 ''404 page not found'', h)
      | Some a \<Rightarrow> if token_ok ag q then a else (JsonError 401 ''unauthorized'', h))"

end
