(* ===== verification/AgentSafety.thy ===== *)
theory AgentSafety
  imports AgentServer
begin

text \<open>
  Where the agent works: the files its own code writes, renames or removes, over all requests. A file
  outside of this area is left as it is, whatever the request says, as long as the programs the agent
  starts leave it alone; and a request without the token changes nothing at all.
\<close>

section \<open>The area of the agent\<close>

definition agent_dirs :: "string list" where
  "agent_dirs =
     [tunnel_dir, kernel_dir, forward_dir, ''/etc/wireguard'', managedTorOutboundDir, managedWGOutboundDir,
      managedOpenVPNOutboundDir, xrayConfigDir]"

text \<open>
  A file of one of these directories, a unit of systemd whose name begins with gamebridge-, or a file
  below the data directory of the Tor outbounds. A name has no slash, so no path leaves its directory.
\<close>

definition agent_area :: "string \<Rightarrow> bool" where
  "agent_area p \<longleftrightarrow>
     (\<exists>d n. d \<in> set agent_dirs \<and> CHR 0x2F \<notin> set n \<and> p = in_dir d n) \<or>
     (\<exists>n. CHR 0x2F \<notin> set n \<and> p = in_dir systemd_dir (''gamebridge-'' @ n)) \<or>
     HasPrefix p (managedTorDataDir @ ''/'')"

text \<open>A file outside of it that no program touches and that is not the name of a new temporary file.\<close>

definition outside :: "'h os \<Rightarrow> string \<Rightarrow> bool" where
  "outside os p \<longleftrightarrow>
     \<not> agent_area p \<and> (\<forall>args inp h. file_at p (snd (os_Run os args inp h)) = file_at p h) \<and>
     (\<forall>w. fst (os_TempName os w) \<noteq> Inr p)"

subsection \<open>The paths of the agent\<close>

lemma area_dir: "d \<in> set agent_dirs \<Longrightarrow> CHR 0x2F \<notin> set n \<Longrightarrow> agent_area (in_dir d n)"
  unfolding agent_area_def by blast

lemma area_unit: "CHR 0x2F \<notin> set n \<Longrightarrow> agent_area (in_dir systemd_dir (''gamebridge-'' @ n))"
  unfolding agent_area_def by blast

named_theorems area_simps \<open>the paths the agent uses are in its area\<close>

lemma safeName_slash: "safeName n \<Longrightarrow> CHR 0x2F \<notin> set n"
  by (simp add: safeName_def safe_no_slash)

lemma safe_component_slash: "safe_component n \<Longrightarrow> CHR 0x2F \<notin> set n"
  by (simp add: safe_component_plain safe_no_slash)

lemma Itoa_slash: "CHR 0x2F \<notin> set (Itoa n)"
proof -
  have "CHR 0x2F \<notin> set (nat_digits k)" for k
  proof
    assume "CHR 0x2F \<in> set (nat_digits k)"
    then have "is_digit (CHR 0x2F)" using nat_digits_digit [of k] by (simp add: list_all_iff)
    moreover have "\<not> is_digit (CHR 0x2F)" by code_simp
    ultimately show False by simp
  qed
  then show ?thesis by (simp add: Itoa_def)
qed

lemma area_tunnels [area_simps]:
  "safeName n \<Longrightarrow> agent_area (userspace_file n)" "safeName n \<Longrightarrow> agent_area (kernel_file n)"
  "safeName n \<Longrightarrow> agent_area (in_dir forward_dir (n @ ''.json''))"
  "safeName n \<Longrightarrow> agent_area (in_dir forward_dir (n @ ''.sh''))"
  "agent_area ''/etc/gamebridge/forward-rules.sh''" "safeName n \<Longrightarrow> agent_area (wg_server_path n)"
proof -
  have "agent_area (in_dir tunnel_dir ''forward-rules.sh'')"
    by (rule area_dir) (simp_all add: agent_dirs_def)
  then show "agent_area ''/etc/gamebridge/forward-rules.sh''" by (simp add: in_dir_def tunnel_dir_def)
qed (auto simp: userspace_file_def kernel_file_def wg_server_path_def agent_dirs_def
    dest: safeName_slash intro!: area_dir)

lemma area_outbounds [area_simps]:
  "safe_component n \<Longrightarrow> agent_area (in_dir managedTorOutboundDir (n @ ''.torrc''))"
  "safe_component n \<Longrightarrow> agent_area (marker managedTorOutboundDir n)"
  "safe_component n \<Longrightarrow> agent_area (in_dir systemd_dir (''gamebridge-tor-'' @ n @ ''.service''))"
  "safe_component n \<Longrightarrow> agent_area (wg_config n)" "safe_component n \<Longrightarrow> agent_area (wg_config n @ ''.gamebridge.tmp'')"
  "safe_component n \<Longrightarrow> agent_area (marker managedWGOutboundDir n)"
  "safe_component n \<Longrightarrow> agent_area (in_dir managedOpenVPNOutboundDir (n @ ''.ovpn''))"
  "safe_component n \<Longrightarrow> agent_area (in_dir managedOpenVPNOutboundDir (n @ ''.auth''))"
  "safe_component n \<Longrightarrow> agent_area (marker managedOpenVPNOutboundDir n)"
  "safe_component n \<Longrightarrow> agent_area (in_dir managedOpenVPNOutboundDir (n @ ''-route.sh''))"
  "safe_component n \<Longrightarrow> agent_area (in_dir ''/etc/systemd/system'' (''gamebridge-openvpn-'' @ n @ ''.service''))"
proof -
  assume n: "safe_component n"
  then have s: "CHR 0x2F \<notin> set n" by (rule safe_component_slash)
  have "agent_area (in_dir systemd_dir (''gamebridge-'' @ ''tor-'' @ n @ ''.service''))"
    "agent_area (in_dir systemd_dir (''gamebridge-'' @ ''openvpn-'' @ n @ ''.service''))"
    by (rule area_unit; use s in simp)+
  then show "agent_area (in_dir systemd_dir (''gamebridge-tor-'' @ n @ ''.service''))"
    "agent_area (in_dir ''/etc/systemd/system'' (''gamebridge-openvpn-'' @ n @ ''.service''))"
    by (simp_all add: systemd_dir_def)
  have "agent_area (in_dir ''/etc/wireguard'' (n @ ''.conf.gamebridge.tmp''))"
    using s by (intro area_dir) (simp_all add: agent_dirs_def)
  then show "agent_area (wg_config n @ ''.gamebridge.tmp'')" by (simp add: wg_config_def in_dir_def)
qed (auto simp: marker_def wg_config_def agent_dirs_def dest: safe_component_slash intro!: area_dir)

lemmas area_units [area_simps] = area_outbounds(3,11) [simplified]

lemma area_xray [area_simps]:
  "agent_area xrayConfigPath" "agent_area xrayBackupPath" "agent_area (xrayConfigPath @ ''.gbtmp-'' @ Itoa k)"
proof -
  have "agent_area (in_dir xrayConfigDir (''config.json'' @ s))" if "CHR 0x2F \<notin> set s" for s
    using that by (intro area_dir) (simp_all add: agent_dirs_def)
  from this [of "[]"] this [of "''.gamebridge.bak''"] this [of "''.gbtmp-'' @ Itoa k"]
  show "agent_area xrayConfigPath" "agent_area xrayBackupPath" "agent_area (xrayConfigPath @ ''.gbtmp-'' @ Itoa k)"
    by (simp_all add: xrayConfigPath_def xrayBackupPath_def in_dir_def Itoa_slash)
qed

section \<open>The steps of the agent\<close>

lemma outside_area: "outside os p \<Longrightarrow> agent_area q \<Longrightarrow> p \<noteq> q"
  by (auto simp: outside_def)

named_theorems outside_simps \<open>a file outside of the area after a step of the agent\<close>

lemma outside_files [outside_simps]:
  assumes "outside os p"
  shows "agent_area q \<Longrightarrow> file_at p (snd (WriteFile os q b h)) = file_at p h"
    "agent_area q \<Longrightarrow> file_at p (RemoveFile os q h) = file_at p h"
    "agent_area q \<Longrightarrow> agent_area q' \<Longrightarrow> file_at p (snd (Rename os q q' h)) = file_at p h"
    "file_at p (RemoveTree os (in_dir managedTorDataDir n) h) = file_at p h"
    "file_at p (snd (MkdirAll os q h)) = file_at p h"
proof -
  show "file_at p (snd (WriteFile os q b h)) = file_at p h" if "agent_area q"
    using outside_area [OF assms that] file_WriteFile(1) [of os q b h _ _ p] by (cases "WriteFile os q b h") simp
  show "file_at p (RemoveFile os q h) = file_at p h" if "agent_area q"
    using outside_area [OF assms that] by (rule file_RemoveFile)
  show "file_at p (snd (Rename os q q' h)) = file_at p h" if "agent_area q" "agent_area q'"
    using spares_Rename [OF outside_area [OF assms that(1)] outside_area [OF assms that(2)], of os] by (simp add: spares_def)
  have "\<not> HasPrefix p (in_dir managedTorDataDir n @ ''/'')"
    using assms by (auto simp: outside_def agent_area_def in_dir_def HasPrefix_append)
  then show "file_at p (RemoveTree os (in_dir managedTorDataDir n) h) = file_at p h" by (rule file_RemoveTree)
  show "file_at p (snd (MkdirAll os q h)) = file_at p h" by (cases "MkdirAll os q h") (simp add: file_MkdirAll)
qed

lemma outside_programs [outside_simps]:
  assumes "outside os p"
  shows "file_at p (snd (os_Run os args inp h)) = file_at p h" "file_at p (snd (command os args h)) = file_at p h"
    "file_at p (snd (run os args h)) = file_at p h" "file_at p (run_ignored os args h) = file_at p h"
    "file_at p (snd (runOutput os args h)) = file_at p h"
  using assms
  by (simp_all add: outside_def command_def run_def run_ignored_def runOutput_def split_beta split: option.split)

lemma outside_temp [outside_simps]:
  assumes "outside os p"
  shows "file_at p (snd (create_temp os h)) = file_at p h"
    "fst (create_temp os h) = Inr q \<Longrightarrow> file_at p (snd (WriteFile os q b h')) = file_at p h'"
    "fst (create_temp os h) = Inr q \<Longrightarrow> file_at p (RemoveFile os q h') = file_at p h'"
proof -
  have other: "q \<noteq> p" if "os_TempName os w = (Inr q, w')" for q w w'
  proof -
    have "fst (os_TempName os w) \<noteq> Inr p" using assms by (simp add: outside_def)
    with that show ?thesis by auto
  qed
  then have new: "p \<noteq> q" if "fst (create_temp os h) = Inr q" for q
    using that by (fastforce simp: create_temp_def split: prod.splits sum.splits)
  show "file_at p (snd (create_temp os h)) = file_at p h"
    using other by (fastforce simp: create_temp_def split: prod.splits sum.splits)
  show "file_at p (RemoveFile os q h') = file_at p h'" if "fst (create_temp os h) = Inr q"
    using new [OF that] by (rule file_RemoveFile)
  show "file_at p (snd (WriteFile os q b h')) = file_at p h'" if "fst (create_temp os h) = Inr q"
    using new [OF that] file_WriteFile(1) [of os q b h' _ _ p] by (cases "WriteFile os q b h'") simp
qed

lemma keeps_attempt:
  "(\<And>h. file_at p (snd (f h)) = file_at p h) \<Longrightarrow> (\<And>h. file_at p (snd (k h)) = file_at p h) \<Longrightarrow>
   file_at p (snd (attempt f k h)) = file_at p h"
  by (simp add: attempt_def split_beta split: option.split)

lemma keeps_wait:
  "(\<And>h. file_at p (snd (ready h)) = file_at p h) \<Longrightarrow> file_at p (snd (wait_ready ready os n h)) = file_at p h"
  by (rule spares_wait_ready)

lemma keeps_need:
  "(\<And>a. r = Inr a \<Longrightarrow> file_at p (snd (k a h)) = file_at p h) \<Longrightarrow> file_at p (snd (need r k h)) = file_at p h"
  by (simp add: need_def split: sum.split)

lemma keeps_fold:
  "(\<And>a h. a \<in> set as \<Longrightarrow> file_at p (f a h) = file_at p h) \<Longrightarrow> file_at p (fold f as h) = file_at p h"
  by (induction as arbitrary: h) auto

subsection \<open>The managed outbounds\<close>

lemma keeps_sync:
  assumes app: "\<And>x h. file_at p (snd (app x h)) = file_at p h" and rem: "\<And>n h. file_at p (rem n h) = file_at p h"
  shows "file_at p (snd (sync_managed norm clash name what app rem dir specs h)) = file_at p h"
proof -
  have apps: "file_at p (snd (apply_all app what xs h)) = file_at p h" for xs h
    by (induction xs arbitrary: h) (simp_all add: split_beta app split: option.split)
  have "file_at p (remove_stale rem desired ms h) = file_at p h" for desired ms h
    by (induction ms arbitrary: h) (simp_all add: rem)
  then show ?thesis by (simp add: sync_managed_def split_beta apps split: sum.split option.split)
qed

lemma outside_tor:
  assumes out: "outside os p"
  shows "file_at p (snd (applyManagedTorOutbound os raw h)) = file_at p h"
    "file_at p (removeManagedTorOutbound os name h) = file_at p h"
proof -
  have dial: "file_at p (snd (torSOCKSReady os port h)) = file_at p h" for port h
    by (simp add: torSOCKSReady_def split_beta)
  have wait: "file_at p (snd (tor_wait os x h)) = file_at p h" for x h
    using keeps_wait [OF dial] by (simp add: tor_wait_def split_beta split: bool.split)
  have install: "file_at p (snd (tor_install os x b (in_dir managedTorOutboundDir (n @ ''.torrc''))
      (marker managedTorOutboundDir n) d (in_dir systemd_dir (''gamebridge-tor-'' @ n @ ''.service'')) u h)) = file_at p h"
    if "safe_component n" for x b n d u h
    unfolding tor_install_def tor_start_def attempts.simps
    by (intro keeps_attempt) (simp_all add: that out wait outside_simps area_simps)
  have "file_at p (snd (applyManagedTorOutbound os raw h)) = file_at p h"
    unfolding applyManagedTorOutbound_def
    by (rule keeps_need) (auto simp: normalizeTor_Inr tor_paths install [simplified] split: option.split)
  then show "file_at p (snd (applyManagedTorOutbound os raw h)) = file_at p h" .
  show "file_at p (removeManagedTorOutbound os name h) = file_at p h"
    by (simp add: removeManagedTorOutbound_def safeTorName_eq tor_paths Let_def out outside_simps area_simps)
qed

lemma outside_wg:
  assumes out: "outside os p"
  shows "file_at p (snd (applyManagedWGOutbound os raw h)) = file_at p h"
    "file_at p (removeManagedWGOutbound os name h) = file_at p h"
proof -
  have install: "file_at p (snd (wg_install os x (wg_config n) (marker managedWGOutboundDir n) h)) = file_at p h"
    if "safe_component n" for x n h
    unfolding wg_install_def Let_def attempts.simps
    by (intro keeps_attempt)
      (simp_all add: that out wg_unmanaged_def replace_file_def split_beta outside_simps area_simps split: option.split)
  have paths: "(\<exists>e. wgConfigPath n = Inl e) \<or>
      safe_component (TrimSpace n) \<and> wgConfigPath n = Inr (wg_config (TrimSpace n)) \<and>
      managedWGMarker n = Inr (marker managedWGOutboundDir (TrimSpace n))" for n
    by (simp add: wgConfigPath_def managedWGMarker_def safeWGPathComponent_eq wg_config_def marker_def)
  have rest: "file_at p (snd (need (wgConfigPath n) (\<lambda>cfgPath. need (managedWGMarker n) (\<lambda>mark. wg_install os x cfgPath mark)) h)) =
      file_at p h" for x n h
    using paths [of n] by (auto simp: install)
  show "file_at p (snd (applyManagedWGOutbound os raw h)) = file_at p h"
    unfolding applyManagedWGOutbound_def attempts.simps
    by (rule keeps_need) (intro keeps_attempt; simp add: rest out outside_simps)
  show "file_at p (removeManagedWGOutbound os name h) = file_at p h"
    by (simp add: removeManagedWGOutbound_def safeWGPathComponent_eq wg_paths out outside_simps area_simps)
qed

lemma outside_openvpn:
  assumes out: "outside os p"
  shows "file_at p (snd (applyManagedOpenVPNOutbound os raw h)) = file_at p h"
    "file_at p (removeManagedOpenVPNOutbound os unm name h) = file_at p h"
proof -
  have ready: "file_at p (snd (openVPNInterfaceReady os i h)) = file_at p h" for i h
    by (simp add: openVPNInterfaceReady_def split: sum.split)
  have wait: "file_at p (snd (openvpn_wait os x h)) = file_at p h" for x h
    using keeps_wait [OF ready] by (simp add: openvpn_wait_def split_beta split: bool.split)
  have auth: "file_at p (snd (openvpn_auth os x a has h)) = file_at p h" if "agent_area a" for x a has h
    by (simp add: openvpn_auth_def that out outside_simps)
  have install: "file_at p (snd (openvpn_install os x b (in_dir managedOpenVPNOutboundDir (n @ ''.ovpn''))
      (in_dir managedOpenVPNOutboundDir (n @ ''.auth'')) (marker managedOpenVPNOutboundDir n)
      (in_dir managedOpenVPNOutboundDir (n @ ''-route.sh'')) u
      (in_dir ''/etc/systemd/system'' (''gamebridge-openvpn-'' @ n @ ''.service'')) h)) = file_at p h"
    if "safe_component n" for x b n u h
    unfolding openvpn_install_def openvpn_start_def Let_def attempts.simps
    by (intro keeps_attempt keeps_need) (simp_all add: that out wait auth outside_simps area_simps)
  show "file_at p (snd (applyManagedOpenVPNOutbound os raw h)) = file_at p h"
    unfolding applyManagedOpenVPNOutbound_def
  proof (rule keeps_need)
    fix x assume x: "normalizeOpenVPNOutboundSpec raw = Inr x"
    from normalizeOpenVPN_Inr(1,2) [OF x] have "safe_component (oo_Name x)" by simp
    then show "file_at p (snd (case os_LookPath os ''openvpn'' h of
          None \<Rightarrow> (Some (Plain ''openvpn binary not found on node''), h)
        | Some binary \<Rightarrow>
            need (openVPNConfigPath (oo_Name x)) (\<lambda>configPath.
            need (openVPNAuthPath (oo_Name x)) (\<lambda>authPath.
            need (openVPNMarkerPath (oo_Name x)) (\<lambda>markerPath.
            need (openVPNRouteScriptPath (oo_Name x)) (\<lambda>routeScriptPath.
            need (openVPNUnitName (oo_Name x)) (\<lambda>unitName.
            need (openVPNUnitPath (oo_Name x)) (\<lambda>unitPath.
              openvpn_install os x binary configPath authPath markerPath routeScriptPath unitName unitPath)))))) h)) =
        file_at p h"
      by (simp add: openvpn_paths install [simplified] split: option.split)
  qed
  have unroute: "file_at p (openvpn_unroute os meta h) = file_at p h" for meta h
    by (simp add: openvpn_unroute_def out outside_simps)
  show "file_at p (removeManagedOpenVPNOutbound os unm name h) = file_at p h"
    by (simp add: removeManagedOpenVPNOutbound_def safeOpenVPNName_eq openvpn_paths Let_def openvpn_remove_files_def
        unroute out outside_simps area_simps)
qed

section \<open>The handlers\<close>

lemma outside_sync [outside_simps]:
  assumes "outside os p"
  shows "file_at p (snd (handleTorOutboundSync os m tors h)) = file_at p h"
    "file_at p (snd (handleWGOutboundSync os m wgs h)) = file_at p h"
    "file_at p (snd (handleOpenVPNOutboundSync os unm m vpns h)) = file_at p h"
proof -
  have "file_at p (snd (syncManagedTorOutbounds os ts h)) = file_at p h"
      "file_at p (snd (syncManagedWGOutbounds os ws h)) = file_at p h"
      "file_at p (snd (syncManagedOpenVPNOutbounds os unm vs h)) = file_at p h" for ts ws vs h
    unfolding syncManagedTorOutbounds_def syncManagedWGOutbounds_def syncManagedOpenVPNOutbounds_def
    by (rule keeps_sync; simp add: outside_tor outside_wg outside_openvpn assms)+
  then show "file_at p (snd (handleTorOutboundSync os m tors h)) = file_at p h"
      "file_at p (snd (handleWGOutboundSync os m wgs h)) = file_at p h"
      "file_at p (snd (handleOpenVPNOutboundSync os unm m vpns h)) = file_at p h"
    by (simp_all add: handleTorOutboundSync_def handleWGOutboundSync_def handleOpenVPNOutboundSync_def split_beta
        split: sum.split option.split)
qed

lemma outside_tor_status [outside_simps]:
  "file_at p (snd (handleTorStatus os unmarshal m h)) = file_at p h"
proof -
  have "file_at p (snd (list_tor os unmarshal ms h)) = file_at p h" for ms h
    by (induction ms arbitrary: h) (simp_all add: torSOCKSReady_def split_beta split: sum.split option.split)
  then show ?thesis by (simp add: handleTorStatus_def listManagedTorOutbounds_def split_beta)
qed

lemma outside_tunnels [outside_simps]:
  assumes out: "outside os p"
  shows "file_at p (snd (handleTunnels os m tunnel h)) = file_at p h"
    "file_at p (snd (handleTunnelItem os m path h)) = file_at p h"
    "file_at p (snd (listTunnels os h)) = file_at p h"
proof -
  have status: "file_at p (snd (tunnelStatus os n h)) = file_at p h" for n h
    by (simp add: tunnelStatus_def Let_def split_beta out outside_simps)
  have "file_at p (snd (list_tunnels os seen ps h)) = file_at p h" for seen ps h
    by (induction ps arbitrary: seen h) (simp_all add: split_beta status)
  then show list: "file_at p (snd (listTunnels os h)) = file_at p h" for h
    by (simp add: listTunnels_def Let_def split_beta)
  have enable: "file_at p (snd (enable_unit os u h)) = file_at p h" for u h
    by (simp add: enable_unit_def out outside_simps)
  have "file_at p (snd (createUserspaceTunnel os x h)) = file_at p h" if "safeName (ts_Name x)" for x h
    unfolding createUserspaceTunnel_def attempts.simps
    by (simp, intro impI keeps_attempt) (simp_all add: that out enable outside_simps area_simps)
  moreover have "file_at p (snd (createKernelTunnel os x h)) = file_at p h" if "safeName (ts_Name x)" for x h
    unfolding createKernelTunnel_def attempts.simps Let_def
    by (intro keeps_need keeps_attempt) (simp_all add: kernel_defaults_def that out enable outside_simps area_simps)
  ultimately show "file_at p (snd (handleTunnels os m tunnel h)) = file_at p h"
    by (simp add: handleTunnels_def split_beta list split: sum.split option.split)
  have action: "file_at p (snd (tunnel_action os n a h)) = file_at p h" for n a h
    by (simp add: tunnel_action_def Let_def split_beta status out outside_simps split: option.split)
  have "file_at p (deleteTunnel os n h) = file_at p h" if "safeName n" for n
    by (simp add: deleteTunnel_def Let_def that out outside_simps area_simps)
  then show "file_at p (snd (handleTunnelItem os m path h)) = file_at p h"
    by (simp add: handleTunnelItem_def Let_def action)
qed

lemma outside_forwards [outside_simps]:
  assumes out: "outside os p"
  shows "file_at p (snd (handleForwards os m fwd h)) = file_at p h"
    "file_at p (snd (handleForwardItem os unmarshal m path h)) = file_at p h"
proof -
  have rules: "file_at p (snd (install_rules os as h)) = file_at p h" for as h
    by (induction as arbitrary: h) (simp_all add: split_beta out outside_simps split: option.split)
  have "file_at p (snd (installForward os f h)) = file_at p h" if "safeName (fw_ID f)" for f h
  proof -
    have "file_at p (snd (attempts [install_rules os as, WriteFile os (in_dir forward_dir (fw_ID f @ ''.sh'')) b]
        (ensureForwardAggregator os) h)) = file_at p h" for as b h
      unfolding attempts.simps
      by (intro keeps_attempt) (simp_all add: rules that out ensureForwardAggregator_def outside_simps area_simps)
    then show ?thesis
      unfolding installForward_def Let_def by (simp only: outside_simps area_simps out that snd_conv split: if_split) simp
  qed
  then show "file_at p (snd (handleForwards os m fwd h)) = file_at p h"
    by (simp add: handleForwards_def split_beta split: sum.split option.split)
  have drop: "file_at p (fold (\<lambda>a. run_ignored os (''iptables'' # a)) as h) = file_at p h" for as h
    by (rule keeps_fold) (simp add: out outside_simps)
  have "file_at p (deleteForward os unmarshal i h) = file_at p h" if "safeName i" for i
    by (simp add: deleteForward_def Let_def that out drop outside_simps area_simps split: option.split)
  then show "file_at p (snd (handleForwardItem os unmarshal m path h)) = file_at p h"
    by (simp add: handleForwardItem_def Let_def)
qed

lemma outside_peers [outside_simps]:
  assumes out: "outside os p"
  shows "file_at p (snd (handleWGServer os m server h)) = file_at p h"
    "file_at p (snd (handleWGPeer os m iface pub peer h)) = file_at p h"
    "file_at p (snd (handleWGStats os m h)) = file_at p h"
proof -
  have pubkey: "file_at p (snd (wg_pubkey os k h)) = file_at p h" "file_at p (snd (wgPub os k h)) = file_at p h" for k h
    by (simp_all add: wg_pubkey_def wgPub_def split_beta out outside_simps)
  have gen: "file_at p (snd (wgGen os h)) = file_at p h" for h
    by (simp add: wgGen_def Let_def split_beta pubkey out outside_simps split: option.split)
  have "file_at p (snd (wg_create os x path h)) = file_at p h" if "agent_area path" for x path h
    by (simp add: wg_create_def split_beta gen that out outside_simps split: sum.split option.split)
  then have "file_at p (snd (ensureWG os x h)) = file_at p h" for x h
    by (simp add: ensureWG_def wg_defaults_def Let_def split_beta pubkey out outside_simps area_simps)
  then show "file_at p (snd (handleWGServer os m server h)) = file_at p h"
    by (simp add: handleWGServer_def split_beta split: sum.split)
  have keyed: "file_at p (snd (peer_with_key os x k pk psk tmp h)) = file_at p h" for x k pk psk tmp h
    by (simp add: peer_with_key_def Let_def split_beta pubkey out outside_simps split: option.split)
  have "file_at p (snd (addWGPeer os x h)) = file_at p h" for x h
    by (simp add: addWGPeer_def Let_def split_beta gen keyed out outside_simps split: sum.split)
  then show "file_at p (snd (handleWGPeer os m iface pub peer h)) = file_at p h"
    by (simp add: handleWGPeer_def split_beta out outside_simps split: sum.split option.split)
  show "file_at p (snd (handleWGStats os m h)) = file_at p h"
    by (simp add: handleWGStats_def split_beta out outside_simps)
qed

lemma outside_xray [outside_simps]:
  assumes out: "outside os p"
  shows "file_at p (snd (handleXrayStatus os m h)) = file_at p h"
    "file_at p (snd (handleXrayInstall os m h)) = file_at p h"
    "file_at p (snd (handleXrayX25519 os m h)) = file_at p h"
    "file_at p (snd (handleXrayApply os valid m body h)) = file_at p h"
proof -
  have status: "file_at p (snd (xrayStatus os h)) = file_at p h" for h
    by (simp add: xrayStatus_def Let_def split_beta out outside_simps)
  then show "file_at p (snd (handleXrayStatus os m h)) = file_at p h"
    by (simp add: handleXrayStatus_def split_beta)
  show "file_at p (snd (handleXrayInstall os m h)) = file_at p h"
    by (simp add: handleXrayInstall_def split_beta status out outside_simps split: option.split)
  show "file_at p (snd (handleXrayX25519 os m h)) = file_at p h"
    by (simp add: handleXrayX25519_def Let_def split_beta out outside_simps split: option.split)
  have backup: "file_at p (snd (xray_backup os h)) = file_at p h" for h
    by (simp add: xray_backup_def split_beta out outside_simps area_simps split: sum.split option.split)
  have restore: "file_at p (xray_restore os b h) = file_at p h" for b h
    by (simp add: xray_restore_def out outside_simps area_simps split: sum.split)
  have restart: "file_at p (snd (xray_restart os b h)) = file_at p h" for b h
    by (simp add: xray_restart_def Let_def split_beta status restore out outside_simps split: option.split)
  have "file_at p (snd (xray_replace os bin tmp h)) = file_at p h" for bin tmp h
    by (simp add: xray_replace_def split_beta backup restart out outside_simps area_simps split: sum.split option.split)
  then show "file_at p (snd (handleXrayApply os valid m body h)) = file_at p h"
    using area_xray(3) [simplified]
    by (simp add: handleXrayApply_def Let_def split_beta out outside_simps area_simps split: sum.split option.split)
qed

lemma outside_phase3 [outside_simps]:
  assumes out: "outside os p"
  shows "file_at p (snd (handleXrayStats os unmarshal m reset h)) = file_at p h"
    "file_at p (snd (handleWGRuntime os m h)) = file_at p h"
    "file_at p (snd (handleWGPeerState os m peer h)) = file_at p h"
    "file_at p (snd (handleLogs os m u l h)) = file_at p h"
proof -
  show "file_at p (snd (handleXrayStats os unmarshal m reset h)) = file_at p h"
    by (simp add: handleXrayStats_def Let_def split_beta out outside_simps split: sum.split option.split)
  show "file_at p (snd (handleWGRuntime os m h)) = file_at p h"
    by (simp add: handleWGRuntime_def split_beta out outside_simps)
  have "file_at p (snd (wg_save os i h)) = file_at p h" for i h
    by (simp add: wg_save_def out outside_simps)
  then show "file_at p (snd (handleWGPeerState os m peer h)) = file_at p h"
    by (simp add: handleWGPeerState_def split_beta out outside_simps split: sum.split option.split)
  show "file_at p (snd (handleLogs os m u l h)) = file_at p h"
    by (simp add: handleLogs_def Let_def split_beta out outside_simps)
qed

section \<open>Every request\<close>

lemma agent_answer_host [simp]: "snd (agent_answer wrap x) = snd x"
  by (cases x) simp

lemma outside_routes:
  assumes out: "outside (ag_os ag) p"
  shows "host_routes ag q path h = Some a \<Longrightarrow> file_at p (snd a) = file_at p h"
    "outbound_routes ag q path h = Some a \<Longrightarrow> file_at p (snd a) = file_at p h"
    "xray_routes ag q path h = Some a \<Longrightarrow> file_at p (snd a) = file_at p h"
    "phase3_routes ag q path h = Some a \<Longrightarrow> file_at p (snd a) = file_at p h"
proof -
  have status: "file_at p (snd (handleStatus ag m h)) = file_at p h" for m
    by (simp add: handleStatus_def collectMetrics_def split_beta out outside_simps)
  have probe: "file_at p (snd (agent_probe ag q h)) = file_at p h"
    by (simp add: agent_probe_def split_beta)
  show "host_routes ag q path h = Some a \<Longrightarrow> file_at p (snd a) = file_at p h"
    by (auto simp: host_routes_def Let_def status out outside_simps split: if_splits)
  show "outbound_routes ag q path h = Some a \<Longrightarrow> file_at p (snd a) = file_at p h"
    by (auto simp: outbound_routes_def Let_def out outside_simps split: if_splits)
  show "xray_routes ag q path h = Some a \<Longrightarrow> file_at p (snd a) = file_at p h"
    by (auto simp: xray_routes_def Let_def probe out outside_simps split: if_splits)
  show "phase3_routes ag q path h = Some a \<Longrightarrow> file_at p (snd a) = file_at p h"
    by (auto simp: phase3_routes_def Let_def out outside_simps split: if_splits)
qed

lemma outside_route:
  "outside (ag_os ag) p \<Longrightarrow> agent_route ag q h = Some a \<Longrightarrow> file_at p (snd a) = file_at p h"
  by (auto simp: agent_route_def Let_def dest: outside_routes split: option.splits)

text \<open>
  C11: whatever a request says, the agent's own file accesses stay in its area: a file outside of it, which the
  programs it starts leave alone, is as it was after any sequence of requests. And a request without the token
  changes nothing on the host and is answered with 401, or with 404 where there is no route.
\<close>

theorem agent_confined:
  "(outside (ag_os ag) p \<longrightarrow> file_at p (fold (\<lambda>q h. snd (agent_serve ag q h)) qs h) = file_at p h) \<and>
   (\<not> token_ok ag q \<longrightarrow>
      agent_serve ag q h \<in> {(JsonError 401 ''unauthorized'', h), (JsonError 404 ''404 page not found'', h)})"
proof (intro conjI impI)
  assume "outside (ag_os ag) p"
  then have "file_at p (snd (agent_serve ag q h)) = file_at p h" for q h
    using outside_route [of ag p q h] by (auto simp: agent_serve_def split: option.split)
  then show "file_at p (fold (\<lambda>q h. snd (agent_serve ag q h)) qs h) = file_at p h"
    by (induction qs arbitrary: h) simp_all
qed (auto simp: agent_serve_def split: option.split)

definition sample_agent :: "unit agent" where
  "sample_agent =
     \<lparr>ag_os = sample_os, ag_Token = ''secret'', ag_Version = ''dev'',
      ag_probes = \<lparr>sy_Hostname = \<lambda>_. [], sy_Float = \<lambda>_. 0, sy_Floats = \<lambda>_. (0, 0, 0), sy_Field = \<lambda>_. ([], 0),
                    sy_Disk = \<lambda>_. (0, 0)\<rparr>,
      ag_fetch = \<lambda>_ _ w. ((Inr 204, 1), w), ag_dialer = None, ag_now = \<lambda>_. 0, ag_json_valid = \<lambda>_. True,
      ag_tunnel = \<lambda>_. Inl (Plain ''unexpected end of JSON input''),
      ag_forward = \<lambda>_. Inr \<lparr>fw_ID = ''web'', fw_Protocol = ''tcp'', fw_ListenPort = 443, fw_DestIP = ''10.0.0.2'', fw_DestPort = 443\<rparr>,
      ag_stored_forward = \<lambda>_. None, ag_wg_server = \<lambda>_. Inl (Plain ''unexpected end of JSON input''),
      ag_wg_peer = \<lambda>_. Inl (Plain ''unexpected end of JSON input''), ag_wg_outbounds = \<lambda>_. Inr [],
      ag_tor_outbounds = \<lambda>_. Inr [], ag_stored_tor = \<lambda>_. None, ag_openvpn_outbounds = \<lambda>_. Inr [],
      ag_stored_openvpn = \<lambda>_. (zero_openvpn, False), ag_config = \<lambda>b. Inr b, ag_port = \<lambda>_. Inr 30000,
      ag_stats = \<lambda>_. Inr [], ag_peer_state = \<lambda>_. Inl (Plain ''unexpected end of JSON input'')\<rparr>"

definition sample_query :: "string \<Rightarrow> agent_request" where
  "sample_query token =
     \<lparr>aq_Method = ''POST'', aq_Path = ''/v1/forwards'', aq_Authorization = ''Bearer '' @ token, aq_Query = [],
      aq_Body = ''{}''\<rparr>"

text \<open>A forward is installed: its script is written, the password file is untouched; a wrong token installs nothing.\<close>

theorem agent_confined_witness:
  "file_at ''/etc/passwd'' (fold (\<lambda>q h. snd (agent_serve sample_agent q h)) [sample_query ''secret''] (sample_host [''/etc/passwd'']))
     = Some ''{}'' \<and>
   snd (agent_serve sample_agent (sample_query ''guess'') (sample_host [''/etc/passwd''])) = sample_host [''/etc/passwd'']"
proof -
  have "\<forall>d \<in> set agent_dirs. \<forall>n. ''/etc/passwd'' \<noteq> in_dir d n"
    by (simp add: agent_dirs_def in_dir_def tunnel_dir_def kernel_dir_def forward_dir_def managedTorOutboundDir_def
        managedWGOutboundDir_def managedOpenVPNOutboundDir_def xrayConfigDir_def)
  moreover have "''/etc/passwd'' \<noteq> in_dir systemd_dir (''gamebridge-'' @ n)" for n
    by (simp add: in_dir_def systemd_dir_def)
  moreover have "\<not> HasPrefix ''/etc/passwd'' (managedTorDataDir @ ''/'')" by code_simp
  ultimately have "\<not> agent_area ''/etc/passwd''" by (auto simp: agent_area_def)
  then have out: "outside (ag_os sample_agent) ''/etc/passwd''"
    by (simp add: outside_def sample_agent_def sample_os_def)
  have wrong: "\<not> token_ok sample_agent (sample_query ''guess'')"
    by (simp add: token_ok_def sample_agent_def sample_query_def)
  have passwd: "file_at ''/etc/passwd'' (sample_host [''/etc/passwd'']) = Some ''{}''"
    by (simp add: file_at_def sample_host_def)
  show ?thesis
    using agent_confined [of sample_agent "''/etc/passwd''" "[sample_query ''secret'']" "sample_host [''/etc/passwd'']"
        "sample_query ''guess''"] out wrong passwd
    by auto
qed

text \<open>The forward of the example is installed.\<close>

lemma sample_forward_installed:
  "file_at (in_dir forward_dir ''web.sh'') (snd (agent_serve sample_agent (sample_query ''secret'') (sample_host [])))
     \<noteq> None"
  by code_simp

end
