(* ===== verification/CoreConfig.thy ===== *)
theory CoreConfig
  imports AgentTunnels Tunnels Security
begin

text \<open>
  The tunnel program of a node, gamebridge-core: its configuration (src/internal/config/config.go), the
  preparation of the network interface (src/internal/tun/tun_linux.go and src/internal/system/network.go),
  the sealed packets (src/internal/secure/box.go) and the order in which main of
  src/cmd/gamebridge-core starts them. The programs it runs and its files are those of Host.
\<close>

section \<open>The configuration\<close>

record CoreConfig =
  cc_Name :: string
  cc_Role :: string
  cc_Transport :: string
  cc_ListenHost :: string
  cc_PeerHost :: string
  cc_Ports :: "int list"
  cc_Interface :: string
  cc_LocalCIDR :: string
  cc_PeerIP :: string
  cc_MTU :: int
  cc_KeyHex :: string
  cc_Profile :: string
  cc_DuplicateSmall :: bool
  cc_DuplicateThreshold :: int
  cc_KCPDataShards :: int
  cc_KCPParityShards :: int
  cc_ICMPID :: int
  cc_ICMPPollMS :: int
  cc_ICMPBurst :: int
  cc_NAT :: bool
  cc_InternetInterface :: string
  cc_KeepaliveMS :: int
  cc_PathTimeoutMS :: int

definition or_default :: "'a \<Rightarrow> 'a \<Rightarrow> 'a \<Rightarrow> 'a" where
  "or_default zero d x = (if x = zero then d else x)"

definition default_MTU :: "string \<Rightarrow> int" where
  "default_MTU transport =
     (let t = ToLower transport in if t = ''icmp'' then 900 else if t = ''quic'' then 1280 else 1360)"

definition default_shards :: "CoreConfig \<Rightarrow> CoreConfig" where
  "default_shards c =
     (if \<not> Contains (cc_Transport c) ''kcp'' then c
      else c\<lparr>cc_KCPDataShards := or_default 0 10 (cc_KCPDataShards c),
             cc_KCPParityShards := or_default 0
               (if ToLower (cc_Profile c) = ''lossy'' then 3
                else if ToLower (cc_Profile c) = ''stable'' then 2 else 0) (cc_KCPParityShards c)\<rparr>)"

definition default_values :: "CoreConfig \<Rightarrow> CoreConfig" where
  "default_values c =
     c\<lparr>cc_Name := or_default [] ''default'' (cc_Name c),
       cc_ListenHost := or_default [] ''0.0.0.0'' (cc_ListenHost c),
       cc_Interface := or_default [] ''gb0'' (cc_Interface c),
       cc_MTU := or_default 0 (default_MTU (cc_Transport c)) (cc_MTU c),
       cc_Profile := or_default [] ''competitive'' (cc_Profile c),
       cc_DuplicateThreshold := or_default 0 512 (cc_DuplicateThreshold c),
       cc_KeepaliveMS := or_default 0 1000 (cc_KeepaliveMS c),
       cc_PathTimeoutMS := or_default 0 5000 (cc_PathTimeoutMS c),
       cc_ICMPPollMS := or_default 0 8 (cc_ICMPPollMS c),
       cc_ICMPBurst := or_default 0 4 (cc_ICMPBurst c)\<rparr>"

definition default_duplicate :: "CoreConfig \<Rightarrow> CoreConfig" where
  "default_duplicate c =
     (if EqualFold (cc_Profile c) ''stable'' \<or> EqualFold (cc_Profile c) ''lossy''
      then c\<lparr>cc_DuplicateSmall := True\<rparr> else c)"

definition config_Defaults :: "CoreConfig \<Rightarrow> CoreConfig" where
  "config_Defaults c = default_duplicate (default_shards (default_values c))"

definition config_Validate :: "CoreConfig \<Rightarrow> go_error option" where
  "config_Validate c =
     (let role = ToLower (cc_Role c); t = ToLower (cc_Transport c) in
      if role \<noteq> ''client'' \<and> role \<noteq> ''server''
        then Some (Plain (''role must be '' @ Quote ''client'' @ '' or '' @ Quote ''server''))
      else if t \<notin> {''pulseudp'', ''pulseudp-mp'', ''kcp'', ''quic'', ''icmp''}
        then Some (Plain (''unsupported userspace transport: '' @ Quote (cc_Transport c)))
      else if cc_LocalCIDR c = [] \<or> cc_PeerIP c = [] then Some (Plain ''local_cidr and peer_ip are required'')
      else if cc_KeyHex c = [] then Some (Plain ''key_hex is required'')
      else if role = ''client'' \<and> cc_PeerHost c = [] then Some (Plain ''peer_host is required in client mode'')
      else if t \<noteq> ''icmp'' \<and> cc_Ports c = [] then Some (Plain ''at least one port is required'')
      else None)"

text \<open>decode is json.Unmarshal into a Config.\<close>

definition config_Load ::
  "'h os \<Rightarrow> (string \<Rightarrow> go_error + CoreConfig) \<Rightarrow> string \<Rightarrow> 'h host \<Rightarrow> go_error + CoreConfig" where
  "config_Load os decode path h =
     (case ReadFile os path h of
        Inl e \<Rightarrow> Inl e
      | Inr b \<Rightarrow>
          (case decode b of
             Inl e \<Rightarrow> Inl e
           | Inr c0 \<Rightarrow>
               let c = config_Defaults c0
               in case config_Validate c of Some e \<Rightarrow> Inl e | None \<Rightarrow> Inr c))"

section \<open>The network interface\<close>

text \<open>fmt prints a list of words between brackets.\<close>

definition configure_step :: "'h os \<Rightarrow> string list \<Rightarrow> 'h host \<Rightarrow> go_error option \<times> 'h host" where
  "configure_step os argv h =
     (case command os argv h of
        ((out, None), h') \<Rightarrow> (None, h')
      | ((out, Some e), h') \<Rightarrow>
          (Some (Plain (''['' @ JoinStrings argv '' '' @ '']: '' @ err_msg e @ '': '' @ out)), h'))"

definition configure_cmds :: "string \<Rightarrow> string \<Rightarrow> string \<Rightarrow> int \<Rightarrow> string list list" where
  "configure_cmds name cidr peerIP mtu =
     [[''ip'', ''link'', ''set'', ''dev'', name, ''up''], [''ip'', ''addr'', ''replace'', cidr, ''dev'', name]] @
     (if 0 < mtu then [[''ip'', ''link'', ''set'', ''dev'', name, ''mtu'', Itoa mtu]] else []) @
     (if peerIP \<noteq> [] then [[''ip'', ''route'', ''replace'', peerIP @ ''/32'', ''dev'', name]] else [])"

definition tun_Configure ::
  "'h os \<Rightarrow> string \<Rightarrow> string \<Rightarrow> string \<Rightarrow> int \<Rightarrow> 'h host \<Rightarrow> go_error option \<times> 'h host" where
  "tun_Configure os name cidr peerIP mtu =
     attempts (map (configure_step os) (configure_cmds name cidr peerIP mtu))
       (\<lambda>h. (None, run_ignored os [''tc'', ''qdisc'', ''replace'', ''dev'', name, ''root'', ''fq_codel''] h))"

definition runOK :: "'h os \<Rightarrow> string list \<Rightarrow> 'h host \<Rightarrow> bool \<times> 'h host" where
  "runOK os args h =
     (if args = [] then (False, h) else (case command os args h of ((_, e), h') \<Rightarrow> (e = None, h')))"

definition iptables_args :: "string \<Rightarrow> string \<Rightarrow> string list \<Rightarrow> string list" where
  "iptables_args tbl op rule = [''iptables''] @ (if tbl \<noteq> [] then [''-t'', tbl] else []) @ [op] @ rule"

definition ensureIptables :: "'h os \<Rightarrow> string \<Rightarrow> string list \<Rightarrow> 'h host \<Rightarrow> 'h host" where
  "ensureIptables os tbl rule h =
     (case runOK os (iptables_args tbl ''-C'' rule) h of
        (True, h') \<Rightarrow> h'
      | (False, h') \<Rightarrow> run_ignored os (iptables_args tbl ''-A'' rule) h')"

definition EnableNAT :: "'h os \<Rightarrow> CoreConfig \<Rightarrow> 'h host \<Rightarrow> 'h host" where
  "EnableNAT os c h =
     (let net = cc_InternetInterface c; dev = cc_Interface c in
      if \<not> cc_NAT c \<or> net = [] then h
      else
        let h1 = snd (WriteFile os ''/proc/sys/net/ipv4/ip_forward'' (''1'' @ [CHR 0x0A]) h);
            h2 = ensureIptables os ''nat'' [''POSTROUTING'', ''-o'', net, ''-j'', ''MASQUERADE''] h1;
            h3 = ensureIptables os [] [''FORWARD'', ''-i'', dev, ''-o'', net, ''-j'', ''ACCEPT''] h2
        in ensureIptables os []
             [''FORWARD'', ''-i'', net, ''-o'', dev, ''-m'', ''conntrack'', ''--ctstate'',
              ''ESTABLISHED,RELATED'', ''-j'', ''ACCEPT''] h3)"

section \<open>Sealed packets\<close>

text \<open>
  A Box is the key; the cipher is AES in Galois counter mode of the record crypto, with a nonce of 12
  bytes and a tag of 16. rand is the random source, which may fail.
\<close>

definition box_New :: "string \<Rightarrow> go_error + string" where
  "box_New hexKey =
     (case hex_decode hexKey of
        None \<Rightarrow> Inl (Plain ''invalid hex key'')
      | Some k \<Rightarrow>
          if length k \<noteq> 32
            then Inl (Plain (''key must be 32 bytes (64 hex chars), got '' @ Itoa (int (length k)) @ '' bytes''))
          else Inr k)"

definition be_uint64 :: "string \<Rightarrow> uint64" where
  "be_uint64 s = of_nat (fold (\<lambda>c n. 256 * n + byte_of c) s 0)"

definition put_uint64 :: "uint64 \<Rightarrow> string" where
  "put_uint64 w = be_bytes 8 (uint w)"

type_synonym 'w random = "nat \<Rightarrow> 'w \<Rightarrow> (go_error + string) \<times> 'w"

definition box_frame :: "crypto \<Rightarrow> string \<Rightarrow> string \<Rightarrow> char \<Rightarrow> uint64 \<Rightarrow> string \<Rightarrow> string" where
  "box_frame C k nonce kind seq payload = nonce @ cr_GCMSeal C k nonce (kind # put_uint64 seq @ payload)"

definition box_Seal ::
  "crypto \<Rightarrow> 'w random \<Rightarrow> string \<Rightarrow> char \<Rightarrow> uint64 \<Rightarrow> string \<Rightarrow> 'w \<Rightarrow> (go_error + string) \<times> 'w" where
  "box_Seal C rand k kind seq payload w =
     (case rand 12 w of
        (Inl e, w') \<Rightarrow> (Inl e, w')
      | (Inr nonce, w') \<Rightarrow> (Inr (box_frame C k nonce kind seq payload), w'))"

definition box_Open :: "crypto \<Rightarrow> string \<Rightarrow> string \<Rightarrow> go_error + char \<times> uint64 \<times> string" where
  "box_Open C k packet =
     (if length packet < 12 + 16 + 9 then Inl (Plain ''short encrypted packet'')
      else
        case cr_GCMOpen C k (take 12 packet) (drop 12 packet) of
          Inl e \<Rightarrow> Inl e
        | Inr plain \<Rightarrow>
            if length plain < 9 then Inl (Plain ''short plaintext'')
            else Inr (hd plain, be_uint64 (take 8 (drop 1 plain)), drop 9 plain))"

section \<open>The start of the program\<close>

text \<open>
  What main hands the interface to: the function of a transport, on the client or the server side.
  pulseudp and echogame compare the role with client, swiftkcp and gamequic with server.
\<close>

datatype core_run = RunPulse bool | RunKcp bool | RunQuic bool | RunIcmp bool

definition core_transport :: "CoreConfig \<Rightarrow> go_error + core_run" where
  "core_transport c =
     (let t = ToLower (cc_Transport c) in
      if t \<in> {''pulseudp'', ''pulseudp-mp''} then Inr (RunPulse (cc_Role c \<noteq> ''client''))
      else if t = ''kcp'' then Inr (RunKcp (cc_Role c = ''server''))
      else if t = ''quic'' then Inr (RunQuic (cc_Role c = ''server''))
      else if t = ''icmp'' then Inr (RunIcmp (cc_Role c \<noteq> ''client''))
      else Inl (Plain (''unsupported transport: '' @ cc_Transport c)))"

text \<open>tun_Open is the system call that makes the interface.\<close>

definition core_main ::
  "'h os \<Rightarrow> (string \<Rightarrow> go_error + CoreConfig) \<Rightarrow> (string \<Rightarrow> 'h \<Rightarrow> go_error option \<times> 'h) \<Rightarrow> string \<Rightarrow>
   'h host \<Rightarrow> (go_error + CoreConfig \<times> string \<times> core_run) \<times> 'h host" where
  "core_main os decode tun_Open path h =
     (case config_Load os decode path h of
        Inl e \<Rightarrow> (Inl e, h)
      | Inr c \<Rightarrow>
          (case box_New (cc_KeyHex c) of
             Inl e \<Rightarrow> (Inl e, h)
           | Inr k \<Rightarrow>
               (case tun_Open (cc_Interface c) (ho_rest h) of
                  (Some e, w) \<Rightarrow> (Inl (wrap_error ''open TUN: '' e), h\<lparr>ho_rest := w\<rparr>)
                | (None, w) \<Rightarrow>
                    (case tun_Configure os (cc_Interface c) (cc_LocalCIDR c) (cc_PeerIP c) (cc_MTU c) (h\<lparr>ho_rest := w\<rparr>) of
                       (Some e, h1) \<Rightarrow> (Inl (wrap_error ''configure TUN: '' e), h1)
                     | (None, h1) \<Rightarrow>
                         let h2 = EnableNAT os c h1
                         in (case core_transport c of Inl e \<Rightarrow> (Inl e, h2) | Inr r \<Rightarrow> (Inr (c, k, r), h2))))))"

definition keygen :: "'w random \<Rightarrow> 'w \<Rightarrow> (go_error + string) \<times> 'w" where
  "keygen rand w = (case rand 32 w of (Inl e, w') \<Rightarrow> (Inl e, w') | (Inr b, w') \<Rightarrow> (Inr (hex_encode b), w'))"

section \<open>Counters\<close>

text \<open>
  stats.go: the counters wrap at 64 bits, the paths are a map from their names. The times are not
  printed here: the durations stand for the numbers of milliseconds computed from them.
\<close>

record stat_path =
  sp_RTT :: duration
  sp_Jitter :: duration
  sp_Healthy :: bool
  sp_LastSeen :: time

record core_stats =
  cs_TxPackets :: uint64
  cs_RxPackets :: uint64
  cs_TxBytes :: uint64
  cs_RxBytes :: uint64
  cs_Duplicates :: uint64
  cs_activePath :: string
  cs_paths :: "(string \<times> stat_path) list"

definition stats_New :: core_stats where
  "stats_New =
     \<lparr>cs_TxPackets = 0, cs_RxPackets = 0, cs_TxBytes = 0, cs_RxBytes = 0, cs_Duplicates = 0,
      cs_activePath = [], cs_paths = []\<rparr>"

definition SetActivePath :: "string \<Rightarrow> core_stats \<Rightarrow> core_stats" where
  "SetActivePath v st = st\<lparr>cs_activePath := v\<rparr>"

definition SetPath :: "string \<Rightarrow> stat_path \<Rightarrow> core_stats \<Rightarrow> core_stats" where
  "SetPath name p st = st\<lparr>cs_paths := AList.update name p (cs_paths st)\<rparr>"

definition count_tx :: "string \<Rightarrow> core_stats \<Rightarrow> core_stats" where
  "count_tx b st =
     st\<lparr>cs_TxPackets := cs_TxPackets st + 1, cs_TxBytes := cs_TxBytes st + of_nat (length b)\<rparr>"

definition count_rx :: "string \<Rightarrow> core_stats \<Rightarrow> core_stats" where
  "count_rx b st =
     st\<lparr>cs_RxPackets := cs_RxPackets st + 1, cs_RxBytes := cs_RxBytes st + of_nat (length b)\<rparr>"

section \<open>Lemmas\<close>

lemma or_default_idem [simp]: "or_default z d (or_default z d x) = or_default z d x"
  by (simp add: or_default_def)

text \<open>Filling in the defaults a second time changes nothing.\<close>

lemma config_defaults_idem: "config_Defaults (config_Defaults c) = config_Defaults c"
proof -
  have vals: "default_values (default_values c) = default_values c" for c
    by (simp add: default_values_def)
  have "default_values (default_shards c) = default_shards (default_values c)"
      if "cc_Profile c \<noteq> []" for c
    using that by (simp add: default_shards_def default_values_def or_default_def)
  moreover have "default_values (default_duplicate c) = default_duplicate (default_values c)"
      if "cc_Profile c \<noteq> []" for c
    using that by (simp add: default_duplicate_def default_values_def or_default_def)
  moreover have "default_shards (default_duplicate c) = default_duplicate (default_shards c)" for c
    by (simp add: default_shards_def default_duplicate_def)
  moreover have "default_shards (default_shards c) = default_shards c" for c
    by (simp add: default_shards_def)
  moreover have "default_duplicate (default_duplicate c) = default_duplicate c" for c
    by (simp add: default_duplicate_def)
  moreover have "cc_Profile (default_values c) \<noteq> []" "cc_Profile (default_shards c) = cc_Profile c" for c
    by (simp_all add: default_values_def or_default_def default_shards_def)
  ultimately show ?thesis by (simp add: config_Defaults_def vals)
qed

lemma config_Load_Inr:
  "config_Load os decode path h = Inr c \<longleftrightarrow>
   (\<exists>b c0. ReadFile os path h = Inr b \<and> decode b = Inr c0 \<and> c = config_Defaults c0 \<and> config_Validate c = None)"
  by (auto simp: config_Load_def Let_def split: sum.splits option.splits)

lemma Validate_None:
  "config_Validate c = None \<longleftrightarrow>
   ToLower (cc_Role c) \<in> {''client'', ''server''} \<and>
   ToLower (cc_Transport c) \<in> {''pulseudp'', ''pulseudp-mp'', ''kcp'', ''quic'', ''icmp''} \<and>
   cc_LocalCIDR c \<noteq> [] \<and> cc_PeerIP c \<noteq> [] \<and> cc_KeyHex c \<noteq> [] \<and>
   (ToLower (cc_Role c) = ''client'' \<longrightarrow> cc_PeerHost c \<noteq> []) \<and>
   (ToLower (cc_Transport c) = ''icmp'' \<or> cc_Ports c \<noteq> [])"
  by (auto simp: config_Validate_def Let_def)

text \<open>The branch main has for an unknown transport is never taken.\<close>

lemma transport_known: "config_Validate c = None \<Longrightarrow> \<exists>r. core_transport c = Inr r"
  by (auto simp: Validate_None core_transport_def Let_def)

subsection \<open>Bytes of a number\<close>

lemma be_bytes_Suc: "0 \<le> v \<Longrightarrow> be_bytes (Suc n) v = be_bytes n (v div 256) @ [char_of (nat (v mod 256))]"
proof -
  assume "0 \<le> v"
  have "v div 256 ^ (n - i) = v div 256 div 256 ^ (n - 1 - i)" if "i < n" for i
  proof -
    from that have "n - i = Suc (n - 1 - i)" by simp
    then show ?thesis by (simp add: div_mult2_eq' zdiv_zmult2_eq)
  qed
  then show ?thesis by (simp add: be_bytes_def)
qed

lemma length_be_bytes [simp]: "length (be_bytes n v) = n"
  by (simp add: be_bytes_def)

lemma be_bytes_value:
  "0 \<le> v \<Longrightarrow> int (fold (\<lambda>c n. 256 * n + byte_of c) (be_bytes n v) 0) = v mod 256 ^ n"
proof (induction n arbitrary: v)
  case 0
  then show ?case by (simp add: be_bytes_def)
next
  case (Suc n)
  have "byte_of (char_of (nat (v mod 256))) = nat (v mod 256)"
    by (simp add: byte_of_def nat_less_iff)
  moreover have "v mod 256 ^ Suc n = 256 * (v div 256 mod 256 ^ n) + v mod 256"
    using zmod_zmult2_eq [of "256 ^ n" v 256] by simp
  ultimately show ?case using Suc by (simp add: be_bytes_Suc)
qed

lemma uint64_roundtrip [simp]: "be_uint64 (put_uint64 w) = w"
proof -
  define f :: "char \<Rightarrow> nat \<Rightarrow> nat" where "f = (\<lambda>c n. 256 * n + byte_of c)"
  have "uint w < 256 ^ 8" using uint_bounded [of w] by simp
  then have "uint w mod 256 ^ 8 = uint w" by (intro mod_pos_pos_trivial) simp_all
  then have "int (fold f (put_uint64 w) 0) = uint w"
    using be_bytes_value [of "uint w" 8] by (simp only: put_uint64_def f_def uint_ge_0)
  then have "word_of_int (int (fold f (put_uint64 w) 0)) = w" by simp
  then show ?thesis by (simp add: be_uint64_def f_def)
qed

lemma length_put_uint64 [simp]: "length (put_uint64 w) = 8"
  by (simp add: put_uint64_def)

subsection \<open>The cipher\<close>

text \<open>
  What the code relies on of AES in Galois counter mode: a sealed text opens to itself and is longer by
  the tag, and what opens was sealed with the key, because the tag is a function of key, nonce and text.
  The random source fills the buffer it is given or fails.
\<close>

definition gcm_cipher :: "crypto \<Rightarrow> string \<Rightarrow> bool" where
  "gcm_cipher C k \<longleftrightarrow>
     (\<forall>n p. length n = 12 \<longrightarrow>
        cr_GCMOpen C k n (cr_GCMSeal C k n p) = Inr p \<and> length (cr_GCMSeal C k n p) = length p + 16)"

definition fills_buffer :: "'w random \<Rightarrow> bool" where
  "fills_buffer rand \<longleftrightarrow> (\<forall>n w. case fst (rand n w) of Inl _ \<Rightarrow> True | Inr b \<Rightarrow> length b = n)"

lemma box_frame_opens:
  assumes "gcm_cipher C k" and n: "length n = 12"
  shows "box_Open C k (box_frame C k n kind seq payload) = Inr (kind, seq, payload)"
proof -
  let ?plain = "kind # put_uint64 seq @ payload"
  let ?c = "cr_GCMSeal C k n ?plain"
  from assms have c: "cr_GCMOpen C k n ?c = Inr ?plain" "length ?c = length ?plain + 16"
    unfolding gcm_cipher_def by blast+
  have parts: "take 12 (n @ ?c) = n" "drop 12 (n @ ?c) = ?c" "take 8 (drop 1 ?plain) = put_uint64 seq"
      "drop 9 ?plain = payload" "hd ?plain = kind"
    using n by auto
  have long: "(length (n @ ?c) < 12 + 16 + 9) = False" "(length ?plain < 9) = False"
    using n c(2) by simp_all
  show ?thesis
    by (simp only: box_Open_def box_frame_def parts long if_False c(1) sum.case uint64_roundtrip)
qed

lemma box_Seal_Inr:
  assumes "box_Seal C rand k kind seq payload w = (Inr f, w')" and "fills_buffer rand"
  shows "\<exists>n. length n = 12 \<and> f = box_frame C k n kind seq payload"
proof -
  from assms(1) obtain n where "rand 12 w = (Inr n, w')" "f = box_frame C k n kind seq payload"
    by (auto simp: box_Seal_def split: prod.splits sum.splits)
  moreover have "case fst (rand 12 w) of Inl _ \<Rightarrow> True | Inr b \<Rightarrow> length b = 12"
    using assms(2) unfolding fills_buffer_def by blast
  ultimately show ?thesis by auto
qed

text \<open>
  A packet sealed with a key opens under this key to the kind, the sequence number and the payload it
  was made of, for every kind, number and payload.
\<close>

lemma box_roundtrip:
  assumes "gcm_cipher C k" and "fills_buffer rand" and "box_Seal C rand k kind seq payload w = (Inr frame, w')"
  shows "box_Open C k frame = Inr (kind, seq, payload)"
  using box_Seal_Inr [OF assms(3,2)] box_frame_opens [OF assms(1)] by blast

text \<open>A cipher that only adds a tag, and a random source that counts.\<close>

definition sample_tag :: string where "sample_tag = replicate 16 (CHR ''t'')"

definition sample_gcm :: crypto where
  "sample_gcm = sample_crypto
     \<lparr>cr_GCMSeal := (\<lambda>k n p. p @ sample_tag),
      cr_GCMOpen := (\<lambda>k n c. if drop (length c - 16) c = sample_tag then Inr (take (length c - 16) c)
                             else Inl (Plain ''cipher: message authentication failed''))\<rparr>"

definition sample_random :: "nat random" where
  "sample_random n w = (Inr (replicate n (char_of w)), Suc w)"

lemma sample_gcm_ok [simp]: "gcm_cipher sample_gcm k" "fills_buffer sample_random"
  by (simp_all add: gcm_cipher_def sample_gcm_def sample_tag_def fills_buffer_def sample_random_def)

lemma box_roundtrip_witness:
  "\<exists>frame w'. box_Seal sample_gcm sample_random ''k'' (CHR ''d'') 258 ''hello'' 65 = (Inr frame, w') \<and>
     length frame = 42 \<and> box_Open sample_gcm ''k'' frame = Inr (CHR ''d'', 258, ''hello'')"
proof -
  let ?f = "box_frame sample_gcm ''k'' (replicate 12 (char_of (65::nat))) (CHR ''d'') 258 ''hello''"
  have seal: "box_Seal sample_gcm sample_random ''k'' (CHR ''d'') 258 ''hello'' 65 = (Inr ?f, 66)"
    by (simp add: box_Seal_def sample_random_def)
  moreover have "length ?f = 42" by (simp add: box_frame_def sample_gcm_def sample_tag_def)
  ultimately show ?thesis using box_roundtrip [OF sample_gcm_ok seal] by blast
qed

text \<open>A key made by keygen is accepted.\<close>

lemma hex_digit_value: "n < 16 \<Longrightarrow> hex_value (hex_digit n) = Some (int n)"
proof -
  assume n: "n < 16"
  have code: "(of_char (char_of m) :: int) = int m" if "m < 256" for m :: nat
    using that of_nat_of_char [of "char_of m", where ?'a = int] by simp
  from n show ?thesis by (cases "n < 10") (simp_all add: hex_digit_def hex_value_def code Let_def)
qed

lemma groups_of_two: "groups_of 2 (a # b # xs) = [a, b] # groups_of 2 xs" "groups_of 2 [] = []"
  by (simp_all add: groups_of.simps [of 2 "a # b # xs"] groups_of.simps [of 2 "[]"])

lemma hex_roundtrip: "hex_decode (hex_encode b) = Some b"
proof -
  let ?pair = "\<lambda>c. [int (byte_of c div 16), int (byte_of c mod 16)]"
  have digits: "those (map hex_value (hex_encode b)) = Some (concat (map ?pair b))" for b
  proof (induction b)
    case (Cons c b)
    have "byte_of c div 16 < 16" using byte_of_less [of c] by simp
    with Cons show ?case by (simp add: hex_encode_def Let_def hex_digit_value byte_of_def)
  qed (simp add: hex_encode_def)
  have "map (\<lambda>g. char_of (nat (16 * g ! 0 + g ! 1))) (groups_of 2 (concat (map ?pair b))) = b" for b
  proof (induction b)
    case (Cons c b)
    have "nat (16 * int (byte_of c div 16) + int (byte_of c mod 16)) = byte_of c"
      by (metis mult.commute nat_int of_nat_add of_nat_mult of_nat_numeral div_mult_mod_eq)
    with Cons show ?case by (simp add: groups_of_two)
  qed (simp add: groups_of_two)
  moreover have "even (length (hex_encode b))" for b by (induction b) (simp_all add: hex_encode_def Let_def)
  ultimately show ?thesis by (simp add: hex_decode_def digits)
qed

lemma keygen_accepted: "keygen rand w = (Inr k, w') \<Longrightarrow> fills_buffer rand \<Longrightarrow> \<exists>b. box_New k = Inr b"
proof -
  assume gen: "keygen rand w = (Inr k, w')" and "fills_buffer rand"
  then have "case fst (rand 32 w) of Inl _ \<Rightarrow> True | Inr b \<Rightarrow> length b = 32"
    unfolding fills_buffer_def by blast
  with gen show "\<exists>b. box_New k = Inr b"
    by (auto simp: keygen_def box_New_def hex_roundtrip split: prod.splits sum.splits)
qed

end
