(* ===== verification/PulseUDP.thy ===== *)
theory PulseUDP
  imports CoreConfig
begin

text \<open>
  The UDP transport of the tunnel program (src/internal/transports/pulseudp/pulseudp.go). One end has
  several paths, one for each port; a packet read from the interface is sealed and sent on the path
  with the best score, a small one also on the second best, and the receiving end drops the copies it
  has already seen. Each event (a datagram on a path, a tick of the keepalive, a packet from the
  interface) is one step on the state of an end; now is the clock reading that stands for all readings
  of a step. The scores are computed in float64, which is exact for the round trips that occur, below
  30 seconds (pulse_times_bounded), so they are integers here: twice the score in nanoseconds.
\<close>

section \<open>Paths\<close>

record udp_path =
  up_id :: int
  up_port :: int
  up_remote :: "string option"
  up_rtt :: duration
  up_jitter :: duration
  up_lastSeen :: time
  up_healthy :: bool

definition markSeen :: "time \<Rightarrow> udp_path \<Rightarrow> udp_path" where
  "markSeen now p = p\<lparr>up_lastSeen := now, up_healthy := True\<rparr>"

text \<open>Three quarters of the old value and one quarter of the new one.\<close>

definition quarter_mix :: "duration \<Rightarrow> duration \<Rightarrow> duration" where
  "quarter_mix old v = (3 * old + v) div 4"

definition updateRTT :: "time \<Rightarrow> duration \<Rightarrow> udp_path \<Rightarrow> udp_path" where
  "updateRTT now v p =
     (let old = up_rtt p;
          q = (if old = 0 then p\<lparr>up_rtt := v, up_jitter := 0\<rparr>
               else p\<lparr>up_jitter := quarter_mix (up_jitter p) \<bar>old - v\<bar>, up_rtt := quarter_mix old v\<rparr>)
      in q\<lparr>up_lastSeen := now, up_healthy := True\<rparr>)"

definition path_score :: "duration \<Rightarrow> time \<Rightarrow> udp_path \<Rightarrow> int option" where
  "path_score timeout now p =
     (if \<not> up_healthy p then None
      else if up_lastSeen p \<noteq> 0 \<and> timeout < now - up_lastSeen p then None
      else Some (2 * (if up_rtt p = 0 then 999000000 else up_rtt p) + 5 * up_jitter p))"

text \<open>The paths in the order of their scores, as indices; all of them when none is usable.\<close>

type_synonym path_sort = "(nat \<times> int \<Rightarrow> nat \<times> int \<Rightarrow> bool) \<Rightarrow> (nat \<times> int) list \<Rightarrow> (nat \<times> int) list"

definition scored :: "duration \<Rightarrow> time \<Rightarrow> udp_path list \<Rightarrow> (nat \<times> int) list" where
  "scored timeout now ps =
     List.map_filter (\<lambda>(i, p). map_option (Pair i) (path_score timeout now p)) (enumerate 0 ps)"

definition ranked :: "path_sort \<Rightarrow> duration \<Rightarrow> time \<Rightarrow> udp_path list \<Rightarrow> nat list" where
  "ranked srt timeout now ps =
     (let x = scored timeout now ps;
          y = (if x = [] then map (\<lambda>i. (i, 2 * 10 ^ 30)) [0..<length ps] else x)
      in map fst (srt (\<lambda>a b. snd a < snd b) y))"

section \<open>Copies\<close>

definition dedupe_limit :: nat where "dedupe_limit = 16384"
definition dedupe_age :: duration where "dedupe_age = 15 * Second"

type_synonym dedupe = "(uint64 \<times> time) list"

definition dedupe_seen :: "uint64 \<Rightarrow> time \<Rightarrow> dedupe \<Rightarrow> bool \<times> dedupe" where
  "dedupe_seen q now m =
     (if map_of m q \<noteq> None then (True, m)
      else
        let m' = (q, now) # m
        in (False, if dedupe_limit < length m' then filter (\<lambda>e. \<not> snd e < now - dedupe_age) m' else m'))"

section \<open>One end\<close>

record 'w pulse =
  pu_paths :: "udp_path list"
  pu_dupes :: dedupe
  pu_seq :: uint64
  pu_stats :: core_stats
  pu_tun :: "string list"
  pu_sent :: "(nat \<times> string option \<times> string) list"
  pu_world :: 'w

text \<open>
  pu_tun is what was written to the interface, pu_sent the datagrams sent, each with its path and, on
  the server, its destination; a client's path is connected to the server. ps_tun is the write to the
  interface, which may fail; the errors of the sends are ignored.
\<close>

record 'w pulse_env =
  ps_crypto :: crypto
  ps_key :: string
  ps_random :: "'w random"
  ps_tun :: "string \<Rightarrow> 'w \<Rightarrow> bool \<times> 'w"
  ps_sort :: path_sort
  ps_config :: CoreConfig
  ps_server :: bool

definition kindData :: char where "kindData = CHR 0x01"
definition kindPing :: char where "kindPing = CHR 0x02"
definition kindPong :: char where "kindPong = CHR 0x03"

definition upd_path :: "nat \<Rightarrow> (udp_path \<Rightarrow> udp_path) \<Rightarrow> 'w pulse \<Rightarrow> 'w pulse" where
  "upd_path i f s = s\<lparr>pu_paths := (pu_paths s)[i := f (pu_paths s ! i)]\<rparr>"

text \<open>sendServer and sendClient; a server does not know where to send before it was sent something.\<close>

definition pulse_send :: "bool \<Rightarrow> nat \<Rightarrow> string \<Rightarrow> 'w pulse \<Rightarrow> 'w pulse" where
  "pulse_send server i frame s =
     (if server \<and> up_remote (pu_paths s ! i) = None then s
      else s\<lparr>pu_sent := pu_sent s @ [(i, if server then up_remote (pu_paths s ! i) else None, frame)]\<rparr>)"

definition pulse_seal ::
  "'w pulse_env \<Rightarrow> char \<Rightarrow> uint64 \<Rightarrow> string \<Rightarrow> 'w pulse \<Rightarrow> (go_error + string) \<times> 'w pulse" where
  "pulse_seal env kind q payload s =
     (case box_Seal (ps_crypto env) (ps_random env) (ps_key env) kind q payload (pu_world s) of
        (r, w) \<Rightarrow> (r, s\<lparr>pu_world := w\<rparr>))"

definition pulse_data :: "'w pulse_env \<Rightarrow> uint64 \<Rightarrow> string \<Rightarrow> time \<Rightarrow> 'w pulse \<Rightarrow> 'w pulse" where
  "pulse_data env q payload now s =
     (case dedupe_seen q now (pu_dupes s) of
        (True, m) \<Rightarrow> s\<lparr>pu_dupes := m, pu_stats := (pu_stats s)\<lparr>cs_Duplicates := cs_Duplicates (pu_stats s) + 1\<rparr>\<rparr>
      | (False, m) \<Rightarrow>
          (case ps_tun env payload (pu_world s) of
             (True, w) \<Rightarrow>
               s\<lparr>pu_dupes := m, pu_tun := pu_tun s @ [payload], pu_stats := count_rx payload (pu_stats s),
                 pu_world := w\<rparr>
           | (False, w) \<Rightarrow> s\<lparr>pu_dupes := m, pu_world := w\<rparr>))"

definition pulse_reply :: "'w pulse_env \<Rightarrow> nat \<Rightarrow> uint64 \<Rightarrow> string \<Rightarrow> 'w pulse \<Rightarrow> 'w pulse" where
  "pulse_reply env i q payload s =
     (case pulse_seal env kindPong q payload s of
        (Inl _, s1) \<Rightarrow> s1
      | (Inr frame, s1) \<Rightarrow> pulse_send (ps_server env) i frame s1)"

text \<open>Go's zero time in nanoseconds before the Unix epoch; the ping carries the time it was sent.\<close>

definition unix_epoch :: time where "unix_epoch = 62135596800 * Second"

definition UnixNano :: "time \<Rightarrow> uint64" where
  "UnixNano now = of_int (now - unix_epoch)"

definition pulse_pong :: "nat \<Rightarrow> string \<Rightarrow> time \<Rightarrow> 'w pulse \<Rightarrow> 'w pulse" where
  "pulse_pong i payload now s =
     (if length payload \<noteq> 8 then s
      else
        let rtt = now - (unix_epoch + sint (be_uint64 payload))
        in if 0 < rtt \<and> rtt < 30 * Second then upd_path i (updateRTT now rtt) s else s)"

text \<open>The server answers to where the last datagram came from, whatever is in it.\<close>

definition set_remote :: "bool \<Rightarrow> string \<Rightarrow> udp_path \<Rightarrow> udp_path" where
  "set_remote server addr p = (if server then p\<lparr>up_remote := Some addr\<rparr> else p)"

definition pulse_receive ::
  "'w pulse_env \<Rightarrow> nat \<Rightarrow> string \<Rightarrow> string \<Rightarrow> time \<Rightarrow> 'w pulse \<Rightarrow> 'w pulse" where
  "pulse_receive env i addr packet now s =
     (let s0 = upd_path i (set_remote (ps_server env) addr) s in
      case box_Open (ps_crypto env) (ps_key env) packet of
        Inl _ \<Rightarrow> s0
      | Inr (kind, q, payload) \<Rightarrow>
          let s1 = upd_path i (markSeen now) s0 in
          if kind = kindData then pulse_data env q payload now s1
          else if kind = kindPing then pulse_reply env i q payload s1
          else if kind = kindPong then pulse_pong i payload now s1
          else s1)"

definition next_seq :: "'w pulse \<Rightarrow> uint64 \<times> 'w pulse" where
  "next_seq s = (pu_seq s + 1, s\<lparr>pu_seq := pu_seq s + 1\<rparr>)"

definition pulse_keepalive :: "'w pulse_env \<Rightarrow> time \<Rightarrow> nat \<Rightarrow> 'w pulse \<Rightarrow> 'w pulse" where
  "pulse_keepalive env now i s =
     (case next_seq s of (q, s1) \<Rightarrow>
     (case pulse_seal env kindPing q (put_uint64 (UnixNano now)) s1 of
        (Inl _, s2) \<Rightarrow> s2
      | (Inr frame, s2) \<Rightarrow> pulse_send (ps_server env) i frame s2))"

definition pulse_tick :: "'w pulse_env \<Rightarrow> time \<Rightarrow> 'w pulse \<Rightarrow> 'w pulse" where
  "pulse_tick env now s = fold (pulse_keepalive env now) [0..<length (pu_paths s)] s"

definition pulse_timeout :: "CoreConfig \<Rightarrow> duration" where
  "pulse_timeout c = int64 (cc_PathTimeoutMS c * 1000000)"

definition note_active :: "nat \<Rightarrow> time \<Rightarrow> 'w pulse \<Rightarrow> 'w pulse" where
  "note_active best now s =
     (let p = pu_paths s ! best; name = ''udp/'' @ Itoa (up_port p) in
      s\<lparr>pu_stats := SetPath name
           \<lparr>sp_RTT = up_rtt p, sp_Jitter = up_jitter p, sp_Healthy = True, sp_LastSeen = now\<rparr>
           (SetActivePath name (pu_stats s))\<rparr>)"

definition pulse_forward :: "'w pulse_env \<Rightarrow> string \<Rightarrow> time \<Rightarrow> 'w pulse \<Rightarrow> 'w pulse" where
  "pulse_forward env payload now s =
     (let c = ps_config env; server = ps_server env in
      case next_seq s of (q, s1) \<Rightarrow>
     (case pulse_seal env kindData q payload s1 of
        (Inl _, s2) \<Rightarrow> s2
      | (Inr frame, s2) \<Rightarrow>
          (case ranked (ps_sort env) (pulse_timeout c) now (pu_paths s2) of
             [] \<Rightarrow> s2
           | best # rest \<Rightarrow>
               let s3 = pulse_send server best frame s2;
                   s4 = note_active best now (s3\<lparr>pu_stats := count_tx payload (pu_stats s3)\<rparr>)
               in (case rest of
                     [] \<Rightarrow> s4
                   | second # _ \<Rightarrow>
                       if cc_DuplicateSmall c \<and> int (length payload) \<le> cc_DuplicateThreshold c
                         then pulse_send server second frame s4
                       else s4))))"

datatype pulse_event = Datagram nat string string | KeepaliveTick | TunPacket string

fun pulse_step :: "'w pulse_env \<Rightarrow> time \<times> pulse_event \<Rightarrow> 'w pulse \<Rightarrow> 'w pulse" where
  "pulse_step env (now, Datagram i addr packet) s =
     (if i < length (pu_paths s) then pulse_receive env i addr packet now s else s)"
| "pulse_step env (now, KeepaliveTick) s = pulse_tick env now s"
| "pulse_step env (now, TunPacket payload) s = pulse_forward env payload now s"

definition pulse_run :: "'w pulse_env \<Rightarrow> (time \<times> pulse_event) list \<Rightarrow> 'w pulse \<Rightarrow> 'w pulse" where
  "pulse_run env es s = fold (pulse_step env) es s"

text \<open>runClient and runServer, once their sockets are open.\<close>

definition pulse_path :: "bool \<Rightarrow> time \<Rightarrow> nat \<Rightarrow> int \<Rightarrow> udp_path" where
  "pulse_path server now i port =
     \<lparr>up_id = int i, up_port = port, up_remote = None, up_rtt = 0, up_jitter = 0,
      up_lastSeen = (if server then 0 else now), up_healthy = \<not> server\<rparr>"

definition pulse_start :: "'w pulse_env \<Rightarrow> time \<Rightarrow> 'w \<Rightarrow> go_error + 'w pulse" where
  "pulse_start env now w =
     (if cc_Ports (ps_config env) = [] then Inl (Plain ''no UDP paths'')
      else Inr \<lparr>pu_paths = map (\<lambda>(i, port). pulse_path (ps_server env) now i port) (enumerate 0 (cc_Ports (ps_config env))),
                pu_dupes = [], pu_seq = 0, pu_stats = stats_New, pu_tun = [], pu_sent = [], pu_world = w\<rparr>)"

section \<open>What a step changes\<close>

lemma upd_path_simps [simp]:
  "pu_dupes (upd_path i f s) = pu_dupes s" "pu_tun (upd_path i f s) = pu_tun s" "pu_seq (upd_path i f s) = pu_seq s"
  "pu_sent (upd_path i f s) = pu_sent s" "pu_world (upd_path i f s) = pu_world s"
  "pu_paths (upd_path i f s) = (pu_paths s)[i := f (pu_paths s ! i)]"
  by (simp_all add: upd_path_def)

lemma pulse_send_simps [simp]:
  "pu_dupes (pulse_send server i frame s) = pu_dupes s" "pu_tun (pulse_send server i frame s) = pu_tun s"
  "pu_seq (pulse_send server i frame s) = pu_seq s" "pu_paths (pulse_send server i frame s) = pu_paths s"
  "pu_world (pulse_send server i frame s) = pu_world s"
  by (simp_all add: pulse_send_def)

lemma pulse_seal_simps [simp]:
  "pu_dupes (snd (pulse_seal env k q b s)) = pu_dupes s" "pu_tun (snd (pulse_seal env k q b s)) = pu_tun s"
  "pu_seq (snd (pulse_seal env k q b s)) = pu_seq s" "pu_paths (snd (pulse_seal env k q b s)) = pu_paths s"
  "pu_sent (snd (pulse_seal env k q b s)) = pu_sent s"
  by (simp_all add: pulse_seal_def split: prod.split)

lemma note_active_simps [simp]:
  "pu_dupes (note_active i now s) = pu_dupes s" "pu_tun (note_active i now s) = pu_tun s"
  "pu_seq (note_active i now s) = pu_seq s" "pu_paths (note_active i now s) = pu_paths s"
  "pu_sent (note_active i now s) = pu_sent s"
  by (simp_all add: note_active_def Let_def)

text \<open>Most operations leave the copies seen and the interface alone.\<close>

definition reads_nothing :: "('w pulse \<Rightarrow> 'w pulse) \<Rightarrow> bool" where
  "reads_nothing f \<longleftrightarrow> (\<forall>s. pu_dupes (f s) = pu_dupes s \<and> pu_tun (f s) = pu_tun s)"

lemma pulse_sealD:
  "pulse_seal env k q b s = (r, s') \<Longrightarrow>
   pu_dupes s' = pu_dupes s \<and> pu_tun s' = pu_tun s \<and> pu_seq s' = pu_seq s \<and> pu_paths s' = pu_paths s \<and>
   pu_sent s' = pu_sent s"
  using pulse_seal_simps [of env k q b s] by simp

lemma reads_nothing_reply: "reads_nothing (pulse_reply env i q payload)"
  by (auto simp: reads_nothing_def pulse_reply_def split: prod.splits sum.splits dest: pulse_sealD)

lemma reads_nothing_pong: "reads_nothing (pulse_pong i payload now)"
  by (simp add: reads_nothing_def pulse_pong_def Let_def)

lemma reads_nothing_keepalive: "reads_nothing (pulse_keepalive env now i)"
  by (auto simp: reads_nothing_def pulse_keepalive_def next_seq_def split: prod.splits sum.splits dest: pulse_sealD)

lemma reads_nothing_forward: "reads_nothing (pulse_forward env payload now)"
  by (auto simp: reads_nothing_def pulse_forward_def next_seq_def Let_def
      split: prod.splits sum.splits list.splits dest: pulse_sealD)

lemma reads_nothing_fold: "(\<And>i. reads_nothing (f i)) \<Longrightarrow> reads_nothing (fold f is)"
  by (induction "is") (simp_all add: reads_nothing_def)

lemma reads_nothing_tick: "reads_nothing (pulse_tick env now)"
  using reads_nothing_fold [of "pulse_keepalive env now", OF reads_nothing_keepalive]
  by (simp add: reads_nothing_def pulse_tick_def)

lemma reads_nothingD: "reads_nothing f \<Longrightarrow> pu_dupes (f s) = pu_dupes s" "reads_nothing f \<Longrightarrow> pu_tun (f s) = pu_tun s"
  by (simp_all add: reads_nothing_def)

lemmas reads_nothing_ops [simp] =
  reads_nothing_reply [THEN reads_nothingD(1)] reads_nothing_reply [THEN reads_nothingD(2)]
  reads_nothing_pong [THEN reads_nothingD(1)] reads_nothing_pong [THEN reads_nothingD(2)]
  reads_nothing_forward [THEN reads_nothingD(1)] reads_nothing_forward [THEN reads_nothingD(2)]
  reads_nothing_tick [THEN reads_nothingD(1)] reads_nothing_tick [THEN reads_nothingD(2)]

text \<open>
  The packets an end accepts: a data packet that opens and whose sequence number it has not seen. They
  are the ones that are remembered and written to the interface.
\<close>

fun accepted :: "'w pulse_env \<Rightarrow> time \<times> pulse_event \<Rightarrow> 'w pulse \<Rightarrow> (uint64 \<times> string) option" where
  "accepted env (now, Datagram i addr packet) s =
     (if length (pu_paths s) \<le> i then None
      else case box_Open (ps_crypto env) (ps_key env) packet of
             Inl _ \<Rightarrow> None
           | Inr (kind, q, payload) \<Rightarrow>
               if kind = kindData \<and> map_of (pu_dupes s) q = None then Some (q, payload) else None)"
| "accepted env _ s = None"

definition tun_gets :: "'w pulse_env \<Rightarrow> string \<Rightarrow> 'w pulse \<Rightarrow> string list" where
  "tun_gets env payload s = (if fst (ps_tun env payload (pu_world s)) then [payload] else [])"

lemma pulse_data_effect:
  "pu_dupes (pulse_data env q payload now s) = snd (dedupe_seen q now (pu_dupes s))"
  "pu_tun (pulse_data env q payload now s) =
     pu_tun s @ (if map_of (pu_dupes s) q = None then tun_gets env payload s else [])"
  by (simp_all add: pulse_data_def dedupe_seen_def tun_gets_def Let_def split: prod.splits bool.splits)

lemma pulse_receive_effect:
  assumes "i < length (pu_paths s)"
  shows "pu_dupes (pulse_receive env i addr packet now s) =
      (case accepted env (now, Datagram i addr packet) s of
         Some (q, _) \<Rightarrow> snd (dedupe_seen q now (pu_dupes s)) | None \<Rightarrow> pu_dupes s) \<and>
    pu_tun (pulse_receive env i addr packet now s) =
      pu_tun s @ (case accepted env (now, Datagram i addr packet) s of Some (_, b) \<Rightarrow> tun_gets env b s | None \<Rightarrow> [])"
proof (cases "box_Open (ps_crypto env) (ps_key env) packet")
  case (Inl e)
  with assms show ?thesis by (simp add: pulse_receive_def)
next
  case (Inr r)
  then obtain kind q payload where opened: "box_Open (ps_crypto env) (ps_key env) packet = Inr (kind, q, payload)"
    by (cases r) auto
  define s1 where "s1 = upd_path i (markSeen now) (upd_path i (set_remote (ps_server env) addr) s)"
  have s1: "pu_dupes s1 = pu_dupes s" "pu_tun s1 = pu_tun s" "tun_gets env payload s1 = tun_gets env payload s"
    by (simp_all add: s1_def tun_gets_def)
  have run: "pulse_receive env i addr packet now s =
      (if kind = kindData then pulse_data env q payload now s1
       else if kind = kindPing then pulse_reply env i q payload s1
       else if kind = kindPong then pulse_pong i payload now s1 else s1)"
    by (simp add: pulse_receive_def opened s1_def)
  show ?thesis
  proof (cases "kind = kindData")
    case True
    then show ?thesis using assms by (simp add: run opened pulse_data_effect s1 dedupe_seen_def)
  next
    case False
    then show ?thesis using assms by (simp add: run opened s1)
  qed
qed

lemma pulse_step_both:
  "pu_dupes (pulse_step env (now, e) s) =
     (case accepted env (now, e) s of Some (q, _) \<Rightarrow> snd (dedupe_seen q now (pu_dupes s)) | None \<Rightarrow> pu_dupes s) \<and>
   pu_tun (pulse_step env (now, e) s) =
     pu_tun s @ (case accepted env (now, e) s of Some (_, payload) \<Rightarrow> tun_gets env payload s | None \<Rightarrow> [])"
proof (cases e)
  case (Datagram i addr packet)
  then show ?thesis using pulse_receive_effect [of i s] by simp
qed simp_all

lemmas pulse_step_effect = pulse_step_both [THEN conjunct1] pulse_step_both [THEN conjunct2]

declare pulse_step.simps [simp del] accepted.simps [simp del]

lemma pulse_run_simps [simp]:
  "pulse_run env [] s = s" "pulse_run env (e # es) s = pulse_run env es (pulse_step env e s)"
  "pulse_run env (es @ fs) s = pulse_run env fs (pulse_run env es s)"
  by (simp_all add: pulse_run_def)

section \<open>Replays\<close>

text \<open>
  The table of numbers seen: its keys are distinct, it grows by at most one entry in a step, and it
  forgets an entry only when it is full and the entry is old.
\<close>

lemma dedupe_distinct: "distinct (map fst m) \<Longrightarrow> distinct (map fst (snd (dedupe_seen q now m)))"
  by (auto simp: dedupe_seen_def Let_def map_of_eq_None_iff distinct_map_filter)

lemma dedupe_length: "length (snd (dedupe_seen q now m)) \<le> Suc (length m)"
  using length_filter_le [of _ m] by (auto simp: dedupe_seen_def Let_def intro: le_SucI)

lemma map_of_filter_distinct:
  "distinct (map fst m) \<Longrightarrow> map_of m q = Some t \<Longrightarrow> P (q, t) \<Longrightarrow> map_of (filter P m) q = Some t"
  by (simp add: map_of_eq_Some_iff distinct_map_filter)

lemma dedupe_keeps:
  assumes "distinct (map fst m)" and "map_of m q = Some t"
  shows "map_of (snd (dedupe_seen q' now m)) q = Some t \<or> (t < now - dedupe_age \<and> dedupe_limit \<le> length m)"
proof (cases "map_of m q' = None \<and> dedupe_limit < length ((q', now) # m)")
  case True
  with assms have "q \<noteq> q'" by auto
  with assms True have "map_of ((q', now) # m) q = Some t" "distinct (map fst ((q', now) # m))"
    by (auto simp: map_of_eq_None_iff)
  then have "map_of (filter (\<lambda>e. \<not> snd e < now - dedupe_age) ((q', now) # m)) q = Some t"
      if "\<not> t < now - dedupe_age"
    using that by (intro map_of_filter_distinct) simp_all
  with True show ?thesis by (auto simp: dedupe_seen_def Let_def)
next
  case False
  with assms show ?thesis by (auto simp: dedupe_seen_def Let_def)
qed

lemma dedupe_inserts:
  "distinct (map fst m) \<Longrightarrow> map_of m q = None \<Longrightarrow> map_of (snd (dedupe_seen q now m)) q = Some now"
  by (auto simp: dedupe_seen_def Let_def dedupe_age_def Second_def)

lemma step_dedupe:
  assumes "distinct (map fst (pu_dupes s))"
  shows "distinct (map fst (pu_dupes (pulse_step env (now, e) s)))"
    and "length (pu_dupes (pulse_step env (now, e) s)) \<le> Suc (length (pu_dupes s))"
    and "map_of (pu_dupes s) q = Some t \<Longrightarrow>
      map_of (pu_dupes (pulse_step env (now, e) s)) q = Some t \<or>
      (t < now - dedupe_age \<and> dedupe_limit \<le> length (pu_dupes s))"
  using assms dedupe_distinct dedupe_length dedupe_keeps [OF assms]
  by (auto simp: pulse_step_effect split: option.splits)

lemma run_dedupe:
  "distinct (map fst (pu_dupes s)) \<Longrightarrow>
   distinct (map fst (pu_dupes (pulse_run env es s))) \<and> length (pu_dupes (pulse_run env es s)) \<le> length es + length (pu_dupes s)"
proof (induction es arbitrary: s)
  case (Cons e es)
  obtain t x where e: "e = (t, x)" by (cases e)
  let ?s = "pulse_step env (t, x) s"
  have "distinct (map fst (pu_dupes ?s))" "length (pu_dupes ?s) \<le> Suc (length (pu_dupes s))"
    using step_dedupe(1,2) [OF Cons.prems] .
  with Cons.IH [of ?s] show ?case by (simp add: e)
qed simp

lemma run_forgets:
  assumes "distinct (map fst (pu_dupes s))" and "map_of (pu_dupes s) q = Some t"
    and "map_of (pu_dupes (pulse_run env es s)) q = None"
  shows "\<exists>t' \<in> fst ` set es. t < t' - dedupe_age \<and> dedupe_limit < length es + length (pu_dupes s)"
  using assms
proof (induction es arbitrary: s)
  case (Cons e es)
  obtain now x where e: "e = (now, x)" by (cases e)
  let ?s = "pulse_step env (now, x) s"
  from step_dedupe(3) [OF Cons.prems(1,2), of env now x] show ?case
  proof
    assume "map_of (pu_dupes ?s) q = Some t"
    from Cons.IH [OF step_dedupe(1) [OF Cons.prems(1)] this] Cons.prems(3)
      step_dedupe(2) [OF Cons.prems(1), of env now x]
    show ?case by (fastforce simp: e)
  qed (auto simp: e)
qed simp

lemma pulse_start_Inr:
  "pulse_start env now w = Inr s \<Longrightarrow>
   pu_dupes s = [] \<and> pu_seq s = 0 \<and> pu_tun s = [] \<and> pu_sent s = [] \<and>
   (\<forall>p \<in> set (pu_paths s). up_rtt p = 0 \<and> up_jitter p = 0)"
  by (auto simp: pulse_start_def pulse_path_def split: if_splits)

lemma accepted_Some:
  assumes "accepted env (now, e) s = Some (q, b)"
  shows "map_of (pu_dupes s) q = None \<and>
    (\<exists>i a packet. e = Datagram i a packet \<and> box_Open (ps_crypto env) (ps_key env) packet = Inr (kindData, q, b))"
  using assms by (cases e) (auto simp: accepted.simps split: sum.splits if_splits)

lemma accepted_remembered:
  assumes "accepted env (t, e) s = Some (q, b)" and "distinct (map fst (pu_dupes s))"
  shows "map_of (pu_dupes (pulse_step env (t, e) s)) q = Some t"
  using assms(1) dedupe_inserts [OF assms(2)] accepted_Some [OF assms(1)]
  by (simp add: pulse_step_effect)

lemma seen_again:
  assumes "map_of (pu_dupes s) q \<noteq> None"
    and "box_Open (ps_crypto env) (ps_key env) packet = Inr (kindData, q, b)"
  shows "pu_tun (pulse_step env (t, Datagram i a packet) s) = pu_tun s"
  using assms by (auto simp: pulse_step_effect accepted.simps)


definition sample_config :: CoreConfig where
  "sample_config =
     \<lparr>cc_Name = ''t1'', cc_Role = ''client'', cc_Transport = ''pulseudp-mp'', cc_ListenHost = ''0.0.0.0'',
      cc_PeerHost = ''192.0.2.1'', cc_Ports = [4000, 4001], cc_Interface = ''gb0'', cc_LocalCIDR = ''10.20.0.1/30'',
      cc_PeerIP = ''10.20.0.2'', cc_MTU = 1360, cc_KeyHex = ''00'', cc_Profile = ''competitive'',
      cc_DuplicateSmall = True, cc_DuplicateThreshold = 512, cc_KCPDataShards = 0, cc_KCPParityShards = 0,
      cc_ICMPID = 0, cc_ICMPPollMS = 8, cc_ICMPBurst = 4, cc_NAT = False, cc_InternetInterface = [],
      cc_KeepaliveMS = 1000, cc_PathTimeoutMS = 5000\<rparr>"

definition sample_pulse :: "bool \<Rightarrow> nat pulse_env" where
  "sample_pulse server =
     \<lparr>ps_crypto = sample_gcm, ps_key = ''k'', ps_random = sample_random, ps_tun = \<lambda>b w. (True, w),
      ps_sort = insertion_sort, ps_config = sample_config, ps_server = server\<rparr>"

definition sample_frame :: "char \<Rightarrow> uint64 \<Rightarrow> string \<Rightarrow> string" where
  "sample_frame = box_frame sample_gcm ''k'' (replicate 12 (CHR ''n''))"

definition sample_end :: "bool \<Rightarrow> nat pulse" where
  "sample_end server =
     \<lparr>pu_paths = [pulse_path server 1 0 4000, pulse_path server 1 1 4001], pu_dupes = [], pu_seq = 0,
      pu_stats = stats_New, pu_tun = [], pu_sent = [], pu_world = 65\<rparr>"

lemma sample_end_start: "pulse_start (sample_pulse server) 1 65 = Inr (sample_end server)"
  by (simp add: pulse_start_def sample_pulse_def sample_config_def sample_end_def)

lemma sample_frame_opens [simp]:
  "box_Open (ps_crypto (sample_pulse server)) (ps_key (sample_pulse server)) (sample_frame kind q b) = Inr (kind, q, b)"
  by (simp add: sample_pulse_def sample_frame_def box_frame_opens)

lemma sample_accepted:
  "accepted (sample_pulse server) (t, Datagram 0 ''192.0.2.7'' (sample_frame kindData q b)) (sample_end server) = Some (q, b)"
  by (simp add: sample_end_def accepted.simps)


section \<open>From one end to the other\<close>

text \<open>The datagrams a step sends are frames of a given kind, number and payload.\<close>

definition sends :: "'w pulse_env \<Rightarrow> (char \<Rightarrow> uint64 \<Rightarrow> string \<Rightarrow> bool) \<Rightarrow> 'w pulse \<Rightarrow> 'w pulse \<Rightarrow> bool" where
  "sends env P s s' \<longleftrightarrow>
     (\<exists>ds. pu_sent s' = pu_sent s @ ds \<and>
        (\<forall>d \<in> set ds. \<exists>n kind q b. length n = 12 \<and> P kind q b \<and>
           snd (snd d) = box_frame (ps_crypto env) (ps_key env) n kind q b))"

lemma sends_refl [simp]: "sends env P s s"
  by (simp add: sends_def)

lemma sends_same: "pu_sent s' = pu_sent s \<Longrightarrow> sends env P s s'"
  by (simp add: sends_def)

lemma sends_trans: "sends env P s s' \<Longrightarrow> sends env P s' s'' \<Longrightarrow> sends env P s s''"
  unfolding sends_def by (metis (no_types, lifting) Un_iff append_assoc set_append)

lemma sends_frame:
  assumes "pulse_seal env kind q b s = (Inr f, s')" and "fills_buffer (ps_random env)" and "P kind q b"
  shows "sends env P t (pulse_send server i f t)"
proof -
  from assms(1) obtain w where "box_Seal (ps_crypto env) (ps_random env) (ps_key env) kind q b (pu_world s) = (Inr f, w)"
    by (auto simp: pulse_seal_def split: prod.splits)
  from box_Seal_Inr [OF this assms(2)] assms(3) show ?thesis
    by (auto simp: sends_def pulse_send_def intro: exI [of _ "[]"])
qed

lemma sends_forward:
  assumes "fills_buffer (ps_random env)"
  shows "sends env (\<lambda>kind q b. kind = kindData \<and> q = pu_seq s + 1 \<and> b = payload) s (pulse_forward env payload now s)"
proof -
  let ?P = "\<lambda>kind q b. kind = kindData \<and> q = pu_seq s + 1 \<and> b = payload"
  let ?s1 = "s\<lparr>pu_seq := pu_seq s + 1\<rparr>"
  obtain r s2 where seal: "pulse_seal env kindData (pu_seq s + 1) payload ?s1 = (r, s2)"
    by (cases "pulse_seal env kindData (pu_seq s + 1) payload ?s1")
  then have s2: "pu_sent s2 = pu_sent s" using pulse_sealD [OF seal] by simp
  show ?thesis
  proof (cases r)
    case (Inl e)
    with seal s2 show ?thesis by (simp add: pulse_forward_def next_seq_def sends_same)
  next
    case (Inr f)
    have send: "sends env ?P t (pulse_send (ps_server env) i f t)" for i t
      using sends_frame [OF _ assms, where P = ?P] seal Inr by blast
    have best: "sends env ?P s (note_active i now
        (pulse_send (ps_server env) i f s2\<lparr>pu_stats := count_tx payload (pu_stats (pulse_send (ps_server env) i f s2))\<rparr>))" for i
      using sends_trans [OF sends_same [OF s2] send, of i] by (simp add: sends_def)
    from sends_trans [OF best send] best show ?thesis
      using seal Inr s2 by (simp add: pulse_forward_def next_seq_def Let_def sends_same split: list.split)
  qed
qed

text \<open>
  C16: whatever path it takes and wherever it seems to come from, a datagram that carries a packet read from the
  interface of one end is written to the interface of the other end, unchanged, if its number was not seen
  there; a second copy, such as the one sent on the second path, is not written again.
\<close>

theorem pulse_delivers_once:
  assumes cipher: "gcm_cipher (ps_crypto env) (ps_key env)" "fills_buffer (ps_random env)"
    and same: "ps_crypto env' = ps_crypto env" "ps_key env' = ps_key env"
    and sent: "pu_sent (pulse_forward env b now s) = pu_sent s @ ds" "(i, a, f) \<in> set ds"
    and new: "map_of (pu_dupes r) (pu_seq s + 1) = None" "distinct (map fst (pu_dupes r))"
    and path: "j < length (pu_paths r)" and tun: "fst (ps_tun env' b (pu_world r))"
  shows "pu_tun (pulse_run env' [(t, Datagram j x f)] r) = pu_tun r @ [b] \<and>
    pu_tun (pulse_run env' [(t, Datagram j x f), (t', Datagram k y f)] r) = pu_tun r @ [b]"
proof -
  from sends_forward [OF cipher(2), of s b now] sent obtain n where
      "length n = 12" "f = box_frame (ps_crypto env) (ps_key env) n kindData (pu_seq s + 1) b"
    by (auto simp: sends_def)
  then have opens: "box_Open (ps_crypto env') (ps_key env') f = Inr (kindData, pu_seq s + 1, b)"
    using cipher(1) by (simp add: same box_frame_opens)
  have first: "accepted env' (t, Datagram j x f) r = Some (pu_seq s + 1, b)"
    using opens new path by (simp add: accepted.simps)
  then have one: "pu_tun (pulse_run env' [(t, Datagram j x f)] r) = pu_tun r @ [b]"
    using tun by (simp add: pulse_step_effect tun_gets_def)
  have "map_of (pu_dupes (pulse_step env' (t, Datagram j x f) r)) (pu_seq s + 1) \<noteq> None"
    using accepted_remembered [OF first new(2)] by simp
  from seen_again [OF this opens] one show ?thesis by simp
qed

definition sample_hello :: string where
  "sample_hello = box_frame sample_gcm ''k'' (replicate 12 (char_of (65::nat))) kindData 1 ''hello''"

lemma sample_sent:
  "pu_sent (pulse_forward (sample_pulse False) ''hello'' 9 (sample_end False)) =
   pu_sent (sample_end False) @ [(0, None, sample_hello), (1, None, sample_hello)]"
  by (simp add: pulse_forward_def sample_pulse_def sample_end_def next_seq_def pulse_seal_def box_Seal_def
      sample_random_def ranked_def scored_def enumerate_eq_zip pulse_path_def path_score_def
      insertion_sort_def sample_config_def pulse_timeout_def int64_def note_active_def pulse_send_def Let_def
      List.map_filter_def sample_hello_def)

theorem pulse_delivers_once_witness:
  "\<exists>f g. map (snd \<circ> snd) (pu_sent (pulse_forward (sample_pulse False) ''hello'' 9 (sample_end False))) = [f, g] \<and>
     pu_tun (pulse_run (sample_pulse True) [(10, Datagram 0 ''192.0.2.7'' f), (11, Datagram 1 ''192.0.2.7'' g)]
       (sample_end True)) = [''hello'']"
proof -
  have "pu_tun (pulse_run (sample_pulse True)
      [(10, Datagram 0 ''192.0.2.7'' sample_hello), (11, Datagram 1 ''192.0.2.7'' sample_hello)] (sample_end True)) =
      pu_tun (sample_end True) @ [''hello'']"
    by (rule pulse_delivers_once [where i = 0 and a = None, OF _ _ _ _ sample_sent, THEN conjunct2])
      (simp_all add: sample_pulse_def sample_end_def)
  with sample_sent show ?thesis by (simp add: sample_end_def)
qed

section \<open>The choice of the path\<close>

lemma in_scored:
  "(i, v) \<in> set (scored timeout now ps) \<longleftrightarrow> i < length ps \<and> path_score timeout now (ps ! i) = Some v"
  by (auto simp: scored_def in_map_filter in_set_enumerate_eq split: prod.splits)

lemma map_filter_fst_distinct:
  "(\<And>i p. f (i, p) = map_option (Pair i) (g p)) \<Longrightarrow> distinct (map fst xs) \<Longrightarrow> distinct (map fst (List.map_filter f xs))"
proof (induction xs)
  case (Cons x xs)
  obtain i p where x: "x = (i, p)" by (cases x)
  have "fst ` set (List.map_filter f xs) \<subseteq> fst ` set xs" using Cons.prems(1) by (force simp: in_map_filter)
  with Cons x show ?case by (cases "g p") (auto simp: map_filter_simps)
qed (simp add: map_filter_simps)

lemma distinct_scored: "distinct (map fst (scored timeout now ps))"
  unfolding scored_def by (rule map_filter_fst_distinct [where g = "path_score timeout now"]) simp_all



section \<open>Times\<close>

lemma paths_kept [simp]:
  "pu_paths (pulse_reply env i q payload s) = pu_paths s" "pu_paths (pulse_data env q payload now s) = pu_paths s"
  "pu_paths (pulse_keepalive env now i s) = pu_paths s" "pu_paths (pulse_forward env payload now s) = pu_paths s"
  by (auto simp: pulse_reply_def pulse_data_def pulse_keepalive_def pulse_forward_def next_seq_def Let_def
      split: prod.splits sum.splits bool.splits list.splits dest!: pulse_sealD)

lemma tick_paths [simp]: "pu_paths (pulse_tick env now s) = pu_paths s"
proof -
  have "pu_paths (fold (pulse_keepalive env now) is s) = pu_paths s" for "is" by (induction "is" arbitrary: s) simp_all
  then show ?thesis by (simp add: pulse_tick_def)
qed

definition timely :: "udp_path \<Rightarrow> bool" where
  "timely p \<longleftrightarrow> 0 \<le> up_rtt p \<and> up_rtt p < 30 * Second \<and> 0 \<le> up_jitter p \<and> up_jitter p < 30 * Second"

lemma quarter_mix_bounds:
  "0 \<le> a \<Longrightarrow> a < n \<Longrightarrow> 0 \<le> b \<Longrightarrow> b < n \<Longrightarrow> 0 \<le> quarter_mix a b \<and> quarter_mix a b < n"
  unfolding quarter_mix_def by auto

lemma timely_update: "timely p \<Longrightarrow> 0 < v \<Longrightarrow> v < 30 * Second \<Longrightarrow> timely (updateRTT now v p)"
  using quarter_mix_bounds [of "up_rtt p" "30 * Second" v] quarter_mix_bounds [of "up_jitter p" "30 * Second" "\<bar>up_rtt p - v\<bar>"]
  by (auto simp: timely_def updateRTT_def Let_def Second_def)

lemma timely_ops [simp]: "timely (markSeen now p) = timely p" "timely (set_remote server addr p) = timely p"
  by (simp_all add: timely_def markSeen_def set_remote_def)

lemma timely_upd:
  assumes f: "\<And>p. timely p \<Longrightarrow> timely (f p)" and ps: "\<forall>p \<in> set ps. timely p"
  shows "\<forall>p \<in> set (ps[i := f (ps ! i)]). timely p"
proof (cases "i < length ps")
  case True
  then have "timely (f (ps ! i))" using ps f by simp
  then show ?thesis using ps set_update_subset_insert [of ps i "f (ps ! i)"] by blast
next
  case False
  then have "ps[i := f (ps ! i)] = ps" by (simp add: list_update_beyond)
  then show ?thesis using ps by simp
qed

definition all_timely :: "'w pulse \<Rightarrow> bool" where
  "all_timely s \<longleftrightarrow> (\<forall>p \<in> set (pu_paths s). timely p)"

lemma all_timely_paths: "pu_paths s' = pu_paths s \<Longrightarrow> all_timely s' = all_timely s"
  by (simp add: all_timely_def)

lemma all_timely_upd: "(\<And>p. timely p \<Longrightarrow> timely (f p)) \<Longrightarrow> all_timely s \<Longrightarrow> all_timely (upd_path i f s)"
  unfolding all_timely_def upd_path_simps by (rule timely_upd)

lemma all_timely_pong: "all_timely s \<Longrightarrow> all_timely (pulse_pong i payload now s)"
  by (simp add: pulse_pong_def Let_def all_timely_upd timely_update)

lemma all_timely_receive: "all_timely s \<Longrightarrow> all_timely (pulse_receive env i addr packet now s)"
proof -
  assume "all_timely s"
  then have s0: "all_timely (upd_path i (set_remote (ps_server env) addr) s)" (is "all_timely ?s0")
    by (rule all_timely_upd [rotated]) simp
  then have s1: "all_timely (upd_path i (markSeen now) ?s0)" (is "all_timely ?s1")
    by (rule all_timely_upd [rotated]) simp
  have "all_timely (pulse_data env q b now ?s1)" "all_timely (pulse_reply env i q b ?s1)" for q b
    using s1 all_timely_paths paths_kept(1,2) by metis+
  with s0 s1 all_timely_pong [OF s1] show ?thesis
    by (cases "box_Open (ps_crypto env) (ps_key env) packet") (auto simp: pulse_receive_def Let_def)
qed

lemma step_timely: "all_timely s \<Longrightarrow> all_timely (pulse_step env (now, e) s)"
  by (cases e) (simp_all add: pulse_step.simps all_timely_receive all_timely_paths [of "pulse_tick env now s" s]
      all_timely_paths [of "pulse_forward env _ now s" s])

text \<open>
  C35: in every reachable state of an end, the smoothed round trip time and the jitter of each path are in
  [0 s, 30 s), whatever the pongs claim; their sums stay far below 2^53, so the floating point arithmetic
  of the scores is exact.
\<close>

theorem pulse_times_bounded:
  assumes "pulse_start env t0 w = Inr s0" and "p \<in> set (pu_paths (pulse_run env es s0))"
  shows "0 \<le> up_rtt p \<and> up_rtt p < 30 * Second \<and> 0 \<le> up_jitter p \<and> up_jitter p < 30 * Second \<and>
    2 * up_rtt p + 5 * up_jitter p < 2 ^ 53"
proof -
  have run: "all_timely (pulse_run env es s)" if "all_timely s" for s
    using that
  proof (induction es arbitrary: s)
    case (Cons e es)
    obtain t x where "e = (t, x)" by (cases e)
    with Cons.IH [OF step_timely [OF Cons.prems]] show ?case by simp
  qed simp
  have "all_timely s0" using pulse_start_Inr [OF assms(1)] by (simp add: all_timely_def timely_def Second_def)
  from run [OF this] assms(2) show ?thesis by (auto simp: all_timely_def timely_def Second_def)
qed

theorem pulse_times_bounded_witness:
  "let now = unix_epoch + 7 * Second; pong = sample_frame kindPong 3 (put_uint64 (UnixNano now));
       s = pulse_run (sample_pulse False) [(now + 80, Datagram 0 [] pong)] (sample_end False)
   in up_rtt (pu_paths s ! 0) = 80 \<and> up_jitter (pu_paths s ! 0) < 30 * Second"
proof -
  let ?now = "unix_epoch + 7 * Second"
  let ?pong = "sample_frame kindPong 3 (put_uint64 (UnixNano ?now))"
  let ?s = "pulse_run (sample_pulse False) [(?now + 80, Datagram 0 [] ?pong)] (sample_end False)"
  have "sint (UnixNano ?now) = 7 * Second" by (simp add: UnixNano_def Second_def)
  then have s: "pu_paths ?s = [(pulse_path False 1 0 4000)\<lparr>up_lastSeen := ?now + 80, up_rtt := 80\<rparr>, pulse_path False 1 1 4001]"
    by (simp add: pulse_step.simps pulse_receive_def pulse_pong_def Let_def kindPong_def kindData_def kindPing_def
        updateRTT_def markSeen_def set_remote_def sample_end_def pulse_path_def Second_def)
      (simp add: sample_pulse_def)
  then have "(pulse_path False 1 0 4000)\<lparr>up_lastSeen := ?now + 80, up_rtt := 80\<rparr> \<in> set (pu_paths ?s)" by simp
  from pulse_times_bounded [OF sample_end_start this] s show ?thesis by (simp add: Let_def)
qed

section \<open>What the code does not intend\<close>

text \<open>
  A server takes the sender of any datagram for its client, before it looks at the packet: one forged
  datagram, which does not open, and the packets of the tunnel go to the forger.
\<close>

lemma forged_datagram_redirects:
  assumes "box_Open (ps_crypto env) (ps_key env) junk = Inl e" and "ps_server env" and "i < length (pu_paths s)"
  shows "up_remote (pu_paths (pulse_step env (now, Datagram i forger junk) s) ! i) = Some forger"
  using assms by (simp add: pulse_step.simps pulse_receive_def set_remote_def)

text \<open>
  The numbers of a client start again at one when it restarts, the server keeps the ones it has seen: the
  packets of the new run are dropped as copies until it gets past the numbers of the old one.
\<close>

lemma restarted_client_dropped:
  assumes "map_of (pu_dupes server) 1 \<noteq> None"
    and "gcm_cipher (ps_crypto env) (ps_key env)" and "fills_buffer (ps_random env)"
    and "ps_crypto env' = ps_crypto env" and "ps_key env' = ps_key env"
    and "pulse_start env t w = Inr client"
    and "pu_sent (pulse_forward env b now client) = ds" and "(i, a, f) \<in> set ds"
  shows "pu_tun (pulse_step env' (t', Datagram j x f) server) = pu_tun server"
proof -
  have "pu_seq client = 0" "pu_sent client = []" using pulse_start_Inr [OF assms(6)] by simp_all
  with sends_forward [OF assms(3), of client b now] assms(7,8) obtain n where
      "length n = 12" "f = box_frame (ps_crypto env) (ps_key env) n kindData 1 b"
    by (auto simp: sends_def)
  then have "box_Open (ps_crypto env') (ps_key env') f = Inr (kindData, 1, b)"
    using assms(2,4,5) by (simp add: box_frame_opens)
  from seen_again [OF assms(1) this] show ?thesis .
qed

end
