(* ===== verification/PulseNet.thy ===== *)
theory PulseNet
  imports PulseUDP
begin

text \<open>
  A client and a server of the UDP transport on a network that belongs to an attacker: every datagram an
  end receives is one of the frames the two ends sent, to any path, from any address, as often and as
  late as the attacker likes, or something that does not open under their key, which the attacker does
  not have.
\<close>

section \<open>The datagrams a step sends\<close>

lemma sends_mono: "sends env P s s' \<Longrightarrow> (\<And>kind q b. P kind q b \<Longrightarrow> Q kind q b) \<Longrightarrow> sends env Q s s'"
proof -
  assume "sends env P s s'" and PQ: "\<And>kind q b. P kind q b \<Longrightarrow> Q kind q b"
  then obtain ds where ds: "pu_sent s' = pu_sent s @ ds"
      "\<forall>d \<in> set ds. \<exists>n kind q b. length n = 12 \<and> P kind q b \<and>
        snd (snd d) = box_frame (ps_crypto env) (ps_key env) n kind q b"
    unfolding sends_def by blast
  from ds(2) PQ have "\<forall>d \<in> set ds. \<exists>n kind q b. length n = 12 \<and> Q kind q b \<and>
        snd (snd d) = box_frame (ps_crypto env) (ps_key env) n kind q b" by meson
  with ds(1) show "sends env Q s s'" unfolding sends_def by blast
qed

text \<open>Only what was read from the interface is sent as data.\<close>

fun read_by :: "pulse_event \<Rightarrow> string set" where
  "read_by (TunPacket b) = {b}"
| "read_by _ = {}"

definition from_interface :: "pulse_event \<Rightarrow> char \<Rightarrow> uint64 \<Rightarrow> string \<Rightarrow> bool" where
  "from_interface e kind q b \<longleftrightarrow> (kind = kindData \<longrightarrow> b \<in> read_by e)"

lemma kinds_differ [simp]: "kindPing \<noteq> kindData" "kindPong \<noteq> kindData" "kindPong \<noteq> kindPing"
  by (simp_all add: kindData_def kindPing_def kindPong_def)

lemma data_sends: "pu_sent (pulse_data env q b now s) = pu_sent s"
  by (simp add: pulse_data_def split: prod.splits bool.splits)

lemma pong_sends: "pu_sent (pulse_pong i b now s) = pu_sent s"
  by (simp add: pulse_pong_def Let_def)

lemma sealed_sends:
  assumes "pulse_seal env kind q b s = (r, s1)" and "fills_buffer (ps_random env)" and "P kind q b"
  shows "sends env P s (case r of Inl _ \<Rightarrow> s1 | Inr f \<Rightarrow> pulse_send server i f s1)"
proof (cases r)
  case (Inl e)
  then show ?thesis using pulse_sealD [OF assms(1)] by (simp add: sends_same)
next
  case (Inr f)
  have same: "sends env P s s1" using pulse_sealD [OF assms(1)] by (simp add: sends_same)
  have "sends env P s1 (pulse_send server i f s1)"
    using sends_frame [OF _ assms(2), where P = P] assms(1,3) Inr by blast
  with same Inr show ?thesis by (auto intro: sends_trans)
qed

lemma reply_sends:
  "fills_buffer (ps_random env) \<Longrightarrow> P kindPong q b \<Longrightarrow> sends env P s (pulse_reply env i q b s)"
  using sealed_sends [where P = P and kind = kindPong, of env q b s]
  by (simp add: pulse_reply_def split: prod.split)

lemma keepalive_sends:
  assumes "fills_buffer (ps_random env)" and "\<And>q b. P kindPing q b"
  shows "sends env P s (pulse_keepalive env now i s)"
proof -
  let ?s = "s\<lparr>pu_seq := pu_seq s + 1\<rparr>"
  have "sends env P s ?s" by (simp add: sends_same)
  moreover have "sends env P ?s (pulse_keepalive env now i s)"
    using sealed_sends [where P = P and kind = kindPing, of env _ _ ?s] assms
    by (simp add: pulse_keepalive_def next_seq_def split: prod.split)
  ultimately show ?thesis by (rule sends_trans)
qed

lemma tick_sends:
  assumes "fills_buffer (ps_random env)" and "\<And>q b. P kindPing q b"
  shows "sends env P s (pulse_tick env now s)"
proof -
  have "sends env P s (fold (pulse_keepalive env now) is s)" for "is"
  proof (induction "is" arbitrary: s)
    case (Cons i "is")
    from sends_trans [OF keepalive_sends [where P = P, OF assms] Cons.IH] show ?case by simp
  qed simp
  then show ?thesis by (simp add: pulse_tick_def)
qed

lemma step_sends:
  assumes "fills_buffer (ps_random env)"
  shows "sends env (from_interface e) s (pulse_step env (now, e) s)"
proof (cases e)
  case (Datagram i addr packet)
  let ?s1 = "upd_path i (markSeen now) (upd_path i (set_remote (ps_server env) addr) s)"
  have s1: "sends env P s ?s1" "sends env P s (upd_path i (set_remote (ps_server env) addr) s)" for P
    by (simp_all add: sends_same)
  have "sends env (from_interface e) ?s1 (pulse_reply env i q b ?s1)" for q b
    by (rule reply_sends [OF assms]) (simp add: from_interface_def)
  then have reply: "sends env (from_interface e) s (pulse_reply env i q b ?s1)" for q b
    using s1 sends_trans by blast
  have rest: "sends env (from_interface e) s (pulse_data env q b now ?s1)"
    "sends env (from_interface e) s (pulse_pong i b now ?s1)" for q b
    by (simp_all add: sends_same data_sends pong_sends)
  show ?thesis
    using reply rest s1
    by (cases "box_Open (ps_crypto env) (ps_key env) packet")
      (auto simp: Datagram pulse_step.simps pulse_receive_def Let_def)
next
  case KeepaliveTick
  show ?thesis unfolding KeepaliveTick pulse_step.simps by (rule tick_sends [OF assms]) (simp add: from_interface_def)
next
  case (TunPacket b)
  show ?thesis
    unfolding TunPacket pulse_step.simps
    by (rule sends_mono [OF sends_forward [OF assms]]) (simp add: from_interface_def)
qed

section \<open>The network\<close>

record 'w net =
  nt_client :: "'w pulse"
  nt_server :: "'w pulse"
  nt_read :: "string set"

text \<open>nt_read has every packet the two ends have read from their interfaces.\<close>

definition wire :: "'w net \<Rightarrow> string set" where
  "wire n = (snd \<circ> snd) ` (set (pu_sent (nt_client n)) \<union> set (pu_sent (nt_server n)))"

fun attacker_can :: "'w pulse_env \<Rightarrow> 'w net \<Rightarrow> pulse_event \<Rightarrow> bool" where
  "attacker_can env n (Datagram i addr packet) =
     (packet \<in> wire n \<or> (case box_Open (ps_crypto env) (ps_key env) packet of Inl _ \<Rightarrow> True | Inr _ \<Rightarrow> False))"
| "attacker_can env n _ = True"

inductive net_step :: "'w pulse_env \<Rightarrow> 'w pulse_env \<Rightarrow> 'w net \<Rightarrow> 'w net \<Rightarrow> bool" for ce se where
  client_step: "attacker_can ce n e \<Longrightarrow>
    net_step ce se n (n\<lparr>nt_client := pulse_step ce (t, e) (nt_client n), nt_read := nt_read n \<union> read_by e\<rparr>)"
| server_step: "attacker_can se n e \<Longrightarrow>
    net_step ce se n (n\<lparr>nt_server := pulse_step se (t, e) (nt_server n), nt_read := nt_read n \<union> read_by e\<rparr>)"

inductive net_reach :: "'w pulse_env \<Rightarrow> 'w pulse_env \<Rightarrow> 'w net \<Rightarrow> bool" for ce se where
  net_start: "pulse_start ce t w = Inr c \<Longrightarrow> pulse_start se t' w' = Inr s \<Longrightarrow>
    net_reach ce se \<lparr>nt_client = c, nt_server = s, nt_read = {}\<rparr>"
| net_next: "net_reach ce se n \<Longrightarrow> net_step ce se n n' \<Longrightarrow> net_reach ce se n'"

text \<open>Every frame on the wire opens, and data on the wire was read from an interface.\<close>

definition frame_known :: "'w pulse_env \<Rightarrow> string set \<Rightarrow> string \<Rightarrow> bool" where
  "frame_known env known f \<longleftrightarrow>
     (\<exists>kind q b. box_Open (ps_crypto env) (ps_key env) f = Inr (kind, q, b) \<and> (kind = kindData \<longrightarrow> b \<in> known))"

definition net_ok :: "'w pulse_env \<Rightarrow> 'w net \<Rightarrow> bool" where
  "net_ok env n \<longleftrightarrow>
     (\<forall>f \<in> wire n. frame_known env (nt_read n) f) \<and>
     set (pu_tun (nt_client n)) \<subseteq> nt_read n \<and> set (pu_tun (nt_server n)) \<subseteq> nt_read n"

definition same_key :: "'w pulse_env \<Rightarrow> 'w pulse_env \<Rightarrow> bool" where
  "same_key ce se \<longleftrightarrow> ps_crypto se = ps_crypto ce \<and> ps_key se = ps_key ce \<and>
     gcm_cipher (ps_crypto ce) (ps_key ce) \<and> fills_buffer (ps_random ce) \<and> fills_buffer (ps_random se)"

lemma frame_known_mono: "frame_known env K f \<Longrightarrow> K \<subseteq> K' \<Longrightarrow> frame_known env K' f"
  unfolding frame_known_def by blast

text \<open>What one end does in a step of the network.\<close>

lemma end_step:
  assumes "gcm_cipher (ps_crypto env) (ps_key env)" and "fills_buffer (ps_random env)"
    and "\<forall>f \<in> wire n. frame_known env (nt_read n) f" and "attacker_can env n e"
  shows "(\<forall>d \<in> set (pu_sent (pulse_step env (t, e) s)).
      d \<in> set (pu_sent s) \<or> frame_known env (nt_read n \<union> read_by e) (snd (snd d))) \<and>
    set (pu_tun (pulse_step env (t, e) s)) \<subseteq> set (pu_tun s) \<union> nt_read n"
proof
  obtain ds where ds: "pu_sent (pulse_step env (t, e) s) = pu_sent s @ ds"
      "\<forall>d \<in> set ds. \<exists>m kind q b. length m = 12 \<and> from_interface e kind q b \<and>
        snd (snd d) = box_frame (ps_crypto env) (ps_key env) m kind q b"
    using step_sends [OF assms(2), of e s t] unfolding sends_def by blast
  have "frame_known env (nt_read n \<union> read_by e) (snd (snd d))" if "d \<in> set ds" for d
    using ds(2) that box_frame_opens [OF assms(1)] unfolding frame_known_def from_interface_def by fastforce
  then show "\<forall>d \<in> set (pu_sent (pulse_step env (t, e) s)).
      d \<in> set (pu_sent s) \<or> frame_known env (nt_read n \<union> read_by e) (snd (snd d))"
    by (auto simp: ds(1))
  have "b \<in> nt_read n" if acc: "accepted env (t, e) s = Some (q, b)" for q b
  proof -
    from accepted_Some [OF acc] obtain i a packet where e: "e = Datagram i a packet"
        and opens: "box_Open (ps_crypto env) (ps_key env) packet = Inr (kindData, q, b)" by blast
    with assms(4) have "packet \<in> wire n" by simp
    with assms(3) opens show ?thesis by (fastforce simp: frame_known_def)
  qed
  then show "set (pu_tun (pulse_step env (t, e) s)) \<subseteq> set (pu_tun s) \<union> nt_read n"
    by (cases "accepted env (t, e) s") (auto simp: pulse_step_effect tun_gets_def)
qed

lemma net_step_ok: "net_step ce se n n' \<Longrightarrow> same_key ce se \<Longrightarrow> net_ok ce n \<Longrightarrow> net_ok ce n'"
proof (induction rule: net_step.induct)
  case (client_step n e t)
  then have "\<forall>f \<in> wire n. frame_known ce (nt_read n) f" by (simp add: net_ok_def)
  from end_step [OF _ _ this client_step.hyps, of t "nt_client n"] client_step.prems
  show ?case
    by (auto simp: net_ok_def wire_def same_key_def intro: frame_known_mono [where K = "nt_read n"])
next
  case (server_step n e t)
  then have ok: "\<forall>f \<in> wire n. frame_known se (nt_read n) f"
    by (simp add: net_ok_def same_key_def frame_known_def)
  have same: "frame_known se K f = frame_known ce K f" for K f
    using server_step.prems(1) by (simp add: same_key_def frame_known_def)
  from end_step [OF _ _ ok server_step.hyps, of t "nt_server n"] server_step.prems
  show ?case
    unfolding same
    by (auto simp: net_ok_def wire_def same_key_def intro: frame_known_mono [where K = "nt_read n"])
qed

text \<open>
  C8: whatever the attacker who owns the network does, every packet that either end writes to its
  interface was read, byte for byte, from the interface of one of the two ends.
\<close>

theorem pulse_net_authentic:
  assumes "net_reach ce se n" and "same_key ce se"
  shows "set (pu_tun (nt_client n)) \<union> set (pu_tun (nt_server n)) \<subseteq> nt_read n"
proof -
  from assms have "net_ok ce n"
  proof (induction rule: net_reach.induct)
    case (net_start t w c t' w' s)
    then show ?case using pulse_start_Inr by (fastforce simp: net_ok_def wire_def)
  qed (use net_step_ok in blast)
  then show ?thesis by (simp add: net_ok_def)
qed

definition sample_net :: "nat net" where
  "sample_net =
     \<lparr>nt_client = pulse_forward (sample_pulse False) ''hello'' 9 (sample_end False), nt_server = sample_end True,
      nt_read = {''hello''}\<rparr>"

lemma sample_net_runs: "net_reach (sample_pulse False) (sample_pulse True) sample_net"
proof -
  let ?start = "\<lparr>nt_client = sample_end False, nt_server = sample_end True, nt_read = {}\<rparr>"
  have "net_reach (sample_pulse False) (sample_pulse True) ?start"
    by (rule net_start [OF sample_end_start sample_end_start])
  from net_next [OF this client_step [where e = "TunPacket ''hello''" and t = 9]]
  show ?thesis by (simp add: sample_net_def pulse_step.simps)
qed

lemma sample_wire: "sample_hello \<in> wire sample_net"
  by (simp add: wire_def sample_net_def sample_sent)

lemma sample_opens: "box_Open (ps_crypto (sample_pulse x)) (ps_key (sample_pulse x)) sample_hello = Inr (kindData, 1, ''hello'')"
  by (simp add: sample_pulse_def sample_hello_def box_frame_opens)

lemma sample_keys: "same_key (sample_pulse False) (sample_pulse True)"
  by (simp add: same_key_def sample_pulse_def)

theorem pulse_net_authentic_witness:
  "\<exists>n. net_reach (sample_pulse False) (sample_pulse True) n \<and> pu_tun (nt_server n) = [''hello''] \<and>
     set (pu_tun (nt_client n)) \<union> set (pu_tun (nt_server n)) \<subseteq> nt_read n"
proof -
  let ?e = "Datagram 1 ''198.51.100.1'' sample_hello"
  let ?n = "sample_net\<lparr>nt_server := pulse_step (sample_pulse True) (20, ?e) (nt_server sample_net),
      nt_read := nt_read sample_net \<union> read_by ?e\<rparr>"
  have n: "net_reach (sample_pulse False) (sample_pulse True) ?n"
    by (rule net_next [OF sample_net_runs server_step]) (simp add: sample_wire)
  have "accepted (sample_pulse True) (20, ?e) (sample_end True) = Some (1, ''hello'')"
    by (simp add: accepted.simps sample_opens) (simp add: sample_end_def)
  then have "pu_tun (nt_server ?n) = [''hello'']"
    by (simp add: sample_net_def pulse_step_effect tun_gets_def) (simp add: sample_end_def sample_pulse_def)
  with n pulse_net_authentic [OF n sample_keys] show ?thesis by blast
qed

text \<open>
  The frames say nothing about their direction: a client that is sent its own frame back writes its own
  packet to its interface.
\<close>

lemma reflected_frame_accepted:
  "\<exists>n. net_reach (sample_pulse False) (sample_pulse True) n \<and> pu_tun (nt_client n) = [''hello''] \<and>
     pu_tun (nt_server n) = [] \<and> pu_sent (nt_server n) = []"
proof -
  let ?e = "Datagram 0 [] sample_hello"
  let ?n = "sample_net\<lparr>nt_client := pulse_step (sample_pulse False) (20, ?e) (nt_client sample_net),
      nt_read := nt_read sample_net \<union> read_by ?e\<rparr>"
  have n: "net_reach (sample_pulse False) (sample_pulse True) ?n"
    by (rule net_next [OF sample_net_runs client_step]) (simp add: sample_wire)
  have "accepted (sample_pulse False) (20, ?e) (nt_client sample_net) = Some (1, ''hello'')"
    by (simp add: accepted.simps sample_opens) (simp add: sample_net_def sample_end_def)
  then have "pu_tun (nt_client ?n) = [''hello'']"
    by (simp add: pulse_step_effect tun_gets_def) (simp add: sample_net_def sample_end_def sample_pulse_def)
  moreover have "pu_tun (nt_server ?n) = []" "pu_sent (nt_server ?n) = []"
    by (simp_all add: sample_net_def sample_end_def)
  ultimately show ?thesis using n by blast
qed

end
