(* ===== verification/CoreTransports.thy ===== *)
theory CoreTransports
  imports CoreConfig
begin

text \<open>
  The other transports of the tunnel program: src/internal/transports/swiftkcp/kcp.go, which writes the
  packets with their lengths into the byte stream of a KCP session, gamequic/quic.go, which sends sealed
  packets as QUIC datagrams, and echogame/icmp.go, which carries them in echo requests and replies. KCP,
  QUIC and ICMP themselves are libraries: a stream, datagrams and echo messages here.
\<close>

section \<open>KCP\<close>

definition kcp_block :: "CoreConfig \<Rightarrow> go_error + string" where
  "kcp_block c =
     (case hex_decode (cc_KeyHex c) of
        None \<Rightarrow> Inl (Plain ''invalid hex key'')
      | Some k \<Rightarrow> if length k \<noteq> 32 then Inl (Plain ''KCP key must be 32 bytes'') else Inr k)"

record kcp_tuning =
  kt_nodelay :: int
  kt_interval :: int
  kt_resend :: int
  kt_nc :: int
  kt_window :: int
  kt_ack_nodelay :: bool
  kt_stream :: bool
  kt_mtu :: int

definition kcp_tune :: "CoreConfig \<Rightarrow> kcp_tuning" where
  "kcp_tune c =
     (let p = ToLower (cc_Profile c);
          interval = (if p = ''balanced'' then 15 else if p = ''stable'' \<or> p = ''lossy'' then 20 else 10);
          resend = (if p = ''lossy'' then 3 else 2);
          outer = int64 (cc_MTU c + 80);
          mtu = (if 1400 < outer then 1400 else if outer < 900 then 900 else outer)
      in \<lparr>kt_nodelay = 1, kt_interval = interval, kt_resend = resend, kt_nc = 1, kt_window = 512,
          kt_ack_nodelay = True, kt_stream = True, kt_mtu = mtu\<rparr>)"

text \<open>
  The sending loop writes the length of a packet in four bytes, then the packet; session is the write to
  the session, and the loop ends with its first error.
\<close>

definition kcp_frame :: "string \<Rightarrow> string" where
  "kcp_frame p = be_bytes 4 (int (length p)) @ p"

fun kcp_send ::
  "(string \<Rightarrow> 'w \<Rightarrow> go_error option \<times> 'w) \<Rightarrow> string list \<Rightarrow> core_stats \<times> 'w \<Rightarrow>
   go_error option \<times> core_stats \<times> 'w" where
  "kcp_send session [] sw = (None, sw)"
| "kcp_send session (p # ps) (st, w) =
     (if 65535 < length p then kcp_send session ps (st, w)
      else case session (be_bytes 4 (int (length p))) w of
             (Some e, w1) \<Rightarrow> (Some e, st, w1)
           | (None, w1) \<Rightarrow>
               (case session p w1 of
                  (Some e, w2) \<Rightarrow> (Some e, st, w2)
                | (None, w2) \<Rightarrow> kcp_send session ps (count_tx p st, w2)))"

text \<open>
  The receiving loop on the bytes that have arrived: the packets it writes to the interface, and where it
  stands then. NeedMore is the read that waits for further bytes, or fails when the session ends.
\<close>

datatype kcp_stop = NeedMore | BadLength int

definition be_value :: "string \<Rightarrow> nat" where
  "be_value s = fold (\<lambda>c n. 256 * n + byte_of c) s 0"

function kcp_receive :: "string \<Rightarrow> string list \<times> kcp_stop" where
  "kcp_receive s =
     (if length s < 4 then ([], NeedMore)
      else
        let n = be_value (take 4 s); rest = drop 4 s
        in if n = 0 \<or> 65535 < n then ([], BadLength (int n))
           else if length rest < n then ([], NeedMore)
           else (case kcp_receive (drop n rest) of (ps, stop) \<Rightarrow> (take n rest # ps, stop)))"
  by pat_completeness auto
termination
  by (relation "measure length") auto

declare kcp_receive.simps [simp del]

section \<open>QUIC\<close>

text \<open>An end: the number of the last packet, the counters, what was written to the interface, and the datagrams sent.\<close>

record 'w quic =
  qu_seq :: uint64
  qu_stats :: core_stats
  qu_tun :: "string list"
  qu_sent :: "string list"
  qu_world :: 'w

record 'w quic_env =
  qe_crypto :: crypto
  qe_key :: string
  qe_random :: "'w random"
  qe_tun :: "string \<Rightarrow> 'w \<Rightarrow> go_error option \<times> 'w"
  qe_send :: "string \<Rightarrow> 'w \<Rightarrow> go_error option \<times> 'w"

definition quic_kind :: char where "quic_kind = CHR 0x01"

text \<open>One round of each loop of bridge: an error ends it, and with it the connection.\<close>

definition quic_read :: "'w quic_env \<Rightarrow> string \<Rightarrow> 'w quic \<Rightarrow> go_error option \<times> 'w quic" where
  "quic_read env p s =
     (case box_Seal (qe_crypto env) (qe_random env) (qe_key env) quic_kind (qu_seq s + 1) p (qu_world s) of
        (Inl _, w) \<Rightarrow> (None, s\<lparr>qu_seq := qu_seq s + 1, qu_world := w\<rparr>)
      | (Inr f, w) \<Rightarrow>
          (case qe_send env f w of
             (Some e, w1) \<Rightarrow> (Some e, s\<lparr>qu_seq := qu_seq s + 1, qu_world := w1\<rparr>)
           | (None, w1) \<Rightarrow>
               (None, s\<lparr>qu_seq := qu_seq s + 1, qu_sent := qu_sent s @ [f], qu_stats := count_tx p (qu_stats s),
                        qu_world := w1\<rparr>)))"

definition quic_receive :: "'w quic_env \<Rightarrow> string \<Rightarrow> 'w quic \<Rightarrow> go_error option \<times> 'w quic" where
  "quic_receive env frame s =
     (case box_Open (qe_crypto env) (qe_key env) frame of
        Inl _ \<Rightarrow> (None, s)
      | Inr (kind, _, p) \<Rightarrow>
          if kind \<noteq> quic_kind then (None, s)
          else case qe_tun env p (qu_world s) of
                 (Some e, w) \<Rightarrow> (Some e, s\<lparr>qu_world := w\<rparr>)
               | (None, w) \<Rightarrow>
                   (None, s\<lparr>qu_tun := qu_tun s @ [p], qu_stats := count_rx p (qu_stats s), qu_world := w\<rparr>))"

section \<open>ICMP\<close>

datatype icmp_type = EchoRequest | EchoReply

record icmp_msg =
  im_type :: icmp_type
  im_id :: int
  im_seq :: int
  im_data :: string

record 'w icmp =
  ic_seq :: "32 word"
  ic_queue :: "string list"
  ic_stats :: core_stats
  ic_tun :: "string list"
  ic_sent :: "(string \<times> icmp_msg) list"
  ic_world :: 'w

text \<open>
  ic_queue is the channel between tunReader and the loop that sends, ic_sent the messages sent, each with
  its destination. The identifier and the number of an echo message have two bytes on the wire.
\<close>

record 'w icmp_env =
  ie_crypto :: crypto
  ie_key :: string
  ie_random :: "'w random"
  ie_tun :: "string \<Rightarrow> 'w \<Rightarrow> bool \<times> 'w"
  ie_id :: int
  ie_peer :: string
  ie_server :: bool

definition kindPoll :: char where "kindPoll = CHR 0x01"
definition kindReply :: char where "kindReply = CHR 0x02"

definition icmp_wire :: "icmp_msg \<Rightarrow> icmp_msg" where
  "icmp_wire m = m\<lparr>im_id := im_id m mod 65536, im_seq := im_seq m mod 65536\<rparr>"

definition queue_size :: "bool \<Rightarrow> nat" where
  "queue_size server = (if server then 256 else 128)"

text \<open>A packet that finds the queue full is dropped.\<close>

definition tunReader :: "bool \<Rightarrow> string \<Rightarrow> 'w icmp \<Rightarrow> 'w icmp" where
  "tunReader server p s =
     (if length (ic_queue s) < queue_size server
      then s\<lparr>ic_queue := ic_queue s @ [p], ic_stats := count_tx p (ic_stats s)\<rparr> else s)"

definition take_queued :: "'w icmp \<Rightarrow> string \<times> 'w icmp" where
  "take_queued s = (case ic_queue s of [] \<Rightarrow> ([], s) | p # ps \<Rightarrow> (p, s\<lparr>ic_queue := ps\<rparr>))"

definition icmp_seal ::
  "'w icmp_env \<Rightarrow> char \<Rightarrow> uint64 \<Rightarrow> string \<Rightarrow> 'w icmp \<Rightarrow> (go_error + string) \<times> 'w icmp" where
  "icmp_seal env kind q b s =
     (case box_Seal (ie_crypto env) (ie_random env) (ie_key env) kind q b (ic_world s) of
        (r, w) \<Rightarrow> (r, s\<lparr>ic_world := w\<rparr>))"

definition icmp_emit :: "string \<Rightarrow> icmp_msg \<Rightarrow> 'w icmp \<Rightarrow> 'w icmp" where
  "icmp_emit dest m s =
     s\<lparr>ic_sent := ic_sent s @ [(dest, icmp_wire m)], ic_stats := SetActivePath ''icmp'' (ic_stats s)\<rparr>"

definition icmp_write :: "'w icmp_env \<Rightarrow> string \<Rightarrow> 'w icmp \<Rightarrow> 'w icmp" where
  "icmp_write env p s =
     (case ie_tun env p (ic_world s) of
        (True, w) \<Rightarrow> s\<lparr>ic_tun := ic_tun s @ [p], ic_stats := count_rx p (ic_stats s), ic_world := w\<rparr>
      | (False, w) \<Rightarrow> s\<lparr>ic_world := w\<rparr>)"

definition icmp_poll :: "'w icmp_env \<Rightarrow> 'w icmp \<Rightarrow> 'w icmp" where
  "icmp_poll env s =
     (case take_queued s of (b, s1) \<Rightarrow>
        let q = ic_seq s1 + 1; s2 = s1\<lparr>ic_seq := q\<rparr> in
        case icmp_seal env kindPoll (ucast q) b s2 of
          (Inl _, s3) \<Rightarrow> s3
        | (Inr f, s3) \<Rightarrow>
            icmp_emit (ie_peer env)
              \<lparr>im_type = EchoRequest, im_id = ie_id env, im_seq = uint q mod 65536, im_data = f\<rparr> s3)"

definition icmp_client_receive :: "'w icmp_env \<Rightarrow> icmp_msg \<Rightarrow> 'w icmp \<Rightarrow> 'w icmp" where
  "icmp_client_receive env m s =
     (if im_type m \<noteq> EchoReply \<or> im_id m \<noteq> ie_id env then s
      else case box_Open (ie_crypto env) (ie_key env) (im_data m) of
             Inl _ \<Rightarrow> s
           | Inr (kind, _, p) \<Rightarrow> if kind \<noteq> kindReply \<or> p = [] then s else icmp_write env p s)"

definition icmp_answer :: "'w icmp_env \<Rightarrow> string \<Rightarrow> icmp_msg \<Rightarrow> uint64 \<Rightarrow> 'w icmp \<Rightarrow> 'w icmp" where
  "icmp_answer env addr m q s =
     (case take_queued s of (b, s1) \<Rightarrow>
     (case icmp_seal env kindReply q b s1 of
        (Inl _, s2) \<Rightarrow> s2
      | (Inr f, s2) \<Rightarrow>
          icmp_emit addr \<lparr>im_type = EchoReply, im_id = im_id m, im_seq = im_seq m, im_data = f\<rparr> s2))"

definition icmp_server_receive :: "'w icmp_env \<Rightarrow> string \<Rightarrow> icmp_msg \<Rightarrow> 'w icmp \<Rightarrow> 'w icmp" where
  "icmp_server_receive env addr m s =
     (if im_type m \<noteq> EchoRequest \<or> im_id m \<noteq> ie_id env then s
      else case box_Open (ie_crypto env) (ie_key env) (im_data m) of
             Inl _ \<Rightarrow> s
           | Inr (kind, q, p) \<Rightarrow>
               if kind \<noteq> kindPoll then s
               else icmp_answer env addr m q (if p = [] then s else icmp_write env p s))"

datatype icmp_event = Queued string | PollTick | EchoIn string icmp_msg

fun icmp_step :: "'w icmp_env \<Rightarrow> icmp_event \<Rightarrow> 'w icmp \<Rightarrow> 'w icmp" where
  "icmp_step env (Queued p) s = tunReader (ie_server env) p s"
| "icmp_step env PollTick s = (if ie_server env then s else icmp_poll env s)"
| "icmp_step env (EchoIn addr m) s =
     (if ie_server env then icmp_server_receive env addr m s else icmp_client_receive env m s)"

definition icmp_start :: "'w \<Rightarrow> 'w icmp" where
  "icmp_start w =
     \<lparr>ic_seq = 0, ic_queue = [], ic_stats = stats_New, ic_tun = [], ic_sent = [], ic_world = w\<rparr>"

section \<open>The byte stream of KCP\<close>

lemma be_value_length:
  "n < 4294967296 \<Longrightarrow> be_value (be_bytes 4 (int n)) = n"
  using be_bytes_value [of "int n" 4] by (simp add: be_value_def)

lemma receive_short: "length s < 4 \<Longrightarrow> kcp_receive s = ([], NeedMore)"
  by (simp add: kcp_receive.simps)

lemma receive_frame:
  assumes "p \<noteq> []" and "length p \<le> 65535"
  shows "kcp_receive (kcp_frame p @ s) = (case kcp_receive s of (ps, stop) \<Rightarrow> (p # ps, stop))"
proof -
  have n: "be_value (be_bytes 4 (int (length p))) = length p" using assms(2) by (simp add: be_value_length)
  show ?thesis using assms by (subst kcp_receive.simps) (simp add: kcp_frame_def n Let_def)
qed

lemma receive_part:
  assumes "p \<noteq> []" and "length p \<le> 65535" and "k < length (kcp_frame p)"
  shows "kcp_receive (take k (kcp_frame p)) = ([], NeedMore)"
proof (cases "k < 4")
  case True
  then show ?thesis by (simp add: receive_short)
next
  case False
  have n: "be_value (be_bytes 4 (int (length p))) = length p" using assms(2) by (simp add: be_value_length)
  have "take k (kcp_frame p) = be_bytes 4 (int (length p)) @ take (k - 4) p" using False by (simp add: kcp_frame_def)
  moreover have "kcp_receive (be_bytes 4 (int (length p)) @ take (k - 4) p) = ([], NeedMore)"
    using assms False by (subst kcp_receive.simps) (auto simp: n Let_def kcp_frame_def)
  ultimately show ?thesis by simp
qed

text \<open>
  C18: however the stream of a KCP session is cut into pieces, the receiver gets a prefix of the packets that
  were sent, in order and unchanged, and never takes the stream for damaged; when all bytes have arrived it has
  all packets. The packets must have between 1 and 65535 bytes.
\<close>

theorem kcp_stream_roundtrip:
  assumes "\<forall>p \<in> set ps. 1 \<le> length p \<and> length p \<le> 65535"
  shows "kcp_receive (concat (map kcp_frame ps)) = (ps, NeedMore) \<and>
    (\<exists>m. kcp_receive (take k (concat (map kcp_frame ps))) = (take m ps, NeedMore))"
  using assms
proof (induction ps arbitrary: k)
  case Nil
  show ?case by (simp add: receive_short)
next
  case (Cons p ps)
  then have p: "p \<noteq> []" "length p \<le> 65535" by auto
  have all: "kcp_receive (concat (map kcp_frame (p # ps))) = (p # ps, NeedMore)"
    using Cons receive_frame [OF p] by simp
  show ?case
  proof (cases "k < length (kcp_frame p)")
    case True
    then have "take k (concat (map kcp_frame (p # ps))) = take k (kcp_frame p)" by simp
    with receive_part [OF p True] all show ?thesis by (metis take0)
  next
    case False
    let ?k = "k - length (kcp_frame p)"
    from False have cut: "take k (concat (map kcp_frame (p # ps))) = kcp_frame p @ take ?k (concat (map kcp_frame ps))" by simp
    obtain m where "kcp_receive (take ?k (concat (map kcp_frame ps))) = (take m ps, NeedMore)" using Cons by force
    then have "kcp_receive (take k (concat (map kcp_frame (p # ps)))) = (take (Suc m) (p # ps), NeedMore)"
      by (simp only: cut receive_frame [OF p] prod.case take_Suc_Cons)
    with all show ?thesis by blast
  qed
qed

theorem kcp_stream_roundtrip_witness:
  "kcp_receive (concat (map kcp_frame [''ab'', ''c''])) = ([''ab'', ''c''], NeedMore) \<and>
   (\<exists>m. kcp_receive (take 9 (concat (map kcp_frame [''ab'', ''c'']))) = (take m [''ab'', ''c''], NeedMore))"
  by (rule kcp_stream_roundtrip) simp

text \<open>The sender writes just this stream, as long as the session takes it.\<close>

lemma kcp_send_stream:
  assumes "\<forall>p \<in> set ps. length p \<le> 65535"
  shows "\<exists>st. kcp_send (\<lambda>b w. (None, w @ b)) ps (st0, w) = (None, st, w @ concat (map kcp_frame ps))"
  using assms
proof (induction ps arbitrary: st0 w)
  case (Cons p ps)
  then show ?case using Cons.IH [of "count_tx p st0" "w @ kcp_frame p"] by (simp add: kcp_frame_def)
qed simp

text \<open>An empty packet ends the session of the receiver.\<close>

lemma empty_packet_ends: "kcp_receive (kcp_frame [] @ s) = ([], BadLength 0)"
proof -
  have "be_value (be_bytes 4 0) = 0" using be_value_length [of 0] by simp
  then show ?thesis by (subst kcp_receive.simps) (simp add: kcp_frame_def Let_def)
qed

section \<open>QUIC datagrams\<close>

lemma quic_delivers:
  assumes "gcm_cipher (qe_crypto env) (qe_key env)" and "fills_buffer (qe_random env)"
    and "qe_crypto env' = qe_crypto env" and "qe_key env' = qe_key env" and "\<And>w. fst (qe_tun env' p w) = None"
    and "quic_read env p s = (None, s')" and "qu_sent s' = qu_sent s @ [f]"
  shows "fst (quic_receive env' f r) = None \<and> qu_tun (snd (quic_receive env' f r)) = qu_tun r @ [p]"
proof -
  obtain w where "box_Seal (qe_crypto env) (qe_random env) (qe_key env) quic_kind (qu_seq s + 1) p (qu_world s) = (Inr f, w)"
    using assms(6,7) by (auto simp: quic_read_def split: prod.splits sum.splits option.splits)
  from box_Seal_Inr [OF this assms(2)] assms(1,3,4)
  have "box_Open (qe_crypto env') (qe_key env') f = Inr (quic_kind, qu_seq s + 1, p)"
    by (auto simp: box_frame_opens)
  then show ?thesis using assms(5) [of "qu_world r"] by (auto simp: quic_receive_def split: prod.splits option.splits)
qed

section \<open>Echo messages\<close>

definition icmp_pair :: "'w icmp_env \<Rightarrow> 'w icmp_env \<Rightarrow> bool" where
  "icmp_pair ce se \<longleftrightarrow>
     ie_crypto se = ie_crypto ce \<and> ie_key se = ie_key ce \<and> ie_id se = ie_id ce \<and> \<not> ie_server ce \<and> ie_server se \<and>
     gcm_cipher (ie_crypto ce) (ie_key ce) \<and> fills_buffer (ie_random ce) \<and> fills_buffer (ie_random se)"

lemma icmp_sealed:
  assumes "icmp_seal env kind q b s = (Inr f, s')" and "fills_buffer (ie_random env)"
    and "gcm_cipher (ie_crypto env) (ie_key env)"
  shows "box_Open (ie_crypto env) (ie_key env) f = Inr (kind, q, b) \<and>
    ic_sent s' = ic_sent s \<and> ic_queue s' = ic_queue s \<and> ic_tun s' = ic_tun s"
proof -
  obtain w where seal: "box_Seal (ie_crypto env) (ie_random env) (ie_key env) kind q b (ic_world s) = (Inr f, w)"
      and s': "s' = s\<lparr>ic_world := w\<rparr>"
    using assms(1) by (auto simp: icmp_seal_def split: prod.splits)
  from box_Seal_Inr [OF seal assms(2)] assms(3) s' show ?thesis by (auto simp: box_frame_opens)
qed

lemma icmp_write_simps [simp]:
  "ic_sent (icmp_write env p s) = ic_sent s" "ic_queue (icmp_write env p s) = ic_queue s"
  "fst (ie_tun env p (ic_world s)) \<Longrightarrow> ic_tun (icmp_write env p s) = ic_tun s @ [p]"
  by (auto simp: icmp_write_def split: prod.splits bool.splits)

lemma take_queued_simps [simp]:
  "ic_sent (snd (take_queued s)) = ic_sent s" "ic_tun (snd (take_queued s)) = ic_tun s"
  "fst (take_queued s) = (if ic_queue s = [] then [] else hd (ic_queue s))"
  "ic_queue (snd (take_queued s)) = tl (ic_queue s)"
  by (simp_all add: take_queued_def split: list.split)

definition queued :: "'w icmp \<Rightarrow> string" where
  "queued s = (if ic_queue s = [] then [] else hd (ic_queue s))"

lemma poll_sent:
  assumes "ic_sent (icmp_poll env s) = ic_sent s @ [(d, m)]" and "fills_buffer (ie_random env)"
    and "gcm_cipher (ie_crypto env) (ie_key env)"
  shows "im_type m = EchoRequest \<and> im_id m = ie_id env mod 65536 \<and>
    (\<exists>q. box_Open (ie_crypto env) (ie_key env) (im_data m) = Inr (kindPoll, q, queued s)) \<and>
    ic_queue (icmp_poll env s) = tl (ic_queue s) \<and> ic_tun (icmp_poll env s) = ic_tun s"
proof -
  let ?s = "(snd (take_queued s))\<lparr>ic_seq := ic_seq (snd (take_queued s)) + 1\<rparr>"
  let ?q = "ic_seq (snd (take_queued s)) + 1"
  obtain r s3 where seal: "icmp_seal env kindPoll (ucast ?q) (queued s) ?s = (r, s3)"
    by (cases "icmp_seal env kindPoll (ucast ?q) (queued s) ?s")
  have queued: "take_queued s = (queued s, snd (take_queued s))"
    by (simp add: prod_eq_iff queued_def)
  have poll: "icmp_poll env s =
      (case r of Inl _ \<Rightarrow> s3 | Inr f \<Rightarrow>
         icmp_emit (ie_peer env) \<lparr>im_type = EchoRequest, im_id = ie_id env, im_seq = uint ?q mod 65536, im_data = f\<rparr> s3)"
    unfolding icmp_poll_def by (subst queued) (simp add: seal Let_def)
  show ?thesis
  proof (cases r)
    case (Inl e)
    then have "ic_sent (icmp_poll env s) = ic_sent s" using seal by (auto simp: poll icmp_seal_def split: prod.splits)
    with assms(1) show ?thesis by simp
  next
    case (Inr f)
    with icmp_sealed [OF _ assms(2,3), of kindPoll _ _ ?s f s3] seal
    have "box_Open (ie_crypto env) (ie_key env) f = Inr (kindPoll, ucast ?q, queued s)" "ic_sent s3 = ic_sent s"
        "ic_queue s3 = tl (ic_queue s)" "ic_tun s3 = ic_tun s" by auto
    with assms(1) Inr show ?thesis by (auto simp: poll icmp_emit_def icmp_wire_def)
  qed
qed

lemma reply_sent:
  assumes m: "im_type m = EchoRequest" "im_id m = ie_id env"
    and opens: "box_Open (ie_crypto env) (ie_key env) (im_data m) = Inr (kindPoll, q, p)"
    and tun: "\<And>w. fst (ie_tun env p w)" and cipher: "fills_buffer (ie_random env)" "gcm_cipher (ie_crypto env) (ie_key env)"
    and sent: "ic_sent (icmp_server_receive env addr m s) = ic_sent s @ [(d, m')]"
  shows "im_type m' = EchoReply \<and> im_id m' = ie_id env mod 65536 \<and>
    box_Open (ie_crypto env) (ie_key env) (im_data m') = Inr (kindReply, q, queued s) \<and>
    ic_tun (icmp_server_receive env addr m s) = ic_tun s @ (if p = [] then [] else [p]) \<and>
    ic_queue (icmp_server_receive env addr m s) = tl (ic_queue s)"
proof -
  let ?s1 = "if p = [] then s else icmp_write env p s"
  let ?s2 = "snd (take_queued ?s1)"
  have s1: "ic_sent ?s1 = ic_sent s" "ic_queue ?s1 = ic_queue s" "ic_tun ?s1 = ic_tun s @ (if p = [] then [] else [p])"
    using tun by simp_all
  obtain r s3 where seal: "icmp_seal env kindReply q (queued s) ?s2 = (r, s3)"
    by (cases "icmp_seal env kindReply q (queued s) ?s2")
  have taken: "take_queued ?s1 = (queued s, ?s2)"
    using s1(2) by (simp add: prod_eq_iff queued_def)
  have "icmp_server_receive env addr m s = icmp_answer env addr m q ?s1"
    using m opens by (simp add: icmp_server_receive_def)
  also have "\<dots> =
      (case r of Inl _ \<Rightarrow> s3 | Inr f \<Rightarrow>
         icmp_emit addr \<lparr>im_type = EchoReply, im_id = im_id m, im_seq = im_seq m, im_data = f\<rparr> s3)"
    by (subst icmp_answer_def, subst taken, simp only: prod.case seal)
  finally have run: "icmp_server_receive env addr m s =
      (case r of Inl _ \<Rightarrow> s3 | Inr f \<Rightarrow>
         icmp_emit addr \<lparr>im_type = EchoReply, im_id = im_id m, im_seq = im_seq m, im_data = f\<rparr> s3)" .
  show ?thesis
  proof (cases r)
    case (Inl e)
    then have "ic_sent (icmp_server_receive env addr m s) = ic_sent s"
      using seal s1(1) by (auto simp: run icmp_seal_def split: prod.splits)
    with sent show ?thesis by simp
  next
    case (Inr f)
    with icmp_sealed [OF _ cipher, of kindReply q "queued s" ?s2 f s3] seal s1
    have "box_Open (ie_crypto env) (ie_key env) f = Inr (kindReply, q, queued s)" "ic_sent s3 = ic_sent s"
        "ic_queue s3 = tl (ic_queue s)" "ic_tun s3 = ic_tun s @ (if p = [] then [] else [p])" by auto
    with sent Inr m show ?thesis unfolding run by (auto simp: icmp_emit_def icmp_wire_def)
  qed
qed


definition sample_icmp :: "bool \<Rightarrow> nat icmp_env" where
  "sample_icmp server =
     \<lparr>ie_crypto = sample_gcm, ie_key = ''k'', ie_random = sample_random, ie_tun = \<lambda>_ w. (True, w),
      ie_id = 4242, ie_peer = ''192.0.2.1'', ie_server = server\<rparr>"

definition sample_icmp_end :: "string \<Rightarrow> nat icmp" where
  "sample_icmp_end p = (icmp_start 65)\<lparr>ic_queue := [p]\<rparr>"


text \<open>The queues hold a bounded number of packets, whatever happens.\<close>

lemma icmp_queue_step:
  "length (ic_queue s) \<le> queue_size (ie_server env) \<Longrightarrow>
   length (ic_queue (icmp_step env e s)) \<le> queue_size (ie_server env)"
proof -
  assume s: "length (ic_queue s) \<le> queue_size (ie_server env)"
  have seal: "icmp_seal env k q b t = (r, t') \<Longrightarrow> ic_queue t' = ic_queue t" for k q b t r t'
    by (auto simp: icmp_seal_def split: prod.splits)
  have taken: "take_queued t = (b, t') \<Longrightarrow> length (ic_queue t') \<le> length (ic_queue t)" for t b t'
    by (auto simp: take_queued_def split: list.splits)
  show ?thesis
  proof (cases e)
    case (EchoIn addr m)
    have "length (ic_queue (icmp_client_receive env m s)) = length (ic_queue s)"
      by (auto simp: icmp_client_receive_def split: sum.split)
    moreover have "length (ic_queue (icmp_server_receive env addr m s)) \<le> length (ic_queue s)"
      by (auto simp: icmp_server_receive_def icmp_answer_def icmp_emit_def split: sum.splits prod.splits dest!: seal taken)
    ultimately show ?thesis using s EchoIn by auto
  next
    case PollTick
    have "length (ic_queue (icmp_poll env s)) \<le> length (ic_queue s)"
      by (auto simp: icmp_poll_def Let_def icmp_emit_def split: sum.splits prod.splits dest!: seal taken)
    with s PollTick show ?thesis by auto
  qed (use s in \<open>auto simp: tunReader_def\<close>)
qed

lemma icmp_queue_bounded:
  "length (ic_queue (fold (icmp_step env) es (icmp_start w))) \<le> queue_size (ie_server env)"
proof -
  have "length (ic_queue (fold (icmp_step env) es s)) \<le> queue_size (ie_server env)"
    if "length (ic_queue s) \<le> queue_size (ie_server env)" for s
    using that by (induction es arbitrary: s) (simp_all add: icmp_queue_step)
  then show ?thesis by (simp add: icmp_start_def)
qed

section \<open>What the code does not intend\<close>

text \<open>An identifier above 65535 is cut on the wire, and no poll is ever accepted.\<close>

lemma icmp_id_out_of_range:
  assumes "65536 \<le> ie_id ce" and "ie_id se = ie_id ce" and "\<not> ie_server ce" and "ie_server se"
    and "ic_sent (icmp_step ce PollTick c) = ic_sent c @ [(d, m)]"
  shows "icmp_step se (EchoIn addr m) s = s"
proof -
  have "im_id m = ie_id ce mod 65536"
    using assms(3,5)
    by (auto simp: icmp_poll_def icmp_seal_def Let_def icmp_emit_def icmp_wire_def take_queued_def
        split: prod.splits sum.splits list.splits)
  moreover have "ie_id ce mod 65536 < 65536" by simp
  ultimately have "im_id m \<noteq> ie_id se" using assms(1,2) by linarith
  with assms(4) show ?thesis by (simp add: icmp_server_receive_def)
qed

text \<open>There is no check for copies: the same poll twice is written twice.\<close>

lemma icmp_replay_accepted:
  assumes "ie_server env" and "im_type m = EchoRequest" and "im_id m = ie_id env" and "p \<noteq> []"
    and "box_Open (ie_crypto env) (ie_key env) (im_data m) = Inr (kindPoll, q, p)" and "\<And>w. fst (ie_tun env p w)"
  shows "\<exists>ps. ic_tun (icmp_step env (EchoIn a m) s) = ic_tun s @ [p] \<and>
    ic_tun (icmp_step env (EchoIn a m) (icmp_step env (EchoIn a m) s)) = ic_tun s @ [p, p]"
proof -
  have seal: "icmp_seal env k q b t = (r, t') \<Longrightarrow> ic_tun t' = ic_tun t" for k q b t r t'
    by (auto simp: icmp_seal_def split: prod.splits)
  have taken: "take_queued t = (b, t') \<Longrightarrow> ic_tun t' = ic_tun t" for t b t'
    by (auto simp: take_queued_def split: list.splits)
  have "ic_tun (icmp_step env (EchoIn a m) s) = ic_tun s @ [p]" for s
    using assms by (auto simp: icmp_server_receive_def icmp_answer_def icmp_emit_def split: sum.splits prod.splits dest!: seal taken)
  then show ?thesis by simp
qed

text \<open>
  Validate accepts the roles in any case, the transports compare them exactly: a client written with a capital
  letter runs as the server of the UDP transport, a server as the client of KCP and QUIC.
\<close>

lemma role_in_capitals:
  assumes "config_Validate c = None"
  shows "cc_Role c = ''client'' \<Longrightarrow> cc_Transport c = ''pulseudp'' \<Longrightarrow>
      config_Validate (c\<lparr>cc_Role := ''Client''\<rparr>) = None \<and> core_transport c = Inr (RunPulse False) \<and>
      core_transport (c\<lparr>cc_Role := ''Client''\<rparr>) = Inr (RunPulse True)"
    and "cc_Role c = ''server'' \<Longrightarrow> cc_Transport c = ''kcp'' \<Longrightarrow>
      config_Validate (c\<lparr>cc_Role := ''Server''\<rparr>) = None \<and> core_transport c = Inr (RunKcp True) \<and>
      core_transport (c\<lparr>cc_Role := ''Server''\<rparr>) = Inr (RunKcp False)"
proof -
  have "ToLower ''pulseudp'' = ''pulseudp''" "ToLower ''kcp'' = ''kcp''" "ToLower ''Client'' = ''client''"
    "ToLower ''Server'' = ''server''" "ToLower ''client'' = ''client''" "ToLower ''server'' = ''server''" by code_simp+
  note lower = this
  show "cc_Role c = ''client'' \<Longrightarrow> cc_Transport c = ''pulseudp'' \<Longrightarrow>
      config_Validate (c\<lparr>cc_Role := ''Client''\<rparr>) = None \<and> core_transport c = Inr (RunPulse False) \<and>
      core_transport (c\<lparr>cc_Role := ''Client''\<rparr>) = Inr (RunPulse True)"
    using assms by (simp add: Validate_None core_transport_def lower)
  show "cc_Role c = ''server'' \<Longrightarrow> cc_Transport c = ''kcp'' \<Longrightarrow>
      config_Validate (c\<lparr>cc_Role := ''Server''\<rparr>) = None \<and> core_transport c = Inr (RunKcp True) \<and>
      core_transport (c\<lparr>cc_Role := ''Server''\<rparr>) = Inr (RunKcp False)"
    using assms by (simp add: Validate_None core_transport_def lower)
qed

end
