(* ===== verification/TunnelChain.thy ===== *)
theory TunnelChain
  imports CoreTransports Managed
begin

text \<open>
  A userspace tunnel on its way through the three programs: the specification the panel sends
  (operations.go of the panel), the configuration file the agent writes from it (server.go of the agent), and
  what the tunnel program loads from the file (config.go). The decoders of package encoding/json fill a
  struct from the fields of an object as its tags say; a field that is absent keeps its zero value.
\<close>

definition jget_int :: "string \<Rightarrow> json \<Rightarrow> int" where
  "jget_int k j = (case jget k j of Some (JInt n) \<Rightarrow> n | _ \<Rightarrow> 0)"

definition jget_bool :: "string \<Rightarrow> json \<Rightarrow> bool" where
  "jget_bool k j = (case jget k j of Some (JBool b) \<Rightarrow> b | _ \<Rightarrow> False)"

fun json_int :: "json \<Rightarrow> int" where
  "json_int (JInt n) = n"
| "json_int _ = 0"

definition jget_ints :: "string \<Rightarrow> json \<Rightarrow> int list" where
  "jget_ints k j = (case jget k j of Some (JArr xs) \<Rightarrow> map json_int xs | _ \<Rightarrow> [])"

definition tunnel_of_json :: "json \<Rightarrow> TunnelSpec" where
  "tunnel_of_json j =
     \<lparr>ts_Name = jget_str ''name'' j, ts_Kind = jget_str ''kind'' j, ts_Role = jget_str ''role'' j,
      ts_Transport = jget_str ''transport'' j, ts_PeerHost = jget_str ''peer_host'' j, ts_Ports = jget_ints ''ports'' j,
      ts_Interface = jget_str ''interface'' j, ts_LocalCIDR = jget_str ''local_cidr'' j, ts_PeerIP = jget_str ''peer_ip'' j,
      ts_MTU = jget_int ''mtu'' j, ts_KeyHex = jget_str ''key_hex'' j, ts_Profile = jget_str ''profile'' j,
      ts_DuplicateSmallPackets = jget_bool ''duplicate_small_packets'' j,
      ts_KCPDataShards = jget_int ''kcp_data_shards'' j, ts_KCPParityShards = jget_int ''kcp_parity_shards'' j,
      ts_ICMPID = jget_int ''icmp_id'' j, ts_ICMPPollMS = jget_int ''icmp_poll_ms'' j, ts_ICMPBurst = jget_int ''icmp_burst'' j,
      ts_NAT = jget_bool ''nat'' j, ts_InternetInterface = jget_str ''internet_interface'' j,
      ts_LocalPublic = jget_str ''local_public'' j, ts_RemotePublic = jget_str ''remote_public'' j, ts_VNI = jget_int ''vni'' j\<rparr>"

definition config_of_json :: "json \<Rightarrow> CoreConfig" where
  "config_of_json j =
     \<lparr>cc_Name = jget_str ''name'' j, cc_Role = jget_str ''role'' j, cc_Transport = jget_str ''transport'' j,
      cc_ListenHost = jget_str ''listen_host'' j, cc_PeerHost = jget_str ''peer_host'' j, cc_Ports = jget_ints ''ports'' j,
      cc_Interface = jget_str ''interface'' j, cc_LocalCIDR = jget_str ''local_cidr'' j, cc_PeerIP = jget_str ''peer_ip'' j,
      cc_MTU = jget_int ''mtu'' j, cc_KeyHex = jget_str ''key_hex'' j, cc_Profile = jget_str ''profile'' j,
      cc_DuplicateSmall = jget_bool ''duplicate_small_packets'' j, cc_DuplicateThreshold = jget_int ''duplicate_threshold'' j,
      cc_KCPDataShards = jget_int ''kcp_data_shards'' j, cc_KCPParityShards = jget_int ''kcp_parity_shards'' j,
      cc_ICMPID = jget_int ''icmp_id'' j, cc_ICMPPollMS = jget_int ''icmp_poll_ms'' j, cc_ICMPBurst = jget_int ''icmp_burst'' j,
      cc_NAT = jget_bool ''nat'' j, cc_InternetInterface = jget_str ''internet_interface'' j,
      cc_KeepaliveMS = jget_int ''keepalive_ms'' j, cc_PathTimeoutMS = jget_int ''path_timeout_ms'' j\<rparr>"

section \<open>From the specification to the configuration\<close>

lemma json_ints [simp]: "map (json_int \<circ> JInt) xs = xs"
  by (simp add: comp_def)

lemmas jget_defs = jget_str_def jget_int_def jget_bool_def jget_ints_def

text \<open>The file of the agent has the fields of the specification.\<close>

definition config_of_spec :: "TunnelSpec \<Rightarrow> CoreConfig" where
  "config_of_spec x =
     \<lparr>cc_Name = ts_Name x, cc_Role = ts_Role x, cc_Transport = ts_Transport x, cc_ListenHost = ''0.0.0.0'',
      cc_PeerHost = ts_PeerHost x, cc_Ports = ts_Ports x, cc_Interface = ts_Interface x,
      cc_LocalCIDR = ts_LocalCIDR x, cc_PeerIP = ts_PeerIP x, cc_MTU = ts_MTU x, cc_KeyHex = ts_KeyHex x,
      cc_Profile = ts_Profile x, cc_DuplicateSmall = ts_DuplicateSmallPackets x, cc_DuplicateThreshold = 512,
      cc_KCPDataShards = ts_KCPDataShards x, cc_KCPParityShards = ts_KCPParityShards x, cc_ICMPID = ts_ICMPID x,
      cc_ICMPPollMS = ts_ICMPPollMS x, cc_ICMPBurst = ts_ICMPBurst x, cc_NAT = ts_NAT x,
      cc_InternetInterface = ts_InternetInterface x, cc_KeepaliveMS = 1000, cc_PathTimeoutMS = 5000\<rparr>"

lemma config_of_tunnel: "config_of_json (tunnel_config x) = config_of_spec x"
  by (simp add: config_of_json_def tunnel_config_def config_of_spec_def jget_defs)

definition shards :: "tunnelCreate \<Rightarrow> int \<times> int" where
  "shards i =
     (if tc_Transport i \<noteq> ''kcp'' then (0, 0)
      else (10, if tc_Profile i = ''lossy'' then 3 else if tc_Profile i = ''stable'' then 2 else 0))"

lemma spec_of_tunnel:
  "tunnel_of_json (transport_options i (userspace_spec i role host cidr peer key n net)) =
   \<lparr>ts_Name = tc_Name i, ts_Kind = ''userspace'', ts_Role = role, ts_Transport = tc_Transport i, ts_PeerHost = host,
    ts_Ports = tc_Ports i, ts_Interface = tc_Interface i, ts_LocalCIDR = cidr, ts_PeerIP = peer, ts_MTU = tc_MTU i,
    ts_KeyHex = key, ts_Profile = tc_Profile i,
    ts_DuplicateSmallPackets = (tc_Transport i = ''pulseudp-mp'' \<and> tc_Profile i \<in> {''stable'', ''lossy''}),
    ts_KCPDataShards = fst (shards i), ts_KCPParityShards = snd (shards i),
    ts_ICMPID = (if tc_Transport i = ''icmp'' then 4242 else 0),
    ts_ICMPPollMS = (if tc_Transport i = ''icmp'' then 8 else 0),
    ts_ICMPBurst = (if tc_Transport i = ''icmp'' then 4 else 0), ts_NAT = n, ts_InternetInterface = net,
    ts_LocalPublic = [], ts_RemotePublic = [], ts_VNI = tc_VNI i\<rparr>"
proof -
  have get: "jget k (transport_options i (JObj m)) =
      (if tc_Transport i = ''icmp'' \<and> k = ''icmp_id'' then Some (JInt 4242)
       else if tc_Transport i = ''icmp'' \<and> k = ''icmp_poll_ms'' then Some (JInt 8)
       else if tc_Transport i = ''icmp'' \<and> k = ''icmp_burst'' then Some (JInt 4)
       else if tc_Transport i = ''kcp'' \<and> k = ''kcp_data_shards'' then Some (JInt (fst (shards i)))
       else if tc_Transport i = ''kcp'' \<and> k = ''kcp_parity_shards'' then Some (JInt (snd (shards i)))
       else if tc_Transport i = ''pulseudp-mp'' \<and> k = ''duplicate_small_packets''
         then Some (JBool (tc_Profile i \<in> {''stable'', ''lossy''}))
       else map_of m k)" for k m
    by (cases "tc_Transport i = ''icmp''"; cases "tc_Transport i = ''kcp''"; cases "tc_Transport i = ''pulseudp-mp''")
      (simp_all add: transport_options_def Let_def shards_def map_of_put_entry)
  show ?thesis
    by (simp add: tunnel_of_json_def userspace_spec_def jget_defs get jints_def) (simp add: shards_def)
qed

section \<open>The two ends\<close>

text \<open>
  What the ends of a tunnel must agree on: one is the client of the transport, the other the server, each has
  the other's address as its peer, and the key, the ports and the settings both sides need are the same.
\<close>

definition ends_match :: "CoreConfig \<Rightarrow> CoreConfig \<Rightarrow> bool" where
  "ends_match c s \<longleftrightarrow>
     (\<exists>R. R \<in> {RunPulse, RunKcp, RunQuic, RunIcmp} \<and> core_transport c = Inr (R False) \<and> core_transport s = Inr (R True)) \<and>
     (\<exists>ones. cc_LocalCIDR c = cc_PeerIP s @ ''/'' @ ones \<and> cc_LocalCIDR s = cc_PeerIP c @ ''/'' @ ones) \<and>
     cc_KeyHex c = cc_KeyHex s \<and> cc_Ports c = cc_Ports s \<and> cc_MTU c = cc_MTU s \<and>
     cc_KCPDataShards c = cc_KCPDataShards s \<and> cc_KCPParityShards c = cc_KCPParityShards s \<and> cc_ICMPID c = cc_ICMPID s"

lemma created_file:
  assumes "quiet os tunnel_dir" and "createUserspaceTunnel os x h = (None, h')"
  shows "file_at (userspace_file (ts_Name x)) h' = Some (os_MarshalIndent os (tunnel_config x) @ [CHR 0x0A]) \<and>
    length (ts_KeyHex x) = 64"
proof -
  let ?file = "userspace_file (ts_Name x)" and ?text = "os_MarshalIndent os (tunnel_config x) @ [CHR 0x0A]"
  from assms(2) obtain h1 h2 where w: "WriteFile os ?file ?text h1 = (None, h2)"
      and e: "enable_unit os (userspace_unit (ts_Name x)) h2 = (None, h')" and key: "length (ts_KeyHex x) = 64"
    by (auto simp: createUserspaceTunnel_def attempt_def split: if_splits prod.splits option.splits)
  have runs: "spares ?file (run os args)" for args
    unfolding userspace_file_def by (rule spares_run [OF assms(1)])
  have "file_at ?file h' = file_at ?file h2"
    using e runs unfolding enable_unit_def spares_def by (metis snd_conv)
  with file_WriteFile(2) [OF w] key show ?thesis by simp
qed

lemma transports_lower:
  "t \<in> {''pulseudp'', ''pulseudp-mp'', ''kcp'', ''quic'', ''icmp''} \<Longrightarrow> ToLower t = t"
  "ToLower ''client'' = ''client''" "ToLower ''server'' = ''server''"
proof -
  have "ToLower ''pulseudp'' = ''pulseudp''" "ToLower ''pulseudp-mp'' = ''pulseudp-mp''" "ToLower ''kcp'' = ''kcp''"
    "ToLower ''quic'' = ''quic''" "ToLower ''icmp'' = ''icmp''" by code_simp+
  then show "t \<in> {''pulseudp'', ''pulseudp-mp'', ''kcp'', ''quic'', ''icmp''} \<Longrightarrow> ToLower t = t" by auto
  show "ToLower ''client'' = ''client''" "ToLower ''server'' = ''server''" by code_simp+
qed

lemma normalized_transport:
  assumes "normalize_tunnel i0 = Inr i" and "\<not> kernel_transport (tc_Transport i)"
  shows "tc_Transport i \<in> {''pulseudp'', ''pulseudp-mp'', ''kcp'', ''quic'', ''icmp''} \<and> tc_MTU i \<noteq> 0"
proof -
  have kept: "tc_Transport (tunnel_defaults j) = tc_Transport j" "tc_MTU (tunnel_defaults j) \<noteq> 0" for j
    by (simp_all add: tunnel_defaults_def)
  let ?j = "i0\<lparr>tc_Transport := ToLower (TrimSpace (tc_Transport i0))\<rparr>"
  from assms(1) have "allowedTransport (tc_Transport ?j)" "i = tunnel_defaults ?j"
    unfolding normalize_tunnel_def Let_def by (simp_all split: if_split_asm)
  with assms(2) kept show ?thesis by (auto simp: allowedTransport_def kernel_transport_def)
qed

text \<open>The fields that filling in the defaults does not touch.\<close>

lemma Defaults_keep [simp]:
  "cc_Role (config_Defaults c) = cc_Role c" "cc_Transport (config_Defaults c) = cc_Transport c"
  "cc_PeerHost (config_Defaults c) = cc_PeerHost c" "cc_Ports (config_Defaults c) = cc_Ports c"
  "cc_LocalCIDR (config_Defaults c) = cc_LocalCIDR c" "cc_PeerIP (config_Defaults c) = cc_PeerIP c"
  "cc_KeyHex (config_Defaults c) = cc_KeyHex c" "cc_ICMPID (config_Defaults c) = cc_ICMPID c"
  by (simp_all add: config_Defaults_def default_duplicate_def default_shards_def default_values_def)

lemma Defaults_settings:
  assumes "cc_Transport c = cc_Transport c'" and "cc_Profile c = cc_Profile c'" and "cc_MTU c = cc_MTU c'"
    and "cc_KCPDataShards c = cc_KCPDataShards c'" and "cc_KCPParityShards c = cc_KCPParityShards c'"
  shows "cc_MTU (config_Defaults c) = cc_MTU (config_Defaults c') \<and>
    cc_KCPDataShards (config_Defaults c) = cc_KCPDataShards (config_Defaults c') \<and>
    cc_KCPParityShards (config_Defaults c) = cc_KCPParityShards (config_Defaults c')"
proof -
  have mtu: "cc_MTU (config_Defaults c) = or_default 0 (default_MTU (cc_Transport c)) (cc_MTU c)" for c
    by (simp add: config_Defaults_def default_duplicate_def default_shards_def default_values_def)
  have data: "cc_KCPDataShards (config_Defaults c) =
      (if Contains (cc_Transport c) ''kcp'' then or_default 0 10 (cc_KCPDataShards c) else cc_KCPDataShards c)" for c
    by (simp add: config_Defaults_def default_duplicate_def default_shards_def default_values_def)
  have parity: "cc_KCPParityShards (config_Defaults c) =
      (if Contains (cc_Transport c) ''kcp''
       then or_default 0 (let p = ToLower (or_default [] ''competitive'' (cc_Profile c)) in
              if p = ''lossy'' then 3 else if p = ''stable'' then 2 else 0) (cc_KCPParityShards c)
       else cc_KCPParityShards c)" for c
    by (simp add: config_Defaults_def default_duplicate_def default_shards_def default_values_def Let_def)
  show ?thesis by (simp only: mtu data parity assms)
qed

lemma transport_sides:
  assumes "t \<in> {''pulseudp'', ''pulseudp-mp'', ''kcp'', ''quic'', ''icmp''}" and "cc_Transport c = t" and "cc_Transport s = t"
    and "cc_Role c = ''client''" and "cc_Role s = ''server''"
  shows "\<exists>R. R \<in> {RunPulse, RunKcp, RunQuic, RunIcmp} \<and> core_transport c = Inr (R False) \<and> core_transport s = Inr (R True)"
  using assms transports_lower(1) [OF assms(1)] by (auto simp: core_transport_def Let_def)

lemma join_nonempty: "2 \<le> length xs \<Longrightarrow> sep \<noteq> [] \<Longrightarrow> JoinStrings xs sep \<noteq> []"
  by (cases xs; cases "tl xs") auto

lemma length_v6_groups: "length (v6_groups ip) = length ip div 2"
  by (induction ip rule: v6_groups.induct) simp_all

lemma ip_String_nonempty: "ip_String ip \<noteq> []"
proof (cases "To4 ip")
  case None
  have "print_v6 (v6_groups ip) \<noteq> []" if "length ip = 16"
    using that join_nonempty [of "map hex16 (v6_groups ip)" "'':''"]
    by (simp add: print_v6_def length_v6_groups split: prod.split)
  with None show ?thesis by (simp add: ip_String_def)
next
  case (Some v)
  with To4_length [OF Some] join_nonempty [of "map (\<lambda>b. Itoa (uint b)) v" "''.''"] show ?thesis by (simp add: ip_String_def)
qed

lemma derived_pair:
  "derivePair cidr = Inr (srcCIDR, dstCIDR, srcIP, dstIP) \<Longrightarrow>
   \<exists>ones. srcCIDR = srcIP @ ''/'' @ ones \<and> dstCIDR = dstIP @ ''/'' @ ones \<and> srcIP \<noteq> [] \<and> dstIP \<noteq> []"
  by (auto simp: derivePair_def Let_def ip_String_nonempty split: option.splits prod.splits if_splits)

text \<open>
  C9: a userspace tunnel the panel accepts is one both tunnel programs start with: from the two
  specifications the panel sends, the agents write files that the programs load without an error, and the two
  configurations match. It takes at least one port unless the tunnel runs over ICMP, and a server node
  with a public address, which the panel does not check.
\<close>

theorem tunnel_ends_match:
  assumes norm: "normalize_tunnel i0 = Inr i" "\<not> kernel_transport (tc_Transport i)"
    and pair: "derivePair (tc_CIDR i) = Inr pair" and specs: "tunnel_specs i src dst pair key = (jsrc, jdst)"
    and usable: "n_PublicIP dst \<noteq> []" "tc_Transport i = ''icmp'' \<or> tc_Ports i \<noteq> []"
    and machine: "quiet os tunnel_dir" "\<And>p w. os_Read os p w = None"
    and decode: "\<And>x. x \<in> tunnel_of_json ` {jsrc, jdst} \<Longrightarrow>
        decode (os_MarshalIndent os (tunnel_config x) @ [CHR 0x0A]) = Inr (config_of_json (tunnel_config x))"
    and made: "createUserspaceTunnel os (tunnel_of_json jsrc) h1 = (None, h1')"
      "createUserspaceTunnel os (tunnel_of_json jdst) h2 = (None, h2')"
  shows "\<exists>c s. config_Load os decode (userspace_file (tc_Name i)) h1' = Inr c \<and>
    config_Load os decode (userspace_file (tc_Name i)) h2' = Inr s \<and> ends_match c s"
proof -
  obtain srcCIDR dstCIDR srcIP dstIP where p: "pair = (srcCIDR, dstCIDR, srcIP, dstIP)" by (cases pair)
  note t = normalized_transport [OF norm]
  let ?xs = "tunnel_of_json jsrc" and ?xd = "tunnel_of_json jdst"
  have js: "jsrc = transport_options i (userspace_spec i ''client'' (n_PublicIP dst) srcCIDR dstIP key False [])"
    and jd: "jdst = transport_options i (userspace_spec i ''server'' [] dstCIDR srcIP key True (n_InternetInterface dst))"
    using specs norm(2) by (simp_all add: tunnel_specs_def p)
  obtain ones where ones: "srcCIDR = srcIP @ ''/'' @ ones" "dstCIDR = dstIP @ ''/'' @ ones" "srcIP \<noteq> []" "dstIP \<noteq> []"
    using derived_pair [OF pair [unfolded p]] by blast
  let ?c = "config_Defaults (config_of_spec ?xs)" and ?s = "config_Defaults (config_of_spec ?xd)"
  have load: "config_Load os decode (userspace_file (ts_Name x)) h' = Inr (config_Defaults (config_of_spec x))"
    if "createUserspaceTunnel os x h = (None, h')" and "config_Validate (config_Defaults (config_of_spec x)) = None"
      and "x \<in> tunnel_of_json ` {jsrc, jdst}" for x h h'
    using created_file [OF machine(1) that(1)] that(2,3) machine(2)
    by (simp add: config_Load_def ReadFile_def decode config_of_tunnel)
  have key: "length key = 64" using created_file [OF machine(1) made(1)] by (simp add: js spec_of_tunnel)
  then have "key \<noteq> []" by auto
  then have "config_Validate ?c = None" "config_Validate ?s = None"
    using t usable ones transports_lower
    by (auto simp: Validate_None js jd spec_of_tunnel config_of_spec_def)
  with load [OF made(1)] load [OF made(2)] have "config_Load os decode (userspace_file (tc_Name i)) h1' = Inr ?c"
      "config_Load os decode (userspace_file (tc_Name i)) h2' = Inr ?s"
    by (simp_all add: js jd spec_of_tunnel)
  moreover have "ends_match ?c ?s"
  proof -
    have "cc_Transport (config_of_spec ?xs) = tc_Transport i" "cc_Transport (config_of_spec ?xd) = tc_Transport i"
      "cc_Role (config_of_spec ?xs) = ''client''" "cc_Role (config_of_spec ?xd) = ''server''"
      by (simp_all add: js jd spec_of_tunnel config_of_spec_def)
    with transport_sides [OF conjunct1 [OF t], of ?c ?s] Defaults_settings [of "config_of_spec ?xs" "config_of_spec ?xd"] ones
    show ?thesis unfolding ends_match_def by (simp add: js jd spec_of_tunnel config_of_spec_def)
  qed
  ultimately show ?thesis by blast
qed

text \<open>
  Without a port the panel still answers that the tunnel is online, but neither program starts.
\<close>

lemma tunnel_without_ports:
  assumes "normalize_tunnel i0 = Inr i" and "\<not> kernel_transport (tc_Transport i)" and "tc_Transport i \<noteq> ''icmp''"
    and "tc_Ports i = []" and "tunnel_specs i src dst (a, b, c, d) key = (jsrc, jdst)"
    and "j \<in> {jsrc, jdst}"
  shows "config_Validate (config_Defaults (config_of_spec (tunnel_of_json j))) \<noteq> None"
proof -
  have "ToLower (tc_Transport i) \<noteq> ''icmp''"
    using normalized_transport [OF assms(1,2)] transports_lower(1) assms(3) by metis
  with assms(2,4-6) show ?thesis
    by (auto simp: tunnel_specs_def Validate_None spec_of_tunnel config_of_spec_def)
qed

definition sample_create :: tunnelCreate where
  "sample_create =
     \<lparr>tc_Name = ''t1'', tc_SourceNodeID = ''n1'', tc_DestinationNodeID = ''n2'', tc_Transport = '' KCP'', tc_Profile = ''lossy'',
      tc_Ports = [4000], tc_MTU = 0, tc_CIDR = [], tc_Interface = [], tc_VNI = 0\<rparr>"

definition sample_made :: tunnelCreate where
  "sample_made = sample_create\<lparr>tc_Transport := ''kcp'', tc_MTU := 1360, tc_CIDR := ''10.20.0.0/30'', tc_Interface := ''gb0''\<rparr>"

definition sample_pair :: "string \<times> string \<times> string \<times> string" where
  "sample_pair = (''10.20.0.1/30'', ''10.20.0.2/30'', ''10.20.0.1'', ''10.20.0.2'')"

definition sample_jsons :: "json \<times> json" where
  "sample_jsons =
     tunnel_specs sample_made sample_node (sample_node\<lparr>n_PublicIP := ''192.0.2.1''\<rparr>) sample_pair (replicate 64 (CHR ''a''))"

text \<open>A machine whose texts name the role only, and a decoder for these two texts.\<close>

definition sample_chain_os :: "unit os" where
  "sample_chain_os = sample_os\<lparr>os_MarshalIndent := jget_str ''role''\<rparr>"

definition sample_decode :: "string \<Rightarrow> go_error + CoreConfig" where
  "sample_decode b =
     Inr (config_of_spec (tunnel_of_json (if b = ''client'' @ [CHR 0x0A] then fst sample_jsons else snd sample_jsons)))"

lemma sample_chain_steps:
  "quiet sample_chain_os dir" "os_Read sample_chain_os p w = None"
  "\<exists>h'. createUserspaceTunnel sample_chain_os x h = (None, h') \<or> length (ts_KeyHex x) \<noteq> 64"
  by (simp_all add: sample_chain_os_def sample_os_def quiet_def createUserspaceTunnel_def attempt_def MkdirAll_def
      WriteFile_def enable_unit_def run_def command_def)

theorem tunnel_ends_match_witness:
  "normalize_tunnel sample_create = Inr sample_made \<and>
   (\<exists>h1 h2 c s. createUserspaceTunnel sample_chain_os (tunnel_of_json (fst sample_jsons)) (sample_host []) = (None, h1) \<and>
     createUserspaceTunnel sample_chain_os (tunnel_of_json (snd sample_jsons)) (sample_host []) = (None, h2) \<and>
     config_Load sample_chain_os sample_decode (userspace_file ''t1'') h1 = Inr c \<and>
     config_Load sample_chain_os sample_decode (userspace_file ''t1'') h2 = Inr s \<and> ends_match c s)"
proof -
  let ?key = "replicate 64 (CHR ''a'')"
  have norm: "normalize_tunnel sample_create = Inr sample_made" by code_simp
  have made: "\<not> kernel_transport (tc_Transport sample_made)" "tc_CIDR sample_made = ''10.20.0.0/30''"
    "tc_Ports sample_made \<noteq> []" "tc_Name sample_made = ''t1''"
    by (simp_all add: sample_made_def sample_create_def kernel_transport_def)
  have pair: "derivePair (tc_CIDR sample_made) = Inr sample_pair"
    using derive_pair_distinct_witness by (simp add: made sample_pair_def)
  have specs: "tunnel_specs sample_made sample_node (sample_node\<lparr>n_PublicIP := ''192.0.2.1''\<rparr>) sample_pair ?key =
      (fst sample_jsons, snd sample_jsons)" by (simp add: sample_jsons_def)
  have jsons: "ts_KeyHex (tunnel_of_json (fst sample_jsons)) = ?key" "ts_KeyHex (tunnel_of_json (snd sample_jsons)) = ?key"
    "ts_Role (tunnel_of_json (fst sample_jsons)) = ''client''" "ts_Role (tunnel_of_json (snd sample_jsons)) = ''server''"
    using made(1) by (simp_all add: sample_jsons_def tunnel_specs_def sample_pair_def spec_of_tunnel)
  from sample_chain_steps(3) jsons obtain h1 h2 where
      h: "createUserspaceTunnel sample_chain_os (tunnel_of_json (fst sample_jsons)) (sample_host []) = (None, h1)"
         "createUserspaceTunnel sample_chain_os (tunnel_of_json (snd sample_jsons)) (sample_host []) = (None, h2)"
    by (metis length_replicate)
  have role: "os_MarshalIndent sample_chain_os (tunnel_config x) = ts_Role x" for x
    by (simp add: sample_chain_os_def tunnel_config_def jget_str_def)
  have decode: "sample_decode (os_MarshalIndent sample_chain_os (tunnel_config x) @ [CHR 0x0A]) = Inr (config_of_json (tunnel_config x))"
    if "x \<in> tunnel_of_json ` {fst sample_jsons, snd sample_jsons}" for x
    using that jsons by (auto simp: role sample_decode_def config_of_tunnel)
  have "\<exists>c s. config_Load sample_chain_os sample_decode (userspace_file (tc_Name sample_made)) h1 = Inr c \<and>
      config_Load sample_chain_os sample_decode (userspace_file (tc_Name sample_made)) h2 = Inr s \<and> ends_match c s"
    by (rule tunnel_ends_match [OF norm made(1) pair specs _ _ sample_chain_steps(1,2) decode h]) (simp_all add: made)
  with norm h show ?thesis unfolding made(4) by blast
qed

end
