(* ===== verification/Spec2Isabelle.thy ===== *)
theory Spec2Isabelle
  imports Persist InboundIntegrity AccountIntegrity ApiSafety AgentSafety PulseNet TunnelChain
begin

text \<open>
  A shallow embedding of GameBridge (Go): of its control panel (src/internal/panel), the program that
  keeps the administrators, plans, users, nodes, inbounds, outbounds and routing rules of a VPN
  installation in one JSON file, computes from them the Xray configuration of every node, and
  sends it to the agent that runs on the node; and of that agent (src/internal/agent), which writes
  the configurations to the files of the node and starts the programs that read them. A node also runs
  the tunnel program (src/cmd/gamebridge-core), which carries the packets of a network interface to
  another node over sealed UDP, KCP, QUIC or ICMP; the panel and the agents configure it.

  The parts of the program and the theories that model them:

  Prelude has the Go library the panel uses (strings, integers that wrap at 64 bits, sort.Slice
  as a locale slice_sort that any concrete sort satisfies) and go_error, the error values.
  Models has models.go: one record per struct, all of them tables of the record State.
  Store has store.go: the document on disk, OpenStore, Read, and Update, which runs a callback on
  a deep copy and keeps the result only when the save succeeds. Persist is saveStateLocked against
  a file system whose writes may fail, and, as a step relation, may be cut by a crash.
  Tables has the lookups, deletions and effective limits over the tables and reference_safety.go;
  the locale table states what the panel relies on when it writes a row and takes the write back,
  and is interpreted on every table.
  Http has the requests, roles and the audit log of server.go.
  Subscriptions is subscriptions.go: a user's status, entitlements, traffic reset dates, the
  reconciliation loop and the user actions. Accounting is the background part of accounting.go:
  traffic counters, resets, enforcement of expiry and quota.
  Env is what the server gets from outside: the save, the cipher, the random source, the clock, the
  agents' HTTP interface and the JSON codec are fields of one record, and every operation takes it
  as an argument.
  OutboundInput, Outbounds, OutboundGroups and Routing are routing.go, outbound_custom.go and the
  pure part of outbound_groups.go: what the API accepts, and the outbounds, balancers and routing
  sections of the Xray configuration. Health is outbound_health.go. Xray is the key generation,
  buildXrayConfig and deployXrayNode of xray.go and all of outbound_native.go.
  Tx is the shape all transactional operations share: write, deploy, on failure undo and
  deploy again; its locale deploy_frame says what such an operation guarantees about the part of the
  state a deployment does not write, table_tx what it says about the rows of one table. RoutingTx is
  routing_transaction.go, OutboundTx outbound_control.go, GroupTx the rest of outbound_groups.go, each
  with its handlers. Inbounds is the input, the rows and the checks of inbounds.go,
  inbound_control.go and inbound_hardening.go, InboundUsers the bindings, share links and the
  subscription URL of xray.go, InboundTx the transactional operations on inbounds (also
  inbound_lifecycle.go) and their handlers.
  Integrity and InboundIntegrity are the state machines of the committed writes of all these
  operations, with the references that every reachable state keeps.

  IPAddr has what the panel uses of Go's net package: parsing and printing of addresses and CIDRs,
  with incIP of operations.go. WGPeers is the rest of accounting.go, the allocation of client
  addresses and WireGuard peers, with their handlers in operations.go; Tunnels is the rest of
  operations.go: tunnels, port forwards, logs and node probes. Security is security.go over the hash
  and cipher primitives, which are a record of parameters, with the base64 codecs it needs and a
  locale token_codec for what a token of several encoded parts relies on, interpreted on both codecs.
  Sessions, Accounts and Nodes are the handlers of server.go: the middleware, setup, login,
  administrators and settings; users and plans; nodes. Api is the dispatcher and the routes, with the
  traffic synchronisation run on the server's own agents, so one function, routes, is the answer of
  the panel to any request. Frames is the calculus of what a call leaves unchanged, AdminFrames applies
  it to every operation. Background is the loop of the background work with the goroutines as a list of
  tasks, which makes the panel a machine of requests, ticks and tasks; ApiSafety has what holds of all
  of them, and AccountIntegrity the abstract machine of users and plans that the committed writes refine.

  The agent: Host has the machine it works on, whose files are part of the model and whose programs
  are parameters. Managed has the synchronisation the agent's three kinds of outbounds share
  (normalise all, apply all, remove what is no longer wanted) and the locale managed, what each kind
  promises for it; TorAgent, WireGuardAgent and OpenVPNAgent are tor_outbound.go,
  wireguard_outbound.go and openvpn_outbound.go, each with its interpretation. XrayAgent is xray.go,
  xray_health.go and phase3.go, AgentTunnels the metrics, tunnels, logs and port forwards of
  server.go, AgentPeers its WireGuard server and peers. AgentServer has the token check and the
  routes: agent_serve is the answer of the agent to any request. AgentSafety is about all requests. The
  panel reaches the agent through the field of Env that stands for its HTTP interface.

  The tunnel program: CoreConfig has its configuration (src/internal/config), the set-up of the
  interface and of NAT (src/internal/tun, src/internal/system), sealed packets (src/internal/secure),
  the counters (src/internal/stats) and main. PulseUDP is one end of the UDP transport as a machine
  whose events are datagrams, ticks and packets of the interface; PulseNet is the two ends on a network
  that an attacker owns, as a step relation. CoreTransports is the framing of KCP, the datagrams of
  QUIC and the polling over ICMP. TunnelChain composes the three programs: from the tunnel the panel
  accepts, over the file the agent writes, to the configuration the tunnel program loads.

  How the state corresponds: the type 'w Store holds the State the panel has in memory and the
  outside world 'w (disk, agents, clock, random source), which only the functions of the environment
  read and change. An operation that the code runs under the store's lock is one function from
  Store to Store; an error is a value of go_error, in a sum (Inl) or an option (Some). Integers are
  int; where Go's int64 can wrap the model applies int64, and a duration is a number of nanoseconds.
  A time is the number of nanoseconds since the zero time of Go, so IsZero is equality with 0. A
  nil slice and an empty one are the same list. A Go map in a JSON value is an association list.

  What the lemmas show: the state file survives crashes and failing saves; the lifecycle and
  accounting rules compute what they should, on every branch; the normalisation of outbounds, inbounds,
  groups and rules is idempotent and in range; the configuration built from validated tables has no
  dangling tag; probe ports are distinct and found whenever there are enough; a transactional
  operation either takes effect or leaves the state as it was; the references between the tables
  survive any sequence of committed operations; every tick of the background loop returns when no reset
  interval overflows; the users and plans refine two abstract maps; no
  request without an enabled administrator's session changes anything once the panel is set up;
  sessions, sealed values and password hashes round-trip, and the key derivation is PBKDF2; the
  address given to a new WireGuard peer is free and inside its subnet; and the subscription URL
  discloses configurations of its own user only. For the agent: its file
  accesses stay in its own directories and a request without the token changes nothing; after a
  synchronisation exactly the wanted outbounds are there and a WireGuard interface somebody else
  configured is untouched; an Xray
  configuration takes effect or the old one is back; a sanitized OpenVPN profile has no directive that
  runs programs, reads files or changes the routing of the host; a shell reads the scripts it writes
  as the commands that were meant; and the traffic counters are the sums of what Xray reports. For the
  tunnel program: what one end reads from its interface the other end writes to its own, once;
  whatever the network does, every packet that is written was read at one of the ends, and a recorded
  packet is not accepted again for 15 seconds; the paths are tried best first and their measured times stay in range; packets
  survive the byte stream of KCP however it is cut, and a poll over ICMP carries one packet each way;
  and the two ends of a tunnel the panel sets up start and fit together. What is assumed of the cipher
  for this (gcm_cipher, that a sealed text opens to itself; the attacker's, that what opens was
  sealed by an end) is a hypothesis with an instance. A few theorems are about behaviour
  the code does not intend (a reset interval whose length overflows never returns, two loops
  disagree on a status word); the findings of the manifest refer to them.

  Bounds and fuel: no definition uses fuel. The loop over reset dates, which may not end, is a
  partial_function in the option monad, where None is the run that never returns; the search for a
  probe port is a function with a measure.

  Not modelled: the lengths of the ticks of the background loops; the primitives
  of the standard library (hashes, ciphers, the JSON decoder), which are parameters; what the programs
  an agent starts do to the host, which is a parameter too; sockets, the TLS certificate of QUIC, the KCP
  and QUIC libraries and the system call that makes an interface; the file of counters the tunnel
  program rewrites every two seconds, whose numbers are floating point; the command line flags and the
  dashboard. The goroutines of the tunnel program share an end under its locks, so a run is a
  sequence of the events of all of them; the errors of a send on a socket are ignored by the code.
\<close>

end
